(* ===== verification/Prelude.thy ===== *)
theory Prelude
  imports
    "HOL-Library.AList"
    "HOL-Library.Char_ord"
    "HOL-Library.List_Lexorder"
    "HOL-Library.Product_Lexorder"
    "HOL-Library.Multiset"
    "HOL-Library.Sublist"
begin

text \<open>
  Shared vocabulary of the development: the types of identifiers and dates, errors as values,
  Python dictionaries as association lists in insertion order, the Python idioms \<open>x or y\<close>,
  \<open>sorted(xs, key=...)\<close> and \<open>dict.fromkeys\<close>, and the generic lemmas the components share.

  A Python \<open>str\<close> is its UTF-8 encoding, a list of bytes: equality agrees with equality of
  the Python strings, and the lexicographic order of the bytes is the code-point order that
  Python's \<open>sorted\<close> uses. The number of characters is \<open>py_len\<close>, not \<open>length\<close>.
  A Python \<open>date\<close> is its proleptic ordinal (\<open>date.toordinal\<close>), which is how Python
  compares dates.
\<close>

named_theorems result_simps \<open>equations of the error monad\<close>
named_theorems dict_simps \<open>equations of insertion-ordered dictionaries\<close>

type_synonym str = string
type_synonym date = int

subsection \<open>Fallible computations\<close>

text \<open>\<open>Inl e\<close> is the exception raised, \<open>Inr x\<close> the value returned.\<close>

definition rbind :: "'e + 'a \<Rightarrow> ('a \<Rightarrow> 'e + 'b) \<Rightarrow> 'e + 'b" where
  "rbind m f = (case m of Inl e \<Rightarrow> Inl e | Inr x \<Rightarrow> f x)"

definition require :: "bool \<Rightarrow> 'e \<Rightarrow> 'e + unit" where
  "require b e = (if b then Inr () else Inl e)"

fun rmapm :: "('a \<Rightarrow> 'e + 'b) \<Rightarrow> 'a list \<Rightarrow> 'e + 'b list" where
  "rmapm f [] = Inr []"
| "rmapm f (x # xs) =
     rbind (f x) (\<lambda>y. rbind (rmapm f xs) (\<lambda>ys. Inr (y # ys)))"

lemma rbind_simps [simp, result_simps]:
  "rbind (Inl e) f = Inl e"
  "rbind (Inr x) f = f x"
  by (simp_all add: rbind_def)

lemma rbind_Inr_iff [result_simps]:
  "rbind m f = Inr y \<longleftrightarrow> (\<exists>x. m = Inr x \<and> f x = Inr y)"
  by (cases m) simp_all

lemma rbind_Inl_iff [result_simps]:
  "rbind m f = Inl e \<longleftrightarrow> m = Inl e \<or> (\<exists>x. m = Inr x \<and> f x = Inl e)"
  by (cases m) simp_all

lemma require_simps [simp, result_simps]:
  "require True e = Inr ()"
  "require False e = Inl e"
  by (simp_all add: require_def)

lemma require_Inr_iff [simp, result_simps]: "require b e = Inr u \<longleftrightarrow> b"
  by (cases b) simp_all

lemma require_Inl_iff [simp, result_simps]: "require b e = Inl e' \<longleftrightarrow> \<not> b \<and> e' = e"
  by (cases b) auto

lemma rmapm_length: "rmapm f xs = Inr ys \<Longrightarrow> length ys = length xs"
  by (induction xs arbitrary: ys) (auto simp: rbind_Inr_iff)

lemma rmapm_nth:
  "rmapm f xs = Inr ys \<Longrightarrow> i < length xs \<Longrightarrow> f (xs ! i) = Inr (ys ! i)"
proof (induction xs arbitrary: ys i)
  case Nil
  then show ?case by simp
next
  case (Cons x xs)
  then show ?case by (cases i) (auto simp: rbind_Inr_iff)
qed

lemma rmapm_set:
  "rmapm f xs = Inr ys \<Longrightarrow> y \<in> set ys \<Longrightarrow> \<exists>x \<in> set xs. f x = Inr y"
  by (induction xs arbitrary: ys) (auto simp: rbind_Inr_iff)

lemma rmapm_Inr_all:
  "rmapm f xs = Inr ys \<Longrightarrow> x \<in> set xs \<Longrightarrow> \<exists>y \<in> set ys. f x = Inr y"
  by (induction xs arbitrary: ys) (auto simp: rbind_Inr_iff)

lemma rmapm_total:
  "(\<And>x. x \<in> set xs \<Longrightarrow> f x = Inr (g x)) \<Longrightarrow> rmapm f xs = Inr (map g xs)"
  by (induction xs) simp_all

lemma rmapm_Inl: "rmapm f xs = Inl e \<Longrightarrow> \<exists>x \<in> set xs. f x = Inl e"
  by (induction xs) (auto simp: rbind_Inl_iff)

subsection \<open>Python truthiness and text\<close>

text \<open>\<open>not s\<close> for an optional string: \<open>None\<close> and the empty string are false.\<close>

definition truthy_str :: "str option \<Rightarrow> bool" where
  "truthy_str s = (case s of None \<Rightarrow> False | Some t \<Rightarrow> t \<noteq> [])"

definition str_or :: "str option \<Rightarrow> str \<Rightarrow> str" where
  "str_or s d = (case s of None \<Rightarrow> d | Some t \<Rightarrow> if t = [] then d else t)"

lemma truthy_str_simps [simp]:
  "\<not> truthy_str None"
  "truthy_str (Some t) \<longleftrightarrow> t \<noteq> []"
  by (simp_all add: truthy_str_def)

lemma str_or_simps [simp]:
  "str_or None d = d"
  "str_or (Some t) d = (if t = [] then d else t)"
  by (simp_all add: str_or_def)

text \<open>
  The characters \<open>str.strip\<close> removes, as UTF-8 encodings: the ASCII white space including
  the separators 28 to 31, then U+0085, U+00A0, U+1680, U+2000 to U+200A, U+2028, U+2029,
  U+202F, U+205F and U+3000.
\<close>

definition ws_ascii :: "char list" where
  "ws_ascii = [CHR '' '', CHR 0x09, CHR 0x0A, CHR 0x0B, CHR 0x0C, CHR 0x0D,
     CHR 0x1C, CHR 0x1D, CHR 0x1E, CHR 0x1F]"

definition ws_wide :: "str list" where
  "ws_wide = [[CHR 0xC2, CHR 0x85], [CHR 0xC2, CHR 0xA0], [CHR 0xE1, CHR 0x9A, CHR 0x80]]
     @ map (\<lambda>b. [CHR 0xE2, CHR 0x80, b])
         [CHR 0x80, CHR 0x81, CHR 0x82, CHR 0x83, CHR 0x84, CHR 0x85, CHR 0x86, CHR 0x87,
          CHR 0x88, CHR 0x89, CHR 0x8A, CHR 0xA8, CHR 0xA9, CHR 0xAF]
     @ [[CHR 0xE2, CHR 0x81, CHR 0x9F], [CHR 0xE3, CHR 0x80, CHR 0x80]]"

text \<open>The two high bits separate the ASCII blanks, the other ASCII characters and the rest.\<close>

definition ws_at :: "str \<Rightarrow> nat" where
  "ws_at s = (case s of [] \<Rightarrow> 0 | c # _ \<Rightarrow>
     if digit7 c then (case find (\<lambda>w. prefix w s) ws_wide of None \<Rightarrow> 0 | Some w \<Rightarrow> length w)
     else if digit6 c then 0
     else if c \<in> set ws_ascii then 1 else 0)"

lemma ws_wide_nonempty: "w \<in> set ws_wide \<Longrightarrow> w \<noteq> []"
  by (auto simp: ws_wide_def)

function lstrip :: "str \<Rightarrow> str" where
  "lstrip s = (if ws_at s = 0 then s else lstrip (drop (ws_at s) s))"
  by pat_completeness auto
termination
proof (relation "measure length", goal_cases)
  case 1
  show ?case by simp
next
  case (2 s)
  then have "s \<noteq> []" by (auto simp: ws_at_def)
  with 2 show ?case by simp
qed

declare lstrip.simps [simp del]

definition ws_before :: "str \<Rightarrow> nat" where
  "ws_before r = (case r of [] \<Rightarrow> 0 | c # _ \<Rightarrow>
     if digit7 c then (case find (\<lambda>w. prefix (rev w) r) ws_wide of None \<Rightarrow> 0 | Some w \<Rightarrow> length w)
     else if digit6 c then 0
     else if c \<in> set ws_ascii then 1 else 0)"

text \<open>\<open>rstrip_rev\<close> works on the reversed text.\<close>

function rstrip_rev :: "str \<Rightarrow> str" where
  "rstrip_rev r = (if ws_before r = 0 then r else rstrip_rev (drop (ws_before r) r))"
  by pat_completeness auto
termination
proof (relation "measure length", goal_cases)
  case 1
  show ?case by simp
next
  case (2 r)
  then have "r \<noteq> []" by (auto simp: ws_before_def)
  with 2 show ?case by simp
qed

declare rstrip_rev.simps [simp del]

definition py_strip :: "str \<Rightarrow> str" where
  "py_strip s = rev (rstrip_rev (rev (lstrip s)))"

definition py_len :: "str \<Rightarrow> nat" where
  "py_len s = length (filter (\<lambda>c. \<not> (128 \<le> (of_char c :: nat) \<and> (of_char c :: nat) < 192)) s)"

lemma lstrip_idem [simp]: "lstrip (lstrip s) = lstrip s"
proof (induction s rule: lstrip.induct)
  case (1 s)
  show ?case
  proof (cases "ws_at s = 0")
    case True
    then show ?thesis by (simp add: lstrip.simps [of s])
  next
    case False
    with 1 show ?thesis by (simp add: lstrip.simps [of s])
  qed
qed

lemma rstrip_rev_idem [simp]: "rstrip_rev (rstrip_rev s) = rstrip_rev s"
proof (induction s rule: rstrip_rev.induct)
  case (1 s)
  show ?case
  proof (cases "ws_before s = 0")
    case True
    then show ?thesis by (simp add: rstrip_rev.simps [of s])
  next
    case False
    with 1 show ?thesis by (simp add: rstrip_rev.simps [of s])
  qed
qed

lemma py_strip_Nil [simp]: "py_strip [] = []"
  by (simp add: py_strip_def lstrip.simps [of "[]"] rstrip_rev.simps [of "[]"]
      ws_at_def ws_before_def)

subsection \<open>Dictionaries in insertion order\<close>

text \<open>
  \<open>d[k] = v\<close> is \<open>AList.update\<close>: it replaces the value in place or appends a new
  key. \<open>d.setdefault(k, v)\<close> only appends.
\<close>

definition setdefault :: "'k \<Rightarrow> 'v \<Rightarrow> ('k \<times> 'v) list \<Rightarrow> ('k \<times> 'v) list" where
  "setdefault k v d = (if k \<in> fst ` set d then d else d @ [(k, v)])"

definition dict_keys :: "('k \<times> 'v) list \<Rightarrow> 'k list" where
  "dict_keys d = map fst d"

definition dict_values :: "('k \<times> 'v) list \<Rightarrow> 'v list" where
  "dict_values d = map snd d"

lemma map_of_setdefault [simp, dict_simps]:
  "map_of (setdefault k v d) k' =
     (if map_of d k' = None \<and> k' = k then Some v else map_of d k')"
proof -
  have "k \<in> fst ` set d \<longleftrightarrow> map_of d k \<noteq> None"
    by (simp add: map_of_eq_None_iff)
  then show ?thesis
    by (auto simp: setdefault_def map_add_def split: option.splits)
qed

lemma keys_setdefault [simp, dict_simps]:
  "fst ` set (setdefault k v d) = insert k (fst ` set d)"
  by (auto simp: setdefault_def)

lemma distinct_setdefault [intro, dict_simps]:
  "distinct (map fst d) \<Longrightarrow> distinct (map fst (setdefault k v d))"
  by (auto simp: setdefault_def image_iff)

lemma setdefault_values_subset:
  "set (map snd (setdefault k v d)) \<subseteq> insert v (set (map snd d))"
  by (auto simp: setdefault_def)

subsection \<open>Order-preserving removal of duplicates\<close>

text \<open>\<open>list(dict.fromkeys(xs))\<close>: the first occurrence of each value is kept.\<close>

definition stable_unique :: "'a list \<Rightarrow> 'a list" where
  "stable_unique xs = rev (remdups (rev xs))"

lemma set_stable_unique [simp]: "set (stable_unique xs) = set xs"
  by (simp add: stable_unique_def)

lemma distinct_stable_unique [simp]: "distinct (stable_unique xs)"
  by (simp add: stable_unique_def)

lemma stable_unique_Nil [simp]: "stable_unique [] = []"
  by (simp add: stable_unique_def)

lemma stable_unique_snoc:
  "stable_unique (xs @ [x]) = (if x \<in> set xs then stable_unique xs else stable_unique xs @ [x])"
  by (simp add: stable_unique_def)

lemma stable_unique_distinct_id: "distinct xs \<Longrightarrow> stable_unique xs = xs"
  by (simp add: stable_unique_def distinct_remdups_id)

lemma length_stable_unique: "length (stable_unique xs) \<le> length xs"
  by (metis length_remdups_leq length_rev stable_unique_def)

subsection \<open>Grouping by a key\<close>

text \<open>
  \<open>groups.setdefault(key(x), []).append(x)\<close> over a list: the dictionary of groups in the
  order in which their keys first occur.
\<close>

definition add_to_group :: "'k \<Rightarrow> 'a \<Rightarrow> ('k \<times> 'a list) list \<Rightarrow> ('k \<times> 'a list) list" where
  "add_to_group k x d =
     (case map_of d k of None \<Rightarrow> d @ [(k, [x])] | Some xs \<Rightarrow> AList.update k (xs @ [x]) d)"

definition grouped :: "('a \<Rightarrow> 'k) \<Rightarrow> 'a list \<Rightarrow> ('k \<times> 'a list) list" where
  "grouped f xs = map (\<lambda>k. (k, filter (\<lambda>x. f x = k) xs)) (stable_unique (map f xs))"

lemma map_of_tabulate:
  "map_of (map (\<lambda>k. (k, f k)) ks) k = (if k \<in> set ks then Some (f k) else None)"
  by (induction ks) auto

lemma update_tabulate:
  "distinct ks \<Longrightarrow> k \<in> set ks \<Longrightarrow>
     AList.update k v (map (\<lambda>k. (k, f k)) ks) = map (\<lambda>k'. (k', if k' = k then v else f k')) ks"
  by (induction ks) auto

lemma add_to_group_grouped [dict_simps]:
  "add_to_group (f x) x (grouped f xs) = grouped f (xs @ [x])"
proof (cases "f x \<in> f ` set xs")
  case True
  then have "f x \<in> set (stable_unique (map f xs))" by simp
  with True show ?thesis
    by (simp add: add_to_group_def grouped_def map_of_tabulate update_tabulate stable_unique_snoc)
next
  case False
  then have none: "filter (\<lambda>y. f y = f x) xs = []"
    by (metis (mono_tags, lifting) filter_empty_conv imageI)
  with False show ?thesis
    by (auto simp: add_to_group_def grouped_def map_of_tabulate stable_unique_snoc intro!: map_cong)
qed

lemma grouped_Nil [simp]: "grouped f [] = []"
  by (simp add: grouped_def)

lemma grouped_keys [simp]: "map fst (grouped f xs) = stable_unique (map f xs)"
  by (simp add: grouped_def comp_def)

lemma grouped_member:
  assumes "(k, g) \<in> set (grouped f xs)"
  shows "g = filter (\<lambda>x. f x = k) xs" and "g \<noteq> []"
  using assms by (auto simp: grouped_def filter_empty_conv)

subsection \<open>Deterministic rankings\<close>

text \<open>
  \<open>sorted(xs, key=key)\<close> is \<open>sort_key\<close> (both are stable). Several components rank by a
  key that ends with an identifier; when no two ranked items share an identifier, the ranking
  is a function of the collection and not of the order the items arrived in.
\<close>

locale keyed_ranking =
  fixes key :: "'a \<Rightarrow> 'k::linorder"
    and ident :: "'a \<Rightarrow> 'i"
  assumes key_ident: "key x = key y \<Longrightarrow> ident x = ident y"
begin

lemma inj_on_key: "inj_on ident A \<Longrightarrow> inj_on key A"
  by (meson inj_onD inj_onI key_ident)

lemma ranking_determined:
  assumes "mset xs = mset ys" and "inj_on ident (set xs)"
  shows "sort_key key xs = sort_key key ys"
proof (rule properties_for_sort_key)
  show "mset (sort_key key ys) = mset xs"
    using assms(1) by simp
  show "sorted (map key (sort_key key ys))"
    by simp
  have inj: "inj_on key (set xs)"
    by (rule inj_on_key [OF assms(2)])
  fix k
  assume "k \<in> set (sort_key key ys)"
  with assms(1) have k: "k \<in> set xs"
    by (metis set_mset_mset set_sort)
  have one: "filter (\<lambda>x. key k = key x) zs = filter (\<lambda>x. x = k) zs"
    if "set zs = set xs" for zs
    by (rule filter_cong) (use that inj k in \<open>auto dest: inj_onD\<close>)
  have sets: "set (sort_key key ys) = set xs"
    using assms(1) by (metis set_mset_mset set_sort)
  have rep: "filter (\<lambda>x. x = k) zs = replicate (count (mset zs) k) k" for zs
    by (induction zs) auto
  show "filter (\<lambda>x. key k = key x) (sort_key key ys) = filter (\<lambda>x. key k = key x) xs"
    using one [OF sets] one [OF refl] assms(1) by (simp add: rep)
qed

lemma ranking_perm: "mset (sort_key key xs) = mset xs"
  by simp

lemma ranking_sorted: "sorted (map key (sort_key key xs))"
  by simp

lemma ranking_top:
  assumes "sort_key key xs = x # rest" and "y \<in> set xs"
  shows "key x \<le> key y"
proof -
  have "y \<in> set (x # rest)"
    using assms by (metis set_sort)
  moreover have "sorted (map key (x # rest))"
    by (metis assms(1) sorted_sort_key)
  ultimately show ?thesis by auto
qed

end

end
