(* ===== verification/Doubles.thy ===== *)
theory Doubles
  imports Complex_Main "HOL-Library.Log_Nat" Prelude
begin

text \<open>
  Python floats. A finite IEEE double is a rational number; an arithmetic operation returns the
  exact rational result rounded to 53 significant bits, ties to even (\<open>fl\<close>). Overflow and
  the subnormal range are not modelled: the code adds and compares scores between 0 and a few
  thousand, built from reciprocals of small integers, far from both ends.

  The components use only what the locale \<open>rounding\<close> states of \<open>fl\<close>: rounding is
  monotone and maps 0 to 0. Sums of scores are therefore monotone even though they are not exact.
\<close>

type_synonym float = rat

definition round_half_even :: "rat \<Rightarrow> int" where
  "round_half_even y =
     (let f = \<lfloor>y\<rfloor>; d = y - of_int f in
      if d < 1/2 then f else if 1/2 < d then f + 1 else if even f then f else f + 1)"

text \<open>The exponent \<open>k\<close> with \<open>2 ^ k \<le> x < 2 ^ (k + 1)\<close>, for positive \<open>x\<close>.\<close>

definition exponent2 :: "rat \<Rightarrow> int" where
  "exponent2 x =
     (let (p, q) = quotient_of x; k = bitlen p - bitlen q in
      if x < 2 powi k then k - 1 else k)"

definition fl_pos :: "rat \<Rightarrow> rat" where
  "fl_pos x = (let e = exponent2 x - 52 in of_int (round_half_even (x / 2 powi e)) * 2 powi e)"

definition fl :: "rat \<Rightarrow> float" where
  "fl x = (if x = 0 then 0 else if x < 0 then - fl_pos (- x) else fl_pos x)"

definition fadd :: "float \<Rightarrow> float \<Rightarrow> float" where
  "fadd x y = fl (x + y)"

definition fdiv :: "float \<Rightarrow> float \<Rightarrow> float" where
  "fdiv x y = fl (x / y)"

subsection \<open>Rounding to an integer\<close>

lemma round_half_even_bounds:
  "\<lfloor>y\<rfloor> \<le> round_half_even y" "round_half_even y \<le> \<lfloor>y\<rfloor> + 1"
  by (auto simp: round_half_even_def Let_def)

lemma round_half_even_of_int [simp]: "round_half_even (of_int n) = n"
  by (simp add: round_half_even_def)

lemma round_half_even_mono:
  assumes "x \<le> y"
  shows "round_half_even x \<le> round_half_even y"
proof (cases "\<lfloor>x\<rfloor> = \<lfloor>y\<rfloor>")
  case True
  with assms show ?thesis
    by (auto simp: round_half_even_def Let_def)
next
  case False
  with floor_mono [OF assms] have "\<lfloor>x\<rfloor> + 1 \<le> \<lfloor>y\<rfloor>" by simp
  with round_half_even_bounds(2) [of x] round_half_even_bounds(1) [of y] show ?thesis
    by simp
qed

lemma round_half_even_le_int: "x \<le> of_int n \<Longrightarrow> round_half_even x \<le> n"
  using round_half_even_mono [of x "of_int n"] by simp

lemma round_half_even_ge_int: "of_int n \<le> x \<Longrightarrow> n \<le> round_half_even x"
  using round_half_even_mono [of "of_int n" x] by simp

lemma round_half_even_error: "\<bar>of_int (round_half_even y) - y\<bar> \<le> 1/2"
proof -
  have "of_int \<lfloor>y\<rfloor> \<le> y" "y < of_int \<lfloor>y\<rfloor> + 1" using floor_correct [of y] by simp_all
  then show ?thesis
    by (auto simp: round_half_even_def Let_def abs_le_iff field_simps)
qed

subsection \<open>The binary exponent\<close>

lemma powi_two_pos [simp]: "(0::rat) < 2 powi k"
  by (simp add: zero_less_power_int)

lemma powi_two_add: "(2::rat) powi (a + b) = 2 powi a * 2 powi b"
  by (simp add: power_int_add)

lemma powi_two_mono: "a \<le> b \<Longrightarrow> (2::rat) powi a \<le> 2 powi b"
  by (rule power_int_increasing) simp_all

lemma bitlen_rat_bounds:
  assumes "0 < (p::int)"
  shows "(2::rat) powi (bitlen p - 1) \<le> of_int p" "of_int p < (2::rat) powi bitlen p"
proof -
  have b: "2 ^ nat (bitlen p - 1) \<le> p" "p < 2 ^ nat (bitlen p)"
    using bitlen_bounds [OF assms] by simp_all
  have n: "0 \<le> bitlen p - 1" "0 \<le> bitlen p"
    using assms bitlen_nonneg [of p] by (auto simp: bitlen_def floorlog_def)
  have "(of_int (2 ^ nat (bitlen p - 1)) :: rat) \<le> of_int p"
    using b(1) by (rule of_int_le_iff [THEN iffD2])
  with n(1) show "(2::rat) powi (bitlen p - 1) \<le> of_int p"
    by (simp add: power_int_def)
  have "(of_int p :: rat) < of_int (2 ^ nat (bitlen p))"
    using b(2) by (rule of_int_less_iff [THEN iffD2])
  with n(2) show "of_int p < (2::rat) powi bitlen p"
    by (simp add: power_int_def)
qed

lemma exponent2_bounds:
  assumes "0 < x"
  shows "2 powi exponent2 x \<le> x" "x < 2 powi (exponent2 x + 1)"
proof -
  obtain p q where pq: "quotient_of x = (p, q)" by fastforce
  then have q: "0 < q" and x: "x = of_int p / of_int q"
    using quotient_of_denom_pos [OF pq] quotient_of_div [OF pq] by simp_all
  with assms have p: "0 < p" by (simp add: zero_less_divide_iff)
  define k where "k = bitlen p - bitlen q"
  have ge: "2 powi (bitlen p - 1) * of_int q \<le> of_int p * (2::rat) powi bitlen q"
    using bitlen_rat_bounds(1) [OF p] bitlen_rat_bounds(2) [OF q] p q
    by (intro mult_mono) auto
  have lt: "of_int p * (2::rat) powi (bitlen q - 1) < 2 powi bitlen p * of_int q"
    using bitlen_rat_bounds(2) [OF p] bitlen_rat_bounds(1) [OF q] p q
    by (intro mult_less_le_imp_less) (auto simp: of_int_less_iff [symmetric])
  have low: "2 powi (k - 1) \<le> x"
  proof -
    have "2 powi (bitlen p - 1) = 2 powi (k - 1) * (2::rat) powi bitlen q"
      by (simp add: k_def flip: powi_two_add)
    with ge have "2 powi (k - 1) * of_int q * 2 powi bitlen q \<le> of_int p * (2::rat) powi bitlen q"
      by (simp add: mult_ac)
    then have "2 powi (k - 1) * of_int q \<le> (of_int p :: rat)" by simp
    with q show ?thesis by (simp add: x pos_le_divide_eq)
  qed
  have high: "x < 2 powi (k + 1)"
  proof -
    have "2 powi bitlen p = 2 powi (k + 1) * (2::rat) powi (bitlen q - 1)"
      by (simp add: k_def flip: powi_two_add)
    with lt have "of_int p * 2 powi (bitlen q - 1) < 2 powi (k + 1) * of_int q * (2::rat) powi (bitlen q - 1)"
      by (simp add: mult_ac)
    then have "of_int p < 2 powi (k + 1) * (of_int q :: rat)" by simp
    with q show ?thesis by (simp add: x pos_divide_less_eq)
  qed
  have e: "exponent2 x = (if x < 2 powi k then k - 1 else k)"
    by (simp add: exponent2_def pq k_def)
  show "2 powi exponent2 x \<le> x" "x < 2 powi (exponent2 x + 1)"
    using low high by (auto simp: e)
qed

lemma exponent2_mono:
  assumes "0 < x" "x \<le> y"
  shows "exponent2 x \<le> exponent2 y"
proof (rule ccontr)
  assume "\<not> ?thesis"
  then have "(2::rat) powi (exponent2 y + 1) \<le> 2 powi exponent2 x"
    by (intro powi_two_mono) simp
  with exponent2_bounds [of x] exponent2_bounds [of y] assms show False by simp
qed

subsection \<open>Rounding to a double\<close>

lemma fl_pos_between:
  assumes "0 < x"
  shows "2 powi exponent2 x \<le> fl_pos x" "fl_pos x \<le> 2 powi (exponent2 x + 1)"
proof -
  define e where "e = exponent2 x - 52"
  have m: "(2::rat) ^ 52 \<le> x / 2 powi e" "x / 2 powi e \<le> 2 ^ 53"
  proof -
    have "2 powi exponent2 x = (2::rat) ^ 52 * 2 powi e"
      "2 powi (exponent2 x + 1) = (2::rat) ^ 53 * 2 powi e"
      using powi_two_add [of 52 e] powi_two_add [of 53 e] by (simp_all add: e_def add.commute)
    with exponent2_bounds [OF assms]
    show "(2::rat) ^ 52 \<le> x / 2 powi e" "x / 2 powi e \<le> 2 ^ 53"
      by (simp_all add: pos_le_divide_eq pos_divide_le_eq)
  qed
  have "(2 ^ 52 :: int) \<le> round_half_even (x / 2 powi e)"
    "round_half_even (x / 2 powi e) \<le> (2 ^ 53 :: int)"
    using m by (auto intro!: round_half_even_ge_int round_half_even_le_int)
  then have "(of_int (2 ^ 52) :: rat) \<le> of_int (round_half_even (x / 2 powi e))"
    "of_int (round_half_even (x / 2 powi e)) \<le> (of_int (2 ^ 53) :: rat)"
    by (simp_all only: of_int_le_iff)
  then have r: "(2 ^ 52 :: rat) \<le> of_int (round_half_even (x / 2 powi e))"
    "of_int (round_half_even (x / 2 powi e)) \<le> (2 ^ 53 :: rat)"
    by (simp_all only: of_int_power of_int_numeral)
  have "(2 ^ 52 :: rat) * 2 powi e = 2 powi exponent2 x"
    "(2 ^ 53 :: rat) * 2 powi e = 2 powi (exponent2 x + 1)"
    using powi_two_add [of 52 e] powi_two_add [of 53 e] by (simp_all add: e_def add.commute)
  moreover have "fl_pos x = of_int (round_half_even (x / 2 powi e)) * 2 powi e"
    by (simp add: fl_pos_def e_def Let_def)
  ultimately show "2 powi exponent2 x \<le> fl_pos x" "fl_pos x \<le> 2 powi (exponent2 x + 1)"
    using mult_right_mono [OF r(1), of "2 powi e"] mult_right_mono [OF r(2), of "2 powi e"]
    by simp_all
qed

lemma fl_pos_mono:
  assumes "0 < x" "x \<le> y"
  shows "fl_pos x \<le> fl_pos y"
proof (cases "exponent2 x = exponent2 y")
  case True
  have "round_half_even (x / 2 powi (exponent2 y - 52))
        \<le> round_half_even (y / 2 powi (exponent2 y - 52))"
    using assms(2) by (intro round_half_even_mono divide_right_mono) auto
  with True show ?thesis
    by (simp add: fl_pos_def Let_def)
next
  case False
  with exponent2_mono [OF assms] have "exponent2 x + 1 \<le> exponent2 y" by simp
  then have "(2::rat) powi (exponent2 x + 1) \<le> 2 powi exponent2 y"
    by (rule powi_two_mono)
  with fl_pos_between(2) [of x] fl_pos_between(1) [of y] assms show ?thesis by simp
qed

lemma fl_pos_pos: "0 < x \<Longrightarrow> 0 < fl_pos x"
  using fl_pos_between(1) [of x] powi_two_pos [of "exponent2 x"] by linarith

lemma fl_zero [simp]: "fl 0 = 0"
  by (simp add: fl_def)

lemma fl_mono: "x \<le> y \<Longrightarrow> fl x \<le> fl y"
  using fl_pos_mono [of x y] fl_pos_mono [of "- y" "- x"] fl_pos_pos [of y] fl_pos_pos [of "- x"]
  by (auto simp: fl_def)

lemma fl_pos_gt: "0 < x \<Longrightarrow> 0 < fl x"
  using fl_pos_pos [of x] by (simp add: fl_def)

subsection \<open>Sums under a monotone rounding\<close>

locale rounding =
  fixes rnd :: "rat \<Rightarrow> rat"
  assumes rnd_mono: "x \<le> y \<Longrightarrow> rnd x \<le> rnd y"
    and rnd_zero: "rnd 0 = 0"
begin

text \<open>\<open>acc += x\<close> for each \<open>x\<close>, rounding after every addition.\<close>

lemma foldl_mono:
  "a \<le> b \<Longrightarrow> list_all2 (\<le>) xs ys
     \<Longrightarrow> foldl (\<lambda>s x. rnd (s + x)) a xs \<le> foldl (\<lambda>s x. rnd (s + x)) b ys"
proof (induction xs arbitrary: a b ys)
  case Nil
  then show ?case by simp
next
  case (Cons x xs)
  then obtain z zs where ys: "ys = z # zs" "x \<le> z" "list_all2 (\<le>) xs zs"
    by (auto simp: list_all2_Cons1)
  have "rnd (a + x) \<le> rnd (b + z)"
    using Cons.prems(1) ys(2) by (intro rnd_mono add_mono)
  with ys(3) show ?case by (simp add: ys(1) Cons.IH)
qed

lemma rnd_nonneg: "0 \<le> x \<Longrightarrow> 0 \<le> rnd x"
  using rnd_mono [of 0 x] by (simp add: rnd_zero)

lemma foldl_nonneg:
  "0 \<le> a \<Longrightarrow> \<forall>x \<in> set xs. 0 \<le> x \<Longrightarrow> 0 \<le> foldl (\<lambda>s x. rnd (s + x)) a xs"
  by (induction xs arbitrary: a) (simp_all add: rnd_nonneg)

end

interpretation fl: rounding fl
  by unfold_locales (simp_all add: fl_mono)

end
