(* ===== verification/Ontology_Validators.thy ===== *)
theory Ontology_Validators
  imports Ontology_Contract Doubles
begin

text \<open>
  \<open>src/shared/ontology/validators.py\<close> (the gate in front of every Neo4j write) and
  \<open>src/shared/ontology/extraction_validator.py\<close> (the gate of the extraction step). Error
  messages are the constructors of \<open>rel_error\<close> and \<open>graph_error\<close>, with the values the
  message interpolates. \<open>datetime.fromisoformat\<close> is the argument \<open>parse\<close> of the
  definitions that reach it: \<open>None\<close> is its \<open>ValueError\<close>, \<open>Some aware\<close> a parsed time
  with or without a zone; every theorem holds for any such function.
\<close>

subsection \<open>Property values\<close>

text \<open>
  The values a property dictionary holds. \<open>PDatetime\<close> says whether the datetime has a zone and
  which date it converts to (\<open>None\<close> when it has a time of day). \<open>PIso\<close> is a Neo4j temporal
  value: its \<open>iso_format()\<close> and the date \<open>to_native()\<close> converts to. The last field of a value
  that is not a string, an integer or a boolean is what \<open>str\<close> prints.
\<close>

datatype pv =
    PNone
  | PBool bool
  | PInt int
  | PFloat float str
  | PStr str
  | PDate date str
  | PDatetime bool "date option" str
  | PIso str "date option" str
  | POther str

type_synonym props = "(str \<times> pv) list"

fun digits_of :: "nat \<Rightarrow> str" where
  "digits_of n =
     (if n < 10 then [char_of (48 + n)] else digits_of (n div 10) @ [char_of (48 + n mod 10)])"

declare digits_of.simps [simp del]

definition show_int :: "int \<Rightarrow> str" where
  "show_int i = (if i < 0 then ''-'' @ digits_of (nat (- i)) else digits_of (nat i))"

fun py_str :: "pv \<Rightarrow> str" where
  "py_str PNone = ''None''"
| "py_str (PBool b) = (if b then ''True'' else ''False'')"
| "py_str (PInt i) = show_int i"
| "py_str (PFloat q t) = t"
| "py_str (PStr s) = s"
| "py_str (PDate d t) = t"
| "py_str (PDatetime aware d t) = t"
| "py_str (PIso i d t) = t"
| "py_str (POther t) = t"

fun truthy :: "pv \<Rightarrow> bool" where
  "truthy PNone = False"
| "truthy (PBool b) = b"
| "truthy (PInt i) = (i \<noteq> 0)"
| "truthy (PFloat q t) = (q \<noteq> 0)"
| "truthy (PStr s) = (s \<noteq> [])"
| "truthy _ = True"

fun is_str :: "pv \<Rightarrow> bool" where
  "is_str (PStr s) = True"
| "is_str _ = False"

fun is_int :: "pv \<Rightarrow> bool" where
  "is_int (PInt i) = True"
| "is_int _ = False"

fun is_number :: "pv \<Rightarrow> bool" where
  "is_number (PInt i) = True"
| "is_number (PFloat q t) = True"
| "is_number _ = False"

fun value_in :: "pv \<Rightarrow> str list \<Rightarrow> bool" where
  "value_in (PStr s) allowed = (s \<in> set allowed)"
| "value_in _ allowed = False"

text \<open>\<open>d.get(k)\<close>, and \<open>key in d and d[key] not in (None, "")\<close>.\<close>

definition getp :: "props \<Rightarrow> str \<Rightarrow> pv" where
  "getp p k = (case map_of p k of None \<Rightarrow> PNone | Some v \<Rightarrow> v)"

definition present :: "props \<Rightarrow> str \<Rightarrow> bool" where
  "present p k \<longleftrightarrow> getp p k \<noteq> PNone \<and> getp p k \<noteq> PStr []"

definition missing :: "props \<Rightarrow> str list \<Rightarrow> str list" where
  "missing p ks = filter (\<lambda>k. \<not> present p k) ks"

lemma missing_empty_iff [simp]: "missing p ks = [] \<longleftrightarrow> (\<forall>k \<in> set ks. present p k)"
  by (simp add: missing_def filter_empty_conv)

definition replace_Z :: "str \<Rightarrow> str" where
  "replace_Z s = concat (map (\<lambda>c. if c = CHR ''Z'' then ''+00:00'' else [c]) s)"

subsection \<open>Relations: the write-time validator\<close>

datatype type_fault =
    NotFloat | NotString | NotInteger | NotIsoDatetime | NotIsoDatetimeString | NoTimezone

type_synonym parse_datetime = "str \<Rightarrow> bool option"

definition property_type_fault :: "parse_datetime \<Rightarrow> str \<Rightarrow> pv \<Rightarrow> type_fault option" where
  "property_type_fault parse expected v =
     (if v = PNone then None
      else if expected = ''float'' \<and> \<not> is_number v then Some NotFloat
      else if expected = ''string'' \<and> \<not> is_str v then Some NotString
      else if expected = ''integer'' \<and> \<not> is_int v then Some NotInteger
      else if expected = ''datetime'' then
        (case v of
           PDatetime aware d t \<Rightarrow> if aware then None else Some NoTimezone
         | PIso i d t \<Rightarrow>
             (case parse (replace_Z i) of
                None \<Rightarrow> Some NotIsoDatetime
              | Some aware \<Rightarrow> if aware then None else Some NoTimezone)
         | PStr s \<Rightarrow>
             (case parse (replace_Z s) of
                None \<Rightarrow> Some NotIsoDatetimeString
              | Some aware \<Rightarrow> if aware then None else Some NoTimezone)
         | _ \<Rightarrow> Some NotIsoDatetime)
      else None)"

fun validate_property_types ::
  "parse_datetime \<Rightarrow> props \<Rightarrow> (str \<times> str) list \<Rightarrow> (str \<times> type_fault) option" where
  "validate_property_types parse p [] = None"
| "validate_property_types parse p ((k, expected) # kts) =
     (case property_type_fault parse expected (getp p k) of
        Some f \<Rightarrow> Some (k, f)
      | None \<Rightarrow> validate_property_types parse p kts)"

datatype rel_error =
    LegacyRelation str str
  | UnknownRelation str
  | NoConstraint str
  | SelfLoop str
  | MissingProperties str "str list"
  | MissingMethodProperties str pv "str list"
  | InvalidOwnership pv
  | MissingOwnershipProperties pv "str list"
  | MissingProjectedProperties str "str list"
  | PropertyNotOneOf str str "str list"
  | PropertyTypeError str str type_fault
  | PairNotAllowed str str str
  | HeadNotAllowed str str
  | TailNotAllowed str str
  | GuidesOnlyDocuments
  | GuidesNeedsDocTypes
  | GuidesPairNotAllowed pv pv
  | InvalidCitationType pv

text \<open>A sequence of early returns: the first check that fails decides.\<close>

fun first_error :: "'e option list \<Rightarrow> 'e option" where
  "first_error [] = None"
| "first_error (None # xs) = first_error xs"
| "first_error (Some e # xs) = Some e"

lemma first_error_None_iff [simp]: "first_error xs = None \<longleftrightarrow> (\<forall>x \<in> set xs. x = None)"
  by (induction xs rule: first_error.induct) auto

definition fails :: "bool \<Rightarrow> 'e \<Rightarrow> 'e option" where
  "fails b e = (if b then Some e else None)"

lemma fails_None_iff [simp]: "fails b e = None \<longleftrightarrow> \<not> b"
  by (simp add: fails_def)

definition method_fault :: "str \<Rightarrow> constraint \<Rightarrow> props \<Rightarrow> rel_error option" where
  "method_fault rel c p =
     (let m = getp p ''extraction_method'';
          req = (case m of PStr s \<Rightarrow> (case map_of (required_by_method c) s of None \<Rightarrow> [] | Some ks \<Rightarrow> ks)
                 | _ \<Rightarrow> [])
      in fails (missing p req \<noteq> []) (MissingMethodProperties rel m (missing p req)))"

definition projected_requirements :: "str list" where
  "projected_requirements =
     [''host_evidence_document_id'', ''host_evidence_source_unit_id'', ''host_evidence_char_start'',
      ''host_evidence_char_end'', ''projection_basis_candidate_id'']"

definition ownership_requirements :: "(str \<times> str list) list" where
  "ownership_requirements =
     [(''HOST'', [''source_char_start'', ''source_char_end'']),
      (''PROJECTED'', projected_requirements)]"

definition ownership_fault :: "str \<Rightarrow> props \<Rightarrow> rel_error option" where
  "ownership_fault rel p =
     (if rel = ''REFERS_TO'' \<and> getp p ''extraction_method'' = PStr ''ENTITY_LINKING'' then
        let own = (case map_of p ''source_ownership'' of None \<Rightarrow> PStr ''HOST'' | Some v \<Rightarrow> v) in
        case (case own of PStr s \<Rightarrow> map_of ownership_requirements s | _ \<Rightarrow> None) of
          None \<Rightarrow> Some (InvalidOwnership own)
        | Some req \<Rightarrow>
            fails (missing p req \<noteq> []) (MissingOwnershipProperties own (missing p req))
      else None)"

definition projected_fault :: "str \<Rightarrow> props \<Rightarrow> rel_error option" where
  "projected_fault rel p =
     fails (rel \<in> set [''AMENDS'', ''REPEALS''] \<and> getp p ''source_ownership'' = PStr ''PROJECTED''
            \<and> missing p projected_requirements \<noteq> [])
       (MissingProjectedProperties rel (missing p projected_requirements))"

fun enum_fault :: "str \<Rightarrow> props \<Rightarrow> (str \<times> str list) list \<Rightarrow> rel_error option" where
  "enum_fault rel p [] = None"
| "enum_fault rel p ((k, allowed) # es) =
     (if getp p k \<noteq> PNone \<and> \<not> value_in (getp p k) allowed
      then Some (PropertyNotOneOf rel k (sort allowed))
      else enum_fault rel p es)"

definition guides_fault :: "str \<Rightarrow> str \<Rightarrow> str \<Rightarrow> pv \<Rightarrow> pv \<Rightarrow> rel_error option" where
  "guides_fault head rel tail head_doc tail_doc =
     (if rel = ''GUIDES'' then
        if head \<noteq> ''Document'' \<or> tail \<noteq> ''Document'' then Some GuidesOnlyDocuments
        else if \<not> truthy head_doc \<or> \<not> truthy tail_doc then Some GuidesNeedsDocTypes
        else (case (head_doc, tail_doc) of
                (PStr a, PStr b) \<Rightarrow>
                  fails ((a, b) \<notin> set guides_whitelist) (GuidesPairNotAllowed head_doc tail_doc)
              | _ \<Rightarrow> Some (GuidesPairNotAllowed head_doc tail_doc))
      else None)"

definition validate_relation ::
  "parse_datetime \<Rightarrow> str \<Rightarrow> str \<Rightarrow> str \<Rightarrow> props \<Rightarrow> pv \<Rightarrow> pv \<Rightarrow> str option \<Rightarrow> str option
     \<Rightarrow> rel_error option" where
  "validate_relation parse head rel tail p head_doc tail_doc head_id tail_id =
     (if rel \<notin> set relation_enum then
        (case map_of legacy_relation_aliases rel of
           Some canonical \<Rightarrow> Some (LegacyRelation rel canonical)
         | None \<Rightarrow> Some (UnknownRelation rel))
      else case map_of constraints rel of
        None \<Rightarrow> Some (NoConstraint rel)
      | Some c \<Rightarrow> first_error
          [fails (no_self_loop c \<and> head_id \<noteq> None \<and> tail_id \<noteq> None \<and> head_id = tail_id)
             (SelfLoop rel),
           fails (missing p (required_properties c) \<noteq> [])
             (MissingProperties rel (missing p (required_properties c))),
           method_fault rel c p,
           ownership_fault rel p,
           projected_fault rel p,
           enum_fault rel p (property_enums c),
           map_option (\<lambda>(k, f). PropertyTypeError rel k f)
             (validate_property_types parse p (property_types c)),
           (case valid_pairs c of None \<Rightarrow> None
            | Some ps \<Rightarrow> fails ((head, tail) \<notin> set ps) (PairNotAllowed rel head tail)),
           (case allowed_head c of None \<Rightarrow> None
            | Some hs \<Rightarrow> fails (head \<notin> set hs) (HeadNotAllowed rel head)),
           (case allowed_tail c of None \<Rightarrow> None
            | Some ts \<Rightarrow> fails (tail \<notin> set ts) (TailNotAllowed rel tail)),
           guides_fault head rel tail head_doc tail_doc])"

subsection \<open>Relations: the extraction-time validator\<close>

text \<open>
  The types the extraction validator accepts: a datetime must be a string here.
\<close>

definition extraction_type_fault :: "parse_datetime \<Rightarrow> str \<Rightarrow> pv \<Rightarrow> type_fault option" where
  "extraction_type_fault parse expected v =
     (if v = PNone then None
      else if expected = ''float'' \<and> \<not> is_number v then Some NotFloat
      else if expected = ''string'' \<and> \<not> is_str v then Some NotString
      else if expected = ''integer'' \<and> \<not> is_int v then Some NotInteger
      else if expected = ''datetime'' then
        (case v of
           PStr s \<Rightarrow>
             (case parse (replace_Z s) of
                None \<Rightarrow> Some NotIsoDatetime
              | Some aware \<Rightarrow> if aware then None else Some NoTimezone)
         | _ \<Rightarrow> Some NotIsoDatetime)
      else None)"

fun extraction_property_types ::
  "parse_datetime \<Rightarrow> props \<Rightarrow> (str \<times> str) list \<Rightarrow> (str \<times> type_fault) option" where
  "extraction_property_types parse p [] = None"
| "extraction_property_types parse p ((k, expected) # kts) =
     (case extraction_type_fault parse expected (getp p k) of
        Some f \<Rightarrow> Some (k, f)
      | None \<Rightarrow> extraction_property_types parse p kts)"

definition extraction_guides_fault :: "str \<Rightarrow> pv \<Rightarrow> pv \<Rightarrow> rel_error option" where
  "extraction_guides_fault rel head_doc tail_doc =
     (if rel = ''GUIDES'' then
        if head_doc = PNone \<or> tail_doc = PNone then Some GuidesNeedsDocTypes
        else (case (head_doc, tail_doc) of
                (PStr a, PStr b) \<Rightarrow>
                  fails ((a, b) \<notin> set guides_whitelist) (GuidesPairNotAllowed head_doc tail_doc)
              | _ \<Rightarrow> Some (GuidesPairNotAllowed head_doc tail_doc))
      else None)"

definition extraction_validate_relation ::
  "parse_datetime \<Rightarrow> str \<Rightarrow> str \<Rightarrow> str \<Rightarrow> props \<Rightarrow> pv \<Rightarrow> pv \<Rightarrow> str option \<Rightarrow> str option
     \<Rightarrow> rel_error option" where
  "extraction_validate_relation parse head rel tail p head_doc tail_doc head_id tail_id =
     (case map_of constraints rel of
        None \<Rightarrow>
          (case map_of legacy_relation_aliases rel of
             Some canonical \<Rightarrow> Some (LegacyRelation rel canonical)
           | None \<Rightarrow> Some (UnknownRelation rel))
      | Some c \<Rightarrow> first_error
          [(case valid_pairs c of None \<Rightarrow> None
            | Some ps \<Rightarrow> fails (ps \<noteq> [] \<and> (head, tail) \<notin> set ps) (PairNotAllowed rel head tail)),
           (case allowed_tail c of None \<Rightarrow> None
            | Some ts \<Rightarrow> fails (ts \<noteq> [] \<and> tail \<notin> set ts) (TailNotAllowed rel tail)),
           fails (no_self_loop c \<and> head_id \<noteq> None \<and> tail_id \<noteq> None \<and> head_id = tail_id)
             (SelfLoop rel),
           fails (missing p (required_properties c) \<noteq> [])
             (MissingProperties rel (missing p (required_properties c))),
           method_fault rel c p,
           map_option (\<lambda>(k, f). PropertyTypeError rel k f)
             (extraction_property_types parse p (property_types c)),
           fails (rel = ''REFERS_TO'' \<and> \<not> value_in (getp p ''citation_type'')
                    [''DIRECT'', ''INDIRECT'', ''RANGE''])
             (InvalidCitationType (getp p ''citation_type'')),
           extraction_guides_fault rel head_doc tail_doc])"

subsection \<open>Nodes\<close>

datatype graph_error =
    WrongNodeType str pv
  | FieldRequired str str
  | FieldNotOneOf str str "str list"
  | RuntimeOnlyNode str
  | UnsupportedNode pv
  | DuplicateNode str
  | UnknownHead "str option"
  | UnknownTail "str option"
  | MissingRelationType
  | BadRelation rel_error

record vnode =
  node_type :: str
  node_id :: str
  node_props :: props

definition field_enum_bad :: "props \<Rightarrow> str \<Rightarrow> str list \<Rightarrow> bool" where
  "field_enum_bad node f allowed \<longleftrightarrow> present node f \<and> \<not> value_in (getp node f) allowed"

definition validate_node ::
  "str \<Rightarrow> str list \<Rightarrow> (str \<times> str list) list \<Rightarrow> props \<Rightarrow> graph_error list + vnode" where
  "validate_node nt required enums node =
     (let errors =
        (if getp node ''type'' \<in> {PNone, PStr nt} then [] else [WrongNodeType nt (getp node ''type'')])
        @ map (FieldRequired nt) (missing node required)
        @ map (\<lambda>(f, allowed). FieldNotOneOf nt f (sort allowed))
            (filter (\<lambda>(f, allowed). field_enum_bad node f allowed) enums)
      in if errors \<noteq> [] then Inl errors
         else Inr \<lparr>node_type = nt, node_id = py_str (getp node ''id''),
                   node_props = AList.delete ''type'' node\<rparr>)"

definition validate_document :: "props \<Rightarrow> graph_error list + vnode" where
  "validate_document node =
     validate_node ''Document''
       [''id'', ''doc_type'', ''number'', ''legal_status'', ''effective_from'', ''issuer_name'']
       [(''doc_type'', document_types), (''legal_status'', document_legal_statuses)] node"

definition validate_issuer :: "props \<Rightarrow> graph_error list + vnode" where
  "validate_issuer node = validate_node ''Issuer'' [''id'', ''name''] [] node"

definition validate_appendix :: "props \<Rightarrow> graph_error list + vnode" where
  "validate_appendix node =
     validate_node ''Appendix''
       [''id'', ''scope'', ''heading'', ''content_raw'', ''appendix_kind'', ''effective_from'',
        ''legal_status'']
       [(''appendix_kind'', appendix_kinds), (''legal_status'', content_legal_statuses)] node"

definition validate_attached_instrument :: "props \<Rightarrow> graph_error list + vnode" where
  "validate_attached_instrument node =
     validate_node ''AttachedInstrument''
       [''id'', ''scope'', ''heading'', ''adoption_text'', ''content_raw'', ''instrument_kind'']
       [(''instrument_kind'', attached_instrument_kinds)] node"

definition validate_chapter :: "props \<Rightarrow> graph_error list + vnode" where
  "validate_chapter node = validate_node ''Chapter'' [''id'', ''number'', ''title''] [] node"

text \<open>Part, Section and Subsection also refuse a title of white space only.\<close>

definition validate_titled :: "str \<Rightarrow> props \<Rightarrow> graph_error list + vnode" where
  "validate_titled nt node =
     (if (case getp node ''title'' of PStr t \<Rightarrow> py_strip t = [] | _ \<Rightarrow> False)
      then Inl [FieldRequired nt ''title'']
      else validate_node nt [''id'', ''number'', ''title''] [] node)"

definition validate_part :: "props \<Rightarrow> graph_error list + vnode" where
  "validate_part node = validate_titled ''Part'' node"

definition validate_section :: "props \<Rightarrow> graph_error list + vnode" where
  "validate_section node = validate_titled ''Section'' node"

definition validate_subsection :: "props \<Rightarrow> graph_error list + vnode" where
  "validate_subsection node = validate_titled ''Subsection'' node"

definition validate_article :: "props \<Rightarrow> graph_error list + vnode" where
  "validate_article node =
     validate_node ''Article'' [''id'', ''number'', ''content_raw'', ''effective_from'', ''legal_status'']
       [(''legal_status'', content_legal_statuses)] node"

definition validate_clause :: "props \<Rightarrow> graph_error list + vnode" where
  "validate_clause node =
     validate_node ''Clause'' [''id'', ''number'', ''content_raw'', ''effective_from'', ''legal_status'']
       [(''legal_status'', content_legal_statuses)] node"

definition validate_point :: "props \<Rightarrow> graph_error list + vnode" where
  "validate_point node = validate_node ''Point'' [''id'', ''label'', ''content_raw''] [] node"

definition validate_semantic_node :: "props \<Rightarrow> str \<Rightarrow> graph_error list + vnode" where
  "validate_semantic_node node nt = validate_node nt [''id'', ''name''] [] node"

definition validate_any_node :: "props \<Rightarrow> graph_error list + vnode" where
  "validate_any_node node =
     (case getp node ''type'' of
        PStr t \<Rightarrow>
          if t = ''Document'' then validate_document node
          else if t = ''Issuer'' then validate_issuer node
          else if t = ''Appendix'' then validate_appendix node
          else if t = ''AttachedInstrument'' then validate_attached_instrument node
          else if t = ''Part'' then validate_part node
          else if t = ''Chapter'' then validate_chapter node
          else if t = ''Section'' then validate_section node
          else if t = ''Subsection'' then validate_subsection node
          else if t = ''Article'' then validate_article node
          else if t = ''Clause'' then validate_clause node
          else if t = ''Point'' then validate_point node
          else if t \<in> set runtime_only_labels then Inl [RuntimeOnlyNode t]
          else if t \<in> set [''LegalConcept'', ''LegalSubject'', ''LegalAction''] then
            validate_semantic_node node t
          else Inl [UnsupportedNode (PStr t)]
      | v \<Rightarrow> Inl [UnsupportedNode v])"

subsection \<open>Graph payloads\<close>

record raw_relation =
  raw_head :: "str option"
  raw_type :: "str option"
  raw_tail :: "str option"
  raw_props :: props

record vrelation =
  rel_head :: str
  rel_type :: str
  rel_tail :: str
  rel_head_type :: str
  rel_tail_type :: str
  rel_props :: props

text \<open>\<open>_VALIDATION_TOKEN\<close> is one private object; the writers compare by identity.\<close>

datatype token = ValidationToken | ForeignToken nat

record vpayload =
  payload_nodes :: "vnode list"
  payload_relations :: "vrelation list"
  payload_token :: token

definition node_index :: "vnode list \<Rightarrow> str \<Rightarrow> vnode option" where
  "node_index nodes i = map_of (map (\<lambda>n. (node_id n, n)) nodes) i"

fun collect_nodes :: "props list \<Rightarrow> graph_error list \<Rightarrow> vnode list \<Rightarrow> graph_error list \<times> vnode list" where
  "collect_nodes [] errors nodes = (errors, nodes)"
| "collect_nodes (raw # raws) errors nodes =
     (case validate_any_node raw of
        Inl es \<Rightarrow> collect_nodes raws (errors @ es) nodes
      | Inr n \<Rightarrow>
          if node_index nodes (node_id n) \<noteq> None
          then collect_nodes raws (errors @ [DuplicateNode (node_id n)]) nodes
          else collect_nodes raws errors (nodes @ [n]))"

definition lookup_node :: "vnode list \<Rightarrow> str option \<Rightarrow> vnode option" where
  "lookup_node nodes i = (case i of None \<Rightarrow> None | Some s \<Rightarrow> node_index nodes s)"

definition check_raw_relation ::
  "parse_datetime \<Rightarrow> vnode list \<Rightarrow> raw_relation \<Rightarrow> graph_error + vrelation" where
  "check_raw_relation parse nodes r =
     (case lookup_node nodes (raw_head r) of
        None \<Rightarrow> Inl (UnknownHead (raw_head r))
      | Some hn \<Rightarrow>
          (case lookup_node nodes (raw_tail r) of
             None \<Rightarrow> Inl (UnknownTail (raw_tail r))
           | Some tn \<Rightarrow>
               (case raw_type r of
                  None \<Rightarrow> Inl MissingRelationType
                | Some t \<Rightarrow>
                    (case validate_relation parse (node_type hn) t (node_type tn) (raw_props r)
                            (getp (node_props hn) ''doc_type'') (getp (node_props tn) ''doc_type'')
                            (raw_head r) (raw_tail r) of
                       Some e \<Rightarrow> Inl (BadRelation e)
                     | None \<Rightarrow>
                         Inr \<lparr>rel_head = node_id hn, rel_type = t, rel_tail = node_id tn,
                              rel_head_type = node_type hn, rel_tail_type = node_type tn,
                              rel_props = raw_props r\<rparr>))))"

fun collect_relations ::
  "parse_datetime \<Rightarrow> vnode list \<Rightarrow> raw_relation list \<Rightarrow> graph_error list \<Rightarrow> vrelation list
     \<Rightarrow> graph_error list \<times> vrelation list" where
  "collect_relations parse nodes [] errors rels = (errors, rels)"
| "collect_relations parse nodes (r # rs) errors rels =
     (case check_raw_relation parse nodes r of
        Inl e \<Rightarrow> collect_relations parse nodes rs (errors @ [e]) rels
      | Inr v \<Rightarrow> collect_relations parse nodes rs errors (rels @ [v]))"

definition validate_graph_payload ::
  "parse_datetime \<Rightarrow> props list \<Rightarrow> raw_relation list \<Rightarrow> graph_error list + vpayload" where
  "validate_graph_payload parse raw_nodes raw_relations =
     (let (node_errors, nodes) = collect_nodes raw_nodes [] [];
          (errors, rels) = collect_relations parse nodes raw_relations node_errors []
      in if errors \<noteq> [] then Inl errors
         else Inr \<lparr>payload_nodes = nodes, payload_relations = rels,
                   payload_token = ValidationToken\<rparr>)"

subsection \<open>Relation-only batches\<close>

datatype batch_error =
    SourceWrapperMismatch
  | TargetWrapperMismatch
  | SourceTypeMismatch
  | TargetTypeMismatch
  | SameDocumentEndpoints
  | RelationIdRequired
  | DuplicateRelationId str
  | DuplicateBundleTarget str str
  | BatchBadRelation rel_error
  | NotRefersTo
  | BundleWrapperMismatch
  | NotTemporalRelation
  | UnsupportedTemporalSource str
  | UnsupportedTemporalTarget str
  | CandidateIdRequired
  | DuplicateCandidate str
  | CandidateWrapperMismatch
  | EmptyBatch

record external_reference =
  ext_relation :: vrelation
  ext_source_id :: str
  ext_source_type :: str
  ext_source_document_id :: str
  ext_source_ancestor_ids :: "str list"
  ext_target_id :: str
  ext_target_type :: str
  ext_target_document_id :: str
  ext_target_ancestor_ids :: "str list"
  ext_bundle_id :: str

record 'r relation_batch =
  batch_items :: "'r list"
  registry_build_id :: str
  registry_snapshot_hash :: str
  registry_provenance_hash :: str
  batch_token :: token

text \<open>\<open>str(relation.properties.get("relation_id") or "")\<close>\<close>

definition relation_id_of :: "vrelation \<Rightarrow> str" where
  "relation_id_of r =
     (let v = getp (rel_props r) ''relation_id'' in if truthy v then py_str v else [])"

definition relation_id_errors :: "str list \<Rightarrow> str \<Rightarrow> batch_error list" where
  "relation_id_errors seen rid =
     (if rid = [] then [RelationIdRequired]
      else if rid \<in> set seen then [DuplicateRelationId rid] else [])"

definition relation_errors :: "parse_datetime \<Rightarrow> vrelation \<Rightarrow> batch_error list" where
  "relation_errors parse r =
     (case validate_relation parse (rel_head_type r) (rel_type r) (rel_tail_type r) (rel_props r)
             PNone PNone (Some (rel_head r)) (Some (rel_tail r)) of
        None \<Rightarrow> [] | Some e \<Rightarrow> [BatchBadRelation e])"

definition err :: "bool \<Rightarrow> batch_error \<Rightarrow> batch_error list" where
  "err b e = (if b then [e] else [])"

lemma err_Nil_iff [simp]: "err b e = [] \<longleftrightarrow> \<not> b"
  by (simp add: err_def)

definition external_reference_errors ::
  "parse_datetime \<Rightarrow> str list \<Rightarrow> (str \<times> str) list \<Rightarrow> external_reference \<Rightarrow> batch_error list" where
  "external_reference_errors parse seen_ids seen_targets ref =
     (let r = ext_relation ref; rid = relation_id_of r in
      err (rel_head r \<noteq> ext_source_id ref) SourceWrapperMismatch
      @ err (rel_tail r \<noteq> ext_target_id ref) TargetWrapperMismatch
      @ err (rel_head_type r \<noteq> ext_source_type ref) SourceTypeMismatch
      @ err (rel_tail_type r \<noteq> ext_target_type ref) TargetTypeMismatch
      @ err (ext_source_document_id ref = ext_target_document_id ref
             \<and> getp (rel_props r) ''source_ownership'' \<noteq> PStr ''PROJECTED'') SameDocumentEndpoints
      @ relation_id_errors seen_ids rid
      @ err ((ext_bundle_id ref, ext_target_id ref) \<in> set seen_targets)
          (DuplicateBundleTarget (ext_bundle_id ref) (ext_target_id ref))
      @ relation_errors parse r
      @ err (rel_type r \<noteq> ''REFERS_TO'') NotRefersTo
      @ err (getp (rel_props r) ''reference_bundle_id'' \<noteq> PStr (ext_bundle_id ref))
          BundleWrapperMismatch)"

fun external_batch_errors ::
  "parse_datetime \<Rightarrow> str list \<Rightarrow> (str \<times> str) list \<Rightarrow> external_reference list \<Rightarrow> batch_error list" where
  "external_batch_errors parse seen_ids seen_targets [] = []"
| "external_batch_errors parse seen_ids seen_targets (ref # refs) =
     external_reference_errors parse seen_ids seen_targets ref
     @ external_batch_errors parse (relation_id_of (ext_relation ref) # seen_ids)
         ((ext_bundle_id ref, ext_target_id ref) # seen_targets) refs"

definition validate_external_relation_batch ::
  "parse_datetime \<Rightarrow> external_reference list \<Rightarrow> str \<Rightarrow> str \<Rightarrow> str
     \<Rightarrow> batch_error list + external_reference relation_batch" where
  "validate_external_relation_batch parse refs build snapshot provenance =
     (let errors = external_batch_errors parse [] [] refs @ err (refs = []) EmptyBatch
      in if errors \<noteq> [] then Inl errors
         else Inr \<lparr>batch_items = refs, registry_build_id = build,
                   registry_snapshot_hash = snapshot, registry_provenance_hash = provenance,
                   batch_token = ValidationToken\<rparr>)"

record provider_temporal_relation =
  prov_relation :: vrelation
  prov_source_document_id :: str
  prov_target_document_id :: str
  prov_candidate_id :: str

definition temporal_endpoint_types :: "str list" where
  "temporal_endpoint_types = [''Document'', ''Article'', ''Clause'', ''Point'']"

definition provider_relation_errors ::
  "parse_datetime \<Rightarrow> str list \<Rightarrow> str list \<Rightarrow> provider_temporal_relation \<Rightarrow> batch_error list" where
  "provider_relation_errors parse seen_ids seen_candidates w =
     (let r = prov_relation w; rid = relation_id_of r; cid = prov_candidate_id w in
      err (rel_type r \<notin> set [''AMENDS'', ''REPEALS'']) NotTemporalRelation
      @ err (rel_head_type r \<notin> set temporal_endpoint_types) (UnsupportedTemporalSource (rel_head_type r))
      @ err (rel_tail_type r \<notin> set temporal_endpoint_types) (UnsupportedTemporalTarget (rel_tail_type r))
      @ relation_id_errors seen_ids rid
      @ (if cid = [] then [CandidateIdRequired]
         else if cid \<in> set seen_candidates then [DuplicateCandidate cid] else [])
      @ err (getp (rel_props r) ''provider_candidate_id'' \<noteq> PStr cid) CandidateWrapperMismatch
      @ relation_errors parse r)"

fun provider_batch_errors ::
  "parse_datetime \<Rightarrow> str list \<Rightarrow> str list \<Rightarrow> provider_temporal_relation list \<Rightarrow> batch_error list" where
  "provider_batch_errors parse seen_ids seen_candidates [] = []"
| "provider_batch_errors parse seen_ids seen_candidates (w # ws) =
     provider_relation_errors parse seen_ids seen_candidates w
     @ provider_batch_errors parse (relation_id_of (prov_relation w) # seen_ids)
         (prov_candidate_id w # seen_candidates) ws"

definition validate_provider_temporal_relation_batch ::
  "parse_datetime \<Rightarrow> provider_temporal_relation list \<Rightarrow> str \<Rightarrow> str \<Rightarrow> str
     \<Rightarrow> batch_error list + provider_temporal_relation relation_batch" where
  "validate_provider_temporal_relation_batch parse ws build snapshot provenance =
     (let errors = provider_batch_errors parse [] [] ws @ err (ws = []) EmptyBatch
      in if errors \<noteq> [] then Inl errors
         else Inr \<lparr>batch_items = ws, registry_build_id = build,
                   registry_snapshot_hash = snapshot, registry_provenance_hash = provenance,
                   batch_token = ValidationToken\<rparr>)"

end
