(* ===== verification/Ontology_Properties.thy ===== *)
theory Ontology_Properties
  imports Ontology_Validators
begin

text \<open>
  What a validated payload guarantees: the facts the Neo4j writers rely on after
  \<open>validate_graph_payload\<close>, and how the write-time and the extraction-time relation validators
  compare.
\<close>

subsection \<open>Inversion of the node validators\<close>

lemma validate_node_Inr:
  assumes "validate_node nt required enums node = Inr n"
  shows "node_type n = nt" "node_id n = py_str (getp node ''id'')"
    "node_props n = AList.delete ''type'' node"
    "\<forall>f \<in> set required. present node f"
    "\<forall>(f, allowed) \<in> set enums. present node f \<longrightarrow> value_in (getp node f) allowed"
    "getp node ''type'' \<in> {PNone, PStr nt}"
  using assms
  by (auto simp: validate_node_def Let_def field_enum_bad_def filter_empty_conv split: if_splits)

text \<open>What every accepted node satisfies, whichever validator accepted it.\<close>

definition node_shape :: "str \<Rightarrow> props \<Rightarrow> vnode \<Rightarrow> bool" where
  "node_shape nt node n \<longleftrightarrow>
     node_type n = nt \<and> node_id n = py_str (getp node ''id'') \<and> present node ''id''
     \<and> node_props n = AList.delete ''type'' node"

lemma validate_node_shape:
  "validate_node nt (''id'' # required) enums node = Inr n \<Longrightarrow> node_shape nt node n"
  using validate_node_Inr [of nt "''id'' # required" enums node n]
  by (simp add: node_shape_def)

lemma validate_titled_shape: "validate_titled nt node = Inr n \<Longrightarrow> node_shape nt node n"
  by (simp only: validate_titled_def split: if_split_asm) (simp_all add: validate_node_shape)

lemma validator_shapes:
  "validate_document node = Inr n \<Longrightarrow> node_shape ''Document'' node n"
  "validate_issuer node = Inr n \<Longrightarrow> node_shape ''Issuer'' node n"
  "validate_appendix node = Inr n \<Longrightarrow> node_shape ''Appendix'' node n"
  "validate_attached_instrument node = Inr n \<Longrightarrow> node_shape ''AttachedInstrument'' node n"
  "validate_part node = Inr n \<Longrightarrow> node_shape ''Part'' node n"
  "validate_chapter node = Inr n \<Longrightarrow> node_shape ''Chapter'' node n"
  "validate_section node = Inr n \<Longrightarrow> node_shape ''Section'' node n"
  "validate_subsection node = Inr n \<Longrightarrow> node_shape ''Subsection'' node n"
  "validate_article node = Inr n \<Longrightarrow> node_shape ''Article'' node n"
  "validate_clause node = Inr n \<Longrightarrow> node_shape ''Clause'' node n"
  "validate_point node = Inr n \<Longrightarrow> node_shape ''Point'' node n"
  "validate_semantic_node node nt = Inr n \<Longrightarrow> node_shape nt node n"
  by (simp_all only: validate_document_def validate_issuer_def validate_appendix_def
      validate_attached_instrument_def validate_part_def validate_section_def
      validate_subsection_def validate_chapter_def validate_article_def validate_clause_def
      validate_point_def validate_semantic_node_def validate_node_shape validate_titled_shape)

lemma branch_elim:
  "(if b then x else y) = r \<Longrightarrow> (b \<Longrightarrow> x = r \<Longrightarrow> P) \<Longrightarrow> (y = r \<Longrightarrow> P) \<Longrightarrow> P"
  by (cases b) simp_all

lemma persisted_label [simp]:
  "''Document'' \<in> set phase1_persisted_labels" "''Issuer'' \<in> set phase1_persisted_labels"
  "''Appendix'' \<in> set phase1_persisted_labels"
  "''AttachedInstrument'' \<in> set phase1_persisted_labels"
  "''Part'' \<in> set phase1_persisted_labels" "''Chapter'' \<in> set phase1_persisted_labels"
  "''Section'' \<in> set phase1_persisted_labels" "''Subsection'' \<in> set phase1_persisted_labels"
  "''Article'' \<in> set phase1_persisted_labels" "''Clause'' \<in> set phase1_persisted_labels"
  "''Point'' \<in> set phase1_persisted_labels"
  "set [''LegalConcept'', ''LegalSubject'', ''LegalAction''] \<subseteq> set phase1_persisted_labels"
  by (simp_all add: phase1_persisted_labels_def)

lemma validate_any_node_str:
  assumes ok: "validate_any_node node = Inr n"
  obtains t where "getp node ''type'' = PStr t"
  using that by (cases "getp node ''type''") (use ok in \<open>simp_all add: validate_any_node_def\<close>)

lemma validate_any_node_shape:
  assumes ok: "validate_any_node node = Inr n"
  shows "getp node ''type'' = PStr (node_type n) \<and> node_type n \<in> set phase1_persisted_labels
         \<and> node_shape (node_type n) node n"
proof -
  obtain t where t: "getp node ''type'' = PStr t" by (rule validate_any_node_str [OF ok])
  have "node_shape t node n \<and> t \<in> set phase1_persisted_labels"
    using ok unfolding validate_any_node_def t pv.case
    by (elim branch_elim)
      (simp_all only: validator_shapes persisted_label simp_thms sum.distinct
        persisted_label(12) [THEN subsetD])
  with t show ?thesis by (simp add: node_shape_def)
qed

lemma validate_node_error: "validate_node nt req enums node \<noteq> Inl []"
  by (simp only: validate_node_def Let_def split: if_split) (auto simp only: sum.inject sum.distinct)

lemma validate_titled_error: "validate_titled nt node \<noteq> Inl []"
  by (simp only: validate_titled_def validate_node_error split: if_split) simp

lemma validate_any_node_error: "validate_any_node node \<noteq> Inl []"
proof (cases "getp node ''type''")
  case (PStr s)
  show ?thesis
    unfolding validate_any_node_def PStr pv.case
    by (auto simp only: validate_document_def validate_issuer_def validate_appendix_def
        validate_attached_instrument_def validate_part_def validate_section_def
        validate_subsection_def validate_chapter_def validate_article_def validate_clause_def
        validate_point_def validate_semantic_node_def validate_node_error validate_titled_error
        sum.inject list.distinct split: if_split_asm)
qed (simp_all add: validate_any_node_def)

lemma node_index_Some:
  "node_index nodes i = Some n \<Longrightarrow> n \<in> set nodes \<and> node_id n = i"
  by (auto simp: node_index_def dest!: map_of_SomeD)

lemma node_index_None_iff: "node_index nodes i = None \<longleftrightarrow> i \<notin> node_id ` set nodes"
  by (simp add: node_index_def map_of_eq_None_iff image_image)

lemma node_index_unique:
  "distinct (map node_id nodes) \<Longrightarrow> n \<in> set nodes \<Longrightarrow> node_index nodes (node_id n) = Some n"
  by (auto simp: node_index_def comp_def intro!: map_of_is_SomeI)

subsection \<open>Inversion of the payload validator\<close>

lemma collect_nodes_clean:
  "collect_nodes raws errors nodes = ([], nodes') \<Longrightarrow>
     errors = [] \<and> (\<exists>new. nodes' = nodes @ new \<and> rmapm validate_any_node raws = Inr new)
     \<and> (distinct (map node_id nodes) \<longrightarrow> distinct (map node_id nodes'))"
proof (induction raws arbitrary: errors nodes)
  case Nil
  then show ?case by simp
next
  case (Cons raw raws)
  show ?case
  proof (cases "validate_any_node raw")
    case (Inl es)
    with Cons.prems have "collect_nodes raws (errors @ es) nodes = ([], nodes')" by simp
    from Cons.IH [OF this] have "es = []" by blast
    with Inl validate_any_node_error show ?thesis by simp
  next
    case (Inr n)
    have new: "node_id n \<notin> node_id ` set nodes"
      and rec: "collect_nodes raws errors (nodes @ [n]) = ([], nodes')"
      using Cons.prems Inr Cons.IH [of "errors @ [DuplicateNode (node_id n)]" nodes]
      by (auto simp flip: node_index_None_iff split: if_splits)
    from Cons.IH [OF rec] new Inr show ?thesis by auto
  qed
qed

lemma collect_relations_clean:
  "collect_relations parse nodes rs errors rels = ([], rels') \<Longrightarrow>
     errors = [] \<and> (\<exists>new. rels' = rels @ new \<and> rmapm (check_raw_relation parse nodes) rs = Inr new)"
proof (induction rs arbitrary: errors rels)
  case Nil
  then show ?case by simp
next
  case (Cons r rs)
  then show ?case
    by (cases "check_raw_relation parse nodes r") fastforce+
qed

lemma check_raw_relation_Inr:
  assumes "check_raw_relation parse nodes r = Inr v"
  obtains hn tn where
    "node_index nodes (rel_head v) = Some hn" "node_index nodes (rel_tail v) = Some tn"
    "rel_head_type v = node_type hn" "rel_tail_type v = node_type tn"
    "raw_head r = Some (rel_head v)" "raw_tail r = Some (rel_tail v)" "raw_type r = Some (rel_type v)"
    "rel_props v = raw_props r"
    "validate_relation parse (node_type hn) (rel_type v) (node_type tn) (rel_props v)
       (getp (node_props hn) ''doc_type'') (getp (node_props tn) ''doc_type'')
       (Some (rel_head v)) (Some (rel_tail v)) = None"
proof -
  obtain hi ti t where idx: "raw_head r = Some hi" "raw_tail r = Some ti" "raw_type r = Some t"
    using assms by (auto simp: check_raw_relation_def lookup_node_def split: option.splits)
  with assms obtain hn tn where n: "node_index nodes hi = Some hn" "node_index nodes ti = Some tn"
    by (auto simp: check_raw_relation_def lookup_node_def split: option.splits)
  have v: "v = \<lparr>rel_head = node_id hn, rel_type = t, rel_tail = node_id tn,
      rel_head_type = node_type hn, rel_tail_type = node_type tn, rel_props = raw_props r\<rparr>"
    and ok: "validate_relation parse (node_type hn) t (node_type tn) (raw_props r)
       (getp (node_props hn) ''doc_type'') (getp (node_props tn) ''doc_type'') (Some hi) (Some ti) = None"
    using assms idx n by (auto simp: check_raw_relation_def lookup_node_def split: option.splits)
  from node_index_Some [OF n(1)] node_index_Some [OF n(2)] have "hi = node_id hn" "ti = node_id tn"
    by simp_all
  with that [of hn tn] n idx v ok show thesis by simp
qed

lemma validate_graph_payload_Inr:
  assumes "validate_graph_payload parse raw_nodes raw_rels = Inr p"
  shows "rmapm validate_any_node raw_nodes = Inr (payload_nodes p)"
    "distinct (map node_id (payload_nodes p))"
    "rmapm (check_raw_relation parse (payload_nodes p)) raw_rels = Inr (payload_relations p)"
    "payload_token p = ValidationToken"
proof -
  obtain es ns where n: "collect_nodes raw_nodes [] [] = (es, ns)" by fastforce
  obtain es' rs where r: "collect_relations parse ns raw_rels es [] = (es', rs)" by fastforce
  from assms have clean: "es' = []" and p: "payload_nodes p = ns" "payload_relations p = rs"
    "payload_token p = ValidationToken"
    by (auto simp: validate_graph_payload_def n r split: if_splits)
  from collect_relations_clean [of parse ns raw_rels es "[]" rs] r clean
  have "es = []" and rels: "rmapm (check_raw_relation parse ns) raw_rels = Inr rs" by auto
  with n collect_nodes_clean [of raw_nodes "[]" "[]" ns]
  have "rmapm validate_any_node raw_nodes = Inr ns" "distinct (map node_id ns)" by auto
  with rels p show "rmapm validate_any_node raw_nodes = Inr (payload_nodes p)"
    "distinct (map node_id (payload_nodes p))"
    "rmapm (check_raw_relation parse (payload_nodes p)) raw_rels = Inr (payload_relations p)"
    "payload_token p = ValidationToken"
    by simp_all
qed

subsection \<open>Inversion of the relation validators\<close>

lemma validate_relation_None:
  assumes "validate_relation parse head rel tail p dh dt hi ti = None"
  obtains c where "map_of constraints rel = Some c" "rel \<in> set relation_enum"
    "\<forall>k \<in> set (required_properties c). present p k"
    "\<not> (no_self_loop c \<and> hi \<noteq> None \<and> hi = ti)"
    "method_fault rel c p = None" "ownership_fault rel p = None" "projected_fault rel p = None"
    "enum_fault rel p (property_enums c) = None"
    "validate_property_types parse p (property_types c) = None"
    "\<forall>ps. valid_pairs c = Some ps \<longrightarrow> (head, tail) \<in> set ps"
    "\<forall>hs. allowed_head c = Some hs \<longrightarrow> head \<in> set hs"
    "\<forall>ts. allowed_tail c = Some ts \<longrightarrow> tail \<in> set ts"
    "guides_fault head rel tail dh dt = None"
  using assms
  by (auto simp: validate_relation_def split: if_split_asm option.split_asm)

lemma extraction_validate_relation_NoneI:
  assumes "map_of constraints rel = Some c"
    "\<forall>k \<in> set (required_properties c). present p k"
    "\<not> (no_self_loop c \<and> hi \<noteq> None \<and> hi = ti)"
    "method_fault rel c p = None"
    "extraction_property_types parse p (property_types c) = None"
    "\<forall>ps. valid_pairs c = Some ps \<longrightarrow> (head, tail) \<in> set ps"
    "\<forall>ts. allowed_tail c = Some ts \<longrightarrow> tail \<in> set ts"
    "rel = ''REFERS_TO'' \<longrightarrow> value_in (getp p ''citation_type'') [''DIRECT'', ''INDIRECT'', ''RANGE'']"
    "extraction_guides_fault rel dh dt = None"
  shows "extraction_validate_relation parse head rel tail p dh dt hi ti = None"
  using assms by (auto simp: extraction_validate_relation_def split: option.split)

lemma enum_fault_None:
  "enum_fault rel p es = None \<Longrightarrow> (k, allowed) \<in> set es \<Longrightarrow>
     getp p k = PNone \<or> value_in (getp p k) allowed"
  by (induction es) (auto split: if_splits)

lemma contains_edge_ranks:
  assumes "validate_relation parse head ''CONTAINS'' tail p dh dt hi ti = None"
  shows "containment_rank head < containment_rank tail \<and> containment_rank tail < 10"
proof -
  obtain c where c: "map_of constraints ''CONTAINS'' = Some c"
    and pairs: "\<forall>ps. valid_pairs c = Some ps \<longrightarrow> (head, tail) \<in> set ps"
    by (rule validate_relation_None [OF assms])
  from c have "c = constraint_contains" by simp
  moreover obtain ps where ps: "valid_pairs constraint_contains = Some ps"
    by (simp add: constraint_contains_def)
  ultimately show ?thesis using pairs contains_pairs_descend [OF ps] by blast
qed

subsection \<open>The containment forest of a validated payload\<close>

definition contains_edges :: "vpayload \<Rightarrow> (str \<times> str) set" where
  "contains_edges p =
     {(rel_head r, rel_tail r) |r. r \<in> set (payload_relations p) \<and> rel_type r = ''CONTAINS''}"

definition node_rank :: "vpayload \<Rightarrow> str \<Rightarrow> nat" where
  "node_rank p i =
     (case node_index (payload_nodes p) i of None \<Rightarrow> 0 | Some n \<Rightarrow> containment_rank (node_type n))"

text \<open>The depths \<open>src/shared/ontology/hierarchy.py\<close> promises to its graph queries.\<close>

definition max_document_to_article_depth :: nat where
  "max_document_to_article_depth = 7"

definition max_document_to_retrieval_unit_depth :: nat where
  "max_document_to_retrieval_unit_depth = 8"

definition max_document_hierarchy_depth :: nat where
  "max_document_hierarchy_depth = 9"

lemma payload_relation:
  assumes "validate_graph_payload parse raw_nodes raw_rels = Inr p"
    and "v \<in> set (payload_relations p)"
  obtains r where "r \<in> set raw_rels" "check_raw_relation parse (payload_nodes p) r = Inr v"
  using validate_graph_payload_Inr(3) [OF assms(1)] assms(2) rmapm_set that by metis

lemma contains_edge_rank:
  assumes "validate_graph_payload parse raw_nodes raw_rels = Inr p"
    and "(a, b) \<in> contains_edges p"
  shows "node_rank p a < node_rank p b \<and> node_rank p b < 10"
proof -
  obtain v where v: "v \<in> set (payload_relations p)" "rel_type v = ''CONTAINS''"
    "a = rel_head v" "b = rel_tail v"
    using assms(2) by (auto simp: contains_edges_def)
  obtain r where r: "check_raw_relation parse (payload_nodes p) r = Inr v"
    by (rule payload_relation [OF assms(1) v(1)])
  from r show ?thesis
    by (rule check_raw_relation_Inr)
      (use v contains_edge_ranks in \<open>auto simp: node_rank_def\<close>)
qed

lemma contains_path_rank:
  assumes "validate_graph_payload parse raw_nodes raw_rels = Inr p"
  shows "(a, b) \<in> contains_edges p ^^ k \<Longrightarrow>
     node_rank p a + k \<le> node_rank p b \<and> (k > 0 \<longrightarrow> node_rank p b < 10)"
proof (induction k arbitrary: b)
  case 0
  then show ?case by simp
next
  case (Suc k)
  then obtain c where "(a, c) \<in> contains_edges p ^^ k" "(c, b) \<in> contains_edges p" by auto
  with Suc.IH contains_edge_rank [OF assms] show ?case by fastforce
qed

lemma containment_rank_values [simp]:
  "containment_rank ''Article'' = 7" "containment_rank ''Clause'' = 8"
  "containment_rank ''Point'' = 9" "containment_rank ''Document'' = 0"
  by (code_simp)+

text \<open>
  C4: In a payload that passed \<open>validate_graph_payload\<close> the CONTAINS relations form no cycle, and
  every chain of them is at most as long as the depth constants the graph queries use: 7 edges
  down to an Article, 8 down to a Clause, 9 in all.
\<close>

theorem contains_hierarchy_bounded:
  assumes "validate_graph_payload parse raw_nodes raw_rels = Inr p"
  shows "acyclic (contains_edges p)
     \<and> (\<forall>a b k. (a, b) \<in> contains_edges p ^^ k \<longrightarrow> k \<le> max_document_hierarchy_depth)
     \<and> (\<forall>a b k n. (a, b) \<in> contains_edges p ^^ k \<longrightarrow> node_index (payload_nodes p) b = Some n \<longrightarrow>
          (node_type n = ''Article'' \<longrightarrow> k \<le> max_document_to_article_depth)
          \<and> (node_type n = ''Clause'' \<longrightarrow> k \<le> max_document_to_retrieval_unit_depth))"
proof (intro conjI allI impI)
  show "acyclic (contains_edges p)"
    by (rule acyclicI_order [where f = "\<lambda>i. 10 - node_rank p i"])
      (use contains_edge_rank [OF assms] in fastforce)
next
  fix a b k assume "(a, b) \<in> contains_edges p ^^ k"
  with contains_path_rank [OF assms] show "k \<le> max_document_hierarchy_depth"
    by (cases k) (fastforce simp: max_document_hierarchy_depth_def)+
next
  fix a b k n
  assume path: "(a, b) \<in> contains_edges p ^^ k" and n: "node_index (payload_nodes p) b = Some n"
  from contains_path_rank [OF assms path] n have k: "k \<le> containment_rank (node_type n)"
    by (simp add: node_rank_def)
  then show "k \<le> max_document_to_article_depth" if "node_type n = ''Article''"
    using that by (simp add: max_document_to_article_depth_def)
  from k show "k \<le> max_document_to_retrieval_unit_depth" if "node_type n = ''Clause''"
    using that by (simp add: max_document_to_retrieval_unit_depth_def)
qed

text \<open>A small valid payload: a law that contains an article that contains a clause.\<close>

definition sample_nodes :: "props list" where
  "sample_nodes =
     [[(''type'', PStr ''Document''), (''id'', PStr ''L59''), (''doc_type'', PStr ''Law''),
       (''number'', PStr ''59/2020/QH14''), (''legal_status'', PStr ''ACTIVE''),
       (''effective_from'', PStr ''2021-01-01''), (''issuer_name'', PStr ''QH'')],
      [(''type'', PStr ''Article''), (''id'', PStr ''L59_a1''), (''number'', PStr ''1''),
       (''content_raw'', PStr ''x''), (''effective_from'', PStr ''2021-01-01''),
       (''legal_status'', PStr ''ACTIVE'')],
      [(''type'', PStr ''Clause''), (''id'', PStr ''L59_a1_c1''), (''number'', PStr ''1''),
       (''content_raw'', PStr ''x''), (''effective_from'', PStr ''2021-01-01''),
       (''legal_status'', PStr ''ACTIVE'')]]"

definition sample_relations :: "raw_relation list" where
  "sample_relations =
     [\<lparr>raw_head = Some ''L59'', raw_type = Some ''CONTAINS'', raw_tail = Some ''L59_a1'', raw_props = []\<rparr>,
      \<lparr>raw_head = Some ''L59_a1'', raw_type = Some ''CONTAINS'', raw_tail = Some ''L59_a1_c1'',
       raw_props = []\<rparr>]"

definition sample_payload :: vpayload where
  "sample_payload =
     (case validate_graph_payload (\<lambda>s. Some True) sample_nodes sample_relations of
        Inr p \<Rightarrow> p | Inl e \<Rightarrow> \<lparr>payload_nodes = [], payload_relations = [], payload_token = ForeignToken 0\<rparr>)"

lemma sample_payload_valid:
  "validate_graph_payload (\<lambda>s. Some True) sample_nodes sample_relations = Inr sample_payload"
proof -
  have "\<not> isl (validate_graph_payload (\<lambda>s. Some True) sample_nodes sample_relations)"
    by code_simp
  then show ?thesis by (auto simp: sample_payload_def isl_def split: sum.split)
qed

theorem contains_hierarchy_bounded_witness:
  "acyclic (contains_edges sample_payload) \<and> length (payload_relations sample_payload) = 2"
proof
  show "acyclic (contains_edges sample_payload)"
    using contains_hierarchy_bounded [OF sample_payload_valid] by blast
  show "length (payload_relations sample_payload) = 2"
    by code_simp
qed

subsection \<open>Soundness of the payload validator\<close>

lemma validate_relation_temporal:
  assumes "validate_relation parse head rel tail p dh dt (Some i) (Some j) = None"
    and "rel \<in> {''AMENDS'', ''REPEALS'', ''REPLACES''}"
  shows "present p ''effective_from'' \<and> i \<noteq> j"
proof -
  obtain c where c: "map_of constraints rel = Some c"
    "\<forall>k \<in> set (required_properties c). present p k" "\<not> (no_self_loop c \<and> i = j)"
    by (rule validate_relation_None [OF assms(1)]) simp
  have "''effective_from'' \<in> set (required_properties c) \<and> no_self_loop c"
    using assms(2) c(1)
    by (auto simp: constraint_amends_def constraint_repeals_def constraint_replaces_def)
  with c show ?thesis by blast
qed

lemma guides_fault_None:
  "guides_fault head ''GUIDES'' tail dh dt = None \<Longrightarrow>
     \<exists>a b. dh = PStr a \<and> dt = PStr b \<and> (a, b) \<in> set guides_whitelist"
  by (auto simp: guides_fault_def split: if_split_asm pv.split_asm)

text \<open>The endpoints and the semantics of one relation of a validated payload.\<close>

definition relation_sound :: "vpayload \<Rightarrow> vrelation \<Rightarrow> bool" where
  "relation_sound p r \<longleftrightarrow>
     rel_type r \<in> set relation_enum
     \<and> (\<exists>hn tn. node_index (payload_nodes p) (rel_head r) = Some hn
          \<and> node_index (payload_nodes p) (rel_tail r) = Some tn
          \<and> node_type hn = rel_head_type r \<and> node_type tn = rel_tail_type r
          \<and> (rel_type r = ''GUIDES'' \<longrightarrow>
               (\<exists>a b. getp (node_props hn) ''doc_type'' = PStr a
                  \<and> getp (node_props tn) ''doc_type'' = PStr b \<and> (a, b) \<in> set guides_whitelist)))
     \<and> (rel_type r \<in> {''AMENDS'', ''REPEALS'', ''REPLACES''} \<longrightarrow>
          present (rel_props r) ''effective_from'' \<and> rel_head r \<noteq> rel_tail r)"

lemma check_raw_relation_sound:
  assumes "check_raw_relation parse (payload_nodes p) raw = Inr r"
  shows "relation_sound p r"
proof (rule check_raw_relation_Inr [OF assms])
  fix hn tn
  assume n: "node_index (payload_nodes p) (rel_head r) = Some hn"
    "node_index (payload_nodes p) (rel_tail r) = Some tn"
    "rel_head_type r = node_type hn" "rel_tail_type r = node_type tn"
    and ok: "validate_relation parse (node_type hn) (rel_type r) (node_type tn) (rel_props r)
      (getp (node_props hn) ''doc_type'') (getp (node_props tn) ''doc_type'')
      (Some (rel_head r)) (Some (rel_tail r)) = None"
  from ok have g: "guides_fault (node_type hn) (rel_type r) (node_type tn)
      (getp (node_props hn) ''doc_type'') (getp (node_props tn) ''doc_type'') = None"
    and "rel_type r \<in> set relation_enum"
    by (auto elim: validate_relation_None)
  moreover have "rel_type r = ''GUIDES'' \<longrightarrow>
      (\<exists>a b. getp (node_props hn) ''doc_type'' = PStr a
         \<and> getp (node_props tn) ''doc_type'' = PStr b \<and> (a, b) \<in> set guides_whitelist)"
    using g guides_fault_None by metis
  ultimately show ?thesis
    using n validate_relation_temporal [OF ok] unfolding relation_sound_def
    by (intro conjI exI [of _ hn] exI [of _ tn]) (assumption | simp only: | iprover)+
qed

text \<open>
  C28: \<open>validate_graph_payload\<close> accepts all of its input or none of it. An accepted payload has
  the nodes in order, one identifier each, with persisted labels only, and every relation of the
  input, in order, with existing endpoints whose recorded labels are the nodes' labels; a GUIDES
  edge joins a whitelisted pair of document types, and AMENDS, REPEALS and REPLACES edges carry an
  effective date and join distinct nodes.
\<close>

theorem payload_sound:
  assumes "validate_graph_payload parse raw_nodes raw_rels = Inr p"
  shows "map node_id (payload_nodes p) = map (\<lambda>n. py_str (getp n ''id'')) raw_nodes
     \<and> distinct (map node_id (payload_nodes p))
     \<and> (\<forall>n \<in> set (payload_nodes p). node_type n \<in> set phase1_persisted_labels)
     \<and> map (\<lambda>r. (Some (rel_head r), Some (rel_type r), Some (rel_tail r))) (payload_relations p)
         = map (\<lambda>r. (raw_head r, raw_type r, raw_tail r)) raw_rels
     \<and> (\<forall>r \<in> set (payload_relations p). relation_sound p r)"
proof -
  note ok = validate_graph_payload_Inr [OF assms]
  have shape: "node_shape (node_type n) raw n \<and> node_type n \<in> set phase1_persisted_labels"
    if "validate_any_node raw = Inr n" for raw n
    using validate_any_node_shape [OF that] by simp
  have "map node_id (payload_nodes p) = map (\<lambda>n. py_str (getp n ''id'')) raw_nodes"
  proof (rule nth_equalityI)
    show "length (map node_id (payload_nodes p)) = length (map (\<lambda>n. py_str (getp n ''id'')) raw_nodes)"
      using rmapm_length [OF ok(1)] by simp
    fix i assume "i < length (map node_id (payload_nodes p))"
    with rmapm_length [OF ok(1)] rmapm_nth [OF ok(1), of i] shape
    show "map node_id (payload_nodes p) ! i = map (\<lambda>n. py_str (getp n ''id'')) raw_nodes ! i"
      by (simp add: node_shape_def)
  qed
  moreover have "map (\<lambda>r. (Some (rel_head r), Some (rel_type r), Some (rel_tail r))) (payload_relations p)
      = map (\<lambda>r. (raw_head r, raw_type r, raw_tail r)) raw_rels" (is "map ?f _ = map ?g _")
  proof (rule nth_equalityI)
    show "length (map ?f (payload_relations p)) = length (map ?g raw_rels)"
      using rmapm_length [OF ok(3)] by simp
    fix i assume "i < length (map ?f (payload_relations p))"
    with rmapm_length [OF ok(3)] rmapm_nth [OF ok(3), of i]
    have "check_raw_relation parse (payload_nodes p) (raw_rels ! i) = Inr (payload_relations p ! i)"
      "i < length raw_rels" "i < length (payload_relations p)" by simp_all
    then show "map ?f (payload_relations p) ! i = map ?g raw_rels ! i"
      by (auto elim: check_raw_relation_Inr)
  qed
  moreover have "\<forall>n \<in> set (payload_nodes p). node_type n \<in> set phase1_persisted_labels"
    using rmapm_set [OF ok(1)] shape by blast
  moreover have "\<forall>r \<in> set (payload_relations p). relation_sound p r"
    using rmapm_set [OF ok(3)] check_raw_relation_sound by blast
  ultimately show ?thesis using ok(2) by blast
qed

theorem payload_sound_witness:
  "map node_id (payload_nodes sample_payload) = [''L59'', ''L59_a1'', ''L59_a1_c1'']
   \<and> distinct (map node_id (payload_nodes sample_payload))"
  using payload_sound [OF sample_payload_valid] by (simp add: sample_nodes_def getp_def)

subsection \<open>The two relation validators compared\<close>

text \<open>A property value as JSON can carry it: no datetime objects.\<close>

fun json_value :: "pv \<Rightarrow> bool" where
  "json_value (PDatetime aware d t) = False"
| "json_value (PIso i d t) = False"
| "json_value _ = True"

lemma extraction_type_fault_json:
  "json_value v \<Longrightarrow> property_type_fault parse expected v = None \<Longrightarrow>
     extraction_type_fault parse expected v = None"
  by (cases v) (auto simp: property_type_fault_def extraction_type_fault_def
      split: if_split_asm option.split_asm)

lemma extraction_property_types_json:
  "\<forall>k. json_value (getp p k) \<Longrightarrow> validate_property_types parse p kts = None \<Longrightarrow>
     extraction_property_types parse p kts = None"
  by (induction kts) (auto simp: extraction_type_fault_json split: option.split_asm)

lemma extraction_guides_fault_json:
  "guides_fault head rel tail dh dt = None \<Longrightarrow> extraction_guides_fault rel dh dt = None"
  by (auto simp: extraction_guides_fault_def dest!: guides_fault_None)

lemma refers_to_citation_type:
  assumes "\<forall>k \<in> set (required_properties constraint_refers_to). present p k"
    and "enum_fault rel p (property_enums constraint_refers_to) = None"
  shows "value_in (getp p ''citation_type'') [''DIRECT'', ''INDIRECT'', ''RANGE'']"
proof -
  have "present p ''citation_type''"
    using assms(1) by (simp add: constraint_refers_to_def)
  moreover have "(''citation_type'', citation_types) \<in> set (property_enums constraint_refers_to)"
    by (simp add: constraint_refers_to_def)
  ultimately show ?thesis
    using enum_fault_None [OF assms(2)] by (auto simp: present_def citation_types_def)
qed

text \<open>
  C31: The write gate is at least as strict as the extraction gate: a relation with JSON property
  values that \<open>OntologyValidator.validate_relation\<close> lets through to Neo4j is one the extraction
  validator accepts too, whatever the endpoints, document types and identifiers are.
\<close>

theorem write_gate_refines_extraction_gate:
  assumes "validate_relation parse head rel tail p dh dt hi ti = None"
    and "\<forall>k. json_value (getp p k)"
  shows "extraction_validate_relation parse head rel tail p dh dt hi ti = None"
proof (rule validate_relation_None [OF assms(1)])
  fix c
  assume c: "map_of constraints rel = Some c" "\<forall>k \<in> set (required_properties c). present p k"
    "\<not> (no_self_loop c \<and> hi \<noteq> None \<and> hi = ti)" "method_fault rel c p = None"
    "enum_fault rel p (property_enums c) = None"
    "validate_property_types parse p (property_types c) = None"
    "\<forall>ps. valid_pairs c = Some ps \<longrightarrow> (head, tail) \<in> set ps"
    "\<forall>ts. allowed_tail c = Some ts \<longrightarrow> tail \<in> set ts"
    "guides_fault head rel tail dh dt = None"
  have "value_in (getp p ''citation_type'') [''DIRECT'', ''INDIRECT'', ''RANGE'']"
    if "rel = ''REFERS_TO''"
    using that c(1,2,5) refers_to_citation_type [of p rel] by simp
  then show ?thesis
    using c assms(2) extraction_property_types_json extraction_guides_fault_json
    by (intro extraction_validate_relation_NoneI) blast+
qed

definition sample_reference_props :: props where
  "sample_reference_props =
     [(''citation_text'', PStr ''x''), (''citation_type'', PStr ''DIRECT''),
      (''extraction_method'', PStr ''LLM''), (''created_at'', PStr ''2024-01-01T00:00:00Z''),
      (''reference_bundle_id'', PStr ''b1''), (''reference_target_count'', PInt 1),
      (''confidence'', PFloat 1 ''1.0''), (''llm_model'', PStr ''m''), (''checkpoint_id'', PStr ''k'')]"

lemma sample_reference_json: "json_value (getp sample_reference_props k)"
  by (auto simp: getp_def sample_reference_props_def split: option.split dest!: map_of_SomeD)

theorem write_gate_refines_extraction_gate_witness:
  "extraction_validate_relation (\<lambda>s. Some True) ''Article'' ''REFERS_TO'' ''Document''
     sample_reference_props PNone PNone (Some ''a'') (Some ''b'') = None"
proof (rule write_gate_refines_extraction_gate)
  show "validate_relation (\<lambda>s. Some True) ''Article'' ''REFERS_TO'' ''Document''
      sample_reference_props PNone PNone (Some ''a'') (Some ''b'') = None"
    by code_simp
  show "\<forall>k. json_value (getp sample_reference_props k)"
    by (simp add: sample_reference_json)
qed

text \<open>
  C25: The converse fails, and not by accident: the extraction validator never looks at
  \<open>allowed_head\<close>. Where the constraint of a relation has no list of pairs, its verdict does not
  depend on the label of the head at all, so it accepts a DEFINES edge whose head is a
  \<open>LegalAction\<close>, which the write gate refuses.
\<close>

theorem extraction_gate_ignores_head:
  "(\<forall>c. map_of constraints rel = Some c \<longrightarrow> valid_pairs c = None) \<longrightarrow>
     extraction_validate_relation parse head rel tail p dh dt hi ti
       = extraction_validate_relation parse head' rel tail p dh dt hi ti"
  by (auto simp: extraction_validate_relation_def split: option.split)

lemma extraction_gate_gap:
  "extraction_validate_relation (\<lambda>s. Some True) ''LegalAction'' ''DEFINES'' ''LegalConcept''
       [(''confidence'', PFloat 1 ''1.0''), (''llm_model'', PStr ''m''), (''created_at'', PStr ''t'')]
       PNone PNone None None = None
   \<and> validate_relation (\<lambda>s. Some True) ''LegalAction'' ''DEFINES'' ''LegalConcept''
       [(''confidence'', PFloat 1 ''1.0''), (''llm_model'', PStr ''m''), (''created_at'', PStr ''t'')]
       PNone PNone None None = Some (HeadNotAllowed ''DEFINES'' ''LegalAction'')"
  by code_simp

theorem extraction_gate_ignores_head_witness:
  "extraction_validate_relation (\<lambda>s. Some True) ''LegalAction'' ''DEFINES'' ''LegalConcept'' []
     PNone PNone None None
   = extraction_validate_relation (\<lambda>s. Some True) ''Article'' ''DEFINES'' ''LegalConcept'' []
       PNone PNone None None"
  by (rule extraction_gate_ignores_head [rule_format])
    (simp add: constraint_defines_def no_constraint_def)

subsection \<open>Relation-only batches\<close>

text \<open>
  Both batch validators check the items one after the other against what the earlier items used.
  The contract they share: a check that passes shows that the item's key is new.
\<close>

fun gate_errors :: "('i list \<Rightarrow> 'i \<Rightarrow> 'e list) \<Rightarrow> 'i list \<Rightarrow> 'i list \<Rightarrow> 'e list" where
  "gate_errors check seen [] = []"
| "gate_errors check seen (x # xs) = check seen x @ gate_errors check (x # seen) xs"

locale unique_batch =
  fixes check :: "'i list \<Rightarrow> 'i \<Rightarrow> 'e list"
    and key :: "'i \<Rightarrow> 'k"
  assumes check_new: "check seen x = [] \<Longrightarrow> key x \<notin> key ` set seen"
begin

lemma gate_clean_keys:
  "gate_errors check seen xs = [] \<Longrightarrow>
     distinct (map key xs) \<and> key ` set xs \<inter> key ` set seen = {}"
proof (induction xs arbitrary: seen)
  case Nil
  then show ?case by simp
next
  case (Cons x xs)
  then have "check seen x = []" "gate_errors check (x # seen) xs = []" by simp_all
  with Cons.IH check_new show ?case by fastforce
qed

lemma gate_clean_items:
  "gate_errors check seen xs = [] \<Longrightarrow> x \<in> set xs \<Longrightarrow> \<exists>s. check s x = []"
  by (induction xs arbitrary: seen) auto

end

definition external_check ::
  "parse_datetime \<Rightarrow> external_reference list \<Rightarrow> external_reference \<Rightarrow> batch_error list" where
  "external_check parse seen =
     external_reference_errors parse (map (\<lambda>r. relation_id_of (ext_relation r)) seen)
       (map (\<lambda>r. (ext_bundle_id r, ext_target_id r)) seen)"

definition provider_check ::
  "parse_datetime \<Rightarrow> provider_temporal_relation list \<Rightarrow> provider_temporal_relation \<Rightarrow> batch_error list" where
  "provider_check parse seen =
     provider_relation_errors parse (map (\<lambda>w. relation_id_of (prov_relation w)) seen)
       (map prov_candidate_id seen)"

lemma external_batch_gate:
  "external_batch_errors parse (map (\<lambda>r. relation_id_of (ext_relation r)) seen)
     (map (\<lambda>r. (ext_bundle_id r, ext_target_id r)) seen) refs
   = gate_errors (external_check parse) seen refs"
proof (induction refs arbitrary: seen)
  case Nil
  then show ?case by simp
next
  case (Cons ref refs)
  from Cons.IH [of "ref # seen"] show ?case by (simp add: external_check_def)
qed

lemma provider_batch_gate:
  "provider_batch_errors parse (map (\<lambda>w. relation_id_of (prov_relation w)) seen)
     (map prov_candidate_id seen) ws
   = gate_errors (provider_check parse) seen ws"
proof (induction ws arbitrary: seen)
  case Nil
  then show ?case by simp
next
  case (Cons w ws)
  from Cons.IH [of "w # seen"] show ?case by (simp add: provider_check_def)
qed

lemma relation_id_errors_Nil:
  "relation_id_errors seen rid = [] \<longleftrightarrow> rid \<noteq> [] \<and> rid \<notin> set seen"
  by (simp add: relation_id_errors_def)

lemma relation_errors_Nil:
  "relation_errors parse r = [] \<longleftrightarrow>
     validate_relation parse (rel_head_type r) (rel_type r) (rel_tail_type r) (rel_props r)
       PNone PNone (Some (rel_head r)) (Some (rel_tail r)) = None"
  by (simp add: relation_errors_def split: option.split)

interpretation ext_ids: unique_batch "external_check parse" "\<lambda>r. relation_id_of (ext_relation r)"
  for parse
  by unfold_locales
    (auto simp: external_check_def external_reference_errors_def Let_def relation_id_errors_Nil)

interpretation ext_targets: unique_batch "external_check parse" "\<lambda>r. (ext_bundle_id r, ext_target_id r)"
  for parse
  by unfold_locales (auto simp: external_check_def external_reference_errors_def Let_def)

interpretation prov_ids: unique_batch "provider_check parse" "\<lambda>w. relation_id_of (prov_relation w)"
  for parse
  by unfold_locales
    (auto simp: provider_check_def provider_relation_errors_def Let_def relation_id_errors_Nil)

interpretation prov_candidates: unique_batch "provider_check parse" prov_candidate_id
  for parse
  by unfold_locales
    (auto simp: provider_check_def provider_relation_errors_def Let_def split: if_splits)

definition external_reference_sound :: "parse_datetime \<Rightarrow> external_reference \<Rightarrow> bool" where
  "external_reference_sound parse ref \<longleftrightarrow>
     (let r = ext_relation ref in
      rel_type r = ''REFERS_TO'' \<and> relation_id_of r \<noteq> []
      \<and> (rel_head r, rel_tail r) = (ext_source_id ref, ext_target_id ref)
      \<and> (rel_head_type r, rel_tail_type r) = (ext_source_type ref, ext_target_type ref)
      \<and> getp (rel_props r) ''reference_bundle_id'' = PStr (ext_bundle_id ref)
      \<and> (ext_source_document_id ref \<noteq> ext_target_document_id ref
           \<or> getp (rel_props r) ''source_ownership'' = PStr ''PROJECTED'')
      \<and> validate_relation parse (rel_head_type r) ''REFERS_TO'' (rel_tail_type r) (rel_props r)
           PNone PNone (Some (rel_head r)) (Some (rel_tail r)) = None)"

lemma external_check_sound: "external_check parse seen ref = [] \<Longrightarrow> external_reference_sound parse ref"
  by (auto simp: external_check_def external_reference_errors_def external_reference_sound_def Let_def
      relation_id_errors_Nil relation_errors_Nil)

text \<open>
  An external reference batch that receives its validation token is not empty, holds the input
  unchanged, has pairwise distinct relation identifiers and pairwise distinct (bundle, target)
  pairs, and every item is a REFERS_TO relation the ontology accepts whose wrapper agrees with the
  relation and which leaves its document unless it is a projection.
\<close>

theorem external_batch_sound:
  assumes "validate_external_relation_batch parse refs build snapshot provenance = Inr b"
  shows "batch_items b = refs \<and> refs \<noteq> []
     \<and> distinct (map (\<lambda>r. relation_id_of (ext_relation r)) refs)
     \<and> distinct (map (\<lambda>r. (ext_bundle_id r, ext_target_id r)) refs)
     \<and> (\<forall>ref \<in> set refs. external_reference_sound parse ref)"
proof -
  have b: "batch_items b = refs" "refs \<noteq> []" "external_batch_errors parse [] [] refs = []"
    using assms by (auto simp: validate_external_relation_batch_def Let_def split: if_splits)
  then have clean: "gate_errors (external_check parse) [] refs = []"
    using external_batch_gate [of parse "[]" refs] by simp
  have "external_reference_sound parse ref" if "ref \<in> set refs" for ref
    using ext_ids.gate_clean_items [OF clean that] external_check_sound by blast
  with b(1,2) ext_ids.gate_clean_keys [OF clean] ext_targets.gate_clean_keys [OF clean]
  show ?thesis by (intro conjI ballI) simp_all
qed

definition sample_external_reference :: external_reference where
  "sample_external_reference =
     \<lparr>ext_relation = \<lparr>rel_head = ''A_a1'', rel_type = ''REFERS_TO'', rel_tail = ''B'',
        rel_head_type = ''Article'', rel_tail_type = ''Document'',
        rel_props = (''relation_id'', PStr ''r1'') # sample_reference_props\<rparr>,
      ext_source_id = ''A_a1'', ext_source_type = ''Article'', ext_source_document_id = ''A'',
      ext_source_ancestor_ids = [''A''], ext_target_id = ''B'', ext_target_type = ''Document'',
      ext_target_document_id = ''B'', ext_target_ancestor_ids = [], ext_bundle_id = ''b1''\<rparr>"

definition sample_batch :: "external_reference relation_batch" where
  "sample_batch =
     \<lparr>batch_items = [sample_external_reference], registry_build_id = ''build'',
      registry_snapshot_hash = ''s'', registry_provenance_hash = ''p'', batch_token = ValidationToken\<rparr>"

theorem external_batch_sound_witness:
  "external_reference_sound (\<lambda>s. Some True) sample_external_reference"
proof -
  have "external_batch_errors (\<lambda>s. Some True) [] [] [sample_external_reference] = []"
    by code_simp
  then have "validate_external_relation_batch (\<lambda>s. Some True) [sample_external_reference]
      ''build'' ''s'' ''p'' = Inr sample_batch"
    by (simp add: validate_external_relation_batch_def sample_batch_def err_def)
  from external_batch_sound [OF this] show ?thesis by simp
qed

definition provider_relation_sound :: "parse_datetime \<Rightarrow> provider_temporal_relation \<Rightarrow> bool" where
  "provider_relation_sound parse w \<longleftrightarrow>
     (let r = prov_relation w in
      rel_type r \<in> {''AMENDS'', ''REPEALS''} \<and> relation_id_of r \<noteq> []
      \<and> rel_head r \<noteq> rel_tail r \<and> present (rel_props r) ''effective_from''
      \<and> {rel_head_type r, rel_tail_type r} \<subseteq> set temporal_endpoint_types
      \<and> getp (rel_props r) ''provider_candidate_id'' = PStr (prov_candidate_id w))"

lemma provider_check_sound: "provider_check parse seen w = [] \<Longrightarrow> provider_relation_sound parse w"
  by (auto simp: provider_check_def provider_relation_errors_def provider_relation_sound_def Let_def
      relation_id_errors_Nil relation_errors_Nil dest: validate_relation_temporal)

text \<open>
  A provider temporal batch that receives its token is not empty, has pairwise distinct
  relation identifiers and provider candidates, and holds only AMENDS and REPEALS relations
  between distinct units of the four temporal labels, each with an effective date and its own
  provider candidate.
\<close>

theorem provider_batch_sound:
  assumes "validate_provider_temporal_relation_batch parse ws build snapshot provenance = Inr b"
  shows "batch_items b = ws \<and> ws \<noteq> []
     \<and> distinct (map (\<lambda>w. relation_id_of (prov_relation w)) ws)
     \<and> distinct (map prov_candidate_id ws)
     \<and> (\<forall>w \<in> set ws. provider_relation_sound parse w)"
proof -
  have b: "batch_items b = ws" "ws \<noteq> []" "provider_batch_errors parse [] [] ws = []"
    using assms by (auto simp: validate_provider_temporal_relation_batch_def Let_def split: if_splits)
  then have clean: "gate_errors (provider_check parse) [] ws = []"
    using provider_batch_gate [of parse "[]" ws] by simp
  have "provider_relation_sound parse w" if "w \<in> set ws" for w
    using prov_ids.gate_clean_items [OF clean that] provider_check_sound by blast
  with b(1,2) prov_ids.gate_clean_keys [OF clean] prov_candidates.gate_clean_keys [OF clean]
  show ?thesis by (intro conjI ballI) simp_all
qed

definition sample_provider_relation :: provider_temporal_relation where
  "sample_provider_relation =
     \<lparr>prov_relation = \<lparr>rel_head = ''A'', rel_type = ''AMENDS'', rel_tail = ''B_a1'',
        rel_head_type = ''Document'', rel_tail_type = ''Article'',
        rel_props = [(''relation_id'', PStr ''r1''), (''effective_from'', PStr ''2021-01-01''),
          (''provider_candidate_id'', PStr ''c1'')]\<rparr>,
      prov_source_document_id = ''A'', prov_target_document_id = ''B'', prov_candidate_id = ''c1''\<rparr>"

theorem provider_batch_sound_witness:
  "provider_relation_sound (\<lambda>s. Some True) sample_provider_relation"
proof -
  have "provider_batch_errors (\<lambda>s. Some True) [] [] [sample_provider_relation] = []"
    by code_simp
  then obtain b where "validate_provider_temporal_relation_batch (\<lambda>s. Some True)
      [sample_provider_relation] ''build'' ''s'' ''p'' = Inr b"
    by (simp add: validate_provider_temporal_relation_batch_def err_def)
  from provider_batch_sound [OF this] show ?thesis by simp
qed

end
