(* ===== verification/Retrieval_Model.thy ===== *)
theory Retrieval_Model
  imports Ontology_Validators
begin

text \<open>
  The data of the retrieval subsystem: the versioned public contract
  (\<open>src/shared/retrieval_contract.py\<close>), the internal DTOs (\<open>src/retrieval/models.py\<close>), the
  configuration and the mapping of repository rows to retrieved units. A pydantic model is a
  record with a \<open>make_\<dots>\<close> function for its validators; a \<open>ValidationError\<close> that would list
  several failing fields is the first of them.
\<close>

subsection \<open>Enumerations\<close>

datatype intent = Factual | Validity | Hierarchy | Comparison | Definition | MultiHop

datatype channel = VectorChannel | FulltextChannel | GraphChannel

fun channel_value :: "channel \<Rightarrow> str" where
  "channel_value VectorChannel = ''vector''"
| "channel_value FulltextChannel = ''fulltext''"
| "channel_value GraphChannel = ''graph''"

datatype strategy =
    FactualHybrid | DefinitionGraph | ValidityTemporal | HierarchyGraph | ComparisonTemporal
  | MultiHopHybrid

datatype capability =
    HybridSeedAndSemanticGraph | LexicalDefinition | SemanticMultiHopGraph
  | ScopedTemporalMetadata | CorpusCompleteCurrentValidity | VersionChainValidity
  | StructuralHierarchy | GuidesRelations | MultipleVersions

datatype temporal_source =
    NoTemporal | RequestDate | QueryExpression | InjectedCurrentDate | InjectedDefaultCurrentDate

datatype decision_reason =
    FactualDefault | ExplicitReferenceLookup | DefinitionExplicit | ValidityExplicitDate
  | ValidityCurrentDate | HierarchyExplicit | ComparisonExplicit | MultiHopExplicit
  | ForcedIntent | IntentClassifierLLM

datatype relation_goal = GoalRefersTo | GoalDefines | GoalRegulates | GoalGuides

fun relation_goal_value :: "relation_goal \<Rightarrow> str" where
  "relation_goal_value GoalRefersTo = ''REFERS_TO''"
| "relation_goal_value GoalDefines = ''DEFINES''"
| "relation_goal_value GoalRegulates = ''REGULATES''"
| "relation_goal_value GoalGuides = ''GUIDES''"

subsection \<open>Requests\<close>

datatype contract_error =
    BlankFilterValue
  | DuplicateFilterValue
  | QueryLength
  | BlankQuery
  | LimitOutOfRange
  | BlankSubqueryField
  | BlankDependency
  | DuplicateDependency
  | ClarificationHasPlan
  | ClarificationHasSubqueries
  | ClarificationNeedsQuestion
  | ReadyNeedsQuery
  | ReadyNeedsPlanType
  | ReadyNeedsSubqueries
  | ReadyHasClarification
  | DuplicateSubqueryId str
  | UnknownDependency str str
  | NotReady
  | GoalWithoutReference
  | TooManyReferences
  | FinalExceedsCandidate
  | NoSeedChannel
  | BlankRerankerModel

text \<open>Stripping every value of a list and refusing blanks and duplicates.\<close>

definition unique_non_blank :: "'e \<Rightarrow> 'e \<Rightarrow> str list \<Rightarrow> 'e + str list" where
  "unique_non_blank blank dup values =
     (let normalized = map py_strip values in
      if [] \<in> set normalized then Inl blank
      else if \<not> distinct normalized then Inl dup
      else Inr normalized)"

record filters =
  document_ids :: "str list"
  doc_types :: "str list"
  legal_statuses :: "str list"
  query_date :: "date option"

definition no_filters :: filters where
  "no_filters = \<lparr>document_ids = [], doc_types = [], legal_statuses = [], query_date = None\<rparr>"

definition validate_filter_values :: "str list \<Rightarrow> contract_error + str list" where
  "validate_filter_values = unique_non_blank BlankFilterValue DuplicateFilterValue"

definition make_filters ::
  "str list \<Rightarrow> str list \<Rightarrow> str list \<Rightarrow> date option \<Rightarrow> contract_error + filters" where
  "make_filters ids types statuses day =
     rbind (validate_filter_values ids) (\<lambda>i.
     rbind (validate_filter_values types) (\<lambda>t.
     rbind (validate_filter_values statuses) (\<lambda>s.
       Inr \<lparr>document_ids = i, doc_types = t, legal_statuses = s, query_date = day\<rparr>)))"

record request =
  req_query :: str
  req_filters :: filters
  req_top_k :: "nat option"
  req_final_k :: "nat option"
  req_force_intent :: "intent option"
  req_enable_reranker :: "bool option"

definition limit_ok :: "nat option \<Rightarrow> bool" where
  "limit_ok k = (case k of None \<Rightarrow> True | Some n \<Rightarrow> 1 \<le> n \<and> n \<le> 200)"

definition make_request ::
  "str \<Rightarrow> filters \<Rightarrow> nat option \<Rightarrow> nat option \<Rightarrow> intent option \<Rightarrow> bool option
     \<Rightarrow> contract_error + request" where
  "make_request query fs top_k final_k force rerank =
     rbind (require (1 \<le> py_len query \<and> py_len query \<le> 4000) QueryLength) (\<lambda>_.
     rbind (require (py_strip query \<noteq> []) BlankQuery) (\<lambda>_.
     rbind (require (limit_ok top_k \<and> limit_ok final_k) LimitOutOfRange) (\<lambda>_.
       Inr \<lparr>req_query = py_strip query, req_filters = fs, req_top_k = top_k,
            req_final_k = final_k, req_force_intent = force, req_enable_reranker = rerank\<rparr>)))"

subsection \<open>The query-processing contract\<close>

datatype processing_status = Ready | NeedsClarification
datatype plan_type = SinglePlan | ParallelPlan | ComparisonPlan | MultiHopPlan
datatype subquery_intent = SubFactual | SubDefinition | SubValidity | SubHierarchy

fun subquery_intent_to_intent :: "subquery_intent \<Rightarrow> intent" where
  "subquery_intent_to_intent SubFactual = Factual"
| "subquery_intent_to_intent SubDefinition = Definition"
| "subquery_intent_to_intent SubValidity = Validity"
| "subquery_intent_to_intent SubHierarchy = Hierarchy"

record subquery =
  sub_id :: str
  sub_query :: str
  sub_intent :: subquery_intent
  sub_depends_on :: "str list"

definition make_subquery ::
  "str \<Rightarrow> str \<Rightarrow> subquery_intent \<Rightarrow> str list \<Rightarrow> contract_error + subquery" where
  "make_subquery i q intent deps =
     rbind (require (py_strip i \<noteq> [] \<and> py_strip q \<noteq> []) BlankSubqueryField) (\<lambda>_.
     rbind (unique_non_blank BlankDependency DuplicateDependency deps) (\<lambda>ds.
       Inr \<lparr>sub_id = py_strip i, sub_query = py_strip q, sub_intent = intent,
            sub_depends_on = ds\<rparr>))"

record processing_result =
  pr_status :: processing_status
  pr_standalone_query :: "str option"
  pr_plan_type :: "plan_type option"
  pr_subqueries :: "subquery list"
  pr_clarification :: "str option"

text \<open>\<open>x and x.strip()\<close> as a condition.\<close>

definition says_something :: "str option \<Rightarrow> bool" where
  "says_something t = (case t of None \<Rightarrow> False | Some s \<Rightarrow> py_strip s \<noteq> [])"

fun check_subqueries :: "str list \<Rightarrow> subquery list \<Rightarrow> contract_error option" where
  "check_subqueries seen [] = None"
| "check_subqueries seen (q # qs) =
     (if sub_id q \<in> set seen then Some (DuplicateSubqueryId (sub_id q))
      else case find (\<lambda>d. d \<notin> set seen) (sub_depends_on q) of
        Some d \<Rightarrow> Some (UnknownDependency (sub_id q) d)
      | None \<Rightarrow> check_subqueries (sub_id q # seen) qs)"

definition validate_contract :: "processing_result \<Rightarrow> contract_error + processing_result" where
  "validate_contract r =
     rbind (case pr_status r of
        NeedsClarification \<Rightarrow>
          rbind (require (pr_standalone_query r = None \<and> pr_plan_type r = None) ClarificationHasPlan)
            (\<lambda>_. rbind (require (pr_subqueries r = []) ClarificationHasSubqueries)
            (\<lambda>_. require (says_something (pr_clarification r)) ClarificationNeedsQuestion))
      | Ready \<Rightarrow>
          rbind (require (says_something (pr_standalone_query r)) ReadyNeedsQuery)
            (\<lambda>_. rbind (require (pr_plan_type r \<noteq> None) ReadyNeedsPlanType)
            (\<lambda>_. rbind (require (pr_subqueries r \<noteq> []) ReadyNeedsSubqueries)
            (\<lambda>_. require (pr_clarification r = None) ReadyHasClarification))))
     (\<lambda>_. case check_subqueries [] (pr_subqueries r) of Some e \<Rightarrow> Inl e | None \<Rightarrow> Inr r)"

text \<open>
  \<open>subqueries[0]\<close> of a result that was built without validation would raise; a validated ready
  result never gets there (\<open>primary_intent_defined\<close>).
\<close>

definition primary_intent :: "processing_result \<Rightarrow> contract_error + intent" where
  "primary_intent r =
     (if pr_status r \<noteq> Ready then Inl NotReady
      else if pr_plan_type r = Some ComparisonPlan then Inr Comparison
      else if pr_plan_type r = Some MultiHopPlan then Inr MultiHop
      else case pr_subqueries r of
        [] \<Rightarrow> Inl ReadyNeedsSubqueries
      | q # _ \<Rightarrow> Inr (subquery_intent_to_intent (sub_intent q)))"

end
