(* ===== verification/Py_Text.thy ===== *)
theory Py_Text
  imports Prelude
begin

text \<open>
  Further operations of Python's \<open>str\<close> on UTF-8 bytes, with the facts the components use:
  \<open>str.split()\<close> on white space, \<open>" ".join\<close>, and when \<open>strip\<close> changes nothing.
\<close>

subsection \<open>strip\<close>

lemma ws_at_take: "ws_at s = 0 \<Longrightarrow> ws_at (take n s) = 0"
proof -
  assume z: "ws_at s = 0"
  show ?thesis
  proof (cases "take n s")
    case Nil
    then show ?thesis by (simp only: Nil) (simp add: ws_at_def)
  next
    case (Cons c cs)
    then obtain s' where s: "s = c # s'" by (cases s) (auto simp: take_Cons split: nat.splits)
    have none: "find (\<lambda>w. prefix w s) ws_wide = None" if "digit7 c"
    proof (cases "find (\<lambda>w. prefix w s) ws_wide")
      case (Some w)
      then have "w \<in> set ws_wide" by (auto simp: find_Some_iff)
      with z that Some ws_wide_nonempty show ?thesis by (auto simp: ws_at_def s)
    qed
    have "\<not> prefix w (take n s)" if "digit7 c" "w \<in> set ws_wide" for w
      using none [OF that(1)] that(2) by (metis append_take_drop_id find_None_iff prefix_prefix)
    then have "digit7 c \<Longrightarrow> find (\<lambda>w. prefix w (c # cs)) ws_wide = None"
      by (auto simp: find_None_iff Cons)
    then have "ws_at (c # cs) = 0" using z by (auto simp: ws_at_def s split: if_splits)
    then show ?thesis by (simp only: Cons)
  qed
qed

lemma lstrip_no_ws: "ws_at s = 0 \<Longrightarrow> lstrip s = s"
  by (simp add: lstrip.simps [of s])

lemma ws_at_lstrip: "ws_at (lstrip s) = 0"
  by (induction s rule: lstrip.induct) (metis lstrip.simps)

lemma rstrip_rev_suffix: "\<exists>n. rstrip_rev r = drop n r"
proof (induction r rule: rstrip_rev.induct)
  case (1 r)
  show ?case
  proof (cases "ws_before r = 0")
    case True
    then show ?thesis by (metis drop_0 rstrip_rev.simps)
  next
    case False
    with 1 show ?thesis by (metis drop_drop rstrip_rev.simps)
  qed
qed

lemma lstrip_strip: "lstrip (rev (rstrip_rev (rev (lstrip s)))) = rev (rstrip_rev (rev (lstrip s)))"
proof -
  obtain n where "rstrip_rev (rev (lstrip s)) = drop n (rev (lstrip s))"
    using rstrip_rev_suffix by blast
  then have "rev (rstrip_rev (rev (lstrip s))) = take (length (lstrip s) - n) (lstrip s)"
    by (simp add: rev_drop)
  then show ?thesis by (simp add: lstrip_no_ws ws_at_take ws_at_lstrip)
qed

lemma py_strip_idem [simp]: "py_strip (py_strip s) = py_strip s"
  by (simp add: py_strip_def lstrip_strip)

text \<open>A printable ASCII character: never part of white space.\<close>

definition plain_char :: "char \<Rightarrow> bool" where
  "plain_char c \<longleftrightarrow> \<not> digit7 c \<and> c \<notin> set ws_ascii"

lemma plain_ws_at: "s \<noteq> [] \<Longrightarrow> plain_char (hd s) \<Longrightarrow> ws_at s = 0"
  by (cases s) (simp_all add: ws_at_def plain_char_def)

lemma plain_ws_before: "r \<noteq> [] \<Longrightarrow> plain_char (hd r) \<Longrightarrow> ws_before r = 0"
  by (cases r) (simp_all add: ws_before_def plain_char_def)

lemma py_strip_plain:
  assumes "s \<noteq> []" and "plain_char (hd s)" and "plain_char (last s)"
  shows "py_strip s = s"
proof -
  have "lstrip s = s" using assms by (simp add: lstrip_no_ws plain_ws_at)
  moreover have "rstrip_rev (rev s) = rev s"
    using assms by (simp add: rstrip_rev.simps [of "rev s"] plain_ws_before hd_rev)
  ultimately show ?thesis by (simp add: py_strip_def)
qed

text \<open>Stripping keeps every plain character.\<close>

lemma ws_wide_high: "w \<in> set ws_wide \<Longrightarrow> c \<in> set w \<Longrightarrow> digit7 c"
proof -
  have "list_all (list_all digit7) ws_wide" by code_simp
  then show "w \<in> set ws_wide \<Longrightarrow> c \<in> set w \<Longrightarrow> digit7 c" by (auto simp: list_all_iff)
qed

lemma plain_not_before: "c \<in> set (take (ws_before r) r) \<Longrightarrow> \<not> plain_char c"
proof (cases r)
  case (Cons d ds)
  assume c: "c \<in> set (take (ws_before r) r)"
  show ?thesis
  proof (cases "digit7 d")
    case True
    show ?thesis
    proof (cases "find (\<lambda>w. prefix (rev w) r) ws_wide")
      case None
      with c True Cons show ?thesis by (simp add: ws_before_def)
    next
      case (Some w)
      then have w: "w \<in> set ws_wide" "prefix (rev w) r" by (auto simp: find_Some_iff)
      moreover have "ws_before r = length w" using Some True Cons by (simp add: ws_before_def)
      ultimately have "c \<in> set w" using c by (auto simp: prefix_def)
      with ws_wide_high [OF w(1)] show ?thesis by (auto simp: plain_char_def)
    qed
  next
    case False
    with c Cons show ?thesis by (auto simp: ws_before_def plain_char_def split: if_splits)
  qed
qed simp

lemma rstrip_rev_keeps: "c \<in> set r \<Longrightarrow> plain_char c \<Longrightarrow> c \<in> set (rstrip_rev r)"
proof (induction r rule: rstrip_rev.induct)
  case (1 r)
  show ?case
  proof (cases "ws_before r = 0")
    case True
    with 1 show ?thesis by (simp add: rstrip_rev.simps [of r])
  next
    case False
    have "c \<in> set (drop (ws_before r) r)"
      using 1(2,3) plain_not_before by (metis append_take_drop_id Un_iff set_append)
    with 1 False show ?thesis by (simp add: rstrip_rev.simps [of r])
  qed
qed

lemma py_strip_plain_head:
  assumes "plain_char c"
  shows "py_strip (c # s) \<noteq> []"
proof -
  have "lstrip (c # s) = c # s" using assms by (simp add: lstrip_no_ws plain_ws_at)
  moreover have "c \<in> set (rstrip_rev (rev (c # s)))"
    using assms by (intro rstrip_rev_keeps) simp_all
  ultimately show ?thesis by (auto simp: py_strip_def)
qed

subsection \<open>split\<close>

function split_from :: "str \<Rightarrow> str \<Rightarrow> str list" where
  "split_from cur s =
     (case s of
        [] \<Rightarrow> (if cur = [] then [] else [rev cur])
      | c # cs \<Rightarrow>
          if ws_at s = 0 then split_from (c # cur) cs
          else (if cur = [] then [] else [rev cur]) @ split_from [] (drop (ws_at s) s))"
  by pat_completeness auto
termination by (relation "measure (length \<circ> snd)") auto

declare split_from.simps [simp del]

definition py_split :: "str \<Rightarrow> str list" where
  "py_split s = split_from [] s"

lemma split_from_nonempty: "t \<in> set (split_from cur s) \<Longrightarrow> t \<noteq> []"
proof (induction cur s rule: split_from.induct)
  case (1 cur s)
  then show ?case
    by (subst (asm) (3) split_from.simps) (auto split: list.splits if_splits)
qed

lemma py_split_nonempty: "t \<in> set (py_split s) \<Longrightarrow> t \<noteq> []"
  by (auto simp: py_split_def dest: split_from_nonempty)

fun join :: "str \<Rightarrow> str list \<Rightarrow> str" where
  "join sep [] = []"
| "join sep [x] = x"
| "join sep (x # y # xs) = x @ sep @ join sep (y # xs)"

text \<open>\<open>" ".join(value.split())\<close>\<close>

definition squeeze :: "str \<Rightarrow> str" where
  "squeeze s = join '' '' (py_split s)"

lemma join_Nil_iff: "(\<And>x. x \<in> set xs \<Longrightarrow> x \<noteq> []) \<Longrightarrow> join sep xs = [] \<longleftrightarrow> xs = []"
  by (induction sep xs rule: join.induct) auto

lemma squeeze_Nil_iff: "squeeze s = [] \<longleftrightarrow> py_split s = []"
  by (simp add: squeeze_def join_Nil_iff py_split_nonempty)

end
