(* ===== verification/Retrieval_Units.thy ===== *)
theory Retrieval_Units
  imports Retrieval_Model Py_Text
begin

text \<open>
  Retrieved legal units and graph paths (\<open>src/retrieval/models.py\<close>), the mapping of repository
  rows to units (\<open>src/retrieval/mapping.py\<close>) and the citation labels and deep links
  (\<open>src/retrieval/citation.py\<close>). \<open>date.fromisoformat\<close> is the argument \<open>parse_date\<close> of the
  mapping. The Vietnamese words of the labels are written as their UTF-8 bytes.
\<close>

record temporal_query =
  has_temporal :: bool
  expression :: "str option"
  resolved_from :: "date option"
  resolved_to :: "date option"
  granularity :: "str option"
  parse_error :: "str option"
  requests_current_validity :: bool
  spans_all_versions :: bool

record retrieved_unit =
  unit_id :: str
  unit_label :: str
  content_raw :: str
  unit_title :: "str option"
  unit_document_id :: str
  unit_document_number :: "str option"
  unit_document_title :: "str option"
  source_url :: "str option"
  article_id :: "str option"
  clause_id :: "str option"
  article_number :: "str option"
  clause_number :: "str option"
  appendix_number :: "str option"
  version_family_id :: "str option"
  unit_effective_from :: "date option"
  unit_effective_to :: "date option"
  unit_legal_status :: "str option"
  vector_score :: "float option"
  bm25_score :: "float option"
  graph_score :: "float option"
  rerank_score :: "float option"
  final_score :: "float option"
  citation_label :: str
  deep_link :: str
  retrieval_sources :: "str list"

record graph_node =
  gn_node_id :: str
  gn_labels :: "str list"
  gn_effective_from :: "date option"
  gn_effective_to :: "date option"
  gn_legal_status :: "str option"
  gn_citable_unit_id :: "str option"

record citation_evidence =
  ce_relation_id :: str
  ce_citation_text :: "str option"
  ce_citation_type :: "str option"
  ce_extraction_method :: "str option"

record graph_edge =
  ge_relation_id :: str
  ge_relation_type :: str
  ge_source_id :: str
  ge_target_id :: str
  ge_effective_from :: "date option"
  ge_effective_to :: "date option"
  ge_citation_evidence :: "citation_evidence list"

record graph_path =
  gp_nodes :: "graph_node list"
  gp_edges :: "graph_edge list"
  gp_description :: str

record graph_diagnostics =
  accepted_path_count :: nat
  temporal_rejected_path_count :: nat
  malformed_path_count :: nat

record graph_expansion =
  exp_paths :: "graph_path list"
  exp_units :: "retrieved_unit list"
  exp_diagnostics :: graph_diagnostics

definition empty_expansion :: graph_expansion where
  "empty_expansion =
     \<lparr>exp_paths = [], exp_units = [],
      exp_diagnostics = \<lparr>accepted_path_count = 0, temporal_rejected_path_count = 0,
                         malformed_path_count = 0\<rparr>\<rparr>"

record anchor_hydration =
  matched_anchor_ids :: "str list"
  hydrated_units :: "retrieved_unit list"

definition no_hydration :: anchor_hydration where
  "no_hydration = \<lparr>matched_anchor_ids = [], hydrated_units = []\<rparr>"

subsection \<open>Citation labels and deep links\<close>

definition van_ban :: str where
  "van_ban = ''V'' @ [CHR 0xC4, CHR 0x83] @ ''n b'' @ [CHR 0xE1, CHR 0xBA, CHR 0xA3] @ ''n''"

definition phu_luc :: str where
  "phu_luc = ''Ph'' @ [CHR 0xE1, CHR 0xBB, CHR 0xA5] @ '' l'' @ [CHR 0xE1, CHR 0xBB, CHR 0xA5] @ ''c''"

definition dieu :: str where
  "dieu = [CHR 0xC4, CHR 0x90] @ ''i'' @ [CHR 0xE1, CHR 0xBB, CHR 0x81] @ ''u''"

definition khoan :: str where
  "khoan = ''Kho'' @ [CHR 0xE1, CHR 0xBA, CHR 0xA3] @ ''n''"

definition numbered :: "str \<Rightarrow> str option \<Rightarrow> str" where
  "numbered word n = word @ '' '' @ str_or n []"

definition build_citation_label ::
  "str \<Rightarrow> str option \<Rightarrow> str option \<Rightarrow> str option \<Rightarrow> str option \<Rightarrow> str" where
  "build_citation_label label doc_num art_num cl_num app_num =
     (let parts =
        (if label = ''Document'' then [van_ban]
         else if label = ''Appendix'' then
           [if truthy_str app_num then numbered phu_luc app_num else phu_luc]
         else if truthy_str art_num then [numbered dieu art_num] else [])
        @ (if label = ''Clause'' \<and> truthy_str cl_num then [numbered khoan cl_num] else [])
        @ (if label \<noteq> ''Appendix'' \<and> truthy_str app_num
           then [numbered phu_luc app_num] else []);
        named = (if parts = [] then [label] else parts)
      in join '', '' (named @ (if truthy_str doc_num then [str_or doc_num []] else [])))"

text \<open>\<open>urllib.parse.quote(s, safe='')\<close>: percent-encoding of the UTF-8 bytes.\<close>

definition hex_digit :: "nat \<Rightarrow> char" where
  "hex_digit n = (if n < 10 then char_of (48 + n) else char_of (55 + n))"

definition unreserved :: "char \<Rightarrow> bool" where
  "unreserved c \<longleftrightarrow>
     (let n = (of_char c :: nat) in
      (48 \<le> n \<and> n \<le> 57) \<or> (65 \<le> n \<and> n \<le> 90) \<or> (97 \<le> n \<and> n \<le> 122)
      \<or> n = 95 \<or> n = 46 \<or> n = 45 \<or> n = 126)"

definition quote_byte :: "char \<Rightarrow> str" where
  "quote_byte c =
     (if unreserved c then [c]
      else (let n = (of_char c :: nat) in [CHR ''%'', hex_digit (n div 16), hex_digit (n mod 16)]))"

definition quote :: "str \<Rightarrow> str" where
  "quote s = concat (map quote_byte s)"

definition build_deep_link :: "str \<Rightarrow> str \<Rightarrow> str" where
  "build_deep_link did uid = ''/documents/'' @ quote did @ ''/units/'' @ quote uid"

subsection \<open>Repository rows\<close>

datatype record_error =
    MissingRepositoryField str
  | UnsupportedLabel str
  | RowRequiresArticle str
  | RowRequiresClause
  | NotADate pv
  | NotAScore pv

text \<open>\<open>str(value).strip() or None\<close>\<close>

definition optional_text :: "pv \<Rightarrow> str option" where
  "optional_text v =
     (if v = PNone then None
      else let t = py_strip (py_str v) in if t = [] then None else Some t)"

definition row_required_text :: "props \<Rightarrow> str \<Rightarrow> record_error + str" where
  "row_required_text row f =
     (case optional_text (getp row f) of None \<Rightarrow> Inl (MissingRepositoryField f) | Some t \<Rightarrow> Inr t)"

text \<open>\<open>s.split("T")[0]\<close>\<close>

definition before_T :: "str \<Rightarrow> str" where
  "before_T s = takeWhile (\<lambda>c. c \<noteq> CHR ''T'') s"

text \<open>
  \<open>_native_date\<close>. A value with a time of day has no date the model field accepts; its
  \<open>ValidationError\<close> is \<open>NotADate\<close> too.
\<close>

definition row_native_date :: "(str \<Rightarrow> date option) \<Rightarrow> pv \<Rightarrow> record_error + date option" where
  "row_native_date parse_date v =
     (case v of
        PNone \<Rightarrow> Inr None
      | PStr s \<Rightarrow>
          if s = [] then Inr None
          else (case parse_date (before_T s) of None \<Rightarrow> Inl (NotADate v) | Some d \<Rightarrow> Inr (Some d))
      | PDate d t \<Rightarrow> Inr (Some d)
      | PDatetime aware d t \<Rightarrow> (case d of None \<Rightarrow> Inl (NotADate v) | Some x \<Rightarrow> Inr (Some x))
      | PIso i d t \<Rightarrow> (case d of None \<Rightarrow> Inl (NotADate v) | Some x \<Rightarrow> Inr (Some x))
      | _ \<Rightarrow> Inl (NotADate v))"

datatype score_field = VectorScore | Bm25Score | GraphScore

text \<open>\<open>float(value)\<close> on the values a repository returns.\<close>

definition py_float :: "pv \<Rightarrow> record_error + float" where
  "py_float v =
     (case v of PInt i \<Rightarrow> Inr (fl (of_int i)) | PFloat q t \<Rightarrow> Inr q
      | PBool b \<Rightarrow> Inr (if b then 1 else 0) | _ \<Rightarrow> Inl (NotAScore v))"

fun score_source :: "score_field \<Rightarrow> str" where
  "score_source VectorScore = ''vector''"
| "score_source Bm25Score = ''fulltext''"
| "score_source GraphScore = ''graph''"

definition retrieved_labels :: "str list" where
  "retrieved_labels = [''Document'', ''Appendix'', ''Article'', ''Clause'', ''Point'']"

definition map_retrieved_unit ::
  "(str \<Rightarrow> date option) \<Rightarrow> props \<Rightarrow> score_field option \<Rightarrow> record_error + retrieved_unit" where
  "map_retrieved_unit parse_date row sf =
     rbind (row_required_text row ''id'') (\<lambda>uid.
     rbind (row_required_text row ''document_id'') (\<lambda>did.
     rbind (row_required_text row ''label'') (\<lambda>label.
     rbind (require (label \<in> set retrieved_labels) (UnsupportedLabel label)) (\<lambda>_.
     let txt = (\<lambda>f. optional_text (getp row f)) in
     rbind (require (label \<in> set [''Article'', ''Clause'', ''Point''] \<longrightarrow> txt ''article_id'' \<noteq> None)
              (RowRequiresArticle label)) (\<lambda>_.
     rbind (require (label = ''Clause'' \<longrightarrow> txt ''clause_id'' \<noteq> None) RowRequiresClause) (\<lambda>_.
     rbind (case sf of None \<Rightarrow> Inr 0
            | Some f \<Rightarrow> (case map_of row ''score'' of None \<Rightarrow> Inr 0 | Some v \<Rightarrow> py_float v)) (\<lambda>score.
     rbind (row_native_date parse_date (getp row ''effective_from'')) (\<lambda>efrom.
     rbind (row_native_date parse_date (getp row ''effective_to'')) (\<lambda>eto.
       Inr \<lparr>unit_id = uid, unit_label = label,
            content_raw = (let v = getp row ''content_raw'' in if truthy v then py_str v else []),
            unit_title = txt ''title'', unit_document_id = did,
            unit_document_number = txt ''document_number'',
            unit_document_title = txt ''document_title'', source_url = txt ''source_url'',
            article_id = txt ''article_id'', clause_id = txt ''clause_id'',
            article_number = txt ''article_number'', clause_number = txt ''clause_number'',
            appendix_number = txt ''appendix_number'', version_family_id = txt ''version_family_id'',
            unit_effective_from = efrom, unit_effective_to = eto,
            unit_legal_status = txt ''legal_status'',
            vector_score = (if sf = Some VectorScore then Some score else None),
            bm25_score = (if sf = Some Bm25Score then Some score else None),
            graph_score = (if sf = Some GraphScore then Some score else None),
            rerank_score = None, final_score = None,
            citation_label = build_citation_label label (txt ''document_number'') (txt ''article_number'')
              (txt ''clause_number'') (txt ''appendix_number''),
            deep_link = build_deep_link did uid,
            retrieval_sources = (case sf of None \<Rightarrow> [] | Some f \<Rightarrow> [score_source f])\<rparr>)))))))))"

end
