(* ===== verification/Graph_Paths.thy ===== *)
theory Graph_Paths
  imports Retrieval_Units
begin

text \<open>
  Graph expansion: mapping repository rows to canonical paths, the topology fingerprint
  (\<open>src/retrieval/path_identity.py\<close>), temporal validity, ranking and deduplication of paths and
  the two entry points of \<open>GraphRetriever\<close> (\<open>src/retrieval/retriever/graph.py\<close>), with the
  traversal policies (\<open>src/retrieval/retriever/policies.py\<close>).

  The repository port is a function argument. The fingerprint of a path is \<open>digest\<close> of its
  topology, where the argument \<open>digest\<close> stands for the first 20 hexadecimal digits of SHA-256 of
  the canonical JSON text; results that need it assume that \<open>digest\<close> does not collide on the
  topologies at hand.
\<close>

subsection \<open>Typed failures\<close>

datatype path_fault =
    MissingText str
  | MissingLabels
  | NotADateValue pv
  | NonCanonicalRelation str
  | TemporalEdgeUndated str
  | PathCardinality
  | RepeatedRelationIds
  | NotAdjacent str

datatype exact_fault =
    DepthDiffers
  | NotAtAnchor
  | NotAtTarget
  | HasCycle
  | AnchorLabelDiffers
  | StepRelation nat
  | StepLabel nat
  | StepDirection nat

text \<open>\<open>src/retrieval/errors.py\<close>, one constructor per message of the retrieval subsystem.\<close>

datatype retrieval_error =
    QueryTooLong nat
  | LimitsViolated
  | PlanOnlyForMultiHop
  | FinalKTooSmall
  | CanonicalReferenceUnavailable
  | NoSeedChannelEnabled
  | TemporalParseFailed str
  | ValidityNeedsTemporalPoint
  | ComparisonNeedsTemporal
  | QueryDateConflict
  | ClassifierFailed
  | CapabilityMissing capability
  | RerankerMissing
  | GraphRetrieverMissing
  | PlannedExecutorMissing
  | VectorNotConfigured
  | FulltextNotConfigured
  | GraphNotSeedChannel
  | MalformedPath path_fault
  | RelationGoalIncompatible relation_goal intent
  | ExactPathInvalid exact_fault
  | ExecutionContractRejected
  | PlanFingerprintsAbsent
  | RecordRejected record_error
  | FingerprintFailed path_fault
  | TopNNotPositive
  | UnsupportedChannel str
  | TemporalNeedsFrom
  | EndpointOutsideScope
  | EndpointRowMalformed
  | EndpointLabelMismatch
  | EndpointRowsConflict
  | EndpointRejected

subsection \<open>Topology identity\<close>

type_synonym topology = "str list \<times> (str \<times> str \<times> str) list"

definition edge_topology :: "graph_edge \<Rightarrow> str \<times> str \<times> str" where
  "edge_topology e = (ge_relation_type e, ge_source_id e, ge_target_id e)"

definition topology_of :: "graph_path \<Rightarrow> topology" where
  "topology_of p = (map gn_node_id (gp_nodes p), map edge_topology (gp_edges p))"

definition connects :: "graph_node \<Rightarrow> graph_edge \<Rightarrow> graph_node \<Rightarrow> bool" where
  "connects l e r \<longleftrightarrow> {ge_source_id e, ge_target_id e} = {gn_node_id l, gn_node_id r}"

definition first_disconnected :: "graph_node list \<Rightarrow> graph_edge list \<Rightarrow> graph_edge option" where
  "first_disconnected nodes edges =
     map_option (\<lambda>(l, e, r). e)
       (find (\<lambda>(l, e, r). \<not> connects l e r) (zip nodes (zip edges (tl nodes))))"

definition build_topology_path_fingerprint ::
  "(topology \<Rightarrow> str) \<Rightarrow> graph_path \<Rightarrow> path_fault + str" where
  "build_topology_path_fingerprint digest p =
     (if gp_edges p = [] \<or> length (gp_nodes p) \<noteq> length (gp_edges p) + 1 then Inl PathCardinality
      else case first_disconnected (gp_nodes p) (gp_edges p) of
        Some e \<Rightarrow> Inl (NotAdjacent (ge_relation_id e))
      | None \<Rightarrow> Inr (''path_'' @ digest (topology_of p)))"

subsection \<open>Mapping rows to paths\<close>

record raw_node =
  rn_fields :: props
  rn_labels :: "pv list option"

record graph_row =
  row_node_refs :: "raw_node list"
  row_edge_refs :: "props list"
  row_fields :: props

definition path_required_text :: "pv \<Rightarrow> str \<Rightarrow> path_fault + str" where
  "path_required_text v field_name =
     (let t = (if v = PNone then [] else py_strip (py_str v)) in
      if t = [] then Inl (MissingText field_name) else Inr t)"

definition path_required_labels :: "pv list option \<Rightarrow> path_fault + str list" where
  "path_required_labels v =
     (case v of None \<Rightarrow> Inl MissingLabels
      | Some ls \<Rightarrow>
          let labels = filter (\<lambda>t. t \<noteq> []) (map (\<lambda>l. py_strip (py_str l)) ls) in
          if labels = [] then Inl MissingLabels else Inr labels)"

text \<open>\<open>_native_date\<close> of the graph module: strings are refused here.\<close>

definition path_native_date :: "pv \<Rightarrow> path_fault + date option" where
  "path_native_date v =
     (case v of
        PNone \<Rightarrow> Inr None
      | PDate d t \<Rightarrow> Inr (Some d)
      | PDatetime aware d t \<Rightarrow> (case d of None \<Rightarrow> Inl (NotADateValue v) | Some x \<Rightarrow> Inr (Some x))
      | PIso i d t \<Rightarrow> (case d of None \<Rightarrow> Inl (NotADateValue v) | Some x \<Rightarrow> Inr (Some x))
      | _ \<Rightarrow> Inl (NotADateValue v))"

definition map_graph_node :: "raw_node \<Rightarrow> path_fault + graph_node" where
  "map_graph_node raw =
     (let f = getp (rn_fields raw) in
      rbind (path_required_text (f ''node_id'') ''graph node ID'') (\<lambda>i.
      rbind (path_required_labels (rn_labels raw)) (\<lambda>ls.
      rbind (path_native_date (f ''effective_from'')) (\<lambda>efrom.
      rbind (path_native_date (f ''effective_to'')) (\<lambda>eto.
        Inr \<lparr>gn_node_id = i, gn_labels = ls, gn_effective_from = efrom, gn_effective_to = eto,
             gn_legal_status = optional_text (f ''legal_status''),
             gn_citable_unit_id = optional_text (f ''citable_unit_id'')\<rparr>)))))"

definition temporal_relations :: "str list" where
  "temporal_relations = [''AMENDS'', ''REPEALS'', ''REPLACES'']"

definition temporal_node_labels :: "str list" where
  "temporal_node_labels = [''Document'', ''Article'', ''Clause'']"

definition map_edge :: "props \<Rightarrow> path_fault + graph_edge" where
  "map_edge raw =
     (let f = getp raw in
      rbind (path_required_text (f ''relation_type'') ''relation type'') (\<lambda>rt.
      rbind (require (rt \<in> set relation_enum) (NonCanonicalRelation rt)) (\<lambda>_.
      rbind (path_native_date (f ''effective_from'')) (\<lambda>efrom.
      rbind (require (\<not> (rt \<in> set temporal_relations \<and> efrom = None)) (TemporalEdgeUndated rt)) (\<lambda>_.
      rbind (path_required_text (f ''relation_id'') ''relation ID'') (\<lambda>rid.
      rbind (path_required_text (f ''source_id'') ''edge source ID'') (\<lambda>src.
      rbind (path_required_text (f ''target_id'') ''edge target ID'') (\<lambda>tgt.
      rbind (path_native_date (f ''effective_to'')) (\<lambda>eto.
        Inr \<lparr>ge_relation_id = rid, ge_relation_type = rt, ge_source_id = src, ge_target_id = tgt,
             ge_effective_from = efrom, ge_effective_to = eto,
             ge_citation_evidence =
               (if rt = ''REFERS_TO'' then
                  [\<lparr>ce_relation_id = rid, ce_citation_text = optional_text (f ''citation_text''),
                    ce_citation_type = optional_text (f ''citation_type''),
                    ce_extraction_method = optional_text (f ''extraction_method'')\<rparr>]
                else [])\<rparr>)))))))))"

definition validate_path_shape :: "graph_node list \<Rightarrow> graph_edge list \<Rightarrow> path_fault option" where
  "validate_path_shape nodes edges =
     (if edges = [] \<or> length nodes \<noteq> length edges + 1 then Some PathCardinality
      else if \<not> distinct (map ge_relation_id edges) then Some RepeatedRelationIds
      else map_option (\<lambda>e. NotAdjacent (ge_relation_id e)) (first_disconnected nodes edges))"

fun describe_steps :: "graph_node \<Rightarrow> (graph_edge \<times> graph_node) list \<Rightarrow> str list" where
  "describe_steps current [] = []"
| "describe_steps current ((e, following) # steps) =
     (if ge_source_id e = gn_node_id current then ''-['' @ ge_relation_type e @ '']->''
      else ''<-['' @ ge_relation_type e @ '']-'')
     # gn_node_id following # describe_steps following steps"

definition describe_path :: "graph_node list \<Rightarrow> graph_edge list \<Rightarrow> str" where
  "describe_path nodes edges =
     (case nodes of [] \<Rightarrow> ''Empty graph path''
      | n # ns \<Rightarrow> join '' '' (gn_node_id n # describe_steps n (zip edges ns)))"

definition map_graph_path :: "graph_row \<Rightarrow> retrieval_error + graph_path" where
  "map_graph_path row =
     (case rbind (rmapm map_graph_node (row_node_refs row)) (\<lambda>nodes.
           rbind (rmapm map_edge (row_edge_refs row)) (\<lambda>edges.
           case validate_path_shape nodes edges of Some e \<Rightarrow> Inl e
           | None \<Rightarrow> Inr \<lparr>gp_nodes = nodes, gp_edges = edges,
                          gp_description = describe_path nodes edges\<rparr>)) of
        Inl e \<Rightarrow> Inl (MalformedPath e) | Inr p \<Rightarrow> Inr p)"

subsection \<open>Temporal validity\<close>

text \<open>The half-open interval test all the temporal checks of retrieval are instances of.\<close>

definition in_force :: "date option \<Rightarrow> date option \<Rightarrow> date \<Rightarrow> bool" where
  "in_force efrom eto d \<longleftrightarrow>
     (case efrom of None \<Rightarrow> True | Some a \<Rightarrow> a \<le> d) \<and> (case eto of None \<Rightarrow> True | Some b \<Rightarrow> d < b)"

definition node_temporally_valid :: "date \<Rightarrow> graph_node \<Rightarrow> bool" where
  "node_temporally_valid d n \<longleftrightarrow>
     set (gn_labels n) \<inter> set temporal_node_labels = {}
     \<or> (gn_effective_from n \<noteq> None \<and> in_force (gn_effective_from n) (gn_effective_to n) d)"

definition edge_temporally_valid :: "date \<Rightarrow> graph_edge \<Rightarrow> bool" where
  "edge_temporally_valid d e \<longleftrightarrow> in_force (ge_effective_from e) (ge_effective_to e) d"

definition is_graph_path_temporally_valid :: "graph_path \<Rightarrow> date option \<Rightarrow> bool" where
  "is_graph_path_temporally_valid p day =
     (case day of None \<Rightarrow> True
      | Some d \<Rightarrow> list_all (node_temporally_valid d) (gp_nodes p)
                \<and> list_all (edge_temporally_valid d) (gp_edges p))"

subsection \<open>Ranking and deduplication\<close>

type_synonym path_key = "nat \<times> str \<times> str \<times> str list \<times> str list \<times> str list"

definition graph_path_rank_key :: "graph_path \<Rightarrow> path_key" where
  "graph_path_rank_key p =
     (length (gp_edges p),
      (if gp_nodes p = [] then [] else gn_node_id (hd (gp_nodes p))),
      (if gp_nodes p = [] then [] else gn_node_id (last (gp_nodes p))),
      map ge_relation_type (gp_edges p),
      map gn_node_id (gp_nodes p),
      map ge_relation_id (gp_edges p))"

fun group_paths ::
  "(topology \<Rightarrow> str) \<Rightarrow> graph_path list \<Rightarrow> (str \<times> graph_path list) list
     \<Rightarrow> retrieval_error + (str \<times> graph_path list) list" where
  "group_paths digest [] d = Inr d"
| "group_paths digest (p # ps) d =
     (case build_topology_path_fingerprint digest p of
        Inl e \<Rightarrow> Inl (FingerprintFailed e)
      | Inr fp \<Rightarrow> group_paths digest ps (add_to_group fp p d))"

text \<open>
  The evidence of edge \<open>i\<close> in a group: a dictionary by relation, later paths overwriting earlier
  ones, read in the order of the keys. Paths of one group have one topology, so \<open>i\<close> is in range.
\<close>

definition group_citations :: "graph_path list \<Rightarrow> nat \<Rightarrow> (str \<times> citation_evidence) list" where
  "group_citations grp i =
     fold (\<lambda>ce d. AList.update (ce_relation_id ce) ce d)
       (concat (map (\<lambda>p. if i < length (gp_edges p) then ge_citation_evidence (gp_edges p ! i) else [])
          grp)) []"

definition merged_edge :: "graph_path list \<Rightarrow> nat \<Rightarrow> graph_edge \<Rightarrow> graph_edge" where
  "merged_edge grp i e =
     e\<lparr>ge_citation_evidence := map snd (sort_key fst (group_citations grp i))\<rparr>"

definition merge_group :: "graph_path list \<Rightarrow> graph_path" where
  "merge_group grp =
     (let canonical = hd (sort_key graph_path_rank_key grp);
          edges = map2 (merged_edge grp) [0..<length (gp_edges canonical)] (gp_edges canonical)
      in canonical\<lparr>gp_edges := edges, gp_description := describe_path (gp_nodes canonical) edges\<rparr>)"

definition deduplicate_topology_paths ::
  "(topology \<Rightarrow> str) \<Rightarrow> graph_path list \<Rightarrow> retrieval_error + graph_path list" where
  "deduplicate_topology_paths digest ps =
     rbind (group_paths digest ps []) (\<lambda>d. Inr (map (\<lambda>(fp, g). merge_group g) d))"

definition rank_paths :: "graph_path list \<Rightarrow> graph_path list" where
  "rank_paths ps = sort_key graph_path_rank_key ps"

subsection \<open>Traversal policies\<close>

datatype direction = Outgoing | Incoming | Both

record traversal_policy =
  pol_relations :: "str list"
  pol_max_depth :: nat
  pol_direction :: direction

fun policy_for :: "intent \<Rightarrow> traversal_policy" where
  "policy_for Factual =
     \<lparr>pol_relations = [''REGULATES'', ''DEFINES'', ''REQUIRES'', ''REFERS_TO''], pol_max_depth = 2,
      pol_direction = Outgoing\<rparr>"
| "policy_for Validity =
     \<lparr>pol_relations = [''AMENDS'', ''REPLACES'', ''REPEALS''], pol_max_depth = 3, pol_direction = Both\<rparr>"
| "policy_for Hierarchy =
     \<lparr>pol_relations = [''GUIDES'', ''CONTAINS''], pol_max_depth = 3, pol_direction = Both\<rparr>"
| "policy_for Comparison =
     \<lparr>pol_relations = [''AMENDS'', ''REPLACES''], pol_max_depth = 5, pol_direction = Both\<rparr>"
| "policy_for Definition =
     \<lparr>pol_relations = [''DEFINES''], pol_max_depth = 1, pol_direction = Outgoing\<rparr>"
| "policy_for MultiHop =
     \<lparr>pol_relations = [''ISSUED_BY'', ''CONTAINS'', ''GUIDES'', ''REFERS_TO'', ''AMENDS'', ''REPEALS'',
        ''REPLACES'', ''DEFINES'', ''REGULATES'', ''REQUIRES''], pol_max_depth = 3, pol_direction = Both\<rparr>"

subsection \<open>Expansion\<close>

type_synonym expansion_port = "str list \<Rightarrow> str list \<Rightarrow> direction \<Rightarrow> nat \<Rightarrow> filters \<Rightarrow> graph_row list"

definition row_names_unit :: "props \<Rightarrow> bool" where
  "row_names_unit row \<longleftrightarrow> truthy (getp row ''id'') \<and> truthy (getp row ''document_id'')"

definition scored_row :: "props \<Rightarrow> props" where
  "scored_row row = AList.update ''score'' (PFloat 0 ''0.0'') row"

text \<open>The row loop: accepted paths, units by identifier and the number of expired paths.\<close>

fun expand_rows ::
  "(str \<Rightarrow> date option) \<Rightarrow> date option \<Rightarrow> graph_row list
     \<Rightarrow> graph_path list \<times> (str \<times> retrieved_unit) list \<times> nat
     \<Rightarrow> retrieval_error + graph_path list \<times> (str \<times> retrieved_unit) list \<times> nat" where
  "expand_rows pd day [] acc = Inr acc"
| "expand_rows pd day (row # rows) (paths, units, rejected) =
     (case map_graph_path row of
        Inl e \<Rightarrow> Inl e
      | Inr p \<Rightarrow>
          if \<not> is_graph_path_temporally_valid p day
          then expand_rows pd day rows (paths, units, rejected + 1)
          else if row_names_unit (row_fields row) then
            (case map_retrieved_unit pd (scored_row (row_fields row)) (Some GraphScore) of
               Inl e \<Rightarrow> Inl (RecordRejected e)
             | Inr u \<Rightarrow> expand_rows pd day rows (paths @ [p], setdefault (unit_id u) u units, rejected))
          else expand_rows pd day rows (paths @ [p], units, rejected))"

definition occurrence_id :: "graph_node \<Rightarrow> str" where
  "occurrence_id n = str_or (gn_citable_unit_id n) (gn_node_id n)"

text \<open>The 1-based index of the first path that mentions a unit, \<open>len(paths) + 1\<close> if none does.\<close>

fun first_occurrence :: "graph_path list \<Rightarrow> str \<Rightarrow> nat" where
  "first_occurrence [] u = 1"
| "first_occurrence (p # ps) u =
     (if u \<in> occurrence_id ` set (gp_nodes p) then 1 else first_occurrence ps u + 1)"

definition unit_rank_key :: "graph_path list \<Rightarrow> retrieved_unit \<Rightarrow> nat \<times> str" where
  "unit_rank_key paths u = (first_occurrence paths (unit_id u), unit_id u)"

definition reciprocal_rank :: "nat \<Rightarrow> float" where
  "reciprocal_rank n = fdiv 1 (of_nat n)"

definition rank_graph_units :: "graph_path list \<Rightarrow> retrieved_unit list \<Rightarrow> retrieved_unit list" where
  "rank_graph_units paths units =
     (let sorted_units = sort_key (unit_rank_key paths) units in
      map2 (\<lambda>n u. u\<lparr>graph_score := Some (reciprocal_rank n)\<rparr>)
        [1..<length sorted_units + 1] sorted_units)"

definition expand_from ::
  "(topology \<Rightarrow> str) \<Rightarrow> (str \<Rightarrow> date option) \<Rightarrow> filters \<Rightarrow> graph_row list
     \<Rightarrow> retrieval_error + graph_expansion" where
  "expand_from digest pd fs rows =
     rbind (expand_rows pd (query_date fs) rows ([], [], 0)) (\<lambda>(accepted, units, rejected).
     rbind (deduplicate_topology_paths digest accepted) (\<lambda>deduplicated.
       let paths = rank_paths deduplicated in
       Inr \<lparr>exp_paths = paths, exp_units = rank_graph_units paths (dict_values units),
            exp_diagnostics = \<lparr>accepted_path_count = length paths,
              temporal_rejected_path_count = rejected, malformed_path_count = 0\<rparr>\<rparr>))"

definition expand ::
  "(topology \<Rightarrow> str) \<Rightarrow> (str \<Rightarrow> date option) \<Rightarrow> expansion_port \<Rightarrow> str list \<Rightarrow> intent
     \<Rightarrow> filters \<Rightarrow> relation_goal option \<Rightarrow> retrieval_error + graph_expansion" where
  "expand digest pd repo entry_ids intent fs goal =
     (if entry_ids = [] then Inr empty_expansion
      else
        let policy = policy_for intent;
            relations = (case goal of Some g \<Rightarrow> [relation_goal_value g] | None \<Rightarrow> pol_relations policy)
        in case goal of
          Some g \<Rightarrow>
            if relation_goal_value g \<notin> set (pol_relations policy)
            then Inl (RelationGoalIncompatible g intent)
            else expand_from digest pd fs
                   (repo entry_ids relations (pol_direction policy) (pol_max_depth policy) fs)
        | None \<Rightarrow>
            expand_from digest pd fs
              (repo entry_ids relations (pol_direction policy) (pol_max_depth policy) fs))"

subsection \<open>Hydration of canonical anchors\<close>

type_synonym anchor_port = "str list \<Rightarrow> filters \<Rightarrow> props list"

text \<open>A row is keyed by \<open>str(row["anchor_id"])\<close>; later rows overwrite earlier ones.\<close>

fun hydrate_rows ::
  "(str \<Rightarrow> date option) \<Rightarrow> props list \<Rightarrow> (str \<times> retrieved_unit) list
     \<Rightarrow> retrieval_error + (str \<times> retrieved_unit) list" where
  "hydrate_rows pd [] d = Inr d"
| "hydrate_rows pd (row # rows) d =
     (if \<not> row_names_unit row then hydrate_rows pd rows d
      else case map_retrieved_unit pd (scored_row row) (Some GraphScore) of
        Inl e \<Rightarrow> Inl (RecordRejected e)
      | Inr u \<Rightarrow> hydrate_rows pd rows (AList.update (py_str (getp row ''anchor_id'')) u d))"

fun hydrate_ranked ::
  "(str \<times> retrieved_unit) list \<Rightarrow> str list \<Rightarrow> nat \<Rightarrow> str list \<Rightarrow> retrieved_unit list" where
  "hydrate_ranked d [] n seen = []"
| "hydrate_ranked d (a # as) n seen =
     (case map_of d a of
        None \<Rightarrow> hydrate_ranked d as (n + 1) seen
      | Some u \<Rightarrow>
          if unit_id u \<in> set seen then hydrate_ranked d as (n + 1) seen
          else u\<lparr>graph_score := Some (reciprocal_rank n), retrieval_sources := [''graph'']\<rparr>
               # hydrate_ranked d as (n + 1) (unit_id u # seen))"

definition hydrate_anchors ::
  "(str \<Rightarrow> date option) \<Rightarrow> anchor_port \<Rightarrow> str list \<Rightarrow> filters \<Rightarrow> retrieval_error + anchor_hydration" where
  "hydrate_anchors pd repo anchor_ids fs =
     (if anchor_ids = [] then Inr no_hydration
      else
        let rows = repo anchor_ids fs;
            matched = map (\<lambda>row. py_str (getp row ''anchor_id'')) rows
        in rbind (hydrate_rows pd rows []) (\<lambda>d.
             Inr \<lparr>matched_anchor_ids = filter (\<lambda>a. a \<in> set matched) anchor_ids,
                  hydrated_units = hydrate_ranked d anchor_ids 1 []\<rparr>))"

end
