(* ===== verification/Graph_Path_Properties.thy ===== *)
theory Graph_Path_Properties
  imports Graph_Paths
begin

text \<open>
  Correctness of graph expansion: every path that reaches a client is a well-formed walk of the
  legal graph, in force at the query date, and the deduplicated list has one canonical
  representative per topology.
\<close>

subsection \<open>Well-formed paths\<close>

definition walk :: "graph_node list \<Rightarrow> graph_edge list \<Rightarrow> bool" where
  "walk nodes edges \<longleftrightarrow>
     length nodes = length edges + 1 \<and> edges \<noteq> []
     \<and> (\<forall>i < length edges. connects (nodes ! i) (edges ! i) (nodes ! Suc i))"

definition edge_wf :: "graph_edge \<Rightarrow> bool" where
  "edge_wf e \<longleftrightarrow>
     ge_relation_type e \<in> set relation_enum
     \<and> (ge_relation_type e \<in> set temporal_relations \<longrightarrow> ge_effective_from e \<noteq> None)"

definition path_wf :: "graph_path \<Rightarrow> bool" where
  "path_wf p \<longleftrightarrow>
     walk (gp_nodes p) (gp_edges p) \<and> distinct (map ge_relation_id (gp_edges p))
     \<and> (\<forall>e \<in> set (gp_edges p). edge_wf e)
     \<and> (\<forall>n \<in> set (gp_nodes p). gn_node_id n \<noteq> [] \<and> gn_labels n \<noteq> [])
     \<and> gp_description p = describe_path (gp_nodes p) (gp_edges p)"

lemma first_disconnected_None:
  assumes "length nodes = length edges + 1"
  shows "first_disconnected nodes edges = None \<longleftrightarrow>
     (\<forall>i < length edges. connects (nodes ! i) (edges ! i) (nodes ! Suc i))"
proof -
  have "first_disconnected nodes edges = None \<longleftrightarrow>
      (\<forall>(l, e, r) \<in> set (zip nodes (zip edges (tl nodes))). connects l e r)"
    by (auto simp: first_disconnected_def find_None_iff)
  also have "\<dots> \<longleftrightarrow> (\<forall>i < length (zip nodes (zip edges (tl nodes))).
      (case zip nodes (zip edges (tl nodes)) ! i of (l, e, r) \<Rightarrow> connects l e r))"
    by (rule all_set_conv_all_nth)
  finally show ?thesis
    using assms by (simp add: nth_tl)
qed

lemma validate_path_shape_None:
  "validate_path_shape nodes edges = None \<longleftrightarrow>
     walk nodes edges \<and> distinct (map ge_relation_id edges)"
  by (auto simp: validate_path_shape_def walk_def first_disconnected_None)

lemma path_required_text_Inr: "path_required_text v f = Inr t \<Longrightarrow> t \<noteq> []"
  by (auto simp: path_required_text_def Let_def split: if_splits)

lemma path_required_labels_Inr: "path_required_labels v = Inr ls \<Longrightarrow> ls \<noteq> []"
  by (auto simp: path_required_labels_def Let_def split: if_splits option.splits)

lemma map_graph_node_Inr: "map_graph_node raw = Inr n \<Longrightarrow> gn_node_id n \<noteq> [] \<and> gn_labels n \<noteq> []"
  by (auto simp: map_graph_node_def Let_def rbind_Inr_iff
      dest: path_required_text_Inr path_required_labels_Inr)

lemma map_edge_Inr:
  assumes "map_edge raw = Inr e"
  shows "edge_wf e"
  using assms by (auto simp: map_edge_def Let_def rbind_Inr_iff edge_wf_def)

lemma map_graph_path_Inr:
  assumes "map_graph_path row = Inr p"
  obtains "rmapm map_graph_node (row_node_refs row) = Inr (gp_nodes p)"
    "rmapm map_edge (row_edge_refs row) = Inr (gp_edges p)"
    "validate_path_shape (gp_nodes p) (gp_edges p) = None"
    "gp_description p = describe_path (gp_nodes p) (gp_edges p)"
proof -
  from assms obtain nodes edges where n: "rmapm map_graph_node (row_node_refs row) = Inr nodes"
    and e: "rmapm map_edge (row_edge_refs row) = Inr edges"
    and "validate_path_shape nodes edges = None"
    and "p = \<lparr>gp_nodes = nodes, gp_edges = edges, gp_description = describe_path nodes edges\<rparr>"
    by (auto simp: map_graph_path_def rbind_Inr_iff split: sum.splits option.splits)
  with that show thesis by simp
qed

lemma map_graph_path_wf:
  assumes "map_graph_path row = Inr p"
  shows "path_wf p"
proof (rule map_graph_path_Inr [OF assms])
  assume n: "rmapm map_graph_node (row_node_refs row) = Inr (gp_nodes p)"
    and e: "rmapm map_edge (row_edge_refs row) = Inr (gp_edges p)"
    and s: "validate_path_shape (gp_nodes p) (gp_edges p) = None"
    and d: "gp_description p = describe_path (gp_nodes p) (gp_edges p)"
  from s have "walk (gp_nodes p) (gp_edges p)" "distinct (map ge_relation_id (gp_edges p))"
    by (simp_all add: validate_path_shape_None)
  moreover have "\<forall>x \<in> set (gp_edges p). edge_wf x"
    using rmapm_set [OF e] map_edge_Inr by blast
  moreover have "\<forall>x \<in> set (gp_nodes p). gn_node_id x \<noteq> [] \<and> gn_labels x \<noteq> []"
    using rmapm_set [OF n] map_graph_node_Inr by blast
  ultimately show ?thesis using d by (simp add: path_wf_def)
qed

lemma fingerprint_walk:
  "walk (gp_nodes p) (gp_edges p) \<Longrightarrow>
     build_topology_path_fingerprint digest p = Inr (''path_'' @ digest (topology_of p))"
  by (auto simp: build_topology_path_fingerprint_def walk_def first_disconnected_None split: option.split)

lemma fingerprint_Inr:
  "build_topology_path_fingerprint digest p = Inr fp \<longleftrightarrow>
     walk (gp_nodes p) (gp_edges p) \<and> fp = ''path_'' @ digest (topology_of p)"
proof
  assume "build_topology_path_fingerprint digest p = Inr fp"
  then have "gp_edges p \<noteq> []" "length (gp_nodes p) = length (gp_edges p) + 1"
    "first_disconnected (gp_nodes p) (gp_edges p) = None"
    and fp: "fp = ''path_'' @ digest (topology_of p)"
    by (auto simp: build_topology_path_fingerprint_def split: if_splits option.splits)
  with fp show "walk (gp_nodes p) (gp_edges p) \<and> fp = ''path_'' @ digest (topology_of p)"
    by (simp add: walk_def first_disconnected_None)
next
  assume "walk (gp_nodes p) (gp_edges p) \<and> fp = ''path_'' @ digest (topology_of p)"
  then show "build_topology_path_fingerprint digest p = Inr fp"
    by (simp add: fingerprint_walk)
qed

text \<open>
  C19: A row that maps to a path maps to a walk: one more node than edges, each edge joining the
  neighbouring nodes in one of its two directions, relation identifiers distinct, relation types
  canonical, temporal edges dated, node identifiers and labels not blank; and the topology
  fingerprint of a mapped path never raises.
\<close>

theorem mapped_path_wf:
  assumes "map_graph_path row = Inr p"
  shows "path_wf p \<and> (\<exists>fp. build_topology_path_fingerprint digest p = Inr fp)"
  using map_graph_path_wf [OF assms] by (auto simp: path_wf_def fingerprint_walk)

definition sample_row :: graph_row where
  "sample_row =
     \<lparr>row_node_refs =
        [\<lparr>rn_fields = [(''node_id'', PStr ''A''), (''effective_from'', PDate 10 ''x''), (''citable_unit_id'', PStr ''A'')],
          rn_labels = Some [PStr ''Article'']\<rparr>,
         \<lparr>rn_fields = [(''node_id'', PStr ''B''), (''effective_from'', PDate 10 ''x'')],
          rn_labels = Some [PStr ''Article'']\<rparr>],
      row_edge_refs =
        [[(''relation_type'', PStr ''AMENDS''), (''relation_id'', PStr ''r1''), (''source_id'', PStr ''B''),
          (''target_id'', PStr ''A''), (''effective_from'', PDate 20 ''x'')]],
      row_fields = []\<rparr>"

definition sample_path :: graph_path where
  "sample_path =
     (let n = (\<lambda>i c. \<lparr>gn_node_id = i, gn_labels = [''Article''], gn_effective_from = Some 10,
                     gn_effective_to = None, gn_legal_status = None, gn_citable_unit_id = c\<rparr>) in
      \<lparr>gp_nodes = [n ''A'' (Some ''A''), n ''B'' None],
       gp_edges = [\<lparr>ge_relation_id = ''r1'', ge_relation_type = ''AMENDS'', ge_source_id = ''B'',
                    ge_target_id = ''A'', ge_effective_from = Some 20, ge_effective_to = None,
                    ge_citation_evidence = []\<rparr>],
       gp_description = ''A <-[AMENDS]- B''\<rparr>)"

lemma sample_row_maps: "map_graph_path sample_row = Inr sample_path"
  by code_simp

theorem mapped_path_wf_witness: "path_wf sample_path"
  using mapped_path_wf [OF sample_row_maps] by simp

subsection \<open>Deduplication\<close>

text \<open>The dictionary of groups is the grouping of the paths by their fingerprint.\<close>

definition path_fp :: "(topology \<Rightarrow> str) \<Rightarrow> graph_path \<Rightarrow> str" where
  "path_fp digest p = ''path_'' @ digest (topology_of p)"

abbreviation is_walk :: "graph_path \<Rightarrow> bool" where
  "is_walk p \<equiv> walk (gp_nodes p) (gp_edges p)"

lemma group_paths_grouped:
  "group_paths digest ps (grouped (path_fp digest) qs) = Inr d \<longleftrightarrow>
     (\<forall>p \<in> set ps. is_walk p) \<and> d = grouped (path_fp digest) (qs @ ps)"
proof (induction ps arbitrary: qs)
  case Nil
  show ?case by auto
next
  case (Cons p ps)
  show ?case
  proof (cases "is_walk p")
    case True
    then have "build_topology_path_fingerprint digest p = Inr (path_fp digest p)"
      by (simp add: fingerprint_walk path_fp_def)
    with True show ?thesis
      using Cons.IH [of "qs @ [p]"] by (simp add: add_to_group_grouped)
  next
    case False
    then have "build_topology_path_fingerprint digest p \<noteq> Inr fp" for fp
      by (simp add: fingerprint_Inr)
    with False show ?thesis by (auto split: sum.split)
  qed
qed

lemma dedup_eq:
  "deduplicate_topology_paths digest ps = Inr qs \<longleftrightarrow>
     (\<forall>p \<in> set ps. is_walk p) \<and> qs = map (\<lambda>(fp, g). merge_group g) (grouped (path_fp digest) ps)"
  using group_paths_grouped [of digest ps "[]"]
  by (auto simp: deduplicate_topology_paths_def rbind_Inr_iff)

lemma merged_edge_simps [simp]:
  "ge_relation_id (merged_edge g i e) = ge_relation_id e"
  "ge_relation_type (merged_edge g i e) = ge_relation_type e"
  "ge_source_id (merged_edge g i e) = ge_source_id e"
  "ge_target_id (merged_edge g i e) = ge_target_id e"
  "ge_effective_from (merged_edge g i e) = ge_effective_from e"
  "ge_effective_to (merged_edge g i e) = ge_effective_to e"
  by (simp_all add: merged_edge_def)

lemma edge_views_merged [simp]:
  "edge_topology (merged_edge g i e) = edge_topology e"
  "edge_wf (merged_edge g i e) = edge_wf e"
  "connects l (merged_edge g i e) r = connects l e r"
  "edge_temporally_valid d (merged_edge g i e) = edge_temporally_valid d e"
  by (simp_all add: edge_topology_def edge_wf_def connects_def edge_temporally_valid_def)

definition representative :: "graph_path list \<Rightarrow> graph_path" where
  "representative g = hd (sort_key graph_path_rank_key g)"

lemma merge_group_nodes [simp]: "gp_nodes (merge_group g) = gp_nodes (representative g)"
  by (simp add: merge_group_def representative_def Let_def)

lemma merge_group_edges:
  "gp_edges (merge_group g) =
     map2 (merged_edge g) [0..<length (gp_edges (representative g))] (gp_edges (representative g))"
  by (simp add: merge_group_def representative_def Let_def)

lemma merge_group_description:
  "gp_description (merge_group g) = describe_path (gp_nodes (merge_group g)) (gp_edges (merge_group g))"
  by (simp add: merge_group_def representative_def Let_def)

lemma map_merged:
  assumes "\<And>i e. f (merged_edge g i e) = f e"
  shows "map f (gp_edges (merge_group g)) = map f (gp_edges (representative g))"
  by (rule nth_equalityI) (simp_all add: merge_group_edges assms)

lemma length_merged [simp]:
  "length (gp_edges (merge_group g)) = length (gp_edges (representative g))"
  by (simp add: merge_group_edges)

lemma merge_group_topology [simp]: "topology_of (merge_group g) = topology_of (representative g)"
  by (simp add: topology_of_def map_merged)

lemma merge_group_rank [simp]:
  "graph_path_rank_key (merge_group g) = graph_path_rank_key (representative g)"
  by (simp add: graph_path_rank_key_def map_merged)

lemma merged_nth:
  "i < length (gp_edges (representative g)) \<Longrightarrow>
     gp_edges (merge_group g) ! i = merged_edge g i (gp_edges (representative g) ! i)"
  by (simp add: merge_group_edges)

lemma merge_group_walk [simp]:
  "walk (gp_nodes (representative g)) (gp_edges (merge_group g)) = is_walk (representative g)"
proof -
  have "gp_edges (merge_group g) = [] \<longleftrightarrow> gp_edges (representative g) = []"
    by (simp flip: length_0_conv)
  then show ?thesis
    by (simp add: walk_def merged_nth cong: conj_cong)
qed

lemma all_merged:
  assumes "\<And>i e. f (merged_edge g i e) = f e"
  shows "(\<forall>e \<in> set (gp_edges (merge_group g)). f e) = (\<forall>e \<in> set (gp_edges (representative g)). f e)"
  by (simp add: all_set_conv_all_nth merged_nth assms)

lemma merge_group_wf: "path_wf (representative g) \<Longrightarrow> path_wf (merge_group g)"
  by (simp add: path_wf_def map_merged all_merged merge_group_description)

lemma merge_group_temporal [simp]:
  "is_graph_path_temporally_valid (merge_group g) day
     = is_graph_path_temporally_valid (representative g) day"
  by (auto simp: is_graph_path_temporally_valid_def list_all_iff all_merged split: option.split)

lemma representative_in: "g \<noteq> [] \<Longrightarrow> representative g \<in> set g"
  by (metis hd_in_set representative_def set_empty set_sort)

text \<open>The rank key of a path ends with its relation identifiers and names all its nodes.\<close>

interpretation path_ranking: keyed_ranking graph_path_rank_key
  "\<lambda>p. (map gn_node_id (gp_nodes p), map ge_relation_id (gp_edges p))"
  by unfold_locales (auto simp: graph_path_rank_key_def)

interpretation unit_ranking: keyed_ranking "unit_rank_key paths" unit_id for paths
  by unfold_locales (auto simp: unit_rank_key_def)

lemma representative_least:
  "p \<in> set g \<Longrightarrow> graph_path_rank_key (representative g) \<le> graph_path_rank_key p"
proof -
  assume p: "p \<in> set g"
  then obtain q rest where "sort_key graph_path_rank_key g = q # rest"
    by (metis list.exhaust list.set(1) set_sort empty_iff)
  with p show ?thesis
    by (metis path_ranking.ranking_top representative_def list.sel(1))
qed

lemma path_fp_topology:
  "inj_on digest T \<Longrightarrow> topology_of p \<in> T \<Longrightarrow> topology_of q \<in> T \<Longrightarrow>
     path_fp digest p = path_fp digest q \<longleftrightarrow> topology_of p = topology_of q"
  by (auto simp: path_fp_def dest: inj_onD)

lemma dedup_member:
  assumes "deduplicate_topology_paths digest ps = Inr qs" and "q \<in> set qs"
  obtains g where "q = merge_group g" "representative g \<in> set ps" "set g \<subseteq> set ps"
    "\<And>p. p \<in> set ps \<Longrightarrow> path_fp digest p = path_fp digest q \<Longrightarrow> p \<in> set g"
proof -
  from assms obtain k g where kg: "(k, g) \<in> set (grouped (path_fp digest) ps)" and q: "q = merge_group g"
    by (auto simp: dedup_eq)
  note g = grouped_member [OF kg]
  have rep: "representative g \<in> set g" by (rule representative_in [OF g(2)])
  then have "path_fp digest (representative g) = k" and "representative g \<in> set ps"
    using g(1) by auto
  then have "path_fp digest q = k" by (simp add: q path_fp_def)
  with that [of g] q g \<open>representative g \<in> set ps\<close> show thesis by (auto simp: subset_iff)
qed

lemma dedup_keys:
  assumes "deduplicate_topology_paths digest ps = Inr qs"
  shows "map (path_fp digest) qs = stable_unique (map (path_fp digest) ps)"
proof -
  have "path_fp digest (merge_group g) = k" if kg: "(k, g) \<in> set (grouped (path_fp digest) ps)" for k g
  proof -
    note g = grouped_member [OF kg]
    have "path_fp digest (representative g) = k"
      using representative_in [OF g(2)] g(1) by auto
    then show ?thesis by (simp add: path_fp_def)
  qed
  then have "map (path_fp digest) qs = map fst (grouped (path_fp digest) ps)"
    using assms by (auto simp: dedup_eq simp del: grouped_keys)
  then show ?thesis by simp
qed

lemma topology_length: "topology_of p = topology_of q \<Longrightarrow> length (gp_edges p) = length (gp_edges q)"
  unfolding topology_of_def by (metis length_map prod.inject)

subsection \<open>Merged citation evidence\<close>

definition cite_dict :: "citation_evidence list \<Rightarrow> (str \<times> citation_evidence) list" where
  "cite_dict cs = fold (\<lambda>ce d. AList.update (ce_relation_id ce) ce d) cs []"

lemma cite_dict_snoc:
  "cite_dict (cs @ [c]) = AList.update (ce_relation_id c) c (cite_dict cs)"
  by (simp add: cite_dict_def)

lemma cite_dict_props:
  "fst ` set (cite_dict cs) = ce_relation_id ` set cs
   \<and> distinct (map fst (cite_dict cs)) \<and> (\<forall>(k, c) \<in> set (cite_dict cs). k = ce_relation_id c)"
proof (induction cs rule: rev_induct)
  case Nil
  show ?case by (simp add: cite_dict_def)
next
  case (snoc c cs)
  moreover have "\<forall>(k, x) \<in> set (AList.update (ce_relation_id c) c d). k = ce_relation_id x"
    if "\<forall>(k, x) \<in> set d. k = ce_relation_id x" for d
    using that by (induction d) auto
  ultimately show ?case
    by (auto simp: cite_dict_snoc dom_update distinct_update)
qed

lemma cite_dict_distinct:
  "distinct (map ce_relation_id cs) \<Longrightarrow> cite_dict cs = map (\<lambda>c. (ce_relation_id c, c)) cs"
proof (induction cs rule: rev_induct)
  case Nil
  show ?case by (simp add: cite_dict_def)
next
  case (snoc c cs)
  have "AList.update k v d = d @ [(k, v)]" if "k \<notin> fst ` set d" for k :: str and v :: citation_evidence and d
    using that by (induction d) auto
  then have "AList.update (ce_relation_id c) c (map (\<lambda>c. (ce_relation_id c, c)) cs)
      = map (\<lambda>c. (ce_relation_id c, c)) cs @ [(ce_relation_id c, c)]"
    using snoc.prems by (simp add: image_image)
  with snoc show ?case by (simp add: cite_dict_snoc)
qed

definition group_evidence :: "graph_path list \<Rightarrow> nat \<Rightarrow> citation_evidence list" where
  "group_evidence g i =
     concat (map (\<lambda>p. if i < length (gp_edges p) then ge_citation_evidence (gp_edges p ! i) else []) g)"

lemma group_evidence_in:
  assumes "p \<in> set g" and "i < length (gp_edges p)" and "c \<in> set (ge_citation_evidence (gp_edges p ! i))"
  shows "ce_relation_id c \<in> ce_relation_id ` set (group_evidence g i)"
  using assms by (intro imageI) (auto simp: group_evidence_def intro!: bexI [of _ p])

lemma merged_evidence:
  "ge_citation_evidence (merged_edge g i e) = map snd (sort_key fst (cite_dict (group_evidence g i)))"
  by (simp add: merged_edge_def group_citations_def cite_dict_def group_evidence_def)

lemma sorted_evidence_ids:
  "map ce_relation_id (map snd (sort_key fst (cite_dict cs))) = sort (map fst (cite_dict cs))"
proof -
  have "map ce_relation_id (map snd (sort_key fst (cite_dict cs))) = map fst (sort_key fst (cite_dict cs))"
    using cite_dict_props [of cs] by (auto simp: comp_def)
  also have "\<dots> = sort (map fst (cite_dict cs))"
    by (rule properties_for_sort [symmetric]) (simp_all add: mset_map)
  finally show ?thesis .
qed

lemma merged_evidence_keys:
  "ce_relation_id ` set (ge_citation_evidence (merged_edge g i e)) = ce_relation_id ` set (group_evidence g i)"
proof -
  have "ce_relation_id ` set (ge_citation_evidence (merged_edge g i e))
      = set (map ce_relation_id (ge_citation_evidence (merged_edge g i e)))" by simp
  also have "\<dots> = ce_relation_id ` set (group_evidence g i)"
    using cite_dict_props [of "group_evidence g i"]
    by (simp only: merged_evidence sorted_evidence_ids set_sort) simp
  finally show ?thesis .
qed

lemma merged_evidence_sorted:
  "sorted (map ce_relation_id (ge_citation_evidence (merged_edge g i e)))
   \<and> distinct (map ce_relation_id (ge_citation_evidence (merged_edge g i e)))"
  using cite_dict_props [of "group_evidence g i"]
  by (simp only: merged_evidence sorted_evidence_ids sorted_sort distinct_sort)

lemma sort_key_sorted_id: "sorted (map f xs) \<Longrightarrow> sort_key f xs = xs"
  by (simp add: sort_key_id_if_sorted)

lemma evidence_canonical:
  assumes "sorted (map ce_relation_id cs)" and "distinct (map ce_relation_id cs)"
  shows "map snd (sort_key fst (cite_dict cs)) = cs"
  using assms by (simp add: cite_dict_distinct sort_key_sorted_id comp_def)

lemma representative_single [simp]: "representative [q] = q"
  by (simp add: representative_def)

text \<open>Merging a group that is one merged path gives the path back.\<close>

lemma merge_merged: "merge_group [merge_group g] = merge_group g"
proof -
  let ?q = "merge_group g"
  have "gp_edges (merge_group [?q]) ! i = gp_edges ?q ! i" if i: "i < length (gp_edges ?q)" for i
  proof -
    have e: "gp_edges ?q ! i = merged_edge g i (gp_edges (representative g) ! i)"
      using i by (simp add: merged_nth)
    have "ge_citation_evidence (merged_edge [?q] i (gp_edges ?q ! i)) = ge_citation_evidence (gp_edges ?q ! i)"
      using i merged_evidence_sorted [of g i] by (simp add: merged_evidence group_evidence_def e evidence_canonical)
    then have "merged_edge [?q] i (gp_edges ?q ! i) = gp_edges ?q ! i"
      by (simp add: merged_edge_def)
    with i show ?thesis by (simp add: merged_nth [of i "[?q]"])
  qed
  then have "gp_edges (merge_group [?q]) = gp_edges ?q"
    by (intro nth_equalityI) simp_all
  then show ?thesis
    by (intro graph_path.equality) (simp_all add: merge_group_description)
qed

lemma filter_eq_single: "distinct xs \<Longrightarrow> x \<in> set xs \<Longrightarrow> filter (\<lambda>y. y = x) xs = [x]"
  by (induction xs) (auto simp: filter_empty_conv)

lemma grouped_distinct:
  assumes "distinct (map f xs)"
  shows "grouped f xs = map (\<lambda>x. (f x, [x])) xs"
proof -
  have "filter (\<lambda>y. f y = f x) xs = [x]" if "x \<in> set xs" for x
  proof -
    have "filter (\<lambda>y. f y = f x) xs = filter (\<lambda>y. y = x) xs"
      by (rule filter_cong) (use assms that in \<open>auto simp: distinct_map dest: inj_onD\<close>)
    also have "\<dots> = [x]"
      using assms that by (simp add: distinct_map filter_eq_single)
    finally show ?thesis .
  qed
  then show ?thesis
    using assms by (simp add: grouped_def stable_unique_distinct_id)
qed

text \<open>An injective digest for the examples: the fields of the topology behind their lengths.\<close>

definition id_digest :: "topology \<Rightarrow> str" where
  "id_digest t =
     concat (map (\<lambda>s. replicate (length s) (CHR ''1'') @ CHR ''0'' # s)
       (fst t @ concat (map (\<lambda>(r, a, b). [r, a, b]) (snd t))))"

lemma sample_dedup: "deduplicate_topology_paths id_digest [sample_path, sample_path] = Inr [sample_path]"
  by code_simp

text \<open>
  C20: Deduplication keeps exactly one path per topology: no two results share a topology, no
  topology is lost, and each result carries the rank key of the best path of its topology. The
  digest is assumed not to collide on the topologies of the list.
\<close>

theorem dedup_canonical:
  assumes "inj_on digest (topology_of ` set ps)"
    and "deduplicate_topology_paths digest ps = Inr qs"
  shows "distinct (map topology_of qs) \<and> set (map topology_of qs) = topology_of ` set ps
    \<and> (\<forall>q \<in> set qs. \<forall>p \<in> set ps. topology_of p = topology_of q \<longrightarrow>
          graph_path_rank_key q \<le> graph_path_rank_key p)
    \<and> (\<forall>q \<in> set qs. graph_path_rank_key q \<in> graph_path_rank_key ` set ps)"
proof -
  note member = dedup_member [OF assms(2)]
  have fp: "path_fp digest p = path_fp digest q \<longleftrightarrow> topology_of p = topology_of q"
    if "p \<in> set ps" "topology_of q \<in> topology_of ` set ps" for p q
    by (rule path_fp_topology [OF assms(1)]) (use that in auto)
  have sub: "topology_of q \<in> topology_of ` set ps" if "q \<in> set qs" for q
    by (rule member [OF that]) auto
  have keys: "map (path_fp digest) qs = stable_unique (map (path_fp digest) ps)"
    by (rule dedup_keys [OF assms(2)])
  then have "distinct (map (path_fp digest) qs)" by simp
  then have "distinct (map topology_of qs)"
    by (auto simp: distinct_map path_fp_def inj_on_def)
  moreover have "set (map topology_of qs) = topology_of ` set ps"
  proof
    show "set (map topology_of qs) \<subseteq> topology_of ` set ps" using sub by auto
    show "topology_of ` set ps \<subseteq> set (map topology_of qs)"
    proof
      fix t
      assume "t \<in> topology_of ` set ps"
      then obtain p where p: "p \<in> set ps" "t = topology_of p" by blast
      then have "path_fp digest p \<in> set (map (path_fp digest) qs)" by (simp add: keys)
      then obtain q where "q \<in> set qs" "path_fp digest p = path_fp digest q" by auto
      with fp [OF p(1) sub] p(2) show "t \<in> set (map topology_of qs)" by auto
    qed
  qed
  moreover have "graph_path_rank_key q \<le> graph_path_rank_key p"
    if "q \<in> set qs" "p \<in> set ps" "topology_of p = topology_of q" for p q
    by (rule member [OF that(1)]) (use that in \<open>auto simp: path_fp_def intro: representative_least\<close>)
  moreover have "graph_path_rank_key q \<in> graph_path_rank_key ` set ps" if "q \<in> set qs" for q
    by (rule member [OF that]) auto
  ultimately show ?thesis by blast
qed

theorem dedup_canonical_witness:
  "distinct (map topology_of [sample_path])"
  using dedup_canonical [of id_digest "[sample_path, sample_path]" "[sample_path]"] sample_dedup
  by simp

text \<open>
  Deduplication loses no citation: every piece of evidence on edge \<open>i\<close> of an input path has
  its relation cited on edge \<open>i\<close> of the result with the same topology, and there the relations
  are cited once each, in ascending order.
\<close>

theorem dedup_evidence:
  assumes "inj_on digest (topology_of ` set ps)"
    and "deduplicate_topology_paths digest ps = Inr qs"
  shows "(\<forall>p \<in> set ps. \<forall>i < length (gp_edges p). \<forall>c \<in> set (ge_citation_evidence (gp_edges p ! i)).
            \<exists>q \<in> set qs. topology_of q = topology_of p
              \<and> ce_relation_id c \<in> ce_relation_id ` set (ge_citation_evidence (gp_edges q ! i)))
    \<and> (\<forall>q \<in> set qs. \<forall>e \<in> set (gp_edges q).
          sorted (map ce_relation_id (ge_citation_evidence e))
          \<and> distinct (map ce_relation_id (ge_citation_evidence e)))"
proof -
  have "\<exists>q \<in> set qs. topology_of q = topology_of p
          \<and> ce_relation_id c \<in> ce_relation_id ` set (ge_citation_evidence (gp_edges q ! i))"
    if p: "p \<in> set ps" and i: "i < length (gp_edges p)"
      and c: "c \<in> set (ge_citation_evidence (gp_edges p ! i))" for p i c
  proof -
    have "path_fp digest p \<in> set (map (path_fp digest) qs)"
      using p by (simp add: dedup_keys [OF assms(2)])
    then obtain q where q: "q \<in> set qs" and eq: "path_fp digest p = path_fp digest q" by auto
    obtain g where g: "q = merge_group g" "representative g \<in> set ps" "p \<in> set g"
      using dedup_member [OF assms(2) q] p eq by metis
    have top: "topology_of p = topology_of q"
      using path_fp_topology [OF assms(1)] p g(1,2) eq by auto
    then have "length (gp_edges (representative g)) = length (gp_edges p)"
      using topology_length g(1) by (metis merge_group_topology)
    with i have "gp_edges q ! i = merged_edge g i (gp_edges (representative g) ! i)"
      by (simp add: g(1) merged_nth)
    with merged_evidence_keys [of g i] group_evidence_in [OF g(3) i c]
    have "ce_relation_id c \<in> ce_relation_id ` set (ge_citation_evidence (gp_edges q ! i))"
      by simp
    with q top show ?thesis by auto
  qed
  moreover have "sorted (map ce_relation_id (ge_citation_evidence e))
      \<and> distinct (map ce_relation_id (ge_citation_evidence e))"
    if "q \<in> set qs" "e \<in> set (gp_edges q)" for q e
    using dedup_member [OF assms(2) that(1)] that(2) merged_evidence_sorted
    by (metis in_set_conv_nth length_merged merged_nth)
  ultimately show ?thesis by blast
qed

theorem dedup_evidence_witness:
  "sorted (map ce_relation_id (ge_citation_evidence (hd (gp_edges sample_path))))"
  using dedup_evidence [of id_digest "[sample_path, sample_path]" "[sample_path]"] sample_dedup
  by (simp add: sample_path_def Let_def)

text \<open>Deduplicating a deduplicated list changes nothing.\<close>

theorem dedup_idempotent:
  assumes "deduplicate_topology_paths digest ps = Inr qs"
  shows "deduplicate_topology_paths digest qs = Inr qs"
proof -
  have "grouped (path_fp digest) qs = map (\<lambda>q. (path_fp digest q, [q])) qs"
    by (rule grouped_distinct) (simp add: dedup_keys [OF assms])
  moreover have "merge_group [q] = q" if "q \<in> set qs" for q
    using dedup_member [OF assms that] merge_merged by metis
  moreover have "is_walk q" if "q \<in> set qs" for q
    using dedup_member [OF assms that] assms by (metis dedup_eq merge_group_nodes merge_group_walk)
  ultimately show ?thesis
    by (simp add: dedup_eq comp_def cong: map_cong)
qed

theorem dedup_idempotent_witness:
  "deduplicate_topology_paths id_digest [sample_path] = Inr [sample_path]"
  using dedup_idempotent [OF sample_dedup] .

subsection \<open>Expansion\<close>

definition expansion_inv ::
  "date option \<Rightarrow> nat \<Rightarrow> graph_path list \<times> (str \<times> retrieved_unit) list \<times> nat \<Rightarrow> bool" where
  "expansion_inv day n acc \<longleftrightarrow>
     (case acc of (paths, units, rejected) \<Rightarrow>
        (\<forall>p \<in> set paths. path_wf p \<and> is_graph_path_temporally_valid p day)
        \<and> distinct (map fst units) \<and> (\<forall>(k, u) \<in> set units. k = unit_id u)
        \<and> length paths + rejected = n)"

lemma expand_rows_inv:
  "expand_rows pd day rows acc = Inr acc' \<Longrightarrow> expansion_inv day n acc \<Longrightarrow>
     expansion_inv day (n + length rows) acc'"
proof (induction pd day rows acc arbitrary: n rule: expand_rows.induct)
  case (1 pd day acc)
  then show ?case by simp
next
  case (2 pd day row rows paths units rejected)
  obtain p where p: "map_graph_path row = Inr p"
    using "2.prems"(1) by (auto split: sum.splits)
  note wf = map_graph_path_wf [OF p]
  consider (expired) "\<not> is_graph_path_temporally_valid p day"
    | (unit) u where "is_graph_path_temporally_valid p day" "row_names_unit (row_fields row)"
        "map_retrieved_unit pd (scored_row (row_fields row)) (Some GraphScore) = Inr u"
    | (bare) "is_graph_path_temporally_valid p day" "\<not> row_names_unit (row_fields row)"
    using "2.prems"(1) p by (cases "map_retrieved_unit pd (scored_row (row_fields row)) (Some GraphScore)")
      (auto split: if_splits)
  then show ?case
  proof cases
    case expired
    with 2 p have "expand_rows pd day rows (paths, units, rejected + 1) = Inr acc'" by simp
    moreover have "expansion_inv day (n + 1) (paths, units, rejected + 1)"
      using "2.prems"(2) by (simp add: expansion_inv_def)
    ultimately have "expansion_inv day (n + 1 + length rows) acc'"
      using "2.IH"(1) [OF p expired] by blast
    then show ?thesis by simp
  next
    case unit
    with 2 p have "expand_rows pd day rows (paths @ [p], setdefault (unit_id u) u units, rejected) = Inr acc'"
      by simp
    moreover have "expansion_inv day (n + 1) (paths @ [p], setdefault (unit_id u) u units, rejected)"
      using "2.prems"(2) wf unit(1) by (auto simp: expansion_inv_def setdefault_def image_iff)
    ultimately have "expansion_inv day (n + 1 + length rows) acc'"
      using "2.IH"(2) [OF p _ unit(2,3)] unit(1) by blast
    then show ?thesis by simp
  next
    case bare
    with 2 p have "expand_rows pd day rows (paths @ [p], units, rejected) = Inr acc'" by simp
    moreover have "expansion_inv day (n + 1) (paths @ [p], units, rejected)"
      using "2.prems"(2) wf bare(1) by (auto simp: expansion_inv_def)
    ultimately have "expansion_inv day (n + 1 + length rows) acc'"
      using "2.IH"(3) [OF p _ bare(2)] bare(1) by blast
    then show ?thesis by simp
  qed
qed

lemma rank_graph_units_length [simp]: "length (rank_graph_units ps us) = length us"
  by (simp add: rank_graph_units_def Let_def del: upt_Suc One_nat_def)

lemma rank_graph_units_nth:
  "i < length us \<Longrightarrow>
     rank_graph_units ps us ! i
       = (sort_key (unit_rank_key ps) us ! i)\<lparr>graph_score := Some (reciprocal_rank (i + 1))\<rparr>"
  by (simp add: rank_graph_units_def Let_def del: upt_Suc)

lemma rank_graph_units_ids:
  "map unit_id (rank_graph_units ps us) = map unit_id (sort_key (unit_rank_key ps) us)"
  by (rule nth_equalityI) (simp_all add: rank_graph_units_nth)

lemma rank_graph_units_distinct:
  "distinct (map unit_id us) \<Longrightarrow> distinct (map unit_id (rank_graph_units ps us))"
  by (simp only: rank_graph_units_ids) (metis distinct_map distinct_sort set_sort)

lemma reciprocal_rank_antimono: "0 < m \<Longrightarrow> m \<le> n \<Longrightarrow> reciprocal_rank n \<le> reciprocal_rank m"
  unfolding reciprocal_rank_def fdiv_def by (intro fl_mono) (simp add: field_simps)

lemma reciprocal_rank_nonneg: "0 \<le> reciprocal_rank n"
  unfolding reciprocal_rank_def fdiv_def by (rule fl.rnd_nonneg) simp

lemma expand_cases:
  assumes "expand digest pd repo entry_ids i fs goal = Inr x"
  obtains "entry_ids = []" "x = empty_expansion"
  | rows acc units n deduped where "expand_rows pd (query_date fs) rows ([], [], 0) = Inr (acc, units, n)"
      "deduplicate_topology_paths digest acc = Inr deduped"
      "x = \<lparr>exp_paths = rank_paths deduped,
            exp_units = rank_graph_units (rank_paths deduped) (dict_values units),
            exp_diagnostics = \<lparr>accepted_path_count = length (rank_paths deduped),
              temporal_rejected_path_count = n, malformed_path_count = 0\<rparr>\<rparr>"
  using assms
  by (cases goal) (auto simp: expand_def Let_def expand_from_def rbind_Inr_iff split: if_splits)

lemma dedup_keeps:
  assumes "deduplicate_topology_paths digest ps = Inr qs"
    and "\<forall>p \<in> set ps. path_wf p \<and> is_graph_path_temporally_valid p day"
  shows "\<forall>q \<in> set qs. path_wf q \<and> is_graph_path_temporally_valid q day"
proof
  fix q
  assume "q \<in> set qs"
  from dedup_member [OF assms(1) this] assms(2)
  show "path_wf q \<and> is_graph_path_temporally_valid q day"
    by (metis merge_group_temporal merge_group_wf)
qed

text \<open>
  C29: What expansion returns: every path is well formed and in force on the query date, the
  paths ascend in rank, the units have distinct identifiers, and their graph scores are the
  reciprocals of their positions, so they descend and are not negative.
\<close>

theorem expand_sound:
  assumes "expand digest pd repo entry_ids i fs goal = Inr x"
  shows "(\<forall>p \<in> set (exp_paths x). path_wf p \<and> is_graph_path_temporally_valid p (query_date fs))
    \<and> sorted (map graph_path_rank_key (exp_paths x))
    \<and> distinct (map unit_id (exp_units x))
    \<and> (\<forall>k < length (exp_units x). graph_score (exp_units x ! k) = Some (reciprocal_rank (k + 1)))
    \<and> sorted_wrt (\<ge>) (map (\<lambda>u. the (graph_score u)) (exp_units x))"
  using assms
proof (cases rule: expand_cases)
  case 1
  then show ?thesis by (simp add: empty_expansion_def)
next
  case (2 rows acc units n deduped)
  have "expansion_inv (query_date fs) 0 ([], [], 0)" by (simp add: expansion_inv_def)
  from expand_rows_inv [OF 2(1) this]
  have inv: "\<forall>p \<in> set acc. path_wf p \<and> is_graph_path_temporally_valid p (query_date fs)"
    "distinct (map fst units)" "\<forall>(k, u) \<in> set units. k = unit_id u"
    by (simp_all add: expansion_inv_def)
  have "map unit_id (dict_values units) = map fst units"
    using inv(3) by (auto simp: dict_values_def)
  then have ids: "distinct (map unit_id (exp_units x))"
    using inv(2) by (simp add: 2(3) rank_graph_units_distinct)
  have score: "graph_score (exp_units x ! k) = Some (reciprocal_rank (k + 1))"
    if "k < length (exp_units x)" for k
    using that by (simp add: 2(3) rank_graph_units_nth)
  then have "sorted_wrt (\<ge>) (map (\<lambda>u. the (graph_score u)) (exp_units x))"
    by (simp add: sorted_wrt_iff_nth_less reciprocal_rank_antimono)
  with ids score dedup_keeps [OF 2(2) inv(1)] show ?thesis
    by (simp add: 2(3) rank_paths_def)
qed

definition sample_filters :: filters where
  "sample_filters = no_filters\<lparr>query_date := Some 30\<rparr>"

definition sample_repo :: expansion_port where
  "sample_repo entry_ids relations dir depth fs = [sample_row, sample_row]"

lemma sample_expand:
  "expand id_digest (\<lambda>s. None) sample_repo [''A''] Validity sample_filters None
     = Inr \<lparr>exp_paths = [sample_path], exp_units = [],
            exp_diagnostics = \<lparr>accepted_path_count = 1, temporal_rejected_path_count = 0,
              malformed_path_count = 0\<rparr>\<rparr>"
  by code_simp

theorem expand_sound_witness:
  "path_wf sample_path \<and> is_graph_path_temporally_valid sample_path (Some 30)"
  using expand_sound [OF sample_expand] by (simp add: sample_filters_def)

text \<open>
  The ranking of the expansion's units does not depend on the order in which the repository
  returned them: two lists of units with distinct identifiers and the same members are ranked
  and scored alike.
\<close>

theorem unit_ranking_order_free:
  assumes "mset us = mset vs" and "distinct (map unit_id us)"
  shows "rank_graph_units ps us = rank_graph_units ps vs"
proof -
  have "inj_on unit_id (set us)" using assms(2) by (simp add: distinct_map)
  then have "sort_key (unit_rank_key ps) us = sort_key (unit_rank_key ps) vs"
    by (rule unit_ranking.ranking_determined [OF assms(1)])
  then show ?thesis by (simp add: rank_graph_units_def)
qed

text \<open>A retrieved unit for the examples, given its identifier.\<close>

definition sample_unit :: "str \<Rightarrow> retrieved_unit" where
  "sample_unit i =
     \<lparr>unit_id = i, unit_label = ''Article'', content_raw = ''text'', unit_title = None,
      unit_document_id = ''D'', unit_document_number = None, unit_document_title = None,
      source_url = None, article_id = None, clause_id = None, article_number = Some ''1'',
      clause_number = None, appendix_number = None, version_family_id = None,
      unit_effective_from = Some 10, unit_effective_to = None, unit_legal_status = None,
      vector_score = None, bm25_score = None, graph_score = None, rerank_score = None,
      final_score = None, citation_label = [], deep_link = [], retrieval_sources = [''graph'']\<rparr>"

theorem unit_ranking_order_free_witness:
  "rank_graph_units [sample_path] [sample_unit ''A'', sample_unit ''B'']
     = rank_graph_units [sample_path] [sample_unit ''B'', sample_unit ''A'']"
  by (rule unit_ranking_order_free) (simp_all add: sample_unit_def)

end
