(* ===== verification/Planning.thy ===== *)
theory Planning
  imports Graph_Paths
begin

text \<open>
  Query plans (\<open>src/retrieval/planning/patterns.py\<close> and \<open>models.py\<close>), the execution contract
  (\<open>src/retrieval/execution_contract.py\<close>) and the reference handoff
  (\<open>src/retrieval/resolved_reference.py\<close>). The closed string enums of labels and relations are
  strings with a membership test in the \<open>make_\<dots>\<close> functions.
\<close>

subsection \<open>Ontology patterns\<close>

definition min_plan_depth :: nat where "min_plan_depth = 2"
definition max_plan_depth :: nat where "max_plan_depth = 3"

definition query_anchor_labels :: "str list" where
  "query_anchor_labels = [''Article'', ''Clause'']"

definition query_traversal_labels :: "str list" where
  "query_traversal_labels = phase1_persisted_labels"

definition direct_citable_targets :: "str list" where
  "direct_citable_targets = [''Article'', ''Clause'', ''Point'']"

definition semantic_liftable_targets :: "str list" where
  "semantic_liftable_targets = [''LegalConcept'', ''LegalSubject'', ''LegalAction'']"

definition query_target_labels :: "str list" where
  "query_target_labels = direct_citable_targets @ semantic_liftable_targets"

definition query_plannable_relations :: "str list" where
  "query_plannable_relations = phase1_relation_enum"

datatype query_direction = QOutgoing | QIncoming

datatype plan_error =
    RuntimeOnlyLabel str
  | UnknownTraversalLabel str
  | LegacyStep str
  | NotPlannable str
  | DirectionNotAllowed str str str
  | BlankMention
  | BlankIdentifier
  | NotAnAnchorLabel str
  | NotATraversalLabel str
  | DepthOutOfRange nat
  | UnsupportedIntermediate nat
  | UnsupportedTarget str
  | InvalidStepPattern nat "plan_error list"
  | AnchorNotEligible str
  | AnchorDiffersFromExpected str
  | TargetDiffersFromFinal str
  | AnchorMentionDiffers
  | TargetMentionDiffers

definition validate_query_label :: "str \<Rightarrow> plan_error + unit" where
  "validate_query_label label =
     (if label \<in> set runtime_only_labels then Inl (RuntimeOnlyLabel label)
      else if label \<notin> set query_traversal_labels then Inl (UnknownTraversalLabel label)
      else Inr ())"

text \<open>
  \<open>CONSTRAINTS[relation]\<close> raises \<open>KeyError\<close> on a relation without an entry; the plannable
  relations all have one (\<open>plannable_constraint\<close>).
\<close>

definition relation_allows :: "str \<Rightarrow> str \<Rightarrow> str \<Rightarrow> bool" where
  "relation_allows rel head tail =
     (case map_of constraints rel of
        None \<Rightarrow> False
      | Some c \<Rightarrow>
          (case valid_pairs c of
             Some ps \<Rightarrow> (head, tail) \<in> set ps
           | None \<Rightarrow> head \<in> set (case allowed_head c of None \<Rightarrow> [] | Some hs \<Rightarrow> hs)
                   \<and> tail \<in> set (case allowed_tail c of None \<Rightarrow> [] | Some ts \<Rightarrow> ts)))"

definition oriented :: "query_direction \<Rightarrow> 'a \<Rightarrow> 'a \<Rightarrow> 'a \<times> 'a" where
  "oriented dir current following =
     (case dir of QOutgoing \<Rightarrow> (current, following) | QIncoming \<Rightarrow> (following, current))"

definition validate_directed_step :: "str \<Rightarrow> str \<Rightarrow> query_direction \<Rightarrow> str \<Rightarrow> plan_error + unit" where
  "validate_directed_step current rel dir following =
     rbind (validate_query_label current) (\<lambda>_.
     rbind (validate_query_label following) (\<lambda>_.
     rbind (require (rel \<notin> fst ` set legacy_relation_aliases) (LegacyStep rel)) (\<lambda>_.
     rbind (require (rel \<in> set query_plannable_relations) (NotPlannable rel)) (\<lambda>_.
     case oriented dir current following of (head, tail) \<Rightarrow>
       require (relation_allows rel head tail) (DirectionNotAllowed rel head tail)))))"

subsection \<open>Plans\<close>

record anchor_mention =
  am_text :: str
  am_expected_label :: "str option"

record target_mention =
  tm_text :: str

record path_step =
  st_relation :: str
  st_direction :: query_direction
  st_next_label :: str

record unlinked_plan =
  up_anchor :: anchor_mention
  up_target :: target_mention
  up_steps :: "path_step list"

definition normalized_text :: "str \<Rightarrow> plan_error + str" where
  "normalized_text v = (let t = squeeze v in if t = [] then Inl BlankMention else Inr t)"

definition normalized_identifier :: "str \<Rightarrow> plan_error + str" where
  "normalized_identifier v = (let t = py_strip v in if t = [] then Inl BlankIdentifier else Inr t)"

definition make_anchor_mention :: "str \<Rightarrow> str option \<Rightarrow> plan_error + anchor_mention" where
  "make_anchor_mention text expected =
     rbind (normalized_text text) (\<lambda>t.
     case expected of
       None \<Rightarrow> Inr \<lparr>am_text = t, am_expected_label = None\<rparr>
     | Some l \<Rightarrow> rbind (require (l \<in> set query_anchor_labels) (NotAnAnchorLabel l))
         (\<lambda>_. Inr \<lparr>am_text = t, am_expected_label = Some l\<rparr>))"

definition make_target_mention :: "str \<Rightarrow> plan_error + target_mention" where
  "make_target_mention text = rbind (normalized_text text) (\<lambda>t. Inr \<lparr>tm_text = t\<rparr>)"

definition make_path_step :: "str \<Rightarrow> query_direction \<Rightarrow> str \<Rightarrow> plan_error + path_step" where
  "make_path_step rel dir following =
     rbind (require (rel \<in> set query_plannable_relations) (NotPlannable rel)) (\<lambda>_.
     rbind (require (following \<in> set query_traversal_labels) (NotATraversalLabel following)) (\<lambda>_.
       Inr \<lparr>st_relation = rel, st_direction = dir, st_next_label = following\<rparr>))"

definition step_from :: "str \<Rightarrow> path_step \<Rightarrow> plan_error + unit" where
  "step_from current s = validate_directed_step current (st_relation s) (st_direction s) (st_next_label s)"

text \<open>The labels a step may start from are tried in order; the first that works ends the search.\<close>

fun try_labels :: "str list \<Rightarrow> path_step \<Rightarrow> plan_error list \<Rightarrow> plan_error list + unit" where
  "try_labels [] s errors = Inl errors"
| "try_labels (l # ls) s errors =
     (case step_from l s of Inr u \<Rightarrow> Inr () | Inl e \<Rightarrow> try_labels ls s (errors @ [e]))"

fun check_steps :: "nat \<Rightarrow> str list \<Rightarrow> path_step list \<Rightarrow> plan_error + unit" where
  "check_steps i current [] = Inr ()"
| "check_steps i current (s # ss) =
     (case try_labels (sort current) s [] of
        Inl errors \<Rightarrow> Inl (InvalidStepPattern i errors)
      | Inr u \<Rightarrow> check_steps (i + 1) [st_next_label s] ss)"

fun check_intermediates :: "nat \<Rightarrow> path_step list \<Rightarrow> plan_error + unit" where
  "check_intermediates i [] = Inr ()"
| "check_intermediates i (s # ss) =
     (if st_next_label s \<notin> set query_traversal_labels then Inl (UnsupportedIntermediate i)
      else check_intermediates (i + 1) ss)"

definition start_labels :: "anchor_mention \<Rightarrow> str list" where
  "start_labels a = (case am_expected_label a of Some l \<Rightarrow> [l] | None \<Rightarrow> query_anchor_labels)"

definition make_unlinked_plan ::
  "anchor_mention \<Rightarrow> target_mention \<Rightarrow> path_step list \<Rightarrow> plan_error + unlinked_plan" where
  "make_unlinked_plan a t steps =
     rbind (require (min_plan_depth \<le> length steps \<and> length steps \<le> max_plan_depth)
              (DepthOutOfRange (length steps))) (\<lambda>_.
     rbind (check_intermediates 1 (butlast steps)) (\<lambda>_.
     rbind (require (st_next_label (last steps) \<in> set query_target_labels)
              (UnsupportedTarget (st_next_label (last steps)))) (\<lambda>_.
     rbind (check_steps 1 (start_labels a) steps) (\<lambda>_.
       Inr \<lparr>up_anchor = a, up_target = t, up_steps = steps\<rparr>))))"

definition target_label :: "unlinked_plan \<Rightarrow> str" where
  "target_label p = st_next_label (last (up_steps p))"

datatype resolution_method = StructuralMethod | FulltextMethod | VectorRRFMethod

record bound_endpoint =
  be_mention_text :: str
  be_node_id :: str
  be_label :: str
  be_method :: resolution_method
  be_score :: "float option"

definition make_bound_endpoint ::
  "str \<Rightarrow> str \<Rightarrow> str \<Rightarrow> resolution_method \<Rightarrow> float option \<Rightarrow> plan_error + bound_endpoint" where
  "make_bound_endpoint mention node label meth score =
     rbind (normalized_text mention) (\<lambda>m.
     rbind (normalized_identifier node) (\<lambda>n.
     rbind (require (label \<in> set query_traversal_labels) (NotATraversalLabel label)) (\<lambda>_.
       Inr \<lparr>be_mention_text = m, be_node_id = n, be_label = label, be_method = meth,
            be_score = score\<rparr>)))"

record bound_plan =
  bp_unlinked :: unlinked_plan
  bp_anchor :: bound_endpoint
  bp_target :: bound_endpoint

fun walk_steps :: "str \<Rightarrow> path_step list \<Rightarrow> plan_error + unit" where
  "walk_steps current [] = Inr ()"
| "walk_steps current (s # ss) = rbind (step_from current s) (\<lambda>_. walk_steps (st_next_label s) ss)"

definition make_bound_plan ::
  "unlinked_plan \<Rightarrow> bound_endpoint \<Rightarrow> bound_endpoint \<Rightarrow> plan_error + bound_plan" where
  "make_bound_plan u a t =
     rbind (require (be_label a \<in> set query_anchor_labels) (AnchorNotEligible (be_label a))) (\<lambda>_.
     rbind (require (case am_expected_label (up_anchor u) of None \<Rightarrow> True | Some l \<Rightarrow> be_label a = l)
              (AnchorDiffersFromExpected (be_label a))) (\<lambda>_.
     rbind (require (be_label t = target_label u) (TargetDiffersFromFinal (be_label t))) (\<lambda>_.
     rbind (require (be_mention_text a = am_text (up_anchor u)) AnchorMentionDiffers) (\<lambda>_.
     rbind (require (be_mention_text t = tm_text (up_target u)) TargetMentionDiffers) (\<lambda>_.
     rbind (walk_steps (be_label a) (up_steps u)) (\<lambda>_.
       Inr \<lparr>bp_unlinked = u, bp_anchor = a, bp_target = t\<rparr>))))))"

subsection \<open>The execution contract\<close>

datatype execution_status = ExecSatisfied | ExecFailed

datatype plan_reason =
    ReasonSatisfied
  | InvalidPlan
  | OutOfScopePlanShape
  | PlannerUnavailable
  | PlannerTimeout
  | UnboundAnchor
  | AmbiguousAnchor
  | UnboundTarget
  | AmbiguousTarget
  | NoPath
  | AmbiguousPath
  | PathBudgetExceeded
  | TemporalRejected
  | EvidenceUnliftable

record reasoning_requirement =
  minimum_edges :: nat
  required_relation_types :: "str list"
  require_all_citable_intermediates :: bool

record plan_execution_result =
  per_plan_fingerprint :: str
  per_path_fingerprints :: "str list"
  per_anchor_id :: str
  per_target_id :: str
  per_status :: execution_status
  per_reason :: plan_reason
  per_message :: "str option"
  per_requirement :: "reasoning_requirement option"

datatype execution_contract_error =
    MinimumEdgesOutOfRange nat
  | BlankExecutionIdentifier
  | DuplicatePathFingerprints
  | SatisfiedIncomplete
  | FailedWithResult

definition make_requirement ::
  "nat \<Rightarrow> str list \<Rightarrow> bool \<Rightarrow> execution_contract_error + reasoning_requirement" where
  "make_requirement n types every =
     (if 2 \<le> n \<and> n \<le> 5
      then Inr \<lparr>minimum_edges = n, required_relation_types = types,
                require_all_citable_intermediates = every\<rparr>
      else Inl (MinimumEdgesOutOfRange n))"

definition non_blank_identifier :: "str \<Rightarrow> execution_contract_error + str" where
  "non_blank_identifier v =
     (let t = py_strip v in if t = [] then Inl BlankExecutionIdentifier else Inr t)"

definition validate_path_fingerprints :: "str list \<Rightarrow> execution_contract_error + str list" where
  "validate_path_fingerprints vs =
     rbind (rmapm non_blank_identifier vs) (\<lambda>ns.
       if distinct ns then Inr ns else Inl DuplicatePathFingerprints)"

definition validate_execution_state :: "plan_execution_result \<Rightarrow> execution_contract_error + plan_execution_result" where
  "validate_execution_state r =
     (case per_status r of
        ExecSatisfied \<Rightarrow>
          if per_reason r \<noteq> ReasonSatisfied \<or> length (per_path_fingerprints r) \<noteq> 1
             \<or> per_requirement r = None
          then Inl SatisfiedIncomplete else Inr r
      | ExecFailed \<Rightarrow>
          if per_reason r = ReasonSatisfied \<or> per_path_fingerprints r \<noteq> []
             \<or> per_requirement r \<noteq> None
          then Inl FailedWithResult else Inr r)"

definition make_execution_result ::
  "plan_execution_result \<Rightarrow> execution_contract_error + plan_execution_result" where
  "make_execution_result r =
     rbind (non_blank_identifier (per_plan_fingerprint r)) (\<lambda>fp.
     rbind (validate_path_fingerprints (per_path_fingerprints r)) (\<lambda>fps.
     rbind (non_blank_identifier (per_anchor_id r)) (\<lambda>a.
     rbind (non_blank_identifier (per_target_id r)) (\<lambda>t.
       validate_execution_state
         (r\<lparr>per_plan_fingerprint := fp, per_path_fingerprints := fps, per_anchor_id := a,
            per_target_id := t\<rparr>)))))"

subsection \<open>The reference handoff\<close>

datatype reference_method = ExactStructuralLookup | GroundedHistoryFocus
datatype reference_source = CurrentMessage | GroundedHistory | PendingClarification

record resolved_reference =
  ref_mention :: str
  ref_node_id :: str
  ref_node_type :: str
  ref_label :: str
  ref_document_id :: str
  ref_method :: reference_method
  ref_source :: reference_source

record execution_context =
  ctx_references :: "resolved_reference list"
  ctx_relation_goal :: "relation_goal option"

definition make_execution_context ::
  "resolved_reference list \<Rightarrow> relation_goal option \<Rightarrow> contract_error + execution_context" where
  "make_execution_context refs goal =
     rbind (require (length refs \<le> 5) TooManyReferences) (\<lambda>_.
     rbind (require (goal = None \<or> refs \<noteq> []) GoalWithoutReference) (\<lambda>_.
       Inr \<lparr>ctx_references = refs, ctx_relation_goal = goal\<rparr>))"

definition anchor_node_ids :: "execution_context \<Rightarrow> str list" where
  "anchor_node_ids c = stable_unique (map ref_node_id (ctx_references c))"

definition empty_execution_context :: execution_context where
  "empty_execution_context = \<lparr>ctx_references = [], ctx_relation_goal = None\<rparr>"

end
