(* ===== verification/Plan_Execution.thy ===== *)
theory Plan_Execution
  imports Planning
begin

text \<open>
  The executor of bound plans (\<open>src/retrieval/planning/executor.py\<close>). The lookup port is an
  argument; \<open>plan_digest\<close> and \<open>digest\<close> stand for the 20 hexadecimal digits of the SHA-256 of the
  canonical JSON text of a plan and of a topology.
\<close>

record planned_execution =
  pe_result :: plan_execution_result
  pe_paths :: "graph_path list"
  pe_path_fingerprints :: "str list"
  pe_citable_unit_ids :: "str list"

type_synonym exact_lookup =
  "str \<Rightarrow> str \<Rightarrow> (str \<times> query_direction \<times> str) list \<Rightarrow> filters \<Rightarrow> nat \<Rightarrow> graph_row list"

definition default_max_exact_paths :: nat where "default_max_exact_paths = 20"

definition max_paths_ok :: "nat \<Rightarrow> bool" where
  "max_paths_ok n \<longleftrightarrow> 1 \<le> n \<and> n \<le> 100"

definition check_step :: "graph_node \<Rightarrow> graph_edge \<Rightarrow> graph_node \<Rightarrow> path_step \<Rightarrow> nat \<Rightarrow> exact_fault option" where
  "check_step current e following s i =
     (if ge_relation_type e \<noteq> st_relation s then Some (StepRelation i)
      else if st_next_label s \<notin> set (gn_labels following) then Some (StepLabel i)
      else if (ge_source_id e, ge_target_id e)
                \<noteq> oriented (st_direction s) (gn_node_id current) (gn_node_id following)
      then Some (StepDirection i) else None)"

fun check_path_steps ::
  "nat \<Rightarrow> graph_node list \<Rightarrow> graph_edge list \<Rightarrow> path_step list \<Rightarrow> exact_fault option" where
  "check_path_steps i (n # m # ns) (e # es) (s # ss) =
     (case check_step n e m s i of Some f \<Rightarrow> Some f | None \<Rightarrow> check_path_steps (i + 1) (m # ns) es ss)"
| "check_path_steps i ns es ss = None"

text \<open>The depth test comes first, so the \<open>strict\<close> zip of the code always has equal lengths.\<close>

definition validate_exact_path :: "graph_path \<Rightarrow> bound_plan \<Rightarrow> exact_fault option" where
  "validate_exact_path p plan =
     (let steps = up_steps (bp_unlinked plan) in
      if length (gp_edges p) \<noteq> length steps \<or> length (gp_nodes p) \<noteq> length steps + 1
      then Some DepthDiffers
      else if gn_node_id (hd (gp_nodes p)) \<noteq> be_node_id (bp_anchor plan) then Some NotAtAnchor
      else if gn_node_id (last (gp_nodes p)) \<noteq> be_node_id (bp_target plan) then Some NotAtTarget
      else if \<not> distinct (map gn_node_id (gp_nodes p)) then Some HasCycle
      else if be_label (bp_anchor plan) \<notin> set (gn_labels (hd (gp_nodes p)))
      then Some AnchorLabelDiffers
      else check_path_steps 1 (gp_nodes p) (gp_edges p) steps)"

definition citable_unit_ids :: "graph_path \<Rightarrow> str list" where
  "citable_unit_ids p =
     stable_unique (map (\<lambda>n. the (gn_citable_unit_id n))
       (filter (\<lambda>n. truthy_str (gn_citable_unit_id n)) (gp_nodes p)))"

definition failure_message :: "plan_reason \<Rightarrow> str option" where
  "failure_message r =
     (case r of
        NoPath \<Rightarrow> Some ''No exact ordered path exists''
      | AmbiguousPath \<Rightarrow> Some ''Multiple exact path topologies exist''
      | PathBudgetExceeded \<Rightarrow> Some ''Exact path result exceeded its budget''
      | TemporalRejected \<Rightarrow> Some ''Exact paths are invalid at the query date''
      | EvidenceUnliftable \<Rightarrow> Some ''Satisfied path has no citable legal unit''
      | _ \<Rightarrow> None)"

definition contract_or_fail :: "execution_contract_error + 'a \<Rightarrow> retrieval_error + 'a" where
  "contract_or_fail r = (case r of Inl e \<Rightarrow> Inl ExecutionContractRejected | Inr x \<Rightarrow> Inr x)"

definition failed_execution :: "bound_plan \<Rightarrow> str \<Rightarrow> plan_reason \<Rightarrow> retrieval_error + planned_execution" where
  "failed_execution plan fp reason =
     rbind (contract_or_fail (make_execution_result
       \<lparr>per_plan_fingerprint = fp, per_path_fingerprints = [],
        per_anchor_id = be_node_id (bp_anchor plan), per_target_id = be_node_id (bp_target plan),
        per_status = ExecFailed, per_reason = reason, per_message = failure_message reason,
        per_requirement = None\<rparr>))
     (\<lambda>r. Inr \<lparr>pe_result = r, pe_paths = [], pe_path_fingerprints = [], pe_citable_unit_ids = []\<rparr>)"

definition satisfied_execution ::
  "bound_plan \<Rightarrow> str \<Rightarrow> graph_path \<Rightarrow> str \<Rightarrow> retrieval_error + planned_execution" where
  "satisfied_execution plan fp p path_fp =
     (let steps = up_steps (bp_unlinked plan) in
      rbind (contract_or_fail (make_requirement (length steps) (map st_relation steps) True)) (\<lambda>req.
      rbind (contract_or_fail (make_execution_result
        \<lparr>per_plan_fingerprint = fp, per_path_fingerprints = [path_fp],
         per_anchor_id = be_node_id (bp_anchor plan), per_target_id = be_node_id (bp_target plan),
         per_status = ExecSatisfied, per_reason = ReasonSatisfied, per_message = None,
         per_requirement = Some req\<rparr>)) (\<lambda>r.
      Inr \<lparr>pe_result = r, pe_paths = [p], pe_path_fingerprints = [path_fp],
           pe_citable_unit_ids = citable_unit_ids p\<rparr>)))"

fun check_exact :: "bound_plan \<Rightarrow> graph_path list \<Rightarrow> retrieval_error + unit" where
  "check_exact plan [] = Inr ()"
| "check_exact plan (p # ps) =
     (case validate_exact_path p plan of Some f \<Rightarrow> Inl (ExactPathInvalid f) | None \<Rightarrow> check_exact plan ps)"

definition build_plan_fingerprint :: "(bound_plan \<Rightarrow> str) \<Rightarrow> bound_plan \<Rightarrow> str" where
  "build_plan_fingerprint plan_digest plan = ''plan_'' @ plan_digest plan"

text \<open>The case after the ambiguity test: one path is left.\<close>

definition settle_path ::
  "(topology \<Rightarrow> str) \<Rightarrow> bound_plan \<Rightarrow> str \<Rightarrow> graph_path \<Rightarrow> retrieval_error + planned_execution" where
  "settle_path digest plan fp p =
     (if target_label (bp_unlinked plan) \<in> set semantic_liftable_targets \<and> citable_unit_ids p = []
      then failed_execution plan fp EvidenceUnliftable
      else case build_topology_path_fingerprint digest p of
        Inl e \<Rightarrow> Inl (FingerprintFailed e)
      | Inr path_fp \<Rightarrow> satisfied_execution plan fp p path_fp)"

definition execute_plan ::
  "(topology \<Rightarrow> str) \<Rightarrow> (bound_plan \<Rightarrow> str) \<Rightarrow> exact_lookup \<Rightarrow> nat \<Rightarrow> bound_plan \<Rightarrow> filters
     \<Rightarrow> retrieval_error + planned_execution" where
  "execute_plan digest plan_digest lookup max_paths plan fs =
     (let fp = build_plan_fingerprint plan_digest plan;
          rows = lookup (be_node_id (bp_anchor plan)) (be_node_id (bp_target plan))
                   (map (\<lambda>s. (st_relation s, st_direction s, st_next_label s)) (up_steps (bp_unlinked plan)))
                   fs (max_paths + 1)
      in if length rows > max_paths then failed_execution plan fp PathBudgetExceeded
         else if rows = [] then failed_execution plan fp NoPath
         else
           rbind (rmapm map_graph_path rows) (\<lambda>mapped.
           rbind (check_exact plan mapped) (\<lambda>_.
             let temporal = filter (\<lambda>p. is_graph_path_temporally_valid p (query_date fs)) mapped in
             if temporal = [] then failed_execution plan fp TemporalRejected
             else
               rbind (deduplicate_topology_paths digest temporal) (\<lambda>deduplicated.
                 let paths = sort_key graph_path_rank_key deduplicated in
                 if length paths > 1 then failed_execution plan fp AmbiguousPath
                 else settle_path digest plan fp (hd paths)))))"

end
