(* ===== verification/Plan_Properties.thy ===== *)
theory Plan_Properties
  imports Plan_Execution Graph_Path_Properties Ontology_Properties
begin

text \<open>
  Correctness of query planning: what an accepted plan guarantees of the ontology, when a plan can
  be bound, and that the executor reports a plan satisfied exactly when one temporally valid path
  topology matches it.
\<close>

subsection \<open>Plans and the ontology\<close>

lemma try_labels_Inr: "try_labels ls s es = Inr u \<longleftrightarrow> (\<exists>l \<in> set ls. step_from l s = Inr ())"
  by (induction ls s es rule: try_labels.induct) (auto split: sum.split)

lemma check_steps_walk:
  "steps \<noteq> [] \<Longrightarrow> check_steps i ls steps = Inr u \<longleftrightarrow> (\<exists>l \<in> set ls. walk_steps l steps = Inr ())"
proof (induction steps arbitrary: i ls)
  case Nil
  then show ?case by simp
next
  case (Cons s steps)
  have tail: "check_steps (i + 1) [st_next_label s] steps = Inr u \<longleftrightarrow> walk_steps (st_next_label s) steps = Inr ()"
    using Cons.IH [of "i + 1" "[st_next_label s]"] by (cases steps) (simp_all del: check_steps.simps(2))
  show ?case
  proof (cases "try_labels (sort ls) s []")
    case (Inl es)
    then have "\<forall>l \<in> set ls. step_from l s \<noteq> Inr ()"
      using try_labels_Inr [of "sort ls" s "[]"] by auto
    with Inl show ?thesis by (auto simp: rbind_Inr_iff)
  next
    case (Inr v)
    then have "\<exists>l \<in> set ls. step_from l s = Inr ()"
      using try_labels_Inr [of "sort ls" s "[]"] by auto
    with Inr tail show ?thesis by (auto simp: rbind_Inr_iff)
  qed
qed

lemma walk_steps_nth:
  "walk_steps l steps = Inr () \<longleftrightarrow>
     (\<forall>i < length steps. step_from ((l # map st_next_label steps) ! i) (steps ! i) = Inr ())"
proof (induction steps arbitrary: l)
  case Nil
  then show ?case by simp
next
  case (Cons s steps)
  have "walk_steps l (s # steps) = Inr () \<longleftrightarrow>
      step_from l s = Inr () \<and> walk_steps (st_next_label s) steps = Inr ()"
    by (auto simp: rbind_Inr_iff)
  then show ?case
    by (simp add: Cons.IH All_less_Suc2)
qed

lemma step_from_Inr:
  "step_from l s = Inr () \<longleftrightarrow>
     l \<in> set query_traversal_labels - set runtime_only_labels
     \<and> st_next_label s \<in> set query_traversal_labels - set runtime_only_labels
     \<and> st_relation s \<in> set query_plannable_relations - fst ` set legacy_relation_aliases
     \<and> (case oriented (st_direction s) l (st_next_label s) of (h, t) \<Rightarrow> relation_allows (st_relation s) h t)"
  by (auto simp: step_from_def validate_directed_step_def validate_query_label_def rbind_Inr_iff
      split: prod.splits)

lemma make_unlinked_plan_Inr:
  "make_unlinked_plan a t steps = Inr u \<longleftrightarrow>
     2 \<le> length steps \<and> length steps \<le> 3 \<and> check_intermediates 1 (butlast steps) = Inr ()
     \<and> st_next_label (last steps) \<in> set query_target_labels
     \<and> (\<exists>l \<in> set (start_labels a). walk_steps l steps = Inr ())
     \<and> u = \<lparr>up_anchor = a, up_target = t, up_steps = steps\<rparr>"
proof (cases steps)
  case Nil
  then show ?thesis by (simp add: make_unlinked_plan_def min_plan_depth_def rbind_Inr_iff)
next
  case (Cons s ss)
  then have "steps \<noteq> []" by simp
  from check_steps_walk [OF this] show ?thesis
    by (auto simp: make_unlinked_plan_def min_plan_depth_def max_plan_depth_def rbind_Inr_iff)
qed

text \<open>
  C26: Every accepted unlinked plan can be bound: some anchor label that the mention allows starts
  a walk through all its steps, and endpoints with that label, the final label of the plan and its
  mention texts form a bound plan. No accepted plan is unsatisfiable by its ontology pattern.
\<close>

theorem accepted_plan_bindable:
  assumes "make_anchor_mention text expected = Inr a"
    and "make_unlinked_plan a t steps = Inr u"
  shows "\<exists>l \<in> set query_anchor_labels. \<forall>ea et.
      be_label ea = l \<and> be_mention_text ea = am_text a
      \<and> be_label et = target_label u \<and> be_mention_text et = tm_text t
      \<longrightarrow> make_bound_plan u ea et = Inr \<lparr>bp_unlinked = u, bp_anchor = ea, bp_target = et\<rparr>"
proof -
  have expected: "\<forall>l. am_expected_label a = Some l \<longrightarrow> l \<in> set query_anchor_labels"
    using assms(1) by (auto simp: make_anchor_mention_def rbind_Inr_iff split: option.splits)
  from assms(2) obtain l where l: "l \<in> set (start_labels a)" "walk_steps l steps = Inr ()"
    and u: "u = \<lparr>up_anchor = a, up_target = t, up_steps = steps\<rparr>"
    by (auto simp: make_unlinked_plan_Inr)
  have "l \<in> set query_anchor_labels" "am_expected_label a = None \<or> am_expected_label a = Some l"
    using l(1) expected by (auto simp: start_labels_def split: option.splits)
  with l(2) u show ?thesis
    by (intro bexI [of _ l]) (auto simp: make_bound_plan_def split: option.splits)
qed

text \<open>
  In a bound plan consecutive labels are joined by a relation of the ontology in the direction
  of the step: the walk starts at the anchor's label, ends at the target's, has two or three steps,
  and each step uses a plannable relation whose constraint admits the oriented pair of labels.
\<close>

theorem bound_plan_follows_ontology:
  assumes "make_unlinked_plan a t steps = Inr u" and "make_bound_plan u ea et = Inr p"
  defines "labels \<equiv> be_label ea # map st_next_label steps"
  shows "labels ! 0 \<in> set query_anchor_labels \<and> last labels = be_label et
    \<and> last labels \<in> set query_target_labels \<and> length steps \<in> {2, 3}
    \<and> (\<forall>i < length steps. st_relation (steps ! i) \<in> set query_plannable_relations
        \<and> (case oriented (st_direction (steps ! i)) (labels ! i) (labels ! Suc i) of
             (h, t) \<Rightarrow> relation_allows (st_relation (steps ! i)) h t))"
proof -
  from assms(1) have u: "u = \<lparr>up_anchor = a, up_target = t, up_steps = steps\<rparr>"
    and depth: "2 \<le> length steps" "length steps \<le> 3"
    and final: "st_next_label (last steps) \<in> set query_target_labels"
    by (auto simp: make_unlinked_plan_Inr)
  from assms(2) have p: "be_label ea \<in> set query_anchor_labels" "be_label et = st_next_label (last steps)"
    "walk_steps (be_label ea) steps = Inr ()"
    by (auto simp: make_bound_plan_def u target_label_def rbind_Inr_iff)
  from depth(1) have last: "last labels = st_next_label (last steps)"
    by (auto simp: labels_def last_map)
  have step: "st_relation (steps ! i) \<in> set query_plannable_relations
      \<and> (case oriented (st_direction (steps ! i)) (labels ! i) (labels ! Suc i) of
             (h, t) \<Rightarrow> relation_allows (st_relation (steps ! i)) h t)" if i: "i < length steps" for i
  proof -
    have "step_from (labels ! i) (steps ! i) = Inr ()"
      using p(3) i by (simp add: walk_steps_nth labels_def)
    moreover have "labels ! Suc i = st_next_label (steps ! i)"
      using i by (simp add: labels_def)
    ultimately show ?thesis by (simp add: step_from_Inr)
  qed
  have "length steps \<in> {2, 3}" using depth by auto
  with p(1,2) final step last show ?thesis by (simp add: labels_def)
qed

subsection \<open>The planner and the write gate\<close>

lemma constraint_tables:
  "map_of constraints rel = Some c \<Longrightarrow>
     valid_pairs c \<noteq> None \<or> (allowed_head c \<noteq> None \<and> allowed_tail c \<noteq> None)"
proof -
  have "list_all (\<lambda>(k, c). valid_pairs c \<noteq> None \<or> (allowed_head c \<noteq> None \<and> allowed_tail c \<noteq> None))
      constraints"
    by code_simp
  then show "map_of constraints rel = Some c \<Longrightarrow> ?thesis"
    by (auto simp: list_all_iff dest!: map_of_SomeD)
qed

lemma plannable_constraint:
  "rel \<in> set query_plannable_relations \<Longrightarrow>
     map_of constraints rel \<noteq> None \<and> rel \<notin> fst ` set legacy_relation_aliases"
proof -
  assume "rel \<in> set query_plannable_relations"
  then have rel: "rel \<in> set relation_enum"
    by (simp add: query_plannable_relations_def phase1_relation_enum_def)
  moreover have "rel \<notin> fst ` set legacy_relation_aliases"
    using rel legacy_aliases_not_relations by (metis map_of_eq_None_iff not_None_eq)
  ultimately show ?thesis using constraint_of_relation by fastforce
qed

lemma traversal_not_runtime: "l \<in> set query_traversal_labels \<Longrightarrow> l \<notin> set runtime_only_labels"
  by (auto simp: query_traversal_labels_def phase1_persisted_labels_def runtime_only_labels_def)

text \<open>
  The planner covers what the write gate stores: an edge of a plannable relation between
  persisted labels that the write gate accepts is a legal plan step from its head outgoing and from
  its tail incoming, whatever its properties are.
\<close>

theorem stored_edges_are_plannable:
  assumes "validate_relation parse head rel tail p dh dt hi ti = None"
    and "rel \<in> set query_plannable_relations"
    and "{head, tail} \<subseteq> set query_traversal_labels"
  shows "validate_directed_step head rel QOutgoing tail = Inr ()
    \<and> validate_directed_step tail rel QIncoming head = Inr ()"
proof -
  from assms(1) obtain c where c: "map_of constraints rel = Some c"
      "\<forall>ps. valid_pairs c = Some ps \<longrightarrow> (head, tail) \<in> set ps"
      "\<forall>hs. allowed_head c = Some hs \<longrightarrow> head \<in> set hs"
      "\<forall>ts. allowed_tail c = Some ts \<longrightarrow> tail \<in> set ts"
    by (rule validate_relation_None)
  then have "relation_allows rel head tail"
    using constraint_tables [OF c(1)] by (auto simp: relation_allows_def split: option.split)
  then show ?thesis
    using assms(2,3) plannable_constraint [OF assms(2)] traversal_not_runtime
    by (auto simp: validate_directed_step_def validate_query_label_def oriented_def)
qed

subsection \<open>Examples\<close>

definition sample_anchor :: anchor_mention where
  "sample_anchor = \<lparr>am_text = ''A'', am_expected_label = Some ''Article''\<rparr>"

definition sample_steps :: "path_step list" where
  "sample_steps =
     [\<lparr>st_relation = ''AMENDS'', st_direction = QIncoming, st_next_label = ''Article''\<rparr>,
      \<lparr>st_relation = ''DEFINES'', st_direction = QOutgoing, st_next_label = ''LegalConcept''\<rparr>]"

definition sample_unlinked :: unlinked_plan where
  "sample_unlinked =
     \<lparr>up_anchor = sample_anchor, up_target = \<lparr>tm_text = ''T''\<rparr>, up_steps = sample_steps\<rparr>"

definition sample_endpoint :: "str \<Rightarrow> str \<Rightarrow> str \<Rightarrow> bound_endpoint" where
  "sample_endpoint m n l =
     \<lparr>be_mention_text = m, be_node_id = n, be_label = l, be_method = StructuralMethod, be_score = None\<rparr>"

definition sample_bound :: bound_plan where
  "sample_bound =
     \<lparr>bp_unlinked = sample_unlinked, bp_anchor = sample_endpoint ''A'' ''A'' ''Article'',
      bp_target = sample_endpoint ''T'' ''C'' ''LegalConcept''\<rparr>"

lemma sample_anchor_made: "make_anchor_mention ''  A '' (Some ''Article'') = Inr sample_anchor"
  by code_simp

lemma sample_unlinked_made:
  "make_unlinked_plan sample_anchor \<lparr>tm_text = ''T''\<rparr> sample_steps = Inr sample_unlinked"
  by code_simp

lemma sample_bound_made:
  "make_bound_plan sample_unlinked (sample_endpoint ''A'' ''A'' ''Article'')
     (sample_endpoint ''T'' ''C'' ''LegalConcept'') = Inr sample_bound"
  by code_simp

theorem accepted_plan_bindable_witness:
  "\<exists>l \<in> set query_anchor_labels. \<exists>p.
     make_bound_plan sample_unlinked (sample_endpoint ''A'' ''A'' l)
       (sample_endpoint ''T'' ''C'' ''LegalConcept'') = Inr p"
proof -
  obtain l where l: "l \<in> set query_anchor_labels"
    and bind: "\<forall>ea et. be_label ea = l \<and> be_mention_text ea = am_text sample_anchor
      \<and> be_label et = target_label sample_unlinked \<and> be_mention_text et = tm_text \<lparr>tm_text = ''T''\<rparr>
      \<longrightarrow> make_bound_plan sample_unlinked ea et
            = Inr \<lparr>bp_unlinked = sample_unlinked, bp_anchor = ea, bp_target = et\<rparr>"
    using accepted_plan_bindable [OF sample_anchor_made sample_unlinked_made] by blast
  have "target_label sample_unlinked = ''LegalConcept''" "am_text sample_anchor = ''A''"
    by (simp_all add: target_label_def sample_unlinked_def sample_steps_def sample_anchor_def)
  with l bind show ?thesis
    by (intro bexI [of _ l] exI) (auto simp: sample_endpoint_def)
qed

theorem bound_plan_follows_ontology_witness:
  "relation_allows ''DEFINES'' ''Article'' ''LegalConcept''"
  using bound_plan_follows_ontology [OF sample_unlinked_made sample_bound_made]
  by (simp add: sample_steps_def oriented_def numeral_2_eq_2 All_less_Suc)

theorem stored_edges_are_plannable_witness:
  "validate_directed_step ''LegalConcept'' ''DEFINES'' QIncoming ''Article'' = Inr ()"
proof -
  have "validate_relation (\<lambda>s. Some True) ''Article'' ''DEFINES'' ''LegalConcept''
       [(''confidence'', PFloat 1 ''1.0''), (''llm_model'', PStr ''m''), (''created_at'', PStr ''t'')]
       PNone PNone None None = None"
    by code_simp
  from stored_edges_are_plannable [OF this] show ?thesis
    by (simp add: query_plannable_relations_def phase1_relation_enum_def relation_enum_def
        query_traversal_labels_def phase1_persisted_labels_def)
qed

subsection \<open>Execution of bound plans\<close>

definition path_matches :: "bound_plan \<Rightarrow> graph_path \<Rightarrow> bool" where
  "path_matches plan p \<longleftrightarrow>
     (let steps = up_steps (bp_unlinked plan); nodes = gp_nodes p; edges = gp_edges p in
      length edges = length steps \<and> length nodes = length steps + 1
      \<and> gn_node_id (nodes ! 0) = be_node_id (bp_anchor plan)
      \<and> gn_node_id (nodes ! length steps) = be_node_id (bp_target plan)
      \<and> distinct (map gn_node_id nodes)
      \<and> be_label (bp_anchor plan) \<in> set (gn_labels (nodes ! 0))
      \<and> (\<forall>i < length steps.
           ge_relation_type (edges ! i) = st_relation (steps ! i)
           \<and> st_next_label (steps ! i) \<in> set (gn_labels (nodes ! Suc i))
           \<and> (ge_source_id (edges ! i), ge_target_id (edges ! i))
               = oriented (st_direction (steps ! i)) (gn_node_id (nodes ! i)) (gn_node_id (nodes ! Suc i))))"

lemma check_step_None:
  "check_step n e m s i = None \<longleftrightarrow>
     ge_relation_type e = st_relation s \<and> st_next_label s \<in> set (gn_labels m)
     \<and> (ge_source_id e, ge_target_id e) = oriented (st_direction s) (gn_node_id n) (gn_node_id m)"
  by (auto simp: check_step_def)

lemma check_path_steps_None:
  "length es = length ss \<Longrightarrow> length ns = length ss + 1 \<Longrightarrow>
     check_path_steps i ns es ss = None \<longleftrightarrow>
       (\<forall>j < length ss. check_step (ns ! j) (es ! j) (ns ! Suc j) (ss ! j) 0 = None)"
proof (induction i ns es ss rule: check_path_steps.induct)
  case (1 i n m ns e es s ss)
  then have "check_path_steps (i + 1) (m # ns) es ss = None \<longleftrightarrow>
      (\<forall>j < length ss. check_step ((m # ns) ! j) (es ! j) ((m # ns) ! Suc j) (ss ! j) 0 = None)"
    if "check_step n e m s i = None" using that by simp
  moreover have "check_step n e m s i = None \<longleftrightarrow> check_step n e m s 0 = None"
    by (simp add: check_step_None)
  ultimately show ?case by (auto simp: All_less_Suc2 split: option.split)
qed (auto simp: length_Suc_conv)

lemma validate_exact_path_None: "validate_exact_path p plan = None \<longleftrightarrow> path_matches plan p"
proof (cases "length (gp_edges p) = length (up_steps (bp_unlinked plan))
    \<and> length (gp_nodes p) = length (up_steps (bp_unlinked plan)) + 1")
  case True
  then have "gp_nodes p \<noteq> []" by auto
  then have "hd (gp_nodes p) = gp_nodes p ! 0"
    "last (gp_nodes p) = gp_nodes p ! length (up_steps (bp_unlinked plan))"
    using True by (simp_all add: hd_conv_nth last_conv_nth)
  with True show ?thesis
    by (simp add: validate_exact_path_def path_matches_def Let_def check_path_steps_None check_step_None)
next
  case False
  then show ?thesis by (auto simp: validate_exact_path_def path_matches_def Let_def)
qed

lemma check_exact_Inr: "check_exact plan ps = Inr () \<longleftrightarrow> (\<forall>p \<in> set ps. path_matches plan p)"
  by (induction plan ps rule: check_exact.induct)
    (auto simp: validate_exact_path_None [symmetric] split: option.split)

lemma path_matches_merge [simp]:
  "path_matches plan (merge_group g) = path_matches plan (representative g)"
  by (auto simp: path_matches_def Let_def merged_nth)

lemma contract_or_fail_Inr [simp]: "contract_or_fail r = Inr x \<longleftrightarrow> r = Inr x"
  by (cases r) (simp_all add: contract_or_fail_def)

text \<open>What the validated constructor of an execution result returns.\<close>

lemma make_execution_result_Inr:
  assumes "make_execution_result r = Inr r'"
  shows "per_status r' = per_status r \<and> per_reason r' = per_reason r
    \<and> per_requirement r' = per_requirement r
    \<and> (per_status r' = ExecSatisfied \<longleftrightarrow> per_reason r' = ReasonSatisfied)
    \<and> (per_status r' = ExecSatisfied \<longleftrightarrow> length (per_path_fingerprints r') = 1)
    \<and> (per_status r' = ExecSatisfied \<longleftrightarrow> per_requirement r' \<noteq> None)"
  using assms
  by (cases "per_status r")
    (auto simp: make_execution_result_def validate_execution_state_def rbind_Inr_iff split: if_splits)

lemma failed_execution_Inr:
  assumes "failed_execution plan fp reason = Inr x"
  shows "per_status (pe_result x) = ExecFailed \<and> per_reason (pe_result x) = reason
    \<and> pe_paths x = [] \<and> pe_path_fingerprints x = [] \<and> pe_citable_unit_ids x = []"
  using assms by (auto simp: failed_execution_def rbind_Inr_iff dest: make_execution_result_Inr)

lemma satisfied_execution_Inr:
  assumes "satisfied_execution plan fp p pf = Inr x"
  shows "per_status (pe_result x) = ExecSatisfied \<and> per_reason (pe_result x) = ReasonSatisfied
    \<and> pe_paths x = [p] \<and> pe_path_fingerprints x = [pf]
    \<and> pe_citable_unit_ids x = citable_unit_ids p
    \<and> per_requirement (pe_result x)
        = Some \<lparr>minimum_edges = length (up_steps (bp_unlinked plan)),
                required_relation_types = map st_relation (up_steps (bp_unlinked plan)),
                require_all_citable_intermediates = True\<rparr>"
  using assms
  by (auto simp: satisfied_execution_def Let_def rbind_Inr_iff make_requirement_def
      dest: make_execution_result_Inr split: if_splits)

lemma settle_path_Inr:
  assumes "settle_path digest plan fp p = Inr x"
  shows "(per_status (pe_result x) = ExecFailed \<and> per_reason (pe_result x) = EvidenceUnliftable
            \<and> target_label (bp_unlinked plan) \<in> set semantic_liftable_targets \<and> citable_unit_ids p = [])
    \<or> (satisfied_execution plan fp p (path_fp digest p) = Inr x \<and> is_walk p
        \<and> (target_label (bp_unlinked plan) \<in> set semantic_liftable_targets \<longrightarrow> citable_unit_ids p \<noteq> []))"
  using assms
  by (auto simp: settle_path_def fingerprint_Inr path_fp_def split: if_splits sum.splits
      dest: failed_execution_Inr)

text \<open>
  The only way to a satisfied result: the rows map to paths that all match the plan, and the ones in
  force on the query date have one topology.
\<close>

lemma execute_plan_satisfied:
  assumes "execute_plan digest plan_digest lookup max_paths plan fs = Inr x"
    and "per_status (pe_result x) = ExecSatisfied"
  obtains mapped q where "\<forall>p \<in> set mapped. path_wf p \<and> path_matches plan p"
    "filter (\<lambda>p. is_graph_path_temporally_valid p (query_date fs)) mapped \<noteq> []"
    "deduplicate_topology_paths digest
       (filter (\<lambda>p. is_graph_path_temporally_valid p (query_date fs)) mapped) = Inr [q]"
    "settle_path digest plan (build_plan_fingerprint plan_digest plan) q = Inr x"
proof -
  let ?fp = "build_plan_fingerprint plan_digest plan"
  have not_failed: "failed_execution plan ?fp reason \<noteq> Inr x" for reason
    using assms(2) by (auto dest: failed_execution_Inr)
  define rows where "rows = lookup (be_node_id (bp_anchor plan)) (be_node_id (bp_target plan))
      (map (\<lambda>s. (st_relation s, st_direction s, st_next_label s)) (up_steps (bp_unlinked plan)))
      fs (max_paths + 1)"
  obtain mapped deduped where m: "rmapm map_graph_path rows = Inr mapped"
    and e: "check_exact plan mapped = Inr ()"
    and t: "filter (\<lambda>p. is_graph_path_temporally_valid p (query_date fs)) mapped \<noteq> []"
    and d: "deduplicate_topology_paths digest
       (filter (\<lambda>p. is_graph_path_temporally_valid p (query_date fs)) mapped) = Inr deduped"
    and n: "length deduped \<le> 1"
    and s: "settle_path digest plan ?fp (hd (sort_key graph_path_rank_key deduped)) = Inr x"
    using assms(1) not_failed
    by (auto simp: execute_plan_def Let_def rows_def rbind_Inr_iff split: if_splits)
  have "deduped \<noteq> []"
  proof
    assume "deduped = []"
    with d t dedup_keys [OF d] show False
      by (metis list.map_disc_iff set_empty set_stable_unique)
  qed
  with n obtain q where q: "deduped = [q]" by (cases deduped) (auto simp: le_Suc_eq)
  have "\<forall>p \<in> set mapped. path_wf p \<and> path_matches plan p"
    using rmapm_set [OF m] map_graph_path_wf e check_exact_Inr by blast
  with that t d s q show thesis by simp
qed

text \<open>
  C19: A satisfied execution carries one path, and that path is right: it is well formed, in force
  on the query date, and matches the plan step by step from the bound anchor to the bound target
  without repeating a node; its fingerprint is reported, a plan with a semantic target has a citable
  unit on it, and the derived requirement asks for exactly the relations of the plan.
\<close>

theorem satisfied_execution_sound:
  assumes "execute_plan digest plan_digest lookup max_paths plan fs = Inr x"
    and "per_status (pe_result x) = ExecSatisfied"
  shows "\<exists>p. pe_paths x = [p] \<and> path_wf p \<and> path_matches plan p
    \<and> is_graph_path_temporally_valid p (query_date fs)
    \<and> build_topology_path_fingerprint digest p = Inr (hd (pe_path_fingerprints x))
    \<and> (target_label (bp_unlinked plan) \<in> set semantic_liftable_targets \<longrightarrow> pe_citable_unit_ids x \<noteq> [])
    \<and> per_requirement (pe_result x)
        = Some \<lparr>minimum_edges = length (gp_edges p),
                required_relation_types = map ge_relation_type (gp_edges p),
                require_all_citable_intermediates = True\<rparr>"
proof -
  obtain mapped q where m: "\<forall>p \<in> set mapped. path_wf p \<and> path_matches plan p"
    and d: "deduplicate_topology_paths digest
       (filter (\<lambda>p. is_graph_path_temporally_valid p (query_date fs)) mapped) = Inr [q]"
    and s: "settle_path digest plan (build_plan_fingerprint plan_digest plan) q = Inr x"
    using execute_plan_satisfied [OF assms] by metis
  have "q \<in> set [q]" by simp
  then obtain g where "q = merge_group g"
      "representative g \<in> set (filter (\<lambda>p. is_graph_path_temporally_valid p (query_date fs)) mapped)"
    using dedup_member [OF d] by metis
  with m have q: "path_wf q \<and> path_matches plan q \<and> is_graph_path_temporally_valid q (query_date fs)"
    by (simp add: merge_group_wf del: merge_group_nodes)
  from q have "map ge_relation_type (gp_edges q) = map st_relation (up_steps (bp_unlinked plan))"
    by (intro nth_equalityI) (auto simp: path_matches_def Let_def)
  moreover have "length (gp_edges q) = length (up_steps (bp_unlinked plan))"
    using q by (simp add: path_matches_def Let_def)
  moreover have "satisfied_execution plan (build_plan_fingerprint plan_digest plan) q (path_fp digest q) = Inr x"
    "is_walk q" "target_label (bp_unlinked plan) \<in> set semantic_liftable_targets \<longrightarrow> citable_unit_ids q \<noteq> []"
    using settle_path_Inr [OF s] assms(2) by auto
  ultimately show ?thesis
    using q satisfied_execution_Inr [of plan] by (fastforce simp: fingerprint_walk path_fp_def)
qed

definition sample_exact_row :: graph_row where
  "sample_exact_row =
     \<lparr>row_node_refs =
        [\<lparr>rn_fields = [(''node_id'', PStr ''A''), (''effective_from'', PDate 10 ''x'')],
          rn_labels = Some [PStr ''Article'']\<rparr>,
         \<lparr>rn_fields = [(''node_id'', PStr ''B''), (''effective_from'', PDate 10 ''x''), (''citable_unit_id'', PStr ''B'')],
          rn_labels = Some [PStr ''Article'']\<rparr>,
         \<lparr>rn_fields = [(''node_id'', PStr ''C'')], rn_labels = Some [PStr ''LegalConcept'']\<rparr>],
      row_edge_refs =
        [[(''relation_type'', PStr ''AMENDS''), (''relation_id'', PStr ''r1''), (''source_id'', PStr ''B''),
          (''target_id'', PStr ''A''), (''effective_from'', PDate 20 ''x'')],
         [(''relation_type'', PStr ''DEFINES''), (''relation_id'', PStr ''r2''), (''source_id'', PStr ''B''),
          (''target_id'', PStr ''C'')]],
      row_fields = []\<rparr>"

definition sample_lookup :: exact_lookup where
  "sample_lookup a t steps fs n = [sample_exact_row]"

definition sample_execution :: "retrieval_error + planned_execution" where
  "sample_execution =
     execute_plan id_digest (\<lambda>p. ''0'') sample_lookup default_max_exact_paths sample_bound sample_filters"

lemma sample_execution_satisfied:
  "(case sample_execution of Inl e \<Rightarrow> False
    | Inr x \<Rightarrow> per_status (pe_result x) = ExecSatisfied \<and> pe_citable_unit_ids x = [''B''])"
  by code_simp

theorem satisfied_execution_sound_witness:
  "\<exists>x p. sample_execution = Inr x \<and> pe_paths x = [p] \<and> path_matches sample_bound p"
proof -
  from sample_execution_satisfied obtain x where x: "sample_execution = Inr x"
      "per_status (pe_result x) = ExecSatisfied"
    by (auto split: sum.splits)
  with satisfied_execution_sound [OF x(1) [unfolded sample_execution_def] x(2)]
  show ?thesis by blast
qed

text \<open>The reason the executor must report, read off the rows and the paths they map to.\<close>

definition plan_outcome :: "nat \<Rightarrow> bound_plan \<Rightarrow> filters \<Rightarrow> graph_row list \<Rightarrow> graph_path list \<Rightarrow> plan_reason" where
  "plan_outcome max_paths plan fs rows mapped =
     (let temporal = filter (\<lambda>p. is_graph_path_temporally_valid p (query_date fs)) mapped in
      if length rows > max_paths then PathBudgetExceeded
      else if rows = [] then NoPath
      else if temporal = [] then TemporalRejected
      else if card (topology_of ` set temporal) > 1 then AmbiguousPath
      else if target_label (bp_unlinked plan) \<in> set semantic_liftable_targets
              \<and> citable_unit_ids (representative temporal) = []
      then EvidenceUnliftable else ReasonSatisfied)"

definition identified :: "bound_plan \<Rightarrow> bool" where
  "identified plan \<longleftrightarrow>
     py_strip (be_node_id (bp_anchor plan)) \<noteq> [] \<and> py_strip (be_node_id (bp_target plan)) \<noteq> []"

lemma make_bound_endpoint_identified:
  "make_bound_endpoint m n l k s = Inr e \<Longrightarrow> py_strip (be_node_id e) \<noteq> []"
  by (auto simp: make_bound_endpoint_def normalized_identifier_def Let_def rbind_Inr_iff split: if_splits)

lemma plain_p: "plain_char (CHR ''p'')"
  by code_simp

lemma failed_execution_total:
  assumes "identified plan" and "reason \<noteq> ReasonSatisfied"
  obtains x where "failed_execution plan (build_plan_fingerprint pd plan) reason = Inr x"
    "per_reason (pe_result x) = reason"
proof -
  have "\<exists>x. failed_execution plan (build_plan_fingerprint pd plan) reason = Inr x"
    using assms plain_p py_strip_plain_head
    by (simp add: failed_execution_def contract_or_fail_def make_execution_result_def identified_def
        non_blank_identifier_def validate_path_fingerprints_def validate_execution_state_def
        build_plan_fingerprint_def Let_def)
  with that show thesis by (auto dest: failed_execution_Inr)
qed

lemma satisfied_execution_total:
  assumes "identified plan" and "length (up_steps (bp_unlinked plan)) \<in> {2, 3}"
  obtains x where "satisfied_execution plan (build_plan_fingerprint pd plan) p (path_fp digest p) = Inr x"
    "per_reason (pe_result x) = ReasonSatisfied"
proof -
  have "\<exists>x. satisfied_execution plan (build_plan_fingerprint pd plan) p (path_fp digest p) = Inr x"
    using assms plain_p py_strip_plain_head
    by (auto simp: satisfied_execution_def contract_or_fail_def make_execution_result_def identified_def
        non_blank_identifier_def validate_path_fingerprints_def validate_execution_state_def
        build_plan_fingerprint_def make_requirement_def path_fp_def Let_def)
  with that show thesis by (auto dest: satisfied_execution_Inr)
qed

lemma settle_path_total:
  assumes "identified plan" and "length (up_steps (bp_unlinked plan)) \<in> {2, 3}" and "is_walk p"
  obtains x where "settle_path digest plan (build_plan_fingerprint pd plan) p = Inr x"
    "per_reason (pe_result x) =
       (if target_label (bp_unlinked plan) \<in> set semantic_liftable_targets \<and> citable_unit_ids p = []
        then EvidenceUnliftable else ReasonSatisfied)"
proof (cases "target_label (bp_unlinked plan) \<in> set semantic_liftable_targets \<and> citable_unit_ids p = []")
  case True
  obtain x where "failed_execution plan (build_plan_fingerprint pd plan) EvidenceUnliftable = Inr x"
    "per_reason (pe_result x) = EvidenceUnliftable"
    using failed_execution_total [OF assms(1)] by (metis plan_reason.distinct(25))
  with True that show thesis by (simp add: settle_path_def)
next
  case False
  obtain x where "satisfied_execution plan (build_plan_fingerprint pd plan) p (path_fp digest p) = Inr x"
    "per_reason (pe_result x) = ReasonSatisfied"
    using satisfied_execution_total [OF assms(1,2)] by metis
  moreover have "build_topology_path_fingerprint digest p = Inr (path_fp digest p)"
    using assms(3) by (simp add: fingerprint_walk path_fp_def)
  ultimately show thesis using False that by (auto simp: settle_path_def)
qed

lemma dedup_length:
  assumes "inj_on digest (topology_of ` set ps)" and "deduplicate_topology_paths digest ps = Inr qs"
  shows "length qs = card (topology_of ` set ps)"
proof -
  have "length qs = length (map (path_fp digest) qs)" by simp
  also have "\<dots> = card (path_fp digest ` set ps)"
    by (simp only: dedup_keys [OF assms(2)]) (metis distinct_card distinct_stable_unique set_map set_stable_unique)
  also have "path_fp digest ` set ps = (\<lambda>t. ''path_'' @ digest t) ` topology_of ` set ps"
    by (auto simp: path_fp_def)
  also have "card \<dots> = card (topology_of ` set ps)"
    using assms(1) by (intro card_image) (auto simp: inj_on_def)
  finally show ?thesis .
qed

lemma citable_merge [simp]: "citable_unit_ids (merge_group g) = citable_unit_ids (representative g)"
  by (simp add: citable_unit_ids_def)

lemma dedup_single:
  assumes "deduplicate_topology_paths digest ps = Inr [q]"
  shows "q = merge_group ps"
proof -
  from assms obtain k g where g: "grouped (path_fp digest) ps = [(k, g)]" "q = merge_group g"
    by (auto simp: dedup_eq)
  then have "stable_unique (map (path_fp digest) ps) = [k]"
    by (metis grouped_keys fst_conv list.simps(8,9))
  then have "set (map (path_fp digest) ps) = {k}"
    by (metis list.set(1,2) set_stable_unique)
  then have "filter (\<lambda>x. path_fp digest x = k) ps = ps"
    by (auto intro!: filter_True)
  with grouped_member(1) [of k g "path_fp digest" ps] g show ?thesis by simp
qed

text \<open>
  C16: The executor is total and reports the reason its inputs determine. For a plan whose endpoints
  have identifiers and rows that map to matching paths, it returns a result and never raises: too
  many rows exceed the budget, no row is no path, no path in force is a temporal rejection, more
  than one topology in force is ambiguous, a semantic target without a citable unit is unliftable,
  and the plan is satisfied in every other case.
\<close>

theorem execute_plan_outcome:
  assumes "identified plan" and "length (up_steps (bp_unlinked plan)) \<in> {2, 3}"
    and rows: "rows = lookup (be_node_id (bp_anchor plan)) (be_node_id (bp_target plan))
      (map (\<lambda>s. (st_relation s, st_direction s, st_next_label s)) (up_steps (bp_unlinked plan)))
      fs (max_paths + 1)"
    and mapped: "rmapm map_graph_path rows = Inr mapped" "\<forall>p \<in> set mapped. path_matches plan p"
    and inj: "inj_on digest (topology_of ` set mapped)"
  shows "\<exists>x. execute_plan digest plan_digest lookup max_paths plan fs = Inr x
    \<and> per_reason (pe_result x) = plan_outcome max_paths plan fs rows mapped"
proof -
  let ?fp = "build_plan_fingerprint plan_digest plan"
  define temporal where "temporal = filter (\<lambda>p. is_graph_path_temporally_valid p (query_date fs)) mapped"
  have fail: "\<exists>x. failed_execution plan ?fp reason = Inr x \<and> per_reason (pe_result x) = reason"
    if "reason \<noteq> ReasonSatisfied" for reason
    using failed_execution_total [OF assms(1) that] by metis
  have walks: "\<forall>p \<in> set temporal. is_walk p"
    using rmapm_set [OF mapped(1)] map_graph_path_wf by (fastforce simp: temporal_def path_wf_def)
  define qs where "qs = map (\<lambda>(fp, g). merge_group g) (grouped (path_fp digest) temporal)"
  have d: "deduplicate_topology_paths digest temporal = Inr qs"
    using walks by (simp add: dedup_eq qs_def)
  have "inj_on digest (topology_of ` set temporal)"
    using inj by (rule inj_on_subset) (auto simp: temporal_def)
  note len = dedup_length [OF this d]
  have exact: "check_exact plan mapped = Inr ()" using mapped(2) by (simp add: check_exact_Inr)
  have unfold: "execute_plan digest plan_digest lookup max_paths plan fs =
     (if length rows > max_paths then failed_execution plan ?fp PathBudgetExceeded
      else if rows = [] then failed_execution plan ?fp NoPath
      else if temporal = [] then failed_execution plan ?fp TemporalRejected
      else if length qs > 1 then failed_execution plan ?fp AmbiguousPath
      else settle_path digest plan ?fp (hd (sort_key graph_path_rank_key qs)))"
    by (simp only: execute_plan_def Let_def rows [symmetric] mapped(1) exact rbind_simps
        temporal_def [symmetric] d length_sort)
  note unfold = unfold plan_outcome_def Let_def temporal_def [symmetric]
  consider "length rows > max_paths" | "length rows \<le> max_paths" "rows = []"
    | "length rows \<le> max_paths" "rows \<noteq> []" "temporal = []"
    | "length rows \<le> max_paths" "rows \<noteq> []" "temporal \<noteq> []" "length qs > 1"
    | "length rows \<le> max_paths" "rows \<noteq> []" "temporal \<noteq> []" "length qs \<le> 1"
    by linarith
  then show ?thesis
  proof cases
    case 1 with fail [of PathBudgetExceeded] show ?thesis by (simp add: unfold)
  next
    case 2 with fail [of NoPath] show ?thesis by (simp add: unfold)
  next
    case 3 with fail [of TemporalRejected] show ?thesis by (simp add: unfold)
  next
    case 4 with fail [of AmbiguousPath] show ?thesis by (simp add: unfold flip: len)
  next
    case 5
    have "qs \<noteq> []"
      using 5(3) dedup_keys [OF d] by (metis list.map_disc_iff set_empty set_stable_unique)
    with 5(4) obtain q where q: "qs = [q]" by (cases qs) (auto simp: le_Suc_eq)
    then have merged: "q = merge_group temporal" using d dedup_single by blast
    have "is_walk q"
      using d walks q merged 5(3) representative_in by simp
    from settle_path_total [OF assms(1,2) this] obtain x
      where "settle_path digest plan ?fp q = Inr x" "per_reason (pe_result x) =
        (if target_label (bp_unlinked plan) \<in> set semantic_liftable_targets \<and> citable_unit_ids q = []
         then EvidenceUnliftable else ReasonSatisfied)"
      by metis
    with 5 q merged show ?thesis by (simp add: unfold flip: len)
  qed
qed

theorem execute_plan_outcome_witness:
  "\<exists>x. sample_execution = Inr x \<and> per_reason (pe_result x) = ReasonSatisfied"
proof -
  have "\<exists>p. rmapm map_graph_path [sample_exact_row] = Inr [p]
      \<and> validate_exact_path p sample_bound = None
      \<and> plan_outcome default_max_exact_paths sample_bound sample_filters [sample_exact_row] [p]
          = ReasonSatisfied"
  proof -
    have "(case map_graph_path sample_exact_row of Inl e \<Rightarrow> False
        | Inr p \<Rightarrow> validate_exact_path p sample_bound = None
            \<and> is_graph_path_temporally_valid p (query_date sample_filters) \<and> citable_unit_ids p = [''B''])"
      by code_simp
    then obtain p where "map_graph_path sample_exact_row = Inr p" "validate_exact_path p sample_bound = None"
      "is_graph_path_temporally_valid p (query_date sample_filters)" "citable_unit_ids p = [''B'']"
      by (auto split: sum.splits)
    then show ?thesis
      by (intro exI [of _ p]) (simp add: plan_outcome_def default_max_exact_paths_def)
  qed
  then obtain p where p: "rmapm map_graph_path [sample_exact_row] = Inr [p]"
      "path_matches sample_bound p"
      "plan_outcome default_max_exact_paths sample_bound sample_filters [sample_exact_row] [p]
          = ReasonSatisfied"
    by (auto simp: validate_exact_path_None)
  have "identified sample_bound" "length (up_steps (bp_unlinked sample_bound)) \<in> {2, 3}"
    by code_simp+
  note outcome = execute_plan_outcome [OF this, of "[sample_exact_row]" sample_lookup sample_filters
      default_max_exact_paths "[p]" id_digest "\<lambda>p. ''0''"]
  from outcome p show ?thesis by (simp add: sample_execution_def sample_lookup_def)
qed

end
