(* ===== verification/Linker_Mentions.thy ===== *)
theory Linker_Mentions
  imports Py_Text
begin

text \<open>
  Parsing of structural mentions (\<open>src/retrieval/planning/linker.py\<close>): \<open>Diem a khoan 1 Dieu 5\<close>,
  \<open>Khoan 2 Dieu 5\<close>, \<open>Dieu 5\<close> and \<open>Luat 59/2020/QH14\<close> with their Vietnamese letters. The four
  regular expressions are matched against a text whose white space is single blanks, so each
  is a pattern over the words of the text. \<open>re.IGNORECASE\<close> is written out: a letter of a
  pattern stands for the characters that match it, among them U+0130 and U+0131 for \<open>i\<close>,
  U+017F for \<open>s\<close> and U+212A for \<open>k\<close>. Unicode NFC normalisation is the argument \<open>nfc\<close>.
\<close>

subsection \<open>Characters and words\<close>

text \<open>A pattern gives for each character the encodings that match it.\<close>

type_synonym char_pattern = "str list list"

definition ci_i :: "str list" where
  "ci_i = [''i'', ''I'', [CHR 0xC4, CHR 0xB0], [CHR 0xC4, CHR 0xB1]]"

definition ci_s :: "str list" where
  "ci_s = [''s'', ''S'', [CHR 0xC5, CHR 0xBF]]"

definition ci_k :: "str list" where
  "ci_k = [''k'', ''K'', [CHR 0xE2, CHR 0x84, CHR 0xAA]]"

fun match_word :: "char_pattern \<Rightarrow> str \<Rightarrow> bool" where
  "match_word [] s \<longleftrightarrow> s = []"
| "match_word (alts # ps) s \<longleftrightarrow> list_ex (\<lambda>a. prefix a s \<and> match_word ps (drop (length a) s)) alts"

definition w_diem :: char_pattern where
  "w_diem =
     [[[CHR 0xC4, CHR 0x91], [CHR 0xC4, CHR 0x90]], ci_i, [[CHR 0xE1, CHR 0xBB, CHR 0x83],
      [CHR 0xE1, CHR 0xBB, CHR 0x82]], [''m'', ''M'']]"

definition w_khoan :: char_pattern where
  "w_khoan =
     [ci_k, [''h'', ''H''], [''o'', ''O''], [[CHR 0xE1, CHR 0xBA, CHR 0xA3], [CHR 0xE1, CHR
      0xBA, CHR 0xA2]], [''n'', ''N'']]"

definition w_dieu :: char_pattern where
  "w_dieu =
     [[[CHR 0xC4, CHR 0x91], [CHR 0xC4, CHR 0x90]], ci_i, [[CHR 0xE1, CHR 0xBB, CHR 0x81],
      [CHR 0xE1, CHR 0xBB, CHR 0x80]], [''u'', ''U'']]"

definition w_luat :: char_pattern where
  "w_luat =
     [[''l'', ''L''], [''u'', ''U''], [[CHR 0xE1, CHR 0xBA, CHR 0xAD], [CHR 0xE1, CHR 0xBA,
      CHR 0xAC]], [''t'', ''T'']]"

definition w_nghi :: char_pattern where
  "w_nghi =
     [[''n'', ''N''], [''g'', ''G''], [''h'', ''H''], [[CHR 0xE1, CHR 0xBB, CHR 0x8B], [CHR
      0xE1, CHR 0xBB, CHR 0x8A]]]"

definition w_dinh :: char_pattern where
  "w_dinh =
     [[[CHR 0xC4, CHR 0x91], [CHR 0xC4, CHR 0x90]], [[CHR 0xE1, CHR 0xBB, CHR 0x8B], [CHR
      0xE1, CHR 0xBB, CHR 0x8A]], [''n'', ''N''], [''h'', ''H'']]"

definition w_thong :: char_pattern where
  "w_thong =
     [[''t'', ''T''], [''h'', ''H''], [[CHR 0xC3, CHR 0xB4], [CHR 0xC3, CHR 0x94]], [''n'',
      ''N''], [''g'', ''G'']]"

definition w_tu :: char_pattern where
  "w_tu =
     [[''t'', ''T''], [[CHR 0xC6, CHR 0xB0], [CHR 0xC6, CHR 0xAF]]]"

definition w_quyet :: char_pattern where
  "w_quyet =
     [[''q'', ''Q''], [''u'', ''U''], [''y'', ''Y''], [[CHR 0xE1, CHR 0xBA, CHR 0xBF], [CHR
      0xE1, CHR 0xBA, CHR 0xBE]], [''t'', ''T'']]"

definition w_phap :: char_pattern where
  "w_phap =
     [[''p'', ''P''], [''h'', ''H''], [[CHR 0xC3, CHR 0xA1], [CHR 0xC3, CHR 0x81]], [''p'',
      ''P'']]"

definition w_lenh :: char_pattern where
  "w_lenh =
     [[''l'', ''L''], [[CHR 0xE1, CHR 0xBB, CHR 0x87], [CHR 0xE1, CHR 0xBB, CHR 0x86]],
      [''n'', ''N''], [''h'', ''H'']]"

definition w_hien :: char_pattern where
  "w_hien =
     [[''h'', ''H''], ci_i, [[CHR 0xE1, CHR 0xBA, CHR 0xBF], [CHR 0xE1, CHR 0xBA, CHR
      0xBE]], [''n'', ''N'']]"

definition w_van :: char_pattern where
  "w_van =
     [[''v'', ''V''], [[CHR 0xC4, CHR 0x83], [CHR 0xC4, CHR 0x82]], [''n'', ''N'']]"

definition w_ban :: char_pattern where
  "w_ban =
     [[''b'', ''B''], [[CHR 0xE1, CHR 0xBA, CHR 0xA3], [CHR 0xE1, CHR 0xBA, CHR 0xA2]],
      [''n'', ''N'']]"

definition w_so :: char_pattern where
  "w_so =
     [ci_s, [[CHR 0xE1, CHR 0xBB, CHR 0x91], [CHR 0xE1, CHR 0xBB, CHR 0x90]]]"

text \<open>The classes \<open>[0-9]\<close>, \<open>[A-Za-z]\<close> under \<open>IGNORECASE\<close>, and the letter \<open>D\<close> with stroke.\<close>

definition is_digit :: "char \<Rightarrow> bool" where
  "is_digit c \<longleftrightarrow> CHR ''0'' \<le> c \<and> c \<le> CHR ''9''"

definition is_upper_ascii :: "char \<Rightarrow> bool" where
  "is_upper_ascii c \<longleftrightarrow> CHR ''A'' \<le> c \<and> c \<le> CHR ''Z''"

definition is_lower_ascii :: "char \<Rightarrow> bool" where
  "is_lower_ascii c \<longleftrightarrow> CHR ''a'' \<le> c \<and> c \<le> CHR ''z''"

definition wide_letters :: "str list" where
  "wide_letters = [[CHR 0xC4, CHR 0xB0], [CHR 0xC4, CHR 0xB1], [CHR 0xC5, CHR 0xBF],
     [CHR 0xE2, CHR 0x84, CHR 0xAA]]"

definition d_stroke_upper :: str where "d_stroke_upper = [CHR 0xC4, CHR 0x90]"
definition d_stroke_lower :: str where "d_stroke_lower = [CHR 0xC4, CHR 0x91]"

definition letter_text :: "str \<Rightarrow> bool" where
  "letter_text s \<longleftrightarrow>
     (case s of [c] \<Rightarrow> is_upper_ascii c \<or> is_lower_ascii c | _ \<Rightarrow> s \<in> set wide_letters)"

definition number_text :: "str \<Rightarrow> bool" where
  "number_text s \<longleftrightarrow>
     (let suffix = dropWhile is_digit s in
      takeWhile is_digit s \<noteq> [] \<and> (suffix = [] \<or> letter_text suffix))"

definition point_text :: "str \<Rightarrow> bool" where
  "point_text s \<longleftrightarrow> letter_text s \<or> s = d_stroke_upper \<or> s = d_stroke_lower"

text \<open>The first character of a text, as the encoding of one of the characters in a list.\<close>

definition first_of :: "str list \<Rightarrow> str \<Rightarrow> str option" where
  "first_of alts s = find (\<lambda>a. a \<noteq> [] \<and> prefix a s) alts"

definition document_wide :: "str list" where
  "document_wide = d_stroke_upper # d_stroke_lower # wide_letters"

definition document_ascii :: "char \<Rightarrow> bool" where
  "document_ascii c \<longleftrightarrow> is_digit c \<or> is_upper_ascii c \<or> is_lower_ascii c \<or> c \<in> set ''./-''"

function document_chars :: "str \<Rightarrow> bool" where
  "document_chars s \<longleftrightarrow>
     (case s of [] \<Rightarrow> True
      | c # cs \<Rightarrow>
          if document_ascii c then document_chars cs
          else case first_of document_wide s of None \<Rightarrow> False
            | Some a \<Rightarrow> document_chars (drop (length a) s))"
  by pat_completeness auto
termination
  by (relation "measure length") (auto simp: first_of_def find_Some_iff)

declare document_chars.simps [simp del]

definition document_text :: "str \<Rightarrow> bool" where
  "document_text s \<longleftrightarrow> s \<noteq> [] \<and> document_chars s"

text \<open>
  \<open>str.casefold\<close> and \<open>str.upper\<close> on the characters of these classes. U+0130 folds to \<open>i\<close> and a
  combining dot.
\<close>

definition fold_table :: "(str \<times> str) list" where
  "fold_table =
     [(d_stroke_upper, d_stroke_lower), ([CHR 0xC4, CHR 0xB0], [CHR 0x69, CHR 0xCC, CHR 0x87]),
      ([CHR 0xC5, CHR 0xBF], ''s''), ([CHR 0xE2, CHR 0x84, CHR 0xAA], ''k'')]"

definition upper_table :: "(str \<times> str) list" where
  "upper_table =
     [(d_stroke_lower, d_stroke_upper), ([CHR 0xC4, CHR 0xB1], ''I''), ([CHR 0xC5, CHR 0xBF], ''S'')]"

definition shift_char :: "int \<Rightarrow> char \<Rightarrow> char" where
  "shift_char n c = char_of (of_char c + n)"

definition fold_char :: "char \<Rightarrow> char" where
  "fold_char c = (if is_upper_ascii c then shift_char 32 c else c)"

definition upper_char :: "char \<Rightarrow> char" where
  "upper_char c = (if is_lower_ascii c then shift_char (-32) c else c)"

function translate_text :: "(str \<times> str) list \<Rightarrow> (char \<Rightarrow> char) \<Rightarrow> str \<Rightarrow> str" where
  "translate_text table f s =
     (case s of [] \<Rightarrow> []
      | c # cs \<Rightarrow>
          case find (\<lambda>(a, b). a \<noteq> [] \<and> prefix a s) table of
            None \<Rightarrow> f c # translate_text table f cs
          | Some (a, b) \<Rightarrow> b @ translate_text table f (drop (length a) s))"
  by pat_completeness auto
termination
  by (relation "measure (\<lambda>(t, f, s). length s)") (auto simp: find_Some_iff)

declare translate_text.simps [simp del]

definition casefold_text :: "str \<Rightarrow> str" where
  "casefold_text s = translate_text fold_table fold_char s"

definition upper_text :: "str \<Rightarrow> str" where
  "upper_text s = translate_text upper_table upper_char s"

subsection \<open>Structural references\<close>

datatype structural_label = SDocument | SArticle | SClause | SPoint

fun structural_label_value :: "structural_label \<Rightarrow> str" where
  "structural_label_value SDocument = ''Document''"
| "structural_label_value SArticle = ''Article''"
| "structural_label_value SClause = ''Clause''"
| "structural_label_value SPoint = ''Point''"

record structural_reference =
  sr_label :: structural_label
  sr_document_number :: "str option"
  sr_article_number :: "str option"
  sr_clause_number :: "str option"
  sr_point_label :: "str option"

text \<open>\<open>validate_hierarchy_shape\<close>: \<open>None\<close> is the \<open>ValueError\<close>.\<close>

definition make_structural_reference ::
  "structural_label \<Rightarrow> str option \<Rightarrow> str option \<Rightarrow> str option \<Rightarrow> str option
     \<Rightarrow> structural_reference option" where
  "make_structural_reference label doc art cl pt =
     (let required = (case label of
          SDocument \<Rightarrow> [doc] | SArticle \<Rightarrow> [art] | SClause \<Rightarrow> [art, cl] | SPoint \<Rightarrow> [art, cl, pt])
      in if None \<in> set required then None
         else Some \<lparr>sr_label = label, sr_document_number = doc, sr_article_number = art,
                    sr_clause_number = cl, sr_point_label = pt\<rparr>)"

definition normalize_mention :: "(str \<Rightarrow> str) \<Rightarrow> str \<Rightarrow> str" where
  "normalize_mention nfc v = squeeze (py_strip (nfc v))"

text \<open>One pattern per label over the words of the mention: the groups it captures.\<close>

definition match_point :: "str list \<Rightarrow> (str \<times> str \<times> str) option" where
  "match_point ws =
     (case ws of
        [d, p, k, c, e, a] \<Rightarrow>
          if match_word w_diem d \<and> point_text p \<and> match_word w_khoan k \<and> number_text c
             \<and> match_word w_dieu e \<and> number_text a
          then Some (p, c, a) else None
      | _ \<Rightarrow> None)"

definition match_clause :: "str list \<Rightarrow> (str \<times> str) option" where
  "match_clause ws =
     (case ws of
        [k, c, e, a] \<Rightarrow>
          if match_word w_khoan k \<and> number_text c \<and> match_word w_dieu e \<and> number_text a
          then Some (c, a) else None
      | _ \<Rightarrow> None)"

definition match_article :: "str list \<Rightarrow> str option" where
  "match_article ws =
     (case ws of
        [e, a] \<Rightarrow> if match_word w_dieu e \<and> number_text a then Some a else None
      | _ \<Rightarrow> None)"

definition document_kinds :: "char_pattern list list" where
  "document_kinds =
     [[w_luat], [w_nghi, w_dinh], [w_thong, w_tu], [w_quyet, w_dinh], [w_nghi, w_quyet],
      [w_phap, w_lenh], [w_hien, w_phap], [w_van, w_ban]]"

definition match_words :: "char_pattern list \<Rightarrow> str list \<Rightarrow> bool" where
  "match_words ps ws \<longleftrightarrow> length ws = length ps \<and> list_all2 match_word ps ws"

text \<open>The kind of document, an optional \<open>so\<close>, and the document number as the last word.\<close>

definition match_document :: "str list \<Rightarrow> str option" where
  "match_document ws =
     (if ws = [] \<or> \<not> document_text (last ws) then None
      else if list_ex (\<lambda>ps. match_words ps (butlast ws) \<or> match_words (ps @ [w_so]) (butlast ws))
                document_kinds
      then Some (last ws) else None)"

definition parse_structural_reference :: "(str \<Rightarrow> str) \<Rightarrow> str \<Rightarrow> structural_reference option" where
  "parse_structural_reference nfc mention =
     (let ws = py_split (normalize_mention nfc mention) in
      case match_point ws of
        Some (p, c, a) \<Rightarrow> make_structural_reference SPoint None (Some (casefold_text a))
          (Some (casefold_text c)) (Some (casefold_text p))
      | None \<Rightarrow> (case match_clause ws of
          Some (c, a) \<Rightarrow> make_structural_reference SClause None (Some (casefold_text a))
            (Some (casefold_text c)) None
        | None \<Rightarrow> (case match_article ws of
            Some a \<Rightarrow> make_structural_reference SArticle None (Some (casefold_text a)) None None
          | None \<Rightarrow> (case match_document ws of
              Some d \<Rightarrow> make_structural_reference SDocument (Some (upper_text d)) None None None
            | None \<Rightarrow> None))))"

end
