(* ===== verification/Linker.thy ===== *)
theory Linker
  imports Linker_Mentions Planning
begin

text \<open>
  Binding of mentions to graph nodes (\<open>src/retrieval/planning/linker.py\<close>): the structural and the
  semantic resolver and the linker that chooses between them, and the binder of plans
  (\<open>src/retrieval/planning/binder.py\<close>). The lookup and the two retrieval channels are arguments.
\<close>

datatype endpoint_role = RoleAnchor | RoleTarget
datatype resolution_status = Resolved | Unbound | Ambiguous

subsection \<open>Structural resolution\<close>

record structural_candidate =
  sc_node_id :: str
  sc_label :: structural_label
  sc_document_id :: str

record structural_resolution =
  sres_role :: endpoint_role
  sres_status :: resolution_status
  sres_mention :: str
  sres_reference :: "structural_reference option"
  sres_candidates :: "structural_candidate list"
  sres_endpoint :: "bound_endpoint option"
  sres_reason :: "plan_reason option"
  sres_message :: str

text \<open>\<open>validate_resolution_state\<close>\<close>

definition make_structural_resolution ::
  "structural_resolution \<Rightarrow> retrieval_error + structural_resolution" where
  "make_structural_resolution r =
     (if sres_status r = Resolved then
        (if length (sres_candidates r) \<noteq> 1 \<or> sres_endpoint r = None \<or> sres_reason r \<noteq> None
         then Inl EndpointRejected else Inr r)
      else if sres_endpoint r \<noteq> None \<or> sres_reason r = None then Inl EndpointRejected
      else Inr r)"

definition unbound_reason :: "endpoint_role \<Rightarrow> plan_reason" where
  "unbound_reason role = (case role of RoleAnchor \<Rightarrow> UnboundAnchor | RoleTarget \<Rightarrow> UnboundTarget)"

definition ambiguous_reason :: "endpoint_role \<Rightarrow> plan_reason" where
  "ambiguous_reason role = (case role of RoleAnchor \<Rightarrow> AmbiguousAnchor | RoleTarget \<Rightarrow> AmbiguousTarget)"

definition structural_unbound ::
  "endpoint_role \<Rightarrow> str \<Rightarrow> structural_reference option \<Rightarrow> str \<Rightarrow> retrieval_error + structural_resolution" where
  "structural_unbound role mention ref msg =
     make_structural_resolution
       \<lparr>sres_role = role, sres_status = Unbound, sres_mention = mention, sres_reference = ref,
        sres_candidates = [], sres_endpoint = None, sres_reason = Some (unbound_reason role),
        sres_message = msg\<rparr>"

definition structural_ambiguous ::
  "endpoint_role \<Rightarrow> str \<Rightarrow> structural_reference \<Rightarrow> structural_candidate list \<Rightarrow> str
     \<Rightarrow> retrieval_error + structural_resolution" where
  "structural_ambiguous role mention ref cands msg =
     make_structural_resolution
       \<lparr>sres_role = role, sres_status = Ambiguous, sres_mention = mention, sres_reference = Some ref,
        sres_candidates = cands, sres_endpoint = None, sres_reason = Some (ambiguous_reason role),
        sres_message = msg\<rparr>"

type_synonym structural_lookup =
  "structural_label \<Rightarrow> str option \<Rightarrow> str option \<Rightarrow> str option \<Rightarrow> str option \<Rightarrow> filters \<Rightarrow> nat
     \<Rightarrow> props list"

definition lookup_limit :: nat where "lookup_limit = 20"

fun structural_label_of :: "str \<Rightarrow> structural_label option" where
  "structural_label_of s =
     (if s = ''Document'' then Some SDocument else if s = ''Article'' then Some SArticle
      else if s = ''Clause'' then Some SClause else if s = ''Point'' then Some SPoint else None)"

text \<open>
  \<open>StructuralEndpointCandidate.model_validate(row)\<close>: exactly the three fields, all strings, the
  identifiers stripped and not blank.
\<close>

definition candidate_of_row :: "props \<Rightarrow> structural_candidate option" where
  "candidate_of_row row =
     (case (getp row ''node_id'', getp row ''label'', getp row ''document_id'') of
        (PStr n, PStr l, PStr d) \<Rightarrow>
          (case structural_label_of l of
             None \<Rightarrow> None
           | Some label \<Rightarrow>
               if set (map fst row) \<subseteq> {''node_id'', ''label'', ''document_id''}
                  \<and> py_strip n \<noteq> [] \<and> py_strip d \<noteq> []
               then Some \<lparr>sc_node_id = py_strip n, sc_label = label, sc_document_id = py_strip d\<rparr>
               else None)
      | _ \<Rightarrow> None)"

fun collect_candidates ::
  "structural_reference \<Rightarrow> filters \<Rightarrow> props list \<Rightarrow> (str \<times> structural_candidate) list
     \<Rightarrow> retrieval_error + (str \<times> structural_candidate) list" where
  "collect_candidates ref fs [] d = Inr d"
| "collect_candidates ref fs (row # rows) d =
     (case candidate_of_row row of
        None \<Rightarrow> Inl EndpointRowMalformed
      | Some c \<Rightarrow>
          if sc_label c \<noteq> sr_label ref then Inl EndpointLabelMismatch
          else if sc_document_id c \<notin> set (document_ids fs) then Inl EndpointOutsideScope
          else if map_of d (sc_node_id c) \<noteq> None \<and> map_of d (sc_node_id c) \<noteq> Some c
          then Inl EndpointRowsConflict
          else collect_candidates ref fs rows (AList.update (sc_node_id c) c d))"

definition validated_candidates ::
  "props list \<Rightarrow> structural_reference \<Rightarrow> filters \<Rightarrow> retrieval_error + structural_candidate list" where
  "validated_candidates rows ref fs =
     rbind (collect_candidates ref fs rows []) (\<lambda>d. Inr (map snd (sort_key fst d)))"

definition bind_structural ::
  "endpoint_role \<Rightarrow> str \<Rightarrow> structural_reference \<Rightarrow> structural_candidate list
     \<Rightarrow> retrieval_error + structural_resolution" where
  "bind_structural role mention ref cands =
     (case cands of
        [] \<Rightarrow> structural_unbound role mention (Some ref) ''No structural match''
      | [c] \<Rightarrow>
          (case make_bound_endpoint mention (sc_node_id c) (structural_label_value (sc_label c))
                  StructuralMethod None of
             Inl e \<Rightarrow> Inl EndpointRejected
           | Inr b \<Rightarrow> make_structural_resolution
               \<lparr>sres_role = role, sres_status = Resolved, sres_mention = mention,
                sres_reference = Some ref, sres_candidates = [c], sres_endpoint = Some b,
                sres_reason = None, sres_message = ''Structural endpoint resolved uniquely''\<rparr>)
      | _ \<Rightarrow> structural_ambiguous role mention ref cands
               ''Structural mention matched multiple canonical nodes'')"

definition resolve_structural ::
  "(str \<Rightarrow> str) \<Rightarrow> structural_lookup \<Rightarrow> str \<Rightarrow> endpoint_role \<Rightarrow> str option \<Rightarrow> filters
     \<Rightarrow> retrieval_error + structural_resolution" where
  "resolve_structural nfc lookup mention_text role expected fs =
     (let mention = normalize_mention nfc mention_text in
      case parse_structural_reference nfc mention of
        None \<Rightarrow> structural_unbound role mention None ''Unsupported structural mention''
      | Some ref \<Rightarrow>
          if expected \<noteq> None \<and> the expected \<notin> set query_traversal_labels
          then structural_unbound role mention (Some ref) ''Expected label is not query-plannable''
          else if expected \<noteq> None \<and> the expected \<noteq> structural_label_value (sr_label ref)
          then structural_unbound role mention (Some ref) ''Mention label differs from expected label''
          else if document_ids fs = []
          then structural_ambiguous role mention ref []
                 ''Document scope is required for structural binding''
          else
            rbind (validated_candidates
                (lookup (sr_label ref) (sr_document_number ref) (sr_article_number ref)
                   (sr_clause_number ref) (sr_point_label ref) fs lookup_limit) ref fs)
              (bind_structural role mention ref))"

subsection \<open>Semantic resolution\<close>

record linker_config =
  lc_rrf_k :: nat
  lc_anchor_min_score :: float
  lc_target_min_score :: float
  lc_anchor_min_margin :: float
  lc_target_min_margin :: float
  lc_anchor_candidate_k :: nat
  lc_target_candidate_k :: nat

text \<open>The decimal literals of the defaults are rounded to doubles as the parser does.\<close>

definition default_linker_config :: linker_config where
  "default_linker_config =
     \<lparr>lc_rrf_k = 60, lc_anchor_min_score = fl (63 / 1000), lc_target_min_score = fl (63 / 1000),
      lc_anchor_min_margin = fl (1 / 1000), lc_target_min_margin = fl (1 / 1000),
      lc_anchor_candidate_k = 10, lc_target_candidate_k = 10\<rparr>"

definition linker_config_ok :: "linker_config \<Rightarrow> bool" where
  "linker_config_ok c \<longleftrightarrow>
     1 \<le> lc_rrf_k c
     \<and> 0 < lc_anchor_min_score c \<and> lc_anchor_min_score c \<le> 1
     \<and> 0 < lc_target_min_score c \<and> lc_target_min_score c \<le> 1
     \<and> 0 \<le> lc_anchor_min_margin c \<and> lc_anchor_min_margin c \<le> 1
     \<and> 0 \<le> lc_target_min_margin c \<and> lc_target_min_margin c \<le> 1
     \<and> 1 \<le> lc_anchor_candidate_k c \<and> lc_anchor_candidate_k c \<le> 100
     \<and> 1 \<le> lc_target_candidate_k c \<and> lc_target_candidate_k c \<le> 100"

record semantic_candidate =
  sem_node_id :: str
  sem_label :: str
  sem_document_id :: str
  sem_score :: float
  sem_sources :: "channel list"

record semantic_resolution =
  mres_role :: endpoint_role
  mres_status :: resolution_status
  mres_mention :: str
  mres_candidates :: "semantic_candidate list"
  mres_endpoint :: "bound_endpoint option"
  mres_reason :: "plan_reason option"
  mres_message :: str

definition make_semantic_resolution ::
  "semantic_resolution \<Rightarrow> retrieval_error + semantic_resolution" where
  "make_semantic_resolution r =
     (if mres_status r = Resolved then
        (if mres_candidates r = [] \<or> mres_endpoint r = None \<or> mres_reason r \<noteq> None
         then Inl EndpointRejected else Inr r)
      else if mres_endpoint r \<noteq> None \<or> mres_reason r = None then Inl EndpointRejected
      else Inr r)"

definition candidate_k_of :: "linker_config \<Rightarrow> endpoint_role \<Rightarrow> nat" where
  "candidate_k_of c role =
     (case role of RoleAnchor \<Rightarrow> lc_anchor_candidate_k c | RoleTarget \<Rightarrow> lc_target_candidate_k c)"

definition min_score_of :: "linker_config \<Rightarrow> endpoint_role \<Rightarrow> float" where
  "min_score_of c role =
     (case role of RoleAnchor \<Rightarrow> lc_anchor_min_score c | RoleTarget \<Rightarrow> lc_target_min_score c)"

definition min_margin_of :: "linker_config \<Rightarrow> endpoint_role \<Rightarrow> float" where
  "min_margin_of c role =
     (case role of RoleAnchor \<Rightarrow> lc_anchor_min_margin c | RoleTarget \<Rightarrow> lc_target_min_margin c)"

definition semantic_unbound ::
  "endpoint_role \<Rightarrow> str \<Rightarrow> semantic_candidate list \<Rightarrow> str \<Rightarrow> retrieval_error + semantic_resolution" where
  "semantic_unbound role mention cands msg =
     make_semantic_resolution
       \<lparr>mres_role = role, mres_status = Unbound, mres_mention = mention, mres_candidates = cands,
        mres_endpoint = None, mres_reason = Some (unbound_reason role), mres_message = msg\<rparr>"

definition semantic_ambiguous ::
  "endpoint_role \<Rightarrow> str \<Rightarrow> semantic_candidate list \<Rightarrow> str \<Rightarrow> retrieval_error + semantic_resolution" where
  "semantic_ambiguous role mention cands msg =
     make_semantic_resolution
       \<lparr>mres_role = role, mres_status = Ambiguous, mres_mention = mention, mres_candidates = cands,
        mres_endpoint = None, mres_reason = Some (ambiguous_reason role), mres_message = msg\<rparr>"

text \<open>The direct units: those with the expected label, by identifier, the first hit of each.\<close>

definition direct_units :: "str \<Rightarrow> retrieved_unit list \<Rightarrow> (str \<times> retrieved_unit) list" where
  "direct_units expected units =
     fold (\<lambda>u d. if unit_label u = expected then setdefault (unit_id u) u d else d) units []"

definition score_recipients :: "retrieved_unit \<Rightarrow> str \<Rightarrow> (str \<times> retrieved_unit) list \<Rightarrow> str list" where
  "score_recipients u expected direct =
     (if unit_id u \<in> fst ` set direct then [unit_id u]
      else if expected = ''Clause'' \<and> unit_label u = ''Article'' then
        map unit_id (filter (\<lambda>c. article_id c = Some (unit_id u)) (dict_values direct))
      else if expected = ''Article'' \<and> unit_label u = ''Clause'' then
        (case article_id u of None \<Rightarrow> []
         | Some a \<Rightarrow> if a \<in> fst ` set direct then [a] else [])
      else [])"

text \<open>
  The scores after a channel: every hit adds \<open>1/(rrf_k + rank)\<close> to each of its recipients, in the
  order of the hits, and records the channel.
\<close>

type_synonym score_board = "(str \<times> float \<times> channel list) list"

definition add_score :: "channel \<Rightarrow> float \<Rightarrow> str \<Rightarrow> score_board \<Rightarrow> score_board" where
  "add_score source x i board =
     (case map_of board i of
        None \<Rightarrow> board
      | Some (s, cs) \<Rightarrow>
          AList.update i (fadd s x, if source \<in> set cs then cs else cs @ [source]) board)"

fun score_channel ::
  "str \<Rightarrow> nat \<Rightarrow> (str \<times> retrieved_unit) list \<Rightarrow> channel \<Rightarrow> nat \<Rightarrow> retrieved_unit list \<Rightarrow> score_board
     \<Rightarrow> score_board" where
  "score_channel expected k direct source rank [] board = board"
| "score_channel expected k direct source rank (u # us) board =
     score_channel expected k direct source (rank + 1) us
       (fold (add_score source (fdiv 1 (of_nat (k + rank)))) (score_recipients u expected direct) board)"

text \<open>
  \<open>_fuse_semantic_candidates\<close>. The direct units come from the channels in the order of the call,
  vector first; the scores from the channels in the order of their names, full text first.
\<close>

definition fuse_semantic_candidates ::
  "retrieved_unit list \<Rightarrow> retrieved_unit list \<Rightarrow> str \<Rightarrow> nat \<Rightarrow> nat \<Rightarrow> semantic_candidate list" where
  "fuse_semantic_candidates vec fulltext expected k top_n =
     (let direct = direct_units expected (vec @ fulltext);
          board = score_channel expected k direct VectorChannel 1 vec
                    (score_channel expected k direct FulltextChannel 1 fulltext
                       (map (\<lambda>(i, u). (i, 0, [])) direct));
          ordered = sort_key (\<lambda>(i, s, cs). (- s, i)) board
      in map (\<lambda>(i, s, cs).
             let u = the (map_of direct i) in
             \<lparr>sem_node_id = i, sem_label = unit_label u, sem_document_id = unit_document_id u,
              sem_score = s, sem_sources = cs\<rparr>) (take top_n ordered))"

type_synonym unit_channel = "str \<Rightarrow> filters \<Rightarrow> nat \<Rightarrow> retrieved_unit list"

definition channel_in_scope :: "filters \<Rightarrow> retrieved_unit list \<Rightarrow> bool" where
  "channel_in_scope fs units \<longleftrightarrow>
     document_ids fs = [] \<or> list_all (\<lambda>u. unit_document_id u \<in> set (document_ids fs)) units"

definition semantic_labels :: "str list" where
  "semantic_labels = [''Article'', ''Clause'', ''Point'']"

definition bind_semantic ::
  "linker_config \<Rightarrow> endpoint_role \<Rightarrow> str \<Rightarrow> semantic_candidate list
     \<Rightarrow> retrieval_error + semantic_resolution" where
  "bind_semantic config role mention cands =
     (if cands = [] \<or> sem_score (hd cands) < min_score_of config role
      then semantic_unbound role mention cands
             ''Semantic candidates are below the calibrated score threshold''
      else if length cands > 1
              \<and> fl (sem_score (cands ! 0) - sem_score (cands ! 1)) < min_margin_of config role
      then semantic_ambiguous role mention cands
             ''Semantic candidates do not meet the calibrated score margin''
      else
        let top = hd cands in
        case make_bound_endpoint mention (sem_node_id top) (sem_label top)
               (if VectorChannel \<in> set (sem_sources top) then VectorRRFMethod else FulltextMethod)
               (Some (sem_score top)) of
          Inl e \<Rightarrow> Inl EndpointRejected
        | Inr b \<Rightarrow> make_semantic_resolution
            \<lparr>mres_role = role, mres_status = Resolved, mres_mention = mention,
             mres_candidates = cands, mres_endpoint = Some b, mres_reason = None,
             mres_message = ''Semantic endpoint resolved above calibrated thresholds''\<rparr>)"

definition resolve_semantic ::
  "(str \<Rightarrow> str) \<Rightarrow> linker_config \<Rightarrow> unit_channel \<Rightarrow> unit_channel \<Rightarrow> str \<Rightarrow> endpoint_role
     \<Rightarrow> str option \<Rightarrow> filters \<Rightarrow> retrieval_error + semantic_resolution" where
  "resolve_semantic nfc config vec fulltext mention_text role expected fs =
     (let mention = normalize_mention nfc mention_text in
      case expected of
        None \<Rightarrow> semantic_unbound role mention []
          ''Expected label is not supported by legal-unit retrieval channels''
      | Some label \<Rightarrow>
          if label \<notin> set semantic_labels
          then semantic_unbound role mention []
                 ''Expected label is not supported by legal-unit retrieval channels''
          else
            let k = candidate_k_of config role;
                v = vec mention fs k;
                f = fulltext mention fs k
            in if \<not> (channel_in_scope fs v \<and> channel_in_scope fs f) then Inl EndpointOutsideScope
               else bind_semantic config role mention
                      (fuse_semantic_candidates v f label (lc_rrf_k config) k))"

subsection \<open>The linker\<close>

datatype endpoint_resolution =
    StructuralResolution structural_resolution
  | SemanticResolution semantic_resolution

definition res_status :: "endpoint_resolution \<Rightarrow> resolution_status" where
  "res_status r = (case r of StructuralResolution s \<Rightarrow> sres_status s | SemanticResolution s \<Rightarrow> mres_status s)"

definition res_endpoint :: "endpoint_resolution \<Rightarrow> bound_endpoint option" where
  "res_endpoint r = (case r of StructuralResolution s \<Rightarrow> sres_endpoint s | SemanticResolution s \<Rightarrow> mres_endpoint s)"

definition res_reason :: "endpoint_resolution \<Rightarrow> plan_reason option" where
  "res_reason r = (case r of StructuralResolution s \<Rightarrow> sres_reason s | SemanticResolution s \<Rightarrow> mres_reason s)"

definition res_message :: "endpoint_resolution \<Rightarrow> str" where
  "res_message r = (case r of StructuralResolution s \<Rightarrow> sres_message s | SemanticResolution s \<Rightarrow> mres_message s)"

record linker =
  ln_nfc :: "str \<Rightarrow> str"
  ln_lookup :: structural_lookup
  ln_vector :: unit_channel
  ln_fulltext :: unit_channel
  ln_config :: linker_config

definition linker_resolve ::
  "linker \<Rightarrow> str \<Rightarrow> endpoint_role \<Rightarrow> str option \<Rightarrow> filters \<Rightarrow> retrieval_error + endpoint_resolution" where
  "linker_resolve lk mention role expected fs =
     (if parse_structural_reference (ln_nfc lk) mention \<noteq> None
      then rbind (resolve_structural (ln_nfc lk) (ln_lookup lk) mention role expected fs)
             (\<lambda>r. Inr (StructuralResolution r))
      else rbind (resolve_semantic (ln_nfc lk) (ln_config lk) (ln_vector lk) (ln_fulltext lk)
                    mention role expected fs)
             (\<lambda>r. Inr (SemanticResolution r)))"

subsection \<open>Binding a plan\<close>

datatype binding_outcome =
    BoundPlan bound_plan
  | BindingFailure plan_reason str

definition binding_failure :: "endpoint_resolution \<Rightarrow> endpoint_role \<Rightarrow> binding_outcome option" where
  "binding_failure r role =
     (if res_status r = Resolved \<and> res_endpoint r \<noteq> None then None
      else Some (BindingFailure
        (case res_reason r of Some reason \<Rightarrow> reason | None \<Rightarrow> unbound_reason role) (res_message r)))"

definition rebind_mention :: "bound_endpoint \<Rightarrow> str \<Rightarrow> bound_endpoint" where
  "rebind_mention e text = e\<lparr>be_mention_text := text\<rparr>"

definition binder_bind ::
  "linker \<Rightarrow> unlinked_plan \<Rightarrow> filters \<Rightarrow> retrieval_error + binding_outcome" where
  "binder_bind lk u fs =
     rbind (linker_resolve lk (am_text (up_anchor u)) RoleAnchor (am_expected_label (up_anchor u)) fs)
       (\<lambda>anchor.
     case binding_failure anchor RoleAnchor of
       Some failure \<Rightarrow> Inr failure
     | None \<Rightarrow>
         rbind (linker_resolve lk (tm_text (up_target u)) RoleTarget (Some (target_label u)) fs)
           (\<lambda>target.
         case binding_failure target RoleTarget of
           Some failure \<Rightarrow> Inr failure
         | None \<Rightarrow>
             (case make_bound_plan u
                     (rebind_mention (the (res_endpoint anchor)) (am_text (up_anchor u)))
                     (rebind_mention (the (res_endpoint target)) (tm_text (up_target u))) of
                Inl e \<Rightarrow> Inr (BindingFailure InvalidPlan
                  ''Bound endpoints are inconsistent with the plan'')
              | Inr p \<Rightarrow> Inr (BoundPlan p))))"

end
