(* ===== verification/Linker_Properties.thy ===== *)
theory Linker_Properties
  imports Linker Graph_Path_Properties
begin

text \<open>
  Correctness of endpoint linking: a structural binding is the one node that every row of the lookup
  names, a semantic binding clears both calibrated thresholds, and what the thresholds exclude.
\<close>

subsection \<open>Structural bindings\<close>

lemma collect_keeps:
  "collect_candidates ref fs rows d = Inr d' \<Longrightarrow> map_of d k = Some c \<Longrightarrow> map_of d' k = Some c"
proof (induction ref fs rows d rule: collect_candidates.induct)
  case (2 ref fs row rows d)
  then obtain x where "candidate_of_row row = Some x"
    and "map_of d (sc_node_id x) = None \<or> map_of d (sc_node_id x) = Some x"
    and rest: "collect_candidates ref fs rows (AList.update (sc_node_id x) x d) = Inr d'"
    by (auto split: option.splits if_splits)
  then have "map_of (AList.update (sc_node_id x) x d) k = Some c"
    using "2.prems"(2) by (auto simp: update_conv)
  with 2 rest \<open>candidate_of_row row = Some x\<close> show ?case by (auto split: if_splits)
qed simp

lemma collect_rows:
  "collect_candidates ref fs rows d = Inr d' \<Longrightarrow> row \<in> set rows \<Longrightarrow>
     \<exists>c. candidate_of_row row = Some c \<and> map_of d' (sc_node_id c) = Some c
       \<and> sc_label c = sr_label ref \<and> sc_document_id c \<in> set (document_ids fs)"
proof (induction ref fs rows d rule: collect_candidates.induct)
  case (2 ref fs row' rows d)
  then obtain x where x: "candidate_of_row row' = Some x" "sc_label x = sr_label ref"
      "sc_document_id x \<in> set (document_ids fs)"
    and rest: "collect_candidates ref fs rows (AList.update (sc_node_id x) x d) = Inr d'"
    by (auto split: option.splits if_splits)
  show ?case
  proof (cases "row = row'")
    case True
    with x collect_keeps [OF rest, of "sc_node_id x" x] show ?thesis by (simp add: update_conv)
  next
    case False
    with 2 x rest show ?thesis by (auto split: if_splits)
  qed
qed simp

lemma validated_candidates_single:
  assumes "validated_candidates rows ref fs = Inr [c]"
  shows "rows \<noteq> [] \<and> (\<forall>row \<in> set rows. candidate_of_row row = Some c)
    \<and> sc_label c = sr_label ref \<and> sc_document_id c \<in> set (document_ids fs)"
proof -
  from assms obtain d where d: "collect_candidates ref fs rows [] = Inr d" "map snd (sort_key fst d) = [c]"
    by (auto simp: validated_candidates_def rbind_Inr_iff)
  then have "length d = 1" by (metis One_nat_def length_map length_sort list.size(3,4) add_0)
  then obtain k x where "d = [(k, x)]" by (auto simp: length_Suc_conv)
  with d(2) have single: "d = [(k, c)]" by simp
  have all: "candidate_of_row row = Some c \<and> sc_label c = sr_label ref
       \<and> sc_document_id c \<in> set (document_ids fs)" if "row \<in> set rows" for row
    using collect_rows [OF d(1) that] by (auto simp: single split: if_splits)
  moreover have "rows \<noteq> []" using d(1) by (auto simp: single)
  ultimately show ?thesis by (metis list.set_intros(1) neq_Nil_conv)
qed

text \<open>
  C30: A structural binding is unique and in scope. The mention parses, its label is the expected
  one, the document scope is not empty, and every row of the lookup is a well-formed row for one
  and the same candidate: that candidate has the label of the reference, lies in the document
  scope, and is the node that is bound.
\<close>

theorem structural_binding_unique:
  assumes "resolve_structural nfc lookup text role expected fs = Inr r" and "sres_status r = Resolved"
  shows "\<exists>ref c e. parse_structural_reference nfc (normalize_mention nfc text) = Some ref
    \<and> (expected = None \<or> expected = Some (structural_label_value (sr_label ref)))
    \<and> sres_candidates r = [c] \<and> sres_endpoint r = Some e
    \<and> be_node_id e = py_strip (sc_node_id c) \<and> be_label e = structural_label_value (sr_label ref)
    \<and> sc_document_id c \<in> set (document_ids fs)
    \<and> (let rows = lookup (sr_label ref) (sr_document_number ref) (sr_article_number ref)
              (sr_clause_number ref) (sr_point_label ref) fs lookup_limit
       in rows \<noteq> [] \<and> (\<forall>row \<in> set rows. candidate_of_row row = Some c))"
proof -
  have no: "structural_unbound role m rf msg \<noteq> Inr r" "structural_ambiguous role m rf' cs msg \<noteq> Inr r"
    for m rf rf' cs msg
    using assms(2)
    by (auto simp: structural_unbound_def structural_ambiguous_def make_structural_resolution_def)
  obtain ref cands where ref: "parse_structural_reference nfc (normalize_mention nfc text) = Some ref"
    and ex: "expected = None \<or> expected = Some (structural_label_value (sr_label ref))"
    and c: "validated_candidates (lookup (sr_label ref) (sr_document_number ref) (sr_article_number ref)
              (sr_clause_number ref) (sr_point_label ref) fs lookup_limit) ref fs = Inr cands"
    and b: "bind_structural role (normalize_mention nfc text) ref cands = Inr r"
    using assms(1) no
    by (cases expected)
      (auto simp: resolve_structural_def Let_def rbind_Inr_iff split: option.splits if_splits)
  from b no obtain x e where x: "cands = [x]"
    and e: "make_bound_endpoint (normalize_mention nfc text) (sc_node_id x)
        (structural_label_value (sc_label x)) StructuralMethod None = Inr e"
    and r: "sres_candidates r = [x]" "sres_endpoint r = Some e"
    by (auto simp: bind_structural_def make_structural_resolution_def split: list.splits sum.splits)
  from validated_candidates_single [OF c [unfolded x]] have v:
    "sc_label x = sr_label ref" "sc_document_id x \<in> set (document_ids fs)"
    "let rows = lookup (sr_label ref) (sr_document_number ref) (sr_article_number ref)
              (sr_clause_number ref) (sr_point_label ref) fs lookup_limit
       in rows \<noteq> [] \<and> (\<forall>row \<in> set rows. candidate_of_row row = Some x)"
    by (simp_all add: Let_def)
  from e have "be_node_id e = py_strip (sc_node_id x)" "be_label e = structural_label_value (sc_label x)"
    by (auto simp: make_bound_endpoint_def normalized_identifier_def Let_def rbind_Inr_iff split: if_splits)
  with ref ex r v show ?thesis by auto
qed

definition sample_structural_lookup :: structural_lookup where
  "sample_structural_lookup l doc art cl pt fs n =
     replicate 2 [(''node_id'', PStr ''ldn_art5''), (''label'', PStr ''Article''), (''document_id'', PStr ''ldn'')]"

definition sample_mention :: str where
  "sample_mention = dieu @ '' 5''"

theorem structural_binding_unique_witness:
  "\<exists>r. resolve_structural id sample_structural_lookup sample_mention RoleAnchor (Some ''Article'')
         (no_filters\<lparr>document_ids := [''ldn'']\<rparr>) = Inr r
    \<and> (\<exists>e. sres_endpoint r = Some e \<and> be_label e = ''Article'')"
proof -
  have "(case resolve_structural id sample_structural_lookup sample_mention RoleAnchor (Some ''Article'')
         (no_filters\<lparr>document_ids := [''ldn'']\<rparr>) of Inl e \<Rightarrow> False | Inr r \<Rightarrow> sres_status r = Resolved)"
    by code_simp
  then obtain r where r: "resolve_structural id sample_structural_lookup sample_mention RoleAnchor
      (Some ''Article'') (no_filters\<lparr>document_ids := [''ldn'']\<rparr>) = Inr r" "sres_status r = Resolved"
    by (auto split: sum.splits)
  from structural_binding_unique [OF r] r(1) show ?thesis by auto
qed

subsection \<open>Semantic scores\<close>

text \<open>The candidates are ranked by a key that ends with the identifier.\<close>

interpretation candidate_ranking: keyed_ranking "\<lambda>(i, s, cs). (- s :: float, i :: str)" fst
  by unfold_locales auto

lemma direct_units_snoc:
  "direct_units expected (us @ [u]) =
     (if unit_label u = expected then setdefault (unit_id u) u (direct_units expected us)
      else direct_units expected us)"
  by (simp add: direct_units_def)

lemma direct_units_facts:
  "distinct (map fst (direct_units expected us))
   \<and> (\<forall>(i, u) \<in> set (direct_units expected us).
        i = unit_id u \<and> unit_label u = expected \<and> u \<in> set us)"
proof (induction us rule: rev_induct)
  case Nil
  show ?case by (simp add: direct_units_def)
next
  case (snoc u us)
  then show ?case
    by (auto simp: direct_units_snoc setdefault_def image_iff)
qed

lemma add_score_keys [simp]: "map fst (add_score source x i board) = map fst board"
  by (auto simp: add_score_def update_keys split: option.split dest!: map_of_SomeD intro: rev_image_eqI)

lemma fold_add_score_keys [simp]:
  "map fst (fold (add_score source x) is board) = map fst board"
  by (induction "is" arbitrary: board) simp_all

lemma score_channel_keys [simp]:
  "map fst (score_channel expected k direct source rank us board) = map fst board"
  by (induction expected k direct source rank us board rule: score_channel.induct) simp_all

definition final_board ::
  "retrieved_unit list \<Rightarrow> retrieved_unit list \<Rightarrow> str \<Rightarrow> nat \<Rightarrow> score_board" where
  "final_board vec fulltext expected k =
     (let direct = direct_units expected (vec @ fulltext)
      in score_channel expected k direct VectorChannel 1 vec
           (score_channel expected k direct FulltextChannel 1 fulltext
              (map (\<lambda>(i, u). (i, 0, [])) direct)))"

lemma final_board_keys:
  "map fst (final_board vec fulltext expected k) = map fst (direct_units expected (vec @ fulltext))"
  by (simp add: final_board_def Let_def comp_def case_prod_unfold)

text \<open>What the fused candidates are: direct units of the expected label, by descending score.\<close>

lemma fuse_semantic_facts:
  defines "cands v f expected k n \<equiv> fuse_semantic_candidates v f expected k n"
  assumes "c \<in> set (cands v f expected k n)"
  shows "sem_label c = expected \<and> (\<exists>u \<in> set (v @ f). unit_id u = sem_node_id c
            \<and> unit_label u = expected \<and> unit_document_id u = sem_document_id c)
    \<and> (\<exists>cs. map_of (final_board v f expected k) (sem_node_id c) = Some (sem_score c, cs))"
proof -
  define board where "board = final_board v f expected k"
  let ?direct = "direct_units expected (v @ f)"
  from assms obtain i s cs where m: "(i, s, cs) \<in> set (take n (sort_key (\<lambda>(i, s, cs). (- s, i)) board))"
    and c: "c = (let u = the (map_of ?direct i) in
             \<lparr>sem_node_id = i, sem_label = unit_label u, sem_document_id = unit_document_id u,
              sem_score = s, sem_sources = cs\<rparr>)"
    by (auto simp: fuse_semantic_candidates_def Let_def board_def final_board_def)
  from m have b: "(i, s, cs) \<in> set board" by (auto dest: in_set_takeD)
  have keys: "map fst board = map fst ?direct" by (simp add: board_def final_board_keys)
  then have "distinct (map fst board)" using direct_units_facts by simp
  with b have "map_of board i = Some (s, cs)" by simp
  moreover have "i \<in> fst ` set ?direct"
    using b keys by (metis fst_conv image_eqI list.set_map)
  then obtain u where "map_of ?direct i = Some u" by (metis map_of_eq_None_iff not_None_eq)
  ultimately show ?thesis
    using c direct_units_facts [of expected "v @ f"] by (fastforce simp: board_def dest: map_of_SomeD)
qed

lemma fuse_semantic_sorted:
  "sorted_wrt (\<ge>) (map sem_score (fuse_semantic_candidates v f expected k n))"
proof -
  let ?key = "\<lambda>(i, s, cs). (- s :: float, i :: str)"
  define ordered where "ordered = sort_key ?key (final_board v f expected k)"
  have "sorted (map ?key ordered)" by (simp add: ordered_def)
  then have "sorted (map ?key (take n ordered))" by (simp add: take_map [symmetric] sorted_wrt_take)
  then have "sorted_wrt (\<ge>) (map (\<lambda>(i, s, cs). s) (take n ordered))"
    by (auto simp: sorted_map sorted_wrt_map case_prod_unfold elim!: sorted_wrt_mono_rel [rotated])
  moreover have "map sem_score (fuse_semantic_candidates v f expected k n)
      = map (\<lambda>(i, s, cs). s) (take n ordered)"
    by (simp add: fuse_semantic_candidates_def ordered_def final_board_def Let_def case_prod_unfold)
  ultimately show ?thesis by simp
qed

text \<open>
  A semantic binding clears the calibrated thresholds: the bound node is a retrieved unit with
  the expected label in the document scope, its fused score is the highest and reaches the minimum,
  and every other candidate is behind by at least the margin.
\<close>

theorem semantic_binding_clear:
  assumes "resolve_semantic nfc config vec fulltext text role expected fs = Inr r"
    and "mres_status r = Resolved"
  shows "\<exists>label top e. expected = Some label \<and> label \<in> set semantic_labels
    \<and> mres_candidates r \<noteq> [] \<and> top = hd (mres_candidates r)
    \<and> mres_endpoint r = Some e \<and> be_label e = label \<and> be_score e = Some (sem_score top)
    \<and> be_node_id e = py_strip (sem_node_id top)
    \<and> (document_ids fs \<noteq> [] \<longrightarrow> sem_document_id top \<in> set (document_ids fs))
    \<and> min_score_of config role \<le> sem_score top
    \<and> (\<forall>c \<in> set (tl (mres_candidates r)).
         min_margin_of config role \<le> fl (sem_score top - sem_score c))"
proof -
  have no: "semantic_unbound role m cs msg \<noteq> Inr r" "semantic_ambiguous role m cs msg \<noteq> Inr r" for m cs msg
    using assms(2)
    by (auto simp: semantic_unbound_def semantic_ambiguous_def make_semantic_resolution_def)
  define k where "k = candidate_k_of config role"
  define mention where "mention = normalize_mention nfc text"
  define v where "v = vec mention fs k"
  define f where "f = fulltext mention fs k"
  obtain label where label: "expected = Some label" "label \<in> set semantic_labels"
    and scope: "channel_in_scope fs v" "channel_in_scope fs f"
    and b: "bind_semantic config role mention (fuse_semantic_candidates v f label (lc_rrf_k config) k) = Inr r"
    using assms(1) no
    by (cases expected)
      (auto simp: resolve_semantic_def Let_def k_def mention_def v_def f_def split: if_splits)
  define cands where "cands = fuse_semantic_candidates v f label (lc_rrf_k config) k"
  from b no have ne: "cands \<noteq> []" and score: "min_score_of config role \<le> sem_score (hd cands)"
    and margin: "length cands > 1 \<longrightarrow>
      min_margin_of config role \<le> fl (sem_score (cands ! 0) - sem_score (cands ! 1))"
    and r: "\<exists>e meth. make_bound_endpoint mention (sem_node_id (hd cands)) (sem_label (hd cands)) meth
        (Some (sem_score (hd cands))) = Inr e \<and> mres_endpoint r = Some e \<and> mres_candidates r = cands"
    by (auto simp: bind_semantic_def cands_def [symmetric] Let_def make_semantic_resolution_def
        split: if_splits sum.splits)
  from r obtain e meth where made: "make_bound_endpoint mention (sem_node_id (hd cands))
      (sem_label (hd cands)) meth (Some (sem_score (hd cands))) = Inr e"
    and r_eq: "mres_endpoint r = Some e" "mres_candidates r = cands"
    by blast
  then have e: "be_node_id e = py_strip (sem_node_id (hd cands))"
      "be_label e = sem_label (hd cands)" "be_score e = Some (sem_score (hd cands))"
      "mres_endpoint r = Some e" "mres_candidates r = cands"
    by (auto simp: make_bound_endpoint_def normalized_identifier_def Let_def rbind_Inr_iff split: if_splits)
  have top: "sem_label (hd cands) = label"
    "\<exists>u \<in> set (v @ f). unit_document_id u = sem_document_id (hd cands)"
    using fuse_semantic_facts [of "hd cands" v f label "lc_rrf_k config" k] ne by (auto simp: cands_def)
  have doc: "document_ids fs \<noteq> [] \<longrightarrow> sem_document_id (hd cands) \<in> set (document_ids fs)"
    using top(2) scope by (auto simp: channel_in_scope_def list_all_iff)
  have "min_margin_of config role \<le> fl (sem_score (hd cands) - sem_score c)" if c: "c \<in> set (tl cands)" for c
  proof -
    obtain x y rest where xs: "cands = x # y # rest" "c = y \<or> c \<in> set rest"
      using c by (cases cands; cases "tl cands") auto
    have "sorted_wrt (\<ge>) (map sem_score cands)" by (simp add: cands_def fuse_semantic_sorted)
    then have "sem_score c \<le> sem_score y" using xs by auto
    then have "fl (sem_score x - sem_score y) \<le> fl (sem_score x - sem_score c)"
      by (intro fl_mono) simp
    with margin show ?thesis by (simp add: xs(1))
  qed
  with label ne e top(1) doc score show ?thesis by auto
qed

definition sample_clause :: "str \<Rightarrow> retrieved_unit" where
  "sample_clause i = (sample_unit i)\<lparr>unit_label := ''Clause'', article_id := Some ''a''\<rparr>"

text \<open>Both channels return the clause first and its article second.\<close>

definition sample_channel :: unit_channel where
  "sample_channel m fs n = [sample_clause ''c'', sample_unit ''a'']"

theorem semantic_binding_clear_witness:
  "\<exists>r e. resolve_semantic id default_linker_config sample_channel sample_channel ''x'' RoleTarget
      (Some ''Clause'') no_filters = Inr r \<and> mres_endpoint r = Some e \<and> be_label e = ''Clause''"
proof -
  have "(case resolve_semantic id default_linker_config sample_channel sample_channel ''x'' RoleTarget
      (Some ''Clause'') no_filters of Inl e \<Rightarrow> False | Inr r \<Rightarrow> mres_status r = Resolved)"
    by code_simp
  then obtain r where r: "resolve_semantic id default_linker_config sample_channel sample_channel ''x''
      RoleTarget (Some ''Clause'') no_filters = Inr r" "mres_status r = Resolved"
    by (auto split: sum.splits)
  from semantic_binding_clear [OF r] r(1) show ?thesis by auto
qed

subsection \<open>What the default thresholds exclude\<close>

text \<open>A point receives a score only from its own hits, one per channel.\<close>

lemma point_recipients:
  "score_recipients u ''Point'' direct = (if unit_id u \<in> fst ` set direct then [unit_id u] else [])"
  by (simp add: score_recipients_def)

lemma map_of_add_score:
  "map_of (add_score source x j board) i =
     (if i = j then map_option (\<lambda>(s, cs). (fadd s x, if source \<in> set cs then cs else cs @ [source]))
        (map_of board i)
      else map_of board i)"
  by (auto simp: add_score_def update_conv split: option.split)

lemma point_score_absent:
  "i \<notin> unit_id ` set us \<Longrightarrow>
     map_of (score_channel ''Point'' k direct source rank us board) i = map_of board i"
proof (induction us arbitrary: rank board)
  case Nil
  then show ?case by simp
next
  case (Cons u us)
  then show ?case by (simp add: point_recipients map_of_add_score)
qed

lemma point_score_once:
  "distinct (map unit_id us) \<Longrightarrow> map_of board i = Some (s, cs) \<Longrightarrow>
     \<exists>s' cs'. map_of (score_channel ''Point'' k direct source rank us board) i = Some (s', cs')
       \<and> (s' = s \<or> (\<exists>r \<ge> rank. s' = fadd s (fdiv 1 (of_nat (k + r)))))"
proof (induction us arbitrary: rank board)
  case Nil
  then show ?case by simp
next
  case (Cons u us)
  show ?case
  proof (cases "unit_id u = i \<and> i \<in> fst ` set direct")
    case True
    with Cons.prems show ?thesis
      by (auto simp: point_recipients map_of_add_score point_score_absent)
  next
    case False
    let ?board = "fold (add_score source (fdiv 1 (of_nat (k + rank))))
      (score_recipients u ''Point'' direct) board"
    have "map_of ?board i = Some (s, cs)"
      using False Cons.prems(2) by (auto simp: point_recipients map_of_add_score)
    moreover have "distinct (map unit_id us)" using Cons.prems(1) by simp
    ultimately have "\<exists>s' cs'. map_of (score_channel ''Point'' k direct source (rank + 1) us ?board) i = Some (s', cs')
        \<and> (s' = s \<or> (\<exists>r \<ge> rank + 1. s' = fadd s (fdiv 1 (of_nat (k + r)))))"
      by (rule Cons.IH [rotated])
    then obtain s' cs' where
      b: "map_of (score_channel ''Point'' k direct source (rank + 1) us ?board) i = Some (s', cs')"
      and c: "s' = s \<or> (\<exists>r \<ge> rank + 1. s' = fadd s (fdiv 1 (of_nat (k + r))))"
      by metis
    from c have "s' = s \<or> (\<exists>r \<ge> rank. s' = fadd s (fdiv 1 (of_nat (k + r))))"
      using add_leD1 by blast
    with b show ?thesis by (intro exI [of _ s'] exI [of _ cs'] conjI) simp_all
  qed
qed

lemma point_score_bound:
  assumes "distinct (map unit_id v)" and "distinct (map unit_id f)"
    and "map_of (final_board v f ''Point'' k) i = Some (s, cs)"
  shows "s \<le> fadd (fadd 0 (fdiv 1 (of_nat (k + 1)))) (fdiv 1 (of_nat (k + 1)))"
    (is "s \<le> fadd (fadd 0 ?x) ?x")
proof -
  let ?direct = "direct_units ''Point'' (v @ f)"
  let ?zero = "map (\<lambda>(i, u). (i, 0, [])) ?direct :: score_board"
  let ?text = "score_channel ''Point'' k ?direct FulltextChannel 1 f ?zero"
  have below: "fdiv 1 (of_nat (k + r)) \<le> ?x" if "1 \<le> r" for r
    unfolding fdiv_def using that by (intro fl_mono) (simp add: frac_le)
  have x0: "0 \<le> ?x" unfolding fdiv_def by (intro fl.rnd_nonneg) simp
  have add: "fadd a b \<le> fadd c d" if "a \<le> c" "b \<le> d" for a b c d
    unfolding fadd_def using that by (intro fl_mono add_mono)
  have "i \<in> fst ` set ?direct"
    using assms(3) final_board_keys [of v f "''Point''" k]
    by (metis list.set_map map_of_eq_None_iff not_None_eq)
  then obtain u where "map_of ?direct i = Some u" by (metis map_of_eq_None_iff not_None_eq)
  then have "map_of ?zero i = Some (0, [])"
    using map_of_map [of "\<lambda>u. (0 :: float, [] :: channel list)" ?direct] by simp
  from point_score_once [OF assms(2) this, of k ?direct FulltextChannel 1] obtain s1 cs1
    where t: "map_of ?text i = Some (s1, cs1)" "s1 = 0 \<or> (\<exists>r \<ge> 1. s1 = fadd 0 (fdiv 1 (of_nat (k + r))))"
    by blast
  from point_score_once [OF assms(1) t(1), of k ?direct VectorChannel 1] assms(3)
  have s: "s = s1 \<or> (\<exists>r \<ge> 1. s = fadd s1 (fdiv 1 (of_nat (k + r))))"
    by (auto simp: final_board_def Let_def)
  have x1: "0 \<le> fadd 0 ?x" unfolding fadd_def using x0 by (intro fl.rnd_nonneg) simp
  have s1: "s1 \<le> fadd 0 ?x" using t(2) x1 add below by auto
  have "fadd 0 ?x = fl ?x" by (simp add: fadd_def)
  have "s1 \<le> fadd (fadd 0 ?x) ?x"
    using t(2)
  proof
    assume "s1 = 0"
    moreover have "0 \<le> fadd (fadd 0 ?x) ?x"
      unfolding fadd_def [of "fadd 0 ?x"] using x0 x1 by (intro fl.rnd_nonneg) simp
    ultimately show ?thesis by simp
  next
    assume "\<exists>r \<ge> 1. s1 = fadd 0 (fdiv 1 (of_nat (k + r)))"
    then show ?thesis using add below x1 by (meson order_trans)
  qed
  with s s1 add below show ?thesis by (auto intro: order_trans)
qed

text \<open>
  C30: Under the default thresholds a point is never bound semantically. Its fused score is at most
  two reciprocal ranks, below the minimum of 0.063, although points are an accepted label of the
  resolver and a citable target of plans. The channels are assumed to return each unit once.
\<close>

theorem default_config_never_binds_points:
  assumes "\<forall>m fs n. distinct (map unit_id (vec m fs n)) \<and> distinct (map unit_id (fulltext m fs n))"
    and "resolve_semantic nfc default_linker_config vec fulltext text role (Some ''Point'') fs = Inr r"
  shows "mres_status r = Unbound"
proof -
  define k where "k = candidate_k_of default_linker_config role"
  define v where "v = vec (normalize_mention nfc text) fs k"
  define f where "f = fulltext (normalize_mention nfc text) fs k"
  define cands where "cands = fuse_semantic_candidates v f ''Point'' 60 k"
  have low: "sem_score (hd cands) < min_score_of default_linker_config role" if "cands \<noteq> []"
  proof -
    have "hd cands \<in> set cands" using that by simp
    then obtain cs where "map_of (final_board v f ''Point'' 60) (sem_node_id (hd cands)) = Some (sem_score (hd cands), cs)"
      using fuse_semantic_facts [of "hd cands" v f "''Point''" 60 k]
      by (auto simp: cands_def)
    then have "sem_score (hd cands) \<le> fadd (fadd 0 (fdiv 1 (of_nat (60 + 1)))) (fdiv 1 (of_nat (60 + 1)))"
      by (rule point_score_bound [rotated 2]) (use assms(1) in \<open>simp_all add: v_def f_def\<close>)
    also have "\<dots> < fl (63 / 1000)"
      by code_simp
    also have "fl (63 / 1000) = min_score_of default_linker_config role"
      by (cases role) (simp_all add: min_score_of_def default_linker_config_def)
    finally show ?thesis .
  qed
  have "lc_rrf_k default_linker_config = 60" by (simp add: default_linker_config_def)
  then have "bind_semantic default_linker_config role (normalize_mention nfc text) cands = Inr r"
    using assms(2)
    by (simp add: resolve_semantic_def Let_def k_def v_def f_def cands_def semantic_labels_def
        split: if_splits)
  then have "semantic_unbound role (normalize_mention nfc text) cands
      ''Semantic candidates are below the calibrated score threshold'' = Inr r"
    using low by (cases "cands = []") (simp_all add: bind_semantic_def)
  then show ?thesis
    by (auto simp: semantic_unbound_def make_semantic_resolution_def split: if_splits)
qed

definition point_channel :: unit_channel where
  "point_channel m fs n = [(sample_unit ''p'')\<lparr>unit_label := ''Point''\<rparr>]"

theorem default_config_never_binds_points_witness:
  "\<exists>r. resolve_semantic id default_linker_config point_channel point_channel ''x'' RoleTarget
      (Some ''Point'') no_filters = Inr r \<and> mres_status r = Unbound"
proof -
  have "(case resolve_semantic id default_linker_config point_channel point_channel ''x'' RoleTarget
      (Some ''Point'') no_filters of Inl e \<Rightarrow> False | Inr r \<Rightarrow> mres_candidates r \<noteq> [])"
    by code_simp
  then obtain r where "resolve_semantic id default_linker_config point_channel point_channel ''x''
      RoleTarget (Some ''Point'') no_filters = Inr r"
    by (auto split: sum.splits)
  with default_config_never_binds_points [OF _ this] show ?thesis
    by (simp add: point_channel_def)
qed

end
