(* ===== verification/Ranking.thy ===== *)
theory Ranking
  imports Graph_Paths
begin

text \<open>
  Ranking of retrieved units: the two seed retrievers (\<open>src/retrieval/retriever/vector.py\<close>,
  \<open>fulltext.py\<close>, \<open>hybrid.py\<close>), reciprocal-rank fusion
  (\<open>src/retrieval/fusion/reciprocal_rank_fusion.py\<close>), the temporal filter
  (\<open>src/retrieval/context/temporal_filter.py\<close>) and the rerankers (\<open>src/retrieval/reranking\<close>).
  Embeddings, the search ports and the cross-encoder are arguments.
\<close>

subsection \<open>Seed channels\<close>

type_synonym search_port = "str \<Rightarrow> filters \<Rightarrow> nat \<Rightarrow> props list"

text \<open>\<open>score or 0.0\<close>\<close>

definition score_or_zero :: "float option \<Rightarrow> float" where
  "score_or_zero s = (case s of None \<Rightarrow> 0 | Some x \<Rightarrow> x)"

datatype seed_error =
    EmptySeedQuery
  | TopKNotPositive
  | SeedRecord record_error

definition map_rows ::
  "(str \<Rightarrow> date option) \<Rightarrow> score_field \<Rightarrow> props list \<Rightarrow> seed_error + retrieved_unit list" where
  "map_rows pd sf rows =
     (case rmapm (\<lambda>row. map_retrieved_unit pd row (Some sf)) rows of
        Inl e \<Rightarrow> Inl (SeedRecord e) | Inr us \<Rightarrow> Inr us)"

definition vector_key :: "retrieved_unit \<Rightarrow> float \<times> str" where
  "vector_key u = (- score_or_zero (vector_score u), unit_id u)"

definition bm25_key :: "retrieved_unit \<Rightarrow> float \<times> str" where
  "bm25_key u = (- score_or_zero (bm25_score u), unit_id u)"

definition vector_retrieve ::
  "(str \<Rightarrow> date option) \<Rightarrow> search_port \<Rightarrow> str \<Rightarrow> filters \<Rightarrow> nat \<Rightarrow> seed_error + retrieved_unit list" where
  "vector_retrieve pd port query fs top_k =
     (if py_strip query = [] then Inl EmptySeedQuery
      else if top_k < 1 then Inl TopKNotPositive
      else rbind (map_rows pd VectorScore (port query fs top_k))
             (\<lambda>us. Inr (take top_k (sort_key vector_key us))))"

text \<open>
  \<open>_LUCENE_SPECIAL.sub(r"\\1", value)\<close>: the two-character operators and the special
  characters get a backslash. The one-character class comes first in the pattern, and neither
  ampersand nor bar is in it.
\<close>

definition lucene_special :: "char set" where
  "lucene_special = set (''+-!(){}[]^~*?:/'' @ [CHR 0x22, CHR 0x5C])"

fun escape_lucene :: "str \<Rightarrow> str" where
  "escape_lucene [] = []"
| "escape_lucene (c # cs) =
     (if c \<in> lucene_special then CHR 0x5C # c # escape_lucene cs
      else (case cs of
          d # ds \<Rightarrow>
            if c = d \<and> (c = CHR ''&'' \<or> c = CHR 0x7C) then CHR 0x5C # c # d # escape_lucene ds
            else c # escape_lucene cs
        | [] \<Rightarrow> [c]))"

definition escape_lucene_query :: "str \<Rightarrow> str" where
  "escape_lucene_query v = py_strip (escape_lucene v)"

definition fulltext_retrieve ::
  "(str \<Rightarrow> date option) \<Rightarrow> search_port \<Rightarrow> str \<Rightarrow> filters \<Rightarrow> nat \<Rightarrow> seed_error + retrieved_unit list" where
  "fulltext_retrieve pd port query fs top_k =
     (if escape_lucene_query query = [] then Inl EmptySeedQuery
      else if top_k < 1 then Inl TopKNotPositive
      else rbind (map_rows pd Bm25Score (port (escape_lucene_query query) fs top_k))
             (\<lambda>us. Inr (take top_k (sort_key bm25_key us))))"

type_synonym seed_retriever = "str \<Rightarrow> filters \<Rightarrow> nat \<Rightarrow> retrieved_unit list"

record seed_ports =
  sp_vector :: "seed_retriever option"
  sp_fulltext :: "seed_retriever option"

fun seed_execute ::
  "seed_ports \<Rightarrow> str \<Rightarrow> channel list \<Rightarrow> filters \<Rightarrow> nat \<Rightarrow> (channel \<times> retrieved_unit list) list
     \<Rightarrow> retrieval_error + (channel \<times> retrieved_unit list) list" where
  "seed_execute ports query [] fs k acc = Inr acc"
| "seed_execute ports query (c # cs) fs k acc =
     (case c of
        VectorChannel \<Rightarrow>
          (case sp_vector ports of
             None \<Rightarrow> Inl VectorNotConfigured
           | Some r \<Rightarrow> seed_execute ports query cs fs k (AList.update c (r query fs k) acc))
      | FulltextChannel \<Rightarrow>
          (case sp_fulltext ports of
             None \<Rightarrow> Inl FulltextNotConfigured
           | Some r \<Rightarrow> seed_execute ports query cs fs k (AList.update c (r query fs k) acc))
      | GraphChannel \<Rightarrow> Inl GraphNotSeedChannel)"

subsection \<open>Reciprocal-rank fusion\<close>

definition known_channels :: "str list" where
  "known_channels = [''vector'', ''fulltext'', ''graph'']"

text \<open>\<open>_merge_source_metadata\<close>\<close>

definition merge_metadata :: "retrieved_unit \<Rightarrow> retrieved_unit \<Rightarrow> str \<Rightarrow> retrieved_unit" where
  "merge_metadata existing incoming source =
     (let scored =
        (if source = ''vector'' \<and> vector_score incoming \<noteq> None
         then existing\<lparr>vector_score := vector_score incoming\<rparr>
         else if source = ''fulltext'' \<and> bm25_score incoming \<noteq> None
         then existing\<lparr>bm25_score := bm25_score incoming\<rparr>
         else if source = ''graph'' \<and> graph_score incoming \<noteq> None
         then existing\<lparr>graph_score := graph_score incoming\<rparr>
         else existing)
      in scored\<lparr>retrieval_sources := sort (remdups (source # retrieval_sources existing))\<rparr>)"

type_synonym fusion_state = "(str \<times> float) list \<times> (str \<times> retrieved_unit) list"

definition fuse_unit :: "nat \<Rightarrow> str \<Rightarrow> nat \<Rightarrow> retrieved_unit \<Rightarrow> fusion_state \<Rightarrow> fusion_state" where
  "fuse_unit k source rank u st =
     (case st of (scores, units) \<Rightarrow>
        let old = (case map_of scores (unit_id u) of None \<Rightarrow> 0 | Some s \<Rightarrow> s);
            entry = (case map_of units (unit_id u) of None \<Rightarrow> u | Some e \<Rightarrow> e)
        in (AList.update (unit_id u) (fadd old (fdiv 1 (of_nat (k + rank)))) scores,
            AList.update (unit_id u) (merge_metadata entry u source) units))"

fun fuse_list :: "nat \<Rightarrow> str \<Rightarrow> nat \<Rightarrow> retrieved_unit list \<Rightarrow> fusion_state \<Rightarrow> fusion_state" where
  "fuse_list k source rank [] st = st"
| "fuse_list k source rank (u # us) st = fuse_list k source (rank + 1) us (fuse_unit k source rank u st)"

fun fuse_all ::
  "nat \<Rightarrow> (str \<times> retrieved_unit list) list \<Rightarrow> fusion_state \<Rightarrow> retrieval_error + fusion_state" where
  "fuse_all k [] st = Inr st"
| "fuse_all k ((source, us) # rest) st =
     (if source \<notin> set known_channels then Inl (UnsupportedChannel source)
      else fuse_all k rest (fuse_list k source 1 us st))"

definition fused_key :: "retrieved_unit \<Rightarrow> float \<times> str" where
  "fused_key u = (- score_or_zero (final_score u), unit_id u)"

definition scored_units :: "fusion_state \<Rightarrow> retrieved_unit list" where
  "scored_units st = map (\<lambda>(i, u). u\<lparr>final_score := map_of (fst st) i\<rparr>) (snd st)"

definition fuse_channels ::
  "nat \<Rightarrow> (str \<times> retrieved_unit list) list \<Rightarrow> nat \<Rightarrow> retrieval_error + retrieved_unit list" where
  "fuse_channels k channels top_n =
     (if top_n < 1 then Inl TopNNotPositive
      else rbind (fuse_all k (sort_key fst channels) ([], []))
             (\<lambda>st. Inr (take top_n (sort_key fused_key (scored_units st)))))"

definition fuse :: "nat \<Rightarrow> retrieved_unit list \<Rightarrow> retrieved_unit list \<Rightarrow> nat \<Rightarrow> retrieval_error + retrieved_unit list" where
  "fuse k vec fulltext top_n = fuse_channels k [(''vector'', vec), (''fulltext'', fulltext)] top_n"

subsection \<open>The temporal filter\<close>

text \<open>\<open>unit.final_score or unit.graph_score or 0.0\<close>: a score of 0 counts as absent.\<close>

definition rank_score :: "retrieved_unit \<Rightarrow> float" where
  "rank_score u =
     (case final_score u of
        Some s \<Rightarrow> if s \<noteq> 0 then s else score_or_zero (graph_score u)
      | None \<Rightarrow> score_or_zero (graph_score u))"

definition stable_rank_key :: "retrieved_unit \<Rightarrow> float \<times> str" where
  "stable_rank_key u = (- rank_score u, unit_id u)"

definition effective_ordinal :: "retrieved_unit \<Rightarrow> int" where
  "effective_ordinal u = (case unit_effective_from u of None \<Rightarrow> 0 | Some d \<Rightarrow> d)"

definition family_of :: "retrieved_unit \<Rightarrow> str" where
  "family_of u = str_or (version_family_id u) []"

text \<open>The representatives of the version families, in the order of their first units.\<close>

definition keep_latest :: "retrieved_unit \<Rightarrow> (str \<times> retrieved_unit) list \<Rightarrow> (str \<times> retrieved_unit) list" where
  "keep_latest u d =
     (let family = family_of u in
      case map_of d family of
        None \<Rightarrow> d @ [(family, u)]
      | Some current \<Rightarrow>
          if effective_ordinal u > effective_ordinal current then AList.update family u d else d)"

definition in_family :: "retrieved_unit \<Rightarrow> bool" where
  "in_family u = truthy_str (version_family_id u)"

definition resolve_version_families :: "retrieved_unit list \<Rightarrow> retrieved_unit list" where
  "resolve_version_families us =
     sort_key stable_rank_key
       (filter (\<lambda>u. \<not> in_family u) us @ dict_values (fold keep_latest (filter in_family us) []))"

definition valid_in_period :: "date \<Rightarrow> date \<Rightarrow> retrieved_unit \<Rightarrow> bool" where
  "valid_in_period from until u =
     (case unit_effective_from u of
        None \<Rightarrow> False
      | Some a \<Rightarrow> a \<le> until \<and> (case unit_effective_to u of None \<Rightarrow> True | Some b \<Rightarrow> b > from))"

definition temporal_filter ::
  "retrieved_unit list \<Rightarrow> temporal_query \<Rightarrow> bool \<Rightarrow> retrieval_error + retrieved_unit list" where
  "temporal_filter us temporal preserve =
     (if \<not> has_temporal temporal then
        Inr (if preserve then sort_key stable_rank_key us else resolve_version_families us)
      else case resolved_from temporal of
        None \<Rightarrow> Inl TemporalNeedsFrom
      | Some from \<Rightarrow>
          let until = (case resolved_to temporal of None \<Rightarrow> from | Some t \<Rightarrow> t);
              valid = filter (valid_in_period from until) us
          in Inr (if preserve then sort_key stable_rank_key valid else resolve_version_families valid))"

definition filter_and_resolve ::
  "retrieved_unit list \<Rightarrow> temporal_query \<Rightarrow> retrieval_error + retrieved_unit list" where
  "filter_and_resolve us temporal = temporal_filter us temporal False"

subsection \<open>Rerankers\<close>

definition fmul :: "float \<Rightarrow> float \<Rightarrow> float" where
  "fmul x y = fl (x * y)"

type_synonym reranker = "str \<Rightarrow> retrieved_unit list \<Rightarrow> nat \<Rightarrow> retrieved_unit list"

definition rescore :: "float \<Rightarrow> retrieved_unit \<Rightarrow> retrieved_unit" where
  "rescore s u = u\<lparr>rerank_score := Some s, final_score := Some s\<rparr>"

definition fake_rerank :: reranker where
  "fake_rerank query us top_n =
     take top_n (sort_key fused_key
       (map (\<lambda>u. rescore (fmul (score_or_zero (final_score u)) (fl (9 / 10))) u) us))"

datatype rerank_error = RerankTopN | RerankScoreCount

definition bge_rerank ::
  "(str \<Rightarrow> str list \<Rightarrow> float list) \<Rightarrow> str \<Rightarrow> retrieved_unit list \<Rightarrow> nat
     \<Rightarrow> rerank_error + retrieved_unit list" where
  "bge_rerank compute_score query us top_n =
     (if top_n < 1 then Inl RerankTopN
      else if us = [] then Inr []
      else
        let scores = compute_score query (map content_raw us) in
        if length scores \<noteq> length us then Inl RerankScoreCount
        else Inr (take top_n (sort_key fused_key (map2 rescore scores us))))"

end
