(* ===== verification/Ranking_Properties.thy ===== *)
theory Ranking_Properties
  imports Ranking Graph_Path_Properties
begin

text \<open>
  Correctness of ranking: what score fusion gives a unit and when it can only grow, that the result
  is a function of the channels and not of their order, and that the temporal filter keeps exactly
  the units in force, one per version family.
\<close>

subsection \<open>Fusion\<close>

text \<open>The reciprocal ranks a unit collects from a ranked list, in order.\<close>

fun hits :: "nat \<Rightarrow> nat \<Rightarrow> retrieved_unit list \<Rightarrow> str \<Rightarrow> float list" where
  "hits k rank [] i = []"
| "hits k rank (u # us) i =
     (if unit_id u = i then [fdiv 1 (of_nat (k + rank))] else []) @ hits k (rank + 1) us i"

definition fused_score :: "nat \<Rightarrow> (str \<times> retrieved_unit list) list \<Rightarrow> str \<Rightarrow> float" where
  "fused_score k channels i =
     foldl fadd 0 (concat (map (\<lambda>(source, us). hits k 1 us i) (sort_key fst channels)))"

definition channel_ids :: "(str \<times> retrieved_unit list) list \<Rightarrow> str set" where
  "channel_ids channels = (\<Union>(source, us) \<in> set channels. unit_id ` set us)"

definition fusion_inv ::
  "(str \<Rightarrow> float) \<Rightarrow> str set \<Rightarrow> fusion_state \<Rightarrow> bool" where
  "fusion_inv score ids st \<longleftrightarrow>
     (\<forall>i. map_of (fst st) i = (if i \<in> ids then Some (score i) else None))
     \<and> (\<forall>i. map_of (snd st) i = None \<longleftrightarrow> i \<notin> ids)
     \<and> (\<forall>i u. map_of (snd st) i = Some u \<longrightarrow> unit_id u = i)
     \<and> distinct (map fst (snd st)) \<and> (\<forall>i. i \<notin> ids \<longrightarrow> score i = 0)"

lemma merge_metadata_id [simp]: "unit_id (merge_metadata e u s) = unit_id e"
  by (simp add: merge_metadata_def Let_def)

lemma fuse_unit_inv:
  assumes "fusion_inv score ids st"
  shows "fusion_inv (score(unit_id u := fadd (score (unit_id u)) (fdiv 1 (of_nat (k + rank)))))
     (insert (unit_id u) ids) (fuse_unit k source rank u st)"
proof -
  obtain scores units where st: "st = (scores, units)" by (cases st)
  have "unit_id (case map_of units (unit_id u) of None \<Rightarrow> u | Some e \<Rightarrow> e) = unit_id u"
    using assms by (auto simp: fusion_inv_def st split: option.split)
  then show ?thesis
    using assms
    by (simp add: fusion_inv_def fuse_unit_def st Let_def update_conv distinct_update)
qed

lemma fuse_list_inv:
  "fusion_inv score ids st \<Longrightarrow>
     fusion_inv (\<lambda>i. foldl fadd (score i) (hits k rank us i)) (ids \<union> unit_id ` set us)
       (fuse_list k source rank us st)"
proof (induction us arbitrary: rank score ids st)
  case Nil
  then show ?case by simp
next
  case (Cons u us)
  have "(\<lambda>i. foldl fadd ((score(unit_id u := fadd (score (unit_id u)) (fdiv 1 (of_nat (k + rank))))) i)
          (hits k (rank + 1) us i))
      = (\<lambda>i. foldl fadd (score i) (hits k rank (u # us) i))"
    by (auto simp: fun_eq_iff)
  moreover have "insert (unit_id u) ids \<union> unit_id ` set us = ids \<union> unit_id ` set (u # us)"
    by auto
  ultimately show ?case
    using Cons.IH [OF fuse_unit_inv [OF Cons.prems, of u k rank source], of "rank + 1"]
    by simp
qed

lemma fuse_all_inv:
  "fuse_all k channels st = Inr st' \<Longrightarrow> fusion_inv score ids st \<Longrightarrow>
     fusion_inv (\<lambda>i. foldl fadd (score i) (concat (map (\<lambda>(source, us). hits k 1 us i) channels)))
       (ids \<union> channel_ids channels) st'"
proof (induction k channels st arbitrary: score ids rule: fuse_all.induct)
  case (1 k st)
  then show ?case by (simp add: channel_ids_def)
next
  case (2 k source us rest st)
  then have rest: "fuse_all k rest (fuse_list k source 1 us st) = Inr st'" and ok: "\<not> source \<notin> set known_channels"
    by (auto split: if_splits)
  have "ids \<union> unit_id ` set us \<union> channel_ids rest = ids \<union> channel_ids ((source, us) # rest)"
    by (auto simp: channel_ids_def)
  with "2.IH" [OF ok rest fuse_list_inv [OF "2.prems"(2)]] show ?case
    by (simp add: case_prod_unfold)
qed

text \<open>What fusion returns, as the best \<open>top_n\<close> of one scored unit per identifier.\<close>

lemma fuse_channels_Inr:
  assumes "fuse_channels k channels top_n = Inr rs"
  obtains us where "rs = take top_n (sort_key fused_key us)" "1 \<le> top_n"
    "distinct (map unit_id us)" "unit_id ` set us = channel_ids channels"
    "\<forall>u \<in> set us. final_score u = Some (fused_score k channels (unit_id u))"
proof -
  from assms obtain st where top: "1 \<le> top_n" and st: "fuse_all k (sort_key fst channels) ([], []) = Inr st"
    and rs: "rs = take top_n (sort_key fused_key (scored_units st))"
    by (auto simp: fuse_channels_def rbind_Inr_iff split: if_splits)
  have "fusion_inv (\<lambda>i. 0) {} ([], [])" by (simp add: fusion_inv_def)
  from fuse_all_inv [OF st this]
  have raw: "fusion_inv (\<lambda>i. foldl fadd 0
        (concat (map (\<lambda>(source, us). hits k 1 us i) (sort_key fst channels))))
      ({} \<union> channel_ids (sort_key fst channels)) st" .
  have inv: "fusion_inv (fused_score k channels) (channel_ids channels) st"
  proof -
    have "fused_score k channels = (\<lambda>i. foldl fadd 0
        (concat (map (\<lambda>(source, us). hits k 1 us i) (sort_key fst channels))))"
      by (simp add: fun_eq_iff fused_score_def)
    moreover have "channel_ids channels = {} \<union> channel_ids (sort_key fst channels)"
      by (simp add: channel_ids_def)
    ultimately show ?thesis
      using raw by simp
  qed
  have in_map: "map_of (snd st) i = Some u" if "(i, u) \<in> set (snd st)" for i u
    using inv that by (simp add: fusion_inv_def)
  have ids: "map unit_id (scored_units st) = map fst (snd st)"
    using inv in_map by (auto simp: scored_units_def fusion_inv_def)
  show thesis
  proof (rule that)
    show "rs = take top_n (sort_key fused_key (scored_units st))" by (rule rs)
    show "1 \<le> top_n" by (rule top)
    show "distinct (map unit_id (scored_units st))" using ids inv by (simp add: fusion_inv_def)
    have "unit_id ` set (scored_units st) = fst ` set (snd st)"
      using ids by (metis list.set_map)
    also have "\<dots> = channel_ids channels"
      using inv by (auto simp: fusion_inv_def map_of_eq_None_iff)
    finally show "unit_id ` set (scored_units st) = channel_ids channels" .
    show "\<forall>u \<in> set (scored_units st). final_score u = Some (fused_score k channels (unit_id u))"
    proof
      fix v
      assume "v \<in> set (scored_units st)"
      then obtain i u where iu: "(i, u) \<in> set (snd st)" "v = u\<lparr>final_score := map_of (fst st) i\<rparr>"
        by (auto simp: scored_units_def)
      from in_map [OF iu(1)] have "map_of (snd st) i = Some u" by simp
      with inv have "unit_id u = i" "i \<in> channel_ids channels"
        unfolding fusion_inv_def by (metis, metis option.distinct(1))
      with iu(2) inv show "final_score v = Some (fused_score k channels (unit_id v))"
        by (simp add: fusion_inv_def)
    qed
  qed
qed

interpretation fused_ranking: keyed_ranking fused_key unit_id
  by unfold_locales (auto simp: fused_key_def)

interpretation stable_ranking: keyed_ranking stable_rank_key unit_id
  by unfold_locales (auto simp: stable_rank_key_def)

interpretation channel_ranking: keyed_ranking "fst :: str \<times> retrieved_unit list \<Rightarrow> str" fst
  by unfold_locales simp

text \<open>A unit that the cut drops ranks behind every unit that is kept.\<close>

lemma take_sorted_top:
  assumes "sorted (map f xs)" and "x \<in> set (take n xs)" and "y \<in> set (drop n xs)"
  shows "f x \<le> f y"
proof -
  have "sorted (map f (take n xs) @ map f (drop n xs))"
    using assms(1) by (simp flip: map_append)
  with assms(2,3) show ?thesis by (auto simp: sorted_append)
qed

text \<open>
  C21: Fusion returns the best units of the channels. Every result has the exact score its ranks
  give, rounded after each addition in the order of the channel names; identifiers are distinct;
  the list is sorted by score and identifier and has \<open>top_n\<close> units or all there are; and a unit of
  a channel that is missing has no better key than any unit returned.
\<close>

theorem fusion_exact:
  assumes "fuse_channels k channels top_n = Inr rs"
  shows "distinct (map unit_id rs) \<and> length rs = min top_n (card (channel_ids channels))
    \<and> sorted (map fused_key rs)
    \<and> (\<forall>u \<in> set rs. unit_id u \<in> channel_ids channels
          \<and> final_score u = Some (fused_score k channels (unit_id u)))
    \<and> (\<forall>u \<in> set rs. \<forall>i \<in> channel_ids channels - unit_id ` set rs.
          (- fused_score k channels (unit_id u), unit_id u) \<le> (- fused_score k channels i, i))"
proof -
  obtain us where rs: "rs = take top_n (sort_key fused_key us)"
    and us: "distinct (map unit_id us)" "unit_id ` set us = channel_ids channels"
      "\<forall>u \<in> set us. final_score u = Some (fused_score k channels (unit_id u))"
    by (rule fuse_channels_Inr [OF assms])
  let ?sorted = "sort_key fused_key us"
  have all: "distinct (map unit_id ?sorted)"
    using us(1) by (simp add: distinct_map)
  have card: "card (channel_ids channels) = length us"
    using us(1,2) by (metis distinct_card length_map list.set_map)
  have key: "fused_key u = (- fused_score k channels (unit_id u), unit_id u)" if "u \<in> set us" for u
    using us(3) that by (simp add: fused_key_def score_or_zero_def)
  have in_us: "u \<in> set us" if "u \<in> set rs" for u
    using that by (auto simp: rs dest: in_set_takeD)
  have "(- fused_score k channels (unit_id u), unit_id u) \<le> (- fused_score k channels i, i)"
    if u: "u \<in> set rs" and i: "i \<in> channel_ids channels - unit_id ` set rs" for u i
  proof -
    from i us(2) have "i \<in> unit_id ` set us" by simp
    then obtain v where v: "v \<in> set us" "unit_id v = i" by blast
    with i have "v \<notin> set rs" by auto
    moreover have "v \<in> set (take top_n ?sorted) \<union> set (drop top_n ?sorted)"
      using v(1) by (metis append_take_drop_id set_append set_sort)
    ultimately have "v \<in> set (drop top_n ?sorted)" by (simp add: rs)
    with u have "fused_key u \<le> fused_key v"
      by (intro take_sorted_top [of fused_key ?sorted u top_n v]) (simp_all add: rs)
    with key in_us [OF u] v show ?thesis by simp
  qed
  moreover have "distinct (map unit_id rs)"
    using all by (simp add: rs take_map [symmetric] distinct_take)
  moreover have "sorted (map fused_key rs)"
    by (simp add: rs take_map [symmetric] sorted_wrt_take)
  ultimately show ?thesis
    using us(2,3) in_us by (auto simp: rs card)
qed

definition sample_channels :: "(str \<times> retrieved_unit list) list" where
  "sample_channels =
     [(''vector'', [sample_unit ''a'', sample_unit ''b'']), (''fulltext'', [sample_unit ''b''])]"

lemma sample_fused:
  "\<exists>rs. fuse_channels 60 sample_channels 2 = Inr rs \<and> channel_ids sample_channels = {''a'', ''b''}"
  by (auto simp: fuse_channels_def sample_channels_def channel_ids_def known_channels_def sample_unit_def)

theorem fusion_exact_witness:
  "\<exists>rs. fuse_channels 60 sample_channels 2 = Inr rs \<and> length rs = 2"
proof -
  obtain rs where "fuse_channels 60 sample_channels 2 = Inr rs" "channel_ids sample_channels = {''a'', ''b''}"
    using sample_fused by blast
  with fusion_exact [OF this(1)] show ?thesis by simp
qed

text \<open>
  Fusion does not depend on the order in which the channels were put into the dictionary.
\<close>

theorem fusion_order_free:
  assumes "mset channels = mset channels'" and "distinct (map fst channels)"
  shows "fuse_channels k channels top_n = fuse_channels k channels' top_n"
proof -
  have "inj_on fst (set channels)" using assms(2) by (simp add: distinct_map)
  then have "sort_key fst channels = sort_key fst channels'"
    by (rule channel_ranking.ranking_determined [OF assms(1)])
  then show ?thesis by (simp add: fuse_channels_def)
qed

theorem fusion_order_free_witness:
  "fuse_channels 60 sample_channels 2 = fuse_channels 60 (rev sample_channels) 2"
  by (rule fusion_order_free) (simp_all add: sample_channels_def)

subsection \<open>Monotonicity\<close>

definition place :: "retrieved_unit list \<Rightarrow> str \<Rightarrow> nat" where
  "place us i = length (takeWhile (\<lambda>u. unit_id u \<noteq> i) us)"

lemma hits_absent: "i \<notin> unit_id ` set us \<Longrightarrow> hits k rank us i = []"
  by (induction us arbitrary: rank) auto

lemma hits_once:
  "distinct (map unit_id us) \<Longrightarrow> i \<in> unit_id ` set us \<Longrightarrow>
     hits k rank us i = [fdiv 1 (of_nat (k + rank + place us i))]"
proof (induction us arbitrary: rank)
  case Nil
  then show ?case by simp
next
  case (Cons u us)
  then show ?case
    by (cases "unit_id u = i") (auto simp: hits_absent place_def ac_simps)
qed

lemma list_all2_insort:
  assumes "\<And>x y. Q x y \<Longrightarrow> f x = f y"
  shows "list_all2 Q xs ys \<Longrightarrow> Q x y \<Longrightarrow> list_all2 Q (insort_key f x xs) (insort_key f y ys)"
proof (induction rule: list_all2_induct)
  case Nil
  then show ?case by simp
next
  case (Cons a as b bs)
  then show ?case using assms [of a b] assms [of x y] by auto
qed

lemma list_all2_sort_key:
  assumes "\<And>x y. Q x y \<Longrightarrow> f x = f y"
  shows "list_all2 Q xs ys \<Longrightarrow> list_all2 Q (sort_key f xs) (sort_key f ys)"
  by (induction rule: list_all2_induct) (simp_all add: list_all2_insort assms)

text \<open>A channel ranks a unit at least as well as another: the same units, an earlier place.\<close>

definition ranks_better :: "str \<Rightarrow> str \<times> retrieved_unit list \<Rightarrow> str \<times> retrieved_unit list \<Rightarrow> bool" where
  "ranks_better i c c' \<longleftrightarrow>
     fst c = fst c' \<and> distinct (map unit_id (snd c)) \<and> distinct (map unit_id (snd c'))
     \<and> (i \<in> unit_id ` set (snd c) \<longleftrightarrow> i \<in> unit_id ` set (snd c')) \<and> place (snd c') i \<le> place (snd c) i"

lemma hits_mono:
  assumes "ranks_better i c c'"
  shows "list_all2 (\<le>) (hits k 1 (snd c) i) (hits k 1 (snd c') i)"
proof (cases "i \<in> unit_id ` set (snd c)")
  case True
  with assms have "i \<in> unit_id ` set (snd c')" by (simp add: ranks_better_def)
  moreover have "fdiv 1 (of_nat (k + 1 + place (snd c) i)) \<le> fdiv 1 (of_nat (k + 1 + place (snd c') i))"
    unfolding fdiv_def using assms by (intro fl_mono) (simp add: ranks_better_def frac_le)
  ultimately show ?thesis using True assms by (simp add: hits_once ranks_better_def)
next
  case False
  with assms show ?thesis by (simp add: hits_absent ranks_better_def)
qed

lemma list_all2_concat:
  "list_all2 (\<lambda>c c'. list_all2 R (f c) (f c')) xs ys \<Longrightarrow>
     list_all2 R (concat (map f xs)) (concat (map f ys))"
  by (induction rule: list_all2_induct) (simp_all add: list_all2_appendI)

text \<open>
  Moving a unit up in a ranked list never lowers its fused score, in spite of the rounding of
  every addition: if each channel lists the unit at the same or an earlier place, its score is the
  same or greater.
\<close>

theorem fused_score_mono:
  assumes "list_all2 (ranks_better i) channels channels'"
  shows "fused_score k channels i \<le> fused_score k channels' i"
proof -
  have "list_all2 (ranks_better i) (sort_key fst channels) (sort_key fst channels')"
    using assms by (rule list_all2_sort_key [rotated]) (simp add: ranks_better_def)
  then have "list_all2 (\<lambda>c c'. list_all2 (\<le>) (hits k 1 (snd c) i) (hits k 1 (snd c') i))
      (sort_key fst channels) (sort_key fst channels')"
    by (rule list_all2_mono) (rule hits_mono)
  then have "list_all2 (\<le>) (concat (map (\<lambda>c. hits k 1 (snd c) i) (sort_key fst channels)))
      (concat (map (\<lambda>c. hits k 1 (snd c) i) (sort_key fst channels')))"
    by (rule list_all2_concat)
  from fl.foldl_mono [OF order_refl [of 0] this] show ?thesis
    by (simp add: fused_score_def case_prod_unfold fadd_def [abs_def])
qed

theorem fused_score_mono_witness:
  "fused_score 60 [(''vector'', [sample_unit ''a'', sample_unit ''b''])] ''b''
     \<le> fused_score 60 [(''vector'', [sample_unit ''b'', sample_unit ''a''])] ''b''"
  by (rule fused_score_mono) (auto simp: ranks_better_def place_def sample_unit_def)

subsection \<open>The temporal filter\<close>

text \<open>What the fold over the version families maintains.\<close>

definition latest_of :: "retrieved_unit list \<Rightarrow> str \<Rightarrow> retrieved_unit \<Rightarrow> bool" where
  "latest_of us f r \<longleftrightarrow> r \<in> set us \<and> family_of r = f
     \<and> (\<forall>u \<in> set us. family_of u = f \<longrightarrow> effective_ordinal u \<le> effective_ordinal r)"

definition latest_inv :: "retrieved_unit list \<Rightarrow> (str \<times> retrieved_unit) list \<Rightarrow> bool" where
  "latest_inv us d \<longleftrightarrow>
     distinct (map fst d)
     \<and> (\<forall>f. map_of d f = None \<longleftrightarrow> f \<notin> family_of ` set us)
     \<and> (\<forall>f r. map_of d f = Some r \<longrightarrow> latest_of us f r)"

lemma map_of_snoc:
  "map_of d k = None \<Longrightarrow> map_of (d @ [(k, v)]) x = (if x = k then Some v else map_of d x)"
  by (simp add: map_add_def split: option.split)

lemma latest_of_other: "latest_of us f r \<Longrightarrow> family_of u \<noteq> f \<Longrightarrow> latest_of (us @ [u]) f r"
  by (auto simp: latest_of_def)

lemma latest_of_older:
  "latest_of us f r \<Longrightarrow> effective_ordinal u \<le> effective_ordinal r \<Longrightarrow> latest_of (us @ [u]) f r"
  by (auto simp: latest_of_def)

lemma latest_of_newer:
  "latest_of us (family_of u) r \<Longrightarrow> effective_ordinal r < effective_ordinal u \<Longrightarrow>
     latest_of (us @ [u]) (family_of u) u"
  by (fastforce simp: latest_of_def)

lemma latest_of_first: "family_of u \<notin> family_of ` set us \<Longrightarrow> latest_of (us @ [u]) (family_of u) u"
  by (auto simp: latest_of_def) (metis imageI)

lemma latest_invI:
  assumes "distinct (map fst d)"
    and "\<And>f. map_of d f = None \<longleftrightarrow> f \<notin> family_of ` set us"
    and "\<And>f r. map_of d f = Some r \<Longrightarrow> latest_of us f r"
  shows "latest_inv us d"
  using assms by (simp add: latest_inv_def)

lemma keep_latest_inv: "latest_inv us d \<Longrightarrow> latest_inv (us @ [u]) (keep_latest u d)"
proof -
  assume inv: "latest_inv us d"
  then have dist: "distinct (map fst d)" and dom: "map_of d f = None \<longleftrightarrow> f \<notin> family_of ` set us"
    and latest: "map_of d f = Some r \<Longrightarrow> latest_of us f r" for f r
    by (simp_all add: latest_inv_def)
  let ?f = "family_of u"
  show ?thesis
  proof (cases "map_of d ?f")
    case None
    then have keep: "keep_latest u d = d @ [(?f, u)]" by (simp add: keep_latest_def Let_def)
    have look: "map_of (keep_latest u d) f = (if f = ?f then Some u else map_of d f)" for f
      by (simp only: keep map_of_snoc [OF None])
    show ?thesis
    proof (rule latest_invI)
      show "distinct (map fst (keep_latest u d))"
        using dist None by (simp add: keep map_of_eq_None_iff)
      show "map_of (keep_latest u d) f = None \<longleftrightarrow> f \<notin> family_of ` set (us @ [u])" for f
        using dom [of f] by (simp add: look)
      show "latest_of (us @ [u]) f r" if "map_of (keep_latest u d) f = Some r" for f r
        using that latest_of_first [of u us] dom [of ?f] None latest_of_other [OF latest, of f r u]
        by (auto simp: look split: if_splits)
    qed
  next
    case (Some c)
    show ?thesis
    proof (cases "effective_ordinal u > effective_ordinal c")
      case True
      then have keep: "keep_latest u d = AList.update ?f u d"
        using Some by (simp add: keep_latest_def Let_def)
      show ?thesis
      proof (rule latest_invI)
        show "distinct (map fst (keep_latest u d))"
          using dist by (simp add: keep distinct_update)
        show "map_of (keep_latest u d) f = None \<longleftrightarrow> f \<notin> family_of ` set (us @ [u])" for f
          using dom [of f] by (simp add: keep update_conv)
        show "latest_of (us @ [u]) f r" if "map_of (keep_latest u d) f = Some r" for f r
          using that latest_of_newer [OF latest [OF Some] True] latest_of_other [OF latest, of f r u]
          by (auto simp: keep update_conv split: if_splits)
      qed
    next
      case False
      then have keep: "keep_latest u d = d" using Some by (simp add: keep_latest_def Let_def)
      show ?thesis
      proof (rule latest_invI)
        show "distinct (map fst (keep_latest u d))" using dist by (simp add: keep)
        show "map_of (keep_latest u d) f = None \<longleftrightarrow> f \<notin> family_of ` set (us @ [u])" for f
          using dom [of f] Some by (auto simp: keep)
        show "latest_of (us @ [u]) f r" if "map_of (keep_latest u d) f = Some r" for f r
        proof (cases "f = ?f")
          case True
          with that Some False latest_of_older [OF latest [OF Some], of u] show ?thesis
            by (simp add: keep)
        next
          case other: False
          with that latest_of_other [OF latest, of f r u] show ?thesis by (simp add: keep)
        qed
      qed
    qed
  qed
qed

lemma fold_keep_latest: "latest_inv us (fold keep_latest us [])"
proof (induction us rule: rev_induct)
  case Nil
  show ?case by (simp add: latest_inv_def)
next
  case (snoc u us)
  then show ?case by (simp add: keep_latest_inv)
qed

text \<open>
  The contract of the resolution of version families on the units it gets: units without a family
  stay, and each family is represented by one latest unit.
\<close>

definition resolves :: "retrieved_unit list \<Rightarrow> retrieved_unit list \<Rightarrow> bool" where
  "resolves us rs \<longleftrightarrow>
     set rs \<subseteq> set us
     \<and> (\<forall>u \<in> set us. \<not> in_family u \<longrightarrow> u \<in> set rs)
     \<and> (\<forall>u \<in> set us. in_family u \<longrightarrow> (\<exists>r \<in> set rs. in_family r \<and> family_of r = family_of u))
     \<and> (\<forall>r \<in> set rs. in_family r \<longrightarrow> (\<forall>u \<in> set us. in_family u \<and> family_of u = family_of r \<longrightarrow>
          effective_ordinal u \<le> effective_ordinal r))
     \<and> (\<forall>r \<in> set rs. \<forall>r' \<in> set rs. in_family r \<and> in_family r' \<and> family_of r = family_of r' \<longrightarrow> r = r')"

lemma resolve_families: "resolves us (resolve_version_families us)"
proof -
  define d where "d = fold keep_latest (filter in_family us) []"
  have inv: "latest_inv (filter in_family us) d" by (simp add: d_def fold_keep_latest)
  have members: "set (resolve_version_families us) = {u \<in> set us. \<not> in_family u} \<union> snd ` set d"
    by (auto simp: resolve_version_families_def d_def dict_values_def)
  have entry: "latest_of (filter in_family us) (family_of r) r \<and> map_of d (family_of r) = Some r"
    if "r \<in> snd ` set d" for r
  proof -
    from that obtain f where "(f, r) \<in> set d" by auto
    with inv have f: "map_of d f = Some r" by (simp add: latest_inv_def)
    with inv have "latest_of (filter in_family us) f r" by (simp add: latest_inv_def)
    moreover from this have "family_of r = f" by (simp add: latest_of_def)
    ultimately show ?thesis using f by simp
  qed
  have covered: "\<exists>r \<in> snd ` set d. family_of r = family_of u" if u: "u \<in> set us" "in_family u" for u
  proof -
    from inv u have "map_of d (family_of u) \<noteq> None" by (simp add: latest_inv_def)
    then obtain r where r: "map_of d (family_of u) = Some r" by auto
    with inv have "family_of r = family_of u" by (simp add: latest_inv_def latest_of_def)
    with map_of_SomeD [OF r] show ?thesis by force
  qed
  show ?thesis
    unfolding resolves_def members
  proof (intro conjI ballI impI)
    show "{u \<in> set us. \<not> in_family u} \<union> snd ` set d \<subseteq> set us"
      using entry by (auto simp: latest_of_def)
    show "u \<in> {u \<in> set us. \<not> in_family u} \<union> snd ` set d" if "u \<in> set us" "\<not> in_family u" for u
      using that by simp
    show "\<exists>r \<in> {u \<in> set us. \<not> in_family u} \<union> snd ` set d. in_family r \<and> family_of r = family_of u"
      if u: "u \<in> set us" "in_family u" for u
    proof -
      obtain r where "r \<in> snd ` set d" "family_of r = family_of u" using covered [OF u] by blast
      with entry show ?thesis by (intro bexI [of _ r]) (auto simp: latest_of_def)
    qed
    show "effective_ordinal u \<le> effective_ordinal r"
      if "r \<in> {u \<in> set us. \<not> in_family u} \<union> snd ` set d" "in_family r" "u \<in> set us"
        "in_family u \<and> family_of u = family_of r" for r u
      using that entry [of r] by (simp add: latest_of_def)
    show "r = r'" if "r \<in> {u \<in> set us. \<not> in_family u} \<union> snd ` set d"
        "r' \<in> {u \<in> set us. \<not> in_family u} \<union> snd ` set d"
        "in_family r \<and> in_family r' \<and> family_of r = family_of r'" for r r'
    proof -
      from that have "r \<in> snd ` set d" "r' \<in> snd ` set d" by simp_all
      then have "map_of d (family_of r) = Some r" "map_of d (family_of r') = Some r'"
        using entry by blast+
      with that(3) show ?thesis by (metis option.inject)
    qed
  qed
qed

text \<open>The units a temporal query lets through.\<close>

definition passes_period :: "temporal_query \<Rightarrow> retrieved_unit \<Rightarrow> bool" where
  "passes_period t u \<longleftrightarrow>
     (has_temporal t \<longrightarrow>
       (\<exists>from. resolved_from t = Some from
          \<and> valid_in_period from (case resolved_to t of None \<Rightarrow> from | Some d \<Rightarrow> d) u))"

lemma temporal_filter_Inr:
  assumes "temporal_filter us t preserve = Inr rs"
  shows "rs = (if preserve then sort_key stable_rank_key (filter (passes_period t) us)
               else resolve_version_families (filter (passes_period t) us))"
proof (cases "has_temporal t")
  case True
  with assms obtain a where a: "resolved_from t = Some a"
    by (auto simp: temporal_filter_def split: option.splits)
  then have "passes_period t = valid_in_period a (case resolved_to t of None \<Rightarrow> a | Some d \<Rightarrow> d)"
    using True by (simp add: passes_period_def fun_eq_iff)
  with assms True a show ?thesis by (auto simp: temporal_filter_def Let_def)
next
  case False
  then have "passes_period t = (\<lambda>u. True)" by (simp add: passes_period_def fun_eq_iff)
  with assms False show ?thesis by (auto simp: temporal_filter_def)
qed

text \<open>
  C20: The temporal filter keeps the law in force. It keeps only input units that pass the queried
  period, in the stable rank order. With versions preserved it keeps all of them; otherwise each
  version family is represented by one unit whose effective date is the latest among the family's
  units in the period, and no unit without a family is lost.
\<close>

theorem temporal_filter_sound:
  assumes "temporal_filter us t preserve = Inr rs"
  shows "(\<forall>r \<in> set rs. r \<in> set us \<and> passes_period t r) \<and> sorted (map stable_rank_key rs)
    \<and> (preserve \<longrightarrow> mset rs = mset (filter (passes_period t) us))
    \<and> (\<not> preserve \<longrightarrow> resolves (filter (passes_period t) us) rs)"
proof (cases preserve)
  case True
  then have "rs = sort_key stable_rank_key (filter (passes_period t) us)"
    using temporal_filter_Inr [OF assms] by simp
  with True show ?thesis by auto
next
  case False
  then have rs: "rs = resolve_version_families (filter (passes_period t) us)"
    using temporal_filter_Inr [OF assms] by simp
  have "resolves (filter (passes_period t) us) rs" by (simp add: rs resolve_families)
  moreover from this have "\<forall>r \<in> set rs. r \<in> set us \<and> passes_period t r" by (auto simp: resolves_def)
  moreover have "sorted (map stable_rank_key rs)" by (simp add: rs resolve_version_families_def)
  ultimately show ?thesis using False by simp
qed

definition sample_temporal :: temporal_query where
  "sample_temporal =
     \<lparr>has_temporal = True, expression = None, resolved_from = Some 30, resolved_to = Some 30,
      granularity = None, parse_error = None, requests_current_validity = False,
      spans_all_versions = False\<rparr>"

theorem temporal_filter_sound_witness:
  "\<exists>rs. temporal_filter [(sample_unit ''a'')\<lparr>version_family_id := Some ''f''\<rparr>,
      (sample_unit ''b'')\<lparr>version_family_id := Some ''f'', unit_effective_from := Some 20\<rparr>] sample_temporal False = Inr rs
    \<and> sorted (map stable_rank_key rs)"
proof -
  obtain rs where "temporal_filter [(sample_unit ''a'')\<lparr>version_family_id := Some ''f''\<rparr>,
      (sample_unit ''b'')\<lparr>version_family_id := Some ''f'', unit_effective_from := Some 20\<rparr>] sample_temporal False = Inr rs"
    by (simp add: temporal_filter_def sample_temporal_def)
  with temporal_filter_sound [OF this] show ?thesis by blast
qed



end
