(* ===== verification/Retrieval_Context.thy ===== *)
theory Retrieval_Context
  imports Ranking Plan_Execution
begin

text \<open>
  The records that retrieval passes around (\<open>src/retrieval/models.py\<close>, \<open>src/retrieval/config.py\<close>),
  the evidence records (\<open>src/retrieval/evidence/verifier.py\<close>) and the context bundle
  (\<open>src/retrieval/context/context_builder.py\<close>). The metrics are modelled but for the
  latencies; a reason code that was not provided is \<open>None\<close>.
\<close>

subsection \<open>Configuration and decisions\<close>

record retrieval_config =
  cfg_candidate_k :: nat
  cfg_final_k :: nat
  cfg_graph_entry_k :: nat
  cfg_rrf_k :: nat
  cfg_vector_enabled :: bool
  cfg_fulltext_enabled :: bool
  cfg_graph_enabled :: bool
  cfg_reranker_enabled :: bool
  cfg_reranker_model :: str
  cfg_reranker_fp16 :: bool
  cfg_reranker_max_length :: nat
  cfg_reranker_normalize :: bool
  cfg_hierarchy_vector_enabled :: bool
  cfg_query_max_length :: nat
  cfg_intent_classifier_enabled :: bool

definition default_retrieval_config :: retrieval_config where
  "default_retrieval_config =
     \<lparr>cfg_candidate_k = 20, cfg_final_k = 10, cfg_graph_entry_k = 5, cfg_rrf_k = 60,
      cfg_vector_enabled = True, cfg_fulltext_enabled = True, cfg_graph_enabled = True,
      cfg_reranker_enabled = False, cfg_reranker_model = ''BAAI/bge-reranker-v2-m3'',
      cfg_reranker_fp16 = False, cfg_reranker_max_length = 512, cfg_reranker_normalize = True,
      cfg_hierarchy_vector_enabled = False,
      cfg_query_max_length = 4000, cfg_intent_classifier_enabled = False\<rparr>"

definition make_retrieval_config :: "retrieval_config \<Rightarrow> contract_error + retrieval_config" where
  "make_retrieval_config c =
     (let limit = (\<lambda>n. 1 \<le> n \<and> n \<le> (200::nat)) in
      rbind (require (limit (cfg_candidate_k c) \<and> limit (cfg_final_k c) \<and> limit (cfg_graph_entry_k c)
               \<and> 1 \<le> cfg_rrf_k c \<and> 1 \<le> cfg_reranker_max_length c \<and> cfg_reranker_max_length c \<le> 8192
               \<and> 1 \<le> cfg_query_max_length c \<and> cfg_query_max_length c \<le> 10000) LimitOutOfRange) (\<lambda>_.
      rbind (require (cfg_final_k c \<le> cfg_candidate_k c) FinalExceedsCandidate) (\<lambda>_.
      rbind (require (cfg_vector_enabled c \<or> cfg_fulltext_enabled c) NoSeedChannel) (\<lambda>_.
      rbind (require (py_strip (cfg_reranker_model c) \<noteq> []) BlankRerankerModel) (\<lambda>_.
        Inr c)))))"

record capability_snapshot =
  cap_vector_appendix :: bool
  cap_vector_article :: bool
  cap_vector_clause :: bool
  cap_fulltext_index :: bool
  cap_scoped_temporal_metadata :: bool
  cap_corpus_complete_current_validity :: bool
  cap_temporal_relations :: bool
  cap_structural_hierarchy :: bool
  cap_guides_relations :: bool
  cap_multiple_versions :: bool
  cap_definition_relations :: bool
  cap_semantic_multi_hop_graph :: bool
  cap_canonical_relation_types :: "str list"

record retrieval_decision =
  dec_intent :: intent
  dec_strategy :: strategy
  dec_seed_channels :: "channel list"
  dec_graph_enabled :: bool
  dec_graph_policy_intent :: "intent option"
  dec_candidate_k :: nat
  dec_graph_entry_k :: nat
  dec_final_k :: nat
  dec_apply_temporal_filter :: bool
  dec_preserve_versions :: bool
  dec_require_temporal_point :: bool
  dec_enable_reranker :: bool
  dec_force_intent_used :: bool
  dec_temporal_source :: temporal_source
  dec_reason_code :: decision_reason
  dec_required_capability :: "capability option"

record routing_result =
  rr_decision :: retrieval_decision
  rr_temporal :: temporal_query
  rr_filters :: filters

record prepared_request =
  prep_request :: request
  prep_routing :: routing_result
  prep_context :: execution_context

subsection \<open>Evidence\<close>

datatype evidence_type = EvVector | EvBm25 | EvGraph | EvTemporal | EvRerank

record evidence_item =
  ev_unit_id :: str
  ev_type :: evidence_type
  ev_matched_text :: "str option"
  ev_score :: "float option"
  ev_source_path :: "str option"
  ev_eligible :: bool

text \<open>The sources of a unit are the three literals of its model.\<close>

definition evidence_type_of :: "str \<Rightarrow> evidence_type" where
  "evidence_type_of source =
     (if source = ''vector'' then EvVector else if source = ''fulltext'' then EvBm25 else EvGraph)"

definition score_for_source :: "retrieved_unit \<Rightarrow> str \<Rightarrow> float option" where
  "score_for_source u source =
     (if source = ''vector'' then vector_score u
      else if source = ''fulltext'' then bm25_score u else graph_score u)"

definition unit_eligible :: "retrieved_unit \<Rightarrow> bool" where
  "unit_eligible u \<longleftrightarrow> py_strip (content_raw u) \<noteq> []"

definition unit_evidence :: "retrieved_unit \<Rightarrow> evidence_item list" where
  "unit_evidence u =
     map (\<lambda>source. \<lparr>ev_unit_id = unit_id u, ev_type = evidence_type_of source,
            ev_matched_text = Some (content_raw u), ev_score = score_for_source u source,
            ev_source_path = None, ev_eligible = unit_eligible u\<rparr>) (retrieval_sources u)
     @ (case rerank_score u of None \<Rightarrow> []
        | Some s \<Rightarrow> [\<lparr>ev_unit_id = unit_id u, ev_type = EvRerank,
                    ev_matched_text = Some (content_raw u), ev_score = Some s,
                    ev_source_path = None, ev_eligible = unit_eligible u\<rparr>])"

definition path_evidence_item :: "nat \<Rightarrow> graph_path \<Rightarrow> str \<Rightarrow> evidence_item" where
  "path_evidence_item index p i =
     \<lparr>ev_unit_id = i, ev_type = EvGraph, ev_matched_text = Some (gp_description p), ev_score = None,
      ev_source_path = Some (''path-'' @ py_str (PInt (int index))), ev_eligible = False\<rparr>"

fun node_evidence ::
  "nat \<Rightarrow> graph_path \<Rightarrow> graph_node list \<Rightarrow> str list \<Rightarrow> evidence_item list \<times> str list" where
  "node_evidence index p [] seen = ([], seen)"
| "node_evidence index p (n # ns) seen =
     (let i = occurrence_id n in
      if i \<in> set seen then node_evidence index p ns seen
      else case node_evidence index p ns (i # seen) of (items, seen') \<Rightarrow>
        (path_evidence_item index p i # items, seen'))"

fun path_evidence :: "nat \<Rightarrow> graph_path list \<Rightarrow> str list \<Rightarrow> evidence_item list" where
  "path_evidence index [] seen = []"
| "path_evidence index (p # ps) seen =
     (case node_evidence index p (gp_nodes p) seen of (items, seen') \<Rightarrow>
        items @ path_evidence (index + 1) ps seen')"

definition verify_and_build :: "retrieved_unit list \<Rightarrow> graph_path list \<Rightarrow> evidence_item list" where
  "verify_and_build us paths =
     (let direct = concat (map unit_evidence us)
      in direct @ path_evidence 0 paths (map ev_unit_id direct))"

subsection \<open>The context\<close>

datatype retrieval_mode = VectorOnly | VectorGraph | FulltextOnly | HybridMode | NoResults

text \<open>The mode and whether confidence is penalised.\<close>

definition mode_of :: "retrieved_unit list \<Rightarrow> graph_path list \<Rightarrow> retrieval_mode \<times> bool" where
  "mode_of us paths =
     (let sources = \<Union> (set ` retrieval_sources ` set us) in
      if us = [] \<and> paths = [] then (NoResults, True)
      else if sources = {''vector''} \<and> paths = [] then (VectorOnly, True)
      else if sources = {''fulltext''} \<and> paths = [] then (FulltextOnly, True)
      else if ''graph'' \<in> sources \<or> paths \<noteq> []
      then (if ''fulltext'' \<notin> sources then VectorGraph else HybridMode, False)
      else (HybridMode, False))"

record runtime_metrics =
  met_seed_channel_count :: nat
  met_vector_hits :: nat
  met_fulltext_hits :: nat
  met_seed_fused_count :: nat
  met_graph_expansion_count :: nat
  met_direct_negative_validity :: bool
  met_graph_paths_count :: nat
  met_generic_graph_paths_count :: nat
  met_graph_units_count :: nat
  met_resolved_reference_count :: nat
  met_canonical_anchor_count :: nat
  met_canonical_anchor_hydrated_count :: nat
  met_relation_goal :: "relation_goal option"
  met_temporal_rejected_path_count :: nat
  met_malformed_path_count :: nat
  met_temporal_filtered_count :: int
  met_planned_execution_count :: nat
  met_planned_reason_code :: "plan_reason option"

record retrieval_context =
  rc_query :: str
  rc_intent :: intent
  rc_strategy :: strategy
  rc_temporal :: temporal_query
  rc_temporal_source :: temporal_source
  rc_reason_code :: decision_reason
  rc_force_intent_used :: bool
  rc_executed_channels :: "channel list"
  rc_filters_applied :: filters
  rc_reranker_applied :: bool
  rc_supported :: bool
  rc_requirement :: "reasoning_requirement option"
  rc_plan_execution :: "plan_execution_result option"
  rc_units :: "retrieved_unit list"
  rc_paths :: "graph_path list"
  rc_evidence :: "evidence_item list"
  rc_metrics :: runtime_metrics
  rc_total_evidence :: nat
  rc_eligible_evidence :: nat
  rc_mode :: retrieval_mode
  rc_confidence_penalty :: bool
  rc_references :: "resolved_reference list"
  rc_relation_goal :: "relation_goal option"

text \<open>
  \<open>build_context\<close> as the runtime calls it, with a decision. \<open>rc_supported\<close> is
  \<open>capability_status = "supported"\<close>.
\<close>

definition build_context ::
  "str \<Rightarrow> temporal_query \<Rightarrow> retrieved_unit list \<Rightarrow> graph_path list \<Rightarrow> runtime_metrics
     \<Rightarrow> retrieval_decision \<Rightarrow> filters \<Rightarrow> channel list \<Rightarrow> bool \<Rightarrow> plan_execution_result option
     \<Rightarrow> resolved_reference list \<Rightarrow> relation_goal option \<Rightarrow> retrieval_context" where
  "build_context query temporal us paths metrics decision fs executed reranked plan refs goal =
     (let evidence = verify_and_build us paths in
      \<lparr>rc_query = query, rc_intent = dec_intent decision, rc_strategy = dec_strategy decision,
       rc_temporal = temporal, rc_temporal_source = dec_temporal_source decision,
       rc_reason_code = dec_reason_code decision,
       rc_force_intent_used = dec_force_intent_used decision, rc_executed_channels = executed,
       rc_filters_applied = fs, rc_reranker_applied = reranked, rc_supported = (us \<noteq> []),
       rc_requirement =
         (case plan of None \<Rightarrow> None
          | Some r \<Rightarrow> if per_status r = ExecSatisfied then per_requirement r else None),
       rc_plan_execution = plan, rc_units = us, rc_paths = paths, rc_evidence = evidence,
       rc_metrics = metrics, rc_total_evidence = length evidence,
       rc_eligible_evidence = length (filter ev_eligible evidence),
       rc_mode = fst (mode_of us paths), rc_confidence_penalty = snd (mode_of us paths),
       rc_references = refs, rc_relation_goal = goal\<rparr>)"

end
