(* ===== verification/Runtime.thy ===== *)
theory Runtime
  imports Retrieval_Context
begin

text \<open>
  The retrieval pipeline (\<open>src/retrieval/runtime/runtime.py\<close>): \<open>RetrievalRuntime.execute\<close> with
  every check and early exit in the order of the code. Its collaborators are fields of the record
  \<open>runtime\<close>; an absent one is \<open>None\<close>, as in the constructor of the class.
\<close>

record graph_channel =
  gc_hydrate :: "str list \<Rightarrow> filters \<Rightarrow> retrieval_error + anchor_hydration"
  gc_expand :: "str list \<Rightarrow> intent \<Rightarrow> filters \<Rightarrow> relation_goal option \<Rightarrow> retrieval_error + graph_expansion"

record runtime =
  rt_digest :: "topology \<Rightarrow> str"
  rt_rrf_k :: nat
  rt_seed :: seed_ports
  rt_graph :: "graph_channel option"
  rt_inspect :: "filters \<Rightarrow> capability_snapshot"
  rt_reranker :: "reranker option"
  rt_planned :: "(bound_plan \<Rightarrow> filters \<Rightarrow> retrieval_error + planned_execution) option"

subsection \<open>Helpers\<close>

definition merge_units :: "retrieved_unit list list \<Rightarrow> retrieved_unit list" where
  "merge_units groups = dict_values (fold (\<lambda>u d. setdefault (unit_id u) u d) (concat groups) [])"

definition goal_edge :: "relation_goal \<Rightarrow> str set \<Rightarrow> graph_edge \<Rightarrow> bool" where
  "goal_edge g anchors e \<longleftrightarrow> ge_relation_type e = relation_goal_value g \<and> ge_source_id e \<in> anchors"

definition required_ids ::
  "retrieved_unit list \<Rightarrow> graph_path list \<Rightarrow> str set \<Rightarrow> relation_goal option \<Rightarrow> str list" where
  "required_ids anchor_units paths anchors goal =
     map unit_id anchor_units
     @ (case goal of None \<Rightarrow> []
        | Some g \<Rightarrow>
            concat (map (\<lambda>p. map (\<lambda>n. the (gn_citable_unit_id n))
                (filter (\<lambda>n. gn_citable_unit_id n \<noteq> None) (gp_nodes p)))
              (filter (\<lambda>p. list_ex (goal_edge g anchors) (gp_edges p)) paths)))"

definition by_id :: "retrieved_unit list \<Rightarrow> (str \<times> retrieved_unit) list" where
  "by_id us = fold (\<lambda>u d. AList.update (unit_id u) u d) us []"

definition required_canonical_units ::
  "retrieved_unit list \<Rightarrow> retrieved_unit list \<Rightarrow> graph_path list \<Rightarrow> str set \<Rightarrow> relation_goal option
     \<Rightarrow> retrieved_unit list" where
  "required_canonical_units anchor_units expansion_units paths anchors goal =
     (let units = by_id (merge_units [anchor_units, expansion_units]) in
      map (\<lambda>i. the (map_of units i))
        (filter (\<lambda>i. map_of units i \<noteq> None) (stable_unique (required_ids anchor_units paths anchors goal))))"

definition pin_required_units ::
  "retrieved_unit list \<Rightarrow> retrieved_unit list \<Rightarrow> nat \<Rightarrow> retrieval_error + retrieved_unit list" where
  "pin_required_units ranked required final_k =
     (if length required > final_k then Inl FinalKTooSmall
      else Inr (take final_k
        (required @ filter (\<lambda>u. unit_id u \<notin> unit_id ` set required) ranked)))"

fun available :: "capability_snapshot \<Rightarrow> capability \<Rightarrow> bool" where
  "available c ScopedTemporalMetadata = cap_scoped_temporal_metadata c"
| "available c CorpusCompleteCurrentValidity = cap_corpus_complete_current_validity c"
| "available c VersionChainValidity = cap_temporal_relations c"
| "available c StructuralHierarchy = cap_structural_hierarchy c"
| "available c GuidesRelations = cap_guides_relations c"
| "available c MultipleVersions = cap_multiple_versions c"
| "available c LexicalDefinition = cap_fulltext_index c"
| "available c SemanticMultiHopGraph = cap_semantic_multi_hop_graph c"
| "available c HybridSeedAndSemanticGraph = False"

definition validate_legal_capability ::
  "capability option \<Rightarrow> capability_snapshot \<Rightarrow> retrieval_error + unit" where
  "validate_legal_capability required caps =
     (case required of None \<Rightarrow> Inr ()
      | Some c \<Rightarrow> if available caps c then Inr () else Inl (CapabilityMissing c))"

definition canonical_identity_filters :: "filters \<Rightarrow> filters" where
  "canonical_identity_filters fs = fs\<lparr>query_date := None, legal_statuses := []\<rparr>"

definition outside_interval :: "date \<Rightarrow> retrieved_unit \<Rightarrow> bool" where
  "outside_interval day u =
     (case unit_effective_from u of None \<Rightarrow> False
      | Some a \<Rightarrow> day < a \<or> (case unit_effective_to u of None \<Rightarrow> False | Some b \<Rightarrow> b \<le> day))"

definition has_decisive_negative_validity ::
  "retrieval_decision \<Rightarrow> date option \<Rightarrow> str list \<Rightarrow> retrieved_unit list \<Rightarrow> bool" where
  "has_decisive_negative_validity decision day anchors anchor_units =
     (case day of None \<Rightarrow> False
      | Some d \<Rightarrow>
          if dec_intent decision \<noteq> Validity \<or> anchors = [] then False
          else let units = by_id anchor_units in
            if \<not> list_all (\<lambda>a. map_of units a \<noteq> None) anchors then False
            else list_all (\<lambda>a. outside_interval d (the (map_of units a))) anchors)"

fun collect_fingerprints :: "(topology \<Rightarrow> str) \<Rightarrow> graph_path list \<Rightarrow> retrieval_error + str list" where
  "collect_fingerprints digest [] = Inr []"
| "collect_fingerprints digest (p # ps) =
     (case build_topology_path_fingerprint digest p of
        Inl e \<Rightarrow> Inl (FingerprintFailed e)
      | Inr fp \<Rightarrow> rbind (collect_fingerprints digest ps) (\<lambda>fps. Inr (fp # fps)))"

definition validate_planned_path_membership ::
  "(topology \<Rightarrow> str) \<Rightarrow> plan_execution_result option \<Rightarrow> graph_path list \<Rightarrow> retrieval_error + unit" where
  "validate_planned_path_membership digest plan paths =
     (case plan of None \<Rightarrow> Inr ()
      | Some r \<Rightarrow>
          if per_status r \<noteq> ExecSatisfied then Inr ()
          else rbind (collect_fingerprints digest paths) (\<lambda>fps.
            if set (per_path_fingerprints r) \<subseteq> set fps then Inr ()
            else Inl PlanFingerprintsAbsent))"

subsection \<open>Steps of the pipeline\<close>

definition hydrate_step ::
  "runtime \<Rightarrow> str list \<Rightarrow> filters \<Rightarrow> retrieval_error + anchor_hydration" where
  "hydrate_step rt anchors fs =
     (if anchors = [] then Inr no_hydration
      else case rt_graph rt of None \<Rightarrow> Inl GraphRetrieverMissing
        | Some g \<Rightarrow> gc_hydrate g anchors fs)"

definition expand_once ::
  "runtime \<Rightarrow> retrieval_decision \<Rightarrow> str list \<Rightarrow> filters \<Rightarrow> relation_goal option
     \<Rightarrow> retrieval_error + graph_expansion" where
  "expand_once rt decision entries fs goal =
     (if \<not> dec_graph_enabled decision then Inr empty_expansion
      else case (rt_graph rt, dec_graph_policy_intent decision) of
        (Some g, Some i) \<Rightarrow> gc_expand g entries i fs goal
      | _ \<Rightarrow> Inl GraphRetrieverMissing)"

definition planned_step ::
  "runtime \<Rightarrow> bound_plan option \<Rightarrow> filters \<Rightarrow> retrieval_error + plan_execution_result option \<times> graph_path list" where
  "planned_step rt plan fs =
     (case plan of None \<Rightarrow> Inr (None, [])
      | Some p \<Rightarrow>
          (case rt_planned rt of
             None \<Rightarrow> Inl PlannedExecutorMissing
           | Some run \<Rightarrow> rbind (run p fs) (\<lambda>x. Inr (Some (pe_result x), pe_paths x))))"

definition seed_fusion ::
  "runtime \<Rightarrow> (channel \<times> retrieved_unit list) list \<Rightarrow> nat \<Rightarrow> retrieval_error + retrieved_unit list" where
  "seed_fusion rt seeds k = fuse_channels (rt_rrf_k rt) (map (\<lambda>(c, us). (channel_value c, us)) seeds) k"

definition rank_step ::
  "runtime \<Rightarrow> str \<Rightarrow> retrieval_decision \<Rightarrow> retrieved_unit list \<Rightarrow> retrieval_error + retrieved_unit list" where
  "rank_step rt query decision filtered =
     (if dec_enable_reranker decision then
        (case rt_reranker rt of None \<Rightarrow> Inl RerankerMissing
         | Some rr \<Rightarrow> Inr (rr query filtered (dec_final_k decision)))
      else Inr (take (dec_final_k decision) (sort_key fused_key filtered)))"

text \<open>Everything up to the capability check: the anchors and the negative-validity shortcut.\<close>

definition anchor_step ::
  "runtime \<Rightarrow> prepared_request \<Rightarrow> retrieval_error + anchor_hydration \<times> bool" where
  "anchor_step rt prepared =
     (let routing = prep_routing prepared;
          anchors = anchor_node_ids (prep_context prepared)
      in rbind (hydrate_step rt anchors (canonical_identity_filters (rr_filters routing))) (\<lambda>hydration.
         if \<not> set anchors \<subseteq> set (matched_anchor_ids hydration) then Inl CanonicalReferenceUnavailable
         else Inr (hydration, has_decisive_negative_validity (rr_decision routing)
                (resolved_from (rr_temporal routing)) anchors (hydrated_units hydration))))"

definition effective_capability :: "retrieval_decision \<Rightarrow> bool \<Rightarrow> capability option" where
  "effective_capability decision negative =
     (if negative then Some ScopedTemporalMetadata else dec_required_capability decision)"

definition graph_step ::
  "runtime \<Rightarrow> prepared_request \<Rightarrow> bool \<Rightarrow> retrieved_unit list \<Rightarrow> retrieval_error + graph_expansion" where
  "graph_step rt prepared negative seed_ranked =
     (let decision = rr_decision (prep_routing prepared);
          anchors = anchor_node_ids (prep_context prepared)
      in if negative then Inr empty_expansion
         else expand_once rt decision
                (stable_unique (anchors @ map unit_id (take (dec_graph_entry_k decision) seed_ranked)))
                (rr_filters (prep_routing prepared)) (ctx_relation_goal (prep_context prepared)))"

definition final_channels ::
  "retrieval_decision \<Rightarrow> (channel \<times> retrieved_unit list) list \<Rightarrow> anchor_hydration \<Rightarrow> graph_expansion
     \<Rightarrow> (str \<times> retrieved_unit list) list" where
  "final_channels decision seeds hydration expansion =
     (let named = map (\<lambda>(c, us). (channel_value c, us)) seeds in
      if dec_graph_enabled decision
      then AList.update (channel_value GraphChannel)
             (merge_units [hydrated_units hydration, exp_units expansion]) named
      else named)"

definition channel_hits :: "channel \<Rightarrow> (channel \<times> retrieved_unit list) list \<Rightarrow> nat" where
  "channel_hits c seeds = (case map_of seeds c of None \<Rightarrow> 0 | Some us \<Rightarrow> length us)"

definition execute_runtime ::
  "runtime \<Rightarrow> prepared_request \<Rightarrow> bound_plan option \<Rightarrow> plan_reason option
     \<Rightarrow> retrieval_error + retrieval_context" where
  "execute_runtime rt prepared plan binding_reason =
     (let routing = prep_routing prepared;
          decision = rr_decision routing;
          context = prep_context prepared;
          goal = ctx_relation_goal context;
          fs = rr_filters routing;
          anchors = anchor_node_ids context;
          query = req_query (prep_request prepared)
      in
      if plan \<noteq> None \<and> dec_intent decision \<noteq> MultiHop then Inl PlanOnlyForMultiHop
      else
      rbind (anchor_step rt prepared) (\<lambda>(hydration, negative).
      rbind (validate_legal_capability (effective_capability decision negative) (rt_inspect rt fs)) (\<lambda>_.
      rbind (seed_execute (rt_seed rt) query (dec_seed_channels decision) fs (dec_candidate_k decision) []) (\<lambda>seeds.
      rbind (seed_fusion rt seeds (dec_candidate_k decision)) (\<lambda>seed_ranked.
      rbind (graph_step rt prepared negative seed_ranked) (\<lambda>expansion.
      rbind (planned_step rt plan fs) (\<lambda>(planned, planned_paths).
      rbind (deduplicate_topology_paths (rt_digest rt) (exp_paths expansion @ planned_paths)) (\<lambda>deduplicated.
      let paths = rank_paths deduplicated in
      rbind (validate_planned_path_membership (rt_digest rt) planned paths) (\<lambda>_.
      rbind (fuse_channels (rt_rrf_k rt) (final_channels decision seeds hydration expansion)
               (dec_candidate_k decision)) (\<lambda>fused.
      rbind (temporal_filter fused (rr_temporal routing) (dec_preserve_versions decision)) (\<lambda>filtered.
      rbind (rank_step rt query decision filtered) (\<lambda>ranked.
      rbind (pin_required_units ranked
               (required_canonical_units (hydrated_units hydration) (exp_units expansion) paths
                  (set anchors) goal) (dec_final_k decision)) (\<lambda>units.
      let metrics =
        \<lparr>met_seed_channel_count = length seeds,
         met_vector_hits = channel_hits VectorChannel seeds,
         met_fulltext_hits = channel_hits FulltextChannel seeds,
         met_seed_fused_count = length seed_ranked,
         met_graph_expansion_count = (if dec_graph_enabled decision \<and> \<not> negative then 1 else 0),
         met_direct_negative_validity = negative,
         met_graph_paths_count = length paths,
         met_generic_graph_paths_count = length (exp_paths expansion),
         met_graph_units_count = length (exp_units expansion),
         met_resolved_reference_count = length (ctx_references context),
         met_canonical_anchor_count = length anchors,
         met_canonical_anchor_hydrated_count = length (matched_anchor_ids hydration),
         met_relation_goal = goal,
         met_temporal_rejected_path_count = temporal_rejected_path_count (exp_diagnostics expansion),
         met_malformed_path_count = malformed_path_count (exp_diagnostics expansion),
         met_temporal_filtered_count = int (length fused) - int (length filtered),
         met_planned_execution_count = (if plan = None then 0 else 1),
         met_planned_reason_code =
           (case planned of Some r \<Rightarrow> Some (per_reason r) | None \<Rightarrow> binding_reason)\<rparr>
      in Inr (build_context query (rr_temporal routing) units paths metrics decision fs
           (dec_seed_channels decision @ (if dec_graph_enabled decision then [GraphChannel] else []))
           (dec_enable_reranker decision) planned (ctx_references context) goal))))))))))))))"

end
