(* ===== verification/Runtime_Properties.thy ===== *)
theory Runtime_Properties
  imports Runtime Ranking_Properties Plan_Properties
begin

text \<open>
  Correctness of the retrieval pipeline: it fails closed on missing capabilities and anchors, its
  result is bounded and keeps the required canonical units, the units it ranks are in force, and a
  reported reasoning requirement is backed by a path of the result.
\<close>

subsection \<open>Inversion of a successful run\<close>

lemma build_context_simps [simp]:
  "rc_units (build_context q t us ps m d fs e rr pl refs g) = us"
  "rc_paths (build_context q t us ps m d fs e rr pl refs g) = ps"
  "rc_plan_execution (build_context q t us ps m d fs e rr pl refs g) = pl"
  "rc_evidence (build_context q t us ps m d fs e rr pl refs g) = verify_and_build us ps"
  "rc_requirement (build_context q t us ps m d fs e rr pl refs g) =
     (case pl of None \<Rightarrow> None | Some r \<Rightarrow> if per_status r = ExecSatisfied then per_requirement r else None)"
  by (simp_all add: build_context_def Let_def)

lemma execute_runtime_Inr:
  assumes "execute_runtime rt prepared plan why = Inr ctx"
  obtains hydration negative seeds seed_ranked expansion planned planned_paths deduped fused filtered ranked units
  where "anchor_step rt prepared = Inr (hydration, negative)"
    "validate_legal_capability (effective_capability (rr_decision (prep_routing prepared)) negative)
       (rt_inspect rt (rr_filters (prep_routing prepared))) = Inr ()"
    "graph_step rt prepared negative seed_ranked = Inr expansion"
    "planned_step rt plan (rr_filters (prep_routing prepared)) = Inr (planned, planned_paths)"
    "deduplicate_topology_paths (rt_digest rt) (exp_paths expansion @ planned_paths) = Inr deduped"
    "validate_planned_path_membership (rt_digest rt) planned (rank_paths deduped) = Inr ()"
    "fuse_channels (rt_rrf_k rt) (final_channels (rr_decision (prep_routing prepared)) seeds hydration expansion)
       (dec_candidate_k (rr_decision (prep_routing prepared))) = Inr fused"
    "temporal_filter fused (rr_temporal (prep_routing prepared))
       (dec_preserve_versions (rr_decision (prep_routing prepared))) = Inr filtered"
    "rank_step rt (req_query (prep_request prepared)) (rr_decision (prep_routing prepared)) filtered = Inr ranked"
    "pin_required_units ranked
       (required_canonical_units (hydrated_units hydration) (exp_units expansion) (rank_paths deduped)
          (set (anchor_node_ids (prep_context prepared))) (ctx_relation_goal (prep_context prepared)))
       (dec_final_k (rr_decision (prep_routing prepared))) = Inr units"
    "rc_units ctx = units" "rc_paths ctx = rank_paths deduped" "rc_plan_execution ctx = planned"
    "rc_evidence ctx = verify_and_build units (rank_paths deduped)"
    "rc_requirement ctx = (case planned of None \<Rightarrow> None
       | Some r \<Rightarrow> if per_status r = ExecSatisfied then per_requirement r else None)"
    "plan \<noteq> None \<longrightarrow> dec_intent (rr_decision (prep_routing prepared)) = MultiHop"
proof -
  have allowed: "\<not> (plan \<noteq> None \<and> dec_intent (rr_decision (prep_routing prepared)) \<noteq> MultiHop)"
  proof
    assume c: "plan \<noteq> None \<and> dec_intent (rr_decision (prep_routing prepared)) \<noteq> MultiHop"
    have "execute_runtime rt prepared plan why = Inl PlanOnlyForMultiHop"
      unfolding execute_runtime_def Let_def if_P [OF c] ..
    with assms show False by simp
  qed
  show thesis
    using assms
    unfolding execute_runtime_def Let_def if_not_P [OF allowed] rbind_Inr_iff
    by (clarsimp simp only: prod.case sum.inject rbind_Inr_iff split_paired_all)
      (rule that, (assumption | simp | use allowed in blast)+)
qed

subsection \<open>Failing closed\<close>

text \<open>
  C3: Retrieval fails closed. When it returns a context, the corpus provides the capability that the
  decision requires, or every anchor is decisively invalid and only the scoped temporal metadata is
  needed; every resolved reference was found in the graph; and a bound plan ran only for a multi-hop
  question.
\<close>

theorem retrieval_fails_closed:
  assumes "execute_runtime rt prepared plan why = Inr ctx"
  shows "\<exists>hydration negative. anchor_step rt prepared = Inr (hydration, negative)
    \<and> (\<forall>c. effective_capability (rr_decision (prep_routing prepared)) negative = Some c \<longrightarrow>
          available (rt_inspect rt (rr_filters (prep_routing prepared))) c)
    \<and> set (anchor_node_ids (prep_context prepared)) \<subseteq> set (matched_anchor_ids hydration)
    \<and> (plan \<noteq> None \<longrightarrow> dec_intent (rr_decision (prep_routing prepared)) = MultiHop)"
proof (rule execute_runtime_Inr [OF assms])
  fix hydration negative
  assume a: "anchor_step rt prepared = Inr (hydration, negative)"
    and c: "validate_legal_capability (effective_capability (rr_decision (prep_routing prepared)) negative)
       (rt_inspect rt (rr_filters (prep_routing prepared))) = Inr ()"
    and p: "plan \<noteq> None \<longrightarrow> dec_intent (rr_decision (prep_routing prepared)) = MultiHop"
  have "set (anchor_node_ids (prep_context prepared)) \<subseteq> set (matched_anchor_ids hydration)"
    using a by (auto simp: anchor_step_def Let_def rbind_Inr_iff split: if_splits)
  with a c p show ?thesis
    by (auto simp: validate_legal_capability_def split: option.splits if_splits)
qed

subsection \<open>Dictionaries of units\<close>

lemma by_id_snoc: "by_id (us @ [u]) = AList.update (unit_id u) u (by_id us)"
  by (simp add: by_id_def)

lemma by_id_lookup: "map_of (by_id us) i = Some u \<Longrightarrow> u \<in> set us \<and> unit_id u = i"
  by (induction us rule: rev_induct)
    (auto simp: by_id_snoc update_conv split: if_splits, simp add: by_id_def)

lemma by_id_None: "map_of (by_id us) i = None \<longleftrightarrow> i \<notin> unit_id ` set us"
proof (induction us rule: rev_induct)
  case Nil
  show ?case by (simp add: by_id_def)
next
  case (snoc u us)
  then show ?case by (auto simp: by_id_snoc update_conv)
qed

lemma merge_units_facts:
  "distinct (map unit_id (merge_units groups)) \<and> set (merge_units groups) \<subseteq> set (concat groups)
   \<and> unit_id ` set (merge_units groups) = unit_id ` set (concat groups)"
proof -
  define d where "d = fold (\<lambda>u d. setdefault (unit_id u) u d) (concat groups) []"
  have "distinct (map fst (fold (\<lambda>u d. setdefault (unit_id u) u d) us []))
      \<and> (\<forall>(i, u) \<in> set (fold (\<lambda>u d. setdefault (unit_id u) u d) us []). i = unit_id u \<and> u \<in> set us)
      \<and> fst ` set (fold (\<lambda>u d. setdefault (unit_id u) u d) us []) = unit_id ` set us" for us
    by (induction us rule: rev_induct) (auto simp: setdefault_def image_iff)
  from this [of "concat groups"] have d: "distinct (map fst d)"
    "\<forall>(i, u) \<in> set d. i = unit_id u \<and> u \<in> set (concat groups)"
    "fst ` set d = unit_id ` set (concat groups)"
    unfolding d_def by blast+
  have m: "merge_units groups = map snd d" by (simp add: merge_units_def dict_values_def d_def)
  have ids: "map unit_id (merge_units groups) = map fst d" unfolding m using d(2) by auto
  moreover have "unit_id ` set (merge_units groups) = fst ` set d" using ids by (metis list.set_map)
  moreover have "set (merge_units groups) \<subseteq> set (concat groups)" unfolding m using d(2) by auto
  ultimately show ?thesis using d by metis
qed

text \<open>
  C23: Decisive negative validity means what it says: if the shortcut is taken, the question is about
  validity on a known date, there is at least one anchor, and every anchor is a hydrated unit with a
  start of validity that is not in force on that date. The graph is then not expanded.
\<close>

theorem negative_validity_sound:
  assumes "anchor_step rt prepared = Inr (hydration, True)"
  shows "\<exists>day. resolved_from (rr_temporal (prep_routing prepared)) = Some day
    \<and> dec_intent (rr_decision (prep_routing prepared)) = Validity
    \<and> anchor_node_ids (prep_context prepared) \<noteq> []
    \<and> (\<forall>a \<in> set (anchor_node_ids (prep_context prepared)). \<exists>u \<in> set (hydrated_units hydration).
          unit_id u = a \<and> unit_effective_from u \<noteq> None
          \<and> \<not> in_force (unit_effective_from u) (unit_effective_to u) day)
    \<and> (\<forall>seed_ranked. graph_step rt prepared True seed_ranked = Inr empty_expansion)"
proof -
  let ?anchors = "anchor_node_ids (prep_context prepared)"
  let ?units = "by_id (hydrated_units hydration)"
  from assms have "has_decisive_negative_validity (rr_decision (prep_routing prepared))
      (resolved_from (rr_temporal (prep_routing prepared))) ?anchors (hydrated_units hydration)"
    by (auto simp: anchor_step_def Let_def rbind_Inr_iff split: if_splits)
  then obtain day where day: "resolved_from (rr_temporal (prep_routing prepared)) = Some day"
    and v: "dec_intent (rr_decision (prep_routing prepared)) = Validity" "?anchors \<noteq> []"
    and units: "\<forall>a \<in> set ?anchors. map_of ?units a \<noteq> None \<and> outside_interval day (the (map_of ?units a))"
    by (auto simp: has_decisive_negative_validity_def Let_def list_all_iff split: option.splits if_splits)
  have "\<exists>u \<in> set (hydrated_units hydration). unit_id u = a \<and> unit_effective_from u \<noteq> None
      \<and> \<not> in_force (unit_effective_from u) (unit_effective_to u) day" if a: "a \<in> set ?anchors" for a
  proof -
    from units a obtain u where u: "map_of ?units a = Some u" "outside_interval day u" by force
    from by_id_lookup [OF u(1)] u(2) show ?thesis
      by (intro bexI [of _ u]) (auto simp: outside_interval_def in_force_def split: option.splits)
  qed
  with day v show ?thesis by (simp add: graph_step_def Let_def)
qed

subsection \<open>The units of the result\<close>

lemma required_units_facts:
  defines "required au eu ps as g \<equiv> required_canonical_units au eu ps as g"
  shows "distinct (map unit_id (required au eu ps as g))"
    and "set (required au eu ps as g) \<subseteq> set au \<union> set eu"
    and "\<forall>u \<in> set au. unit_id u \<in> unit_id ` set (required au eu ps as g)"
proof -
  let ?units = "by_id (merge_units [au, eu])"
  let ?ids = "filter (\<lambda>i. map_of ?units i \<noteq> None) (stable_unique (required_ids au ps as g))"
  have look: "map_of ?units i = Some u \<Longrightarrow> u \<in> set au \<union> set eu \<and> unit_id u = i" for i u
    using by_id_lookup [of "merge_units [au, eu]" i u] merge_units_facts [of "[au, eu]"] by auto
  have req: "required au eu ps as g = map (\<lambda>i. the (map_of ?units i)) ?ids"
    by (simp add: required_def required_canonical_units_def Let_def)
  have ids: "map unit_id (required au eu ps as g) = ?ids"
    unfolding req map_map by (rule map_idI) (use look in auto)
  then show "distinct (map unit_id (required au eu ps as g))" by simp
  show "set (required au eu ps as g) \<subseteq> set au \<union> set eu"
    unfolding req by (auto dest: look)
  show "\<forall>u \<in> set au. unit_id u \<in> unit_id ` set (required au eu ps as g)"
  proof
    fix u
    assume "u \<in> set au"
    moreover from this have "map_of ?units (unit_id u) \<noteq> None"
      using merge_units_facts [of "[au, eu]"] by (simp add: by_id_None image_Un)
    ultimately have "unit_id u \<in> set ?ids" by (simp add: required_ids_def)
    then show "unit_id u \<in> unit_id ` set (required au eu ps as g)"
      using ids by (metis list.set_map)
  qed
qed

lemma pin_required_units_Inr:
  assumes "pin_required_units ranked required n = Inr us"
  shows "length us \<le> n \<and> take (length required) us = required
    \<and> (\<forall>u \<in> set us. u \<in> set required \<or> u \<in> set ranked)
    \<and> (distinct (map unit_id required) \<longrightarrow> distinct (map unit_id ranked) \<longrightarrow> distinct (map unit_id us))"
proof -
  let ?rest = "filter (\<lambda>u. unit_id u \<notin> unit_id ` set required) ranked"
  from assms have us: "us = take n (required @ ?rest)" and le: "length required \<le> n"
    by (auto simp: pin_required_units_def split: if_splits)
  have "distinct (map unit_id (required @ ?rest))"
    if "distinct (map unit_id required)" "distinct (map unit_id ranked)"
  proof -
    have "distinct (map unit_id ?rest)" using that(2) by (rule distinct_map_filter)
    moreover have "set (map unit_id required) \<inter> set (map unit_id ?rest) = {}"
      by (force simp: image_iff)
    ultimately show ?thesis using that(1) by (simp only: map_append distinct_append)
  qed
  moreover have "map unit_id us = take n (map unit_id (required @ ?rest))"
    by (simp add: us take_map)
  ultimately have "distinct (map unit_id required) \<longrightarrow> distinct (map unit_id ranked) \<longrightarrow> distinct (map unit_id us)"
    using distinct_take by metis
  moreover have "set us \<subseteq> set required \<union> set ranked"
    unfolding us by (auto dest!: in_set_takeD simp del: take_append)
  ultimately show ?thesis
    using le by (auto simp: us)
qed

lemma rank_step_plain:
  assumes "rank_step rt query decision filtered = Inr ranked" and "\<not> dec_enable_reranker decision"
  shows "set ranked \<subseteq> set filtered \<and> (distinct (map unit_id filtered) \<longrightarrow> distinct (map unit_id ranked))"
proof -
  have ranked: "ranked = take (dec_final_k decision) (sort_key fused_key filtered)"
    using assms by (simp add: rank_step_def)
  have "distinct (map unit_id (sort_key fused_key filtered))" if "distinct (map unit_id filtered)"
    using that by (simp add: distinct_map)
  then show ?thesis
    unfolding ranked by (auto simp: take_map [symmetric] distinct_take dest: in_set_takeD)
qed

lemma temporal_filter_distinct:
  assumes "temporal_filter us t preserve = Inr rs" and "distinct (map unit_id us)"
  shows "distinct (map unit_id rs)"
proof -
  let ?kept = "filter (passes_period t) us"
  have kept: "distinct (map unit_id ?kept)" using assms(2) by (rule distinct_map_filter)
  then have inj: "inj_on unit_id (set ?kept)" by (simp add: distinct_map)
  have us: "distinct ?kept" using kept by (simp add: distinct_map)
  have "distinct rs"
  proof (cases preserve)
    case True
    then show ?thesis using temporal_filter_Inr [OF assms(1)] us by simp
  next
    case False
    define d where "d = fold keep_latest (filter in_family ?kept) []"
    have inv: "latest_inv (filter in_family ?kept) d" unfolding d_def by (rule fold_keep_latest)
    then have keys: "distinct (map fst d)" by (simp add: latest_inv_def)
    have fam: "r \<in> set ?kept \<and> in_family r \<and> family_of r = f" if "(f, r) \<in> set d" for f r
    proof -
      have "map_of d f = Some r" using keys that by simp
      with inv have "latest_of (filter in_family ?kept) f r" by (simp add: latest_inv_def)
      then show ?thesis by (simp add: latest_of_def)
    qed
    have "map family_of (map snd d) = map fst d" using fam by auto
    then have "distinct (map snd d)"
      using keys by (metis distinct_map)
    moreover have "set (map snd d) \<inter> set (filter (\<lambda>u. \<not> in_family u) ?kept) = {}"
      using fam by auto
    ultimately have "distinct (filter (\<lambda>u. \<not> in_family u) ?kept @ map snd d)"
      using distinct_filter [OF us] by (simp only: distinct_append) (metis Int_commute)
    moreover have "rs = sort_key stable_rank_key (filter (\<lambda>u. \<not> in_family u) ?kept @ map snd d)"
      using temporal_filter_Inr [OF assms(1)] False
      by (simp add: resolve_version_families_def dict_values_def d_def del: filter_filter)
    ultimately show ?thesis by (simp del: filter_filter)
  qed
  moreover have "set rs \<subseteq> set ?kept"
    using temporal_filter_Inr [OF assms(1)] resolve_families [of ?kept]
    by (auto simp: resolves_def split: if_splits)
  ultimately show ?thesis using inj by (simp add: distinct_map inj_on_subset)
qed


subsection \<open>Reasoning requirements\<close>

lemma collect_fingerprints_Inr:
  "collect_fingerprints digest ps = Inr fps \<Longrightarrow> fp \<in> set fps \<Longrightarrow>
     \<exists>p \<in> set ps. build_topology_path_fingerprint digest p = Inr fp"
proof (induction ps arbitrary: fps)
  case Nil
  then show ?case by simp
next
  case (Cons p ps)
  then obtain f rest where "build_topology_path_fingerprint digest p = Inr f"
    "collect_fingerprints digest ps = Inr rest" "fps = f # rest"
    by (auto simp: rbind_Inr_iff split: sum.splits)
  with Cons show ?case by auto
qed

text \<open>
  C24: A reasoning requirement is backed by evidence. If the context carries one, a bound plan was
  executed and satisfied, and each fingerprint of its result belongs to a path of the context.
\<close>

theorem requirement_backed_by_path:
  assumes "execute_runtime rt prepared plan why = Inr ctx" and "rc_requirement ctx \<noteq> None"
  shows "\<exists>r. rc_plan_execution ctx = Some r \<and> per_status r = ExecSatisfied
    \<and> per_requirement r = rc_requirement ctx
    \<and> (\<forall>fp \<in> set (per_path_fingerprints r). \<exists>p \<in> set (rc_paths ctx).
          build_topology_path_fingerprint (rt_digest rt) p = Inr fp)"
proof (rule execute_runtime_Inr [OF assms(1)])
  fix planned deduped
  assume member: "validate_planned_path_membership (rt_digest rt) planned (rank_paths deduped) = Inr ()"
    and ctx: "rc_paths ctx = rank_paths deduped" "rc_plan_execution ctx = planned"
      "rc_requirement ctx = (case planned of None \<Rightarrow> None
       | Some r \<Rightarrow> if per_status r = ExecSatisfied then per_requirement r else None)"
  from assms(2) ctx(3) obtain r where r: "planned = Some r" "per_status r = ExecSatisfied"
      "per_requirement r = rc_requirement ctx"
    by (auto split: option.splits if_splits)
  with member obtain fps where "collect_fingerprints (rt_digest rt) (rank_paths deduped) = Inr fps"
      "set (per_path_fingerprints r) \<subseteq> set fps"
    by (auto simp: validate_planned_path_membership_def rbind_Inr_iff split: if_splits)
  with r ctx show ?thesis
    by (metis collect_fingerprints_Inr subsetD)
qed

subsection \<open>Evidence\<close>

lemma node_evidence_facts:
  "node_evidence index p ns seen = (items, seen') \<Longrightarrow>
     distinct (map ev_unit_id items) \<and> set (map ev_unit_id items) \<inter> set seen = {}
     \<and> set seen' = set seen \<union> set (map ev_unit_id items)
     \<and> (\<forall>e \<in> set items. \<not> ev_eligible e \<and> ev_type e = EvGraph)"
proof (induction ns arbitrary: seen items seen')
  case Nil
  then show ?case by simp
next
  case (Cons n ns)
  show ?case
  proof (cases "occurrence_id n \<in> set seen")
    case True
    with Cons.prems have "node_evidence index p ns seen = (items, seen')" by simp
    then show ?thesis by (rule Cons.IH)
  next
    case False
    with Cons.prems obtain rest where rest: "node_evidence index p ns (occurrence_id n # seen) = (rest, seen')"
      and items: "items = path_evidence_item index p (occurrence_id n) # rest"
      by (auto simp: Let_def split: prod.splits)
    from Cons.IH [OF rest] False show ?thesis
      by (auto simp: items path_evidence_item_def)
  qed
qed

lemma path_evidence_facts:
  "distinct (map ev_unit_id (path_evidence index ps seen))
   \<and> set (map ev_unit_id (path_evidence index ps seen)) \<inter> set seen = {}
   \<and> (\<forall>e \<in> set (path_evidence index ps seen). \<not> ev_eligible e \<and> ev_type e = EvGraph)"
proof (induction index ps seen rule: path_evidence.induct)
  case (1 index seen)
  then show ?case by simp
next
  case (2 index p ps seen)
  obtain items seen' where ne: "node_evidence index p (gp_nodes p) seen = (items, seen')"
    by (cases "node_evidence index p (gp_nodes p) seen")
  note facts = node_evidence_facts [OF ne]
  from "2.IH" [OF ne [symmetric]] facts ne show ?case
    by (auto simp: disjoint_iff)
qed

text \<open>
  Only the text of a retrieved unit is eligible evidence. An eligible item carries the text of a
  unit of the context, which is not blank, and a unit with text and at least one source has one; a
  node that appears only on a graph path contributes one item, never eligible.
\<close>

theorem evidence_eligibility:
  "(\<forall>e \<in> set (verify_and_build us paths). ev_eligible e \<longrightarrow>
      (\<exists>u \<in> set us. ev_unit_id e = unit_id u \<and> ev_matched_text e = Some (content_raw u)
          \<and> py_strip (content_raw u) \<noteq> []))
   \<and> (\<forall>u \<in> set us. py_strip (content_raw u) \<noteq> [] \<and> retrieval_sources u \<noteq> [] \<longrightarrow>
        (\<exists>e \<in> set (verify_and_build us paths). ev_eligible e \<and> ev_unit_id e = unit_id u))
   \<and> (\<exists>direct extra. verify_and_build us paths = direct @ extra
        \<and> set (map ev_unit_id direct) \<subseteq> unit_id ` set us
        \<and> distinct (map ev_unit_id extra) \<and> set (map ev_unit_id extra) \<inter> set (map ev_unit_id direct) = {}
        \<and> (\<forall>e \<in> set extra. \<not> ev_eligible e))"
proof -
  define direct where "direct = concat (map unit_evidence us)"
  define extra where "extra = path_evidence 0 paths (map ev_unit_id direct)"
  have all: "verify_and_build us paths = direct @ extra"
    by (simp add: verify_and_build_def direct_def extra_def Let_def)
  have extra: "distinct (map ev_unit_id extra)" "set (map ev_unit_id extra) \<inter> set (map ev_unit_id direct) = {}"
    "\<forall>e \<in> set extra. \<not> ev_eligible e"
    using path_evidence_facts [of 0 paths "map ev_unit_id direct"] by (auto simp: extra_def)
  have item: "\<exists>u \<in> set us. ev_unit_id e = unit_id u \<and> ev_matched_text e = Some (content_raw u)
      \<and> ev_eligible e = unit_eligible u" if "e \<in> set direct" for e
    using that by (fastforce simp: direct_def unit_evidence_def split: option.splits)
  have found: "\<exists>e \<in> set direct. ev_eligible e \<and> ev_unit_id e = unit_id u"
    if "u \<in> set us" "unit_eligible u" "retrieval_sources u \<noteq> []" for u
  proof -
    from that(3) obtain s where "s \<in> set (retrieval_sources u)" by (cases "retrieval_sources u") auto
    with that(1,2) show ?thesis
      by (intro bexI [of _ "\<lparr>ev_unit_id = unit_id u, ev_type = evidence_type_of s,
            ev_matched_text = Some (content_raw u), ev_score = score_for_source u s,
            ev_source_path = None, ev_eligible = unit_eligible u\<rparr>"])
        (auto simp: direct_def unit_evidence_def)
  qed
  have "set (map ev_unit_id direct) \<subseteq> unit_id ` set us" using item by fastforce
  with extra have split: "\<exists>direct extra. verify_and_build us paths = direct @ extra
        \<and> set (map ev_unit_id direct) \<subseteq> unit_id ` set us
        \<and> distinct (map ev_unit_id extra) \<and> set (map ev_unit_id extra) \<inter> set (map ev_unit_id direct) = {}
        \<and> (\<forall>e \<in> set extra. \<not> ev_eligible e)"
    using all by blast
  have "\<exists>u \<in> set us. ev_unit_id e = unit_id u \<and> ev_matched_text e = Some (content_raw u)
      \<and> py_strip (content_raw u) \<noteq> []" if "e \<in> set (verify_and_build us paths)" "ev_eligible e" for e
    using that item extra(3) by (auto simp: all unit_eligible_def)
  moreover have "\<exists>e \<in> set (verify_and_build us paths). ev_eligible e \<and> ev_unit_id e = unit_id u"
    if "u \<in> set us" "py_strip (content_raw u) \<noteq> []" "retrieval_sources u \<noteq> []" for u
    using found [OF that(1) _ that(3)] that(2) by (auto simp: all unit_eligible_def)
  ultimately show ?thesis using split by blast
qed


subsection \<open>A run that satisfies the hypotheses\<close>

text \<open>
  One article, the anchor of the request; the graph
  also returns the path of the bound plan of \<open>Plan_Properties\<close>, which is in force on day 30. On day 5
  the article has not started, so a validity question about it is answered negatively.
\<close>

definition sample_runtime :: runtime where
  "sample_runtime =
     \<lparr>rt_digest = id_digest, rt_rrf_k = 60,
      rt_seed = \<lparr>sp_vector = Some (\<lambda>q fs k. []),
                 sp_fulltext = None\<rparr>,
      rt_graph = Some \<lparr>gc_hydrate = (\<lambda>ids fs. Inr \<lparr>matched_anchor_ids = ids, hydrated_units = [sample_unit ''A'']\<rparr>),
                       gc_expand = (\<lambda>ids i fs g. Inr empty_expansion)\<rparr>,
      rt_inspect = (\<lambda>fs. \<lparr>cap_vector_appendix = True, cap_vector_article = True, cap_vector_clause = True,
         cap_fulltext_index = True, cap_scoped_temporal_metadata = True,
         cap_corpus_complete_current_validity = False, cap_temporal_relations = True,
         cap_structural_hierarchy = True, cap_guides_relations = True, cap_multiple_versions = False,
         cap_definition_relations = True, cap_semantic_multi_hop_graph = True,
         cap_canonical_relation_types = [''AMENDS'']\<rparr>),
      rt_reranker = None,
      rt_planned = Some (\<lambda>p fs. execute_plan id_digest (\<lambda>p. ''0'') sample_lookup default_max_exact_paths p fs)\<rparr>"

definition sample_decision :: "intent \<Rightarrow> capability option \<Rightarrow> retrieval_decision" where
  "sample_decision i c =
     \<lparr>dec_intent = i, dec_strategy = MultiHopHybrid, dec_seed_channels = [VectorChannel],
      dec_graph_enabled = True, dec_graph_policy_intent = Some i, dec_candidate_k = 20,
      dec_graph_entry_k = 5, dec_final_k = 10, dec_apply_temporal_filter = True,
      dec_preserve_versions = False, dec_require_temporal_point = False, dec_enable_reranker = False,
      dec_force_intent_used = False, dec_temporal_source = QueryExpression,
      dec_reason_code = MultiHopExplicit, dec_required_capability = c\<rparr>"

definition sample_prepared :: "intent \<Rightarrow> capability option \<Rightarrow> nat \<Rightarrow> prepared_request" where
  "sample_prepared i c day =
     \<lparr>prep_request = \<lparr>req_query = ''q'', req_filters = no_filters, req_top_k = None, req_final_k = None,
                      req_force_intent = None, req_enable_reranker = None\<rparr>,
      prep_routing = \<lparr>rr_decision = sample_decision i c,
        rr_temporal = sample_temporal\<lparr>resolved_from := Some day, resolved_to := Some day\<rparr>,
        rr_filters = no_filters\<lparr>query_date := Some day\<rparr>\<rparr>,
      prep_context = \<lparr>ctx_references = [\<lparr>ref_mention = ''A'', ref_node_id = ''A'', ref_node_type = ''Article'',
          ref_label = ''A'', ref_document_id = ''D'', ref_method = ExactStructuralLookup,
          ref_source = CurrentMessage\<rparr>], ctx_relation_goal = None\<rparr>\<rparr>"

definition sample_hydration :: anchor_hydration where
  "sample_hydration = \<lparr>matched_anchor_ids = [''A''], hydrated_units = [sample_unit ''A'']\<rparr>"

definition sample_multi_hop :: prepared_request where
  "sample_multi_hop = sample_prepared MultiHop (Some SemanticMultiHopGraph) 30"

definition sample_run :: "retrieval_error + retrieval_context" where
  "sample_run = execute_runtime sample_runtime sample_multi_hop (Some sample_bound) None"

lemma sample_run_ok:
  "(case sample_run of Inl e \<Rightarrow> False
    | Inr ctx \<Rightarrow> map unit_id (rc_units ctx) = [''A''] \<and> length (rc_paths ctx) = 1 \<and> rc_requirement ctx \<noteq> None)"
  by code_simp

lemma sample_anchor_steps:
  "anchor_step sample_runtime sample_multi_hop = Inr (sample_hydration, False)"
  "anchor_step sample_runtime (sample_prepared Validity None 5) = Inr (sample_hydration, True)"
  by code_simp+


theorem retrieval_fails_closed_witness:
  "\<exists>ctx. sample_run = Inr ctx \<and> available (rt_inspect sample_runtime no_filters) SemanticMultiHopGraph"
proof -
  obtain ctx where run: "execute_runtime sample_runtime sample_multi_hop (Some sample_bound) None = Inr ctx"
    using sample_run_ok by (auto simp: sample_run_def split: sum.splits)
  from retrieval_fails_closed [OF run] obtain h n
    where "anchor_step sample_runtime sample_multi_hop = Inr (h, n)"
      "\<forall>c. effective_capability (rr_decision (prep_routing sample_multi_hop)) n = Some c \<longrightarrow>
         available (rt_inspect sample_runtime (rr_filters (prep_routing sample_multi_hop))) c"
    by blast
  moreover from this have "n = False" using sample_anchor_steps(1) by simp
  ultimately show ?thesis
    using run by (simp add: sample_run_def effective_capability_def sample_multi_hop_def sample_prepared_def
        sample_decision_def sample_runtime_def)
qed

theorem negative_validity_sound_witness:
  "\<not> in_force (Some 10) None (5 :: nat)
   \<and> (\<forall>us. graph_step sample_runtime (sample_prepared Validity None 5) True us = Inr empty_expansion)"
proof -
  from negative_validity_sound [OF sample_anchor_steps(2)] show ?thesis
    by (auto simp: sample_prepared_def sample_hydration_def sample_unit_def anchor_node_ids_def
        stable_unique_def)
qed


theorem requirement_backed_by_path_witness:
  "\<exists>ctx r. sample_run = Inr ctx \<and> rc_plan_execution ctx = Some r \<and> per_status r = ExecSatisfied"
proof -
  obtain ctx where run: "execute_runtime sample_runtime sample_multi_hop (Some sample_bound) None = Inr ctx"
    and req: "rc_requirement ctx \<noteq> None"
    using sample_run_ok by (auto simp: sample_run_def split: sum.splits)
  from requirement_backed_by_path [OF run req] run show ?thesis
    by (auto simp: sample_run_def)
qed

theorem evidence_eligibility_witness:
  "\<exists>e \<in> set (verify_and_build [sample_unit ''A''] [sample_path]). ev_eligible e \<and> ev_unit_id e = ''A''"
proof -
  have "py_strip (content_raw (sample_unit ''A'')) \<noteq> []" by code_simp
  then show ?thesis
    using evidence_eligibility [of "[sample_unit ''A'']" "[sample_path]"] by (auto simp: sample_unit_def)
qed

end
