(* ===== verification/Calendar.thy ===== *)
theory Calendar
  imports Ontology_Validators
begin

text \<open>
  Python's proleptic Gregorian calendar, as far as the program uses it: \<open>date(y, m, d)\<close>,
  \<open>date.isoformat\<close>, \<open>date.fromordinal\<close> by the arithmetic of the standard library, and
  \<open>calendar.monthrange\<close>. A date of the model is its ordinal, so a date is written out by converting
  the ordinal back to a year, a month and a day; the two conversions are inverse to each other.
\<close>

definition is_leap :: "int \<Rightarrow> bool" where
  "is_leap y \<longleftrightarrow> y mod 4 = 0 \<and> (y mod 100 \<noteq> 0 \<or> y mod 400 = 0)"

definition days_before_year :: "int \<Rightarrow> int" where
  "days_before_year y = (y - 1) * 365 + (y - 1) div 4 - (y - 1) div 100 + (y - 1) div 400"

definition month_days :: "int list" where
  "month_days = [31, 28, 31, 30, 31, 30, 31, 31, 30, 31, 30, 31]"

definition days_in_month :: "bool \<Rightarrow> int \<Rightarrow> int" where
  "days_in_month leap m = (if m = 2 \<and> leap then 29 else month_days ! nat (m - 1))"

definition days_before_month :: "bool \<Rightarrow> int \<Rightarrow> int" where
  "days_before_month leap m =
     sum_list (take (nat (m - 1)) month_days) + (if m > 2 \<and> leap then 1 else 0)"

definition min_year :: int where "min_year = 1"
definition max_year :: int where "max_year = 9999"

definition valid_ymd :: "int \<Rightarrow> int \<Rightarrow> int \<Rightarrow> bool" where
  "valid_ymd y m d \<longleftrightarrow>
     min_year \<le> y \<and> y \<le> max_year \<and> 1 \<le> m \<and> m \<le> 12 \<and> 1 \<le> d \<and> d \<le> days_in_month (is_leap y) m"

definition ymd_ordinal :: "int \<Rightarrow> int \<Rightarrow> int \<Rightarrow> date" where
  "ymd_ordinal y m d = days_before_year y + days_before_month (is_leap y) m + d"

text \<open>\<open>date(y, m, d)\<close> raises \<open>ValueError\<close> (here \<open>None\<close>) outside the calendar.\<close>

definition make_date :: "int \<Rightarrow> int \<Rightarrow> int \<Rightarrow> date option" where
  "make_date y m d = (if valid_ymd y m d then Some (ymd_ordinal y m d) else None)"

definition month_day :: "bool \<Rightarrow> int \<Rightarrow> int \<times> int" where
  "month_day leap n =
     (let m = (n + 50) div 32;
          p = days_before_month leap m
      in if p > n then (m - 1, n - (p - days_in_month leap (m - 1)) + 1) else (m, n - p + 1))"

definition ordinal_ymd :: "date \<Rightarrow> int \<times> int \<times> int" where
  "ordinal_ymd ordinal =
     (let n = ordinal - 1;
          n400 = n div 146097; r400 = n mod 146097;
          n100 = r400 div 36524; r100 = r400 mod 36524;
          n4 = r100 div 1461; r4 = r100 mod 1461;
          n1 = r4 div 365; r1 = r4 mod 365;
          y = n400 * 400 + 1 + n100 * 100 + n4 * 4 + n1
      in if n1 = 4 \<or> n100 = 4 then (y - 1, 12, 31)
         else (y, month_day (n1 = 3 \<and> (n4 \<noteq> 24 \<or> n100 = 3)) r1))"

definition zero_padded :: "nat \<Rightarrow> int \<Rightarrow> str" where
  "zero_padded w n = (let s = show_int n in replicate (w - length s) (CHR ''0'') @ s)"

definition isoformat :: "date \<Rightarrow> str" where
  "isoformat x =
     (case ordinal_ymd x of (y, m, d) \<Rightarrow>
        zero_padded 4 y @ ''-'' @ zero_padded 2 m @ ''-'' @ zero_padded 2 d)"

subsection \<open>The conversions are inverse\<close>

lemma month_day_inverse:
  assumes "1 \<le> m" "m \<le> 12" "1 \<le> d" "d \<le> days_in_month leap m"
  shows "month_day leap (days_before_month leap m + d - 1) = (m, d)"
    and "0 \<le> days_before_month leap m + d - 1"
    and "days_before_month leap m + d - 1 < (if leap then 366 else 365)"
    and "\<not> leap \<Longrightarrow> days_before_month leap m + d - 1 \<le> 364"
    and "days_before_month leap m + d - 1 = 365 \<Longrightarrow> m = 12 \<and> d = 31"
proof -
  let ?ok = "\<lambda>l. list_all (\<lambda>m. list_all (\<lambda>d. d \<le> days_in_month l m \<longrightarrow>
      (let n = days_before_month l m + d - 1 in
       month_day l n = (m, d) \<and> 0 \<le> n \<and> n < (if l then 366 else 365) \<and> (n = 365 \<longrightarrow> m = 12 \<and> d = 31)))
      [1..31]) [1..12]"
  have "?ok True" by code_simp
  moreover have "?ok False" by code_simp
  ultimately have "?ok leap" by (cases leap) simp_all
  moreover have "days_in_month leap m \<le> 31"
  proof -
    have "list_all (\<lambda>m. days_in_month l m \<le> 31) [1..12]" for l
      by (cases l) (simp_all only:, code_simp+)
    with assms(1,2) show ?thesis by (simp add: list_all_iff del: upto_rec_numeral)
  qed
  ultimately have "let n = days_before_month leap m + d - 1 in
       month_day leap n = (m, d) \<and> 0 \<le> n \<and> n < (if leap then 366 else 365) \<and> (n = 365 \<longrightarrow> m = 12 \<and> d = 31)"
    using assms by (simp add: list_all_iff del: upto_rec_numeral)
  then show "month_day leap (days_before_month leap m + d - 1) = (m, d)"
    and "0 \<le> days_before_month leap m + d - 1"
    and "days_before_month leap m + d - 1 < (if leap then 366 else 365)"
    and "\<not> leap \<Longrightarrow> days_before_month leap m + d - 1 \<le> 364"
    and "days_before_month leap m + d - 1 = 365 \<Longrightarrow> m = 12 \<and> d = 31"
    by (auto simp: Let_def)
qed

lemma multiple_iff:
  fixes x k q r :: int
  assumes "x = k * q + r" "1 \<le> r" "r \<le> k"
  shows "x mod k = 0 \<longleftrightarrow> r = k"
proof (cases "r = k")
  case True
  then show ?thesis using assms(1) by simp
next
  case False
  then have "x mod k = r" using assms by simp
  then show ?thesis using False assms(2) by simp
qed

text \<open>The digits of the number of whole years in the cycles of 400, 100, 4 and 1 years.\<close>

lemma year_digits:
  fixes y :: int
  defines "a \<equiv> (y - 1) div 400" and "b \<equiv> (y - 1) mod 400 div 100"
    and "c \<equiv> (y - 1) mod 100 div 4" and "e \<equiv> (y - 1) mod 4"
  shows "y = 400 * a + 100 * b + 4 * c + e + 1"
    and "0 \<le> b" "b \<le> 3" "0 \<le> c" "c \<le> 24" "0 \<le> e" "e \<le> 3"
    and "days_before_year y = 146097 * a + 36524 * b + 1461 * c + 365 * e"
    and "is_leap y \<longleftrightarrow> e = 3 \<and> (c \<noteq> 24 \<or> b = 3)"
proof -
  let ?z = "y - 1"
  have z: "?z = 400 * (?z div 400) + ?z mod 400" "?z mod 400 = 100 * (?z mod 400 div 100) + ?z mod 100"
    "?z mod 100 = 4 * (?z mod 100 div 4) + ?z mod 4"
    using mult_div_mod_eq [of 400 ?z] mult_div_mod_eq [of 100 "?z mod 400"] mult_div_mod_eq [of 4 "?z mod 100"]
    by (simp_all add: mod_mod_cancel)
  then have ye: "y = 400 * a + 100 * b + 4 * c + e + 1" unfolding a_def b_def c_def e_def by linarith
  have e: "0 \<le> e" "e \<le> 3" by (simp_all add: e_def)
  have "0 \<le> ?z mod 100" "?z mod 100 < 100" "0 \<le> ?z mod 400" "?z mod 400 < 400" by simp_all
  then have bounds: "0 \<le> b" "b \<le> 3" "0 \<le> c" "c \<le> 24"
    unfolding b_def c_def by linarith+
  show "y = 400 * a + 100 * b + 4 * c + e + 1" by (rule ye)
  show "0 \<le> b" "b \<le> 3" "0 \<le> c" "c \<le> 24" "0 \<le> e" "e \<le> 3" by (rule bounds e)+
  have d4: "?z div 4 = 100 * a + 25 * b + c"
    using ye e by (intro int_div_pos_eq [of _ _ _ e]) simp_all
  have d100: "?z div 100 = 4 * a + b"
    using ye e bounds by (intro int_div_pos_eq [of _ _ _ "4 * c + e"]) simp_all
  have d400: "?z div 400 = a"
    using ye e bounds by (intro int_div_pos_eq [of _ _ _ "100 * b + 4 * c + e"]) simp_all
  show "days_before_year y = 146097 * a + 36524 * b + 1461 * c + 365 * e"
    unfolding days_before_year_def d4 d100 d400 using ye by simp
  have "y mod 4 = 0 \<longleftrightarrow> e + 1 = 4"
    using ye e by (intro multiple_iff [of _ _ "100 * a + 25 * b + c"]) simp_all
  moreover have "y mod 100 = 0 \<longleftrightarrow> 4 * c + e + 1 = 100"
    using ye bounds e by (intro multiple_iff [of _ _ "4 * a + b"]) simp_all
  moreover have "y mod 400 = 0 \<longleftrightarrow> 100 * b + 4 * c + e + 1 = 400"
    using ye bounds e by (intro multiple_iff [of _ _ a]) simp_all
  ultimately show "is_leap y \<longleftrightarrow> e = 3 \<and> (c \<noteq> 24 \<or> b = 3)"
    unfolding is_leap_def using bounds e by auto
qed

lemma small_div_mod:
  fixes r k :: int
  assumes "0 \<le> r" "r < k"
  shows "r div k = 0" and "r mod k = r"
  using assms by simp_all

text \<open>The three ways the conversion from an ordinal can go.\<close>

lemma ordinal_ymd_digits:
  assumes n: "x - 1 = 146097 * a + (36524 * b + (1461 * c + (365 * e + r)))"
    and "0 \<le> b" "b \<le> 3" "0 \<le> c" "c \<le> 24" "0 \<le> e" "e \<le> 3" "0 \<le> r" "r < 365"
  shows "ordinal_ymd x = (400 * a + 100 * b + 4 * c + e + 1, month_day (e = 3 \<and> (c \<noteq> 24 \<or> b = 3)) r)"
proof -
  have e: "0 \<le> 365 * e + r" "365 * e + r < 1461" using assms by simp_all
  have c: "0 \<le> 1461 * c + (365 * e + r)" "1461 * c + (365 * e + r) < 36524" using assms by simp_all
  have b: "0 \<le> 36524 * b + (1461 * c + (365 * e + r))" "36524 * b + (1461 * c + (365 * e + r)) < 146097"
    using assms c by simp_all
  note small = small_div_mod [OF b] small_div_mod [OF c] small_div_mod [OF e] small_div_mod [OF assms(8,9)]
  show ?thesis
    using assms(3,7) by (simp add: ordinal_ymd_def n small Let_def)
qed

lemma ordinal_ymd_leap_end:
  assumes n: "x - 1 = 146097 * a + (36524 * b + (1461 * c + 1460))"
    and "0 \<le> b" "b \<le> 3" "0 \<le> c" "c < 24"
  shows "ordinal_ymd x = (400 * a + 100 * b + 4 * c + 4, 12, 31)"
proof -
  have c: "0 \<le> 1461 * c + 1460" "1461 * c + 1460 < 36524" using assms by simp_all
  have b: "0 \<le> 36524 * b + (1461 * c + 1460)" "36524 * b + (1461 * c + 1460) < 146097"
    using assms c by simp_all
  note small = small_div_mod [OF b] small_div_mod [OF c]
  show ?thesis
    using assms(3) by (simp add: ordinal_ymd_def n small Let_def)
qed

lemma ordinal_ymd_cycle_end:
  assumes n: "x - 1 = 146097 * a + 146096"
  shows "ordinal_ymd x = (400 * a + 400, 12, 31)"
  by (simp add: ordinal_ymd_def n Let_def)

lemma ordinal_ymd_inverse:
  assumes "valid_ymd y m d"
  shows "ordinal_ymd (ymd_ordinal y m d) = (y, m, d)"
proof -
  obtain a b c e where y: "y = 400 * a + 100 * b + 4 * c + e + 1"
    and bounds: "0 \<le> b" "b \<le> 3" "0 \<le> c" "c \<le> 24" "0 \<le> e" "e \<le> 3"
    and days: "days_before_year y = 146097 * a + 36524 * b + 1461 * c + 365 * e"
    and leap: "is_leap y \<longleftrightarrow> e = 3 \<and> (c \<noteq> 24 \<or> b = 3)"
    using year_digits [of y] by blast
  define l where "l = is_leap y"
  define r where "r = days_before_month l m + d - 1"
  define x where "x = ymd_ordinal y m d"
  note md = month_day_inverse [of m d l, folded r_def]
  have v: "1 \<le> m" "m \<le> 12" "1 \<le> d" "d \<le> days_in_month l m"
    using assms by (simp_all add: valid_ymd_def l_def)
  have r: "0 \<le> r" "r < (if l then 366 else 365)" "r = 365 \<Longrightarrow> m = 12 \<and> d = 31"
    "month_day l r = (m, d)"
    using md v by simp_all
  have n: "x - 1 = 146097 * a + (36524 * b + (1461 * c + (365 * e + r)))"
    by (simp add: x_def ymd_ordinal_def days r_def l_def)
  have "ordinal_ymd x = (y, m, d)"
  proof (cases "r = 365")
    case True
    then have l: "e = 3" "c \<noteq> 24 \<or> b = 3" "m = 12" "d = 31"
      using r leap by (auto simp: l_def split: if_splits)
    show ?thesis
    proof (cases "c = 24")
      case c: True
      then have "x - 1 = 146097 * a + 146096" using n True l by simp
      with l y c show ?thesis by (simp add: ordinal_ymd_cycle_end)
    next
      case c: False
      then have "x - 1 = 146097 * a + (36524 * b + (1461 * c + 1460))" "c < 24"
        using n True l bounds by simp_all
      from ordinal_ymd_leap_end [OF this(1) bounds(1,2,3) this(2)] y l show ?thesis by simp
    qed
  next
    case False
    then have "r < 365" using r(2) by (auto split: if_splits)
    from ordinal_ymd_digits [OF n bounds r(1) this] y r(4) leap show ?thesis by (simp add: l_def)
  qed
  then show ?thesis by (simp add: x_def)
qed

lemma isoformat_ymd:
  "valid_ymd y m d \<Longrightarrow>
     isoformat (ymd_ordinal y m d) = zero_padded 4 y @ ''-'' @ zero_padded 2 m @ ''-'' @ zero_padded 2 d"
  by (simp add: isoformat_def ordinal_ymd_inverse)

end
