(* ===== verification/Json_Text.thy ===== *)
theory Json_Text
  imports Calendar Py_Text
begin

text \<open>
  \<open>json.dumps(value, ensure_ascii=False, sort_keys=True, separators=...)\<close> on the values the program
  serialises: \<open>None\<close>, booleans, integers, strings, lists and dictionaries. A string keeps every
  character but the quotation mark, the backslash and the control characters.
\<close>

datatype json =
    JNull
  | JBool bool
  | JInt int
  | JStr str
  | JArr "json list"
  | JObj "(str \<times> json) list"

definition lower_hex :: "nat \<Rightarrow> char" where
  "lower_hex n = (if n < 10 then char_of (48 + n) else char_of (87 + n))"

definition json_char :: "char \<Rightarrow> str" where
  "json_char c =
     (if c = CHR 0x22 then [CHR 0x5C, CHR 0x22]
      else if c = CHR 0x5C then [CHR 0x5C, CHR 0x5C]
      else if c = CHR 0x0A then CHR 0x5C # ''n''
      else if c = CHR 0x0D then CHR 0x5C # ''r''
      else if c = CHR 0x09 then CHR 0x5C # ''t''
      else if c = CHR 0x08 then CHR 0x5C # ''b''
      else if c = CHR 0x0C then CHR 0x5C # ''f''
      else (let n = (of_char c :: nat) in
        if n < 32 then CHR 0x5C # ''u00'' @ [lower_hex (n div 16), lower_hex (n mod 16)] else [c]))"

definition json_string :: "str \<Rightarrow> str" where
  "json_string s = CHR 0x22 # concat (map json_char s) @ [CHR 0x22]"

fun dumps :: "str \<Rightarrow> str \<Rightarrow> json \<Rightarrow> str" where
  "dumps isep ksep JNull = ''null''"
| "dumps isep ksep (JBool b) = (if b then ''true'' else ''false'')"
| "dumps isep ksep (JInt i) = show_int i"
| "dumps isep ksep (JStr s) = json_string s"
| "dumps isep ksep (JArr vs) = ''['' @ join isep (map (dumps isep ksep) vs) @ '']''"
| "dumps isep ksep (JObj kvs) =
     ''{'' @ join isep (map (\<lambda>kv. json_string (fst kv) @ ksep @ dumps isep ksep (snd kv)) kvs) @ ''}''"

text \<open>\<open>sort_keys=True\<close>, and the two choices of separators.\<close>

definition jobj :: "(str \<times> json) list \<Rightarrow> json" where
  "jobj kvs = JObj (sort_key fst kvs)"

definition dumps_compact :: "json \<Rightarrow> str" where
  "dumps_compact = dumps '','' '':''"

definition dumps_spaced :: "json \<Rightarrow> str" where
  "dumps_spaced = dumps '', '' '': ''"

definition jstr_opt :: "str option \<Rightarrow> json" where
  "jstr_opt s = (case s of None \<Rightarrow> JNull | Some t \<Rightarrow> JStr t)"

definition jdate_opt :: "date option \<Rightarrow> json" where
  "jdate_opt d = (case d of None \<Rightarrow> JNull | Some x \<Rightarrow> JStr (isoformat x))"

definition jstrs :: "str list \<Rightarrow> json" where
  "jstrs ss = JArr (map JStr ss)"

end
