(* ===== verification/Generation_Model.thy ===== *)
theory Generation_Model
  imports Json_Text Retrieval_Context
begin

text \<open>
  The DTOs of answer generation (\<open>src/generation/models.py\<close>), its configuration
  (\<open>src/generation/config.py\<close>) and its errors (\<open>src/generation/errors.py\<close>). A pydantic model is a
  record with a \<open>make_\<dots>\<close> function for its validators. Constants such as contract versions, the
  language and the mode of a composition plan have one value each and are left out.
\<close>

subsection \<open>Errors\<close>

datatype evidence_fault =
    BadIdentifier str str
  | EmptyContent str
  | InjectionMarker str
  | NoCitationLabel str
  | NoDeepLink str
  | HierarchyIds str str
  | OutsideDocumentFilter str
  | OutsideStatusFilter str
  | PathCardinalityInvalid
  | PathWithoutRelation
  | PathRelationNotCanonical str
  | PathDisconnected str
  | PathRelationsRepeated
  | PathBlankDescription

datatype temporal_fault =
    ValidityUnlinked
  | AssertionUndeclared str
  | AssertionUnlinked
  | NoSingleDate
  | AssertionDateMismatch
  | AssertionSubjectUnknown
  | AssertionConflict

datatype generation_error =
    EvidenceContract evidence_fault
  | TopologyFault path_fault
  | BudgetTooSmall
  | HistoryTooLong
  | HistoryTooLarge
  | ContractRejected str
  | MissingKey str
  | EmptyBundleSet
  | ProviderDependency str
  | ProviderTimeout str
  | ProviderOutput str
  | BlankStatement
  | CitationNotAllowed str
  | QuoteNotVerbatim str
  | PathUnlinked
  | PathNotAllowed str
  | PathOffGoal
  | TemporalClaimRejected temporal_fault

text \<open>\<open>_GROUNDING_ERRORS\<close> and \<open>_REPAIR_PROVIDER_ERRORS\<close> of \<open>service.py\<close>.\<close>

fun grounding_error :: "generation_error \<Rightarrow> bool" where
  "grounding_error BlankStatement = True"
| "grounding_error (CitationNotAllowed i) = True"
| "grounding_error (QuoteNotVerbatim i) = True"
| "grounding_error PathUnlinked = True"
| "grounding_error (PathNotAllowed i) = True"
| "grounding_error PathOffGoal = True"
| "grounding_error (TemporalClaimRejected f) = True"
| "grounding_error _ = False"

fun provider_error :: "generation_error \<Rightarrow> bool" where
  "provider_error (ProviderDependency m) = True"
| "provider_error (ProviderTimeout m) = True"
| "provider_error (ProviderOutput m) = True"
| "provider_error _ = False"

subsection \<open>Configuration\<close>

record generation_config =
  gcf_context_max_chars :: nat
  gcf_safety_reserve_chars :: nat
  gcf_history_max_messages :: nat
  gcf_history_max_chars :: nat

definition default_generation_config :: generation_config where
  "default_generation_config =
     \<lparr>gcf_context_max_chars = 24000, gcf_safety_reserve_chars = 256, gcf_history_max_messages = 6,
      gcf_history_max_chars = 4000\<rparr>"

definition generation_config_ok :: "generation_config \<Rightarrow> bool" where
  "generation_config_ok c \<longleftrightarrow>
     1000 \<le> gcf_context_max_chars c \<and> gcf_context_max_chars c \<le> 200000
     \<and> gcf_safety_reserve_chars c \<le> 20000 \<and> gcf_history_max_messages c \<le> 20
     \<and> gcf_history_max_chars c \<le> 20000"

subsection \<open>Requests\<close>

datatype history_role = UserRole | AssistantRole

record history_message =
  hm_role :: history_role
  hm_content :: str

record composition_operand =
  co_id :: str
  co_query :: str
  co_units :: "str list"

type_synonym composition_plan = "composition_operand list"

text \<open>The pattern \<open>[A-Za-z0-9_-]+\<close>.\<close>

definition word_char :: "char \<Rightarrow> bool" where
  "word_char c \<longleftrightarrow>
     (let n = (of_char c :: nat) in
      (48 \<le> n \<and> n \<le> 57) \<or> (65 \<le> n \<and> n \<le> 90) \<or> (97 \<le> n \<and> n \<le> 122) \<or> n = 95 \<or> n = 45)"

definition label_text :: "str \<Rightarrow> bool" where
  "label_text s \<longleftrightarrow> s \<noteq> [] \<and> list_all word_char s"

definition operand_ok :: "composition_operand \<Rightarrow> bool" where
  "operand_ok opd \<longleftrightarrow>
     label_text (co_id opd) \<and> 1 \<le> py_len (co_query opd) \<and> py_len (co_query opd) \<le> 4000
     \<and> list_all (\<lambda>u. py_strip u \<noteq> []) (co_units opd) \<and> distinct (co_units opd)"

definition composition_plan_ok :: "composition_plan \<Rightarrow> bool" where
  "composition_plan_ok ops \<longleftrightarrow>
     2 \<le> length ops \<and> list_all operand_ok ops \<and> distinct (map co_id ops)"

record generation_request =
  gr_query :: str
  gr_context :: retrieval_context
  gr_history :: "history_message list"
  gr_composition :: "composition_plan option"

definition make_generation_request ::
  "str \<Rightarrow> retrieval_context \<Rightarrow> history_message list \<Rightarrow> composition_plan option
     \<Rightarrow> generation_error + generation_request" where
  "make_generation_request query context history composition =
     rbind (require (1 \<le> py_len query \<and> py_len query \<le> 4000
              \<and> list_all (\<lambda>m. hm_content m \<noteq> []) history) (ContractRejected ''request'')) (\<lambda>_.
     rbind (require (case composition of None \<Rightarrow> True | Some ops \<Rightarrow> composition_plan_ok ops)
              (ContractRejected ''composition'')) (\<lambda>_.
     rbind (require (query = rc_query context) (ContractRejected ''query'')) (\<lambda>_.
     rbind (require (case composition of None \<Rightarrow> True
              | Some ops \<Rightarrow> set (concat (map co_units ops)) \<subseteq> unit_id ` set (rc_units context))
              (ContractRejected ''evidence'')) (\<lambda>_.
       Inr \<lparr>gr_query = query, gr_context = context, gr_history = history, gr_composition = composition\<rparr>))))"

subsection \<open>Candidate answers\<close>

record statement_citation =
  sct_id :: str
  sct_quote :: str

record grounded_statement =
  gs_id :: str
  gs_text :: str
  gs_citations :: "statement_citation list"
  gs_path_ids :: "str list"
  gs_assertion_ids :: "str list"

type_synonym answer_paragraph = "grounded_statement list"

record answer_section =
  as_heading :: str
  as_paragraphs :: "answer_paragraph list"

datatype assertion_scope = ScopeUnit | ScopeDocument | ScopePilot | ScopeCorpus

record temporal_assertion =
  ta_id :: str
  ta_subject :: str
  ta_date :: date
  ta_valid :: bool
  ta_scope :: assertion_scope

record answer_candidate =
  ac_direct :: "answer_paragraph list option"
  ac_sections :: "answer_section list"
  ac_caveats :: "answer_paragraph list"
  ac_assertions :: "temporal_assertion list"
  ac_confidence :: float
  ac_cannot_answer :: bool
  ac_reason :: "str option"

definition linked_ids_ok :: "str list \<Rightarrow> bool" where
  "linked_ids_ok ids \<longleftrightarrow> list_all (\<lambda>i. py_strip i \<noteq> []) ids \<and> distinct ids"

definition statement_ok :: "grounded_statement \<Rightarrow> bool" where
  "statement_ok s \<longleftrightarrow>
     label_text (gs_id s) \<and> gs_text s \<noteq> [] \<and> gs_citations s \<noteq> []
     \<and> list_all (\<lambda>c. sct_id c \<noteq> [] \<and> sct_quote c \<noteq> []) (gs_citations s)
     \<and> distinct (map sct_id (gs_citations s))
     \<and> linked_ids_ok (gs_path_ids s) \<and> linked_ids_ok (gs_assertion_ids s)"

definition paragraph_ok :: "answer_paragraph \<Rightarrow> bool" where
  "paragraph_ok p \<longleftrightarrow> p \<noteq> [] \<and> list_all statement_ok p"

definition section_ok :: "answer_section \<Rightarrow> bool" where
  "section_ok s \<longleftrightarrow> as_heading s \<noteq> [] \<and> as_paragraphs s \<noteq> [] \<and> list_all paragraph_ok (as_paragraphs s)"

definition iter_candidate_statements :: "answer_candidate \<Rightarrow> grounded_statement list" where
  "iter_candidate_statements c =
     concat (case ac_direct c of None \<Rightarrow> [] | Some ps \<Rightarrow> ps)
     @ concat (concat (map as_paragraphs (ac_sections c)))
     @ concat (ac_caveats c)"

definition candidate_fields_ok :: "answer_candidate \<Rightarrow> bool" where
  "candidate_fields_ok c \<longleftrightarrow>
     (case ac_direct c of None \<Rightarrow> True | Some ps \<Rightarrow> ps \<noteq> [] \<and> list_all paragraph_ok ps)
     \<and> list_all section_ok (ac_sections c) \<and> list_all paragraph_ok (ac_caveats c)
     \<and> list_all (\<lambda>t. label_text (ta_id t) \<and> ta_subject t \<noteq> []) (ac_assertions c)
     \<and> 0 \<le> ac_confidence c \<and> ac_confidence c \<le> 1"

definition answer_shape_ok :: "answer_candidate \<Rightarrow> bool" where
  "answer_shape_ok c \<longleftrightarrow>
     (if ac_cannot_answer c
      then ac_direct c = None \<and> ac_sections c = [] \<and> ac_caveats c = [] \<and> ac_assertions c = []
        \<and> truthy_str (ac_reason c)
      else ac_direct c \<noteq> None \<and> ac_reason c = None
        \<and> distinct (map gs_id (iter_candidate_statements c)) \<and> distinct (map ta_id (ac_assertions c)))"

definition candidate_ok :: "answer_candidate \<Rightarrow> bool" where
  "candidate_ok c \<longleftrightarrow> candidate_fields_ok c \<and> answer_shape_ok c"

subsection \<open>Projected evidence\<close>

datatype omission_reason =
    HierarchicalDuplicate | ContentDuplicate | ContextBudgetExceeded | SupersededUnit

record omitted_evidence =
  om_unit_id :: str
  om_reason :: omission_reason
  om_retained :: "str option"

record budget_plan =
  bud_total :: nat
  bud_overhead :: nat
  bud_evidence :: nat
  bud_reserve :: nat
  bud_used :: nat

record evidence_block =
  eb_unit_id :: str
  eb_label :: str
  eb_citation_label :: str
  eb_document_id :: str
  eb_document_number :: "str option"
  eb_document_title :: "str option"
  eb_version_family_id :: "str option"
  eb_article_id :: "str option"
  eb_clause_id :: "str option"
  eb_deep_link :: str
  eb_content_raw :: str
  eb_effective_from :: "date option"
  eb_effective_to :: "date option"
  eb_legal_status :: "str option"

definition evidence_block_ok :: "evidence_block \<Rightarrow> bool" where
  "evidence_block_ok b \<longleftrightarrow>
     eb_unit_id b \<noteq> [] \<and> eb_citation_label b \<noteq> [] \<and> eb_document_id b \<noteq> [] \<and> eb_deep_link b \<noteq> []
     \<and> eb_content_raw b \<noteq> []
     \<and> eb_label b \<in> {''Document'', ''Appendix'', ''Article'', ''Clause'', ''Point''}"

record path_block =
  pb_path_id :: str
  pb_nodes :: "str list"
  pb_edges :: "graph_edge list"
  pb_description :: str

record evidence_registry =
  reg_entries :: "evidence_block list"
  reg_citation_ids :: "str list"
  reg_path_ids :: "str list"

definition make_registry ::
  "evidence_block list \<Rightarrow> str list \<Rightarrow> str list \<Rightarrow> generation_error + evidence_registry" where
  "make_registry entries citations paths =
     (if map eb_unit_id entries \<noteq> citations \<or> \<not> distinct (map eb_unit_id entries) \<or> \<not> distinct paths
      then Inl (ContractRejected ''registry'')
      else Inr \<lparr>reg_entries = entries, reg_citation_ids = citations, reg_path_ids = paths\<rparr>)"

record projected_context =
  pc_query :: str
  pc_intent :: intent
  pc_strategy :: strategy
  pc_temporal_source :: temporal_source
  pc_resolved_from :: "date option"
  pc_resolved_to :: "date option"
  pc_relation_goal :: "relation_goal option"
  pc_anchor_ids :: "str list"
  pc_composition :: "composition_plan option"
  pc_evidence :: "evidence_block list"
  pc_paths :: "path_block list"
  pc_bundle_ids :: "str list"
  pc_selected :: "str list"
  pc_omitted :: "omitted_evidence list"
  pc_budget :: budget_plan
  pc_truncated :: bool

definition projection_ok :: "projected_context \<Rightarrow> bool" where
  "projection_ok p \<longleftrightarrow>
     map eb_unit_id (pc_evidence p) = pc_selected p
     \<and> distinct (pc_selected p) \<and> distinct (pc_bundle_ids p)
     \<and> (case pc_composition p of None \<Rightarrow> True
        | Some ops \<Rightarrow> list_all (\<lambda>opd. co_units opd \<noteq> [] \<and> set (co_units opd) \<subseteq> set (pc_selected p)) ops)
     \<and> pc_truncated p = list_ex (\<lambda>om. om_reason om = ContextBudgetExceeded) (pc_omitted p)"

record provider_request =
  prq_system :: str
  prq_prompt :: str

subsection \<open>Responses\<close>

record answer_citation =
  cit_unit_id :: str
  cit_label :: str
  cit_document_id :: str
  cit_article_id :: "str option"
  cit_clause_id :: "str option"
  cit_deep_link :: str
  cit_quote :: "str option"

record answer_response =
  ans_query :: str
  ans_text :: str
  ans_direct :: "answer_paragraph list option"
  ans_sections :: "answer_section list"
  ans_caveats :: "answer_paragraph list"
  ans_citations :: "answer_citation list"
  ans_paths :: "path_block list"
  ans_notes :: "str list"
  ans_cannot_answer :: bool
  ans_reason :: "str option"
  ans_confidence :: float
  ans_provider :: "str option"
  ans_model :: "str option"
  ans_intent :: intent
  ans_strategy :: strategy

end
