(* ===== verification/Evidence_Gate.thy ===== *)
theory Evidence_Gate
  imports Generation_Model Runtime Linker_Mentions
begin

text \<open>
  The two gates in front of answer generation: the sufficiency policy by intent
  (\<open>src/generation/sufficiency.py\<close>) and the validation of the retrieval evidence
  (\<open>src/generation/evidence_validation.py\<close>), with its pattern of prompt-injection markers.
\<close>

subsection \<open>Sufficiency\<close>

definition msg_no_results :: str where
  "msg_no_results =
     ''Kh'' @ [CHR 0xC3, CHR 0xB4] @ ''ng t'' @ [CHR 0xC3, CHR 0xAC] @ ''m th'' @ [CHR 0xE1,
     CHR 0xBA, CHR 0xA5] @ ''y c'' @ [CHR 0xC4, CHR 0x83] @ ''n c'' @ [CHR 0xE1, CHR 0xBB, CHR
     0xA9] @ '' ph'' @ [CHR 0xC3, CHR 0xA1] @ ''p l'' @ [CHR 0xC3, CHR 0xBD] @ '' ph'' @ [CHR
     0xC3, CHR 0xB9] @ '' h'' @ [CHR 0xE1, CHR 0xBB, CHR 0xA3] @ ''p.''"

definition msg_no_reference_edge :: str where
  "msg_no_reference_edge =
     ''Kh'' @ [CHR 0xC3, CHR 0xB4] @ ''ng t'' @ [CHR 0xC3, CHR 0xAC] @ ''m th'' @ [CHR 0xE1,
     CHR 0xBA, CHR 0xA5] @ ''y quan h'' @ [CHR 0xE1, CHR 0xBB, CHR 0x87] @ '' ph'' @ [CHR 0xC3,
     CHR 0xA1] @ ''p l'' @ [CHR 0xC3, CHR 0xBD] @ '' '' @ [CHR 0xC4, CHR 0x91, CHR 0xC6, CHR
     0xB0, CHR 0xE1, CHR 0xBB, CHR 0xA3] @ ''c y'' @ [CHR 0xC3, CHR 0xAA] @ ''u c'' @ [CHR
     0xE1, CHR 0xBA, CHR 0xA7] @ ''u t'' @ [CHR 0xE1, CHR 0xBB, CHR 0xAB] @ '' tham chi'' @
     [CHR 0xE1, CHR 0xBA, CHR 0xBF] @ ''u '' @ [CHR 0xC4, CHR 0x91, CHR 0xC3, CHR 0xA3] @ ''
     x'' @ [CHR 0xC3, CHR 0xA1] @ ''c '' @ [CHR 0xC4, CHR 0x91, CHR 0xE1, CHR 0xBB, CHR 0x8B] @
     ''nh.''"

definition msg_missing_hierarchy :: str where
  "msg_missing_hierarchy =
     ''Ch'' @ [CHR 0xC6, CHR 0xB0] @ ''a c'' @ [CHR 0xC3, CHR 0xB3] @ '' '' @ [CHR 0xC4, CHR
     0x91, CHR 0xC6, CHR 0xB0, CHR 0xE1, CHR 0xBB, CHR 0x9D] @ ''ng d'' @ [CHR 0xE1, CHR 0xBA,
     CHR 0xAB] @ ''n c'' @ [CHR 0xE1, CHR 0xBA, CHR 0xA5] @ ''u tr'' @ [CHR 0xC3, CHR 0xBA] @
     ''c '' @ [CHR 0xC4, CHR 0x91, CHR 0xC3, CHR 0xA3] @ '' x'' @ [CHR 0xC3, CHR 0xA1] @ ''c
     minh '' @ [CHR 0xC4, CHR 0x91, CHR 0xE1, CHR 0xBB, CHR 0x83] @ '' tr'' @ [CHR 0xE1, CHR
     0xBA, CHR 0xA3] @ '' l'' @ [CHR 0xE1, CHR 0xBB, CHR 0x9D] @ ''i.''"

definition msg_multi_hop_unresolved :: str where
  "msg_multi_hop_unresolved =
     ''Ch'' @ [CHR 0xC6, CHR 0xB0] @ ''a x'' @ [CHR 0xC3, CHR 0xA1] @ ''c '' @ [CHR 0xC4, CHR
     0x91, CHR 0xE1, CHR 0xBB, CHR 0x8B] @ ''nh '' @ [CHR 0xC4, CHR 0x91, CHR 0xC6, CHR 0xB0,
     CHR 0xE1, CHR 0xBB, CHR 0xA3] @ ''c y'' @ [CHR 0xC3, CHR 0xAA] @ ''u c'' @ [CHR 0xE1, CHR
     0xBA, CHR 0xA7] @ ''u '' @ [CHR 0xC4, CHR 0x91, CHR 0xC6, CHR 0xB0, CHR 0xE1, CHR 0xBB,
     CHR 0x9D] @ ''ng d'' @ [CHR 0xE1, CHR 0xBA, CHR 0xAB] @ ''n nhi'' @ [CHR 0xE1, CHR 0xBB,
     CHR 0x81] @ ''u b'' @ [CHR 0xC6, CHR 0xB0, CHR 0xE1, CHR 0xBB, CHR 0x9B] @ ''c '' @ [CHR
     0xC4, CHR 0x91, CHR 0xC3, CHR 0xA1] @ ''ng tin c'' @ [CHR 0xE1, CHR 0xBA, CHR 0xAD] @
     ''y.''"

definition msg_plan_failed :: str where
  "msg_plan_failed =
     ''Query plan kh'' @ [CHR 0xC3, CHR 0xB4] @ ''ng t'' @ [CHR 0xC3, CHR 0xAC] @ ''m '' @ [CHR
     0xC4, CHR 0x91, CHR 0xC6, CHR 0xB0, CHR 0xE1, CHR 0xBB, CHR 0xA3] @ ''c '' @ [CHR 0xC4,
     CHR 0x91, CHR 0xC6, CHR 0xB0, CHR 0xE1, CHR 0xBB, CHR 0x9D] @ ''ng d'' @ [CHR 0xE1, CHR
     0xBA, CHR 0xAB] @ ''n graph '' @ [CHR 0xC4, CHR 0x91, CHR 0xC3, CHR 0xA1] @ ''ng tin c'' @
     [CHR 0xE1, CHR 0xBA, CHR 0xAD] @ ''y.''"

definition msg_missing_path :: str where
  "msg_missing_path =
     ''Ch'' @ [CHR 0xC6, CHR 0xB0] @ ''a c'' @ [CHR 0xC3, CHR 0xB3] @ '' '' @ [CHR 0xC4, CHR
     0x91, CHR 0xC6, CHR 0xB0, CHR 0xE1, CHR 0xBB, CHR 0x9D] @ ''ng d'' @ [CHR 0xE1, CHR 0xBA,
     CHR 0xAB] @ ''n graph '' @ [CHR 0xC4, CHR 0x91, CHR 0xE1, CHR 0xBB, CHR 0xA7] @ '' '' @
     [CHR 0xC4, CHR 0x91, CHR 0xE1, CHR 0xBB, CHR 0x83] @ '' tr'' @ [CHR 0xE1, CHR 0xBA, CHR
     0xA3] @ '' l'' @ [CHR 0xE1, CHR 0xBB, CHR 0x9D] @ ''i c'' @ [CHR 0xC3, CHR 0xA2] @ ''u h''
     @ [CHR 0xE1, CHR 0xBB, CHR 0x8F] @ ''i nhi'' @ [CHR 0xE1, CHR 0xBB, CHR 0x81] @ ''u b'' @
     [CHR 0xC6, CHR 0xB0, CHR 0xE1, CHR 0xBB, CHR 0x9B] @ ''c.''"

definition msg_missing_point :: str where
  "msg_missing_point =
     ''Ch'' @ [CHR 0xC6, CHR 0xB0] @ ''a x'' @ [CHR 0xC3, CHR 0xA1] @ ''c '' @ [CHR 0xC4, CHR
     0x91, CHR 0xE1, CHR 0xBB, CHR 0x8B] @ ''nh '' @ [CHR 0xC4, CHR 0x91, CHR 0xC6, CHR 0xB0,
     CHR 0xE1, CHR 0xBB, CHR 0xA3] @ ''c th'' @ [CHR 0xE1, CHR 0xBB, CHR 0x9D] @ ''i '' @ [CHR
     0xC4, CHR 0x91] @ ''i'' @ [CHR 0xE1, CHR 0xBB, CHR 0x83] @ ''m ph'' @ [CHR 0xC3, CHR 0xA1]
     @ ''p l'' @ [CHR 0xC3, CHR 0xBD] @ '' c'' @ [CHR 0xE1, CHR 0xBA, CHR 0xA7] @ ''n ki'' @
     [CHR 0xE1, CHR 0xBB, CHR 0x83] @ ''m tra.''"

definition msg_subject_undated :: str where
  "msg_subject_undated =
     ''Tham chi'' @ [CHR 0xE1, CHR 0xBA, CHR 0xBF] @ ''u '' @ [CHR 0xC4, CHR 0x91, CHR 0xC3,
     CHR 0xA3] @ '' x'' @ [CHR 0xC3, CHR 0xA1] @ ''c '' @ [CHR 0xC4, CHR 0x91, CHR 0xE1, CHR
     0xBB, CHR 0x8B] @ ''nh ch'' @ [CHR 0xC6, CHR 0xB0] @ ''a c'' @ [CHR 0xC3, CHR 0xB3] @ ''
     metadata th'' @ [CHR 0xE1, CHR 0xBB, CHR 0x9D] @ ''i gian '' @ [CHR 0xC4, CHR 0x91, CHR
     0xE1, CHR 0xBA, CHR 0xA7] @ ''y '' @ [CHR 0xC4, CHR 0x91, CHR 0xE1, CHR 0xBB, CHR 0xA7] @
     ''.''"

definition msg_temporal_missing :: str where
  "msg_temporal_missing =
     ''Ch'' @ [CHR 0xC6, CHR 0xB0] @ ''a c'' @ [CHR 0xC3, CHR 0xB3] @ '' metadata th'' @ [CHR
     0xE1, CHR 0xBB, CHR 0x9D] @ ''i gian ph'' @ [CHR 0xC3, CHR 0xB9] @ '' h'' @ [CHR 0xE1, CHR
     0xBB, CHR 0xA3] @ ''p cho th'' @ [CHR 0xE1, CHR 0xBB, CHR 0x9D] @ ''i '' @ [CHR 0xC4, CHR
     0x91] @ ''i'' @ [CHR 0xE1, CHR 0xBB, CHR 0x83] @ ''m '' @ [CHR 0xC4, CHR 0x91, CHR 0xC6,
     CHR 0xB0, CHR 0xE1, CHR 0xBB, CHR 0xA3] @ ''c h'' @ [CHR 0xE1, CHR 0xBB, CHR 0x8F] @
     ''i.''"

definition msg_comparison_unverified :: str where
  "msg_comparison_unverified =
     ''Ch'' @ [CHR 0xC6, CHR 0xB0] @ ''a x'' @ [CHR 0xC3, CHR 0xA1] @ ''c minh '' @ [CHR 0xC4,
     CHR 0x91, CHR 0xC6, CHR 0xB0, CHR 0xE1, CHR 0xBB, CHR 0xA3] @ ''c quan h'' @ [CHR 0xE1,
     CHR 0xBB, CHR 0x87] @ '' gi'' @ [CHR 0xE1, CHR 0xBB, CHR 0xAF] @ ''a c'' @ [CHR 0xC3, CHR
     0xA1] @ ''c phi'' @ [CHR 0xC3, CHR 0xAA] @ ''n b'' @ [CHR 0xE1, CHR 0xBA, CHR 0xA3] @ ''n
     c'' @ [CHR 0xE1, CHR 0xBA, CHR 0xA7] @ ''n so s'' @ [CHR 0xC3, CHR 0xA1] @ ''nh.''"

definition msg_no_evidence :: str where
  "msg_no_evidence =
     ''C'' @ [CHR 0xC3, CHR 0xA1] @ ''c k'' @ [CHR 0xE1, CHR 0xBA, CHR 0xBF] @ ''t qu'' @ [CHR
     0xE1, CHR 0xBA, CHR 0xA3] @ '' truy xu'' @ [CHR 0xE1, CHR 0xBA, CHR 0xA5] @ ''t ch'' @
     [CHR 0xC6, CHR 0xB0] @ ''a '' @ [CHR 0xC4, CHR 0x91, CHR 0xE1, CHR 0xBB, CHR 0xA7] @ '' ''
     @ [CHR 0xC4, CHR 0x91, CHR 0xE1, CHR 0xBB, CHR 0x83] @ '' t'' @ [CHR 0xE1, CHR 0xBA, CHR
     0xA1] @ ''o c'' @ [CHR 0xC3, CHR 0xA2] @ ''u tr'' @ [CHR 0xE1, CHR 0xBA, CHR 0xA3] @ ''
     l'' @ [CHR 0xE1, CHR 0xBB, CHR 0x9D] @ ''i c'' @ [CHR 0xC3, CHR 0xB3] @ '' c'' @ [CHR
     0xC4, CHR 0x83] @ ''n c'' @ [CHR 0xE1, CHR 0xBB, CHR 0xA9] @ ''.''"

text \<open>\<open>SufficiencyResult\<close>: the reason code and the reason of an insufficient context.\<close>

datatype sufficiency = Sufficient | Insufficient str str

fun plan_reason_value :: "plan_reason \<Rightarrow> str" where
  "plan_reason_value ReasonSatisfied = ''SATISFIED''"
| "plan_reason_value InvalidPlan = ''INVALID_PLAN''"
| "plan_reason_value OutOfScopePlanShape = ''OUT_OF_SCOPE_PLAN_SHAPE''"
| "plan_reason_value PlannerUnavailable = ''PLANNER_UNAVAILABLE''"
| "plan_reason_value PlannerTimeout = ''PLANNER_TIMEOUT''"
| "plan_reason_value UnboundAnchor = ''UNBOUND_ANCHOR''"
| "plan_reason_value AmbiguousAnchor = ''AMBIGUOUS_ANCHOR''"
| "plan_reason_value UnboundTarget = ''UNBOUND_TARGET''"
| "plan_reason_value AmbiguousTarget = ''AMBIGUOUS_TARGET''"
| "plan_reason_value NoPath = ''NO_PATH''"
| "plan_reason_value AmbiguousPath = ''AMBIGUOUS_PATH''"
| "plan_reason_value PathBudgetExceeded = ''PATH_BUDGET_EXCEEDED''"
| "plan_reason_value TemporalRejected = ''TEMPORAL_REJECTED''"
| "plan_reason_value EvidenceUnliftable = ''EVIDENCE_UNLIFTABLE''"

definition evidence_required :: "retrieval_context \<Rightarrow> sufficiency" where
  "evidence_required ctx =
     (if list_ex ev_eligible (rc_evidence ctx) then Sufficient
      else Insufficient ''NO_SUFFICIENT_EVIDENCE'' msg_no_evidence)"

definition reference_ids :: "retrieval_context \<Rightarrow> str list" where
  "reference_ids ctx = map ref_node_id (rc_references ctx)"

definition path_meets_goal :: "relation_goal \<Rightarrow> str set \<Rightarrow> graph_path \<Rightarrow> bool" where
  "path_meets_goal g anchors p \<longleftrightarrow>
     list_ex (\<lambda>e. ge_relation_type e = relation_goal_value g \<and> ge_source_id e \<in> anchors) (gp_edges p)"

definition has_relation_goal_path :: "retrieval_context \<Rightarrow> relation_goal \<Rightarrow> bool" where
  "has_relation_goal_path ctx g \<longleftrightarrow> list_ex (path_meets_goal g (set (reference_ids ctx))) (rc_paths ctx)"

definition path_has_relation :: "str list \<Rightarrow> graph_path \<Rightarrow> bool" where
  "path_has_relation rels p \<longleftrightarrow> list_ex (\<lambda>e. ge_relation_type e \<in> set rels) (gp_edges p)"

definition citable_ids :: "graph_path \<Rightarrow> str list" where
  "citable_ids p = map (\<lambda>n. the (gn_citable_unit_id n)) (filter (\<lambda>n. gn_citable_unit_id n \<noteq> None) (gp_nodes p))"

definition path_meets_requirement :: "reasoning_requirement \<Rightarrow> str set \<Rightarrow> graph_path \<Rightarrow> bool" where
  "path_meets_requirement req units p \<longleftrightarrow>
     \<not> length (gp_edges p) < minimum_edges req
     \<and> list_all (\<lambda>r. r \<in> ge_relation_type ` set (gp_edges p)) (required_relation_types req)
     \<and> \<not> (require_all_citable_intermediates req \<and> \<not> set (citable_ids p) \<subseteq> units)"

text \<open>The fingerprint of every path up to the first that meets the requirement is computed.\<close>

fun multi_hop_scan ::
  "(topology \<Rightarrow> str) \<Rightarrow> retrieval_context \<Rightarrow> str list \<Rightarrow> reasoning_requirement \<Rightarrow> graph_path list
     \<Rightarrow> generation_error + sufficiency" where
  "multi_hop_scan digest ctx fps req [] = Inr (Insufficient ''MISSING_MULTI_HOP_PATH'' msg_missing_path)"
| "multi_hop_scan digest ctx fps req (p # ps) =
     (case build_topology_path_fingerprint digest p of
        Inl f \<Rightarrow> Inl (TopologyFault f)
      | Inr fp \<Rightarrow>
          if fp \<in> set fps \<and> path_meets_requirement req (unit_id ` set (rc_units ctx)) p
          then Inr (evidence_required ctx)
          else multi_hop_scan digest ctx fps req ps)"

definition sufficient_multi_hop ::
  "(topology \<Rightarrow> str) \<Rightarrow> retrieval_context \<Rightarrow> generation_error + sufficiency" where
  "sufficient_multi_hop digest ctx =
     (case rc_plan_execution ctx of
        None \<Rightarrow> Inr (Insufficient ''MULTI_HOP_REQUIREMENT_UNRESOLVED'' msg_multi_hop_unresolved)
      | Some x \<Rightarrow>
          if per_status x \<noteq> ExecSatisfied
          then Inr (Insufficient (plan_reason_value (per_reason x)) (str_or (per_message x) msg_plan_failed))
          else (case per_requirement x of
              None \<Rightarrow> Inr (Insufficient ''MULTI_HOP_REQUIREMENT_UNRESOLVED'' msg_multi_hop_unresolved)
            | Some req \<Rightarrow> multi_hop_scan digest ctx (per_path_fingerprints x) req (rc_paths ctx)))"

definition valid_on :: "retrieved_unit \<Rightarrow> date \<Rightarrow> bool" where
  "valid_on u day \<longleftrightarrow> in_force (unit_effective_from u) (unit_effective_to u) day"

definition sufficient_validity :: "retrieval_context \<Rightarrow> sufficiency" where
  "sufficient_validity ctx =
     (case resolved_from (rc_temporal ctx) of
        None \<Rightarrow> Insufficient ''MISSING_TEMPORAL_POINT'' msg_missing_point
      | Some day \<Rightarrow>
          if resolved_to (rc_temporal ctx) \<noteq> Some day
          then Insufficient ''MISSING_TEMPORAL_POINT'' msg_missing_point
          else if reference_ids ctx \<noteq> [] then
            (if list_ex (\<lambda>i. case map_of (by_id (rc_units ctx)) i of
                  None \<Rightarrow> True | Some u \<Rightarrow> unit_effective_from u = None) (reference_ids ctx)
             then Insufficient ''MISSING_TEMPORAL_EVIDENCE'' msg_subject_undated
             else evidence_required ctx)
          else if \<not> list_ex (\<lambda>u. valid_on u day) (rc_units ctx)
          then Insufficient ''MISSING_TEMPORAL_EVIDENCE'' msg_temporal_missing
          else evidence_required ctx)"

definition family_documents :: "retrieved_unit list \<Rightarrow> (str \<times> str list) list" where
  "family_documents us =
     fold (\<lambda>u d. case version_family_id u of None \<Rightarrow> d | Some f \<Rightarrow> add_to_group f (unit_document_id u) d) us []"

definition family_verified :: "retrieved_unit list \<Rightarrow> bool" where
  "family_verified us \<longleftrightarrow> list_ex (\<lambda>(f, docs). 2 \<le> card (set docs)) (family_documents us)"

definition sufficient_comparison :: "retrieval_context \<Rightarrow> sufficiency" where
  "sufficient_comparison ctx =
     (if \<not> family_verified (rc_units ctx)
         \<and> \<not> list_ex (path_has_relation [''AMENDS'', ''REPLACES'']) (rc_paths ctx)
      then Insufficient ''COMPARISON_RELATION_UNVERIFIED'' msg_comparison_unverified
      else evidence_required ctx)"

definition evaluate_sufficiency ::
  "(topology \<Rightarrow> str) \<Rightarrow> retrieval_context \<Rightarrow> generation_error + sufficiency" where
  "evaluate_sufficiency digest ctx =
     (if \<not> rc_supported ctx \<or> rc_units ctx = [] then Inr (Insufficient ''NO_RESULTS'' msg_no_results)
      else if (case rc_relation_goal ctx of None \<Rightarrow> False | Some g \<Rightarrow> \<not> has_relation_goal_path ctx g)
      then Inr (Insufficient ''NO_REFERENCE_EDGE'' msg_no_reference_edge)
      else case rc_intent ctx of
        Factual \<Rightarrow> Inr (evidence_required ctx)
      | Definition \<Rightarrow> Inr (evidence_required ctx)
      | Hierarchy \<Rightarrow>
          Inr (if \<not> list_ex (path_has_relation [''CONTAINS'']) (rc_paths ctx)
               then Insufficient ''MISSING_HIERARCHY_PATH'' msg_missing_hierarchy
               else evidence_required ctx)
      | MultiHop \<Rightarrow> sufficient_multi_hop digest ctx
      | Validity \<Rightarrow> Inr (sufficient_validity ctx)
      | Comparison \<Rightarrow> Inr (sufficient_comparison ctx))"

subsection \<open>Prompt-injection markers\<close>

text \<open>
  \<open>re.IGNORECASE\<close> on a literal: an ASCII letter matches both of its cases, and \<open>i\<close>, \<open>s\<close> and \<open>k\<close> the
  further characters listed with the structural mentions. The pattern is an alternation of literals with
  optional parts; written out, it is the list below. A final optional letter does not change whether
  there is a match, so it is left out.
\<close>

definition ci_char :: "char \<Rightarrow> str list" where
  "ci_char c =
     (if c \<in> {CHR ''i'', CHR ''I''} then ci_i
      else if c \<in> {CHR ''s'', CHR ''S''} then ci_s
      else if c \<in> {CHR ''k'', CHR ''K''} then ci_k
      else if is_lower_ascii c then [[c], [char_of (of_char c - 32 :: nat)]]
      else if is_upper_ascii c then [[c], [char_of (of_char c + 32 :: nat)]]
      else [[c]])"

fun match_prefix :: "char_pattern \<Rightarrow> str \<Rightarrow> bool" where
  "match_prefix [] s \<longleftrightarrow> True"
| "match_prefix (alts # ps) s \<longleftrightarrow> list_ex (\<lambda>a. prefix a s \<and> match_prefix ps (drop (length a) s)) alts"

definition meta_instructions :: "str list" where
  "meta_instructions =
     concat (map (\<lambda>v. concat (map (\<lambda>q. map (\<lambda>p. v @ q @ p @ '' instruction'') [''previous'', ''above''])
       [''all '', ''the '', [] ])) [''ignore '', ''disregard ''])"

definition injection_markers :: "str list" where
  "injection_markers =
     [''BEGIN_TRUSTED_RETRIEVAL_CONTEXT'', ''END_TRUSTED_RETRIEVAL_CONTEXT'', ''BEGIN_OUTPUT_CONTRACT'',
      ''END_OUTPUT_CONTRACT'', ''BEGIN_REPAIR_FEEDBACK'', ''END_REPAIR_FEEDBACK'', ''ALLOWED_CITATION_IDS'']
     @ meta_instructions
     @ [''you are now'', ''system prompt'', ''new instruction:'', ''new instructions:'']"

definition injection_at :: "str \<Rightarrow> bool" where
  "injection_at s \<longleftrightarrow> list_ex (\<lambda>m. match_prefix (map ci_char m) s) injection_markers"

fun has_injection_marker :: "str \<Rightarrow> bool" where
  "has_injection_marker [] \<longleftrightarrow> False"
| "has_injection_marker (c # cs) \<longleftrightarrow> injection_at (c # cs) \<or> has_injection_marker cs"

subsection \<open>Evidence validation\<close>

definition alnum_char :: "char \<Rightarrow> bool" where
  "alnum_char c \<longleftrightarrow> is_digit c \<or> is_upper_ascii c \<or> is_lower_ascii c"

text \<open>\<open>_CANONICAL_ID\<close>\<close>

definition canonical_id :: "str \<Rightarrow> bool" where
  "canonical_id s \<longleftrightarrow>
     (case s of [] \<Rightarrow> False
      | c # cs \<Rightarrow> alnum_char c \<and> list_all (\<lambda>x. alnum_char x \<or> x \<in> set ''_.:-'') cs)"

definition require_canonical_id :: "str \<Rightarrow> str \<Rightarrow> generation_error + unit" where
  "require_canonical_id v field_name = require (canonical_id v) (EvidenceContract (BadIdentifier field_name v))"

definition hierarchy_consistent :: "retrieved_unit \<Rightarrow> bool" where
  "hierarchy_consistent u \<longleftrightarrow>
     (if unit_label u = ''Document''
      then \<not> (unit_document_id u \<noteq> unit_id u \<or> truthy_str (article_id u) \<or> truthy_str (clause_id u))
      else if unit_label u = ''Article''
      then \<not> (article_id u \<noteq> Some (unit_id u) \<or> clause_id u \<noteq> None)
      else if unit_label u = ''Clause''
      then \<not> (\<not> truthy_str (article_id u) \<or> clause_id u \<noteq> Some (unit_id u))
      else if unit_label u = ''Appendix'' then True
      else \<not> (\<not> truthy_str (article_id u) \<or> \<not> truthy_str (clause_id u)))"

definition validate_unit :: "filters \<Rightarrow> retrieved_unit \<Rightarrow> generation_error + retrieved_unit" where
  "validate_unit fs u =
     rbind (require_canonical_id (unit_id u) ''unit ID'') (\<lambda>_.
     rbind (require (py_strip (content_raw u) \<noteq> []) (EvidenceContract (EmptyContent (unit_id u)))) (\<lambda>_.
     rbind (require (\<not> has_injection_marker (content_raw u)) (EvidenceContract (InjectionMarker (unit_id u)))) (\<lambda>_.
     rbind (require_canonical_id (unit_document_id u) ''document ID'') (\<lambda>_.
     rbind (require (py_strip (citation_label u) \<noteq> []) (EvidenceContract (NoCitationLabel (unit_id u)))) (\<lambda>_.
     rbind (require (py_strip (deep_link u) \<noteq> []) (EvidenceContract (NoDeepLink (unit_id u)))) (\<lambda>_.
     rbind (require (hierarchy_consistent u) (EvidenceContract (HierarchyIds (unit_label u) (unit_id u)))) (\<lambda>_.
     rbind (require (document_ids fs = [] \<or> unit_document_id u \<in> set (document_ids fs))
              (EvidenceContract (OutsideDocumentFilter (unit_id u)))) (\<lambda>_.
     rbind (require (legal_statuses fs = [] \<or> unit_legal_status u \<in> Some ` set (legal_statuses fs))
              (EvidenceContract (OutsideStatusFilter (unit_id u)))) (\<lambda>_.
       Inr (u\<lparr>content_raw := py_strip (content_raw u)\<rparr>))))))))))"

fun check_path_nodes :: "graph_node list \<Rightarrow> generation_error + unit" where
  "check_path_nodes [] = Inr ()"
| "check_path_nodes (n # ns) =
     rbind (require_canonical_id (gn_node_id n) ''graph path node ID'') (\<lambda>_.
     rbind (case gn_citable_unit_id n of None \<Rightarrow> Inr () | Some i \<Rightarrow> require_canonical_id i ''citable unit ID'') (\<lambda>_.
       check_path_nodes ns))"

fun check_path_edges :: "graph_node list \<Rightarrow> graph_edge list \<Rightarrow> generation_error + unit" where
  "check_path_edges (l # r # ns) (e # es) =
     rbind (require (ge_relation_type e \<in> set relation_enum)
              (EvidenceContract (PathRelationNotCanonical (ge_relation_type e)))) (\<lambda>_.
     rbind (require_canonical_id (ge_relation_id e) ''graph path relation ID'') (\<lambda>_.
     rbind (require_canonical_id (ge_source_id e) ''graph edge source ID'') (\<lambda>_.
     rbind (require_canonical_id (ge_target_id e) ''graph edge target ID'') (\<lambda>_.
     rbind (require (connects l e r) (EvidenceContract (PathDisconnected (ge_relation_id e)))) (\<lambda>_.
       check_path_edges (r # ns) es)))))"
| "check_path_edges ns es = Inr ()"

definition validate_path :: "graph_path \<Rightarrow> generation_error + graph_path" where
  "validate_path p =
     rbind (require (length (gp_nodes p) = length (gp_edges p) + 1) (EvidenceContract PathCardinalityInvalid)) (\<lambda>_.
     rbind (require (gp_edges p \<noteq> []) (EvidenceContract PathWithoutRelation)) (\<lambda>_.
     rbind (check_path_nodes (gp_nodes p)) (\<lambda>_.
     rbind (check_path_edges (gp_nodes p) (gp_edges p)) (\<lambda>_.
     rbind (require (distinct (map ge_relation_id (gp_edges p))) (EvidenceContract PathRelationsRepeated)) (\<lambda>_.
     rbind (require (py_strip (gp_description p) \<noteq> []) (EvidenceContract PathBlankDescription)) (\<lambda>_.
       Inr p))))))"

record evidence_candidate =
  ec_unit :: retrieved_unit
  ec_rank :: nat
  ec_eligible :: bool

record validated_path =
  vp_path :: graph_path
  vp_id :: str
  vp_rank :: nat

record validated_evidence =
  ve_candidates :: "evidence_candidate list"
  ve_paths :: "validated_path list"

definition validate_candidate ::
  "filters \<Rightarrow> str set \<Rightarrow> nat \<times> retrieved_unit \<Rightarrow> generation_error + evidence_candidate" where
  "validate_candidate fs eligible ru =
     (case ru of (rank, u) \<Rightarrow>
        rbind (validate_unit fs u) (\<lambda>v.
          Inr \<lparr>ec_unit = v, ec_rank = rank, ec_eligible = (unit_id u \<in> eligible)\<rparr>))"

definition validate_ranked_path ::
  "(topology \<Rightarrow> str) \<Rightarrow> nat \<times> graph_path \<Rightarrow> generation_error + validated_path" where
  "validate_ranked_path digest rp =
     (case rp of (rank, p) \<Rightarrow>
        rbind (validate_path p) (\<lambda>q.
          case build_topology_path_fingerprint digest p of
            Inl f \<Rightarrow> Inl (TopologyFault f)
          | Inr fp \<Rightarrow> Inr \<lparr>vp_path = q, vp_id = fp, vp_rank = rank\<rparr>))"

definition validate_evidence ::
  "(topology \<Rightarrow> str) \<Rightarrow> retrieval_context \<Rightarrow> generation_error + validated_evidence" where
  "validate_evidence digest ctx =
     (let eligible = ev_unit_id ` set (filter ev_eligible (rc_evidence ctx)) in
      rbind (rmapm (validate_candidate (rc_filters_applied ctx) eligible) (enumerate 0 (rc_units ctx))) (\<lambda>cs.
      rbind (rmapm (validate_ranked_path digest) (enumerate 0 (rc_paths ctx))) (\<lambda>ps.
        Inr \<lparr>ve_candidates = cs, ve_paths = ps\<rparr>)))"

end
