(* ===== verification/Evidence_Compaction.thy ===== *)
theory Evidence_Compaction
  imports Evidence_Gate
begin

text \<open>
  Structural compaction (\<open>src/generation/evidence_compaction.py\<close>): which evidence and which paths may
  support an answer, removal of duplicates, and the alternative sets of bundles of which the projected
  context must carry one. The hash of a bundle and \<open>str.casefold\<close> are the arguments \<open>bundle_digest\<close> and
  \<open>casefold\<close>.
\<close>

record bundle_content =
  bc_intent :: intent
  bc_unit_ids :: "str list"
  bc_path_ids :: "str list"
  bc_temporal_subjects :: "str list"
  bc_version_keys :: "str list"
  bc_operand :: "str option"

record evidence_bundle =
  bn_id :: str
  bn_content :: bundle_content
  bn_source_rank :: nat

record compaction_plan =
  cp_candidates :: "evidence_candidate list"
  cp_paths :: "validated_path list"
  cp_authoritative :: "str list"
  cp_required :: "evidence_bundle list list"
  cp_omitted :: "omitted_evidence list"
  cp_composition :: "composition_plan option"

type_synonym bundle_digest = "bundle_content \<Rightarrow> str"

subsection \<open>Bundles\<close>

abbreviation ec_id :: "evidence_candidate \<Rightarrow> str" where
  "ec_id c \<equiv> unit_id (ec_unit c)"

text \<open>The candidates of a bundle are never empty: \<open>min\<close> has an argument.\<close>

definition make_bundle ::
  "bundle_digest \<Rightarrow> intent \<Rightarrow> evidence_candidate list \<Rightarrow> validated_path list \<Rightarrow> str list \<Rightarrow> str list
     \<Rightarrow> str option \<Rightarrow> evidence_bundle" where
  "make_bundle digest i cs ps subjects versions operand =
     (let content = \<lparr>bc_intent = i, bc_unit_ids = stable_unique (map ec_id cs),
            bc_path_ids = stable_unique (map vp_id ps), bc_temporal_subjects = subjects,
            bc_version_keys = versions, bc_operand = operand\<rparr>
      in \<lparr>bn_id = ''bundle_'' @ digest content, bn_content = content,
          bn_source_rank = Min (set (map ec_rank cs))\<rparr>)"

definition candidates_by_id :: "evidence_candidate list \<Rightarrow> (str \<times> evidence_candidate) list" where
  "candidates_by_id cs = fold (\<lambda>c d. AList.update (ec_id c) c d) cs []"

definition path_citable_ids :: "validated_path \<Rightarrow> str list" where
  "path_citable_ids p = stable_unique (citable_ids (vp_path p))"

definition known_candidates :: "(str \<times> evidence_candidate) list \<Rightarrow> str list \<Rightarrow> evidence_candidate list" where
  "known_candidates d ids = map (\<lambda>i. the (map_of d i)) (filter (\<lambda>i. map_of d i \<noteq> None) ids)"

definition all_known :: "(str \<times> evidence_candidate) list \<Rightarrow> str list \<Rightarrow> bool" where
  "all_known d ids \<longleftrightarrow> list_all (\<lambda>i. map_of d i \<noteq> None) ids"

subsection \<open>Authoritative paths and duplicates\<close>

definition authoritative_paths ::
  "retrieval_context \<Rightarrow> validated_path list \<Rightarrow> validated_path list \<times> str list" where
  "authoritative_paths ctx ps =
     (if rc_intent ctx \<noteq> MultiHop then (ps, [])
      else case rc_plan_execution ctx of
        None \<Rightarrow> ([], [])
      | Some x \<Rightarrow> (filter (\<lambda>p. vp_id p \<in> set (per_path_fingerprints x)) ps, per_path_fingerprints x))"

text \<open>\<open>re.sub(r"\s+", " ", value)\<close>\<close>

function collapse :: "str \<Rightarrow> str" where
  "collapse s =
     (case s of [] \<Rightarrow> []
      | c # cs \<Rightarrow> if ws_at s = 0 then c # collapse cs else CHR '' '' # collapse (lstrip s))"
  by pat_completeness auto
termination
proof (relation "measure length", goal_cases)
  case (3 s c cs)
  have "length (lstrip t) \<le> length t" for t
    by (induction t rule: lstrip.induct) (metis diff_le_self dual_order.trans length_drop lstrip.simps order_refl)
  then have "length (lstrip (drop (ws_at s) s)) \<le> length (drop (ws_at s) s)" .
  with 3 show ?case by (simp add: lstrip.simps [of "c # cs"])
qed auto

declare collapse.simps [simp del]

definition normalize_content :: "(str \<Rightarrow> str) \<Rightarrow> str \<Rightarrow> str" where
  "normalize_content casefold v = casefold (py_strip (collapse v))"

type_synonym content_key = "str \<times> str option \<times> str"

definition content_key_of :: "(str \<Rightarrow> str) \<Rightarrow> evidence_candidate \<Rightarrow> content_key" where
  "content_key_of casefold c =
     (unit_document_id (ec_unit c), version_family_id (ec_unit c), normalize_content casefold (content_raw (ec_unit c)))"

definition same_legal_branch :: "evidence_candidate \<Rightarrow> evidence_candidate \<Rightarrow> bool" where
  "same_legal_branch l r \<longleftrightarrow>
     article_id (ec_unit l) = article_id (ec_unit r)
     \<and> (clause_id (ec_unit l) = clause_id (ec_unit r) \<or> clause_id (ec_unit l) = None
        \<or> clause_id (ec_unit r) = None)"

definition omission_of :: "evidence_candidate \<Rightarrow> evidence_candidate \<Rightarrow> omitted_evidence" where
  "omission_of existing c =
     \<lparr>om_unit_id = ec_id c,
      om_reason = (if same_legal_branch existing c then HierarchicalDuplicate else ContentDuplicate),
      om_retained = Some (ec_id existing)\<rparr>"

fun dedup_scan ::
  "(str \<Rightarrow> str) \<Rightarrow> str set \<Rightarrow> evidence_candidate list \<Rightarrow> (content_key \<times> evidence_candidate) list
     \<Rightarrow> evidence_candidate list \<times> omitted_evidence list" where
  "dedup_scan casefold protected [] seen = ([], [])"
| "dedup_scan casefold protected (c # cs) seen =
     (if ec_id c \<in> protected
      then (case dedup_scan casefold protected cs seen of (ks, os) \<Rightarrow> (c # ks, os))
      else case map_of seen (content_key_of casefold c) of
        Some e \<Rightarrow> (case dedup_scan casefold protected cs seen of (ks, os) \<Rightarrow> (ks, omission_of e c # os))
      | None \<Rightarrow>
          (case dedup_scan casefold protected cs (AList.update (content_key_of casefold c) c seen) of
             (ks, os) \<Rightarrow> (c # ks, os)))"

definition candidate_order :: "evidence_candidate \<Rightarrow> nat \<times> str" where
  "candidate_order c = (ec_rank c, ec_id c)"

definition deduplicate ::
  "(str \<Rightarrow> str) \<Rightarrow> str set \<Rightarrow> evidence_candidate list \<Rightarrow> evidence_candidate list \<times> omitted_evidence list" where
  "deduplicate casefold protected cs = dedup_scan casefold protected (sort_key candidate_order cs) []"

definition normalize_composition ::
  "composition_plan option \<Rightarrow> omitted_evidence list \<Rightarrow> composition_plan option" where
  "normalize_composition plan omissions =
     (case plan of None \<Rightarrow> None
      | Some ops \<Rightarrow>
          let replacements = fold (\<lambda>om d. case om_retained om of None \<Rightarrow> d
                | Some r \<Rightarrow> AList.update (om_unit_id om) r d) omissions [];
              replace = (\<lambda>i. case map_of replacements i of None \<Rightarrow> i | Some r \<Rightarrow> r)
          in Some (map (\<lambda>opd. opd\<lparr>co_units := stable_unique (map replace (co_units opd))\<rparr>) ops))"

subsection \<open>Required bundles by intent\<close>

fun composition_bundles ::
  "bundle_digest \<Rightarrow> intent \<Rightarrow> (str \<times> evidence_candidate) list \<Rightarrow> composition_operand list
     \<Rightarrow> evidence_bundle list option" where
  "composition_bundles digest i d [] = Some []"
| "composition_bundles digest i d (opd # ops) =
     (case filter ec_eligible (known_candidates d (co_units opd)) of
        [] \<Rightarrow> None
      | c # _ \<Rightarrow>
          (case composition_bundles digest i d ops of None \<Rightarrow> None
           | Some bs \<Rightarrow> Some (make_bundle digest i [c] [] [] [] (Some (co_id opd)) # bs)))"

definition path_bundle ::
  "bundle_digest \<Rightarrow> intent \<Rightarrow> (str \<times> evidence_candidate) list \<Rightarrow> validated_path \<Rightarrow> evidence_bundle list" where
  "path_bundle digest i d p = [make_bundle digest i (known_candidates d (path_citable_ids p)) [p] [] [] None]"

definition relation_goal_bundles ::
  "bundle_digest \<Rightarrow> retrieval_context \<Rightarrow> relation_goal \<Rightarrow> evidence_candidate list \<Rightarrow> validated_path list
     \<Rightarrow> evidence_bundle list list" where
  "relation_goal_bundles digest ctx g cs ps =
     (let d = candidates_by_id cs in
      map (path_bundle digest (rc_intent ctx) d)
        (filter (\<lambda>p. path_meets_goal g (set (reference_ids ctx)) (vp_path p)
             \<and> \<not> (length (path_citable_ids p) < 2 \<or> \<not> all_known d (path_citable_ids p))) ps))"

definition structural_bundles ::
  "bundle_digest \<Rightarrow> intent \<Rightarrow> evidence_candidate list \<Rightarrow> validated_path list \<Rightarrow> evidence_bundle list list" where
  "structural_bundles digest i cs ps =
     (let d = candidates_by_id cs in
      map (path_bundle digest i d)
        (filter (\<lambda>p. (i = Hierarchy \<longrightarrow> path_has_relation [''CONTAINS''] (vp_path p))
             \<and> all_known d (path_citable_ids p) \<and> \<not> length (path_citable_ids p) < 2) ps))"

definition validity_subject :: "date \<Rightarrow> str list \<Rightarrow> evidence_candidate \<Rightarrow> bool" where
  "validity_subject day subjects c \<longleftrightarrow>
     ec_eligible c
     \<and> (if subjects \<noteq> [] then ec_id c \<in> set subjects \<and> unit_effective_from (ec_unit c) \<noteq> None
        else valid_on (ec_unit c) day)"

definition validity_bundles ::
  "bundle_digest \<Rightarrow> retrieval_context \<Rightarrow> evidence_candidate list \<Rightarrow> evidence_bundle list list" where
  "validity_bundles digest ctx cs =
     (case resolved_from (rc_temporal ctx) of None \<Rightarrow> []
      | Some day \<Rightarrow>
          map (\<lambda>c. [make_bundle digest Validity [c] [] [ec_id c] [] None])
            (filter (validity_subject day (reference_ids ctx)) cs))"

definition versions_by_key :: "evidence_candidate list \<Rightarrow> ((str \<times> str) \<times> evidence_candidate) list" where
  "versions_by_key cs =
     fold (\<lambda>c d. case version_family_id (ec_unit c) of None \<Rightarrow> d
       | Some f \<Rightarrow> setdefault (f, unit_document_id (ec_unit c)) c d) cs []"

definition version_families :: "evidence_candidate list \<Rightarrow> (str \<times> evidence_candidate list) list" where
  "version_families cs =
     sort_key fst (fold (\<lambda>((f, doc), c) d. add_to_group f c d) (versions_by_key cs) [])"

definition family_bundle ::
  "bundle_digest \<Rightarrow> str \<times> evidence_candidate list \<Rightarrow> evidence_bundle list" where
  "family_bundle digest fam =
     map (\<lambda>c. make_bundle digest Comparison [c] [] [] [fst fam @ ''|'' @ unit_document_id (ec_unit c)] None)
       (sort_key candidate_order (snd fam))"

definition comparison_bundles ::
  "bundle_digest \<Rightarrow> evidence_candidate list \<Rightarrow> validated_path list \<Rightarrow> evidence_bundle list list" where
  "comparison_bundles digest cs ps =
     (let d = candidates_by_id cs in
      map (family_bundle digest) (filter (\<lambda>fam. \<not> length (snd fam) < 2) (version_families cs))
      @ map (path_bundle digest Comparison d)
          (filter (\<lambda>p. path_has_relation [''AMENDS'', ''REPLACES''] (vp_path p)
               \<and> 2 \<le> length (known_candidates d (path_citable_ids p))) ps))"

definition required_bundles ::
  "bundle_digest \<Rightarrow> retrieval_context \<Rightarrow> evidence_candidate list \<Rightarrow> validated_path list
     \<Rightarrow> composition_plan option \<Rightarrow> evidence_bundle list list" where
  "required_bundles digest ctx cs ps composition =
     (case composition of
        Some ops \<Rightarrow>
          (case composition_bundles digest (rc_intent ctx) (candidates_by_id cs) ops of
             None \<Rightarrow> [] | Some bs \<Rightarrow> [bs])
      | None \<Rightarrow>
          (case rc_relation_goal ctx of
             Some g \<Rightarrow> relation_goal_bundles digest ctx g cs ps
           | None \<Rightarrow>
               (case rc_intent ctx of
                  Factual \<Rightarrow> map (\<lambda>c. [make_bundle digest Factual [c] [] [] [] None]) (filter ec_eligible cs)
                | Definition \<Rightarrow> map (\<lambda>c. [make_bundle digest Definition [c] [] [] [] None]) (filter ec_eligible cs)
                | Hierarchy \<Rightarrow> structural_bundles digest Hierarchy cs ps
                | MultiHop \<Rightarrow> structural_bundles digest MultiHop cs ps
                | Validity \<Rightarrow> validity_bundles digest ctx cs
                | Comparison \<Rightarrow> comparison_bundles digest cs ps)))"

definition source_candidates ::
  "retrieval_context \<Rightarrow> str set \<Rightarrow> composition_plan option \<Rightarrow> evidence_candidate list
     \<Rightarrow> evidence_candidate list" where
  "source_candidates ctx protected composition cs =
     (case composition of
        Some ops \<Rightarrow> filter (\<lambda>c. ec_id c \<in> set (concat (map co_units ops))) cs
      | None \<Rightarrow> if rc_intent ctx = MultiHop then filter (\<lambda>c. ec_id c \<in> protected) cs else cs)"

definition compact ::
  "(str \<Rightarrow> str) \<Rightarrow> bundle_digest \<Rightarrow> retrieval_context \<Rightarrow> validated_evidence \<Rightarrow> composition_plan option
     \<Rightarrow> compaction_plan" where
  "compact casefold digest ctx ve composition =
     (case authoritative_paths ctx (ve_paths ve) of (paths, authoritative) \<Rightarrow>
        let protected = set (concat (map (\<lambda>p. citable_ids (vp_path p)) paths)) in
        case deduplicate casefold protected (source_candidates ctx protected composition (ve_candidates ve)) of
          (cs, omissions) \<Rightarrow>
            let normalized = normalize_composition composition omissions in
            \<lparr>cp_candidates = cs, cp_paths = paths, cp_authoritative = authoritative,
             cp_required = required_bundles digest ctx cs paths normalized,
             cp_omitted = omissions, cp_composition = normalized\<rparr>)"

end
