(* ===== verification/Grounding.thy ===== *)
theory Grounding
  imports Context_Projection
begin

text \<open>
  Rendering (\<open>src/generation/renderer.py\<close>) and grounding (\<open>src/generation/grounding.py\<close>): every statement
  of a candidate answer is checked against the registry of evidence, the projected paths and the validity
  intervals before the trusted text is rendered. Unicode NFC normalisation is the argument \<open>nfc\<close>.
\<close>

subsection \<open>Rendering\<close>

definition markdown_special :: "char list" where
  "markdown_special = [CHR 0x5C, CHR 0x60] @ ''*_<>{}[]#''"

definition escape_markdown :: "str \<Rightarrow> str" where
  "escape_markdown s = concat (map (\<lambda>c. if c \<in> set markdown_special then [CHR 0x5C, c] else [c]) s)"

text \<open>\<open>citation_ordinals[id]\<close> raises \<open>KeyError\<close>, here \<open>None\<close>, for an identifier without an ordinal.\<close>

fun render_citations :: "(str \<times> nat) list \<Rightarrow> statement_citation list \<Rightarrow> str option" where
  "render_citations ord [] = Some []"
| "render_citations ord (c # cs) =
     (case map_of ord (sct_id c) of None \<Rightarrow> None
      | Some n \<Rightarrow> map_option (\<lambda>rest. ''['' @ show_int (int n) @ '']'' @ rest) (render_citations ord cs))"

definition render_statement :: "(str \<times> nat) list \<Rightarrow> grounded_statement \<Rightarrow> str option" where
  "render_statement ord s =
     map_option (\<lambda>cs. escape_markdown (py_strip (gs_text s)) @ '' '' @ cs) (render_citations ord (gs_citations s))"

fun collect_some :: "('a \<Rightarrow> 'b option) \<Rightarrow> 'a list \<Rightarrow> 'b list option" where
  "collect_some f [] = Some []"
| "collect_some f (x # xs) =
     (case f x of None \<Rightarrow> None | Some y \<Rightarrow> map_option (Cons y) (collect_some f xs))"

definition render_paragraph :: "(str \<times> nat) list \<Rightarrow> answer_paragraph \<Rightarrow> str option" where
  "render_paragraph ord p = map_option (join '' '') (collect_some (render_statement ord) p)"

definition render_section :: "(str \<times> nat) list \<Rightarrow> answer_section \<Rightarrow> str list option" where
  "render_section ord s =
     map_option (Cons (''## '' @ escape_markdown (py_strip (as_heading s))))
       (collect_some (render_paragraph ord) (as_paragraphs s))"

definition caveat_heading :: str where
  "caveat_heading =
     ''## L'' @ [CHR 0xC6, CHR 0xB0] @ ''u '' @ [CHR 0xC3, CHR 0xBD]"

definition render_candidate :: "answer_candidate \<Rightarrow> (str \<times> nat) list \<Rightarrow> str option" where
  "render_candidate c ord =
     (case collect_some (render_paragraph ord) (case ac_direct c of None \<Rightarrow> [] | Some ps \<Rightarrow> ps) of
        None \<Rightarrow> None
      | Some direct \<Rightarrow>
          (case collect_some (render_section ord) (ac_sections c) of
             None \<Rightarrow> None
           | Some sections \<Rightarrow>
               (case collect_some (render_paragraph ord) (ac_caveats c) of
                  None \<Rightarrow> None
                | Some caveats \<Rightarrow>
                    Some (join (newline @ newline)
                      (direct @ concat sections
                       @ (if ac_caveats c \<noteq> [] then caveat_heading # caveats else []))))))"

subsection \<open>Citations\<close>

definition normalize_for_match :: "(str \<Rightarrow> str) \<Rightarrow> str \<Rightarrow> str" where
  "normalize_for_match nfc v = py_strip (collapse (nfc v))"

definition verbatim_quote :: "(str \<Rightarrow> str) \<Rightarrow> str \<Rightarrow> str \<Rightarrow> bool" where
  "verbatim_quote nfc quoted content \<longleftrightarrow> sublist (normalize_for_match nfc quoted) (normalize_for_match nfc content)"

definition entries_by_id :: "evidence_block list \<Rightarrow> (str \<times> evidence_block) list" where
  "entries_by_id es = fold (\<lambda>e d. AList.update (eb_unit_id e) e d) es []"

text \<open>The dictionary of first quotes, whose keys are the order of the citations.\<close>

fun check_citations ::
  "(str \<Rightarrow> str) \<Rightarrow> (str \<times> evidence_block) list \<Rightarrow> statement_citation list \<Rightarrow> (str \<times> str) list
     \<Rightarrow> generation_error + (str \<times> str) list" where
  "check_citations nfc ed [] quotes = Inr quotes"
| "check_citations nfc ed (c # cs) quotes =
     (case map_of ed (sct_id c) of
        None \<Rightarrow> Inl (CitationNotAllowed (sct_id c))
      | Some e \<Rightarrow>
          if \<not> verbatim_quote nfc (sct_quote c) (eb_content_raw e) then Inl (QuoteNotVerbatim (sct_id c))
          else check_citations nfc ed cs (setdefault (sct_id c) (sct_quote c) quotes))"

fun check_statements ::
  "(str \<Rightarrow> str) \<Rightarrow> (str \<times> evidence_block) list \<Rightarrow> grounded_statement list \<Rightarrow> (str \<times> str) list
     \<Rightarrow> generation_error + (str \<times> str) list" where
  "check_statements nfc ed [] quotes = Inr quotes"
| "check_statements nfc ed (s # ss) quotes =
     (if py_strip (gs_text s) = [] then Inl BlankStatement
      else rbind (check_citations nfc ed (gs_citations s) quotes) (\<lambda>q. check_statements nfc ed ss q))"

subsection \<open>Reasoning paths\<close>

definition block_meets_goal :: "relation_goal \<Rightarrow> str list \<Rightarrow> path_block \<Rightarrow> bool" where
  "block_meets_goal g anchors p \<longleftrightarrow>
     list_ex (\<lambda>e. ge_relation_type e = relation_goal_value g \<and> ge_source_id e \<in> set anchors) (pb_edges p)"

definition allowed_paths :: "projected_context \<Rightarrow> evidence_registry \<Rightarrow> (str \<times> path_block) list" where
  "allowed_paths p reg =
     fold (\<lambda>b d. AList.update (pb_path_id b) b d) (filter (\<lambda>b. pb_path_id b \<in> set (reg_path_ids reg)) (pc_paths p)) []"

definition check_path :: "projected_context \<Rightarrow> (str \<times> path_block) list \<Rightarrow> str \<Rightarrow> generation_error + path_block" where
  "check_path p allowed i =
     (case map_of allowed i of
        None \<Rightarrow> Inl (PathNotAllowed i)
      | Some b \<Rightarrow>
          if (case pc_relation_goal p of None \<Rightarrow> False | Some g \<Rightarrow> \<not> block_meets_goal g (pc_anchor_ids p) b)
          then Inl PathOffGoal else Inr b)"

definition check_paths ::
  "projected_context \<Rightarrow> evidence_registry \<Rightarrow> grounded_statement list \<Rightarrow> generation_error + path_block list" where
  "check_paths p reg statements =
     (let order = stable_unique (concat (map gs_path_ids statements)) in
      if pc_relation_goal p \<noteq> None \<and> order = [] then Inl PathUnlinked
      else rmapm (check_path p (allowed_paths p reg)) order)"

subsection \<open>Temporal assertions\<close>

definition note_scope :: str where
  "note_scope =
     ''Theo ph'' @ [CHR 0xE1, CHR 0xBA, CHR 0xA1] @ ''m vi d'' @ [CHR 0xE1, CHR 0xBB, CHR 0xAF]
     @ '' li'' @ [CHR 0xE1, CHR 0xBB, CHR 0x87] @ ''u truy xu'' @ [CHR 0xE1, CHR 0xBA, CHR
     0xA5] @ ''t, ''"

definition note_valid :: str where
  "note_valid =
     ''c'' @ [CHR 0xC3, CHR 0xB3] @ '' hi'' @ [CHR 0xE1, CHR 0xBB, CHR 0x87] @ ''u l'' @ [CHR
     0xE1, CHR 0xBB, CHR 0xB1] @ ''c''"

definition note_invalid :: str where
  "note_invalid =
     ''kh'' @ [CHR 0xC3, CHR 0xB4] @ ''ng c'' @ [CHR 0xC3, CHR 0xB3] @ '' hi'' @ [CHR 0xE1, CHR
     0xBB, CHR 0x87] @ ''u l'' @ [CHR 0xE1, CHR 0xBB, CHR 0xB1] @ ''c''"

definition note_on :: str where
  "note_on =
     '' t'' @ [CHR 0xE1, CHR 0xBA, CHR 0xA1] @ ''i ng'' @ [CHR 0xC3, CHR 0xA0] @ ''y ''"

definition temporal_note :: "evidence_block \<Rightarrow> bool \<Rightarrow> date \<Rightarrow> str" where
  "temporal_note e valid day =
     note_scope @ eb_citation_label e @ '' '' @ (if valid then note_valid else note_invalid)
     @ note_on @ isoformat day @ ''.''"

definition validate_temporal ::
  "projected_context \<Rightarrow> (str \<times> evidence_block) list \<Rightarrow> temporal_assertion \<Rightarrow> generation_error + str" where
  "validate_temporal p ed t =
     (if pc_resolved_from p = None \<or> pc_resolved_to p \<noteq> pc_resolved_from p
      then Inl (TemporalClaimRejected NoSingleDate)
      else if Some (ta_date t) \<noteq> pc_resolved_from p then Inl (TemporalClaimRejected AssertionDateMismatch)
      else case map_of ed (ta_subject t) of
        None \<Rightarrow> Inl (TemporalClaimRejected AssertionSubjectUnknown)
      | Some e \<Rightarrow>
          let valid = in_force (eb_effective_from e) (eb_effective_to e) (ta_date t) in
          if ta_valid t \<noteq> valid then Inl (TemporalClaimRejected AssertionConflict)
          else Inr (temporal_note e valid (ta_date t)))"

definition assertions_by_id :: "temporal_assertion list \<Rightarrow> (str \<times> temporal_assertion) list" where
  "assertions_by_id ts = fold (\<lambda>t d. AList.update (ta_id t) t d) ts []"

definition check_assertions ::
  "projected_context \<Rightarrow> (str \<times> evidence_block) list \<Rightarrow> temporal_assertion list \<Rightarrow> grounded_statement list
     \<Rightarrow> generation_error + str list" where
  "check_assertions p ed assertions statements =
     (let declared = assertions_by_id assertions;
          order = stable_unique (concat (map gs_assertion_ids statements))
      in if pc_intent p = Validity \<and> order = [] then Inl (TemporalClaimRejected ValidityUnlinked)
      else case find (\<lambda>i. map_of declared i = None) order of
        Some i \<Rightarrow> Inl (TemporalClaimRejected (AssertionUndeclared i))
      | None \<Rightarrow>
          if fst ` set declared \<noteq> set order then Inl (TemporalClaimRejected AssertionUnlinked)
          else rmapm (\<lambda>i. validate_temporal p ed (the (map_of declared i))) order)"

subsection \<open>The validator\<close>

definition citation_of :: "(str \<times> evidence_block) list \<Rightarrow> str \<times> str \<Rightarrow> answer_citation" where
  "citation_of ed iq =
     (let e = the (map_of ed (fst iq)) in
      \<lparr>cit_unit_id = eb_unit_id e, cit_label = eb_citation_label e, cit_document_id = eb_document_id e,
       cit_article_id = eb_article_id e, cit_clause_id = eb_clause_id e, cit_deep_link = eb_deep_link e,
       cit_quote = Some (snd iq)\<rparr>)"

definition msg_cannot_answer :: str where
  "msg_cannot_answer =
     ''Kh'' @ [CHR 0xC3, CHR 0xB4] @ ''ng '' @ [CHR 0xC4, CHR 0x91, CHR 0xE1, CHR 0xBB, CHR
     0xA7] @ '' c'' @ [CHR 0xC4, CHR 0x83] @ ''n c'' @ [CHR 0xE1, CHR 0xBB, CHR 0xA9] @ ''
     trong d'' @ [CHR 0xE1, CHR 0xBB, CHR 0xAF] @ '' li'' @ [CHR 0xE1, CHR 0xBB, CHR 0x87] @
     ''u truy xu'' @ [CHR 0xE1, CHR 0xBA, CHR 0xA5] @ ''t '' @ [CHR 0xC4, CHR 0x91, CHR 0xE1,
     CHR 0xBB, CHR 0x83] @ '' tr'' @ [CHR 0xE1, CHR 0xBA, CHR 0xA3] @ '' l'' @ [CHR 0xE1, CHR
     0xBB, CHR 0x9D] @ ''i ch'' @ [CHR 0xE1, CHR 0xBA, CHR 0xAF] @ ''c ch'' @ [CHR 0xE1, CHR
     0xBA, CHR 0xAF] @ ''n.''"

definition declined_answer ::
  "answer_candidate \<Rightarrow> projected_context \<Rightarrow> str \<Rightarrow> str \<Rightarrow> answer_response" where
  "declined_answer c p provider_name model_name =
     \<lparr>ans_query = pc_query p, ans_text = msg_cannot_answer, ans_direct = None, ans_sections = [],
      ans_caveats = [], ans_citations = [], ans_paths = [], ans_notes = [], ans_cannot_answer = True,
      ans_reason = ac_reason c, ans_confidence = ac_confidence c, ans_provider = Some provider_name,
      ans_model = Some model_name, ans_intent = pc_intent p, ans_strategy = pc_strategy p\<rparr>"

definition citation_ordinals :: "str list \<Rightarrow> (str \<times> nat) list" where
  "citation_ordinals order = map (\<lambda>(n, i). (i, n)) (enumerate 1 order)"

definition validate_and_render ::
  "(str \<Rightarrow> str) \<Rightarrow> answer_candidate \<Rightarrow> projected_context \<Rightarrow> evidence_registry \<Rightarrow> str \<Rightarrow> str
     \<Rightarrow> generation_error + answer_response" where
  "validate_and_render nfc c p reg provider_name model_name =
     (if ac_cannot_answer c then Inr (declined_answer c p provider_name model_name)
      else
      let ed = entries_by_id (reg_entries reg);
          statements = iter_candidate_statements c
      in
      rbind (check_statements nfc ed statements []) (\<lambda>quotes.
      rbind (check_paths p reg statements) (\<lambda>paths.
      rbind (check_assertions p ed (ac_assertions c) statements) (\<lambda>notes.
      case render_candidate c (citation_ordinals (dict_keys quotes)) of
        None \<Rightarrow> Inl (MissingKey ''citation'')
      | Some text \<Rightarrow>
          Inr \<lparr>ans_query = pc_query p, ans_text = text, ans_direct = ac_direct c,
               ans_sections = ac_sections c, ans_caveats = ac_caveats c,
               ans_citations = map (citation_of ed) quotes, ans_paths = paths, ans_notes = notes,
               ans_cannot_answer = False, ans_reason = None, ans_confidence = ac_confidence c,
               ans_provider = Some provider_name, ans_model = Some model_name,
               ans_intent = pc_intent p, ans_strategy = pc_strategy p\<rparr>))))"

end
