(* ===== verification/Answer_Service.thy ===== *)
theory Answer_Service
  imports Grounding
begin

text \<open>
  The check of a projected context (\<open>src/generation/projected_validation.py\<close>) and the answer generator
  (\<open>src/generation/service.py\<close>) with its single repair attempt. The model provider is a function of the
  number of the call and the request; the requests it receives and the diagnostics written into the
  metrics are results of the model.
\<close>

subsection \<open>After projection\<close>

definition projected_insufficient :: "str \<Rightarrow> sufficiency" where
  "projected_insufficient reason = Insufficient ''PROJECTED_EVIDENCE_INSUFFICIENT'' reason"

definition admitted_bundles :: "projected_context \<Rightarrow> compaction_plan \<Rightarrow> (str \<times> evidence_bundle) list" where
  "admitted_bundles p plan =
     fold (\<lambda>b d. AList.update (bn_id b) b d)
       (filter (\<lambda>b. bn_id b \<in> set (pc_bundle_ids p)) (concat (cp_required plan))) []"

definition block_has_relation :: "str list \<Rightarrow> path_block \<Rightarrow> bool" where
  "block_has_relation rels p \<longleftrightarrow> list_ex (\<lambda>e. ge_relation_type e \<in> set rels) (pb_edges p)"

definition bundle_fault :: "projected_context \<Rightarrow> evidence_bundle list \<Rightarrow> sufficiency option" where
  "bundle_fault p bundles =
     (case find (\<lambda>b. \<not> set (bc_unit_ids (bn_content b)) \<subseteq> set (pc_selected p)
                 \<or> \<not> set (bc_path_ids (bn_content b)) \<subseteq> pb_path_id ` set (pc_paths p)) bundles of
        None \<Rightarrow> None
      | Some b \<Rightarrow>
          Some (projected_insufficient
            (if \<not> set (bc_unit_ids (bn_content b)) \<subseteq> set (pc_selected p)
             then ''Projected context lost required legal evidence''
             else ''Projected context lost a required graph path'')))"

definition composition_incomplete :: "projected_context \<Rightarrow> evidence_bundle list \<Rightarrow> bool" where
  "composition_incomplete p bundles \<longleftrightarrow>
     (case pc_composition p of None \<Rightarrow> False
      | Some ops \<Rightarrow>
          set (concat (map (\<lambda>b. case bc_operand (bn_content b) of None \<Rightarrow> [] | Some x \<Rightarrow> [x]) bundles))
            \<noteq> co_id ` set ops)"

definition multi_hop_outside :: "projected_context \<Rightarrow> compaction_plan \<Rightarrow> evidence_bundle list \<Rightarrow> bool" where
  "multi_hop_outside p plan bundles \<longleftrightarrow>
     cp_authoritative plan = []
     \<or> \<not> pb_path_id ` set (pc_paths p) \<subseteq> set (cp_authoritative plan)
     \<or> list_ex (\<lambda>b. \<not> set (bc_path_ids (bn_content b)) \<subseteq> set (cp_authoritative plan)) bundles"

definition temporal_incomplete :: "projected_context \<Rightarrow> evidence_bundle list \<Rightarrow> bool" where
  "temporal_incomplete p bundles \<longleftrightarrow>
     (let subjects = concat (map (\<lambda>b. bc_temporal_subjects (bn_content b)) bundles);
          ed = entries_by_id (pc_evidence p)
      in subjects = []
         \<or> list_ex (\<lambda>i. case map_of ed i of None \<Rightarrow> True | Some e \<Rightarrow> eb_effective_from e = None) subjects)"

definition intent_fault ::
  "projected_context \<Rightarrow> compaction_plan \<Rightarrow> evidence_bundle list \<Rightarrow> sufficiency option" where
  "intent_fault p plan bundles =
     (case pc_intent p of
        Factual \<Rightarrow> (if pc_selected p = [] then Some (projected_insufficient ''Projected context has no direct evidence'') else None)
      | Definition \<Rightarrow> (if pc_selected p = [] then Some (projected_insufficient ''Projected context has no direct evidence'') else None)
      | Hierarchy \<Rightarrow>
          (if \<not> list_ex (block_has_relation [''CONTAINS'']) (pc_paths p)
           then Some (projected_insufficient ''Projected hierarchy path is incomplete'') else None)
      | MultiHop \<Rightarrow>
          (if pc_paths p = [] \<or> cp_required plan = []
           then Some (projected_insufficient ''Projected graph path is incomplete'')
           else if multi_hop_outside p plan bundles
           then Some (projected_insufficient ''Projected graph path is outside the satisfied plan'') else None)
      | Validity \<Rightarrow>
          (if pc_resolved_from p = None then Some (projected_insufficient ''Projected context has no temporal point'')
           else if temporal_incomplete p bundles
           then Some (projected_insufficient ''Projected temporal evidence is incomplete'') else None)
      | Comparison \<Rightarrow>
          (if card (set (concat (map (\<lambda>b. bc_version_keys (bn_content b)) bundles))) < 2
           then Some (projected_insufficient ''Projected comparison versions are incomplete'') else None))"

definition evaluate_projected :: "projected_context \<Rightarrow> compaction_plan \<Rightarrow> sufficiency" where
  "evaluate_projected p plan =
     (let admitted = admitted_bundles p plan; bundles = dict_values admitted in
      if set (pc_bundle_ids p) \<noteq> fst ` set admitted
      then projected_insufficient ''Projected context contains an unknown bundle''
      else case bundle_fault p bundles of
        Some s \<Rightarrow> s
      | None \<Rightarrow>
          if composition_incomplete p bundles
          then projected_insufficient ''Projected comparison evidence is incomplete''
          else case intent_fault p plan bundles of Some s \<Rightarrow> s | None \<Rightarrow> Sufficient)"

subsection \<open>Messages of the errors that are repaired\<close>

fun temporal_message :: "temporal_fault \<Rightarrow> str" where
  "temporal_message ValidityUnlinked = ''A validity answer must link at least one temporal assertion''"
| "temporal_message (AssertionUndeclared i) = ''Temporal assertion is not declared: '' @ i"
| "temporal_message AssertionUnlinked = ''Every temporal assertion must be linked from a statement''"
| "temporal_message NoSingleDate = ''Temporal assertion requires one resolved query date''"
| "temporal_message AssertionDateMismatch = ''Temporal assertion date mismatch''"
| "temporal_message AssertionSubjectUnknown = ''Temporal assertion subject is not allowlisted''"
| "temporal_message AssertionConflict = ''Temporal assertion conflicts with retrieved interval''"

text \<open>The class name and the message of a grounding or a provider error.\<close>

fun error_text :: "generation_error \<Rightarrow> str \<times> str" where
  "error_text BlankStatement = (''GroundingValidationError'', ''Answer statement text must not be blank'')"
| "error_text (CitationNotAllowed i) = (''CitationValidationError'', ''Citation is not allowlisted: '' @ i)"
| "error_text (QuoteNotVerbatim i) =
     (''CitationValidationError'', ''quoted_text for citation '' @ i @ '' is not a verbatim excerpt of the cited evidence'')"
| "error_text PathUnlinked =
     (''ReasoningPathValidationError'', ''A relation-goal answer must link at least one reasoning path'')"
| "error_text (PathNotAllowed i) = (''ReasoningPathValidationError'', ''Reasoning path is not allowlisted: '' @ i)"
| "error_text PathOffGoal =
     (''ReasoningPathValidationError'', ''Reasoning path does not prove the requested relation goal'')"
| "error_text (TemporalClaimRejected f) = (''TemporalAnswerValidationError'', temporal_message f)"
| "error_text (ProviderDependency m) = (''AnswerProviderDependencyError'', m)"
| "error_text (ProviderTimeout m) = (''AnswerProviderTimeoutError'', m)"
| "error_text (ProviderOutput m) = (''AnswerProviderOutputError'', m)"
| "error_text _ = ([], [])"

definition error_label :: "generation_error \<Rightarrow> str" where
  "error_label e = fst (error_text e) @ '': '' @ snd (error_text e)"

definition repair_request :: "provider_request \<Rightarrow> generation_error \<Rightarrow> provider_request" where
  "repair_request r e = r\<lparr>prq_prompt := prq_prompt r @ newline @ ''BEGIN_REPAIR_FEEDBACK'' @ newline
     @ ''Your previous JSON candidate was rejected: '' @ snd (error_text e) @ newline
     @ ''Fix exactly this issue and resend the full corrected ''
     @ ''JSON candidate, following BEGIN_OUTPUT_CONTRACT.'' @ newline
     @ ''END_REPAIR_FEEDBACK''\<rparr>"

subsection \<open>Diagnostics\<close>

record evidence_counts =
  dc_validated_candidates :: nat
  dc_validated_paths :: nat
  dc_compacted_candidates :: nat
  dc_compacted_paths :: nat
  dc_omitted :: nat
  dc_omitted_reasons :: "(omission_reason \<times> nat) list"

record projection_counts =
  dp_selected_units :: nat
  dp_selected_paths :: nat
  dp_selected_ids :: "str list"
  dp_ids_truncated :: bool
  dp_used_chars :: nat
  dp_budget_chars :: nat
  dp_truncated :: bool
  dp_bundles :: nat
  dp_operands :: "(str \<times> nat) list option"

record generation_diagnostics =
  gd_sufficient :: bool
  gd_reason_code :: "str option"
  gd_counts :: "evidence_counts option"
  gd_projection :: "projection_counts option"
  gd_repair_reason :: "str option"
  gd_repair_failure :: "str option"

text \<open>\<open>collections.Counter\<close>\<close>

definition reason_counts :: "omitted_evidence list \<Rightarrow> (omission_reason \<times> nat) list" where
  "reason_counts oms =
     map (\<lambda>r. (r, length (filter (\<lambda>om. om_reason om = r) oms))) (stable_unique (map om_reason oms))"

definition evidence_counts_of ::
  "validated_evidence \<Rightarrow> compaction_plan \<Rightarrow> omitted_evidence list \<Rightarrow> evidence_counts" where
  "evidence_counts_of ve plan oms =
     \<lparr>dc_validated_candidates = length (ve_candidates ve), dc_validated_paths = length (ve_paths ve),
      dc_compacted_candidates = length (cp_candidates plan), dc_compacted_paths = length (cp_paths plan),
      dc_omitted = length oms, dc_omitted_reasons = reason_counts oms\<rparr>"

definition projection_counts_of :: "projected_context \<Rightarrow> projection_counts" where
  "projection_counts_of p =
     \<lparr>dp_selected_units = length (pc_selected p), dp_selected_paths = length (pc_paths p),
      dp_selected_ids = take 10 (pc_selected p), dp_ids_truncated = (length (pc_selected p) > 10),
      dp_used_chars = bud_used (pc_budget p), dp_budget_chars = bud_evidence (pc_budget p),
      dp_truncated = pc_truncated p, dp_bundles = length (pc_bundle_ids p),
      dp_operands = map_option (map (\<lambda>opd. (co_id opd, length (co_units opd)))) (pc_composition p)\<rparr>"

definition diagnostics ::
  "bool \<Rightarrow> str option \<Rightarrow> evidence_counts option \<Rightarrow> projection_counts option \<Rightarrow> generation_diagnostics" where
  "diagnostics ok code counts proj =
     \<lparr>gd_sufficient = ok, gd_reason_code = code, gd_counts = counts, gd_projection = proj,
      gd_repair_reason = None, gd_repair_failure = None\<rparr>"

subsection \<open>The generator\<close>

definition msg_cannot_default :: str where
  "msg_cannot_default =
     ''Kh'' @ [CHR 0xC3, CHR 0xB4] @ ''ng '' @ [CHR 0xC4, CHR 0x91, CHR 0xE1, CHR 0xBB, CHR
     0xA7] @ '' c'' @ [CHR 0xC4, CHR 0x83] @ ''n c'' @ [CHR 0xE1, CHR 0xBB, CHR 0xA9] @ '' '' @
     [CHR 0xC4, CHR 0x91, CHR 0xE1, CHR 0xBB, CHR 0x83] @ '' tr'' @ [CHR 0xE1, CHR 0xBA, CHR
     0xA3] @ '' l'' @ [CHR 0xE1, CHR 0xBB, CHR 0x9D] @ ''i.''"

definition msg_repair_failed :: str where
  "msg_repair_failed =
     ''Kh'' @ [CHR 0xC3, CHR 0xB4] @ ''ng th'' @ [CHR 0xE1, CHR 0xBB, CHR 0x83] @ '' t'' @ [CHR
     0xE1, CHR 0xBA, CHR 0xA1] @ ''o c'' @ [CHR 0xC3, CHR 0xA2] @ ''u tr'' @ [CHR 0xE1, CHR
     0xBA, CHR 0xA3] @ '' l'' @ [CHR 0xE1, CHR 0xBB, CHR 0x9D] @ ''i '' @ [CHR 0xC4, CHR 0x91,
     CHR 0xE1, CHR 0xBB, CHR 0xA7] @ '' c'' @ [CHR 0xC4, CHR 0x83] @ ''n c'' @ [CHR 0xE1, CHR
     0xBB, CHR 0xA9] @ '' sau khi th'' @ [CHR 0xE1, CHR 0xBB, CHR 0xAD] @ '' s'' @ [CHR 0xE1,
     CHR 0xBB, CHR 0xAD] @ ''a l'' @ [CHR 0xE1, CHR 0xBA, CHR 0xA1] @ ''i; vui l'' @ [CHR 0xC3,
     CHR 0xB2] @ ''ng th'' @ [CHR 0xE1, CHR 0xBB, CHR 0xAD] @ '' l'' @ [CHR 0xE1, CHR 0xBA, CHR
     0xA1] @ ''i c'' @ [CHR 0xC3, CHR 0xA2] @ ''u h'' @ [CHR 0xE1, CHR 0xBB, CHR 0x8F] @ ''i.''"

definition cannot_answer :: "generation_request \<Rightarrow> str \<Rightarrow> str \<Rightarrow> answer_response" where
  "cannot_answer r code reason =
     \<lparr>ans_query = gr_query r, ans_text = str_or (Some reason) msg_cannot_default, ans_direct = None,
      ans_sections = [], ans_caveats = [], ans_citations = [], ans_paths = [], ans_notes = [],
      ans_cannot_answer = True, ans_reason = Some code, ans_confidence = 0, ans_provider = None,
      ans_model = None, ans_intent = rc_intent (gr_context r), ans_strategy = rc_strategy (gr_context r)\<rparr>"

record generator =
  ag_nfc :: "str \<Rightarrow> str"
  ag_casefold :: "str \<Rightarrow> str"
  ag_digest :: "topology \<Rightarrow> str"
  ag_bundle_digest :: bundle_digest
  ag_config :: generation_config
  ag_provider :: "nat \<Rightarrow> provider_request \<Rightarrow> generation_error + answer_candidate"
  ag_provider_name :: str
  ag_model_name :: str

record generation_outcome =
  go_result :: "generation_error + answer_response"
  go_requests :: "provider_request list"
  go_diagnostics :: "generation_diagnostics option"

definition outcome ::
  "generation_error + answer_response \<Rightarrow> provider_request list \<Rightarrow> generation_diagnostics option \<Rightarrow> generation_outcome" where
  "outcome res reqs diag = \<lparr>go_result = res, go_requests = reqs, go_diagnostics = diag\<rparr>"

definition render_answer ::
  "generator \<Rightarrow> projected_context \<Rightarrow> evidence_registry \<Rightarrow> answer_candidate \<Rightarrow> generation_error + answer_response" where
  "render_answer g p reg c = validate_and_render (ag_nfc g) c p reg (ag_provider_name g) (ag_model_name g)"

text \<open>The attempt to answer and, after a grounding error, the one repair.\<close>

definition attempt_repair ::
  "generator \<Rightarrow> generation_request \<Rightarrow> projected_context \<Rightarrow> evidence_registry \<Rightarrow> provider_request
     \<Rightarrow> generation_error \<Rightarrow> generation_diagnostics \<Rightarrow> generation_outcome" where
  "attempt_repair g r p reg preq e diag =
     (let second = repair_request preq e;
          diag = diag\<lparr>gd_repair_reason := Some (error_label e)\<rparr>
      in case rbind (ag_provider g 1 second) (render_answer g p reg) of
           Inr a \<Rightarrow> outcome (Inr a) [preq, second] (Some diag)
         | Inl f \<Rightarrow>
             if provider_error f
             then outcome (Inr (cannot_answer r ''ANSWER_REPAIR_FAILED'' msg_repair_failed)) [preq, second]
                    (Some (diag\<lparr>gd_repair_failure := Some (error_label f)\<rparr>))
             else outcome (Inl f) [preq, second] (Some diag))"

definition attempt_answer ::
  "generator \<Rightarrow> generation_request \<Rightarrow> projected_context \<Rightarrow> evidence_registry
     \<Rightarrow> generation_diagnostics \<Rightarrow> generation_outcome" where
  "attempt_answer g r p reg diag =
     (let preq = make_provider_request p reg in
      case ag_provider g 0 preq of
        Inl e \<Rightarrow> outcome (Inl e) [preq] (Some diag)
      | Inr c \<Rightarrow>
          (case render_answer g p reg c of
             Inr a \<Rightarrow> outcome (Inr a) [preq] (Some diag)
           | Inl e \<Rightarrow>
               if grounding_error e then attempt_repair g r p reg preq e diag
               else outcome (Inl e) [preq] (Some diag)))"

definition answer_projected ::
  "generator \<Rightarrow> generation_request \<Rightarrow> validated_evidence \<Rightarrow> compaction_plan \<Rightarrow> projected_context \<Rightarrow> generation_outcome" where
  "answer_projected g r ve plan p =
     (let counts = Some (evidence_counts_of ve plan (pc_omitted p));
          proj = Some (projection_counts_of p)
      in case evaluate_projected p plan of
           Insufficient code reason \<Rightarrow>
             outcome (Inr (cannot_answer r code reason)) [] (Some (diagnostics False (Some code) counts proj))
         | Sufficient \<Rightarrow>
             (let diag = diagnostics True None counts proj in
              case build_registry p of
                Inl e \<Rightarrow> outcome (Inl e) [] (Some diag)
              | Inr reg \<Rightarrow> attempt_answer g r p reg diag))"

definition generate :: "generator \<Rightarrow> generation_request \<Rightarrow> generation_outcome" where
  "generate g r =
     (let ctx = gr_context r in
      case evaluate_sufficiency (ag_digest g) ctx of
        Inl e \<Rightarrow> outcome (Inl e) [] None
      | Inr (Insufficient code reason) \<Rightarrow>
          outcome (Inr (cannot_answer r code reason)) [] (Some (diagnostics False (Some code) None None))
      | Inr Sufficient \<Rightarrow>
          (case validate_evidence (ag_digest g) ctx of
             Inl e \<Rightarrow> outcome (Inl e) [] None
           | Inr ve \<Rightarrow>
               let plan = compact (ag_casefold g) (ag_bundle_digest g) ctx ve (gr_composition r) in
               (case project (ag_config g) r plan of
                  Inl e \<Rightarrow> outcome (Inl e) [] None
                | Inr (NotProjected code reason) \<Rightarrow>
                    outcome (Inr (cannot_answer r code reason)) []
                      (Some (diagnostics False (Some code) (Some (evidence_counts_of ve plan (cp_omitted plan))) None))
                | Inr (Projected p) \<Rightarrow> answer_projected g r ve plan p)))"

end
