(* ===== verification/Generation_Properties.thy ===== *)
theory Generation_Properties
  imports Answer_Service Runtime_Properties
begin

text \<open>
  Correctness of answer generation: what an answer cites is retrieved evidence, the context stays within
  its budget, compaction loses no content, and the provider is asked at most twice and only for a context
  that passed every check.
\<close>

subsection \<open>Dictionaries built by overwriting\<close>

lemma fold_update_lookup:
  assumes "map_of (fold (\<lambda>x d. AList.update (k x) (v x) d) xs d) i = Some y"
  shows "(\<exists>x \<in> set xs. k x = i \<and> y = v x) \<or> map_of d i = Some y"
  using assms by (induction xs arbitrary: d) (fastforce simp: update_conv split: if_splits)+

lemma fold_update_None:
  "map_of (fold (\<lambda>x d. AList.update (k x) (v x) d) xs d) i = None \<longleftrightarrow> i \<notin> k ` set xs \<and> map_of d i = None"
  by (induction xs arbitrary: d) (auto simp: update_conv)

lemma entries_by_id_Some: "map_of (entries_by_id es) i = Some e \<Longrightarrow> e \<in> set es \<and> eb_unit_id e = i"
  unfolding entries_by_id_def by (drule fold_update_lookup) auto

lemma candidates_by_id_Some: "map_of (candidates_by_id cs) i = Some c \<Longrightarrow> c \<in> set cs \<and> ec_id c = i"
  unfolding candidates_by_id_def by (drule fold_update_lookup) auto

lemma candidates_by_id_None: "map_of (candidates_by_id cs) i = None \<longleftrightarrow> i \<notin> ec_id ` set cs"
  by (simp add: candidates_by_id_def fold_update_None)

lemma paths_by_id_Some: "map_of (paths_by_id ps) i = Some p \<Longrightarrow> p \<in> set ps \<and> vp_id p = i"
  unfolding paths_by_id_def by (drule fold_update_lookup) auto

lemma paths_by_id_None: "map_of (paths_by_id ps) i = None \<longleftrightarrow> i \<notin> vp_id ` set ps"
  by (simp add: paths_by_id_def fold_update_None)

lemma allowed_paths_Some: "map_of (allowed_paths p reg) i = Some b \<Longrightarrow> b \<in> set (pc_paths p) \<and> pb_path_id b = i"
  unfolding allowed_paths_def by (drule fold_update_lookup) auto

lemma assertions_by_id_Some: "map_of (assertions_by_id ts) i = Some t \<Longrightarrow> t \<in> set ts \<and> ta_id t = i"
  unfolding assertions_by_id_def by (drule fold_update_lookup) auto

subsection \<open>Evidence through the pipeline\<close>

lemma validate_unit_Inr:
  "validate_unit fs u = Inr v \<Longrightarrow>
     v = u\<lparr>content_raw := py_strip (content_raw u)\<rparr> \<and> canonical_id (unit_id u)
     \<and> py_strip (content_raw u) \<noteq> [] \<and> \<not> has_injection_marker (content_raw u)
     \<and> canonical_id (unit_document_id u) \<and> py_strip (citation_label u) \<noteq> [] \<and> py_strip (deep_link u) \<noteq> []
     \<and> hierarchy_consistent u \<and> (document_ids fs = [] \<or> unit_document_id u \<in> set (document_ids fs))
     \<and> (legal_statuses fs = [] \<or> unit_legal_status u \<in> Some ` set (legal_statuses fs))"
  unfolding validate_unit_def rbind_Inr_iff require_canonical_id_def require_Inr_iff by clarsimp

lemma validate_evidence_Inr:
  assumes "validate_evidence digest ctx = Inr ve"
  shows "\<forall>c \<in> set (ve_candidates ve). \<exists>u \<in> set (rc_units ctx). validate_unit (rc_filters_applied ctx) u = Inr (ec_unit c)"
    and "\<forall>p \<in> set (ve_paths ve). vp_path p \<in> set (rc_paths ctx)
           \<and> build_topology_path_fingerprint digest (vp_path p) = Inr (vp_id p)"
    and "length (ve_candidates ve) = length (rc_units ctx)"
proof -
  let ?eligible = "ev_unit_id ` set (filter ev_eligible (rc_evidence ctx))"
  from assms have cs: "rmapm (validate_candidate (rc_filters_applied ctx) ?eligible) (enumerate 0 (rc_units ctx)) = Inr (ve_candidates ve)"
    and ps: "rmapm (validate_ranked_path digest) (enumerate 0 (rc_paths ctx)) = Inr (ve_paths ve)"
    by (auto simp: validate_evidence_def Let_def rbind_Inr_iff)
  show "\<forall>c \<in> set (ve_candidates ve). \<exists>u \<in> set (rc_units ctx). validate_unit (rc_filters_applied ctx) u = Inr (ec_unit c)"
  proof
    fix c
    assume "c \<in> set (ve_candidates ve)"
    from rmapm_set [OF cs this] obtain i u where "(i, u) \<in> set (enumerate 0 (rc_units ctx))"
      and v: "validate_candidate (rc_filters_applied ctx) ?eligible (i, u) = Inr c"
      by auto
    then have "u \<in> set (rc_units ctx)" by (auto simp: in_set_enumerate_eq)
    moreover have "validate_unit (rc_filters_applied ctx) u = Inr (ec_unit c)"
      using v by (auto simp: validate_candidate_def rbind_Inr_iff)
    ultimately show "\<exists>u \<in> set (rc_units ctx). validate_unit (rc_filters_applied ctx) u = Inr (ec_unit c)" by blast
  qed
  show "\<forall>p \<in> set (ve_paths ve). vp_path p \<in> set (rc_paths ctx)
           \<and> build_topology_path_fingerprint digest (vp_path p) = Inr (vp_id p)"
  proof
    fix p
    assume "p \<in> set (ve_paths ve)"
    from rmapm_set [OF ps this] obtain i q where q: "(i, q) \<in> set (enumerate 0 (rc_paths ctx))"
      and v: "validate_ranked_path digest (i, q) = Inr p"
      by auto
    from v have "vp_path p = q \<and> build_topology_path_fingerprint digest q = Inr (vp_id p)"
      by (auto simp: validate_ranked_path_def validate_path_def rbind_Inr_iff split: sum.splits)
    with q show "vp_path p \<in> set (rc_paths ctx) \<and> build_topology_path_fingerprint digest (vp_path p) = Inr (vp_id p)"
      by (auto simp: in_set_enumerate_eq)
  qed
  show "length (ve_candidates ve) = length (rc_units ctx)"
    using rmapm_length [OF cs] by simp
qed

lemma dedup_scan_subset: "set (fst (dedup_scan casefold protected cs seen)) \<subseteq> set cs"
proof (induction cs arbitrary: seen)
  case Nil
  show ?case by simp
next
  case (Cons c cs)
  then show ?case
    by (auto split: prod.splits option.splits) (metis fst_conv subsetD)+
qed

lemma source_candidates_subset: "set (source_candidates ctx protected composition cs) \<subseteq> set cs"
  by (auto simp: source_candidates_def split: option.splits)

lemma authoritative_paths_subset: "set (fst (authoritative_paths ctx ps)) \<subseteq> set ps"
  by (auto simp: authoritative_paths_def split: option.splits)

lemma compact_unfold:
  obtains protected where
    "protected = set (concat (map (\<lambda>p. citable_ids (vp_path p)) (fst (authoritative_paths ctx (ve_paths ve)))))"
    "(cp_candidates (compact casefold digest ctx ve composition), cp_omitted (compact casefold digest ctx ve composition))
       = deduplicate casefold protected (source_candidates ctx protected composition (ve_candidates ve))"
    "cp_paths (compact casefold digest ctx ve composition) = fst (authoritative_paths ctx (ve_paths ve))"
    "cp_authoritative (compact casefold digest ctx ve composition) = snd (authoritative_paths ctx (ve_paths ve))"
    "cp_composition (compact casefold digest ctx ve composition)
       = normalize_composition composition (cp_omitted (compact casefold digest ctx ve composition))"
    "cp_required (compact casefold digest ctx ve composition)
       = required_bundles digest ctx (cp_candidates (compact casefold digest ctx ve composition))
           (cp_paths (compact casefold digest ctx ve composition))
           (cp_composition (compact casefold digest ctx ve composition))"
  by (rule that [OF refl]) (simp_all add: compact_def Let_def split: prod.splits)

lemma compact_subsets:
  "set (cp_candidates (compact casefold digest ctx ve composition)) \<subseteq> set (ve_candidates ve)"
  "set (cp_paths (compact casefold digest ctx ve composition)) \<subseteq> set (ve_paths ve)"
proof -
  obtain protected where *:
    "(cp_candidates (compact casefold digest ctx ve composition), cp_omitted (compact casefold digest ctx ve composition))
       = deduplicate casefold protected (source_candidates ctx protected composition (ve_candidates ve))"
    "cp_paths (compact casefold digest ctx ve composition) = fst (authoritative_paths ctx (ve_paths ve))"
    by (rule compact_unfold)
  let ?s = "sort_key candidate_order (source_candidates ctx protected composition (ve_candidates ve))"
  have "cp_candidates (compact casefold digest ctx ve composition) = fst (dedup_scan casefold protected ?s [])"
    using *(1) unfolding deduplicate_def by (metis fst_conv)
  then have "set (cp_candidates (compact casefold digest ctx ve composition)) \<subseteq> set ?s"
    using dedup_scan_subset by metis
  then show "set (cp_candidates (compact casefold digest ctx ve composition)) \<subseteq> set (ve_candidates ve)"
    using source_candidates_subset by fastforce
  show "set (cp_paths (compact casefold digest ctx ve composition)) \<subseteq> set (ve_paths ve)"
    unfolding *(2) by (rule authoritative_paths_subset)
qed

lemma evidence_of_Inr:
  "evidence_of (candidates_by_id cs) i = Inr b \<Longrightarrow>
     \<exists>c \<in> set cs. ec_id c = i \<and> b = to_evidence (ec_unit c) \<and> evidence_block_ok b"
  by (auto simp: evidence_of_def lookup_def rbind_Inr_iff make_evidence_def
      dest!: candidates_by_id_Some split: option.splits if_splits)

lemma path_of_Inr:
  "path_of (paths_by_id ps) i = Inr b \<Longrightarrow> \<exists>p \<in> set ps. vp_id p = i \<and> b = to_path p"
  by (auto simp: path_of_def lookup_def rbind_Inr_iff dest!: paths_by_id_Some split: option.splits)

text \<open>What the greedy loop keeps: its lists grow together, and within the budget.\<close>

definition admission_inv :: "int \<Rightarrow> nat \<Rightarrow> admission \<Rightarrow> bool" where
  "admission_inv budget paths_cost a \<longleftrightarrow>
     map eb_unit_id (adm_evidence a) = adm_selected a \<and> distinct (adm_selected a)
     \<and> adm_used a = sum_list (map block_cost (adm_evidence a)) + paths_cost \<and> int (adm_used a) \<le> budget"

lemma to_evidence_id [simp]: "eb_unit_id (to_evidence u) = unit_id u"
  by (simp add: to_evidence_def)

lemma make_evidence_Inr: "make_evidence u = Inr b \<longleftrightarrow> b = to_evidence u \<and> evidence_block_ok b"
  by (auto simp: make_evidence_def)

lemma admit_rest_Inr:
  assumes "admit_rest budget cs a = Inr a'" and "admission_inv budget pc a"
  shows "admission_inv budget pc a' \<and> set (adm_selected a) \<subseteq> set (adm_selected a')
    \<and> set (adm_evidence a') \<subseteq> set (adm_evidence a) \<union> (to_evidence \<circ> ec_unit) ` set cs
    \<and> set (adm_omitted a) \<subseteq> set (adm_omitted a')"
  using assms
proof (induction cs arbitrary: a)
  case Nil
  then show ?case by simp
next
  case (Cons c cs)
  show ?case
  proof (cases "ec_id c \<in> set (adm_selected a)")
    case True
    with Cons show ?thesis by fastforce
  next
    case new: False
    with Cons.prems(1) obtain b where b: "make_evidence (ec_unit c) = Inr b"
      by (auto simp: rbind_Inr_iff)
    then have bid: "b = to_evidence (ec_unit c)" by (simp add: make_evidence_Inr)
    show ?thesis
    proof (cases "int (adm_used a + block_cost b) > budget")
      case True
      let ?a = "a\<lparr>adm_omitted := adm_omitted a @ [\<lparr>om_unit_id = ec_id c, om_reason = ContextBudgetExceeded, om_retained = None\<rparr>]\<rparr>"
      have step: "admit_rest budget cs ?a = Inr a'" using Cons.prems(1) new b True by simp
      have "admission_inv budget pc ?a" using Cons.prems(2) by (simp add: admission_inv_def)
      from Cons.IH [OF step this] show ?thesis by auto
    next
      case False
      let ?a = "a\<lparr>adm_selected := adm_selected a @ [ec_id c], adm_evidence := adm_evidence a @ [b],
        adm_used := adm_used a + block_cost b\<rparr>"
      have step: "admit_rest budget cs ?a = Inr a'" using Cons.prems(1) new b False by simp
      have "admission_inv budget pc ?a"
        using Cons.prems(2) new False by (auto simp: admission_inv_def bid)
      from Cons.IH [OF step this] show ?thesis by (auto simp: bid)
    qed
  qed
qed

lemma make_alternative_Inr:
  assumes "make_alternative (candidates_by_id cs) (paths_by_id ps) bundles = Inr a"
  shows "alt_bundles a = bundles"
    "alt_units a = stable_unique (concat (map (\<lambda>b. bc_unit_ids (bn_content b)) bundles))"
    "alt_paths a = stable_unique (concat (map (\<lambda>b. bc_path_ids (bn_content b)) bundles))"
    "\<exists>es qs. rmapm (evidence_of (candidates_by_id cs)) (alt_units a) = Inr es
        \<and> rmapm (path_of (paths_by_id ps)) (alt_paths a) = Inr qs
        \<and> alt_cost a = sum_list (map block_cost es) + sum_list (map path_cost qs)"
  using assms by (auto simp: make_alternative_def Let_def rbind_Inr_iff)

lemma rmapm_map:
  assumes "rmapm f xs = Inr ys" and "\<And>x y. f x = Inr y \<Longrightarrow> g y = x"
  shows "map g ys = xs"
  using assms by (induction xs arbitrary: ys) (auto simp: rbind_Inr_iff)

text \<open>The inversion of a successful projection that the properties below share.\<close>

lemma project_Projected:
  assumes "project cfg r plan = Inr (Projected p)"
  obtains alt where
    "alt_bundles alt \<in> set (cp_required plan)"
    "make_alternative (candidates_by_id (cp_candidates plan)) (paths_by_id (cp_paths plan)) (alt_bundles alt) = Inr alt"
    "rmapm (path_of (paths_by_id (cp_paths plan))) (alt_paths alt) = Inr (pc_paths p)"
    "projection_ok p"
    "set (alt_units alt) \<subseteq> set (pc_selected p)"
    "set (pc_evidence p) \<subseteq> (to_evidence \<circ> ec_unit) ` set (cp_candidates plan)"
    "bud_used (pc_budget p) = sum_list (map block_cost (pc_evidence p)) + sum_list (map path_cost (pc_paths p))"
    "int (bud_used (pc_budget p)) \<le> evidence_budget cfg r"
    "pc_bundle_ids p = map bn_id (alt_bundles alt)"
    "pc_query p = gr_query r" "pc_intent p = rc_intent (gr_context r)"
    "pc_resolved_from p = resolved_from (rc_temporal (gr_context r))"
    "pc_resolved_to p = resolved_to (rc_temporal (gr_context r))"
    "pc_relation_goal p = rc_relation_goal (gr_context r)"
    "pc_anchor_ids p = reference_ids (gr_context r)"
    "pc_composition p = project_composition (cp_composition plan) (pc_selected p)"
proof -
  let ?cd = "candidates_by_id (cp_candidates plan)" and ?pd = "paths_by_id (cp_paths plan)"
  from assms obtain alts alt where alts: "rmapm (make_alternative ?cd ?pd) (cp_required plan) = Inr alts"
    and choose: "choose_alternative (evidence_budget cfg r) alts = Some alt"
    and fin: "finish_projection cfg r plan alt = Inr (Projected p)"
    by (auto simp: project_def rbind_Inr_iff split: if_splits option.splits)
  from choose have alt: "alt \<in> set alts" "int (alt_cost alt) \<le> evidence_budget cfg r"
    by (auto simp: choose_alternative_def find_Some_iff) (metis nth_mem set_sort length_sort)
  from rmapm_set [OF alts alt(1)] obtain bs where bs: "bs \<in> set (cp_required plan)" "make_alternative ?cd ?pd bs = Inr alt"
    by blast
  have b: "alt_bundles alt = bs" by (rule make_alternative_Inr(1) [OF bs(2)])
  obtain es qs where es: "rmapm (evidence_of ?cd) (alt_units alt) = Inr es"
    and qs: "rmapm (path_of ?pd) (alt_paths alt) = Inr qs"
    and cost: "alt_cost alt = sum_list (map block_cost es) + sum_list (map path_cost qs)"
    using make_alternative_Inr(4) [OF bs(2)] by blast
  let ?a0 = "\<lparr>adm_selected = alt_units alt, adm_evidence = es, adm_omitted = cp_omitted plan, adm_used = alt_cost alt\<rparr>"
  from fin es qs obtain a where a: "admit_rest (evidence_budget cfg r) (sort_key candidate_order (cp_candidates plan)) ?a0 = Inr a"
    and pe: "pc_evidence p = adm_evidence a" "pc_selected p = adm_selected a" "pc_paths p = qs"
      "bud_used (pc_budget p) = adm_used a" "projection_ok p" "pc_bundle_ids p = map bn_id (alt_bundles alt)"
    and pr: "pc_query p = gr_query r" "pc_intent p = rc_intent (gr_context r)"
      "pc_resolved_from p = resolved_from (rc_temporal (gr_context r))"
      "pc_resolved_to p = resolved_to (rc_temporal (gr_context r))"
      "pc_relation_goal p = rc_relation_goal (gr_context r)"
      "pc_anchor_ids p = reference_ids (gr_context r)"
      "pc_composition p = project_composition (cp_composition plan) (adm_selected a)"
    by (auto simp: finish_projection_def Let_def rbind_Inr_iff make_projection_def split: if_splits)
  have ids: "map eb_unit_id es = alt_units alt"
    by (rule rmapm_map [OF es]) (auto dest: evidence_of_Inr)
  have "distinct (alt_units alt)" by (simp add: make_alternative_Inr(2) [OF bs(2)])
  then have "admission_inv (evidence_budget cfg r) (sum_list (map path_cost qs)) ?a0"
    using ids alt(2) by (simp add: admission_inv_def cost)
  note adm = admit_rest_Inr [OF a this]
  have "set es \<subseteq> (to_evidence \<circ> ec_unit) ` set (cp_candidates plan)"
    using rmapm_set [OF es] by (fastforce dest: evidence_of_Inr)
  with adm have ev: "set (pc_evidence p) \<subseteq> (to_evidence \<circ> ec_unit) ` set (cp_candidates plan)"
    by (auto simp: pe)
  have fin: "admission_inv (evidence_budget cfg r) (sum_list (map path_cost qs)) a"
    "set (alt_units alt) \<subseteq> set (adm_selected a)"
    using adm by simp_all
  show thesis
  proof (rule that [of alt])
    show "alt_bundles alt \<in> set (cp_required plan)" using bs(1) b by simp
    show "make_alternative ?cd ?pd (alt_bundles alt) = Inr alt" using bs(2) b by simp
    show "rmapm (path_of ?pd) (alt_paths alt) = Inr (pc_paths p)" using qs pe(3) by simp
    show "set (alt_units alt) \<subseteq> set (pc_selected p)" using fin(2) pe(2) by simp
    show "bud_used (pc_budget p) = sum_list (map block_cost (pc_evidence p)) + sum_list (map path_cost (pc_paths p))"
      "int (bud_used (pc_budget p)) \<le> evidence_budget cfg r"
      using fin(1) unfolding admission_inv_def pe by blast+
    show "pc_composition p = project_composition (cp_composition plan) (pc_selected p)"
      by (simp only: pr(7) pe(2))
  qed (rule pe pr ev)+
qed

lemma projected_content:
  assumes "project cfg r plan = Inr (Projected p)"
  shows "(\<exists>alt :: alternative. rmapm (path_of (paths_by_id (cp_paths plan))) (alt_paths alt) = Inr (pc_paths p))
    \<and> set (pc_evidence p) \<subseteq> (to_evidence \<circ> ec_unit) ` set (cp_candidates plan)
    \<and> pc_intent p = rc_intent (gr_context r) \<and> pc_resolved_from p = resolved_from (rc_temporal (gr_context r))
    \<and> pc_resolved_to p = resolved_to (rc_temporal (gr_context r))
    \<and> pc_relation_goal p = rc_relation_goal (gr_context r) \<and> pc_anchor_ids p = reference_ids (gr_context r)"
proof (rule project_Projected [OF assms], goal_cases)
  case (1 alt)
  then show ?case by blast
qed


subsection \<open>Grounding\<close>

lemma check_citations_Inr:
  assumes "check_citations nfc ed cs quotes = Inr quotes'"
  shows "(\<forall>c \<in> set cs. sct_id c \<in> fst ` set quotes'
            \<and> (\<exists>e. map_of ed (sct_id c) = Some e \<and> verbatim_quote nfc (sct_quote c) (eb_content_raw e)))
    \<and> set quotes \<subseteq> set quotes' \<and> (distinct (map fst quotes) \<longrightarrow> distinct (map fst quotes'))
    \<and> (\<forall>iq \<in> set quotes'. iq \<in> set quotes \<or> (\<exists>c \<in> set cs. iq = (sct_id c, sct_quote c)))"
  using assms
proof (induction cs arbitrary: quotes)
  case Nil
  then show ?case by simp
next
  case (Cons c cs)
  then obtain e where e: "map_of ed (sct_id c) = Some e" "verbatim_quote nfc (sct_quote c) (eb_content_raw e)"
    and rest: "check_citations nfc ed cs (setdefault (sct_id c) (sct_quote c) quotes) = Inr quotes'"
    by (auto split: option.splits if_splits)
  note ih = Cons.IH [OF rest]
  have sub: "set quotes \<subseteq> set (setdefault (sct_id c) (sct_quote c) quotes)"
    "set (setdefault (sct_id c) (sct_quote c) quotes) \<subseteq> insert (sct_id c, sct_quote c) (set quotes)"
    by (auto simp: setdefault_def)
  have key: "sct_id c \<in> fst ` set (setdefault (sct_id c) (sct_quote c) quotes)" by simp
  have "sct_id c \<in> fst ` set quotes'" using key ih by (meson image_mono subsetD)
  moreover have "distinct (map fst quotes) \<longrightarrow> distinct (map fst quotes')"
    using ih distinct_setdefault by metis
  ultimately show ?case using e ih sub by auto
qed

lemma check_statements_Inr:
  assumes "check_statements nfc ed ss quotes = Inr quotes'"
  shows "(\<forall>s \<in> set ss. py_strip (gs_text s) \<noteq> [] \<and> (\<forall>c \<in> set (gs_citations s). sct_id c \<in> fst ` set quotes'
            \<and> (\<exists>e. map_of ed (sct_id c) = Some e \<and> verbatim_quote nfc (sct_quote c) (eb_content_raw e))))
    \<and> set quotes \<subseteq> set quotes' \<and> (distinct (map fst quotes) \<longrightarrow> distinct (map fst quotes'))
    \<and> (\<forall>iq \<in> set quotes'. iq \<in> set quotes
          \<or> (\<exists>s \<in> set ss. \<exists>c \<in> set (gs_citations s). iq = (sct_id c, sct_quote c)))"
  using assms
proof (induction ss arbitrary: quotes)
  case Nil
  then show ?case by simp
next
  case (Cons s ss)
  then obtain q where t: "py_strip (gs_text s) \<noteq> []" and q: "check_citations nfc ed (gs_citations s) quotes = Inr q"
    and rest: "check_statements nfc ed ss q = Inr quotes'"
    by (auto simp: rbind_Inr_iff split: if_splits)
  note cc = check_citations_Inr [OF q] and ih = Cons.IH [OF rest]
  have keys: "fst ` set q \<subseteq> fst ` set quotes'" using ih by (meson image_mono)
  show ?case
  proof (intro conjI)
    show "\<forall>s' \<in> set (s # ss). py_strip (gs_text s') \<noteq> [] \<and> (\<forall>c \<in> set (gs_citations s'). sct_id c \<in> fst ` set quotes'
            \<and> (\<exists>e. map_of ed (sct_id c) = Some e \<and> verbatim_quote nfc (sct_quote c) (eb_content_raw e)))"
      using t cc ih keys by auto
    show "set quotes \<subseteq> set quotes'" using cc ih by blast
    show "distinct (map fst quotes) \<longrightarrow> distinct (map fst quotes')" using cc ih by blast
    show "\<forall>iq \<in> set quotes'. iq \<in> set quotes
          \<or> (\<exists>s' \<in> set (s # ss). \<exists>c \<in> set (gs_citations s'). iq = (sct_id c, sct_quote c))"
      using cc ih by (metis list.set_intros)
  qed
qed

lemma validate_and_render_Inr:
  assumes "validate_and_render nfc c p reg pn mn = Inr a" and "\<not> ans_cannot_answer a"
  obtains quotes where
    "check_statements nfc (entries_by_id (reg_entries reg)) (iter_candidate_statements c) [] = Inr quotes"
    "check_paths p reg (iter_candidate_statements c) = Inr (ans_paths a)"
    "check_assertions p (entries_by_id (reg_entries reg)) (ac_assertions c) (iter_candidate_statements c) = Inr (ans_notes a)"
    "render_candidate c (citation_ordinals (dict_keys quotes)) = Some (ans_text a)"
    "ans_citations a = map (citation_of (entries_by_id (reg_entries reg))) quotes"
    "ans_direct a = ac_direct c" "ans_sections a = ac_sections c" "ans_caveats a = ac_caveats c"
    "\<not> ac_cannot_answer c"
proof -
  have n: "\<not> ac_cannot_answer c" using assms by (auto simp: validate_and_render_def declined_answer_def)
  from assms(1) n obtain quotes pbs tns out where *:
    "check_statements nfc (entries_by_id (reg_entries reg)) (iter_candidate_statements c) [] = Inr quotes"
    "check_paths p reg (iter_candidate_statements c) = Inr pbs"
    "check_assertions p (entries_by_id (reg_entries reg)) (ac_assertions c) (iter_candidate_statements c) = Inr tns"
    "render_candidate c (citation_ordinals (dict_keys quotes)) = Some out"
    "a = \<lparr>ans_query = pc_query p, ans_text = out, ans_direct = ac_direct c,
               ans_sections = ac_sections c, ans_caveats = ac_caveats c,
               ans_citations = map (citation_of (entries_by_id (reg_entries reg))) quotes,
               ans_paths = pbs, ans_notes = tns,
               ans_cannot_answer = False, ans_reason = None, ans_confidence = ac_confidence c,
               ans_provider = Some pn, ans_model = Some mn,
               ans_intent = pc_intent p, ans_strategy = pc_strategy p\<rparr>"
    unfolding validate_and_render_def Let_def if_not_P [OF n] rbind_Inr_iff
    by (auto split: option.splits)
  show thesis
    by (rule that [of quotes]) (simp_all add: * n)
qed

definition answer_statements :: "answer_response \<Rightarrow> grounded_statement list" where
  "answer_statements a =
     concat (case ans_direct a of None \<Rightarrow> [] | Some ps \<Rightarrow> ps)
     @ concat (concat (map as_paragraphs (ans_sections a))) @ concat (ans_caveats a)"

text \<open>The unit of the retrieval context that a citation of the answer stands for.\<close>

definition cites_unit :: "(str \<Rightarrow> str) \<Rightarrow> answer_citation \<Rightarrow> retrieved_unit \<Rightarrow> bool" where
  "cites_unit nfc cit u \<longleftrightarrow>
     cit_unit_id cit = unit_id u \<and> cit_label cit = citation_label u \<and> cit_document_id cit = unit_document_id u
     \<and> cit_deep_link cit = deep_link u
     \<and> (\<exists>q. cit_quote cit = Some q \<and> verbatim_quote nfc q (py_strip (content_raw u)))"

lemma validated_block:
  assumes "b \<in> (\<lambda>c. to_evidence (ec_unit c)) ` set (ve_candidates ve)" and "validate_evidence digest ctx = Inr ve"
  shows "\<exists>u \<in> set (rc_units ctx). b = to_evidence (u\<lparr>content_raw := py_strip (content_raw u)\<rparr>)
    \<and> \<not> has_injection_marker (content_raw u) \<and> hierarchy_consistent u"
  using assms validate_evidence_Inr(1) [OF assms(2)] by (fastforce dest: validate_unit_Inr)

text \<open>The ways a response that answers can come about.\<close>

lemma generate_answers:
  assumes "go_result (generate g r) = Inr a" and "\<not> ans_cannot_answer a"
  obtains ve plan p reg c where
    "evaluate_sufficiency (ag_digest g) (gr_context r) = Inr Sufficient"
    "validate_evidence (ag_digest g) (gr_context r) = Inr ve"
    "plan = compact (ag_casefold g) (ag_bundle_digest g) (gr_context r) ve (gr_composition r)"
    "project (ag_config g) r plan = Inr (Projected p)"
    "evaluate_projected p plan = Sufficient"
    "build_registry p = Inr reg"
    "render_answer g p reg c = Inr a"
    "\<exists>n q. ag_provider g n q = Inr c"
proof -
  have cannot: "ans_cannot_answer (cannot_answer r code reason)" for code reason
    by (simp add: cannot_answer_def)
  from assms cannot obtain ve where suf: "evaluate_sufficiency (ag_digest g) (gr_context r) = Inr Sufficient"
    and ve: "validate_evidence (ag_digest g) (gr_context r) = Inr ve"
    by (auto simp: generate_def Let_def outcome_def split: sum.splits sufficiency.splits)
  let ?plan = "compact (ag_casefold g) (ag_bundle_digest g) (gr_context r) ve (gr_composition r)"
  from assms cannot suf ve obtain p where p: "project (ag_config g) r ?plan = Inr (Projected p)"
    and ans: "go_result (answer_projected g r ve ?plan p) = Inr a"
    by (auto simp: generate_def Let_def outcome_def split: sum.splits projection_result.splits)
  from ans cannot assms(2) obtain reg diag where ev: "evaluate_projected p ?plan = Sufficient"
    and reg: "build_registry p = Inr reg" and att: "go_result (attempt_answer g r p reg diag) = Inr a"
    by (auto simp: answer_projected_def Let_def outcome_def split: sum.splits sufficiency.splits)
  from att cannot assms(2) obtain c n q where "render_answer g p reg c = Inr a" "ag_provider g n q = Inr c"
    by (auto simp: attempt_answer_def attempt_repair_def Let_def outcome_def rbind_def
        split: sum.splits if_splits)
  with suf ve p ev reg show thesis by (intro that [OF suf ve refl p ev reg]) blast+
qed

lemma render_traces:
  assumes "validate_and_render nfc c p reg pn mn = Inr a" and "\<not> ans_cannot_answer a"
    and "reg_entries reg = pc_evidence p"
  shows "\<forall>cit \<in> set (ans_citations a). \<exists>b \<in> set (pc_evidence p). cit_unit_id cit = eb_unit_id b
      \<and> cit_label cit = eb_citation_label b \<and> cit_document_id cit = eb_document_id b
      \<and> cit_deep_link cit = eb_deep_link b
      \<and> (\<exists>q. cit_quote cit = Some q \<and> verbatim_quote nfc q (eb_content_raw b))"
    and "distinct (map cit_unit_id (ans_citations a))"
    and "\<forall>s \<in> set (answer_statements a). \<forall>x \<in> set (gs_citations s).
      sct_id x \<in> cit_unit_id ` set (ans_citations a)
      \<and> (\<exists>b \<in> set (pc_evidence p). eb_unit_id b = sct_id x \<and> verbatim_quote nfc (sct_quote x) (eb_content_raw b))"
proof (atomize (full), rule validate_and_render_Inr [OF assms(1,2)])
  fix quotes
  let ?ed = "entries_by_id (reg_entries reg)"
  assume cs: "check_statements nfc ?ed (iter_candidate_statements c) [] = Inr quotes"
    and cits: "ans_citations a = map (citation_of ?ed) quotes"
    and parts: "ans_direct a = ac_direct c" "ans_sections a = ac_sections c" "ans_caveats a = ac_caveats c"
  note facts = check_statements_Inr [OF cs]
  have st: "answer_statements a = iter_candidate_statements c"
    by (simp add: answer_statements_def iter_candidate_statements_def parts)
  have known: "\<exists>b \<in> set (pc_evidence p). map_of ?ed i = Some b \<and> eb_unit_id b = i \<and> verbatim_quote nfc q (eb_content_raw b)"
    if "(i, q) \<in> set quotes" for i q
  proof -
    from facts that obtain s x where "s \<in> set (iter_candidate_statements c)" "x \<in> set (gs_citations s)"
      "i = sct_id x" "q = sct_quote x"
      by (metis empty_iff empty_set prod.inject)
    with facts obtain e where "map_of ?ed i = Some e" "verbatim_quote nfc q (eb_content_raw e)" by blast
    with entries_by_id_Some [of "reg_entries reg" i e] assms(3) show ?thesis by auto
  qed
  have cid: "cit_unit_id (citation_of ?ed iq) = fst iq" if "iq \<in> set quotes" for iq
    using known [of "fst iq" "snd iq"] that by (auto simp: citation_of_def Let_def)
  have ids: "map cit_unit_id (ans_citations a) = map fst quotes"
    unfolding cits using cid by simp
  have one: "\<forall>cit \<in> set (ans_citations a). \<exists>b \<in> set (pc_evidence p). cit_unit_id cit = eb_unit_id b
      \<and> cit_label cit = eb_citation_label b \<and> cit_document_id cit = eb_document_id b
      \<and> cit_deep_link cit = eb_deep_link b
      \<and> (\<exists>q. cit_quote cit = Some q \<and> verbatim_quote nfc q (eb_content_raw b))"
  proof
    fix cit
    assume "cit \<in> set (ans_citations a)"
    then obtain i q where iq: "(i, q) \<in> set quotes" "cit = citation_of ?ed (i, q)" by (auto simp: cits)
    from known [OF iq(1)] obtain b where b: "b \<in> set (pc_evidence p)" "map_of ?ed i = Some b"
      "verbatim_quote nfc q (eb_content_raw b)" by blast
    then show "\<exists>b \<in> set (pc_evidence p). cit_unit_id cit = eb_unit_id b
      \<and> cit_label cit = eb_citation_label b \<and> cit_document_id cit = eb_document_id b
      \<and> cit_deep_link cit = eb_deep_link b
      \<and> (\<exists>q. cit_quote cit = Some q \<and> verbatim_quote nfc q (eb_content_raw b))"
      by (intro bexI [OF _ b(1)]) (simp add: iq(2) citation_of_def Let_def)
  qed
  have two: "distinct (map cit_unit_id (ans_citations a))" using ids facts by simp
  have three: "\<forall>s \<in> set (answer_statements a). \<forall>x \<in> set (gs_citations s).
      sct_id x \<in> cit_unit_id ` set (ans_citations a)
      \<and> (\<exists>b \<in> set (pc_evidence p). eb_unit_id b = sct_id x \<and> verbatim_quote nfc (sct_quote x) (eb_content_raw b))"
  proof (intro ballI conjI)
    fix s x
    assume "s \<in> set (answer_statements a)" "x \<in> set (gs_citations s)"
    with facts have k: "sct_id x \<in> fst ` set quotes"
      and e: "\<exists>e. map_of ?ed (sct_id x) = Some e \<and> verbatim_quote nfc (sct_quote x) (eb_content_raw e)"
      by (simp_all add: st)
    have "set (map cit_unit_id (ans_citations a)) = set (map fst quotes)" by (simp only: ids)
    with k show "sct_id x \<in> cit_unit_id ` set (ans_citations a)" by simp
    from e show "\<exists>b \<in> set (pc_evidence p). eb_unit_id b = sct_id x \<and> verbatim_quote nfc (sct_quote x) (eb_content_raw b)"
      using entries_by_id_Some assms(3) by metis
  qed
  from one two three show "(\<forall>cit \<in> set (ans_citations a). \<exists>b \<in> set (pc_evidence p). cit_unit_id cit = eb_unit_id b
      \<and> cit_label cit = eb_citation_label b \<and> cit_document_id cit = eb_document_id b
      \<and> cit_deep_link cit = eb_deep_link b
      \<and> (\<exists>q. cit_quote cit = Some q \<and> verbatim_quote nfc q (eb_content_raw b)))
    \<and> distinct (map cit_unit_id (ans_citations a))
    \<and> (\<forall>s \<in> set (answer_statements a). \<forall>x \<in> set (gs_citations s).
      sct_id x \<in> cit_unit_id ` set (ans_citations a)
      \<and> (\<exists>b \<in> set (pc_evidence p). eb_unit_id b = sct_id x \<and> verbatim_quote nfc (sct_quote x) (eb_content_raw b)))"
    by blast
qed

lemma check_paths_Inr:
  assumes "check_paths p reg ss = Inr bs"
  shows "\<forall>b \<in> set bs. b \<in> set (pc_paths p)
           \<and> (\<forall>g. pc_relation_goal p = Some g \<longrightarrow> block_meets_goal g (pc_anchor_ids p) b)"
    and "pc_relation_goal p \<noteq> None \<longrightarrow> bs \<noteq> []"
proof -
  let ?order = "stable_unique (concat (map gs_path_ids ss))"
  from assms have r: "rmapm (check_path p (allowed_paths p reg)) ?order = Inr bs"
    and ne: "\<not> (pc_relation_goal p \<noteq> None \<and> ?order = [])"
    by (auto simp: check_paths_def Let_def split: if_splits)
  show "\<forall>b \<in> set bs. b \<in> set (pc_paths p)
           \<and> (\<forall>g. pc_relation_goal p = Some g \<longrightarrow> block_meets_goal g (pc_anchor_ids p) b)"
  proof
    fix b
    assume "b \<in> set bs"
    from rmapm_set [OF r this] obtain i where "check_path p (allowed_paths p reg) i = Inr b" by blast
    then show "b \<in> set (pc_paths p)
           \<and> (\<forall>g. pc_relation_goal p = Some g \<longrightarrow> block_meets_goal g (pc_anchor_ids p) b)"
      by (auto simp: check_path_def dest: allowed_paths_Some split: option.splits if_splits)
  qed
  show "pc_relation_goal p \<noteq> None \<longrightarrow> bs \<noteq> []"
    using ne rmapm_length [OF r] by auto
qed

lemma check_assertions_Inr:
  assumes "check_assertions p (entries_by_id es) ts ss = Inr notes"
  shows "\<forall>n \<in> set notes. \<exists>e \<in> set es. \<exists>day. pc_resolved_from p = Some day \<and> pc_resolved_to p = Some day
           \<and> n = temporal_note e (in_force (eb_effective_from e) (eb_effective_to e) day) day"
    and "pc_intent p = Validity \<longrightarrow> notes \<noteq> []"
proof -
  let ?order = "stable_unique (concat (map gs_assertion_ids ss))"
  from assms have r: "rmapm (\<lambda>i. validate_temporal p (entries_by_id es) (the (map_of (assertions_by_id ts) i))) ?order = Inr notes"
    and ne: "\<not> (pc_intent p = Validity \<and> ?order = [])"
    by (auto simp: check_assertions_def Let_def split: if_splits option.splits)
  show "\<forall>n \<in> set notes. \<exists>e \<in> set es. \<exists>day. pc_resolved_from p = Some day \<and> pc_resolved_to p = Some day
           \<and> n = temporal_note e (in_force (eb_effective_from e) (eb_effective_to e) day) day"
  proof
    fix n
    assume "n \<in> set notes"
    from rmapm_set [OF r this] obtain t where t: "validate_temporal p (entries_by_id es) t = Inr n" by blast
    then obtain e where "map_of (entries_by_id es) (ta_subject t) = Some e" "pc_resolved_from p = Some (ta_date t)"
      "pc_resolved_to p = Some (ta_date t)"
      "n = temporal_note e (in_force (eb_effective_from e) (eb_effective_to e) (ta_date t)) (ta_date t)"
      by (auto simp: validate_temporal_def Let_def split: if_splits option.splits)
    with entries_by_id_Some show "\<exists>e \<in> set es. \<exists>day. pc_resolved_from p = Some day \<and> pc_resolved_to p = Some day
           \<and> n = temporal_note e (in_force (eb_effective_from e) (eb_effective_to e) day) day"
      by blast
  qed
  show "pc_intent p = Validity \<longrightarrow> notes \<noteq> []"
    using ne rmapm_length [OF r] by auto
qed

text \<open>The evidence, the paths and the notes of a projection come from the retrieval context.\<close>

lemma projected_block:
  assumes ve: "validate_evidence digest (gr_context r) = Inr ve"
    and plan: "plan = compact casefold bdigest (gr_context r) ve composition"
    and proj: "project cfg r plan = Inr (Projected p)" and b: "b \<in> set (pc_evidence p)"
  obtains u where "u \<in> set (rc_units (gr_context r))" "b = to_evidence (u\<lparr>content_raw := py_strip (content_raw u)\<rparr>)"
proof -
  have "set (pc_evidence p) \<subseteq> (to_evidence \<circ> ec_unit) ` set (cp_candidates plan)"
    using projected_content [OF proj] by blast
  with b have "b \<in> (\<lambda>c. to_evidence (ec_unit c)) ` set (ve_candidates ve)"
    using compact_subsets(1) plan by fastforce
  from validated_block [OF this ve] that show thesis by blast
qed

lemma projected_path:
  assumes ve: "validate_evidence digest (gr_context r) = Inr ve"
    and plan: "plan = compact casefold bdigest (gr_context r) ve composition"
    and proj: "project cfg r plan = Inr (Projected p)" and b: "b \<in> set (pc_paths p)"
  obtains gp where "gp \<in> set (rc_paths (gr_context r))"
    "build_topology_path_fingerprint digest gp = Inr (pb_path_id b)" "pb_edges b = gp_edges gp"
proof -
  obtain alt :: alternative where "rmapm (path_of (paths_by_id (cp_paths plan))) (alt_paths alt) = Inr (pc_paths p)"
    using projected_content [OF proj] by blast
  from rmapm_set [OF this b] obtain vp where "vp \<in> set (cp_paths plan)" and vp: "b = to_path vp"
    by (auto dest: path_of_Inr)
  then have "vp \<in> set (ve_paths ve)" using compact_subsets(2) plan by fastforce
  with validate_evidence_Inr(2) [OF ve] vp show thesis
    by (intro that [of "vp_path vp"]) (auto simp: to_path_def)
qed

lemma block_fields:
  "b = to_evidence (u\<lparr>content_raw := py_strip (content_raw u)\<rparr>) \<Longrightarrow>
     eb_unit_id b = unit_id u \<and> eb_citation_label b = citation_label u \<and> eb_document_id b = unit_document_id u
     \<and> eb_deep_link b = deep_link u \<and> eb_content_raw b = py_strip (content_raw u)
     \<and> temporal_note b (in_force (eb_effective_from b) (eb_effective_to b) day) day
         = temporal_note (to_evidence u) (valid_on u day) day"
  by (simp add: to_evidence_def temporal_note_def valid_on_def)


subsection \<open>The provider protocol\<close>

lemma attempt_answer_requests:
  "length (go_requests (attempt_answer g r p reg diag)) \<le> 2
   \<and> (go_requests (attempt_answer g r p reg diag) \<noteq> []
        \<and> hd (go_requests (attempt_answer g r p reg diag)) = make_provider_request p reg)
   \<and> (\<forall>q1 q2. go_requests (attempt_answer g r p reg diag) = [q1, q2] \<longrightarrow>
        (\<exists>c e. ag_provider g 0 q1 = Inr c \<and> render_answer g p reg c = Inl e \<and> grounding_error e
           \<and> q2 = repair_request q1 e))"
  by (auto simp: attempt_answer_def attempt_repair_def Let_def outcome_def split: sum.splits)

lemma asked_after_checks:
  assumes "go_requests (generate g r) \<noteq> []"
  obtains ve plan p reg diag where
    "evaluate_sufficiency (ag_digest g) (gr_context r) = Inr Sufficient"
    "validate_evidence (ag_digest g) (gr_context r) = Inr ve"
    "plan = compact (ag_casefold g) (ag_bundle_digest g) (gr_context r) ve (gr_composition r)"
    "project (ag_config g) r plan = Inr (Projected p)"
    "evaluate_projected p plan = Sufficient"
    "build_registry p = Inr reg"
    "generate g r = attempt_answer g r p reg diag"
proof -
  let ?plan = "\<lambda>ve. compact (ag_casefold g) (ag_bundle_digest g) (gr_context r) ve (gr_composition r)"
  from assms obtain ve p where checks: "evaluate_sufficiency (ag_digest g) (gr_context r) = Inr Sufficient"
      "validate_evidence (ag_digest g) (gr_context r) = Inr ve"
      "project (ag_config g) r (?plan ve) = Inr (Projected p)"
    and gen: "generate g r = answer_projected g r ve (?plan ve) p"
    by (auto simp: generate_def Let_def outcome_def split: sum.splits sufficiency.splits projection_result.splits)
  from assms [unfolded gen] obtain reg diag where "build_registry p = Inr reg"
      "evaluate_projected p (?plan ve) = Sufficient"
      "answer_projected g r ve (?plan ve) p = attempt_answer g r p reg diag"
    by (auto simp: answer_projected_def Let_def outcome_def split: sum.splits sufficiency.splits)
  with checks gen show thesis by (intro that [OF _ _ refl]) simp_all
qed


subsection \<open>Compaction\<close>

text \<open>What the scan keeps and what it omits; \<open>seen\<close> maps a content key to a candidate that was kept.\<close>

lemma dedup_scan_sound:
  assumes "\<forall>k e. map_of seen k = Some e \<longrightarrow> content_key_of casefold e = k"
  shows "\<forall>c \<in> set cs. c \<in> set (fst (dedup_scan casefold protected cs seen))
      \<or> ec_id c \<notin> protected
        \<and> (\<exists>e. (e \<in> set (fst (dedup_scan casefold protected cs seen)) \<or> map_of seen (content_key_of casefold c) = Some e)
             \<and> content_key_of casefold e = content_key_of casefold c
             \<and> omission_of e c \<in> set (snd (dedup_scan casefold protected cs seen)))"
  using assms
proof (induction cs arbitrary: seen)
  case Nil
  show ?case by simp
next
  case (Cons c cs)
  let ?k = "content_key_of casefold c"
  note same = Cons.IH [OF Cons.prems]
  obtain ks os where same_eq: "dedup_scan casefold protected cs seen = (ks, os)" by fastforce
  obtain ks' os' where new_eq: "dedup_scan casefold protected cs (AList.update ?k c seen) = (ks', os')" by fastforce
  consider "ec_id c \<in> protected" | e where "ec_id c \<notin> protected" "map_of seen ?k = Some e"
    | "ec_id c \<notin> protected" "map_of seen ?k = None"
    by fastforce
  then show ?case
  proof cases
    case 1
    with same show ?thesis by (simp add: same_eq) blast
  next
    case (2 e)
    with Cons.prems have "content_key_of casefold e = ?k" by blast
    with 2 same show ?thesis by (simp add: same_eq) blast
  next
    case 3
    have "\<forall>k e. map_of (AList.update ?k c seen) k = Some e \<longrightarrow> content_key_of casefold e = k"
      using Cons.prems by (auto simp: update_conv' split: if_splits)
    note ih = Cons.IH [OF this]
    show ?thesis
    proof
      fix d
      assume "d \<in> set (c # cs)"
      then consider "d = c" | "d \<in> set cs" by auto
      then show "d \<in> set (fst (dedup_scan casefold protected (c # cs) seen))
        \<or> ec_id d \<notin> protected
          \<and> (\<exists>e. (e \<in> set (fst (dedup_scan casefold protected (c # cs) seen)) \<or> map_of seen (content_key_of casefold d) = Some e)
               \<and> content_key_of casefold e = content_key_of casefold d
               \<and> omission_of e d \<in> set (snd (dedup_scan casefold protected (c # cs) seen)))"
      proof cases
        case 1
        with 3 show ?thesis by (simp split: prod.splits)
      next
        case 2
        with ih have "d \<in> set (fst (dedup_scan casefold protected cs (AList.update ?k c seen)))
          \<or> ec_id d \<notin> protected \<and> (\<exists>e. (e \<in> set (fst (dedup_scan casefold protected cs (AList.update ?k c seen)))
                 \<or> map_of (AList.update ?k c seen) (content_key_of casefold d) = Some e)
               \<and> content_key_of casefold e = content_key_of casefold d
               \<and> omission_of e d \<in> set (snd (dedup_scan casefold protected cs (AList.update ?k c seen))))"
          by blast
        with 3 show ?thesis
          by (simp add: update_conv' new_eq split: if_splits) blast+
      qed
    qed
  qed
qed


end
