(* ===== verification/Comparison_Properties.thy ===== *)
theory Comparison_Properties
  imports Generation_Properties
begin

text \<open>
  Which comparisons the generation can answer. The sufficiency policy and the compaction
  (\<open>src/generation/sufficiency.py\<close>, \<open>evidence_compaction.py\<close>) accept a comparison through an AMENDS or
  REPLACES path or through the operands of a composition; the check of the projection
  (\<open>projected_validation.py\<close>) counts version keys, which only a version family gives.
\<close>

subsection \<open>Groups and dictionaries\<close>

text \<open>The groups collected by a loop that skips the elements without a key.\<close>

lemma fold_groups_lookup:
  "map_of (fold (\<lambda>u d. case key u of None \<Rightarrow> d | Some k \<Rightarrow> add_to_group k (val u) d) us d0) k =
     (let new = map val (filter (\<lambda>u. key u = Some k) us)
      in case map_of d0 k of Some ys \<Rightarrow> Some (ys @ new) | None \<Rightarrow> if new = [] then None else Some new)"
proof (induction us arbitrary: d0)
  case Nil
  then show ?case by (auto split: option.splits)
next
  case (Cons u us)
  show ?case
  proof (cases "key u")
    case None
    with Cons show ?thesis by simp
  next
    case (Some j)
    have "map_of (add_to_group j (val u) d0) i =
        (if i = j then Some ((case map_of d0 j of None \<Rightarrow> [] | Some ys \<Rightarrow> ys) @ [val u]) else map_of d0 i)" for i
      by (auto simp: add_to_group_def update_conv' map_add_def split: option.splits)
    with Some show ?thesis by (simp add: Cons.IH Let_def split: option.splits)
  qed
qed

lemma fold_setdefault_entries:
  "set (fold (\<lambda>c d. case key c of None \<Rightarrow> d | Some k \<Rightarrow> setdefault (k, val c) c d) cs d0)
     \<subseteq> set d0 \<union> {((k, v), c). c \<in> set cs \<and> key c = Some k \<and> val c = v}
   \<and> (distinct (map fst d0) \<longrightarrow>
        distinct (map fst (fold (\<lambda>c d. case key c of None \<Rightarrow> d | Some k \<Rightarrow> setdefault (k, val c) c d) cs d0)))"
proof (induction cs arbitrary: d0)
  case Nil
  then show ?case by simp
next
  case (Cons c cs)
  show ?case
  proof (cases "key c")
    case None
    with Cons.IH [of d0] show ?thesis by auto
  next
    case (Some k)
    have "set (setdefault (k, val c) c d0) \<subseteq> insert ((k, val c), c) (set d0)" by (auto simp: setdefault_def)
    with Some Cons.IH [of "setdefault (k, val c) c d0"] distinct_setdefault [of d0 "(k, val c)" c]
    show ?thesis by auto
  qed
qed

subsection \<open>Version families\<close>

lemma versions_by_key_entries:
  "((f, doc), c) \<in> set (versions_by_key cs) \<Longrightarrow>
     c \<in> set cs \<and> version_family_id (ec_unit c) = Some f \<and> unit_document_id (ec_unit c) = doc"
  "distinct (map fst (versions_by_key cs))"
  using fold_setdefault_entries [of "\<lambda>c. unit_document_id (ec_unit c)" "\<lambda>c. version_family_id (ec_unit c)" cs "[]"]
  by (auto simp: versions_by_key_def)

lemma version_family_members:
  assumes "(f, members) \<in> set (version_families cs)" and "\<not> length members < 2"
  obtains c1 c2 where "c1 \<in> set cs" "c2 \<in> set cs" "version_family_id (ec_unit c1) = Some f"
    "version_family_id (ec_unit c2) = Some f" "unit_document_id (ec_unit c1) \<noteq> unit_document_id (ec_unit c2)"
proof -
  let ?v = "versions_by_key cs"
  let ?d = "fold (\<lambda>((f, doc), c) d. add_to_group f c d) ?v []"
  have d: "?d = fold (\<lambda>u d. case Some (fst (fst u)) of None \<Rightarrow> d | Some k \<Rightarrow> add_to_group k (snd u) d) ?v []"
    by (rule fold_cong [OF refl refl]) (simp add: split_def)
  have groups: "distinct (map fst (fold (\<lambda>u d. case Some (fst (fst u)) of None \<Rightarrow> d | Some k \<Rightarrow> add_to_group k (snd u) d) us d0))"
    if "distinct (map fst d0)" for us :: "((str \<times> str) \<times> evidence_candidate) list" and d0
    using that
    by (induction us arbitrary: d0)
      (auto simp: add_to_group_def map_of_eq_None_iff distinct_update intro!: split: option.splits)
  have "(f, members) \<in> set ?d" using assms(1) by (simp add: version_families_def)
  then have "map_of ?d f = Some members" using groups [of "[]" ?v] d by simp
  then have members: "members = map snd (filter (\<lambda>u. fst (fst u) = f) ?v)"
    unfolding d fold_groups_lookup by (simp add: Let_def split: if_splits)
  let ?w = "filter (\<lambda>u. fst (fst u) = f) ?v"
  have "2 \<le> length ?w" using assms(2) members by simp
  then obtain x y rest where w: "?w = x # y # rest" by (metis One_nat_def Suc_1 Suc_le_length_iff)
  have "distinct (map fst ?w)" using versions_by_key_entries(2) distinct_map_filter by blast
  then have ne: "fst x \<noteq> fst y" by (simp add: w)
  have in_v: "x \<in> set ?v \<and> fst (fst x) = f" "y \<in> set ?v \<and> fst (fst y) = f"
    using arg_cong [OF w, of set] by auto
  obtain dx cx dy cy where xy: "x = ((f, dx), cx)" "y = ((f, dy), cy)" using in_v by (metis prod.collapse)
  with in_v have "((f, dx), cx) \<in> set ?v" "((f, dy), cy) \<in> set ?v" by simp_all
  from versions_by_key_entries(1) [OF this(1)] versions_by_key_entries(1) [OF this(2)] ne xy
  show thesis by (intro that [of cx cy]) auto
qed

lemma family_verifiedI:
  assumes "u1 \<in> set us" "u2 \<in> set us" "version_family_id u1 = Some f" "version_family_id u2 = Some f"
    and "unit_document_id u1 \<noteq> unit_document_id u2"
  shows "family_verified us"
proof -
  let ?new = "map unit_document_id (filter (\<lambda>u. version_family_id u = Some f) us)"
  have "map_of (family_documents us) f = Some ?new"
    using assms(1,3) unfolding family_documents_def fold_groups_lookup by (auto simp: Let_def filter_empty_conv)
  then have "(f, ?new) \<in> set (family_documents us)" by (rule map_of_SomeD)
  moreover have "card {unit_document_id u1, unit_document_id u2} \<le> card (set ?new)"
    by (rule card_mono) (use assms in auto)
  then have "2 \<le> card (set ?new)" using assms(5) by simp
  ultimately show ?thesis unfolding family_verified_def list_ex_iff by (intro bexI) simp_all
qed

subsection \<open>Comparisons\<close>

lemma path_bundle_versions: "b \<in> set (path_bundle digest i d p) \<Longrightarrow> bc_version_keys (bn_content b) = []"
  by (simp add: path_bundle_def make_bundle_def Let_def)

lemma composition_bundles_versions:
  "composition_bundles digest i d ops = Some bs \<Longrightarrow> b \<in> set bs \<Longrightarrow> bc_version_keys (bn_content b) = []"
  by (induction ops arbitrary: bs) (auto simp: make_bundle_def Let_def split: list.splits option.splits)

lemma required_without_versions:
  assumes "rc_intent ctx = Comparison" and "\<forall>fam \<in> set (version_families cs). length (snd fam) < 2"
    and "bs \<in> set (required_bundles digest ctx cs ps composition)" and "b \<in> set bs"
  shows "bc_version_keys (bn_content b) = []"
proof -
  have "filter (\<lambda>fam. \<not> length (snd fam) < 2) (version_families cs) = []"
    using assms(2) by (simp add: filter_empty_conv)
  with assms show ?thesis
    by (auto simp: required_bundles_def comparison_bundles_def relation_goal_bundles_def Let_def
        dest: path_bundle_versions composition_bundles_versions [OF sym] split: option.splits)
qed

lemma admitted_subset: "set (dict_values (admitted_bundles p plan)) \<subseteq> set (concat (cp_required plan))"
proof -
  have "set (map snd (fold (\<lambda>b d. AList.update (bn_id b) b d) bs d)) \<subseteq> set bs \<union> set (map snd d)"
    for bs :: "evidence_bundle list" and d
  proof (induction bs arbitrary: d)
    case (Cons b bs)
    have "set (map snd (AList.update (bn_id b) b d)) \<subseteq> insert b (set (map snd d))"
      by (induction d) auto
    with Cons [of "AList.update (bn_id b) b d"] show ?case by auto
  qed simp
  from this [of "filter (\<lambda>b. bn_id b \<in> set (pc_bundle_ids p)) (concat (cp_required plan))" "[]"]
  show ?thesis by (auto simp: admitted_bundles_def dict_values_def)
qed


end
