(* ===== verification/Answer_Properties.thy ===== *)
theory Answer_Properties
  imports Comparison_Properties
begin

text \<open>
  Rendering and rejection of answers (\<open>src/generation/renderer.py\<close>, \<open>grounding.py\<close>, \<open>service.py\<close>): a
  candidate that passes the checks is always rendered, a rejection is always one of the errors that are
  repaired, and markdown in a statement is neutralised without losing text. The second part holds a sample
  request on which the properties of the generation are applied.
\<close>

subsection \<open>Rendering\<close>

text \<open>The reading of escaped markdown: a backslash stands for the character after it.\<close>

fun unescape_markdown :: "str \<Rightarrow> str" where
  "unescape_markdown [] = []"
| "unescape_markdown [c] = [c]"
| "unescape_markdown (c # d # s) =
     (if c = CHR 0x5C then d # unescape_markdown s else c # unescape_markdown (d # s))"

lemma escape_markdown_Cons:
  "escape_markdown (c # s) = (if c \<in> set markdown_special then [CHR 0x5C, c] else [c]) @ escape_markdown s"
  by (simp add: escape_markdown_def)

lemma unescape_plain: "c \<noteq> CHR 0x5C \<Longrightarrow> unescape_markdown (c # s) = c # unescape_markdown s"
  by (cases s) auto

text \<open>A character has its markdown meaning when no backslash stands before it.\<close>

fun active_specials :: "str \<Rightarrow> char list" where
  "active_specials [] = []"
| "active_specials [c] = (if c \<in> set markdown_special then [c] else [])"
| "active_specials (c # d # s) =
     (if c = CHR 0x5C then active_specials s
      else if c \<in> set markdown_special then c # active_specials (d # s) else active_specials (d # s))"

lemma active_plain: "c \<notin> set markdown_special \<Longrightarrow> active_specials (c # s) = active_specials s"
  by (cases s) (auto simp: markdown_special_def)

text \<open>
  C27: Markdown in a statement of the model is neutralised and no text is lost: reading the escaped text
  gives the statement back, and none of its special characters is active.
\<close>

theorem escape_markdown_roundtrip:
  "unescape_markdown (escape_markdown s) = s \<and> active_specials (escape_markdown s) = []"
proof (induction s)
  case Nil
  show ?case by (simp add: escape_markdown_def)
next
  case (Cons c s)
  have "CHR 0x5C \<in> set markdown_special" by (simp add: markdown_special_def)
  then have "c \<notin> set markdown_special \<Longrightarrow> c \<noteq> CHR 0x5C" by blast
  with Cons show ?case
    by (cases "c \<in> set markdown_special") (auto simp: escape_markdown_Cons unescape_plain active_plain)
qed

lemma render_citations_total:
  "sct_id ` set cs \<subseteq> fst ` set ord \<Longrightarrow> render_citations ord cs \<noteq> None"
proof (induction cs)
  case Nil
  show ?case by simp
next
  case (Cons c cs)
  then have "map_of ord (sct_id c) \<noteq> None" by (auto simp: map_of_eq_None_iff)
  with Cons show ?case by auto
qed

lemma collect_some_total: "\<forall>x \<in> set xs. f x \<noteq> None \<Longrightarrow> collect_some f xs \<noteq> None"
  by (induction xs) auto

lemma render_paragraph_total:
  assumes "\<forall>s \<in> set p. sct_id ` set (gs_citations s) \<subseteq> fst ` set ord"
  shows "render_paragraph ord p \<noteq> None"
proof -
  have "\<forall>s \<in> set p. render_statement ord s \<noteq> None"
    using assms render_citations_total by (auto simp: render_statement_def)
  from collect_some_total [OF this] show ?thesis by (auto simp: render_paragraph_def)
qed

lemma render_candidate_total:
  assumes "\<forall>s \<in> set (iter_candidate_statements c). sct_id ` set (gs_citations s) \<subseteq> fst ` set ord"
  shows "render_candidate c ord \<noteq> None"
proof -
  let ?direct = "case ac_direct c of None \<Rightarrow> [] | Some ps \<Rightarrow> ps"
  have par: "render_paragraph ord p \<noteq> None" if "set p \<subseteq> set (iter_candidate_statements c)" for p
    using assms that by (intro render_paragraph_total) blast
  have "set p \<subseteq> set (iter_candidate_statements c)" if "p \<in> set ?direct" for p
    using that by (auto simp: iter_candidate_statements_def)
  then have "collect_some (render_paragraph ord) ?direct \<noteq> None"
    using par by (intro collect_some_total ballI) blast
  moreover have "collect_some (render_section ord) (ac_sections c) \<noteq> None"
  proof (intro collect_some_total ballI)
    fix sec
    assume sec: "sec \<in> set (ac_sections c)"
    have "set p \<subseteq> set (iter_candidate_statements c)" if "p \<in> set (as_paragraphs sec)" for p
      using that sec by (auto simp: iter_candidate_statements_def)
    then have "collect_some (render_paragraph ord) (as_paragraphs sec) \<noteq> None"
      using par by (intro collect_some_total ballI) blast
    then show "render_section ord sec \<noteq> None" by (auto simp: render_section_def)
  qed
  moreover have "collect_some (render_paragraph ord) (ac_caveats c) \<noteq> None"
  proof (intro collect_some_total ballI)
    fix p
    assume "p \<in> set (ac_caveats c)"
    then have "set p \<subseteq> set (iter_candidate_statements c)" by (auto simp: iter_candidate_statements_def)
    then show "render_paragraph ord p \<noteq> None" by (rule par)
  qed
  ultimately show ?thesis by (auto simp: render_candidate_def)
qed

lemma citation_ordinals_keys: "fst ` set (citation_ordinals order) = set order"
proof -
  have "map fst (citation_ordinals order) = map snd (enumerate 1 order)"
    by (simp add: citation_ordinals_def split_def comp_def)
  then have "set (map fst (citation_ordinals order)) = set (map snd (enumerate 1 order))" by simp
  then show ?thesis by (simp only: map_snd_enumerate set_map)
qed

subsection \<open>Rejections\<close>

lemma check_citations_Inl: "check_citations nfc ed cs quotes = Inl e \<Longrightarrow> grounding_error e"
  by (induction cs arbitrary: quotes) (auto split: option.splits if_splits)

lemma check_statements_Inl: "check_statements nfc ed ss quotes = Inl e \<Longrightarrow> grounding_error e"
  by (induction ss arbitrary: quotes) (auto simp: rbind_def check_citations_Inl split: if_splits sum.splits)

lemma check_paths_Inl: "check_paths p reg ss = Inl e \<Longrightarrow> grounding_error e"
  by (auto simp: check_paths_def check_path_def Let_def split: if_splits option.splits dest!: rmapm_Inl)

lemma check_assertions_Inl: "check_assertions p ed ts ss = Inl e \<Longrightarrow> grounding_error e"
  by (auto simp: check_assertions_def validate_temporal_def Let_def split: if_splits option.splits dest!: rmapm_Inl)

text \<open>
  C26: A rejected answer can always be repaired. The checks of a candidate fail only with the grounding
  errors that the service turns into a repair request: no identifier is looked up in vain, a candidate
  that passes the checks is rendered, and a candidate that declines is passed on.
\<close>

theorem rejections_are_repairable:
  "case validate_and_render nfc c p reg pn mn of
     Inl e \<Rightarrow> grounding_error e \<and> \<not> ac_cannot_answer c
   | Inr a \<Rightarrow> ans_cannot_answer a = ac_cannot_answer c"
proof (cases "validate_and_render nfc c p reg pn mn")
  case (Inr a)
  then show ?thesis
    by (auto simp: validate_and_render_def declined_answer_def Let_def rbind_Inr_iff split: if_splits option.splits)
next
  case (Inl e)
  let ?ed = "entries_by_id (reg_entries reg)" and ?ss = "iter_candidate_statements c"
  from Inl have n: "\<not> ac_cannot_answer c" by (auto simp: validate_and_render_def)
  show ?thesis
  proof (cases "check_statements nfc ?ed ?ss []")
    case (Inl f)
    then show ?thesis using \<open>validate_and_render nfc c p reg pn mn = Inl e\<close> n check_statements_Inl [OF Inl]
      by (simp add: validate_and_render_def Let_def rbind_def)
  next
    case (Inr quotes)
    note facts = check_statements_Inr [OF Inr]
    have "\<forall>s \<in> set ?ss. sct_id ` set (gs_citations s) \<subseteq> fst ` set (citation_ordinals (dict_keys quotes))"
      unfolding citation_ordinals_keys dict_keys_def set_map using facts by blast
    from render_candidate_total [OF this] obtain out where "render_candidate c (citation_ordinals (dict_keys quotes)) = Some out"
      by blast
    with Inr Inl n have "check_paths p reg ?ss = Inl e \<or> check_assertions p ?ed (ac_assertions c) ?ss = Inl e"
      by (auto simp: validate_and_render_def Let_def rbind_def split: sum.splits)
    with Inl n check_paths_Inl check_assertions_Inl show ?thesis by auto
  qed
qed

text \<open>
  C31: A quotation of white space proves nothing and is accepted: a statement that cites a unit of the
  registry with a single blank as its verbatim quotation is well formed and passes the citation check,
  whatever the unit says. Unicode normalisation leaves a blank as it is.
\<close>

theorem blank_quote_accepted:
  assumes "nfc '' '' = '' ''" and "map_of (entries_by_id es) i = Some e" and "i \<noteq> []"
  shows "statement_ok \<lparr>gs_id = ''s1'', gs_text = ''claim'', gs_citations = [\<lparr>sct_id = i, sct_quote = '' ''\<rparr>],
           gs_path_ids = [], gs_assertion_ids = []\<rparr>
    \<and> check_citations nfc (entries_by_id es) [\<lparr>sct_id = i, sct_quote = '' ''\<rparr>] [] = Inr [(i, '' '')]"
proof -
  have "label_text ''s1''" by code_simp
  moreover have "normalize_for_match (\<lambda>x. x) '' '' = []" by code_simp
  then have "normalize_for_match nfc '' '' = []" by (simp add: normalize_for_match_def assms(1))
  then have "verbatim_quote nfc '' '' t" for t by (simp add: verbatim_quote_def)
  ultimately show ?thesis
    using assms(2,3) by (simp add: statement_ok_def linked_ids_ok_def setdefault_def)
qed

theorem blank_quote_accepted_witness:
  "check_citations (\<lambda>s. s) (entries_by_id [to_evidence (sample_unit ''A'')]) [\<lparr>sct_id = ''A'', sct_quote = '' ''\<rparr>] []
     = Inr [(''A'', '' '')]"
proof -
  have "map_of (entries_by_id [to_evidence (sample_unit ''A'')]) ''A'' = Some (to_evidence (sample_unit ''A''))"
    by (simp add: entries_by_id_def to_evidence_def sample_unit_def)
  from blank_quote_accepted [of "\<lambda>s. s", OF refl this] show ?thesis by simp
qed

subsection \<open>A sample request\<close>

text \<open>
  A validity question about one article in force since day 10, asked for day 30, and a model whose first
  answer misquotes the article and whose second answer quotes it and asserts its validity.
\<close>

definition sample_article :: retrieved_unit where
  "sample_article = (sample_unit ''A'')\<lparr>article_id := Some ''A'', citation_label := ''Art. 1'', deep_link := ''/D#A''\<rparr>"

definition sample_answer_context :: retrieval_context where
  "sample_answer_context =
     \<lparr>rc_query = ''q'', rc_intent = Validity, rc_strategy = ValidityTemporal, rc_temporal = sample_temporal,
      rc_temporal_source = QueryExpression, rc_reason_code = MultiHopExplicit, rc_force_intent_used = False,
      rc_executed_channels = [VectorChannel], rc_filters_applied = no_filters, rc_reranker_applied = False,
      rc_supported = True, rc_requirement = None, rc_plan_execution = None, rc_units = [sample_article],
      rc_paths = [], rc_evidence = [\<lparr>ev_unit_id = ''A'', ev_type = EvVector, ev_matched_text = None,
        ev_score = None, ev_source_path = None, ev_eligible = True\<rparr>],
      rc_metrics = \<lparr>met_seed_channel_count = 1, met_vector_hits = 1, met_fulltext_hits = 0,
        met_seed_fused_count = 1, met_graph_expansion_count = 0, met_direct_negative_validity = False,
        met_graph_paths_count = 0, met_generic_graph_paths_count = 0, met_graph_units_count = 0,
        met_resolved_reference_count = 0, met_canonical_anchor_count = 0,
        met_canonical_anchor_hydrated_count = 0, met_relation_goal = None,
        met_temporal_rejected_path_count = 0, met_malformed_path_count = 0, met_temporal_filtered_count = 0,
        met_planned_execution_count = 0, met_planned_reason_code = None\<rparr>,
      rc_total_evidence = 1, rc_eligible_evidence = 1, rc_mode = VectorOnly, rc_confidence_penalty = True,
      rc_references = [], rc_relation_goal = None\<rparr>"

definition sample_generation_request :: generation_request where
  "sample_generation_request =
     \<lparr>gr_query = ''q'', gr_context = sample_answer_context, gr_history = [], gr_composition = None\<rparr>"

definition sample_candidate :: "str \<Rightarrow> answer_candidate" where
  "sample_candidate quoted =
     \<lparr>ac_direct = Some [[\<lparr>gs_id = ''s1'', gs_text = ''claim'', gs_citations = [\<lparr>sct_id = ''A'', sct_quote = quoted\<rparr>],
        gs_path_ids = [], gs_assertion_ids = [''t1'']\<rparr>]],
      ac_sections = [], ac_caveats = [],
      ac_assertions = [\<lparr>ta_id = ''t1'', ta_subject = ''A'', ta_date = 30, ta_valid = True, ta_scope = ScopeUnit\<rparr>],
      ac_confidence = 0, ac_cannot_answer = False, ac_reason = None\<rparr>"

definition sample_generator :: generator where
  "sample_generator =
     \<lparr>ag_nfc = (\<lambda>s. s), ag_casefold = (\<lambda>s. s), ag_digest = id_digest, ag_bundle_digest = (\<lambda>c. ''0''),
      ag_config = default_generation_config,
      ag_provider = (\<lambda>n q. Inr (sample_candidate (if n = 0 then ''other'' else ''tex''))),
      ag_provider_name = ''p'', ag_model_name = ''m''\<rparr>"

text \<open>The matching of a marker, one character at a time, for the evaluation below.\<close>

fun match_ci :: "str \<Rightarrow> str \<Rightarrow> bool" where
  "match_ci [] s \<longleftrightarrow> True"
| "match_ci (m # ms) s \<longleftrightarrow>
     list_ex (\<lambda>a. if prefix a s then match_ci ms (drop (length a) s) else False) (ci_char m)"

lemma injection_at_code [code]: "injection_at s = list_ex (\<lambda>m. match_ci m s) injection_markers"
proof -
  have "match_prefix (map ci_char m) s = match_ci m s" for m s
    by (induction m arbitrary: s) (auto simp: list_ex_iff)
  then show ?thesis by (simp add: injection_at_def)
qed

definition sample_block_candidate :: evidence_candidate where
  "sample_block_candidate = \<lparr>ec_unit = sample_article, ec_rank = 0, ec_eligible = True\<rparr>"

definition sample_evidence :: validated_evidence where
  "sample_evidence = \<lparr>ve_candidates = [sample_block_candidate], ve_paths = []\<rparr>"

definition sample_bundle :: evidence_bundle where
  "sample_bundle =
     \<lparr>bn_id = ''bundle_0'', bn_content = \<lparr>bc_intent = Validity, bc_unit_ids = [''A''], bc_path_ids = [],
        bc_temporal_subjects = [''A''], bc_version_keys = [], bc_operand = None\<rparr>, bn_source_rank = 0\<rparr>"

definition sample_plan_of_evidence :: compaction_plan where
  "sample_plan_of_evidence =
     \<lparr>cp_candidates = [sample_block_candidate], cp_paths = [], cp_authoritative = [],
      cp_required = [[sample_bundle]], cp_omitted = [], cp_composition = None\<rparr>"

lemmas sample_generation_defs = sample_article_def sample_answer_context_def sample_generation_request_def
  sample_block_candidate_def sample_evidence_def sample_bundle_def sample_plan_of_evidence_def
  sample_unit_def sample_temporal_def no_filters_def

lemma sample_sufficient: "evaluate_sufficiency id_digest sample_answer_context = Inr Sufficient"
  by code_simp

lemma sample_unit_valid:
  "validate_unit no_filters sample_article = Inr sample_article"
  by code_simp

lemma sample_ids [simp]: "unit_id sample_article = ''A''" "ec_id sample_block_candidate = ''A''"
  "ec_unit sample_block_candidate = sample_article"
  by (simp_all add: sample_article_def sample_unit_def sample_block_candidate_def)

lemma sample_validated: "validate_evidence id_digest sample_answer_context = Inr sample_evidence"
  by (simp add: validate_evidence_def validate_candidate_def Let_def rbind_def sample_unit_valid
      sample_answer_context_def sample_evidence_def sample_block_candidate_def)

lemma sample_compacted:
  "compact (\<lambda>s. s) (\<lambda>c. ''0'') sample_answer_context sample_evidence None = sample_plan_of_evidence"
  by code_simp

lemma sample_cost: "block_cost (to_evidence sample_article) < 1000"
  by code_simp

lemma py_len_le: "py_len s \<le> length s"
  by (simp add: py_len_def)

lemma sample_budget: "evidence_budget default_generation_config sample_generation_request > 1000"
proof -
  have "length system_instruction < 6000" by (simp add: system_instruction_def)
  moreover have "length (dumps_spaced (jobj (routing_fields ''q'' sample_answer_context))) < 1000" by code_simp
  ultimately have "fixed_overhead sample_generation_request < 8000"
    using py_len_le [of system_instruction]
      py_len_le [of "dumps_spaced (jobj (routing_fields ''q'' sample_answer_context))"]
    by (simp add: fixed_overhead_def sample_generation_request_def)
  then show ?thesis by (simp add: evidence_budget_def default_generation_config_def)
qed

definition sample_projection :: projected_context where
  "sample_projection =
     \<lparr>pc_query = ''q'', pc_intent = Validity, pc_strategy = ValidityTemporal, pc_temporal_source = QueryExpression,
      pc_resolved_from = Some 30, pc_resolved_to = Some 30, pc_relation_goal = None, pc_anchor_ids = [],
      pc_composition = None, pc_evidence = [to_evidence sample_article], pc_paths = [],
      pc_bundle_ids = [''bundle_0''], pc_selected = [''A''], pc_omitted = [],
      pc_budget = \<lparr>bud_total = gcf_context_max_chars default_generation_config,
        bud_overhead = fixed_overhead sample_generation_request,
        bud_evidence = nat (evidence_budget default_generation_config sample_generation_request),
        bud_reserve = gcf_safety_reserve_chars default_generation_config,
        bud_used = block_cost (to_evidence sample_article)\<rparr>,
      pc_truncated = False\<rparr>"

lemma sample_evidence_of:
  "evidence_of (candidates_by_id [sample_block_candidate]) ''A'' = Inr (to_evidence sample_article)"
proof -
  have "evidence_block_ok (to_evidence sample_article)"
    by (simp add: evidence_block_ok_def to_evidence_def sample_article_def sample_unit_def)
  then show ?thesis
    by (simp add: evidence_of_def lookup_def candidates_by_id_def make_evidence_def rbind_def)
qed

lemma sample_projected:
  "project default_generation_config sample_generation_request sample_plan_of_evidence = Inr (Projected sample_projection)"
proof -
  let ?cd = "candidates_by_id [sample_block_candidate]"
  let ?alt = "\<lparr>alt_bundles = [sample_bundle], alt_units = [''A''], alt_paths = [],
    alt_cost = block_cost (to_evidence sample_article)\<rparr>"
  let ?budget = "evidence_budget default_generation_config sample_generation_request"
  have history: "validate_history default_generation_config (gr_history sample_generation_request) = Inr ()"
    by (simp add: validate_history_def sample_generation_request_def require_def rbind_def)
  have parts: "cp_candidates sample_plan_of_evidence = [sample_block_candidate]" "cp_paths sample_plan_of_evidence = []"
    "cp_required sample_plan_of_evidence = [[sample_bundle]]" "cp_omitted sample_plan_of_evidence = []"
    "cp_composition sample_plan_of_evidence = None"
    by (simp_all add: sample_plan_of_evidence_def)
  have alt: "make_alternative ?cd [] [sample_bundle] = Inr ?alt"
    by (simp add: make_alternative_def sample_bundle_def stable_unique_def sample_evidence_of rbind_def Let_def)
  have chosen: "choose_alternative ?budget [?alt] = Some ?alt"
    using sample_cost sample_budget by (simp add: choose_alternative_def)
  have "finish_projection default_generation_config sample_generation_request sample_plan_of_evidence ?alt
      = Inr (Projected sample_projection)"
    unfolding finish_projection_def Let_def parts
    by (simp add: sample_evidence_of rbind_def make_projection_def projection_ok_def sample_projection_def
        project_composition_def sample_generation_request_def sample_answer_context_def sample_temporal_def
        to_evidence_def sample_bundle_def reference_ids_def)
  then show ?thesis
    using sample_budget alt chosen
    by (simp add: project_def history parts rbind_def paths_by_id_def)
qed

lemma sample_projected_sufficient: "evaluate_projected sample_projection sample_plan_of_evidence = Sufficient"
  by (simp add: evaluate_projected_def Let_def admitted_bundles_def sample_projection_def
      sample_plan_of_evidence_def sample_bundle_def bundle_fault_def composition_incomplete_def
      intent_fault_def temporal_incomplete_def dict_values_def entries_by_id_def to_evidence_def
      sample_article_def sample_unit_def)

definition sample_registry :: evidence_registry where
  "sample_registry = \<lparr>reg_entries = [to_evidence sample_article], reg_citation_ids = [''A''], reg_path_ids = []\<rparr>"

lemma sample_registered: "build_registry sample_projection = Inr sample_registry"
  by (simp add: build_registry_def make_registry_def sample_projection_def sample_registry_def to_evidence_def)

lemma sample_quotes:
  "\<not> verbatim_quote (\<lambda>s. s) ''other'' ''text''" "verbatim_quote (\<lambda>s. s) ''tex'' ''text''"
  by code_simp+

lemma sample_entries: "entries_by_id (reg_entries sample_registry) = [(''A'', to_evidence sample_article)]"
  by (simp add: entries_by_id_def sample_registry_def to_evidence_def)

lemma sample_content: "eb_content_raw (to_evidence sample_article) = ''text''"
  by (simp add: to_evidence_def sample_article_def sample_unit_def)

lemma sample_rejected:
  "render_answer sample_generator sample_projection sample_registry (sample_candidate ''other'') = Inl (QuoteNotVerbatim ''A'')"
proof -
  have "py_strip ''claim'' = ''claim''" by code_simp
  then show ?thesis
    by (simp add: render_answer_def validate_and_render_def sample_candidate_def sample_generator_def Let_def
        iter_candidate_statements_def sample_entries sample_content sample_quotes rbind_def)
qed

lemma sample_accepted:
  "\<exists>a. render_answer sample_generator sample_projection sample_registry (sample_candidate ''tex'') = Inr a
     \<and> \<not> ans_cannot_answer a \<and> length (ans_notes a) = 1"
proof -
  have strip: "py_strip ''claim'' = ''claim''" by code_simp
  have unique: "stable_unique [''t1''] = [''t1'']" "stable_unique [] = ([] :: str list)"
    by (simp_all add: stable_unique_def)
  show ?thesis
    by (simp add: render_answer_def validate_and_render_def sample_candidate_def sample_generator_def Let_def
        iter_candidate_statements_def sample_entries sample_content sample_quotes rbind_def strip unique
        check_paths_def check_assertions_def assertions_by_id_def validate_temporal_def sample_projection_def
        in_force_def setdefault_def citation_ordinals_def dict_keys_def render_candidate_def render_paragraph_def
        render_statement_def to_evidence_def sample_article_def sample_unit_def)
qed

lemma sample_generation_ok:
  "\<exists>a. go_result (generate sample_generator sample_generation_request) = Inr a \<and> \<not> ans_cannot_answer a
     \<and> length (ans_notes a) = 1 \<and> length (go_requests (generate sample_generator sample_generation_request)) = 2"
proof -
  have g: "ag_digest sample_generator = id_digest" "ag_casefold sample_generator = (\<lambda>s. s)"
    "ag_bundle_digest sample_generator = (\<lambda>c. ''0'')" "ag_config sample_generator = default_generation_config"
    "ag_provider sample_generator n q = Inr (sample_candidate (if n = 0 then ''other'' else ''tex''))" for n q
    by (simp_all add: sample_generator_def)
  have r: "gr_context sample_generation_request = sample_answer_context" "gr_composition sample_generation_request = None"
    by (simp_all add: sample_generation_request_def)
  show ?thesis
    using sample_accepted
    by (auto simp: generate_def g r sample_sufficient sample_validated sample_compacted sample_projected
        answer_projected_def sample_projected_sufficient sample_registered attempt_answer_def sample_rejected
        attempt_repair_def rbind_def outcome_def Let_def)
qed





text \<open>Two articles joined by an AMENDS path: sufficient evidence, and the model is never asked.\<close>

definition sample_comparison_request :: generation_request where
  "sample_comparison_request = sample_generation_request\<lparr>gr_context := sample_answer_context\<lparr>
     rc_intent := Comparison, rc_paths := [sample_path]\<rparr>\<rparr>"


end
