(* ===== verification/Chat_Snapshot.thy ===== *)
theory Chat_Snapshot
  imports Answer_Service
begin

text \<open>
  The payloads of the chat stream (\<open>apps/backend/api/models.py\<close>), the snapshots of a turn and their
  replay as a sequence of events (\<open>apps/backend/conversation/snapshot.py\<close>), the derived titles
  (\<open>conversation/title.py\<close>) and the greetings (\<open>services/conversation.py\<close>).
\<close>

subsection \<open>Characters\<close>

text \<open>A text as its list of characters, each the bytes of one code point; \<open>len\<close> and slices count these.\<close>

definition continuation :: "char \<Rightarrow> bool" where
  "continuation c \<longleftrightarrow> 128 \<le> (of_char c :: nat) \<and> (of_char c :: nat) < 192"

function py_chars :: "str \<Rightarrow> str list" where
  "py_chars [] = []"
| "py_chars (c # cs) = (c # takeWhile continuation cs) # py_chars (dropWhile continuation cs)"
  by pat_completeness auto
termination
  by (relation "measure length") (auto simp: length_dropWhile_le less_Suc_eq_le)

definition py_take :: "nat \<Rightarrow> str \<Rightarrow> str" where
  "py_take n s = concat (take n (py_chars s))"

lemma concat_py_chars [simp]: "concat (py_chars s) = s"
  by (induction s rule: py_chars.induct) simp_all

fun slices :: "nat \<Rightarrow> 'a list \<Rightarrow> 'a list list" where
  "slices n xs = (if n = 0 \<or> xs = [] then [] else take n xs # slices n (drop n xs))"

declare slices.simps [simp del]

lemma concat_slices: "0 < n \<Longrightarrow> concat (slices n xs) = xs"
  by (induction n xs rule: slices.induct) (subst slices.simps, auto)

lemma slices_bounds: "y \<in> set (slices n xs) \<Longrightarrow> y \<noteq> [] \<and> length y \<le> n"
  by (induction n xs rule: slices.induct) (subst (asm) (2) slices.simps, auto split: if_splits)

text \<open>\<open>_chunks\<close>\<close>

definition chunks :: "nat \<Rightarrow> str \<Rightarrow> str list" where
  "chunks n s = map concat (slices n (py_chars s))"

lemma concat_chunks: "0 < n \<Longrightarrow> concat (chunks n s) = s"
proof -
  assume "0 < n"
  then have "concat (concat (slices n (py_chars s))) = s" by (simp add: concat_slices)
  moreover have "concat (map concat xss) = concat (concat xss)" for xss :: "str list list"
    by (induction xss) simp_all
  ultimately show ?thesis by (simp add: chunks_def)
qed

subsection \<open>Payloads\<close>

record chat_reference =
  crf_mention :: str
  crf_node_id :: str
  crf_node_type :: str
  crf_label :: str
  crf_document_id :: str
  crf_method :: str
  crf_source :: str

record chat_metadata =
  cm_sources :: "retrieved_unit list"
  cm_intent :: str
  cm_strategy :: str
  cm_mode :: str
  cm_retrieval_version :: str
  cm_answer_version :: str
  cm_cannot_answer :: bool
  cm_needs_clarification :: bool
  cm_resolution :: "str option"
  cm_insufficiency :: "str option"
  cm_references :: "chat_reference list"
  cm_relation_goal :: "str option"

record chat_citation =
  cc_ordinal :: nat
  cc_unit_id :: str
  cc_label :: str
  cc_document_id :: str
  cc_article_id :: "str option"
  cc_clause_id :: "str option"
  cc_deep_link :: str

datatype done_status = DoneCompleted | DoneCannotAnswer | DoneNeedsClarification | DoneProcessing | DoneError

record chat_done =
  cd_status :: done_status
  cd_citations :: nat
  cd_confidence :: "float option"
  cd_provider :: "str option"
  cd_model :: "str option"
  cd_retry_after :: "nat option"

definition done_with :: "done_status \<Rightarrow> chat_done" where
  "done_with s = \<lparr>cd_status = s, cd_citations = 0, cd_confidence = None, cd_provider = None,
                  cd_model = None, cd_retry_after = None\<rparr>"

record chat_clarification =
  cl_mode :: str
  cl_question :: str
  cl_candidates :: "(str \<times> str) list"

record chat_explanation =
  ce_notes :: "str list"
  ce_paths :: "path_block list"

text \<open>The structure of an answer beside its markdown; empty for a direct response.\<close>

record answer_structure =
  at_direct :: "answer_paragraph list option"
  at_sections :: "answer_section list"
  at_caveats :: "answer_paragraph list"

subsection \<open>Snapshots\<close>

datatype answer_kind = KindAnswer | KindCannotAnswer | KindSmallTalk

record answer_payload =
  ap_metadata :: chat_metadata
  ap_text :: str
  ap_structure :: "answer_structure option"
  ap_citations :: "chat_citation list"
  ap_explanation :: chat_explanation
  ap_done :: chat_done
  ap_diagnostics :: "str option"

datatype snapshot =
    AnswerSnapshot answer_kind answer_payload
  | ClarificationSnapshot chat_metadata chat_clarification chat_done
  | ErrorSnapshot str str chat_done
  | ProcessingSnapshot chat_done

definition error_snapshot :: "str \<Rightarrow> str \<Rightarrow> snapshot" where
  "error_snapshot code message = ErrorSnapshot code message (done_with DoneError)"

definition processing_snapshot :: "nat \<Rightarrow> snapshot" where
  "processing_snapshot ms = ProcessingSnapshot ((done_with DoneProcessing)\<lparr>cd_retry_after := Some ms\<rparr>)"

subsection \<open>Events\<close>

datatype stream_event =
    EvMetadata chat_metadata
  | EvToken str
  | EvExplanation chat_explanation
  | EvCitation chat_citation
  | EvClarification chat_clarification
  | EvError str str
  | EvDone chat_done

text \<open>\<open>None\<close> is the \<open>ValueError\<close> of a chunk size below one.\<close>

fun snapshot_events :: "nat \<Rightarrow> snapshot \<Rightarrow> stream_event list" where
  "snapshot_events n (AnswerSnapshot kind p) =
     EvMetadata (ap_metadata p) # map EvToken (chunks n (ap_text p))
     @ (if ce_notes (ap_explanation p) \<noteq> [] \<or> ce_paths (ap_explanation p) \<noteq> []
        then [EvExplanation (ap_explanation p)] else [])
     @ map EvCitation (ap_citations p) @ [EvDone (ap_done p)]"
| "snapshot_events n (ClarificationSnapshot m c d) =
     EvMetadata m # EvClarification c # map EvToken (chunks n (cl_question c)) @ [EvDone d]"
| "snapshot_events n (ErrorSnapshot code message d) = [EvError code message, EvDone d]"
| "snapshot_events n (ProcessingSnapshot d) = [EvDone d]"

definition stream_from_snapshot :: "nat \<Rightarrow> snapshot \<Rightarrow> stream_event list option" where
  "stream_from_snapshot n s = (if n < 1 then None else Some (snapshot_events n s))"

subsection \<open>Titles\<close>

definition default_title :: str where
  "default_title =
     ''Cu'' @ [CHR 0xE1, CHR 0xBB, CHR 0x99] @ ''c tr'' @ [CHR 0xC3, CHR 0xB2] @ '' chuy'' @
     [CHR 0xE1, CHR 0xBB, CHR 0x87] @ ''n m'' @ [CHR 0xE1, CHR 0xBB, CHR 0x9B] @ ''i''"

definition max_title_length :: nat where "max_title_length = 50"

definition ellipsis :: str where
  "ellipsis =
     [CHR 0xE2, CHR 0x80, CHR 0xA6]"

text \<open>\<open>value.rstrip()\<close>, and the position of the last blank, counted in characters.\<close>

definition py_rstrip :: "str \<Rightarrow> str" where
  "py_rstrip s = rev (rstrip_rev (rev s))"

definition last_blank :: "str list \<Rightarrow> nat option" where
  "last_blank cs =
     (case filter (\<lambda>i. cs ! i = '' '') (rev [0..<length cs]) of [] \<Rightarrow> None | i # _ \<Rightarrow> Some i)"

definition cut_at_word :: "nat \<Rightarrow> str \<Rightarrow> str" where
  "cut_at_word limit s =
     (case last_blank (py_chars s) of
        None \<Rightarrow> s
      | Some i \<Rightarrow> if limit div 2 \<le> i then py_rstrip (py_take i s) else s)"

definition derive_title :: "nat \<Rightarrow> str \<Rightarrow> str" where
  "derive_title limit first_message =
     (let normalised = squeeze first_message in
      if normalised = [] then default_title
      else if length (py_chars normalised) \<le> limit then normalised
      else cut_at_word limit (py_rstrip (py_take limit normalised)) @ ellipsis)"

subsection \<open>Greetings\<close>

text \<open>The normalisation shared by the greetings and the replies to a clarification.\<close>

definition strip_chars :: "char list" where
  "strip_chars = [CHR '' '', CHR 0x09, CHR 0x0D, CHR 0x0A] @ ''!?.,''"

definition strip_punctuation :: "str \<Rightarrow> str" where
  "strip_punctuation s =
     rev (dropWhile (\<lambda>c. c \<in> set strip_chars) (rev (dropWhile (\<lambda>c. c \<in> set strip_chars) s)))"

definition normalize_reply :: "(str \<Rightarrow> str) \<Rightarrow> str \<Rightarrow> str" where
  "normalize_reply casefold s = strip_punctuation (collapse (casefold s))"

definition greeting_messages :: "str list" where
  "greeting_messages =
     [''ch'' @ [CHR 0xC3, CHR 0xA0] @ ''o'',
      ''ch'' @ [CHR 0xC3, CHR 0xA0] @ ''o b'' @ [CHR 0xE1, CHR 0xBA, CHR 0xA1] @ ''n'',
      ''hello'',
      ''hey'',
      ''hi'',
      ''xin ch'' @ [CHR 0xC3, CHR 0xA0] @ ''o'']"

definition greeting_text :: str where
  "greeting_text =
     ''Xin ch'' @ [CHR 0xC3, CHR 0xA0] @ ''o! T'' @ [CHR 0xC3, CHR 0xB4] @ ''i h'' @ [CHR 0xE1,
     CHR 0xBB, CHR 0x97] @ '' tr'' @ [CHR 0xE1, CHR 0xBB, CHR 0xA3] @ '' tra c'' @ [CHR 0xE1,
     CHR 0xBB, CHR 0xA9] @ ''u v'' @ [CHR 0xC4, CHR 0x83] @ ''n b'' @ [CHR 0xE1, CHR 0xBA, CHR
     0xA3] @ ''n ph'' @ [CHR 0xC3, CHR 0xA1] @ ''p lu'' @ [CHR 0xE1, CHR 0xBA, CHR 0xAD] @ ''t
     Vi'' @ [CHR 0xE1, CHR 0xBB, CHR 0x87] @ ''t Nam. B'' @ [CHR 0xE1, CHR 0xBA, CHR 0xA1] @
     ''n c'' @ [CHR 0xC3, CHR 0xB3] @ '' th'' @ [CHR 0xE1, CHR 0xBB, CHR 0x83] @ '' h'' @ [CHR
     0xE1, CHR 0xBB, CHR 0x8F] @ ''i v'' @ [CHR 0xE1, CHR 0xBB, CHR 0x81] @ '' '' @ [CHR 0xC4,
     CHR 0x91] @ ''i'' @ [CHR 0xE1, CHR 0xBB, CHR 0x81] @ ''u, kho'' @ [CHR 0xE1, CHR 0xBA, CHR
     0xA3] @ ''n, kh'' @ [CHR 0xC3, CHR 0xA1] @ ''i ni'' @ [CHR 0xE1, CHR 0xBB, CHR 0x87] @ ''m
     ho'' @ [CHR 0xE1, CHR 0xBA, CHR 0xB7] @ ''c quy '' @ [CHR 0xC4, CHR 0x91, CHR 0xE1, CHR
     0xBB, CHR 0x8B] @ ''nh ph'' @ [CHR 0xC3, CHR 0xA1] @ ''p l'' @ [CHR 0xC3, CHR 0xBD] @ ''
     c'' @ [CHR 0xE1, CHR 0xBB, CHR 0xA5] @ '' th'' @ [CHR 0xE1, CHR 0xBB, CHR 0x83] @ ''.''"

definition greeting_response :: "(str \<Rightarrow> str) \<Rightarrow> str \<Rightarrow> str option" where
  "greeting_response casefold message =
     (if normalize_reply casefold message \<in> set greeting_messages then Some greeting_text else None)"

end
