(* ===== verification/Py_Regex.thy ===== *)
theory Py_Regex
  imports Chat_Snapshot
begin

text \<open>
  The part of Python's \<open>re\<close> the program uses: character classes, alternation, greedy and lazy repetition,
  groups, word boundaries and fixed-width look-around, with or without \<open>IGNORECASE\<close>, and the functions
  \<open>search\<close>, \<open>match\<close>, \<open>fullmatch\<close>, \<open>finditer\<close> and \<open>sub\<close> over it. The backtracking of the engine is the
  list of all matches in order of preference, of which the first is the match.

  A position in a text is a pair: the characters read, the latest first, and the characters to come.
\<close>

type_synonym pchar = str

subsection \<open>Characters\<close>

text \<open>
  The tables of the Unicode database beyond ASCII are a parameter: the value of a decimal digit, the
  characters of \<open>str.isdigit\<close> and \<open>str.isalnum\<close>, and the other characters that match a character when case is ignored.
\<close>

record unicode =
  u_decimal :: "pchar \<Rightarrow> nat option"
  u_isdigit :: "pchar \<Rightarrow> bool"
  u_alnum :: "pchar \<Rightarrow> bool"
  u_variants :: "pchar \<Rightarrow> pchar list"

definition lead_value :: "nat \<Rightarrow> nat" where
  "lead_value b = (if b < 128 then b else if b < 224 then b - 192 else if b < 240 then b - 224 else b - 240)"

definition ord_of :: "pchar \<Rightarrow> nat" where
  "ord_of c =
     (case c of [] \<Rightarrow> 0
      | b # bs \<Rightarrow> fold (\<lambda>b n. n * 64 + of_char b mod 64) bs (lead_value (of_char b)))"

definition ascii :: "pchar \<Rightarrow> bool" where
  "ascii c \<longleftrightarrow> ord_of c < 128"

definition digit_value :: "unicode \<Rightarrow> pchar \<Rightarrow> nat option" where
  "digit_value U c =
     (let n = ord_of c in
      if n < 128 then (if 48 \<le> n \<and> n < 58 then Some (n - 48) else None) else u_decimal U c)"

definition uni_digit :: "unicode \<Rightarrow> pchar \<Rightarrow> bool" where
  "uni_digit U c \<longleftrightarrow> digit_value U c \<noteq> None"

text \<open>\<open>str.isdigit()\<close> also holds of digits that are no decimals, which \<open>int()\<close> refuses.\<close>

definition py_isdigit :: "unicode \<Rightarrow> str \<Rightarrow> bool" where
  "py_isdigit U s \<longleftrightarrow>
     s \<noteq> [] \<and> list_all (\<lambda>c. if ord_of c < 128 then uni_digit U c else u_isdigit U c) (py_chars s)"

definition py_int :: "unicode \<Rightarrow> str \<Rightarrow> nat option" where
  "py_int U s =
     (let ds = map (digit_value U) (py_chars s) in
      if s = [] \<or> None \<in> set ds then None else Some (fold (\<lambda>d n. 10 * n + the d) ds 0))"

definition is_space :: "pchar \<Rightarrow> bool" where
  "is_space c \<longleftrightarrow> c \<noteq> [] \<and> ws_at c = length c"

definition is_alnum :: "unicode \<Rightarrow> pchar \<Rightarrow> bool" where
  "is_alnum U c \<longleftrightarrow>
     (let n = ord_of c in
      if n < 128 then 48 \<le> n \<and> n < 58 \<or> 65 \<le> n \<and> n < 91 \<or> 97 \<le> n \<and> n < 123 else u_alnum U c)"

definition is_word :: "unicode \<Rightarrow> pchar \<Rightarrow> bool" where
  "is_word U c \<longleftrightarrow> is_alnum U c \<or> c = ''_''"

definition case_variants :: "unicode \<Rightarrow> pchar \<Rightarrow> pchar list" where
  "case_variants U c =
     (let n = ord_of c in
      if 65 \<le> n \<and> n < 91 then [[char_of (n + 32)]]
      else if 97 \<le> n \<and> n < 123 then [[char_of (n - 32)]]
      else if n < 128 then [] else u_variants U c)"

subsection \<open>Expressions\<close>

datatype class_item =
    ItemChar pchar
  | ItemRange nat nat
  | ItemDigit | ItemSpace | ItemWord
  | ItemNotDigit | ItemNotSpace | ItemNotWord

datatype regex =
    Empty
  | Lit pchar
  | Class bool "class_item list"
  | Dot
  | TextStart | TextEnd | LineStart | LineEnd
  | WordEdge
  | Seq regex regex
  | Alt regex regex
  | Many bool regex
  | Group nat regex
  | Ahead bool regex
  | Behind bool nat regex

text \<open>A literal text, \<open>r?\<close>, \<open>r{m,n}\<close> and \<open>r+\<close> in terms of the constructors.\<close>

definition seqs :: "regex list \<Rightarrow> regex" where
  "seqs rs = foldr Seq rs Empty"

fun alts :: "regex list \<Rightarrow> regex" where
  "alts [] = Class False []"
| "alts [r] = r"
| "alts (r # rs) = Alt r (alts rs)"

definition lits :: "str \<Rightarrow> regex" where
  "lits s = seqs (map Lit (py_chars s))"

definition opt :: "bool \<Rightarrow> regex \<Rightarrow> regex" where
  "opt greedy r = (if greedy then Alt r Empty else Alt Empty r)"

fun at_most :: "bool \<Rightarrow> nat \<Rightarrow> regex \<Rightarrow> regex" where
  "at_most greedy 0 r = Empty"
| "at_most greedy (Suc n) r = opt greedy (Seq r (at_most greedy n r))"

definition repeat :: "bool \<Rightarrow> nat \<Rightarrow> nat \<Rightarrow> regex \<Rightarrow> regex" where
  "repeat greedy least most r = Seq (seqs (replicate least r)) (at_most greedy (most - least) r)"

definition repeat_from :: "bool \<Rightarrow> nat \<Rightarrow> regex \<Rightarrow> regex" where
  "repeat_from greedy least r = Seq (seqs (replicate least r)) (Many greedy r)"

text \<open>\<open>\s+\<close>, \<open>\s*\<close>, \<open>\d\<close>, \<open>\d+\<close>\<close>

definition blank :: regex where "blank = Class False [ItemSpace]"
definition blanks :: regex where "blanks = repeat_from True 1 blank"
definition blanks0 :: regex where "blanks0 = Many True blank"
definition digit :: regex where "digit = Class False [ItemDigit]"
definition digits :: regex where "digits = repeat_from True 1 digit"

subsection \<open>Matching\<close>

type_synonym captures = "(nat \<times> nat \<times> pchar list) list"

type_synonym rstate = "pchar list \<times> pchar list \<times> captures"

fun item_holds :: "unicode \<Rightarrow> class_item \<Rightarrow> pchar \<Rightarrow> bool" where
  "item_holds U (ItemChar k) c = (c = k)"
| "item_holds U (ItemRange lo hi) c = (lo \<le> ord_of c \<and> ord_of c \<le> hi)"
| "item_holds U ItemDigit c = uni_digit U c"
| "item_holds U ItemSpace c = is_space c"
| "item_holds U ItemWord c = is_word U c"
| "item_holds U ItemNotDigit c = (\<not> uni_digit U c)"
| "item_holds U ItemNotSpace c = (\<not> is_space c)"
| "item_holds U ItemNotWord c = (\<not> is_word U c)"

definition in_class :: "unicode \<Rightarrow> bool \<Rightarrow> bool \<Rightarrow> class_item list \<Rightarrow> pchar \<Rightarrow> bool" where
  "in_class U ic negated items c \<longleftrightarrow>
     negated \<noteq> list_ex (\<lambda>d. list_ex (\<lambda>i. item_holds U i d) items) (if ic then c # case_variants U c else [c])"

definition newline_char :: pchar where "newline_char = [CHR 0x0A]"

definition word_next :: "unicode \<Rightarrow> pchar list \<Rightarrow> bool" where
  "word_next U xs = (case xs of [] \<Rightarrow> False | c # _ \<Rightarrow> is_word U c)"

text \<open>Repetition: another round must make progress, so the length of the rest bounds the rounds.\<close>

fun rounds :: "bool \<Rightarrow> (rstate \<Rightarrow> rstate list) \<Rightarrow> nat \<Rightarrow> rstate \<Rightarrow> rstate list" where
  "rounds greedy body 0 st = [st]"
| "rounds greedy body (Suc n) st =
     (let more = concat (map (\<lambda>st'. if length (fst (snd st')) < length (fst (snd st))
                                    then rounds greedy body n st' else []) (body st))
      in if greedy then more @ [st] else st # more)"

definition one_char :: "(pchar \<Rightarrow> bool) \<Rightarrow> rstate \<Rightarrow> rstate list" where
  "one_char ok st =
     (case st of (bs, [], cs) \<Rightarrow> [] | (bs, x # xs, cs) \<Rightarrow> if ok x then [(x # bs, xs, cs)] else [])"

definition guard_at :: "bool \<Rightarrow> rstate \<Rightarrow> rstate list" where
  "guard_at b st = (if b then [st] else [])"

fun step_back :: "nat \<Rightarrow> pchar list \<times> pchar list \<Rightarrow> (pchar list \<times> pchar list) option" where
  "step_back 0 p = Some p"
| "step_back (Suc n) ([], xs) = None"
| "step_back (Suc n) (b # bs, xs) = step_back n (bs, b # xs)"

primrec run :: "unicode \<Rightarrow> bool \<Rightarrow> regex \<Rightarrow> rstate \<Rightarrow> rstate list" where
  "run U ic Empty st = [st]"
| "run U ic (Lit k) st = one_char (\<lambda>c. c = k \<or> ic \<and> k \<in> set (case_variants U c)) st"
| "run U ic (Class negated items) st = one_char (in_class U ic negated items) st"
| "run U ic Dot st = one_char (\<lambda>c. c \<noteq> newline_char) st"
| "run U ic TextStart st = guard_at (fst st = []) st"
| "run U ic TextEnd st = guard_at (fst (snd st) = [] \<or> fst (snd st) = [newline_char]) st"
| "run U ic LineStart st = guard_at (fst st = [] \<or> hd (fst st) = newline_char) st"
| "run U ic LineEnd st = guard_at (fst (snd st) = [] \<or> hd (fst (snd st)) = newline_char) st"
| "run U ic WordEdge st = guard_at (word_next U (fst st) \<noteq> word_next U (fst (snd st))) st"
| "run U ic (Seq r s) st = concat (map (run U ic s) (run U ic r st))"
| "run U ic (Alt r s) st = run U ic r st @ run U ic s st"
| "run U ic (Many greedy r) st = rounds greedy (run U ic r) (length (fst (snd st))) st"
| "run U ic (Group g r) st =
     map (\<lambda>(bs, xs, cs). (bs, xs,
            (g, length (fst st), rev (take (length bs - length (fst st)) bs)) # cs)) (run U ic r st)"
| "run U ic (Ahead positive r) st = guard_at (positive = (run U ic r st \<noteq> [])) st"
| "run U ic (Behind positive n r) st =
     guard_at (positive = (case step_back n (fst st, fst (snd st)) of
                 None \<Rightarrow> False
               | Some (bs, xs) \<Rightarrow> list_ex (\<lambda>st'. fst st' = fst st) (run U ic r (bs, xs, snd (snd st))))) st"

text \<open>A state keeps the text: what was read and what is to come.\<close>

definition whole :: "rstate \<Rightarrow> pchar list" where
  "whole st = rev (fst st) @ fst (snd st)"

lemma guard_at_iff [simp]: "st' \<in> set (guard_at b st) \<longleftrightarrow> b \<and> st' = st"
  by (auto simp: guard_at_def)

lemma rounds_Suc_cases:
  assumes "st' \<in> set (rounds greedy body (Suc n) st)"
  obtains "st' = st" | st1 where "st1 \<in> set (body st)" and "st' \<in> set (rounds greedy body n st1)"
  using assms by (auto simp: Let_def split: if_splits)

lemma rounds_invariant:
  assumes step: "\<And>st st'. st' \<in> set (body st) \<Longrightarrow> R st st'" and refl: "\<And>st. R st st"
    and trans: "\<And>x y z. R x y \<Longrightarrow> R y z \<Longrightarrow> R x z"
  shows "st' \<in> set (rounds greedy body n st) \<Longrightarrow> R st st'"
proof (induction n arbitrary: st)
  case 0
  then show ?case using refl by simp
next
  case (Suc n)
  from Suc.prems show ?case
  proof (cases rule: rounds_Suc_cases)
    case 1
    then show ?thesis using refl by simp
  next
    case (2 st1)
    from trans [OF step [OF 2(1)] Suc.IH [OF 2(2)]] show ?thesis .
  qed
qed

lemma run_invariant:
  assumes char: "\<And>st st' ok. st' \<in> set (one_char ok st) \<Longrightarrow> R st st'" and refl: "\<And>st. R st st"
    and trans: "\<And>x y z. R x y \<Longrightarrow> R y z \<Longrightarrow> R x z"
    and frame: "\<And>st bs xs cs cs'. R st (bs, xs, cs) \<Longrightarrow> R st (bs, xs, cs')"
  shows "st' \<in> set (run U ic r st) \<Longrightarrow> R st st'"
proof (induction r arbitrary: st st')
  case (Seq r s)
  from Seq.prems obtain st1 where "st1 \<in> set (run U ic r st)" and "st' \<in> set (run U ic s st1)" by auto
  with Seq.IH trans show ?case by blast
next
  case (Alt r s)
  from Alt.prems have "st' \<in> set (run U ic r st) \<or> st' \<in> set (run U ic s st)" by simp
  with Alt.IH show ?case by blast
next
  case (Many greedy r)
  from Many.prems have "st' \<in> set (rounds greedy (run U ic r) (length (fst (snd st))) st)" by simp
  then show ?case
  proof (rule rounds_invariant [where body = "run U ic r" and R = R, rotated 3])
    show "\<And>st st'. st' \<in> set (run U ic r st) \<Longrightarrow> R st st'" by (rule Many.IH)
    show "\<And>st. R st st" by (rule refl)
    show "\<And>x y z. R x y \<Longrightarrow> R y z \<Longrightarrow> R x z" by (rule trans)
  qed
next
  case (Group g r)
  from Group.prems obtain bs xs cs cs' where "(bs, xs, cs) \<in> set (run U ic r st)" and "st' = (bs, xs, cs')" by auto
  with Group.IH frame show ?case by blast
qed (use char refl in auto)

lemma whole_run: "st' \<in> set (run U ic r st) \<Longrightarrow> whole st' = whole st"
  by (rule run_invariant [where R = "\<lambda>a b. whole b = whole a"])
     (auto simp: one_char_def whole_def split: prod.splits list.splits if_splits)

lemma run_forward: "st' \<in> set (run U ic r st) \<Longrightarrow> \<exists>w. fst st' = w @ fst st"
  by (rule run_invariant [where R = "\<lambda>a b. \<exists>w. fst b = w @ fst a"])
     (auto simp: one_char_def split: prod.splits list.splits if_splits)

text \<open>More fuel than the rest of the text changes nothing: repetition is a fixed point.\<close>

lemma rounds_fuel:
  "length (fst (snd st)) \<le> n \<Longrightarrow> rounds greedy body n st = rounds greedy body (length (fst (snd st))) st"
proof (induction n arbitrary: st rule: less_induct)
  case (less n)
  show ?case
  proof (cases "length (fst (snd st))")
    case 0
    then show ?thesis by (cases n) (simp_all add: Let_def)
  next
    case (Suc m)
    with less.prems obtain n' where n: "n = Suc n'" by (cases n) auto
    have "rounds greedy body n' st' = rounds greedy body m st'" if "length (fst (snd st')) < Suc m" for st'
    proof -
      have "rounds greedy body n' st' = rounds greedy body (length (fst (snd st'))) st'"
        using less.IH [of n' st'] that Suc n less.prems by simp
      moreover have "rounds greedy body m st' = rounds greedy body (length (fst (snd st'))) st'"
        using less.IH [of m st'] that Suc n less.prems by simp
      ultimately show ?thesis by simp
    qed
    with Suc n show ?thesis by (simp add: Let_def cong: if_cong)
  qed
qed

lemma rounds_step:
  "length (fst (snd st)) = Suc n \<Longrightarrow>
   concat (map (\<lambda>st'. if length (fst (snd st')) < Suc n then rounds greedy body n st' else []) sts)
   = concat (map (\<lambda>st'. rounds greedy body (length (fst (snd st'))) st')
       (filter (\<lambda>st'. length (fst (snd st')) < Suc n) sts))"
proof (induction sts)
  case (Cons st' sts)
  then show ?case using rounds_fuel [of st' n greedy body] by (auto simp: less_Suc_eq_le)
qed simp

lemma run_Many:
  "run U ic (Many greedy r) st =
     (let more = concat (map (run U ic (Many greedy r))
                   (filter (\<lambda>st'. length (fst (snd st')) < length (fst (snd st))) (run U ic r st)))
      in if greedy then more @ [st] else st # more)"
proof -
  have eq: "run U ic (Many greedy r) = (\<lambda>st'. rounds greedy (run U ic r) (length (fst (snd st'))) st')"
    by (rule ext) simp
  show ?thesis
  proof (cases "length (fst (snd st))")
    case 0
    then show ?thesis by (simp add: Let_def)
  next
    case (Suc n)
    have "rounds greedy (run U ic r) (Suc n) st =
       (let more = concat (map (\<lambda>st'. rounds greedy (run U ic r) (length (fst (snd st'))) st')
          (filter (\<lambda>st'. length (fst (snd st')) < Suc n) (run U ic r st)))
        in if greedy then more @ [st] else st # more)"
      by (simp only: rounds.simps Suc rounds_step [OF Suc])
    then show ?thesis by (simp only: eq Suc)
  qed
qed

subsection \<open>Matches\<close>

record rmatch =
  rm_start :: nat
  rm_chars :: "pchar list"
  rm_groups :: captures

definition match_at :: "unicode \<Rightarrow> bool \<Rightarrow> regex \<Rightarrow> pchar list \<Rightarrow> pchar list \<Rightarrow> rstate option" where
  "match_at U ic r bs xs = (case run U ic r (bs, xs, []) of [] \<Rightarrow> None | st # _ \<Rightarrow> Some st)"

definition to_match :: "nat \<Rightarrow> rstate \<Rightarrow> rmatch" where
  "to_match start st =
     \<lparr>rm_start = start, rm_chars = rev (take (length (fst st) - start) (fst st)), rm_groups = snd (snd st)\<rparr>"

definition rx_match :: "unicode \<Rightarrow> bool \<Rightarrow> regex \<Rightarrow> str \<Rightarrow> rmatch option" where
  "rx_match U ic r s = map_option (to_match 0) (match_at U ic r [] (py_chars s))"

definition rx_fullmatch :: "unicode \<Rightarrow> bool \<Rightarrow> regex \<Rightarrow> str \<Rightarrow> rmatch option" where
  "rx_fullmatch U ic r s =
     map_option (to_match 0) (find (\<lambda>st. fst (snd st) = []) (run U ic r ([], py_chars s, [])))"

fun search_from :: "unicode \<Rightarrow> bool \<Rightarrow> regex \<Rightarrow> pchar list \<Rightarrow> pchar list \<Rightarrow> rmatch option" where
  "search_from U ic r bs xs =
     (case match_at U ic r bs xs of
        Some st \<Rightarrow> Some (to_match (length bs) st)
      | None \<Rightarrow> (case xs of [] \<Rightarrow> None | x # xs' \<Rightarrow> search_from U ic r (x # bs) xs'))"

declare search_from.simps [simp del]

definition rx_search :: "unicode \<Rightarrow> bool \<Rightarrow> regex \<Rightarrow> str \<Rightarrow> rmatch option" where
  "rx_search U ic r s = search_from U ic r [] (py_chars s)"

definition rx_found :: "unicode \<Rightarrow> bool \<Rightarrow> regex \<Rightarrow> str \<Rightarrow> bool" where
  "rx_found U ic r s \<longleftrightarrow> rx_search U ic r s \<noteq> None"

text \<open>
  The matches from left to right, none overlapping the one before. No expression of the program that is
  iterated matches the empty text; after such a match the search would go on one character later.
\<close>

function matches_from :: "unicode \<Rightarrow> bool \<Rightarrow> regex \<Rightarrow> pchar list \<Rightarrow> pchar list \<Rightarrow> rmatch list" where
  "matches_from U ic r bs xs =
     (case match_at U ic r bs xs of
        Some st \<Rightarrow>
          to_match (length bs) st #
          (if length (fst (snd st)) < length xs then matches_from U ic r (fst st) (fst (snd st))
           else case xs of [] \<Rightarrow> [] | x # xs' \<Rightarrow> matches_from U ic r (x # bs) xs')
      | None \<Rightarrow> (case xs of [] \<Rightarrow> [] | x # xs' \<Rightarrow> matches_from U ic r (x # bs) xs'))"
  by pat_completeness auto
termination by (relation "measure (\<lambda>(U, ic, r, bs, xs). length xs)") auto

declare matches_from.simps [simp del]

definition rx_finditer :: "unicode \<Rightarrow> bool \<Rightarrow> regex \<Rightarrow> str \<Rightarrow> rmatch list" where
  "rx_finditer U ic r s = matches_from U ic r [] (py_chars s)"

definition rm_text :: "rmatch \<Rightarrow> str" where
  "rm_text m = concat (rm_chars m)"

definition rm_end :: "rmatch \<Rightarrow> nat" where
  "rm_end m = rm_start m + length (rm_chars m)"

definition rm_group :: "rmatch \<Rightarrow> nat \<Rightarrow> str option" where
  "rm_group m g = map_option (\<lambda>(i, cs). concat cs) (map_of (rm_groups m) g)"

definition rm_span :: "rmatch \<Rightarrow> nat \<Rightarrow> (nat \<times> nat) option" where
  "rm_span m g = map_option (\<lambda>(i, cs). (i, i + length cs)) (map_of (rm_groups m) g)"

definition char_slice :: "nat \<Rightarrow> nat \<Rightarrow> str \<Rightarrow> str" where
  "char_slice i j s = concat (take (j - i) (drop i (py_chars s)))"

fun sub_from :: "(rmatch \<Rightarrow> str) \<Rightarrow> nat \<Rightarrow> rmatch list \<Rightarrow> pchar list \<Rightarrow> str" where
  "sub_from f i [] cs = concat (drop i cs)"
| "sub_from f i (m # ms) cs =
     concat (take (rm_start m - i) (drop i cs)) @ f m @ sub_from f (rm_end m) ms cs"

definition rx_sub :: "unicode \<Rightarrow> bool \<Rightarrow> regex \<Rightarrow> (rmatch \<Rightarrow> str) \<Rightarrow> str \<Rightarrow> str" where
  "rx_sub U ic r f s = sub_from f 0 (rx_finditer U ic r s) (py_chars s)"

text \<open>A match is a factor of the text.\<close>

definition match_of :: "pchar list \<Rightarrow> rmatch \<Rightarrow> bool" where
  "match_of cs m \<longleftrightarrow> rm_chars m = take (length (rm_chars m)) (drop (rm_start m) cs) \<and> rm_end m \<le> length cs"

lemma match_at_factor:
  assumes "match_at U ic r bs xs = Some st"
  shows "match_of (rev bs @ xs) (to_match (length bs) st)" and "whole st = rev bs @ xs"
    and "rm_end (to_match (length bs) st) = length (fst st)"
proof -
  from assms have st: "st \<in> set (run U ic r (bs, xs, []))"
    by (auto simp: match_at_def split: list.splits)
  from whole_run [OF st] show w: "whole st = rev bs @ xs" by (simp add: whole_def)
  from run_forward [OF st] obtain v where v: "fst st = v @ bs" by auto
  with w have "rev bs @ xs = rev bs @ rev v @ fst (snd st)" by (simp add: whole_def)
  then have xs: "xs = rev v @ fst (snd st)" by simp
  show "match_of (rev bs @ xs) (to_match (length bs) st)" "rm_end (to_match (length bs) st) = length (fst st)"
    using v xs by (simp_all add: match_of_def to_match_def rm_end_def)
qed

lemma search_from_factor: "search_from U ic r bs xs = Some m \<Longrightarrow> match_of (rev bs @ xs) m"
proof (induction xs arbitrary: bs)
  case Nil
  then show ?case
    by (subst (asm) search_from.simps) (auto split: option.splits dest: match_at_factor(1))
next
  case (Cons x xs)
  show ?case
  proof (cases "match_at U ic r bs (x # xs)")
    case None
    with Cons.prems have "search_from U ic r (x # bs) xs = Some m" by (subst (asm) search_from.simps) simp
    from Cons.IH [OF this] show ?thesis by simp
  next
    case (Some st)
    with Cons.prems match_at_factor(1) [OF Some] show ?thesis by (subst (asm) search_from.simps) simp
  qed
qed

lemma rx_search_factor: "rx_search U ic r s = Some m \<Longrightarrow> match_of (py_chars s) m"
  using search_from_factor [of U ic r "[]" "py_chars s" m] by (simp add: rx_search_def)

lemma matches_from_cases:
  assumes "m \<in> set (matches_from U ic r bs xs)"
  obtains (here) st where "match_at U ic r bs xs = Some st" and "m = to_match (length bs) st"
  | (after) st where "match_at U ic r bs xs = Some st" and "length (fst (snd st)) < length xs"
      and "m \<in> set (matches_from U ic r (fst st) (fst (snd st)))"
  | (skip) x xs' where "xs = x # xs'" and "m \<in> set (matches_from U ic r (x # bs) xs')"
  using assms by (subst (asm) matches_from.simps) (auto split: option.splits list.splits if_splits)

lemma matches_from_factor:
  "m \<in> set (matches_from U ic r bs xs) \<Longrightarrow> match_of (rev bs @ xs) m \<and> length bs \<le> rm_start m"
proof (induction "length xs" arbitrary: bs xs rule: less_induct)
  case less
  from less.prems show ?case
  proof (cases rule: matches_from_cases)
    case (here st)
    with match_at_factor(1) [OF here(1)] show ?thesis by (simp add: to_match_def)
  next
    case (after st)
    from less.hyps [OF after(2,3)] have "match_of (whole st) m" and "length (fst st) \<le> rm_start m"
      by (simp_all add: whole_def)
    moreover have "length bs \<le> length (fst st)"
      using match_at_factor(3) [OF after(1)] by (simp add: rm_end_def to_match_def)
    ultimately show ?thesis using match_at_factor(2) [OF after(1)] by simp
  next
    case (skip x xs')
    from less.hyps [OF _ skip(2)] skip(1) have "match_of (rev (x # bs) @ xs') m" and "length (x # bs) \<le> rm_start m"
      by simp_all
    with skip(1) show ?thesis by simp
  qed
qed

lemma rx_finditer_factor: "m \<in> set (rx_finditer U ic r s) \<Longrightarrow> match_of (py_chars s) m"
  using matches_from_factor [of m U ic r "[]" "py_chars s"] by (simp add: rx_finditer_def)

end
