(* ===== verification/Conversation_Store.thy ===== *)
theory Conversation_Store
  imports Chat_Snapshot
begin

text \<open>
  The conversation store (\<open>apps/backend/persistence\<close>): the six tables as lists of rows in insertion order
  and each transaction as a function that returns the new store or the error that rolls it back. The unique
  constraints of the tables are checked at the inserts. Generated identifiers and the time are arguments.
  The surrogate keys of citations, focuses and pending clarifications, which nothing refers to, are left out.
\<close>

type_synonym uuid = nat

subsection \<open>Enumerations and rows\<close>

datatype owner_kind = AnonymousOwner | UserOwner

record owner =
  ow_kind :: owner_kind
  ow_principal :: uuid

datatype turn_status = TurnProcessing | TurnCompleted | TurnCannotAnswer | TurnNeedsClarification | TurnFailed

datatype reference_status = StatusResolved | StatusAmbiguous | StatusUnresolved

datatype message_role = RoleUser | RoleAssistant

datatype message_kind = MsgUserQuery | MsgAnswer | MsgCannotAnswer | MsgClarification | MsgSmallTalk

datatype clarification_mode = ModeSelect | ModeRestate

datatype store_error =
    ConversationNotFound
  | ConversationBusy
  | InvalidCandidates str
  | SnapshotMissing
  | IntegrityError

record conversation =
  cv_id :: uuid
  cv_owner :: owner
  cv_title :: str
  cv_deleted :: bool
  cv_next_turn :: nat
  cv_created :: nat
  cv_updated :: nat

record turn =
  tn_id :: uuid
  tn_conversation :: uuid
  tn_client :: uuid
  tn_no :: nat
  tn_status :: turn_status
  tn_resolution :: "reference_status option"
  tn_reason :: "str option"
  tn_query :: "str option"
  tn_error :: "str option"
  tn_snapshot :: "snapshot option"

record message =
  mg_id :: uuid
  mg_turn :: uuid
  mg_conversation :: uuid
  mg_role :: message_role
  mg_kind :: message_kind
  mg_content :: str
  mg_ordinal :: nat

record citation_snapshot =
  cs_unit_id :: str
  cs_ordinal :: nat
  cs_label :: str
  cs_document_id :: str
  cs_deep_link :: str
  cs_article_id :: "str option"
  cs_clause_id :: "str option"
  cs_metadata :: "(str \<times> json) list"

record citation_row =
  cr_message :: uuid
  cr_conversation :: uuid
  cr_citation :: citation_snapshot

record focus_upsert =
  fu_node_id :: str
  fu_node_type :: str
  fu_label :: str
  fu_document_id :: str
  fu_order :: nat
  fu_document_type :: "str option"
  fu_article_id :: "str option"
  fu_clause_id :: "str option"
  fu_metadata :: "(str \<times> json) list"

record focus_row =
  fr_conversation :: uuid
  fr_focus :: focus_upsert
  fr_last_turn :: nat

record clarification_candidate =
  cand_id :: str
  cand_label :: str
  cand_node_type :: "str option"
  cand_document_id :: "str option"
  cand_article_id :: "str option"
  cand_clause_id :: "str option"
  cand_metadata :: "(str \<times> json) list"

record pending_row =
  pd_conversation :: uuid
  pd_turn :: uuid
  pd_mode :: clarification_mode
  pd_question :: str
  pd_candidates :: json

record store =
  st_conversations :: "conversation list"
  st_turns :: "turn list"
  st_messages :: "message list"
  st_citations :: "citation_row list"
  st_focuses :: "focus_row list"
  st_pending :: "pending_row list"

subsection \<open>Clarification candidates as JSON\<close>

definition max_candidates :: nat where "max_candidates = 5"

definition optional_field :: "str \<Rightarrow> str option \<Rightarrow> (str \<times> json) list" where
  "optional_field key v = (case v of None \<Rightarrow> [] | Some s \<Rightarrow> [(key, JStr s)])"

definition candidate_to_json :: "clarification_candidate \<Rightarrow> json" where
  "candidate_to_json c = JObj
     ([(''candidate_id'', JStr (cand_id c)), (''label'', JStr (cand_label c))]
      @ optional_field ''node_type'' (cand_node_type c) @ optional_field ''document_id'' (cand_document_id c)
      @ optional_field ''article_id'' (cand_article_id c) @ optional_field ''clause_id'' (cand_clause_id c)
      @ (if cand_metadata c \<noteq> [] then [(''metadata'', JObj (cand_metadata c))] else []))"

definition optional_str :: "json option \<Rightarrow> store_error + str option" where
  "optional_str v =
     (case v of None \<Rightarrow> Inr None
      | Some JNull \<Rightarrow> Inr None
      | Some (JStr s) \<Rightarrow> Inr (if py_strip s = [] then None else Some (py_strip s))
      | _ \<Rightarrow> Inl (InvalidCandidates ''Clarification candidate fields must be strings''))"

definition required_str :: "str \<Rightarrow> json option \<Rightarrow> store_error + str" where
  "required_str message v =
     (case v of Some (JStr s) \<Rightarrow> if py_strip s = [] then Inl (InvalidCandidates message) else Inr s
      | _ \<Rightarrow> Inl (InvalidCandidates message))"

text \<open>Values that are false in Python stand for an empty dictionary.\<close>

definition metadata_of :: "json option \<Rightarrow> store_error + (str \<times> json) list" where
  "metadata_of v =
     (case v of None \<Rightarrow> Inr []
      | Some JNull \<Rightarrow> Inr [] | Some (JBool False) \<Rightarrow> Inr [] | Some (JStr []) \<Rightarrow> Inr [] | Some (JArr []) \<Rightarrow> Inr []
      | Some (JInt i) \<Rightarrow> if i = 0 then Inr [] else Inl (InvalidCandidates ''Clarification candidate metadata must be a JSON object'')
      | Some (JObj kvs) \<Rightarrow> Inr kvs
      | _ \<Rightarrow> Inl (InvalidCandidates ''Clarification candidate metadata must be a JSON object''))"

definition candidate_from_json :: "json \<Rightarrow> store_error + clarification_candidate" where
  "candidate_from_json j =
     (case j of JObj kvs \<Rightarrow>
        rbind (required_str ''Clarification candidate requires a non-empty candidate_id'' (map_of kvs ''candidate_id'')) (\<lambda>i.
        rbind (required_str ''Clarification candidate requires a non-empty label'' (map_of kvs ''label'')) (\<lambda>l.
        rbind (metadata_of (map_of kvs ''metadata'')) (\<lambda>m.
        rbind (optional_str (map_of kvs ''node_type'')) (\<lambda>nt.
        rbind (optional_str (map_of kvs ''document_id'')) (\<lambda>d.
        rbind (optional_str (map_of kvs ''article_id'')) (\<lambda>a.
        rbind (optional_str (map_of kvs ''clause_id'')) (\<lambda>c.
          Inr \<lparr>cand_id = i, cand_label = l, cand_node_type = nt, cand_document_id = d, cand_article_id = a,
               cand_clause_id = c, cand_metadata = m\<rparr>)))))))
      | _ \<Rightarrow> Inl (InvalidCandidates ''Clarification candidate must be a JSON object''))"

definition validate_candidates ::
  "clarification_candidate list \<Rightarrow> store_error + clarification_candidate list" where
  "validate_candidates cs =
     (if length cs > max_candidates then Inl (InvalidCandidates ''At most 5 clarification candidates allowed'')
      else if \<not> distinct (map cand_id cs) then Inl (InvalidCandidates ''Clarification candidate ids must be unique'')
      else Inr cs)"

definition candidates_to_json :: "clarification_candidate list \<Rightarrow> store_error + json" where
  "candidates_to_json cs = rbind (validate_candidates cs) (\<lambda>cs. Inr (JArr (map candidate_to_json cs)))"

definition candidates_from_json :: "json \<Rightarrow> store_error + clarification_candidate list" where
  "candidates_from_json j =
     (case j of JArr js \<Rightarrow> rbind (rmapm candidate_from_json js) validate_candidates
      | _ \<Rightarrow> Inl (InvalidCandidates ''Persisted candidates must be a JSON array''))"

subsection \<open>Reading\<close>

definition find_conversation :: "store \<Rightarrow> uuid \<Rightarrow> conversation option" where
  "find_conversation s c = find (\<lambda>v. cv_id v = c) (st_conversations s)"

text \<open>\<open>_load_owned_conversation\<close>\<close>

definition load_owned :: "store \<Rightarrow> uuid \<Rightarrow> owner \<Rightarrow> store_error + conversation option" where
  "load_owned s c ow =
     (case find_conversation s c of
        None \<Rightarrow> Inr None
      | Some v \<Rightarrow> if cv_owner v \<noteq> ow then Inl ConversationNotFound else Inr (Some v))"

definition next_ordinal :: "store \<Rightarrow> uuid \<Rightarrow> nat" where
  "next_ordinal s c = Max (insert 0 (mg_ordinal ` set (filter (\<lambda>m. mg_conversation m = c) (st_messages s)))) + 1"

text \<open>\<open>LockedTurn.find_turn_by_client_id\<close> and \<open>SqlAlchemyConversationStore.find_turn_by_client_id\<close>\<close>

definition find_turn :: "store \<Rightarrow> uuid \<Rightarrow> uuid \<Rightarrow> turn option" where
  "find_turn s c client = find (\<lambda>t. tn_conversation t = c \<and> tn_client t = client) (st_turns s)"

definition find_owned_turn :: "store \<Rightarrow> uuid \<Rightarrow> owner \<Rightarrow> uuid \<Rightarrow> store_error + turn option" where
  "find_owned_turn s c ow client =
     rbind (load_owned s c ow) (\<lambda>v. case v of None \<Rightarrow> Inr None | Some _ \<Rightarrow> Inr (find_turn s c client))"

definition replay_turn :: "store \<Rightarrow> uuid \<Rightarrow> owner \<Rightarrow> uuid \<Rightarrow> store_error + snapshot" where
  "replay_turn s c ow client =
     rbind (find_owned_turn s c ow client) (\<lambda>t.
       case t of None \<Rightarrow> Inl SnapshotMissing
       | Some t \<Rightarrow> (case tn_snapshot t of None \<Rightarrow> Inl SnapshotMissing | Some sn \<Rightarrow> Inr sn))"

subsection \<open>Context of a turn\<close>

definition max_focuses :: nat where "max_focuses = 5"
definition focus_ttl :: nat where "focus_ttl = 5"
definition max_recent_messages :: nat where "max_recent_messages = 6"
definition max_recent_chars :: nat where "max_recent_chars = 4000"

definition completed_status :: "turn_status \<Rightarrow> bool" where
  "completed_status t \<longleftrightarrow> t = TurnCompleted \<or> t = TurnCannotAnswer \<or> t = TurnNeedsClarification"

record history_entry =
  he_role :: message_role
  he_kind :: message_kind
  he_content :: str
  he_ordinal :: nat
  he_turn_no :: nat

record pending_clarification =
  pc_mode :: clarification_mode
  pc_question :: str
  pc_candidates :: "clarification_candidate list"
  pc_source_turn :: uuid
  pc_source_turn_no :: nat

record history_context =
  hc_recent :: "history_entry list"
  hc_focuses :: "focus_row list"
  hc_pending :: "pending_clarification option"

definition turn_by_id :: "store \<Rightarrow> uuid \<Rightarrow> turn option" where
  "turn_by_id s t = find (\<lambda>x. tn_id x = t) (st_turns s)"

text \<open>The joined rows of completed turns, the most recent first, at most six of them.\<close>

definition completed_messages :: "store \<Rightarrow> uuid \<Rightarrow> uuid \<Rightarrow> history_entry list" where
  "completed_messages s c current =
     concat (map (\<lambda>m. case turn_by_id s (mg_turn m) of
         None \<Rightarrow> []
       | Some t \<Rightarrow>
           if mg_conversation m = c \<and> mg_turn m \<noteq> current \<and> completed_status (tn_status t)
           then [\<lparr>he_role = mg_role m, he_kind = mg_kind m, he_content = mg_content m,
                  he_ordinal = mg_ordinal m, he_turn_no = tn_no t\<rparr>] else [])
       (st_messages s))"

fun take_budget :: "nat \<Rightarrow> history_entry list \<Rightarrow> history_entry list \<Rightarrow> nat \<Rightarrow> history_entry list" where
  "take_budget limit selected [] used = selected"
| "take_budget limit selected (h # hs) used =
     (if selected \<noteq> [] \<and> used + py_len (he_content h) > limit then selected
      else take_budget limit (selected @ [h]) hs (used + py_len (he_content h)))"

definition load_recent :: "store \<Rightarrow> uuid \<Rightarrow> uuid \<Rightarrow> history_entry list" where
  "load_recent s c current =
     rev (take_budget max_recent_chars []
       (take max_recent_messages (rev (sort_key he_ordinal (completed_messages s c current)))) 0)"

definition focus_order :: "focus_row \<Rightarrow> int \<times> nat \<times> str" where
  "focus_order f = (- int (fr_last_turn f), fu_order (fr_focus f), fu_node_id (fr_focus f))"

definition ranked_focuses :: "store \<Rightarrow> uuid \<Rightarrow> focus_row list" where
  "ranked_focuses s c = sort_key focus_order (filter (\<lambda>f. fr_conversation f = c) (st_focuses s))"

text \<open>The stale focuses are deleted before the others are read.\<close>

definition evict_focuses :: "uuid \<Rightarrow> nat \<Rightarrow> store \<Rightarrow> store" where
  "evict_focuses c turn_no s =
     s\<lparr>st_focuses := filter (\<lambda>f. \<not> (fr_conversation f = c \<and> int turn_no - int (fr_last_turn f) > int focus_ttl)) (st_focuses s)\<rparr>"

definition load_pending :: "store \<Rightarrow> uuid \<Rightarrow> store_error + pending_clarification option" where
  "load_pending s c =
     (case find (\<lambda>p. pd_conversation p = c \<and> turn_by_id s (pd_turn p) \<noteq> None) (st_pending s) of
        None \<Rightarrow> Inr None
      | Some p \<Rightarrow>
          rbind (candidates_from_json (pd_candidates p)) (\<lambda>cs.
            Inr (Some \<lparr>pc_mode = pd_mode p, pc_question = pd_question p, pc_candidates = cs, pc_source_turn = pd_turn p,
                       pc_source_turn_no = tn_no (the (turn_by_id s (pd_turn p)))\<rparr>)))"

definition load_context :: "uuid \<Rightarrow> uuid \<Rightarrow> nat \<Rightarrow> store \<Rightarrow> store_error + store \<times> history_context" where
  "load_context c current turn_no s =
     (let s' = evict_focuses c turn_no s in
      rbind (load_pending s' c) (\<lambda>p.
        Inr (s', \<lparr>hc_recent = load_recent s c current, hc_focuses = take max_focuses (ranked_focuses s' c),
                  hc_pending = p\<rparr>)))"

subsection \<open>Opening a turn\<close>

record begun_turn =
  bt_turn :: uuid
  bt_conversation :: uuid
  bt_turn_no :: nat
  bt_ordinal :: nat
  bt_context :: history_context

definition initial_title :: "str \<Rightarrow> str" where
  "initial_title message = (if message \<noteq> [] \<and> py_strip message \<noteq> [] then py_strip (py_take 50 message) else default_title)"

definition open_conversation :: "uuid \<Rightarrow> owner \<Rightarrow> str \<Rightarrow> nat \<Rightarrow> store \<Rightarrow> store" where
  "open_conversation c ow message now s =
     s\<lparr>st_conversations := st_conversations s @
        [\<lparr>cv_id = c, cv_owner = ow, cv_title = initial_title message, cv_deleted = False, cv_next_turn = 2,
          cv_created = now, cv_updated = now\<rparr>]\<rparr>"

definition retitle :: "str \<Rightarrow> str \<Rightarrow> str" where
  "retitle message title =
     (if (title = default_title \<or> title = []) \<and> message \<noteq> [] \<and> py_strip message \<noteq> []
      then py_strip (py_take 50 message) else title)"

definition update_conversation :: "uuid \<Rightarrow> (conversation \<Rightarrow> conversation) \<Rightarrow> store \<Rightarrow> store" where
  "update_conversation c f s =
     s\<lparr>st_conversations := map (\<lambda>v. if cv_id v = c then f v else v) (st_conversations s)\<rparr>"

definition insert_turn :: "turn \<Rightarrow> store \<Rightarrow> store_error + store" where
  "insert_turn t s =
     (if list_ex (\<lambda>x. tn_id x = tn_id t
          \<or> tn_conversation x = tn_conversation t \<and> (tn_client x = tn_client t \<or> tn_no x = tn_no t)) (st_turns s)
      then Inl IntegrityError else Inr (s\<lparr>st_turns := st_turns s @ [t]\<rparr>))"

definition insert_message :: "message \<Rightarrow> store \<Rightarrow> store_error + store" where
  "insert_message m s =
     (if list_ex (\<lambda>x. mg_id x = mg_id m
          \<or> mg_conversation x = mg_conversation m \<and> mg_ordinal x = mg_ordinal m) (st_messages s)
      then Inl IntegrityError else Inr (s\<lparr>st_messages := st_messages s @ [m]\<rparr>))"

definition reserve_turn_no ::
  "uuid \<Rightarrow> owner \<Rightarrow> str \<Rightarrow> nat \<Rightarrow> store \<Rightarrow> store_error + store \<times> nat" where
  "reserve_turn_no c ow message now s =
     rbind (load_owned s c ow) (\<lambda>v.
       case v of None \<Rightarrow> Inr (open_conversation c ow message now s, 1)
       | Some v \<Rightarrow>
           Inr (update_conversation c
             (\<lambda>v. v\<lparr>cv_next_turn := cv_next_turn v + 1, cv_title := retitle message (cv_title v), cv_updated := now\<rparr>) s,
             cv_next_turn v))"

definition processing_turn :: "uuid \<Rightarrow> uuid \<Rightarrow> uuid \<Rightarrow> nat \<Rightarrow> turn" where
  "processing_turn t c client no =
     \<lparr>tn_id = t, tn_conversation = c, tn_client = client, tn_no = no, tn_status = TurnProcessing,
      tn_resolution = None, tn_reason = None, tn_query = None, tn_error = None, tn_snapshot = None\<rparr>"

text \<open>\<open>begin_turn_and_load_context\<close>\<close>

definition begin_turn ::
  "uuid \<Rightarrow> owner \<Rightarrow> uuid \<Rightarrow> str \<Rightarrow> uuid \<Rightarrow> uuid \<Rightarrow> nat \<Rightarrow> store \<Rightarrow> store_error + store \<times> begun_turn" where
  "begin_turn c ow client message turn_id message_id now s =
     rbind (reserve_turn_no c ow message now s) (\<lambda>(s1, no).
     rbind (insert_turn (processing_turn turn_id c client no) s1) (\<lambda>s2.
     rbind (insert_message \<lparr>mg_id = message_id, mg_turn = turn_id, mg_conversation = c, mg_role = RoleUser,
              mg_kind = MsgUserQuery, mg_content = message, mg_ordinal = next_ordinal s2 c\<rparr> s2) (\<lambda>s3.
     rbind (load_context c turn_id no s3) (\<lambda>(s4, context).
       Inr (s4, \<lparr>bt_turn = turn_id, bt_conversation = c, bt_turn_no = no, bt_ordinal = next_ordinal s2 c,
                 bt_context = context\<rparr>)))))"

subsection \<open>Closing a turn\<close>

definition update_turn :: "uuid \<Rightarrow> (turn \<Rightarrow> turn) \<Rightarrow> store \<Rightarrow> store" where
  "update_turn t f s = s\<lparr>st_turns := map (\<lambda>x. if tn_id x = t then f x else x) (st_turns s)\<rparr>"

definition assistant_message :: "uuid \<Rightarrow> uuid \<Rightarrow> uuid \<Rightarrow> message_kind \<Rightarrow> str \<Rightarrow> store \<Rightarrow> message" where
  "assistant_message m t c kind content s =
     \<lparr>mg_id = m, mg_turn = t, mg_conversation = c, mg_role = RoleAssistant, mg_kind = kind,
      mg_content = content, mg_ordinal = next_ordinal s c\<rparr>"

definition upsert_pending :: "pending_row \<Rightarrow> store \<Rightarrow> store" where
  "upsert_pending p s =
     (if list_ex (\<lambda>x. pd_conversation x = pd_conversation p) (st_pending s)
      then s\<lparr>st_pending := map (\<lambda>x. if pd_conversation x = pd_conversation p then p else x) (st_pending s)\<rparr>
      else s\<lparr>st_pending := st_pending s @ [p]\<rparr>)"

definition clear_pending :: "uuid \<Rightarrow> store \<Rightarrow> store" where
  "clear_pending c s = s\<lparr>st_pending := filter (\<lambda>p. pd_conversation p \<noteq> c) (st_pending s)\<rparr>"

record clarification_write =
  cw_mode :: clarification_mode
  cw_question :: str
  cw_candidates :: "clarification_candidate list"
  cw_resolution :: reference_status
  cw_reason :: "str option"
  cw_snapshot :: snapshot

definition persist_clarification ::
  "uuid \<Rightarrow> uuid \<Rightarrow> uuid \<Rightarrow> clarification_write \<Rightarrow> store \<Rightarrow> store_error + store" where
  "persist_clarification c t message_id w s =
     rbind (candidates_to_json (cw_candidates w)) (\<lambda>payload.
     rbind (insert_message (assistant_message message_id t c MsgClarification (cw_question w) s) s) (\<lambda>s1.
       Inr (update_turn t (\<lambda>x. x\<lparr>tn_status := TurnNeedsClarification, tn_resolution := Some (cw_resolution w),
              tn_reason := cw_reason w, tn_query := None, tn_snapshot := Some (cw_snapshot w)\<rparr>)
            (upsert_pending \<lparr>pd_conversation = c, pd_turn = t, pd_mode = cw_mode w, pd_question = cw_question w,
               pd_candidates = payload\<rparr> s1))))"

definition insert_citations :: "uuid \<Rightarrow> uuid \<Rightarrow> citation_snapshot list \<Rightarrow> store \<Rightarrow> store_error + store" where
  "insert_citations m c cits s =
     (if \<not> distinct (map cs_unit_id cits) then Inl IntegrityError
      else Inr (s\<lparr>st_citations := st_citations s
             @ map (\<lambda>x. \<lparr>cr_message = m, cr_conversation = c, cr_citation = x\<rparr>) cits\<rparr>))"

definition upsert_focus :: "uuid \<Rightarrow> nat \<Rightarrow> focus_upsert \<Rightarrow> store \<Rightarrow> store" where
  "upsert_focus c no f s =
     (let row = \<lparr>fr_conversation = c, fr_focus = f, fr_last_turn = no\<rparr>;
          same = (\<lambda>x. fr_conversation x = c \<and> fu_node_id (fr_focus x) = fu_node_id f)
      in if list_ex same (st_focuses s)
         then s\<lparr>st_focuses := map (\<lambda>x. if same x then row else x) (st_focuses s)\<rparr>
         else s\<lparr>st_focuses := st_focuses s @ [row]\<rparr>)"

text \<open>Rows of a conversation have distinct nodes, so a row beyond the limit is identified by its node.\<close>

definition prune_focuses :: "uuid \<Rightarrow> store \<Rightarrow> store" where
  "prune_focuses c s =
     (let dropped = map (\<lambda>f. fu_node_id (fr_focus f)) (drop max_focuses (ranked_focuses s c)) in
      s\<lparr>st_focuses := filter (\<lambda>f. \<not> (fr_conversation f = c \<and> fu_node_id (fr_focus f) \<in> set dropped)) (st_focuses s)\<rparr>)"

record answer_write =
  aw_turn_no :: nat
  aw_status :: turn_status
  aw_kind :: message_kind
  aw_content :: str
  aw_query :: str
  aw_resolution :: reference_status
  aw_reason :: "str option"
  aw_citations :: "citation_snapshot list"
  aw_focuses :: "focus_upsert list"
  aw_update_focus :: bool
  aw_snapshot :: snapshot

definition persist_answer ::
  "uuid \<Rightarrow> uuid \<Rightarrow> uuid \<Rightarrow> answer_write \<Rightarrow> store \<Rightarrow> store_error + store" where
  "persist_answer c t message_id w s =
     rbind (insert_message (assistant_message message_id t c (aw_kind w) (aw_content w) s) s) (\<lambda>s1.
     rbind (if aw_citations w = [] then Inr s1 else insert_citations message_id c (aw_citations w) s1) (\<lambda>s2.
       let s3 = clear_pending c s2;
           s4 = (if aw_update_focus w \<and> aw_focuses w \<noteq> []
                 then prune_focuses c (fold (upsert_focus c (aw_turn_no w)) (aw_focuses w) s3) else s3)
       in Inr (update_turn t (\<lambda>x. x\<lparr>tn_status := aw_status w, tn_resolution := Some (aw_resolution w),
                tn_reason := aw_reason w, tn_query := Some (aw_query w), tn_snapshot := Some (aw_snapshot w)\<rparr>) s4)))"

definition mark_turn_failed :: "uuid \<Rightarrow> str \<Rightarrow> snapshot \<Rightarrow> store \<Rightarrow> store" where
  "mark_turn_failed t code sn s =
     update_turn t (\<lambda>x. x\<lparr>tn_status := TurnFailed, tn_error := Some code, tn_snapshot := Some sn\<rparr>) s"

text \<open>\<open>focus_upserts_from_citations\<close>\<close>

definition focus_of_citation :: "citation_snapshot \<Rightarrow> focus_upsert" where
  "focus_of_citation x =
     \<lparr>fu_node_id = (if truthy_str (cs_clause_id x) then the (cs_clause_id x)
                    else if truthy_str (cs_article_id x) then the (cs_article_id x) else cs_document_id x),
      fu_node_type = (if truthy_str (cs_clause_id x) then ''Clause''
                      else if truthy_str (cs_article_id x) then ''Article'' else ''Document''),
      fu_label = cs_label x, fu_document_id = cs_document_id x, fu_order = cs_ordinal x, fu_document_type = None,
      fu_article_id = cs_article_id x, fu_clause_id = cs_clause_id x, fu_metadata = cs_metadata x\<rparr>"

definition focus_upserts_from_citations :: "citation_snapshot list \<Rightarrow> focus_upsert list" where
  "focus_upserts_from_citations = map focus_of_citation"

subsection \<open>Conversations of an owner\<close>

definition owned_live :: "store \<Rightarrow> owner \<Rightarrow> conversation list" where
  "owned_live s ow = filter (\<lambda>v. cv_owner v = ow \<and> \<not> cv_deleted v) (st_conversations s)"

record conversation_summary =
  su_id :: uuid
  su_title :: str
  su_created :: nat
  su_updated :: nat
  su_turns :: nat

definition summary_of :: "conversation \<Rightarrow> conversation_summary" where
  "summary_of v = \<lparr>su_id = cv_id v, su_title = cv_title v, su_created = cv_created v, su_updated = cv_updated v,
     su_turns = cv_next_turn v - 1\<rparr>"

text \<open>\<open>ORDER BY updated_at DESC\<close>: rows of the same instant come in the order of the table here.\<close>

definition list_conversations :: "store \<Rightarrow> owner \<Rightarrow> nat \<Rightarrow> nat \<Rightarrow> conversation_summary list" where
  "list_conversations s ow limit offset =
     map summary_of (take limit (drop offset (sort_key (\<lambda>v. - int (cv_updated v)) (owned_live s ow))))"

definition touch_owned :: "uuid \<Rightarrow> owner \<Rightarrow> (conversation \<Rightarrow> conversation) \<Rightarrow> store \<Rightarrow> store \<times> bool" where
  "touch_owned c ow f s =
     (s\<lparr>st_conversations := map (\<lambda>v. if cv_id v = c \<and> cv_owner v = ow then f v else v) (st_conversations s)\<rparr>,
      list_ex (\<lambda>v. cv_id v = c \<and> cv_owner v = ow) (st_conversations s))"

definition patch_title :: "uuid \<Rightarrow> owner \<Rightarrow> str \<Rightarrow> nat \<Rightarrow> store \<Rightarrow> store \<times> bool" where
  "patch_title c ow title now = touch_owned c ow (\<lambda>v. v\<lparr>cv_title := py_strip title, cv_updated := now\<rparr>)"

definition delete_conversation :: "uuid \<Rightarrow> owner \<Rightarrow> nat \<Rightarrow> store \<Rightarrow> store \<times> bool" where
  "delete_conversation c ow now = touch_owned c ow (\<lambda>v. v\<lparr>cv_deleted := True, cv_updated := now\<rparr>)"

definition claim_guest :: "uuid \<Rightarrow> uuid \<Rightarrow> nat \<Rightarrow> store \<Rightarrow> store \<times> nat" where
  "claim_guest anon user now s =
     (let guest = \<lparr>ow_kind = AnonymousOwner, ow_principal = anon\<rparr> in
      (s\<lparr>st_conversations := map (\<lambda>v. if cv_owner v = guest
           then v\<lparr>cv_owner := \<lparr>ow_kind = UserOwner, ow_principal = user\<rparr>, cv_updated := now\<rparr> else v) (st_conversations s)\<rparr>,
       length (filter (\<lambda>v. cv_owner v = guest) (st_conversations s))))"

definition generate_title :: "uuid \<Rightarrow> owner \<Rightarrow> nat \<Rightarrow> store \<Rightarrow> store \<times> str option" where
  "generate_title c ow now s =
     (if \<not> list_ex (\<lambda>v. cv_id v = c) (owned_live s ow) then (s, None)
      else case sort_key mg_ordinal (filter (\<lambda>m. mg_conversation m = c \<and> mg_role m = RoleUser) (st_messages s)) of
        [] \<Rightarrow> (s, None)
      | m # _ \<Rightarrow>
          (let title = derive_title max_title_length (mg_content m) in
           (update_conversation c (\<lambda>v. v\<lparr>cv_title := title, cv_updated := now\<rparr>) s, Some title)))"

text \<open>
  The transcript: the messages in order, each with its citations and, for an assistant message, the
  \<open>answer\<close>, \<open>explanation\<close> and \<open>metadata\<close> entries of the snapshot of its turn.
\<close>

definition snapshot_answer :: "snapshot \<Rightarrow> (str \<times> answer_structure option) option" where
  "snapshot_answer sn =
     (case sn of AnswerSnapshot k p \<Rightarrow> Some (ap_text p, ap_structure p) | _ \<Rightarrow> None)"

definition snapshot_explanation :: "snapshot \<Rightarrow> chat_explanation option" where
  "snapshot_explanation sn = (case sn of AnswerSnapshot k p \<Rightarrow> Some (ap_explanation p) | _ \<Rightarrow> None)"

definition snapshot_metadata :: "snapshot \<Rightarrow> chat_metadata option" where
  "snapshot_metadata sn =
     (case sn of AnswerSnapshot k p \<Rightarrow> Some (ap_metadata p) | ClarificationSnapshot m c d \<Rightarrow> Some m | _ \<Rightarrow> None)"

record transcript_citation =
  tc_ordinal :: nat
  tc_unit_id :: str
  tc_label :: str
  tc_document_id :: str
  tc_deep_link :: str

definition transcript_citation_of :: "citation_snapshot \<Rightarrow> transcript_citation" where
  "transcript_citation_of x =
     \<lparr>tc_ordinal = cs_ordinal x, tc_unit_id = cs_unit_id x, tc_label = cs_label x,
      tc_document_id = cs_document_id x, tc_deep_link = cs_deep_link x\<rparr>"

record transcript_entry =
  te_id :: uuid
  te_role :: message_role
  te_kind :: message_kind
  te_content :: str
  te_ordinal :: nat
  te_citations :: "transcript_citation list"
  te_answer :: "(str \<times> answer_structure option) option"
  te_explanation :: "chat_explanation option"
  te_metadata :: "chat_metadata option"

definition turn_snapshot :: "store \<Rightarrow> uuid \<Rightarrow> uuid \<Rightarrow> snapshot option" where
  "turn_snapshot s c t =
     Option.bind (find (\<lambda>x. tn_conversation x = c \<and> tn_id x = t) (st_turns s)) tn_snapshot"

definition transcript_of :: "store \<Rightarrow> uuid \<Rightarrow> message \<Rightarrow> transcript_entry" where
  "transcript_of s c m =
     (let sn = (if mg_role m = RoleAssistant then turn_snapshot s c (mg_turn m) else None) in
      \<lparr>te_id = mg_id m, te_role = mg_role m, te_kind = mg_kind m, te_content = mg_content m, te_ordinal = mg_ordinal m,
       te_citations = map (\<lambda>r. transcript_citation_of (cr_citation r))
         (sort_key (\<lambda>r. cs_ordinal (cr_citation r))
            (filter (\<lambda>r. cr_conversation r = c \<and> cr_message r = mg_id m) (st_citations s))),
       te_answer = Option.bind sn snapshot_answer, te_explanation = Option.bind sn snapshot_explanation,
       te_metadata = Option.bind sn snapshot_metadata\<rparr>)"

definition conversation_messages :: "store \<Rightarrow> uuid \<Rightarrow> message list" where
  "conversation_messages s c = sort_key mg_ordinal (filter (\<lambda>m. mg_conversation m = c) (st_messages s))"

record conversation_view =
  vw_id :: uuid
  vw_title :: str
  vw_created :: nat
  vw_updated :: nat
  vw_messages :: "transcript_entry list"

definition conversation_detail :: "store \<Rightarrow> uuid \<Rightarrow> owner \<Rightarrow> conversation_view option" where
  "conversation_detail s c ow =
     (case find (\<lambda>v. cv_id v = c) (owned_live s ow) of
        None \<Rightarrow> None
      | Some v \<Rightarrow> Some \<lparr>vw_id = cv_id v, vw_title = cv_title v, vw_created = cv_created v, vw_updated = cv_updated v,
                       vw_messages = map (transcript_of s c) (conversation_messages s c)\<rparr>)"

end
