(* ===== verification/Reference_Parsing.thy ===== *)
theory Reference_Parsing
  imports Py_Regex Conversation_Store Ontology_Properties
begin

text \<open>
  The deterministic reading of a chat message (\<open>apps/backend/resolution\<close>): explicit legal references, anaphora,
  the relation goal, the replies to a clarification and the candidates of the canonical lookup. Each pattern is
  the expression of the source; the operations of \<open>str\<close> that need the Unicode database are in
    \<open>language\<close>.
\<close>

record language =
  tx_unicode :: unicode
  tx_casefold :: "str \<Rightarrow> str"
  tx_lower :: "str \<Rightarrow> str"
  tx_repr :: "str list \<Rightarrow> str"

text \<open>\<open>substring in text\<close>\<close>

definition occurs_in :: "str \<Rightarrow> str \<Rightarrow> bool" where
  "occurs_in sub s \<longleftrightarrow> list_ex (\<lambda>t. prefix sub t) (suffixes s)"

lemma occurs_in_iff: "occurs_in sub s \<longleftrightarrow> sublist sub s"
proof -
  have "occurs_in sub s \<longleftrightarrow> (\<exists>t. suffix t s \<and> prefix sub t)"
    by (auto simp: occurs_in_def list_ex_iff)
  also have "\<dots> \<longleftrightarrow> sublist sub s"
    by (auto simp: suffix_def prefix_def sublist_def)
  finally show ?thesis .
qed

definition findall :: "unicode \<Rightarrow> bool \<Rightarrow> regex \<Rightarrow> str \<Rightarrow> str list" where
  "findall U ic r s = map rm_text (rx_finditer U ic r s)"

definition findall_group :: "unicode \<Rightarrow> bool \<Rightarrow> regex \<Rightarrow> nat \<Rightarrow> str
  \<Rightarrow> str list" where
  "findall_group U ic r g s = map (\<lambda>m. str_or (rm_group m g) []) (rx_finditer U ic r s)"

text \<open>The first element of every key.\<close>

fun first_by_from :: "'b list \<Rightarrow> ('a \<Rightarrow> 'b) \<Rightarrow> 'a list \<Rightarrow> 'a list" where
  "first_by_from seen key [] = []"
| "first_by_from seen key (x # xs) =
     (if key x \<in> set seen then first_by_from seen key xs else x # first_by_from (key x # seen) key xs)"

definition first_by :: "('a \<Rightarrow> 'b) \<Rightarrow> 'a list \<Rightarrow> 'a list" where
  "first_by = first_by_from []"

lemma first_by_from_keys:
  "distinct (map key (first_by_from seen key xs)) \<and> key ` set (first_by_from seen key xs) = key ` set xs - set seen
   \<and> set (first_by_from seen key xs) \<subseteq> set xs"
  by (induction xs arbitrary: seen) auto

lemma first_by_distinct [simp]: "distinct (map key (first_by key xs))"
  by (simp add: first_by_def first_by_from_keys)

lemma first_by_keys [simp]: "key ` set (first_by key xs) = key ` set xs"
  by (simp add: first_by_def first_by_from_keys)

lemma first_by_subset: "set (first_by key xs) \<subseteq> set xs"
  by (simp add: first_by_def first_by_from_keys)

subsection \<open>Units and references\<close>

datatype unit_type = UDocument | UArticle | UClause | UPoint

fun unit_type_value :: "unit_type \<Rightarrow> str" where
  "unit_type_value UDocument = ''Document''"
| "unit_type_value UArticle = ''Article''"
| "unit_type_value UClause = ''Clause''"
| "unit_type_value UPoint = ''Point''"

text \<open>\<open>ExpectedUnitType(value)\<close>, which raises for any other value.\<close>

definition unit_type_of :: "str \<Rightarrow> unit_type option" where
  "unit_type_of v = find (\<lambda>t. unit_type_value t = v) [UDocument, UArticle, UClause, UPoint]"

lemma unit_type_of_value [simp]: "unit_type_of (unit_type_value t) = Some t"
  by (cases t) (simp_all add: unit_type_of_def)

record explicit_reference =
  er_number :: "str option"
  er_law :: "str option"
  er_year :: "nat option"
  er_article :: "str option"
  er_clause :: "str option"
  er_point :: "str option"

definition has_document_identity :: "explicit_reference \<Rightarrow> bool" where
  "has_document_identity r \<longleftrightarrow> truthy_str (er_number r) \<or> truthy_str (er_law r)"

definition has_structural_unit :: "explicit_reference \<Rightarrow> bool" where
  "has_structural_unit r \<longleftrightarrow> truthy_str (er_article r) \<or> truthy_str (er_clause r) \<or>
    truthy_str (er_point r)"

definition is_present :: "explicit_reference \<Rightarrow> bool" where
  "is_present r \<longleftrightarrow> has_document_identity r \<or> has_structural_unit r"

definition deepest_unit_type :: "explicit_reference \<Rightarrow> unit_type" where
  "deepest_unit_type r =
     (if truthy_str (er_point r) then UPoint else if truthy_str (er_clause r) then UClause
      else if truthy_str (er_article r) then UArticle else UDocument)"

subsection \<open>Explicit references\<close>

definition document_number_rx :: regex where
  "document_number_rx =
     seqs [repeat True 1 5 digit, lits ''/'', repeat True 4 4 digit, lits ''/'', repeat_from True 1
     (Class False [ItemRange 48 57, ItemRange 65 90, ItemRange 97 122, ItemChar ([CHR 0xC4, CHR 0x90]),
     ItemChar ([CHR 0xC4, CHR 0x91])]), Many True (seqs [lits ''-'', repeat_from True 1 (Class False
     [ItemRange 48 57, ItemRange 65 90, ItemRange 97 122, ItemChar ([CHR 0xC4, CHR 0x90]), ItemChar
     ([CHR 0xC4, CHR 0x91])])])]"
definition law_name_rx :: regex where
  "law_name_rx =
     seqs [Group 1 (seqs [alts [seqs [lits (''B'' @ [CHR 0xE1, CHR 0xBB, CHR 0x99]), blanks, lits
     (''lu'' @ [CHR 0xE1, CHR 0xBA, CHR 0xAD] @ ''t'')], lits (''Lu'' @ [CHR 0xE1, CHR 0xBA, CHR 0xAD]
     @ ''t'')], blanks, Class False [ItemRange 65 90, ItemRange 97 122, ItemRange 192 7929], Many False
     (Class False [ItemRange 65 90, ItemRange 97 122, ItemRange 192 7929, ItemSpace])]), blanks, opt
     True (seqs [lits (''n'' @ [CHR 0xC4, CHR 0x83] @ ''m''), blanks]), Group 2 (repeat True 4 4
     digit)]"
definition law_name_without_year_rx :: regex where
  "law_name_without_year_rx =
     seqs [Group 1 (seqs [alts [seqs [lits (''B'' @ [CHR 0xE1, CHR 0xBB, CHR 0x99]), blanks, lits
     (''lu'' @ [CHR 0xE1, CHR 0xBA, CHR 0xAD] @ ''t'')], lits (''Lu'' @ [CHR 0xE1, CHR 0xBA, CHR 0xAD]
     @ ''t'')], blanks, Class False [ItemRange 65 90, ItemRange 97 122, ItemRange 192 7929], Many False
     (Class False [ItemRange 65 90, ItemRange 97 122, ItemRange 192 7929, ItemSpace])]), Ahead True
     (alts [seqs [blanks, alts [lits (''c'' @ [CHR 0xC3, CHR 0xB3]), seqs [lits ''quy'', blanks, lits
     ([CHR 0xC4, CHR 0x91, CHR 0xE1, CHR 0xBB, CHR 0x8B] @ ''nh'')], seqs [lits (''d'' @ [CHR 0xE1, CHR
     0xBA, CHR 0xAB] @ ''n''), blanks, lits (''chi'' @ [CHR 0xE1, CHR 0xBA, CHR 0xBF] @ ''u'')], lits
     (''n'' @ [CHR 0xC3, CHR 0xB3] @ ''i''), lits ([CHR 0xC4, CHR 0x91, CHR 0xC6, CHR 0xB0, CHR 0xE1,
     CHR 0xBB, CHR 0xA3] @ ''c''), lits ([CHR 0xC4, CHR 0x91] @ ''ang''), lits (''hi'' @ [CHR 0xE1, CHR
     0xBB, CHR 0x87] @ ''n''), seqs [lits ([CHR 0xC3, CHR 0xA1] @ ''p''), blanks, lits (''d'' @ [CHR
     0xE1, CHR 0xBB, CHR 0xA5] @ ''ng'')], lits (''th'' @ [CHR 0xC3, CHR 0xAC])], WordEdge], seqs
     [blanks, lits (''v'' @ [CHR 0xC3, CHR 0xA0]), blanks, alts [seqs [lits (''B'' @ [CHR 0xE1, CHR
     0xBB, CHR 0x99]), blanks, lits (''lu'' @ [CHR 0xE1, CHR 0xBA, CHR 0xAD] @ ''t'')], lits (''Lu'' @
     [CHR 0xE1, CHR 0xBA, CHR 0xAD] @ ''t'')], WordEdge], Class False [ItemChar ''?'', ItemChar '','',
     ItemChar ''.'', ItemChar '';'', ItemChar '':''], TextEnd])]"
definition article_rx :: regex where
  "article_rx =
     seqs [lits ([CHR 0xC4, CHR 0x90] @ ''i'' @ [CHR 0xE1, CHR 0xBB, CHR 0x81] @ ''u''), blanks, Group
     1 (seqs [digits, opt True (Class False [ItemRange 65 90, ItemRange 97 122, ItemChar ([CHR 0xC4,
     CHR 0x90]), ItemChar ([CHR 0xC4, CHR 0x91])])])]"
definition clause_rx :: regex where
  "clause_rx =
     seqs [lits (''Kho'' @ [CHR 0xE1, CHR 0xBA, CHR 0xA3] @ ''n''), blanks, Group 1 digits]"
definition point_rx :: regex where
  "point_rx =
     seqs [lits ([CHR 0xC4, CHR 0x90] @ ''i'' @ [CHR 0xE1, CHR 0xBB, CHR 0x83] @ ''m''), blanks, Group
     1 (Class False [ItemRange 65 90, ItemRange 97 122, ItemChar ([CHR 0xC4, CHR 0x90]), ItemChar ([CHR
     0xC4, CHR 0x91])]), WordEdge]"

definition law_anaphora :: "str list" where
  "law_anaphora = [(''lu'' @ [CHR 0xE1, CHR 0xBA, CHR 0xAD] @ ''t n'' @ [CHR 0xC3, CHR 0xA0] @ ''y''), (''lu''
    @ [CHR 0xE1, CHR 0xBA, CHR 0xAD] @ ''t '' @ [CHR 0xC4, CHR 0x91, CHR 0xC3, CHR 0xB3]), (''lu'' @ [CHR 0xE1,
    CHR 0xBA, CHR 0xAD] @ ''t tr'' @ [CHR 0xC3, CHR 0xAA] @ ''n'')]"

definition max_references :: nat where "max_references = 5"

definition law_references :: "language \<Rightarrow> str \<Rightarrow> (str \<times> nat option) list" where
  "law_references L message =
     (let U = tx_unicode L;
          dated = map (\<lambda>m. (py_strip (str_or (rm_group m 1) []), py_int U (str_or (rm_group m 2) [])))
            (rx_finditer U True law_name_rx message);
          undated = map (\<lambda>n. (py_strip n, None))
            (filter (\<lambda>n. tx_casefold L (py_strip n) \<notin> set law_anaphora)
               (findall_group U True law_name_without_year_rx 1 message))
      in stable_unique (dated @ undated))"

definition single :: "'a list \<Rightarrow> 'a option" where
  "single xs = (case xs of [x] \<Rightarrow> Some x | _ \<Rightarrow> None)"

text \<open>The references up to the limit, in the order of the two loops; those with no part are skipped.\<close>

definition document_identities :: "language \<Rightarrow> str \<Rightarrow> (str option \<times> str option
  \<times> nat option) list" where
  "document_identities L message =
     (let ids = map (\<lambda>n. (Some n, None, None)) (stable_unique (findall (tx_unicode L) False document_number_rx message))
            @ map (\<lambda>(n, y). (None, Some n, y)) (law_references L message)
      in if ids = [] then [(None, None, None)] else ids)"

definition parse_explicit_references :: "language \<Rightarrow> str \<Rightarrow> explicit_reference list" where
  "parse_explicit_references L message =
     (let U = tx_unicode L;
          articles = stable_unique (findall_group U True article_rx 1 message);
          clause = single (stable_unique (findall_group U True clause_rx 1 message));
          point = single (stable_unique (map (tx_lower L) (findall_group U True point_rx 1 message)));
          options = (if articles = [] then [None] else map Some articles)
      in take max_references (filter is_present
           (concat (map (\<lambda>(number, law, year). map (\<lambda>a.
               \<lparr>er_number = number, er_law = law, er_year = year, er_article = a,
                er_clause = (if truthy_str a then clause else None),
                er_point = (if truthy_str a then point else None)\<rparr>) options)
             (document_identities L message)))))"

subsection \<open>Anaphora\<close>

definition anaphoric_article_rx :: regex where
  "anaphoric_article_rx =
     seqs [lits ([CHR 0xC4, CHR 0x91] @ ''i'' @ [CHR 0xE1, CHR 0xBB, CHR 0x81] @ ''u''), blanks, alts
     [lits (''n'' @ [CHR 0xC3, CHR 0xA0] @ ''y''), lits ([CHR 0xC4, CHR 0x91, CHR 0xC3, CHR 0xB3]),
     lits (''tr'' @ [CHR 0xC3, CHR 0xAA] @ ''n''), lits ([CHR 0xE1, CHR 0xBA, CHR 0xA5] @ ''y''), seqs
     [lits (''v'' @ [CHR 0xE1, CHR 0xBB, CHR 0xAB] @ ''a''), blanks, lits (''n'' @ [CHR 0xC3, CHR 0xAA]
     @ ''u'')], seqs [lits (''n'' @ [CHR 0xC3, CHR 0xAA] @ ''u''), blanks, lits (''tr'' @ [CHR 0xC3,
     CHR 0xAA] @ ''n'')], seqs [lits ([CHR 0xC4, CHR 0x91, CHR 0xC3, CHR 0xA3]), blanks, lits (''n'' @
     [CHR 0xC3, CHR 0xAA] @ ''u'')]]]"
definition anaphoric_clause_rx :: regex where
  "anaphoric_clause_rx =
     seqs [lits (''kho'' @ [CHR 0xE1, CHR 0xBA, CHR 0xA3] @ ''n''), blanks, alts [lits (''n'' @ [CHR
     0xC3, CHR 0xA0] @ ''y''), lits ([CHR 0xC4, CHR 0x91, CHR 0xC3, CHR 0xB3]), lits (''tr'' @ [CHR
     0xC3, CHR 0xAA] @ ''n''), lits ([CHR 0xE1, CHR 0xBA, CHR 0xA5] @ ''y''), seqs [lits (''v'' @ [CHR
     0xE1, CHR 0xBB, CHR 0xAB] @ ''a''), blanks, lits (''n'' @ [CHR 0xC3, CHR 0xAA] @ ''u'')], seqs
     [lits (''n'' @ [CHR 0xC3, CHR 0xAA] @ ''u''), blanks, lits (''tr'' @ [CHR 0xC3, CHR 0xAA] @
     ''n'')], seqs [lits ([CHR 0xC4, CHR 0x91, CHR 0xC3, CHR 0xA3]), blanks, lits (''n'' @ [CHR 0xC3,
     CHR 0xAA] @ ''u'')]]]"
definition anaphoric_point_rx :: regex where
  "anaphoric_point_rx =
     seqs [lits ([CHR 0xC4, CHR 0x91] @ ''i'' @ [CHR 0xE1, CHR 0xBB, CHR 0x83] @ ''m''), blanks, alts
     [lits (''n'' @ [CHR 0xC3, CHR 0xA0] @ ''y''), lits ([CHR 0xC4, CHR 0x91, CHR 0xC3, CHR 0xB3]),
     lits (''tr'' @ [CHR 0xC3, CHR 0xAA] @ ''n''), lits ([CHR 0xE1, CHR 0xBA, CHR 0xA5] @ ''y''), seqs
     [lits (''v'' @ [CHR 0xE1, CHR 0xBB, CHR 0xAB] @ ''a''), blanks, lits (''n'' @ [CHR 0xC3, CHR 0xAA]
     @ ''u'')], seqs [lits (''n'' @ [CHR 0xC3, CHR 0xAA] @ ''u''), blanks, lits (''tr'' @ [CHR 0xC3,
     CHR 0xAA] @ ''n'')], seqs [lits ([CHR 0xC4, CHR 0x91, CHR 0xC3, CHR 0xA3]), blanks, lits (''n'' @
     [CHR 0xC3, CHR 0xAA] @ ''u'')]]]"
definition anaphoric_document_rx :: regex where
  "anaphoric_document_rx =
     seqs [alts [seqs [lits (''v'' @ [CHR 0xC4, CHR 0x83] @ ''n''), blanks, lits (''b'' @ [CHR 0xE1,
     CHR 0xBA, CHR 0xA3] @ ''n'')], seqs [lits (''b'' @ [CHR 0xE1, CHR 0xBB, CHR 0x99]), blanks, lits
     (''lu'' @ [CHR 0xE1, CHR 0xBA, CHR 0xAD] @ ''t'')], lits (''lu'' @ [CHR 0xE1, CHR 0xBA, CHR 0xAD]
     @ ''t''), seqs [lits (''ngh'' @ [CHR 0xE1, CHR 0xBB, CHR 0x8B]), blanks, lits ([CHR 0xC4, CHR
     0x91, CHR 0xE1, CHR 0xBB, CHR 0x8B] @ ''nh'')], seqs [lits (''th'' @ [CHR 0xC3, CHR 0xB4] @
     ''ng''), blanks, lits (''t'' @ [CHR 0xC6, CHR 0xB0])]], blanks, alts [lits (''n'' @ [CHR 0xC3, CHR
     0xA0] @ ''y''), lits ([CHR 0xC4, CHR 0x91, CHR 0xC3, CHR 0xB3]), lits (''tr'' @ [CHR 0xC3, CHR
     0xAA] @ ''n''), lits ([CHR 0xE1, CHR 0xBA, CHR 0xA5] @ ''y''), seqs [lits (''v'' @ [CHR 0xE1, CHR
     0xBB, CHR 0xAB] @ ''a''), blanks, lits (''n'' @ [CHR 0xC3, CHR 0xAA] @ ''u'')], seqs [lits (''n''
     @ [CHR 0xC3, CHR 0xAA] @ ''u''), blanks, lits (''tr'' @ [CHR 0xC3, CHR 0xAA] @ ''n'')], seqs [lits
     ([CHR 0xC4, CHR 0x91, CHR 0xC3, CHR 0xA3]), blanks, lits (''n'' @ [CHR 0xC3, CHR 0xAA] @ ''u'')]]]"
definition anaphoric_rule_rx :: regex where
  "anaphoric_rule_rx =
     seqs [lits ''quy'', blanks, lits ([CHR 0xC4, CHR 0x91, CHR 0xE1, CHR 0xBB, CHR 0x8B] @ ''nh''),
     blanks, alts [lits (''n'' @ [CHR 0xC3, CHR 0xA0] @ ''y''), lits ([CHR 0xC4, CHR 0x91, CHR 0xC3,
     CHR 0xB3]), lits (''tr'' @ [CHR 0xC3, CHR 0xAA] @ ''n''), lits ([CHR 0xE1, CHR 0xBA, CHR 0xA5] @
     ''y''), seqs [lits (''v'' @ [CHR 0xE1, CHR 0xBB, CHR 0xAB] @ ''a''), blanks, lits (''n'' @ [CHR
     0xC3, CHR 0xAA] @ ''u'')], seqs [lits (''n'' @ [CHR 0xC3, CHR 0xAA] @ ''u''), blanks, lits (''tr''
     @ [CHR 0xC3, CHR 0xAA] @ ''n'')], seqs [lits ([CHR 0xC4, CHR 0x91, CHR 0xC3, CHR 0xA3]), blanks,
     lits (''n'' @ [CHR 0xC3, CHR 0xAA] @ ''u'')]]]"
definition pronoun_rx :: regex where
  "pronoun_rx =
     seqs [Behind False 1 (Class False [ItemRange 48 57, ItemRange 65 90, ItemRange 97 122, ItemRange
     192 7929]), lits (''n'' @ [CHR 0xC3, CHR 0xB3]), Ahead False (Class False [ItemRange 48 57,
     ItemRange 65 90, ItemRange 97 122, ItemRange 192 7929])]"

text \<open>The result is the expected type of the referent, \<open>Some None\<close> for a referent of any type.\<close>

definition detect_anaphora :: "language \<Rightarrow> str \<Rightarrow> unit_type option option" where
  "detect_anaphora L message =
     (let found = (\<lambda>r. rx_found (tx_unicode L) True r message) in
      if found anaphoric_point_rx then Some (Some UPoint)
      else if found anaphoric_clause_rx then Some (Some UClause)
      else if found anaphoric_article_rx then Some (Some UArticle)
      else if found anaphoric_document_rx then Some (Some UDocument)
      else if found anaphoric_rule_rx \<or> found pronoun_rx then Some None
      else None)"

definition ordered_patterns :: "regex list" where
  "ordered_patterns =
     [anaphoric_point_rx, anaphoric_clause_rx, anaphoric_article_rx, anaphoric_document_rx, anaphoric_rule_rx, pronoun_rx]"

fun first_match :: "language \<Rightarrow> regex list \<Rightarrow> str \<Rightarrow> rmatch option" where
  "first_match L [] s = None"
| "first_match L (r # rs) s =
     (case rx_search (tx_unicode L) True r s of Some m \<Rightarrow> Some m | None \<Rightarrow> first_match L rs s)"

definition replace_first_anaphora :: "language \<Rightarrow> str \<Rightarrow> str \<Rightarrow> str option" where
  "replace_first_anaphora L message replacement =
     map_option (\<lambda>m. py_take (rm_start m) message @ replacement @ concat (drop (rm_end m) (py_chars message)))
       (first_match L ordered_patterns message)"

subsection \<open>The relation goal\<close>

definition refers_to_rx :: regex where
  "refers_to_rx =
     alts [seqs [lits (''d'' @ [CHR 0xE1, CHR 0xBA, CHR 0xAB] @ ''n''), blanks, lits (''chi'' @ [CHR
     0xE1, CHR 0xBA, CHR 0xBF] @ ''u'')], seqs [lits ''tham'', blanks, lits (''chi'' @ [CHR 0xE1, CHR
     0xBA, CHR 0xBF] @ ''u'')], seqs [lits (''vi'' @ [CHR 0xE1, CHR 0xBB, CHR 0x87] @ ''n''), blanks,
     lits (''d'' @ [CHR 0xE1, CHR 0xBA, CHR 0xAB] @ ''n'')], seqs [lits ''quy'', blanks, lits ([CHR
     0xC4, CHR 0x91, CHR 0xE1, CHR 0xBB, CHR 0x8B] @ ''nh''), blanks, lits (''t'' @ [CHR 0xE1, CHR
     0xBA, CHR 0xA1] @ ''i''), blanks, alts [lits ([CHR 0xC4, CHR 0x91] @ ''i'' @ [CHR 0xE1, CHR 0xBB,
     CHR 0x81] @ ''u''), lits (''kho'' @ [CHR 0xE1, CHR 0xBA, CHR 0xA3] @ ''n''), lits ([CHR 0xC4, CHR
     0x91] @ ''i'' @ [CHR 0xE1, CHR 0xBB, CHR 0x83] @ ''m''), seqs [lits (''v'' @ [CHR 0xC4, CHR 0x83]
     @ ''n''), blanks, lits (''b'' @ [CHR 0xE1, CHR 0xBA, CHR 0xA3] @ ''n'')]], blanks, lits (''n'' @
     [CHR 0xC3, CHR 0xA0] @ ''o'')]]"

definition detect_relation_goal :: "language \<Rightarrow> str \<Rightarrow> relation_goal option" where
  "detect_relation_goal L message =
     (if rx_found (tx_unicode L) True refers_to_rx message then Some GoalRefersTo else None)"

subsection \<open>Clarifications\<close>

definition cancel_phrases :: "str list" where
  "cancel_phrases = [(''h'' @ [CHR 0xE1, CHR 0xBB, CHR 0xA7] @ ''y''), (''hu'' @ [CHR 0xE1, CHR 0xBB, CHR
    0xB7]), (''b'' @ [CHR 0xE1, CHR 0xBB, CHR 0x8F] @ '' qua''), (''h'' @ [CHR 0xE1, CHR 0xBB, CHR 0xA7] @
    ''y b'' @ [CHR 0xE1, CHR 0xBB, CHR 0x8F]), (''hu'' @ [CHR 0xE1, CHR 0xBB, CHR 0xB7] @ '' b'' @ [CHR 0xE1,
    CHR 0xBB, CHR 0x8F]), (''th'' @ [CHR 0xC3, CHR 0xB4] @ ''i'')]"

definition is_cancel :: "language \<Rightarrow> str \<Rightarrow> bool" where
  "is_cancel L message \<longleftrightarrow> normalize_reply (tx_casefold L) message \<in> set cancel_phrases"

definition build_select_question :: "clarification_candidate list \<Rightarrow> str" where
  "build_select_question cs =
     ([CHR 0xC3, CHR 0x9D] @ '' b'' @ [CHR 0xE1, CHR 0xBA, CHR 0xA1] @ ''n l'' @ [CHR 0xC3, CHR 0xA0] @ '' v''
       @ [CHR 0xC4, CHR 0x83] @ ''n b'' @ [CHR 0xE1, CHR 0xBA, CHR 0xA3] @ ''n n'' @ [CHR 0xC3, CHR 0xA0] @
       ''o? '')
     @ join '' '' (map (\<lambda>(i, c). show_int (int i) @ ''. '' @ cand_label c) (zip [1..<Suc (length cs)] cs))
     @ ('' Vui l'' @ [CHR 0xC3, CHR 0xB2] @ ''ng tr'' @ [CHR 0xE1, CHR 0xBA, CHR 0xA3] @ '' l'' @ [CHR 0xE1,
       CHR 0xBB, CHR 0x9D] @ ''i b'' @ [CHR 0xE1, CHR 0xBA, CHR 0xB1] @ ''ng s'' @ [CHR 0xE1, CHR 0xBB, CHR
       0x91] @ '' th'' @ [CHR 0xE1, CHR 0xBB, CHR 0xA9] @ '' t'' @ [CHR 0xE1, CHR 0xBB, CHR 0xB1] @ '' ho'' @
       [CHR 0xE1, CHR 0xBA, CHR 0xB7] @ ''c t'' @ [CHR 0xC3, CHR 0xAA] @ ''n, ho'' @ [CHR 0xE1, CHR 0xBA, CHR
       0xB7] @ ''c g'' @ [CHR 0xC3, CHR 0xB5] @ '' '' @ [CHR 0x27] @ ''h'' @ [CHR 0xE1, CHR 0xBB, CHR 0xA7] @
       ''y'' @ [CHR 0x27] @ '' '' @ [CHR 0xC4, CHR 0x91, CHR 0xE1, CHR 0xBB, CHR 0x83] @ '' b'' @ [CHR 0xE1,
       CHR 0xBB, CHR 0x8F] @ '' qua.'')"

fun unit_noun :: "unit_type option \<Rightarrow> str" where
  "unit_noun (Some UDocument) = (''v'' @ [CHR 0xC4, CHR 0x83] @ ''n b'' @ [CHR 0xE1, CHR 0xBA, CHR 0xA3] @ ''n'')"
| "unit_noun (Some UArticle) = ([CHR 0xC4, CHR 0x91] @ ''i'' @ [CHR 0xE1, CHR 0xBB, CHR 0x81] @ ''u'')"
| "unit_noun (Some UClause) = (''kho'' @ [CHR 0xE1, CHR 0xBA, CHR 0xA3] @ ''n'')"
| "unit_noun (Some UPoint) = ([CHR 0xC4, CHR 0x91] @ ''i'' @ [CHR 0xE1, CHR 0xBB, CHR 0x83] @ ''m'')"
| "unit_noun None = (''n'' @ [CHR 0xE1, CHR 0xBB, CHR 0x99] @ ''i dung'')"

definition build_restate_question :: "unit_type option \<Rightarrow> str" where
  "build_restate_question t =
     (''T'' @ [CHR 0xC3, CHR 0xB4] @ ''i ch'' @ [CHR 0xC6, CHR 0xB0] @ ''a x'' @ [CHR 0xC3, CHR 0xA1] @ ''c ''
       @ [CHR 0xC4, CHR 0x91, CHR 0xE1, CHR 0xBB, CHR 0x8B] @ ''nh '' @ [CHR 0xC4, CHR 0x91, CHR 0xC6, CHR
       0xB0, CHR 0xE1, CHR 0xBB, CHR 0xA3] @ ''c '') @ unit_noun t
     @ ('' b'' @ [CHR 0xE1, CHR 0xBA, CHR 0xA1] @ ''n '' @ [CHR 0xC4, CHR 0x91] @ ''ang nh'' @ [CHR 0xE1, CHR
       0xBA, CHR 0xAF] @ ''c '' @ [CHR 0xC4, CHR 0x91, CHR 0xE1, CHR 0xBA, CHR 0xBF] @ ''n. B'' @ [CHR 0xE1,
       CHR 0xBA, CHR 0xA1] @ ''n vui l'' @ [CHR 0xC3, CHR 0xB2] @ ''ng n'' @ [CHR 0xC3, CHR 0xAA] @ ''u r'' @
       [CHR 0xC3, CHR 0xB5] @ '' h'' @ [CHR 0xC6, CHR 0xA1] @ ''n ho'' @ [CHR 0xE1, CHR 0xBA, CHR 0xB7] @
       ''c '' @ [CHR 0xC4, CHR 0x91, CHR 0xE1, CHR 0xBA, CHR 0xB7] @ ''t l'' @ [CHR 0xE1, CHR 0xBA, CHR 0xA1] @
       ''i c'' @ [CHR 0xC3, CHR 0xA2] @ ''u h'' @ [CHR 0xE1, CHR 0xBB, CHR 0x8F] @ ''i '' @ [CHR 0xC4, CHR
       0x91, CHR 0xE1, CHR 0xBA, CHR 0xA7] @ ''y '' @ [CHR 0xC4, CHR 0x91, CHR 0xE1, CHR 0xBB, CHR 0xA7] @
       ''.'')"

text \<open>
  \<open>match_select\<close>: the candidate chosen by a reply. \<open>None\<close> is the
    \<open>ValueError\<close> of \<open>int()\<close> on a reply of digits
  that are no decimals.
\<close>

definition match_select ::
  "language \<Rightarrow> clarification_candidate list \<Rightarrow> str \<Rightarrow> clarification_candidate
    option option" where
  "match_select L cs message =
     (let reply = normalize_reply (tx_casefold L) message in
      if py_isdigit (tx_unicode L) reply
      then (case py_int (tx_unicode L) reply of
              None \<Rightarrow> None
            | Some i \<Rightarrow> Some (if 1 \<le> i \<and> i \<le> length cs then Some (cs ! (i - 1)) else None))
      else Some (find (\<lambda>c. normalize_reply (tx_casefold L) (cand_label c) = reply) cs))"

subsection \<open>Resolved candidates\<close>

record resolved_candidate =
  rcd_node_id :: str
  rcd_node_type :: unit_type
  rcd_label :: str
  rcd_document_id :: str
  rcd_document_number :: "str option"
  rcd_article_id :: "str option"
  rcd_article_number :: "str option"
  rcd_clause_id :: "str option"
  rcd_clause_number :: "str option"
  rcd_point_id :: "str option"
  rcd_point_label :: "str option"
  rcd_metadata :: "(str \<times> json) list"

definition truthy_part :: "str \<Rightarrow> str option \<Rightarrow> str list" where
  "truthy_part pre v = (if truthy_str v then [pre @ the v] else [])"

definition unit_parts :: "str option \<Rightarrow> str option \<Rightarrow> str option \<Rightarrow> str list" where
  "unit_parts article clause point =
     truthy_part ([CHR 0xC4, CHR 0x90] @ ''i'' @ [CHR 0xE1, CHR 0xBB, CHR 0x81] @ ''u '') article @ truthy_part
       (''Kho'' @ [CHR 0xE1, CHR 0xBA, CHR 0xA3] @ ''n '') clause @ truthy_part ([CHR 0xC4, CHR 0x90] @ ''i'' @
       [CHR 0xE1, CHR 0xBB, CHR 0x83] @ ''m '') point"

definition required_anchors :: "resolved_candidate \<Rightarrow> str list" where
  "required_anchors c =
     truthy_part [] (rcd_document_number c)
     @ unit_parts (rcd_article_number c) (rcd_clause_number c) (rcd_point_label c)"

fun method_value :: "reference_method \<Rightarrow> str" where
  "method_value ExactStructuralLookup = ''EXACT_STRUCTURAL_LOOKUP''"
| "method_value GroundedHistoryFocus = ''GROUNDED_HISTORY_FOCUS''"

fun source_value :: "reference_source \<Rightarrow> str" where
  "source_value CurrentMessage = ''CURRENT_MESSAGE''"
| "source_value GroundedHistory = ''GROUNDED_HISTORY''"
| "source_value PendingClarification = ''PENDING_CLARIFICATION''"

definition method_of :: "str \<Rightarrow> reference_method option" where
  "method_of v = find (\<lambda>m. method_value m = v) [ExactStructuralLookup, GroundedHistoryFocus]"

definition goal_of :: "str \<Rightarrow> relation_goal option" where
  "goal_of v = find (\<lambda>g. relation_goal_value g = v) [GoalRefersTo, GoalDefines, GoalRegulates, GoalGuides]"

definition to_clarification_candidate ::
  "reference_method \<Rightarrow> reference_source \<Rightarrow> str \<Rightarrow> relation_goal option
    \<Rightarrow> resolved_candidate \<Rightarrow> clarification_candidate" where
  "to_clarification_candidate m src message goal c =
     \<lparr>cand_id = rcd_node_id c, cand_label = rcd_label c, cand_node_type = Some (unit_type_value (rcd_node_type c)),
      cand_document_id = Some (rcd_document_id c), cand_article_id = rcd_article_id c, cand_clause_id = rcd_clause_id c,
      cand_metadata =
        [(''document_number'', jstr_opt (rcd_document_number c)), (''article_number'', jstr_opt
          (rcd_article_number c)),
         (''clause_number'', jstr_opt (rcd_clause_number c)), (''point_id'', jstr_opt (rcd_point_id c)),
         (''point_label'', jstr_opt (rcd_point_label c)), (''document_metadata'', JObj (rcd_metadata c)),
         (''resolution_method'', JStr (method_value m)), (''reference_source'', JStr (source_value src)),
         (''source_message'', JStr message), (''relation_goal'', jstr_opt (map_option relation_goal_value
           goal))]\<rparr>"

text \<open>The metadata entries are annotated \<open>str | None\<close>: a string is read, anything else
  stands for \<open>None\<close>.\<close>

definition json_text :: "json option \<Rightarrow> str option" where
  "json_text v = (case v of Some (JStr s) \<Rightarrow> Some s | _ \<Rightarrow> None)"

fun json_truthy :: "json \<Rightarrow> bool" where
  "json_truthy JNull = False"
| "json_truthy (JBool b) = b"
| "json_truthy (JInt i) = (i \<noteq> 0)"
| "json_truthy (JStr s) = (s \<noteq> [])"
| "json_truthy (JArr xs) = (xs \<noteq> [])"
| "json_truthy (JObj kvs) = (kvs \<noteq> [])"

definition json_object :: "json option \<Rightarrow> (str \<times> json) list" where
  "json_object v = (case v of Some (JObj kvs) \<Rightarrow> kvs | _ \<Rightarrow> [])"

definition from_grounded_focus :: "focus_upsert \<Rightarrow> resolved_candidate option" where
  "from_grounded_focus f =
     map_option (\<lambda>t.
       let m = fu_metadata f in
       \<lparr>rcd_node_id = fu_node_id f, rcd_node_type = t, rcd_label = fu_label f, rcd_document_id = fu_document_id f,
        rcd_document_number = json_text (map_of m ''document_number''), rcd_article_id = fu_article_id f,
        rcd_article_number = json_text (map_of m ''article_number''), rcd_clause_id = fu_clause_id f,
        rcd_clause_number = json_text (map_of m ''clause_number''), rcd_point_id = json_text (map_of m ''point_id''),
        rcd_point_label = json_text (map_of m ''point_label''), rcd_metadata = m\<rparr>)
     (unit_type_of (fu_node_type f))"

definition from_clarification_candidate :: "clarification_candidate \<Rightarrow> resolved_candidate option" where
  "from_clarification_candidate c =
     map_option (\<lambda>t.
       let m = cand_metadata c in
       \<lparr>rcd_node_id = cand_id c, rcd_node_type = t, rcd_label = cand_label c,
        rcd_document_id = str_or (cand_document_id c) [],
        rcd_document_number = json_text (map_of m ''document_number''), rcd_article_id = cand_article_id c,
        rcd_article_number = json_text (map_of m ''article_number''), rcd_clause_id = cand_clause_id c,
        rcd_clause_number = json_text (map_of m ''clause_number''), rcd_point_id = json_text (map_of m ''point_id''),
        rcd_point_label = json_text (map_of m ''point_label''),
        rcd_metadata = json_object (map_of m ''document_metadata'')\<rparr>)
     (if truthy_str (cand_node_type c) then unit_type_of (the (cand_node_type c)) else Some UDocument)"

subsection \<open>The canonical lookup\<close>

text \<open>A row of the graph database; the query and its parameters are built here, its execution is a parameter.\<close>

record lookup_row =
  lr_document_id :: str
  lr_document_number :: "str option"
  lr_document_title :: "str option"
  lr_doc_type :: "str option"
  lr_issuer :: "str option"
  lr_legal_status :: "str option"
  lr_article_id :: "str option"
  lr_article_number :: "str option"
  lr_clause_id :: "str option"
  lr_clause_number :: "str option"
  lr_point_id :: "str option"
  lr_point_label :: "str option"

definition build_canonical_label ::
  "str option \<Rightarrow> str option \<Rightarrow> str option \<Rightarrow> str option \<Rightarrow> str
    option \<Rightarrow> str \<Rightarrow> str" where
  "build_canonical_label article clause point number title document_id =
     (let parts = unit_parts article clause point; label = str_or number (str_or title document_id) in
      if parts = [] then label else py_strip (join '' '' parts @ '' '' @ label))"

definition row_to_candidate :: "lookup_row \<Rightarrow> resolved_candidate" where
  "row_to_candidate r =
     (let (node, kind) =
        (if truthy_str (lr_point_id r) then (the (lr_point_id r), UPoint)
         else if truthy_str (lr_clause_id r) then (the (lr_clause_id r), UClause)
         else if truthy_str (lr_article_id r) then (the (lr_article_id r), UArticle)
         else (lr_document_id r, UDocument))
      in \<lparr>rcd_node_id = node, rcd_node_type = kind,
          rcd_label = build_canonical_label (lr_article_number r) (lr_clause_number r) (lr_point_label r)
            (lr_document_number r) (lr_document_title r) (lr_document_id r),
          rcd_document_id = lr_document_id r, rcd_document_number = lr_document_number r,
          rcd_article_id = lr_article_id r, rcd_article_number = lr_article_number r,
          rcd_clause_id = lr_clause_id r, rcd_clause_number = lr_clause_number r,
          rcd_point_id = lr_point_id r, rcd_point_label = lr_point_label r,
          rcd_metadata = [(''doc_type'', jstr_opt (lr_doc_type r)), (''issuer_name'', jstr_opt (lr_issuer r)),
            (''legal_status'', jstr_opt (lr_legal_status r))]\<rparr>)"

definition title_version_suffix_rx :: regex where
  "title_version_suffix_rx =
     seqs [TextStart, alts [seqs [opt True (seqs [lits (''n'' @ [CHR 0xC4, CHR 0x83] @ ''m''),
     blanks]), repeat True 4 4 digit, WordEdge], seqs [lits (''s'' @ [CHR 0xE1, CHR 0xBB, CHR 0x91]),
     WordEdge]]]"

definition title_separators :: "str list" where
  "title_separators = ['','', ''.'', '';'', '':'', ''-'', ([CHR 0xE2, CHR 0x80, CHR 0x93]), ([CHR 0xE2, CHR
    0x80, CHR 0x94]), ''('']"

definition normalize_title :: "language \<Rightarrow> str \<Rightarrow> str" where
  "normalize_title L v = squeeze (tx_casefold L v)"

definition matches_named_document_title :: "language \<Rightarrow> str \<Rightarrow> str \<Rightarrow> bool" where
  "matches_named_document_title L title law =
     (let t = normalize_title L title; n = normalize_title L law; rest = lstrip (drop (length n) t) in
      prefix n t \<and> (rest = [] \<or> list_ex (\<lambda>p. prefix p rest) title_separators
        \<or> rx_match (tx_unicode L) False title_version_suffix_rx rest \<noteq> None))"

definition canonical_limit :: nat where "canonical_limit = 20"
definition unit_depth :: nat where "unit_depth = 3"

definition only_if :: "bool \<Rightarrow> 'a \<Rightarrow> 'a list" where
  "only_if b x = (if b then [x] else [])"

definition query_lines :: "bool \<Rightarrow> bool \<Rightarrow> bool \<Rightarrow> bool \<Rightarrow> bool
  \<Rightarrow> bool \<Rightarrow> str list" where
  "query_lines number law year article clause point =
     (let top = (if clause then ''clause'' else if article then ''article'' else ''document'');
          mid = (if article then ''article'' else ''document'');
          hop = show_int (int unit_depth) in
      [''MATCH (document:Document)'',
       ''WHERE '' @ join '' AND '' ([''document.id IS NOT NULL'']
         @ only_if number ''document.number = $document_number''
         @ only_if law ''toLower(document.title) STARTS WITH toLower($law_name)''
         @ only_if year ''toString(document.issued_date) CONTAINS toString($law_year)'')]
      @ only_if article (''MATCH (document)-[:CONTAINS*1..'' @ show_int (int max_document_to_article_depth)
          @ '']->(article:Article {number: $article_number})'')
      @ only_if clause (''MATCH ('' @ mid @ '')-[:CONTAINS*1..'' @ hop @
        '']->(clause:Clause {number: $clause_number})'')
      @ only_if point (''MATCH ('' @ top @ '')-[:CONTAINS*1..'' @ hop @ '']->(point:Point {label: $point_label})''))"

definition projected :: "bool \<Rightarrow> str \<Rightarrow> str \<Rightarrow> str" where
  "projected bound path alias = (if bound then path else ''null'') @ '' AS '' @ alias"

definition projection_line :: "bool \<Rightarrow> bool \<Rightarrow> bool \<Rightarrow> str" where
  "projection_line article clause point =
     ''RETURN DISTINCT '' @ join '', ''
       [''document.id AS document_id'', ''document.number AS document_number'', ''document.title AS document_title'',
        ''document.doc_type AS doc_type'', ''document.issuer_name AS issuer_name'',
        ''document.legal_status AS legal_status'',
        projected article ''article.id'' ''article_id'', projected article ''article.number'' ''article_number'',
        projected clause ''clause.id'' ''clause_id'', projected clause ''clause.number'' ''clause_number'',
        projected point ''point.id'' ''point_id'', projected point ''point.label'' ''point_label'']"

definition truthy_nat :: "nat option \<Rightarrow> bool" where
  "truthy_nat n \<longleftrightarrow> n \<noteq> None \<and> n \<noteq> Some 0"

definition build_query :: "explicit_reference \<Rightarrow> str \<times> (str \<times> json) list" where
  "build_query r =
     (let number = truthy_str (er_number r); law = truthy_str (er_law r); year = truthy_nat (er_year r);
          article = truthy_str (er_article r); clause = truthy_str (er_clause r); point = truthy_str (er_point r) in
      (join [CHR 0x0A] (query_lines number law year article clause point
         @ [projection_line (er_article r \<noteq> None) (er_clause r \<noteq> None) (er_point r \<noteq> None),
            ''ORDER BY document_id, article_id, clause_id, point_id'', ''LIMIT '' @ show_int (int canonical_limit)]),
       only_if number (''document_number'', jstr_opt (er_number r)) @ only_if law (''law_name'', jstr_opt (er_law r))
       @ only_if year (''law_year'', JInt (case er_year r of None \<Rightarrow> 0 | Some y \<Rightarrow> int
         y)) @ only_if article (''article_number'', jstr_opt (er_article r))
       @ only_if clause (''clause_number'', jstr_opt (er_clause r)) @ only_if point (''point_label'', jstr_opt
         (er_point r))))"

text \<open>\<open>Neo4jCanonicalLookup.lookup\<close> over the rows the database returns.\<close>

definition lookup_candidates :: "language \<Rightarrow> explicit_reference \<Rightarrow> lookup_row list
  \<Rightarrow> resolved_candidate list" where
  "lookup_candidates L r rows =
     map row_to_candidate
       (if truthy_str (er_law r)
        then filter (\<lambda>row. truthy_str (lr_document_title row)
               \<and> matches_named_document_title L (the (lr_document_title row)) (the (er_law r))) rows
        else rows)"

end
