(* ===== verification/Backend_Errors.thy ===== *)
theory Backend_Errors
  imports Reference_Parsing
begin

text \<open>
  The exceptions of the chat service as values and the codes the API gives them
  (\<open>apps/backend/api/error_handlers.py\<close>, \<open>apps/backend/services/errors.py\<close>).
\<close>

text \<open>The classes of \<open>RetrievalError\<close> the table of codes tells apart.\<close>

datatype retrieval_exception =
    RetrievalTimeout | DocumentNotFound | FeatureUnavailable | RetrievalClosed
  | PlanningTimeout | PlanningUnavailable | PlanningOutput
  | CapabilityUnsupported | DependencyUnavailable | ExecutionFailed | OutputInvalid
  | TemporalRoutingInvalid | IntentAnalysisInvalid | CanonicalUnavailable | RequestInvalid
  | OtherRetrievalError

fun retrieval_error_contract :: "retrieval_exception \<Rightarrow> nat \<times> str" where
  "retrieval_error_contract RetrievalTimeout = (504, ''RETRIEVAL_TIMEOUT'')"
| "retrieval_error_contract DocumentNotFound = (404, ''DOCUMENT_NOT_FOUND'')"
| "retrieval_error_contract FeatureUnavailable = (501, ''FEATURE_NOT_IMPLEMENTED'')"
| "retrieval_error_contract RetrievalClosed = (503, ''RETRIEVAL_SERVICE_UNAVAILABLE'')"
| "retrieval_error_contract PlanningTimeout = (504, ''QUERY_PLANNING_TIMEOUT'')"
| "retrieval_error_contract PlanningUnavailable = (503, ''QUERY_PLANNING_UNAVAILABLE'')"
| "retrieval_error_contract PlanningOutput = (502, ''QUERY_PLANNING_OUTPUT_INVALID'')"
| "retrieval_error_contract CapabilityUnsupported = (409, ''RETRIEVAL_CAPABILITY_UNSUPPORTED'')"
| "retrieval_error_contract DependencyUnavailable = (503, ''RETRIEVAL_DEPENDENCY_UNAVAILABLE'')"
| "retrieval_error_contract ExecutionFailed = (502, ''RETRIEVAL_EXECUTION_FAILED'')"
| "retrieval_error_contract OutputInvalid = (500, ''RETRIEVAL_OUTPUT_INVALID'')"
| "retrieval_error_contract TemporalRoutingInvalid = (422, ''TEMPORAL_ROUTING_INVALID'')"
| "retrieval_error_contract IntentAnalysisInvalid = (422, ''INTENT_ANALYSIS_INVALID'')"
| "retrieval_error_contract CanonicalUnavailable = (409, ''CANONICAL_REFERENCE_UNAVAILABLE'')"
| "retrieval_error_contract RequestInvalid = (422, ''RETRIEVAL_REQUEST_INVALID'')"
| "retrieval_error_contract OtherRetrievalError = (500, ''RETRIEVAL_ERROR'')"

text \<open>
  The errors of the generator that are an \<open>AnswerGenerationError\<close>; the others are a \<open>ValueError\<close>, a
  \<open>KeyError\<close> or a \<open>ValidationError\<close> of Python, for which the table has no entry.
\<close>

fun answer_error_contract :: "generation_error \<Rightarrow> (nat \<times> str) option" where
  "answer_error_contract (ProviderTimeout m) = Some (504, ''ANSWER_PROVIDER_TIMEOUT'')"
| "answer_error_contract (ProviderDependency m) = Some (503, ''ANSWER_PROVIDER_UNAVAILABLE'')"
| "answer_error_contract HistoryTooLong = Some (422, ''ANSWER_REQUEST_INVALID'')"
| "answer_error_contract HistoryTooLarge = Some (422, ''ANSWER_REQUEST_INVALID'')"
| "answer_error_contract (ProviderOutput m) = Some (502, ''ANSWER_PROVIDER_OUTPUT_INVALID'')"
| "answer_error_contract (EvidenceContract f) = Some (500, ''ANSWER_EVIDENCE_CONTRACT_INVALID'')"
| "answer_error_contract BudgetTooSmall = Some (500, ''ANSWER_CONTEXT_BUDGET_INVALID'')"
| "answer_error_contract (CitationNotAllowed i) = Some (502, ''ANSWER_CITATION_INVALID'')"
| "answer_error_contract (QuoteNotVerbatim i) = Some (502, ''ANSWER_CITATION_INVALID'')"
| "answer_error_contract PathUnlinked = Some (502, ''ANSWER_PATH_INVALID'')"
| "answer_error_contract (PathNotAllowed i) = Some (502, ''ANSWER_PATH_INVALID'')"
| "answer_error_contract PathOffGoal = Some (502, ''ANSWER_PATH_INVALID'')"
| "answer_error_contract (TemporalClaimRejected f) = Some (502, ''ANSWER_TEMPORAL_INVALID'')"
| "answer_error_contract BlankStatement = Some (502, ''ANSWER_GROUNDING_INVALID'')"
| "answer_error_contract _ = None"

datatype raised =
    RaisedValueError
  | RaisedValidation
  | RaisedRetrieval retrieval_exception
  | RaisedGeneration generation_error
  | RaisedStore store_error
  | RaisedTextGeneration
  | RaisedOther

definition answer_message :: "str \<Rightarrow> str" where
  "answer_message code =
     (if code = ''ANSWER_PROVIDER_TIMEOUT'' then (''D'' @ [CHR 0xE1, CHR 0xBB, CHR 0x8B] @ ''ch v'' @ [CHR
       0xE1, CHR 0xBB, CHR 0xA5] @ '' t'' @ [CHR 0xE1, CHR 0xBA, CHR 0xA1] @ ''o c'' @ [CHR 0xC3, CHR 0xA2] @
       ''u tr'' @ [CHR 0xE1, CHR 0xBA, CHR 0xA3] @ '' l'' @ [CHR 0xE1, CHR 0xBB, CHR 0x9D] @ ''i ph'' @ [CHR
       0xE1, CHR 0xBA, CHR 0xA3] @ ''n h'' @ [CHR 0xE1, CHR 0xBB, CHR 0x93] @ ''i qu'' @ [CHR 0xC3, CHR 0xA1] @
       '' ch'' @ [CHR 0xE1, CHR 0xBA, CHR 0xAD] @ ''m. Vui l'' @ [CHR 0xC3, CHR 0xB2] @ ''ng th'' @ [CHR 0xE1,
       CHR 0xBB, CHR 0xAD] @ '' l'' @ [CHR 0xE1, CHR 0xBA, CHR 0xA1] @ ''i.'')
      else if code = ''ANSWER_PROVIDER_UNAVAILABLE''
      then (''D'' @ [CHR 0xE1, CHR 0xBB, CHR 0x8B] @ ''ch v'' @ [CHR 0xE1, CHR 0xBB, CHR 0xA5] @ '' t'' @ [CHR
        0xE1, CHR 0xBA, CHR 0xA1] @ ''o c'' @ [CHR 0xC3, CHR 0xA2] @ ''u tr'' @ [CHR 0xE1, CHR 0xBA, CHR 0xA3]
        @ '' l'' @ [CHR 0xE1, CHR 0xBB, CHR 0x9D] @ ''i hi'' @ [CHR 0xE1, CHR 0xBB, CHR 0x87] @ ''n kh'' @ [CHR
        0xC3, CHR 0xB4] @ ''ng kh'' @ [CHR 0xE1, CHR 0xBA, CHR 0xA3] @ '' d'' @ [CHR 0xE1, CHR 0xBB, CHR 0xA5]
        @ ''ng ho'' @ [CHR 0xE1, CHR 0xBA, CHR 0xB7] @ ''c '' @ [CHR 0xC4, CHR 0x91] @ ''ang qu'' @ [CHR 0xC3,
        CHR 0xA1] @ '' t'' @ [CHR 0xE1, CHR 0xBA, CHR 0xA3] @ ''i. Vui l'' @ [CHR 0xC3, CHR 0xB2] @ ''ng th'' @
        [CHR 0xE1, CHR 0xBB, CHR 0xAD] @ '' l'' @ [CHR 0xE1, CHR 0xBA, CHR 0xA1] @ ''i sau.'')
      else if code = ''ANSWER_PROVIDER_OUTPUT_INVALID''
      then (''M'' @ [CHR 0xC3, CHR 0xB4] @ '' h'' @ [CHR 0xC3, CHR 0xAC] @ ''nh tr'' @ [CHR 0xE1, CHR 0xBA, CHR
        0xA3] @ '' v'' @ [CHR 0xE1, CHR 0xBB, CHR 0x81] @ '' d'' @ [CHR 0xE1, CHR 0xBB, CHR 0xAF] @ '' li'' @
        [CHR 0xE1, CHR 0xBB, CHR 0x87] @ ''u kh'' @ [CHR 0xC3, CHR 0xB4] @ ''ng h'' @ [CHR 0xE1, CHR 0xBB, CHR
        0xA3] @ ''p l'' @ [CHR 0xE1, CHR 0xBB, CHR 0x87] @ ''. Vui l'' @ [CHR 0xC3, CHR 0xB2] @ ''ng th'' @
        [CHR 0xE1, CHR 0xBB, CHR 0xAD] @ '' l'' @ [CHR 0xE1, CHR 0xBA, CHR 0xA1] @ ''i.'')
      else (''Kh'' @ [CHR 0xC3, CHR 0xB4] @ ''ng th'' @ [CHR 0xE1, CHR 0xBB, CHR 0x83] @ '' t'' @ [CHR 0xE1,
        CHR 0xBA, CHR 0xA1] @ ''o c'' @ [CHR 0xC3, CHR 0xA2] @ ''u tr'' @ [CHR 0xE1, CHR 0xBA, CHR 0xA3] @
        '' l'' @ [CHR 0xE1, CHR 0xBB, CHR 0x9D] @ ''i c'' @ [CHR 0xC3, CHR 0xB3] @ '' c'' @ [CHR 0xC4, CHR
        0x83] @ ''n c'' @ [CHR 0xE1, CHR 0xBB, CHR 0xA9] @ ''.''))"

definition retrieval_message :: str where
  "retrieval_message = (''Kh'' @ [CHR 0xC3, CHR 0xB4] @ ''ng th'' @ [CHR 0xE1, CHR 0xBB, CHR 0x83] @
    '' truy xu'' @ [CHR 0xE1, CHR 0xBA, CHR 0xA5] @ ''t c'' @ [CHR 0xC4, CHR 0x83] @ ''n c'' @ [CHR 0xE1, CHR
    0xBB, CHR 0xA9] @ '' ph'' @ [CHR 0xC3, CHR 0xA1] @ ''p l'' @ [CHR 0xC3, CHR 0xBD] @ ''.'')"

text \<open>
  \<open>stream_error_contract\<close> on the two families of errors the service catches; any other exception of the model
  is not caught, which is \<open>None\<close>.
\<close>

fun stream_error_contract :: "raised \<Rightarrow> (str \<times> str) option" where
  "stream_error_contract (RaisedGeneration e) =
     map_option (\<lambda>(status, code). (code, answer_message code)) (answer_error_contract e)"
| "stream_error_contract (RaisedRetrieval e) = Some (snd (retrieval_error_contract e), retrieval_message)"
| "stream_error_contract _ = None"

end
