(* ===== verification/Reference_Resolution.thy ===== *)
theory Reference_Resolution
  imports Backend_Errors
begin

text \<open>
  The reference resolver and the rewriter (\<open>apps/backend/resolution/resolver.py\<close>,
    \<open>rewriter.py\<close>): a message and
  the history of its conversation become a question that stands alone, a resolved reference, a clarification or
  a cancellation; a resolved reference is written into the question, by rule or by the model.
\<close>

subsection \<open>Outcomes\<close>

record resolution =
  rs_candidate :: resolved_candidate
  rs_method :: reference_method
  rs_source :: reference_source
  rs_goal :: "relation_goal option"
  rs_message :: "str option"

record clarify =
  cy_mode :: clarification_mode
  cy_status :: reference_status
  cy_reason :: str
  cy_question :: str
  cy_candidates :: "clarification_candidate list"

datatype resolution_outcome =
    Standalone
  | Resolved resolution
  | Clarify clarify
  | Cancel

definition is_anaphora :: "resolution \<Rightarrow> bool" where
  "is_anaphora r \<longleftrightarrow> rs_method r = GroundedHistoryFocus"

definition resolution_reason :: "resolution \<Rightarrow> str" where
  "resolution_reason r = (if is_anaphora r then ''ANAPHORA_RESOLVED'' else ''EXPLICIT_FOUND'')"

definition to_retrieval_reference :: "str \<Rightarrow> resolution \<Rightarrow> resolved_reference" where
  "to_retrieval_reference mention r =
     \<lparr>ref_mention = mention, ref_node_id = rcd_node_id (rs_candidate r),
      ref_node_type = unit_type_value (rcd_node_type (rs_candidate r)), ref_label = rcd_label (rs_candidate r),
      ref_document_id = rcd_document_id (rs_candidate r), ref_method = rs_method r, ref_source = rs_source r\<rparr>"

subsection \<open>The resolver\<close>

definition max_clarification_candidates :: nat where "max_clarification_candidates = 5"

definition clarify_from_candidates :: "clarification_candidate list \<Rightarrow> resolution_outcome" where
  "clarify_from_candidates cs =
     (let bounded = take max_clarification_candidates cs in
      Clarify \<lparr>cy_mode = ModeSelect, cy_status = StatusAmbiguous, cy_reason = ''ANAPHORA_AMBIGUOUS'',
               cy_question = build_select_question bounded, cy_candidates = bounded\<rparr>)"

definition referent_not_found :: "unit_type option \<Rightarrow> resolution_outcome" where
  "referent_not_found t =
     Clarify \<lparr>cy_mode = ModeRestate, cy_status = StatusUnresolved, cy_reason = ''REFERENT_NOT_FOUND'',
              cy_question = build_restate_question t, cy_candidates = []\<rparr>"

text \<open>The first candidate of every node, and of these the first of every document number.\<close>

definition distinct_nodes :: "resolved_candidate list \<Rightarrow> resolved_candidate list" where
  "distinct_nodes cs = first_by rcd_node_id cs"

fun distinct_numbers :: "str list \<Rightarrow> resolved_candidate list \<Rightarrow> resolved_candidate list" where
  "distinct_numbers seen [] = []"
| "distinct_numbers seen (c # cs) =
     (if truthy_str (rcd_document_number c)
      then (if the (rcd_document_number c) \<in> set seen then distinct_numbers seen cs
            else c # distinct_numbers (the (rcd_document_number c) # seen) cs)
      else c # distinct_numbers seen cs)"

record resolver =
  rv_language :: language
  rv_lookup :: "explicit_reference \<Rightarrow> raised + lookup_row list"

definition explicit_candidates :: "resolver \<Rightarrow> explicit_reference list \<Rightarrow> raised +
  resolved_candidate list" where
  "explicit_candidates rv refs =
     rbind (rmapm (\<lambda>r. rbind (rv_lookup rv r) (\<lambda>rows. Inr (lookup_candidates (rv_language rv) r
       rows))) refs) (\<lambda>css.
       Inr (distinct_numbers [] (distinct_nodes (concat css))))"

definition resolve_explicit ::
  "resolver \<Rightarrow> explicit_reference list \<Rightarrow> str \<Rightarrow> relation_goal option
    \<Rightarrow> raised + resolution_outcome" where
  "resolve_explicit rv refs message goal =
     rbind (explicit_candidates rv refs) (\<lambda>cs.
       case cs of
         [] \<Rightarrow> Inr (referent_not_found (Some (deepest_unit_type (hd refs))))
       | [c] \<Rightarrow> Inr (Resolved \<lparr>rs_candidate = c, rs_method = ExactStructuralLookup, rs_source = CurrentMessage,
                             rs_goal = goal, rs_message = Some message\<rparr>)
       | _ \<Rightarrow> Inr (clarify_from_candidates
                (map (to_clarification_candidate ExactStructuralLookup CurrentMessage message goal) cs)))"

definition focus_candidate :: "focus_row \<Rightarrow> raised + resolved_candidate" where
  "focus_candidate f =
     (case from_grounded_focus (fr_focus f) of None \<Rightarrow> Inl RaisedValueError | Some c \<Rightarrow> Inr c)"

definition resolve_anaphora ::
  "unit_type option \<Rightarrow> focus_row list \<Rightarrow> str \<Rightarrow> relation_goal option
    \<Rightarrow> raised + resolution_outcome" where
  "resolve_anaphora expected focuses message goal =
     (let matches = filter (\<lambda>f. expected = None
            \<or> fu_node_type (fr_focus f) = unit_type_value (the expected)) focuses in
      case matches of
        [] \<Rightarrow> Inr (referent_not_found expected)
      | [f] \<Rightarrow> rbind (focus_candidate f) (\<lambda>c.
          Inr (Resolved \<lparr>rs_candidate = c, rs_method = GroundedHistoryFocus, rs_source = GroundedHistory,
                        rs_goal = goal, rs_message = Some message\<rparr>))
      | _ \<Rightarrow> rbind (rmapm focus_candidate matches) (\<lambda>cs.
          Inr (clarify_from_candidates
            (map (to_clarification_candidate GroundedHistoryFocus GroundedHistory message goal) cs))))"

definition resolve_fresh :: "resolver \<Rightarrow> str \<Rightarrow> history_context \<Rightarrow> raised +
  resolution_outcome" where
  "resolve_fresh rv message ctx =
     (let L = rv_language rv; refs = parse_explicit_references L message; goal = detect_relation_goal L message in
      if refs \<noteq> [] then resolve_explicit rv refs message goal
      else case detect_anaphora L message of
        Some expected \<Rightarrow> resolve_anaphora expected (hc_focuses ctx) message goal
      | None \<Rightarrow> Inr Standalone)"

text \<open>The candidate of a persisted clarification, back as a resolution; unknown values of the enumerations raise.\<close>

definition metadata_method :: "(str \<times> json) list \<Rightarrow> raised + reference_method" where
  "metadata_method m =
     (case map_of m ''resolution_method'' of
        None \<Rightarrow> Inr GroundedHistoryFocus
      | Some v \<Rightarrow>
          (case Option.bind (json_text (Some v)) method_of of None \<Rightarrow> Inl RaisedValueError | Some x
            \<Rightarrow> Inr x))"

definition metadata_goal :: "(str \<times> json) list \<Rightarrow> raised + relation_goal option" where
  "metadata_goal m =
     (case map_of m ''relation_goal'' of
        None \<Rightarrow> Inr None
      | Some v \<Rightarrow>
          if \<not> json_truthy v then Inr None
          else (case Option.bind (json_text (Some v)) goal_of of
                  None \<Rightarrow> Inl RaisedValueError | Some g \<Rightarrow> Inr (Some g)))"

definition metadata_message :: "(str \<times> json) list \<Rightarrow> str option" where
  "metadata_message m =
     (case json_text (map_of m ''source_message'') of
        Some s \<Rightarrow> if py_strip s = [] then None else Some s | None \<Rightarrow> None)"

definition resolve_selected :: "clarification_candidate \<Rightarrow> raised + resolution_outcome" where
  "resolve_selected c =
     (case from_clarification_candidate c of
        None \<Rightarrow> Inl RaisedValueError
      | Some rc \<Rightarrow>
          rbind (metadata_method (cand_metadata c)) (\<lambda>method.
          rbind (metadata_goal (cand_metadata c)) (\<lambda>goal.
            Inr (Resolved \<lparr>rs_candidate = rc, rs_method = method, rs_source = PendingClarification,
                          rs_goal = goal, rs_message = metadata_message (cand_metadata c)\<rparr>))))"

definition select_again :: "clarification_candidate list \<Rightarrow> resolution_outcome" where
  "select_again cs =
     Clarify \<lparr>cy_mode = ModeSelect, cy_status = StatusAmbiguous, cy_reason = ''SELECT_INPUT_INVALID'',
              cy_question = build_select_question cs, cy_candidates = cs\<rparr>"

definition resolve_pending ::
  "resolver \<Rightarrow> str \<Rightarrow> pending_clarification \<Rightarrow> history_context \<Rightarrow>
    raised + resolution_outcome" where
  "resolve_pending rv message pc ctx =
     (if is_cancel (rv_language rv) message then Inr Cancel
      else if pc_mode pc = ModeSelect
      then (case match_select (rv_language rv) (pc_candidates pc) message of
              None \<Rightarrow> Inl RaisedValueError
            | Some None \<Rightarrow> Inr (select_again (pc_candidates pc))
            | Some (Some c) \<Rightarrow> resolve_selected c)
      else resolve_fresh rv message ctx)"

definition resolve :: "resolver \<Rightarrow> str \<Rightarrow> history_context \<Rightarrow> raised + resolution_outcome" where
  "resolve rv message ctx =
     (case hc_pending ctx of
        Some pc \<Rightarrow> resolve_pending rv message pc ctx
      | None \<Rightarrow> resolve_fresh rv message ctx)"

text \<open>\<open>_breaks_out_of_pending_select\<close>, which nothing calls.\<close>

fun breaks_out_of_pending_select :: "resolution_outcome \<Rightarrow> bool" where
  "breaks_out_of_pending_select (Resolved r) = True"
| "breaks_out_of_pending_select (Clarify c) = (cy_mode c = ModeSelect)"
| "breaks_out_of_pending_select _ = False"

subsection \<open>The rewriter\<close>

datatype rewrite_error =
    RewriteFailed str
  | RewriteUnknownId str
  | RewriteAnchorMissing str
  | RewriteOutputInvalid str
  | RewriteTimedOut str
  | RewriteDependency str

fun rewrite_code :: "rewrite_error \<Rightarrow> str" where
  "rewrite_code (RewriteFailed m) = ''REWRITE_FAILED''"
| "rewrite_code (RewriteUnknownId m) = ''REWRITE_UNKNOWN_ID''"
| "rewrite_code (RewriteAnchorMissing m) = ''REWRITE_ANCHOR_MISSING''"
| "rewrite_code (RewriteOutputInvalid m) = ''REWRITE_OUTPUT_INVALID''"
| "rewrite_code (RewriteTimedOut m) = ''REWRITE_TIMEOUT''"
| "rewrite_code (RewriteDependency m) = ''REWRITE_DEPENDENCY_FAILED''"

fun rewrite_message :: "rewrite_error \<Rightarrow> str" where
  "rewrite_message (RewriteFailed m) = m"
| "rewrite_message (RewriteUnknownId m) = m"
| "rewrite_message (RewriteAnchorMissing m) = m"
| "rewrite_message (RewriteOutputInvalid m) = m"
| "rewrite_message (RewriteTimedOut m) = m"
| "rewrite_message (RewriteDependency m) = m"

record rewrite_request =
  rq_message :: str
  rq_recent :: "str list"
  rq_allowed_id :: str
  rq_label :: str
  rq_anchors :: "str list"

text \<open>What the model may do: give a candidate, run out of time, raise a typed or another error, or return a
  payload of another type.\<close>

datatype model_answer =
    ModelCandidate str str
  | ModelTimeout
  | ModelRewriteError rewrite_error
  | ModelException
  | ModelMalformed

record rewriter =
  rw_language :: language
  rw_model :: "(rewrite_request \<Rightarrow> model_answer) option"
  rw_max_chars :: nat

definition default_max_query_chars :: nat where "default_max_query_chars = 4000"

definition carries :: "language \<Rightarrow> str \<Rightarrow> str \<Rightarrow> bool" where
  "carries L query anchor \<longleftrightarrow> occurs_in (tx_casefold L anchor) (tx_casefold L query)"

definition contains_all :: "language \<Rightarrow> str \<Rightarrow> str list \<Rightarrow> bool" where
  "contains_all L query anchors \<longleftrightarrow> list_all (carries L query) anchors"

definition finalize :: "rewriter \<Rightarrow> str list \<Rightarrow> str \<Rightarrow> rewrite_error + str" where
  "finalize w anchors query =
     (let cleaned = py_strip query; missing = filter (\<lambda>a. \<not> carries (rw_language w) cleaned a) anchors in
      if cleaned = [] then Inl (RewriteOutputInvalid ''Rewritten query must not be empty'')
      else if py_len cleaned > rw_max_chars w
      then Inl (RewriteOutputInvalid ''Rewritten query exceeds the maximum length'')
      else if missing \<noteq> []
      then Inl (RewriteAnchorMissing (''Rewritten query is missing canonical anchors: '' @ tx_repr (rw_language
        w) missing))
      else Inr cleaned)"

definition rule_rewrite :: "rewriter \<Rightarrow> str \<Rightarrow> resolution \<Rightarrow> str" where
  "rule_rewrite w message r =
     (let c = rs_candidate r in
      if is_anaphora r
      then (case replace_first_anaphora (rw_language w) message (rcd_label c) of Some t \<Rightarrow> t | None
        \<Rightarrow> message)
      else if contains_all (rw_language w) message (required_anchors c) then message
      else message @ '' ('' @ rcd_label c @ '')'')"

definition model_rewrite ::
  "rewriter \<Rightarrow> str \<Rightarrow> str list \<Rightarrow> resolved_candidate \<Rightarrow> rewrite_error + str" where
  "model_rewrite w message recent c =
     (case rw_model w of
        None \<Rightarrow> Inl (RewriteAnchorMissing
          ''Rule rewrite lost a canonical anchor and no fallback is configured'')
      | Some model \<Rightarrow>
          (case model \<lparr>rq_message = message, rq_recent = recent, rq_allowed_id = rcd_node_id c,
                       rq_label = rcd_label c, rq_anchors = required_anchors c\<rparr> of
             ModelTimeout \<Rightarrow> Inl (RewriteTimedOut ''Rewrite model timed out'')
           | ModelRewriteError e \<Rightarrow> Inl e
           | ModelException \<Rightarrow> Inl (RewriteDependency ''Rewrite model failed'')
           | ModelMalformed \<Rightarrow> Inl (RewriteOutputInvalid ''Rewrite model returned a malformed payload'')
           | ModelCandidate i query \<Rightarrow>
               if i \<noteq> rcd_node_id c then Inl (RewriteUnknownId
                 ''Rewrite model chose an id outside the allowlist'')
               else finalize w (required_anchors c) query))"

definition rewrite_resolved :: "rewriter \<Rightarrow> str \<Rightarrow> str list \<Rightarrow> resolution
  \<Rightarrow> rewrite_error + str" where
  "rewrite_resolved w message recent r =
     (let c = rs_candidate r; source = str_or (rs_message r) message; ruled = rule_rewrite w source r in
      if contains_all (rw_language w) ruled (required_anchors c) then finalize w (required_anchors c) ruled
      else model_rewrite w source recent c)"

text \<open>\<open>StructuredRewriter.rewrite\<close>; it is only called with a standalone or a resolved
  resolution_outcome.\<close>

definition rewrite :: "rewriter \<Rightarrow> str \<Rightarrow> str list \<Rightarrow> resolution option
  \<Rightarrow> rewrite_error + str" where
  "rewrite w message recent r =
     (case r of None \<Rightarrow> finalize w [] message | Some r \<Rightarrow> rewrite_resolved w message recent r)"

end
