(* ===== verification/Chat_Service.thy ===== *)
theory Chat_Service
  imports Reference_Resolution
begin

text \<open>
  The orchestration of a chat turn (\<open>apps/backend/conversation/service.py\<close>) with the fan-out of subqueries and
  the merge of their contexts (\<open>apps/backend/query_processing/fanout.py\<close>). Between the begin and the end of a turn
  the service does not touch the store, so a turn is a function of its collaborators: the write that ends it
  and the snapshot it returns, or the exception that leaves it open. The generator is the one of the generation
  subsystem; the retrieval, the query processor, the lookup and the rewriting model are parameters.
\<close>

subsection \<open>Requests\<close>

record chat_request =
  cq_conversation :: uuid
  cq_client :: uuid
  cq_message :: str
  cq_document_ids :: "str list"
  cq_date :: "date option"
  cq_force :: "intent option"
  cq_rerank :: "bool option"

text \<open>The validator; a request it refuses is answered with status 422.\<close>

definition make_chat_request :: "chat_request \<Rightarrow> contract_error + chat_request" where
  "make_chat_request q =
     (let message = py_strip (cq_message q) in
      rbind (require (1 \<le> py_len (cq_message q) \<and> py_len (cq_message q) \<le> 4000) QueryLength) (\<lambda>_.
      rbind (require (message \<noteq> []) BlankQuery) (\<lambda>_.
      rbind (validate_filter_values (cq_document_ids q)) (\<lambda>ids.
        Inr (q\<lparr>cq_message := message, cq_document_ids := ids\<rparr>)))))"

subsection \<open>Fan-out\<close>

definition to_validation :: "contract_error + 'a \<Rightarrow> raised + 'a" where
  "to_validation r = (case r of Inl e \<Rightarrow> Inl RaisedValidation | Inr x \<Rightarrow> Inr x)"

definition build_subquery_requests ::
  "processing_result \<Rightarrow> str list \<Rightarrow> date option \<Rightarrow> bool option \<Rightarrow>
    raised + request list" where
  "build_subquery_requests res ids day rerank =
     rbind (to_validation (make_filters ids [] [] day)) (\<lambda>fs.
       rmapm (\<lambda>q. to_validation (make_request (sub_query q) fs None None
                (Some (subquery_intent_to_intent (sub_intent q))) rerank)) (pr_subqueries res))"

text \<open>The count of subqueries that the merge adds to the metrics is not modelled.\<close>

definition merge_contexts :: "retrieval_context list \<Rightarrow> str \<Rightarrow> raised + retrieval_context" where
  "merge_contexts ctxs query =
     (case ctxs of
        [] \<Rightarrow> Inl RaisedValueError
      | [c] \<Rightarrow> Inr (c\<lparr>rc_query := query\<rparr>)
      | c # _ \<Rightarrow>
          Inr (c\<lparr>rc_query := query,
                 rc_units := first_by unit_id (concat (map rc_units ctxs)),
                 rc_evidence := first_by ev_unit_id (concat (map rc_evidence ctxs)),
                 rc_paths := concat (map rc_paths ctxs),
                 rc_executed_channels := first_by channel_value (concat (map rc_executed_channels ctxs)),
                 rc_mode := (if list_all (\<lambda>d. rc_mode d = rc_mode c) ctxs then rc_mode c else HybridMode)\<rparr>))"

definition composition_operand_of :: "subquery \<times> retrieval_context \<Rightarrow> composition_operand" where
  "composition_operand_of qc =
     (case qc of (q, c) \<Rightarrow>
        \<lparr>co_id = sub_id q, co_query = sub_query q,
         co_units = filter (\<lambda>i. i \<in> ev_unit_id ` set (filter ev_eligible (rc_evidence c))) (map
           unit_id (rc_units c))\<rparr>)"

definition build_composition_plan ::
  "processing_result \<Rightarrow> retrieval_context list \<Rightarrow> raised + composition_plan option" where
  "build_composition_plan res ctxs =
     (if pr_plan_type res \<noteq> Some ComparisonPlan then Inr None
      else if length (pr_subqueries res) \<noteq> length ctxs then Inl RaisedValueError
      else (let ops = map composition_operand_of (zip (pr_subqueries res) ctxs) in
            if composition_plan_ok ops then Inr (Some ops) else Inl RaisedValidation))"

subsection \<open>Collaborators and writes\<close>

text \<open>
  What the query processor may do: a validated result, a \<open>QueryProcessingError\<close> or
    \<open>TextGenerationError\<close>, or
  another exception. Of the failures of concurrent retrievals the one that happens first is raised;
  \<open>sv_race\<close> says which.
\<close>

datatype processor_answer =
    Processed processing_result
  | ProcessingFailed
  | ProcessorRaised raised

record services =
  sv_resolver :: resolver
  sv_rewriter :: rewriter
  sv_processor :: "(str \<Rightarrow> processor_answer) option"
  sv_retrieve :: "nat \<Rightarrow> request \<Rightarrow> execution_context \<Rightarrow> raised + retrieval_context"
  sv_race :: nat
  sv_generator :: generator

datatype turn_write =
    WriteClarification clarification_write
  | WriteAnswer answer_write
  | WriteFailure str snapshot

definition written_snapshot :: "turn_write \<Rightarrow> snapshot" where
  "written_snapshot w =
     (case w of WriteClarification c \<Rightarrow> cw_snapshot c | WriteAnswer a \<Rightarrow> aw_snapshot a |
       WriteFailure code sn \<Rightarrow> sn)"

definition write_turn :: "uuid \<Rightarrow> uuid \<Rightarrow> uuid \<Rightarrow> turn_write \<Rightarrow>
  store \<Rightarrow> store_error + store" where
  "write_turn c t m w s =
     (case w of
        WriteClarification cw \<Rightarrow> persist_clarification c t m cw s
      | WriteAnswer aw \<Rightarrow> persist_answer c t m aw s
      | WriteFailure code sn \<Rightarrow> Inr (mark_turn_failed t code sn s))"

subsection \<open>Direct endings\<close>

definition retrieval_contract_version :: str where
  "retrieval_contract_version = ''retrieval-runtime-v2''"

definition answer_contract_version :: str where
  "answer_contract_version = ''answer-generation-v2''"

fun status_value :: "reference_status \<Rightarrow> str" where
  "status_value StatusResolved = ''RESOLVED''"
| "status_value StatusAmbiguous = ''AMBIGUOUS''"
| "status_value StatusUnresolved = ''UNRESOLVED''"

fun mode_value :: "clarification_mode \<Rightarrow> str" where
  "mode_value ModeSelect = ''SELECT''"
| "mode_value ModeRestate = ''RESTATE''"

fun retrieval_mode_value :: "retrieval_mode \<Rightarrow> str" where
  "retrieval_mode_value VectorOnly = ''vector_only''"
| "retrieval_mode_value VectorGraph = ''vector_graph''"
| "retrieval_mode_value FulltextOnly = ''fulltext_only''"
| "retrieval_mode_value HybridMode = ''hybrid''"
| "retrieval_mode_value NoResults = ''no_results''"

definition clarification_metadata :: "str \<Rightarrow> chat_metadata" where
  "clarification_metadata status =
     \<lparr>cm_sources = [], cm_intent = ''clarification'', cm_strategy = ''clarification'', cm_mode =
       ''not_applicable'',
      cm_retrieval_version = retrieval_contract_version, cm_answer_version = answer_contract_version,
      cm_cannot_answer = False, cm_needs_clarification = True, cm_resolution = Some status,
      cm_insufficiency = None, cm_references = [], cm_relation_goal = None\<rparr>"

definition small_talk_metadata :: chat_metadata where
  "small_talk_metadata =
     \<lparr>cm_sources = [], cm_intent = ''small_talk'', cm_strategy = ''direct_response'', cm_mode =
       ''not_applicable'',
      cm_retrieval_version = retrieval_contract_version, cm_answer_version = answer_contract_version,
      cm_cannot_answer = False, cm_needs_clarification = False, cm_resolution = None,
      cm_insufficiency = None, cm_references = [], cm_relation_goal = None\<rparr>"

definition end_with_clarification :: "clarify \<Rightarrow> turn_write" where
  "end_with_clarification c =
     WriteClarification
       \<lparr>cw_mode = cy_mode c, cw_question = cy_question c, cw_candidates = cy_candidates c, cw_resolution = cy_status c,
        cw_reason = Some (cy_reason c),
        cw_snapshot = ClarificationSnapshot (clarification_metadata (status_value (cy_status c)))
          \<lparr>cl_mode = mode_value (cy_mode c), cl_question = cy_question c,
           cl_candidates = map (\<lambda>x. (cand_id x, cand_label x)) (cy_candidates c)\<rparr>
          (done_with DoneNeedsClarification)\<rparr>"

definition empty_explanation :: chat_explanation where
  "empty_explanation = \<lparr>ce_notes = [], ce_paths = []\<rparr>"

definition end_directly :: "nat \<Rightarrow> str \<Rightarrow> str \<Rightarrow> turn_write" where
  "end_directly no reason answer =
     WriteAnswer
       \<lparr>aw_turn_no = no, aw_status = TurnCompleted, aw_kind = MsgSmallTalk, aw_content = answer, aw_query = [],
        aw_resolution = StatusUnresolved, aw_reason = Some reason, aw_citations = [], aw_focuses = [],
        aw_update_focus = False,
        aw_snapshot = AnswerSnapshot KindSmallTalk
          \<lparr>ap_metadata = small_talk_metadata, ap_text = answer, ap_structure = None, ap_citations = [],
           ap_explanation = empty_explanation,
           ap_done = (done_with DoneCompleted)\<lparr>cd_confidence := Some 1\<rparr>, ap_diagnostics = None\<rparr>\<rparr>"

definition end_with_failure :: "str \<Rightarrow> str \<Rightarrow> turn_write" where
  "end_with_failure code message = WriteFailure code (error_snapshot code message)"

definition cancel_text :: str where
  "cancel_text = ([CHR 0xC4, CHR 0x90, CHR 0xC3, CHR 0xA3] @ '' h'' @ [CHR 0xE1, CHR 0xBB, CHR 0xA7] @ ''y y''
    @ [CHR 0xC3, CHR 0xAA] @ ''u c'' @ [CHR 0xE1, CHR 0xBA, CHR 0xA7] @ ''u l'' @ [CHR 0xC3, CHR 0xA0] @
    ''m r'' @ [CHR 0xC3, CHR 0xB5] @ ''. B'' @ [CHR 0xE1, CHR 0xBA, CHR 0xA1] @ ''n c'' @ [CHR 0xC3, CHR 0xB3]
    @ '' th'' @ [CHR 0xE1, CHR 0xBB, CHR 0x83] @ '' '' @ [CHR 0xC4, CHR 0x91, CHR 0xE1, CHR 0xBA, CHR 0xB7] @
    ''t c'' @ [CHR 0xC3, CHR 0xA2] @ ''u h'' @ [CHR 0xE1, CHR 0xBB, CHR 0x8F] @ ''i m'' @ [CHR 0xE1, CHR 0xBB,
    CHR 0x9B] @ ''i.'')"

definition filter_conflict :: clarify where
  "filter_conflict =
     \<lparr>cy_mode = ModeRestate, cy_status = StatusUnresolved, cy_reason = ''REFERENCE_FILTER_CONFLICT'',
      cy_question = (''Tham chi'' @ [CHR 0xE1, CHR 0xBA, CHR 0xBF] @ ''u ph'' @ [CHR 0xC3, CHR 0xA1] @ ''p l''
        @ [CHR 0xC3, CHR 0xBD] @ '' kh'' @ [CHR 0xC3, CHR 0xB4] @ ''ng thu'' @ [CHR 0xE1, CHR 0xBB, CHR 0x99] @
        ''c b'' @ [CHR 0xE1, CHR 0xBB, CHR 0x99] @ '' l'' @ [CHR 0xE1, CHR 0xBB, CHR 0x8D] @ ''c t'' @ [CHR
        0xC3, CHR 0xA0] @ ''i li'' @ [CHR 0xE1, CHR 0xBB, CHR 0x87] @ ''u '' @ [CHR 0xC4, CHR 0x91, CHR 0xC3,
        CHR 0xA3] @ '' ch'' @ [CHR 0xE1, CHR 0xBB, CHR 0x8D] @ ''n. B'' @ [CHR 0xE1, CHR 0xBA, CHR 0xA1] @
        ''n mu'' @ [CHR 0xE1, CHR 0xBB, CHR 0x91] @ ''n '' @ [CHR 0xC4, CHR 0x91, CHR 0xE1, CHR 0xBB, CHR 0x95]
        @ ''i t'' @ [CHR 0xC3, CHR 0xA0] @ ''i li'' @ [CHR 0xE1, CHR 0xBB, CHR 0x87] @ ''u hay h'' @ [CHR 0xE1,
        CHR 0xBB, CHR 0x8F] @ ''i l'' @ [CHR 0xE1, CHR 0xBA, CHR 0xA1] @ ''i trong ph'' @ [CHR 0xE1, CHR 0xBA,
        CHR 0xA1] @ ''m vi hi'' @ [CHR 0xE1, CHR 0xBB, CHR 0x87] @ ''n t'' @ [CHR 0xE1, CHR 0xBA, CHR 0xA1] @
        ''i?''),
      cy_candidates = []\<rparr>"

subsection \<open>A grounded answer\<close>

definition unit_dto_ok :: "retrieved_unit \<Rightarrow> bool" where
  "unit_dto_ok u \<longleftrightarrow>
     \<not> (unit_label u \<in> {''Article'', ''Clause''} \<and> \<not> truthy_str (article_id u))
     \<and> \<not> (unit_label u = ''Clause'' \<and> \<not> truthy_str (clause_id u)) \<and> deep_link u \<noteq> []"

text \<open>\<open>to_retrieval_response\<close>: only its units are read by the service.\<close>

definition response_units :: "retrieval_context \<Rightarrow> raised + retrieved_unit list" where
  "response_units ctx =
     (if list_all unit_dto_ok (rc_units ctx) then Inr (rc_units ctx) else Inl (RaisedRetrieval OutputInvalid))"

definition unit_index :: "retrieved_unit list \<Rightarrow> str \<Rightarrow> retrieved_unit option" where
  "unit_index us = map_of (rev (map (\<lambda>u. (unit_id u, u)) us))"

definition citation_snapshot_of ::
  "(str \<Rightarrow> retrieved_unit option) \<Rightarrow> nat \<times> answer_citation \<Rightarrow> citation_snapshot" where
  "citation_snapshot_of indexed oc =
     (case oc of (ord, c) \<Rightarrow>
        \<lparr>cs_unit_id = cit_unit_id c, cs_ordinal = ord, cs_label = cit_label c, cs_document_id = cit_document_id c,
         cs_deep_link = cit_deep_link c, cs_article_id = cit_article_id c, cs_clause_id = cit_clause_id c,
         cs_metadata =
           (case indexed (cit_unit_id c) of None \<Rightarrow> []
            | Some u \<Rightarrow> [(''document_number'', jstr_opt (unit_document_number u)),
                        (''article_number'', jstr_opt (article_number u)),
                        (''clause_number'', jstr_opt (clause_number u))])\<rparr>)"

definition citation_data_of :: "nat \<times> answer_citation \<Rightarrow> chat_citation" where
  "citation_data_of oc =
     (case oc of (ord, c) \<Rightarrow>
        \<lparr>cc_ordinal = ord, cc_unit_id = cit_unit_id c, cc_label = cit_label c, cc_document_id = cit_document_id c,
         cc_article_id = cit_article_id c, cc_clause_id = cit_clause_id c, cc_deep_link = cit_deep_link c\<rparr>)"

definition ordinals :: "'a list \<Rightarrow> (nat \<times> 'a) list" where
  "ordinals xs = zip [1..<Suc (length xs)] xs"

definition answer_resolution :: "resolution option \<Rightarrow> reference_status \<times> str option" where
  "answer_resolution r =
     (case r of Some r \<Rightarrow> (StatusResolved, Some (resolution_reason r)) | None \<Rightarrow>
       (StatusUnresolved, Some ''NO_ANAPHORA''))"

definition insufficiency_message :: "str option \<Rightarrow> str" where
  "insufficiency_message code =
     (if code = Some ''MISSING_HIERARCHY_PATH''
      then (''Ch'' @ [CHR 0xC6, CHR 0xB0] @ ''a t'' @ [CHR 0xC3, CHR 0xAC] @ ''m th'' @ [CHR 0xE1, CHR 0xBA,
        CHR 0xA5] @ ''y '' @ [CHR 0xC4, CHR 0x91, CHR 0xE1, CHR 0xBA, CHR 0xA7] @ ''y '' @ [CHR 0xC4, CHR 0x91,
        CHR 0xE1, CHR 0xBB, CHR 0xA7] @ '' '' @ [CHR 0xC4, CHR 0x91, CHR 0xC6, CHR 0xB0, CHR 0xE1, CHR 0xBB,
        CHR 0x9D] @ ''ng d'' @ [CHR 0xE1, CHR 0xBA, CHR 0xAB] @ ''n ph'' @ [CHR 0xC3, CHR 0xA1] @ ''p l'' @
        [CHR 0xC3, CHR 0xBD] @ '' c'' @ [CHR 0xE1, CHR 0xBA, CHR 0xA7] @ ''n thi'' @ [CHR 0xE1, CHR 0xBA, CHR
        0xBF] @ ''t '' @ [CHR 0xC4, CHR 0x91, CHR 0xE1, CHR 0xBB, CHR 0x83] @ '' tr'' @ [CHR 0xE1, CHR 0xBA,
        CHR 0xA3] @ '' l'' @ [CHR 0xE1, CHR 0xBB, CHR 0x9D] @ ''i c'' @ [CHR 0xC3, CHR 0xA2] @ ''u h'' @ [CHR
        0xE1, CHR 0xBB, CHR 0x8F] @ ''i n'' @ [CHR 0xC3, CHR 0xA0] @ ''y.'')
      else if code = Some ''NO_PATH''
      then (''Ch'' @ [CHR 0xC6, CHR 0xB0] @ ''a t'' @ [CHR 0xC3, CHR 0xAC] @ ''m th'' @ [CHR 0xE1, CHR 0xBA,
        CHR 0xA5] @ ''y m'' @ [CHR 0xE1, CHR 0xBB, CHR 0x91] @ ''i li'' @ [CHR 0xC3, CHR 0xAA] @ ''n h'' @ [CHR
        0xE1, CHR 0xBB, CHR 0x87] @ '' ph'' @ [CHR 0xC3, CHR 0xA1] @ ''p l'' @ [CHR 0xC3, CHR 0xBD] @ '' '' @
        [CHR 0xC4, CHR 0x91, CHR 0xE1, CHR 0xBB, CHR 0xA7] @ '' ch'' @ [CHR 0xE1, CHR 0xBA, CHR 0xAF] @
        ''c ch'' @ [CHR 0xE1, CHR 0xBA, CHR 0xAF] @ ''n '' @ [CHR 0xC4, CHR 0x91, CHR 0xE1, CHR 0xBB, CHR 0x83]
        @ '' tr'' @ [CHR 0xE1, CHR 0xBA, CHR 0xA3] @ '' l'' @ [CHR 0xE1, CHR 0xBB, CHR 0x9D] @ ''i c'' @ [CHR
        0xC3, CHR 0xA2] @ ''u h'' @ [CHR 0xE1, CHR 0xBB, CHR 0x8F] @ ''i n'' @ [CHR 0xC3, CHR 0xA0] @ ''y.'')
      else if code = Some ''REQUIRED_EVIDENCE_EXCEEDS_CONTEXT_BUDGET''
      then (''C'' @ [CHR 0xC4, CHR 0x83] @ ''n c'' @ [CHR 0xE1, CHR 0xBB, CHR 0xA9] @ '' c'' @ [CHR 0xE1, CHR
        0xBA, CHR 0xA7] @ ''n thi'' @ [CHR 0xE1, CHR 0xBA, CHR 0xBF] @ ''t v'' @ [CHR 0xC6, CHR 0xB0, CHR 0xE1,
        CHR 0xBB, CHR 0xA3] @ ''t qu'' @ [CHR 0xC3, CHR 0xA1] @ '' ph'' @ [CHR 0xE1, CHR 0xBA, CHR 0xA1] @
        ''m vi x'' @ [CHR 0xE1, CHR 0xBB, CHR 0xAD] @ '' l'' @ [CHR 0xC3, CHR 0xBD] @ '' c'' @ [CHR 0xE1, CHR
        0xBB, CHR 0xA7] @ ''a l'' @ [CHR 0xC6, CHR 0xB0, CHR 0xE1, CHR 0xBB, CHR 0xA3] @ ''t h'' @ [CHR 0xE1,
        CHR 0xBB, CHR 0x8F] @ ''i n'' @ [CHR 0xC3, CHR 0xA0] @ ''y.'')
      else (''Ch'' @ [CHR 0xC6, CHR 0xB0] @ ''a t'' @ [CHR 0xC3, CHR 0xAC] @ ''m th'' @ [CHR 0xE1, CHR 0xBA,
        CHR 0xA5] @ ''y '' @ [CHR 0xC4, CHR 0x91, CHR 0xE1, CHR 0xBB, CHR 0xA7] @ '' c'' @ [CHR 0xC4, CHR 0x83]
        @ ''n c'' @ [CHR 0xE1, CHR 0xBB, CHR 0xA9] @ '' ph'' @ [CHR 0xC3, CHR 0xA1] @ ''p l'' @ [CHR 0xC3, CHR
        0xBD] @ '' '' @ [CHR 0xC4, CHR 0x91, CHR 0xE1, CHR 0xBB, CHR 0x83] @ '' tr'' @ [CHR 0xE1, CHR 0xBA, CHR
        0xA3] @ '' l'' @ [CHR 0xE1, CHR 0xBB, CHR 0x9D] @ ''i c'' @ [CHR 0xC3, CHR 0xA2] @ ''u h'' @ [CHR 0xE1,
        CHR 0xBB, CHR 0x8F] @ ''i n'' @ [CHR 0xC3, CHR 0xA0] @ ''y.''))"

definition reference_data :: "resolved_reference \<Rightarrow> chat_reference" where
  "reference_data r =
     \<lparr>crf_mention = ref_mention r, crf_node_id = ref_node_id r, crf_node_type = ref_node_type r, crf_label = ref_label r,
      crf_document_id = ref_document_id r, crf_method = method_value (ref_method r), crf_source = source_value
        (ref_source r)\<rparr>"

definition answer_metadata ::
  "retrieval_context \<Rightarrow> answer_response \<Rightarrow> retrieved_unit list \<Rightarrow>
    reference_status \<Rightarrow> chat_metadata" where
  "answer_metadata ctx a sources status =
     \<lparr>cm_sources = sources, cm_intent = intent_value (ans_intent a), cm_strategy = strategy_value (ans_strategy a),
      cm_mode = retrieval_mode_value (rc_mode ctx), cm_retrieval_version = retrieval_contract_version,
      cm_answer_version = answer_contract_version, cm_cannot_answer = ans_cannot_answer a,
      cm_needs_clarification = False, cm_resolution = Some (status_value status),
      cm_insufficiency = (if ans_cannot_answer a then Some (insufficiency_message (ans_reason a)) else None),
      cm_references = map reference_data (rc_references ctx),
      cm_relation_goal = map_option relation_goal_value (rc_relation_goal ctx)\<rparr>"

definition answer_snapshot_of ::
  "retrieval_context \<Rightarrow> answer_response \<Rightarrow> retrieved_unit list \<Rightarrow>
    reference_status \<Rightarrow> snapshot" where
  "answer_snapshot_of ctx a sources status =
     AnswerSnapshot (if ans_cannot_answer a then KindCannotAnswer else KindAnswer)
       \<lparr>ap_metadata = answer_metadata ctx a sources status, ap_text = ans_text a,
        ap_structure = Some \<lparr>at_direct = ans_direct a, at_sections = ans_sections a, at_caveats = ans_caveats a\<rparr>,
        ap_citations = map citation_data_of (ordinals (ans_citations a)),
        ap_explanation = \<lparr>ce_notes = ans_notes a, ce_paths = ans_paths a\<rparr>,
        ap_done = \<lparr>cd_status = (if ans_cannot_answer a then DoneCannotAnswer else DoneCompleted),
                   cd_citations = length (ans_citations a), cd_confidence = Some (ans_confidence a),
                   cd_provider = ans_provider a, cd_model = ans_model a, cd_retry_after = None\<rparr>,
        ap_diagnostics = (if truthy_str (ans_reason a) then ans_reason a else None)\<rparr>"

definition finish_answer ::
  "nat \<Rightarrow> resolution option \<Rightarrow> str \<Rightarrow> retrieval_context \<Rightarrow>
    answer_response \<Rightarrow> raised + turn_write" where
  "finish_answer no r query ctx a =
     rbind (response_units ctx) (\<lambda>us.
       let indexed = unit_index us;
           sources = concat (map (\<lambda>c. case indexed (cit_unit_id c) of None \<Rightarrow> [] | Some u
             \<Rightarrow> [u]) (ans_citations a));
           snapshots = map (citation_snapshot_of indexed) (ordinals (ans_citations a));
           (status, reason) = answer_resolution r
       in Inr (WriteAnswer
            \<lparr>aw_turn_no = no, aw_status = (if ans_cannot_answer a then TurnCannotAnswer else TurnCompleted),
             aw_kind = (if ans_cannot_answer a then MsgCannotAnswer else MsgAnswer), aw_content = ans_text a,
             aw_query = query, aw_resolution = status, aw_reason = reason, aw_citations = snapshots,
             aw_focuses = focus_upserts_from_citations snapshots, aw_update_focus = (\<not> ans_cannot_answer a),
             aw_snapshot = answer_snapshot_of ctx a sources status\<rparr>))"

text \<open>\<open>except (RetrievalError, AnswerGenerationError)\<close>\<close>

definition catch_stream_errors :: "raised + 'a \<Rightarrow> ('a \<Rightarrow> raised + turn_write)
  \<Rightarrow> raised + turn_write" where
  "catch_stream_errors attempt k =
     (case attempt of
        Inr x \<Rightarrow> k x
      | Inl e \<Rightarrow> (case stream_error_contract e of
                   Some (code, message) \<Rightarrow> Inr (end_with_failure code message)
                 | None \<Rightarrow> Inl e))"

definition generate_answer ::
  "generator \<Rightarrow> str \<Rightarrow> retrieval_context \<Rightarrow> composition_plan option
    \<Rightarrow> raised + answer_response" where
  "generate_answer g query ctx plan =
     (case make_generation_request query ctx [] plan of
        Inl e \<Rightarrow> Inl RaisedValidation
      | Inr r \<Rightarrow> (case go_result (generate g r) of Inl e \<Rightarrow> Inl (RaisedGeneration e) |
        Inr a \<Rightarrow> Inr a))"

definition answer_standalone ::
  "services \<Rightarrow> chat_request \<Rightarrow> nat \<Rightarrow> resolution option \<Rightarrow> str
    \<Rightarrow> str list \<Rightarrow> execution_context \<Rightarrow> raised + turn_write" where
  "answer_standalone sv q no r query ids ectx =
     catch_stream_errors
       (rbind (to_validation (make_filters ids [] [] (cq_date q))) (\<lambda>fs.
        rbind (to_validation (make_request query fs None None (cq_force q) (cq_rerank q))) (\<lambda>req.
        rbind (sv_retrieve sv 0 req ectx) (\<lambda>ctx.
        rbind (generate_answer (sv_generator sv) query ctx None) (\<lambda>a. Inr (ctx, a))))))
       (\<lambda>(ctx, a). finish_answer no r query ctx a)"

definition gather :: "nat \<Rightarrow> (raised + 'a) list \<Rightarrow> raised + 'a list" where
  "gather race results =
     (let failures = [e. Inl e \<leftarrow> results] in
      if failures = [] then Inr [x. Inr x \<leftarrow> results] else Inl (failures ! (race mod length failures)))"

definition retrieve_all ::
  "services \<Rightarrow> execution_context \<Rightarrow> request list \<Rightarrow> raised + retrieval_context list" where
  "retrieve_all sv ectx reqs = gather (sv_race sv) (map (\<lambda>(i, req). sv_retrieve sv i req ectx) (zip
    [0..<length reqs] reqs))"

definition answer_from_processing ::
  "services \<Rightarrow> chat_request \<Rightarrow> nat \<Rightarrow> resolution option \<Rightarrow>
    processing_result \<Rightarrow> str \<Rightarrow> str list \<Rightarrow> execution_context
     \<Rightarrow> raised + turn_write" where
  "answer_from_processing sv q no r res query ids ectx =
     rbind (build_subquery_requests res ids (cq_date q) (cq_rerank q)) (\<lambda>reqs.
       catch_stream_errors
         (rbind (retrieve_all sv ectx reqs) (\<lambda>ctxs.
          rbind (build_composition_plan res ctxs) (\<lambda>plan.
          rbind (merge_contexts ctxs query) (\<lambda>ctx.
          rbind (generate_answer (sv_generator sv) query ctx plan) (\<lambda>a. Inr (ctx, a))))))
         (\<lambda>(ctx, a). finish_answer no r query ctx a))"

text \<open>The canonical anchors of a resolved reference are added to every subquery that lost one.\<close>

definition anchored :: "language \<Rightarrow> str list \<Rightarrow> subquery \<Rightarrow> subquery" where
  "anchored L anchors q =
     (let missing = filter (\<lambda>a. \<not> carries L (sub_query q) a) anchors in
      if missing = [] then q else q\<lparr>sub_query := sub_query q @ '' ('' @ join '', '' missing @ '')''\<rparr>)"

definition clarification_fallback :: str where
  "clarification_fallback = (''B'' @ [CHR 0xE1, CHR 0xBA, CHR 0xA1] @ ''n c'' @ [CHR 0xC3, CHR 0xB3] @ '' th''
    @ [CHR 0xE1, CHR 0xBB, CHR 0x83] @ '' n'' @ [CHR 0xC3, CHR 0xB3] @ ''i r'' @ [CHR 0xC3, CHR 0xB5] @ '' h''
    @ [CHR 0xC6, CHR 0xA1] @ ''n c'' @ [CHR 0xC3, CHR 0xA2] @ ''u h'' @ [CHR 0xE1, CHR 0xBB, CHR 0x8F] @
    ''i kh'' @ [CHR 0xC3, CHR 0xB4] @ ''ng?'')"

definition processing_failed_message :: str where
  "processing_failed_message = (''Kh'' @ [CHR 0xC3, CHR 0xB4] @ ''ng th'' @ [CHR 0xE1, CHR 0xBB, CHR 0x83] @
    '' x'' @ [CHR 0xE1, CHR 0xBB, CHR 0xAD] @ '' l'' @ [CHR 0xC3, CHR 0xBD] @ '' c'' @ [CHR 0xC3, CHR 0xA2] @
    ''u h'' @ [CHR 0xE1, CHR 0xBB, CHR 0x8F] @ ''i. Vui l'' @ [CHR 0xC3, CHR 0xB2] @ ''ng th'' @ [CHR 0xE1, CHR
    0xBB, CHR 0xAD] @ '' l'' @ [CHR 0xE1, CHR 0xBA, CHR 0xA1] @ ''i.'')"

definition answer_with_processor ::
  "services \<Rightarrow> (str \<Rightarrow> processor_answer) \<Rightarrow> chat_request \<Rightarrow> nat
    \<Rightarrow> resolution option \<Rightarrow> str \<Rightarrow> str list
     \<Rightarrow> execution_context \<Rightarrow> raised + turn_write" where
  "answer_with_processor sv processor q no r query ids ectx =
     (case processor query of
        ProcessingFailed \<Rightarrow> Inr (end_with_failure ''QUERY_PROCESSING_FAILED'' processing_failed_message)
      | ProcessorRaised e \<Rightarrow> Inl e
      | Processed res \<Rightarrow>
          if pr_status res = NeedsClarification
          then Inr (end_with_clarification
                 \<lparr>cy_mode = ModeRestate, cy_status = StatusUnresolved, cy_reason =
                   ''QUERY_PROCESSOR_CLARIFICATION'',
                  cy_question = str_or (pr_clarification res) clarification_fallback, cy_candidates = []\<rparr>)
          else answer_from_processing sv q no r
                 (case r of None \<Rightarrow> res
                  | Some r \<Rightarrow> res\<lparr>pr_subqueries := map (anchored (rw_language (sv_rewriter sv))
                                 (required_anchors (rs_candidate r))) (pr_subqueries res)\<rparr>)
                 query ids ectx)"

subsection \<open>The turn\<close>

text \<open>The documents of the retrieval; \<open>None\<close> is a filter that excludes the resolved reference.\<close>

definition effective_document_ids :: "chat_request \<Rightarrow> resolution option \<Rightarrow> str list option" where
  "effective_document_ids q r =
     (case r of
        None \<Rightarrow> Some (cq_document_ids q)
      | Some r \<Rightarrow>
          (let d = rcd_document_id (rs_candidate r) in
           if cq_document_ids q = [] \<or> d \<in> set (cq_document_ids q) then Some [d] else None))"

definition reference_ok :: "resolved_reference \<Rightarrow> bool" where
  "reference_ok r \<longleftrightarrow>
     1 \<le> py_len (ref_mention r) \<and> py_len (ref_mention r) \<le> 4000 \<and> ref_node_id r \<noteq> []
       \<and> ref_label r \<noteq> []
     \<and> ref_document_id r \<noteq> []"

definition retrieval_execution_context ::
  "language \<Rightarrow> chat_request \<Rightarrow> resolution option \<Rightarrow> raised + execution_context" where
  "retrieval_execution_context L q r =
     (case r of
        None \<Rightarrow> Inr empty_execution_context
      | Some r \<Rightarrow>
          (let ref = to_retrieval_reference (str_or (rs_message r) (cq_message q)) r;
               goal = (case rs_goal r of Some g \<Rightarrow> Some g | None \<Rightarrow> detect_relation_goal L (cq_message q))
           in if reference_ok ref then to_validation (make_execution_context [ref] goal) else Inl RaisedValidation))"

definition answer_turn ::
  "services \<Rightarrow> chat_request \<Rightarrow> begun_turn \<Rightarrow> resolution option \<Rightarrow>
    raised + turn_write" where
  "answer_turn sv q b r =
     (case rewrite (sv_rewriter sv) (cq_message q) (map he_content (hc_recent (bt_context b))) r of
        Inl e \<Rightarrow> Inr (end_with_failure (rewrite_code e) (rewrite_message e))
      | Inr query \<Rightarrow>
          (case effective_document_ids q r of
             None \<Rightarrow> Inr (end_with_clarification filter_conflict)
           | Some ids \<Rightarrow>
               rbind (retrieval_execution_context (rv_language (sv_resolver sv)) q r) (\<lambda>ectx.
                 case sv_processor sv of
                   Some processor \<Rightarrow>
                     if ctx_relation_goal ectx = None
                     then answer_with_processor sv processor q (bt_turn_no b) r query ids ectx
                     else answer_standalone sv q (bt_turn_no b) r query ids ectx
                 | None \<Rightarrow> answer_standalone sv q (bt_turn_no b) r query ids ectx)))"

definition process_turn :: "services \<Rightarrow> chat_request \<Rightarrow> begun_turn \<Rightarrow> raised + turn_write" where
  "process_turn sv q b =
     rbind (resolve (sv_resolver sv) (cq_message q) (bt_context b)) (\<lambda>oc.
       case oc of
         Cancel \<Rightarrow> Inr (end_directly (bt_turn_no b) ''USER_CANCELLED'' cancel_text)
       | Clarify c \<Rightarrow> Inr (end_with_clarification c)
       | Resolved r \<Rightarrow> answer_turn sv q b (Some r)
       | Standalone \<Rightarrow>
           (case greeting_response (tx_casefold (rv_language (sv_resolver sv))) (cq_message q) of
              Some greeting \<Rightarrow> Inr (end_directly (bt_turn_no b) ''NO_ANAPHORA'' greeting)
            | None \<Rightarrow> answer_turn sv q b None))"

subsection \<open>Replay\<close>

definition processing_retry_after :: nat where "processing_retry_after = 1000"

definition replayable :: "turn_status \<Rightarrow> bool" where
  "replayable t \<longleftrightarrow> t \<in> {TurnCompleted, TurnCannotAnswer, TurnNeedsClarification, TurnFailed}"

text \<open>A snapshot is a dictionary with entries, so it is true.\<close>

definition replay_snapshot :: "turn \<Rightarrow> raised + snapshot" where
  "replay_snapshot t =
     (if tn_status t = TurnProcessing then Inr (processing_snapshot processing_retry_after)
      else case tn_snapshot t of
        Some sn \<Rightarrow> if replayable (tn_status t) then Inr sn else Inl (RaisedStore SnapshotMissing)
      | None \<Rightarrow> Inl (RaisedStore SnapshotMissing))"

definition raise_store :: "store_error + 'a \<Rightarrow> raised + 'a" where
  "raise_store r = (case r of Inl e \<Rightarrow> Inl (RaisedStore e) | Inr x \<Rightarrow> Inr x)"

text \<open>
  \<open>_resolve_snapshot\<close> run alone: the pre-check, the check under the lock, the begin, the processing and the final
  write. The result is the store left behind and the snapshot or the exception. What other requests do in
  between is the subject of \<open>Conversation_Machine\<close>.
\<close>

definition resolve_snapshot ::
  "services \<Rightarrow> owner \<Rightarrow> uuid \<Rightarrow> uuid \<Rightarrow> uuid \<Rightarrow> nat
    \<Rightarrow> chat_request \<Rightarrow> store \<Rightarrow> store \<times> (raised + snapshot)" where
  "resolve_snapshot sv ow turn_id user_msg reply_msg now q s =
     (case find_owned_turn s (cq_conversation q) ow (cq_client q) of
        Inl e \<Rightarrow> (s, Inl (RaisedStore e))
      | Inr (Some t) \<Rightarrow> (s, replay_snapshot t)
      | Inr None \<Rightarrow>
          (case find_turn s (cq_conversation q) (cq_client q) of
             Some t \<Rightarrow> (s, replay_snapshot t)
           | None \<Rightarrow>
               (case begin_turn (cq_conversation q) ow (cq_client q) (cq_message q) turn_id user_msg now s of
                  Inl e \<Rightarrow> (s, Inl (RaisedStore e))
                | Inr (s1, b) \<Rightarrow>
                    (case process_turn sv q b of
                       Inl e \<Rightarrow> (s1, Inl e)
                     | Inr w \<Rightarrow>
                         (case write_turn (cq_conversation q) turn_id reply_msg w s1 of
                            Inl e \<Rightarrow> (s1, Inl (RaisedStore e))
                          | Inr s2 \<Rightarrow> (s2, Inr (written_snapshot w)))))))"

definition stream_chat ::
  "nat \<Rightarrow> services \<Rightarrow> owner \<Rightarrow> uuid \<Rightarrow> uuid \<Rightarrow> uuid
    \<Rightarrow> nat \<Rightarrow> chat_request \<Rightarrow> store \<Rightarrow> store \<times> (raised +
    stream_event list)" where
  "stream_chat chunk sv ow turn_id user_msg reply_msg now q s =
     (case resolve_snapshot sv ow turn_id user_msg reply_msg now q s of
        (s', Inl e) \<Rightarrow> (s', Inl e)
      | (s', Inr sn) \<Rightarrow>
          (case stream_from_snapshot chunk sn of None \<Rightarrow> (s', Inl RaisedValueError) | Some evs
            \<Rightarrow> (s', Inr evs)))"

end
