(* ===== verification/Conversation_Machine.thy ===== *)
theory Conversation_Machine
  imports Chat_Service
begin

text \<open>
  Chat requests served concurrently over one conversation store: a process per request, the advisory locks of
  \<open>apps/backend/persistence/lock.py\<close>, and one step per transaction of \<open>_resolve_snapshot\<close>, interleaved with the
  steps of other processes, with the operations on conversations that take no lock, and with crashes.
\<close>

subsection \<open>Waiting for a lock\<close>

text \<open>
  \<open>acquire_with_deadline\<close>: poll number \<open>n\<close> reads the clock \<open>clock n\<close> after an attempt \<open>attempt n\<close> that failed.
  The loop is unbounded; it returns as soon as the clock reaches the deadline.
\<close>

partial_function (option) poll_lock :: "(nat \<Rightarrow> bool) \<Rightarrow> (nat \<Rightarrow> rat) \<Rightarrow> rat \<Rightarrow> nat \<Rightarrow> bool option" where
  "poll_lock attempt clock deadline n =
     (if attempt n then Some True
      else if deadline \<le> clock n then Some False
      else poll_lock attempt clock deadline (Suc n))"

definition acquire_with_deadline :: "(nat \<Rightarrow> bool) \<Rightarrow> (nat \<Rightarrow> rat) \<Rightarrow> rat \<Rightarrow> rat \<Rightarrow> bool option" where
  "acquire_with_deadline attempt clock start timeout = poll_lock attempt clock (start + timeout) 0"

subsection \<open>The machine\<close>

datatype phase =
    AtEntry
  | Polling
  | Holding
  | Absent
  | Working begun_turn
  | Releasing "raised + snapshot"
  | Finished "raised + snapshot"
  | Crashed

record process =
  ps_owner :: owner
  ps_request :: chat_request
  ps_phase :: phase

record machine =
  mc_store :: store
  mc_locks :: "int \<Rightarrow> nat option"
  mc_procs :: "nat \<Rightarrow> process option"

definition empty_store :: store where
  "empty_store = \<lparr>st_conversations = [], st_turns = [], st_messages = [], st_citations = [], st_focuses = [], st_pending = []\<rparr>"

definition initial_machine :: machine where
  "initial_machine = \<lparr>mc_store = empty_store, mc_locks = Map.empty, mc_procs = Map.empty\<rparr>"

abbreviation ps_conversation :: "process \<Rightarrow> uuid" where
  "ps_conversation p \<equiv> cq_conversation (ps_request p)"

abbreviation ps_client :: "process \<Rightarrow> uuid" where
  "ps_client p \<equiv> cq_client (ps_request p)"

definition go :: "nat \<Rightarrow> process \<Rightarrow> phase \<Rightarrow> machine \<Rightarrow> machine" where
  "go i p ph m = m\<lparr>mc_procs := (mc_procs m)(i \<mapsto> p\<lparr>ps_phase := ph\<rparr>)\<rparr>"

text \<open>Where the pre-check and the check under the lock lead.\<close>

definition after_precheck :: "store \<Rightarrow> process \<Rightarrow> phase" where
  "after_precheck s p =
     (case find_owned_turn s (ps_conversation p) (ps_owner p) (ps_client p) of
        Inl e \<Rightarrow> Finished (Inl (RaisedStore e))
      | Inr (Some t) \<Rightarrow> Finished (replay_snapshot t)
      | Inr None \<Rightarrow> Polling)"

definition after_recheck :: "store \<Rightarrow> process \<Rightarrow> phase" where
  "after_recheck s p =
     (case find_turn s (ps_conversation p) (ps_client p) of
        Some t \<Rightarrow> Releasing (replay_snapshot t)
      | None \<Rightarrow> Absent)"

definition open_turn :: "process \<Rightarrow> uuid \<Rightarrow> uuid \<Rightarrow> nat \<Rightarrow> store \<Rightarrow> store_error + store \<times> begun_turn" where
  "open_turn p turn_id message_id now s =
     begin_turn (ps_conversation p) (ps_owner p) (ps_client p) (cq_message (ps_request p)) turn_id message_id now s"

text \<open>
  A session that ends gives its lock back, so a crash frees it; the deadline passes only while another session
  holds the lock.
\<close>

definition unlock :: "(uuid \<Rightarrow> int) \<Rightarrow> nat \<Rightarrow> process \<Rightarrow> machine \<Rightarrow> machine" where
  "unlock key i p m =
     (if mc_locks m (key (ps_conversation p)) = Some i
      then m\<lparr>mc_locks := (mc_locks m)(key (ps_conversation p) := None)\<rparr> else m)"

inductive step :: "(uuid \<Rightarrow> int) \<Rightarrow> machine \<Rightarrow> machine \<Rightarrow> bool" for key where
  arrive: "mc_procs m i = None \<Longrightarrow>
     step key m (go i \<lparr>ps_owner = ow, ps_request = q, ps_phase = AtEntry\<rparr> AtEntry m)"
| precheck: "mc_procs m i = Some p \<Longrightarrow> ps_phase p = AtEntry \<Longrightarrow>
     step key m (go i p (after_precheck (mc_store m) p) m)"
| acquire: "mc_procs m i = Some p \<Longrightarrow> ps_phase p = Polling \<Longrightarrow> mc_locks m (key (ps_conversation p)) = None \<Longrightarrow>
     step key m (go i p Holding (m\<lparr>mc_locks := (mc_locks m)(key (ps_conversation p) \<mapsto> i)\<rparr>))"
| give_up: "mc_procs m i = Some p \<Longrightarrow> ps_phase p = Polling \<Longrightarrow> mc_locks m (key (ps_conversation p)) \<noteq> None \<Longrightarrow>
     step key m (go i p (Finished (Inl (RaisedStore ConversationBusy))) m)"
| recheck: "mc_procs m i = Some p \<Longrightarrow> ps_phase p = Holding \<Longrightarrow>
     step key m (go i p (after_recheck (mc_store m) p) m)"
| opened: "mc_procs m i = Some p \<Longrightarrow> ps_phase p = Absent \<Longrightarrow>
     open_turn p turn_id message_id now (mc_store m) = Inr (s, b) \<Longrightarrow>
     step key m (go i p (Working b) (m\<lparr>mc_store := s\<rparr>))"
| open_fails: "mc_procs m i = Some p \<Longrightarrow> ps_phase p = Absent \<Longrightarrow>
     open_turn p turn_id message_id now (mc_store m) = Inl e \<Longrightarrow>
     step key m (go i p (Releasing (Inl (RaisedStore e))) m)"
| finish: "mc_procs m i = Some p \<Longrightarrow> ps_phase p = Working b \<Longrightarrow> process_turn sv (ps_request p) b = Inr w \<Longrightarrow>
     write_turn (ps_conversation p) (bt_turn b) message_id w (mc_store m) = Inr s \<Longrightarrow>
     step key m (go i p (Releasing (Inr (written_snapshot w))) (m\<lparr>mc_store := s\<rparr>))"
| write_fails: "mc_procs m i = Some p \<Longrightarrow> ps_phase p = Working b \<Longrightarrow> process_turn sv (ps_request p) b = Inr w \<Longrightarrow>
     write_turn (ps_conversation p) (bt_turn b) message_id w (mc_store m) = Inl e \<Longrightarrow>
     step key m (go i p (Releasing (Inl (RaisedStore e))) m)"
| process_fails: "mc_procs m i = Some p \<Longrightarrow> ps_phase p = Working b \<Longrightarrow> process_turn sv (ps_request p) b = Inl e \<Longrightarrow>
     step key m (go i p (Releasing (Inl e)) m)"
| release: "mc_procs m i = Some p \<Longrightarrow> ps_phase p = Releasing r \<Longrightarrow>
     step key m (go i p (Finished r) (unlock key i p m))"
| crash: "mc_procs m i = Some p \<Longrightarrow> (\<forall>r. ps_phase p \<noteq> Finished r) \<Longrightarrow>
     step key m (go i p Crashed (unlock key i p m))"
| rename: "step key m (m\<lparr>mc_store := fst (patch_title c ow title now (mc_store m))\<rparr>)"
| name_it: "step key m (m\<lparr>mc_store := fst (generate_title c ow now (mc_store m))\<rparr>)"
| remove: "step key m (m\<lparr>mc_store := fst (delete_conversation c ow now (mc_store m))\<rparr>)"
| claim: "step key m (m\<lparr>mc_store := fst (claim_guest anon user now (mc_store m))\<rparr>)"

inductive reachable :: "(uuid \<Rightarrow> int) \<Rightarrow> machine \<Rightarrow> bool" for key where
  start: "reachable key initial_machine"
| next_state: "reachable key m \<Longrightarrow> step key m m' \<Longrightarrow> reachable key m'"

text \<open>The states that follow a state.\<close>

inductive later :: "(uuid \<Rightarrow> int) \<Rightarrow> machine \<Rightarrow> machine \<Rightarrow> bool" for key where
  now: "later key m m"
| after: "later key m m' \<Longrightarrow> step key m' m'' \<Longrightarrow> later key m m''"

end
