(* ===== verification/Conversation_Invariants.thy ===== *)
theory Conversation_Invariants
  imports Conversation_Machine
begin

text \<open>
  What the transactions do to the tables, and the invariants of the machine: who holds which lock, what the
  phase of a process says about the store, and the numbering of the turns.
\<close>

subsection \<open>Effects of the transactions\<close>

lemma insert_turn_Inr:
  "insert_turn t s = Inr s' \<longleftrightarrow>
   (\<forall>x \<in> set (st_turns s). tn_id x \<noteq> tn_id t
      \<and> \<not> (tn_conversation x = tn_conversation t \<and> (tn_client x = tn_client t \<or> tn_no x = tn_no t)))
   \<and> s' = s\<lparr>st_turns := st_turns s @ [t]\<rparr>"
  by (auto simp: insert_turn_def list_ex_iff)

lemma insert_message_Inr:
  "insert_message t s = Inr s' \<longleftrightarrow>
   (\<forall>x \<in> set (st_messages s). mg_id x \<noteq> mg_id t
      \<and> \<not> (mg_conversation x = mg_conversation t \<and> mg_ordinal x = mg_ordinal t))
   \<and> s' = s\<lparr>st_messages := st_messages s @ [t]\<rparr>"
  by (auto simp: insert_message_def list_ex_iff)

lemma find_append: "find P (xs @ ys) = (case find P xs of None \<Rightarrow> find P ys | Some x \<Rightarrow> Some x)"
  by (induction xs) auto

text \<open>The number the next turn of a conversation gets.\<close>

definition next_turn :: "store \<Rightarrow> uuid \<Rightarrow> nat" where
  "next_turn s c = (case find_conversation s c of None \<Rightarrow> 1 | Some v \<Rightarrow> cv_next_turn v)"

lemma find_conversation_update:
  assumes "\<And>v. cv_id (f v) = cv_id v"
  shows "find_conversation (update_conversation c f s) d =
         map_option (\<lambda>v. if cv_id v = c then f v else v) (find_conversation s d)"
proof -
  have "find (\<lambda>v. cv_id v = d) (map (\<lambda>v. if cv_id v = c then f v else v) vs)
      = map_option (\<lambda>v. if cv_id v = c then f v else v) (find (\<lambda>v. cv_id v = d) vs)" for vs
    using assms by (induction vs) auto
  then show ?thesis by (simp add: find_conversation_def update_conversation_def)
qed

lemma find_conversation_id: "find_conversation s c = Some v \<Longrightarrow> cv_id v = c"
  by (auto simp: find_conversation_def find_Some_iff)

lemma reserve_turn_no_Inr:
  assumes "reserve_turn_no c ow message now s = Inr (s', no)"
  shows "no = next_turn s c" and "st_turns s' = st_turns s" and "st_messages s' = st_messages s"
    and "st_focuses s' = st_focuses s" and "st_pending s' = st_pending s" and "st_citations s' = st_citations s"
    and "next_turn s' d = (if d = c then Suc no else next_turn s d)"
    and "\<exists>v. find_conversation s' c = Some v \<and> cv_owner v = ow"
proof -
  consider (new) "find_conversation s c = None" "s' = open_conversation c ow message now s" "no = 1"
    | (old) v where "find_conversation s c = Some v" "cv_owner v = ow" "no = cv_next_turn v"
        "s' = update_conversation c (\<lambda>v. v\<lparr>cv_next_turn := cv_next_turn v + 1, cv_title := retitle message (cv_title v),
                cv_updated := now\<rparr>) s"
    using assms by (auto simp: reserve_turn_no_def load_owned_def split: option.splits if_splits)
  then have "no = next_turn s c \<and> st_turns s' = st_turns s \<and> st_messages s' = st_messages s
      \<and> st_focuses s' = st_focuses s \<and> st_pending s' = st_pending s \<and> st_citations s' = st_citations s
      \<and> next_turn s' d = (if d = c then Suc no else next_turn s d)
      \<and> (\<exists>v. find_conversation s' c = Some v \<and> cv_owner v = ow)"
  proof cases
    case new
    have f: "find_conversation s' d = (case find_conversation s d of Some v \<Rightarrow> Some v | None \<Rightarrow>
        if c = d then Some \<lparr>cv_id = c, cv_owner = ow, cv_title = initial_title message, cv_deleted = False, cv_next_turn = 2,
          cv_created = now, cv_updated = now\<rparr> else None)" for d
      by (simp add: new(2) find_conversation_def open_conversation_def find_append split: option.splits)
    show ?thesis using f new
      by (auto simp: next_turn_def open_conversation_def split: option.splits)
  next
    case old
    have f: "find_conversation s' d = map_option (\<lambda>v. if cv_id v = c then v\<lparr>cv_next_turn := cv_next_turn v + 1,
        cv_title := retitle message (cv_title v), cv_updated := now\<rparr> else v) (find_conversation s d)" for d
      unfolding old(4) by (rule find_conversation_update) simp
    have "next_turn s' d = (if d = c then Suc no else next_turn s d)"
      using old(1,3) f [of d] find_conversation_id [of s d]
      by (cases "find_conversation s d") (auto simp: next_turn_def)
    moreover have "\<exists>v. find_conversation s' c = Some v \<and> cv_owner v = ow"
      using old(1,2) f [of c] find_conversation_id [OF old(1)] by simp
    ultimately show ?thesis using old by (simp add: next_turn_def update_conversation_def)
  qed
  then show "no = next_turn s c" and "st_turns s' = st_turns s" and "st_messages s' = st_messages s"
    and "st_focuses s' = st_focuses s" and "st_pending s' = st_pending s" and "st_citations s' = st_citations s"
    and "next_turn s' d = (if d = c then Suc no else next_turn s d)"
    and "\<exists>v. find_conversation s' c = Some v \<and> cv_owner v = ow" by blast+
qed

lemma evict_focuses_tables [simp]:
  "st_turns (evict_focuses c n s) = st_turns s" "st_messages (evict_focuses c n s) = st_messages s"
  "st_pending (evict_focuses c n s) = st_pending s" "st_conversations (evict_focuses c n s) = st_conversations s"
  "st_citations (evict_focuses c n s) = st_citations s"
  by (simp_all add: evict_focuses_def)

lemma next_turn_conversations: "st_conversations s' = st_conversations s \<Longrightarrow> next_turn s' c = next_turn s c"
  by (simp add: next_turn_def find_conversation_def)

text \<open>The message that opens a turn.\<close>

definition user_message :: "uuid \<Rightarrow> uuid \<Rightarrow> uuid \<Rightarrow> str \<Rightarrow> store \<Rightarrow> message" where
  "user_message m t c content s =
     \<lparr>mg_id = m, mg_turn = t, mg_conversation = c, mg_role = RoleUser, mg_kind = MsgUserQuery,
      mg_content = content, mg_ordinal = next_ordinal s c\<rparr>"

lemma begin_turn_Inr:
  assumes "begin_turn c ow client message t m now s = Inr (s', b)"
  shows "bt_turn b = t" and "bt_turn_no b = next_turn s c" and "bt_conversation b = c"
    and "st_turns s' = st_turns s @ [processing_turn t c client (next_turn s c)]"
    and "\<forall>x \<in> set (st_turns s). tn_id x \<noteq> t
           \<and> \<not> (tn_conversation x = c \<and> (tn_client x = client \<or> tn_no x = next_turn s c))"
    and "st_messages s' = st_messages s @ [user_message m t c message s]"
    and "\<forall>x \<in> set (st_messages s). mg_id x \<noteq> m"
    and "st_focuses s' = st_focuses (evict_focuses c (next_turn s c) s)" and "st_pending s' = st_pending s"
    and "next_turn s' d = (if d = c then Suc (next_turn s c) else next_turn s d)"
    and "\<exists>v. find_conversation s' c = Some v \<and> cv_owner v = ow"
proof -
  from assms obtain s1 no s2 s3 s4 ctx where
    1: "reserve_turn_no c ow message now s = Inr (s1, no)" and
    2: "insert_turn (processing_turn t c client no) s1 = Inr s2" and
    3: "insert_message \<lparr>mg_id = m, mg_turn = t, mg_conversation = c, mg_role = RoleUser,
              mg_kind = MsgUserQuery, mg_content = message, mg_ordinal = next_ordinal s2 c\<rparr> s2 = Inr s3" and
    4: "load_context c t no s3 = Inr (s4, ctx)" and
    s': "s' = s4" and b: "b = \<lparr>bt_turn = t, bt_conversation = c, bt_turn_no = no, bt_ordinal = next_ordinal s2 c, bt_context = ctx\<rparr>"
    by (auto simp: begin_turn_def rbind_Inr_iff split: prod.splits)
  note r = reserve_turn_no_Inr [OF 1]
  have s2: "s2 = s1\<lparr>st_turns := st_turns s1 @ [processing_turn t c client no]\<rparr>"
    and fresh: "\<forall>x \<in> set (st_turns s1). tn_id x \<noteq> t \<and> \<not> (tn_conversation x = c \<and> (tn_client x = client \<or> tn_no x = no))"
    using 2 by (auto simp: insert_turn_Inr processing_turn_def)
  have ord: "next_ordinal s2 c = next_ordinal s c" by (simp add: next_ordinal_def s2 r(3))
  have s3: "s3 = s2\<lparr>st_messages := st_messages s2 @ [user_message m t c message s]\<rparr>"
    and freshm: "\<forall>x \<in> set (st_messages s2). mg_id x \<noteq> m"
    using 3 by (auto simp: insert_message_Inr ord user_message_def)
  have s4: "s4 = evict_focuses c no s3" using 4 by (auto simp: load_context_def Let_def rbind_Inr_iff)
  show "bt_turn b = t" and "bt_turn_no b = next_turn s c" and "bt_conversation b = c" by (simp_all add: b r(1))
  show "st_turns s' = st_turns s @ [processing_turn t c client (next_turn s c)]"
    "st_messages s' = st_messages s @ [user_message m t c message s]" "st_pending s' = st_pending s"
    by (simp_all add: s' s4 s3 s2 r)
  show "\<forall>x \<in> set (st_turns s). tn_id x \<noteq> t
           \<and> \<not> (tn_conversation x = c \<and> (tn_client x = client \<or> tn_no x = next_turn s c))"
    "\<forall>x \<in> set (st_messages s). mg_id x \<noteq> m"
    using fresh freshm r by (simp_all add: s2)
  show "st_focuses s' = st_focuses (evict_focuses c (next_turn s c) s)"
    by (simp add: s' s4 s3 s2 r evict_focuses_def)
  have conv: "st_conversations s' = st_conversations s1" by (simp add: s' s4 s3 s2)
  show "next_turn s' d = (if d = c then Suc (next_turn s c) else next_turn s d)"
    using r(7) [of d] r(1) next_turn_conversations [OF conv] by simp
  show "\<exists>v. find_conversation s' c = Some v \<and> cv_owner v = ow"
    using r(8) conv by (simp add: find_conversation_def)
qed

subsection \<open>The write that ends a turn\<close>

definition written_status :: "turn_write \<Rightarrow> turn_status" where
  "written_status w =
     (case w of WriteClarification c \<Rightarrow> TurnNeedsClarification | WriteAnswer a \<Rightarrow> aw_status a | WriteFailure code sn \<Rightarrow> TurnFailed)"

text \<open>The turn after a write: the fields that identify it are kept.\<close>

definition ended_turn :: "turn_write \<Rightarrow> turn \<Rightarrow> turn \<Rightarrow> bool" where
  "ended_turn w x y \<longleftrightarrow>
     tn_id y = tn_id x \<and> tn_conversation y = tn_conversation x \<and> tn_client y = tn_client x \<and> tn_no y = tn_no x
     \<and> tn_status y = written_status w \<and> tn_snapshot y = Some (written_snapshot w)"

lemma upsert_focus_tables [simp]:
  "st_turns (upsert_focus c n f s) = st_turns s" "st_messages (upsert_focus c n f s) = st_messages s"
  "st_pending (upsert_focus c n f s) = st_pending s" "st_conversations (upsert_focus c n f s) = st_conversations s"
  "st_citations (upsert_focus c n f s) = st_citations s"
  by (simp_all add: upsert_focus_def Let_def)

lemma upsert_focuses_tables [simp]:
  "st_turns (fold (upsert_focus c n) fs s) = st_turns s" "st_messages (fold (upsert_focus c n) fs s) = st_messages s"
  "st_pending (fold (upsert_focus c n) fs s) = st_pending s"
  "st_conversations (fold (upsert_focus c n) fs s) = st_conversations s"
  "st_citations (fold (upsert_focus c n) fs s) = st_citations s"
  by (induction fs arbitrary: s) simp_all

lemma prune_focuses_tables [simp]:
  "st_turns (prune_focuses c s) = st_turns s" "st_messages (prune_focuses c s) = st_messages s"
  "st_pending (prune_focuses c s) = st_pending s" "st_conversations (prune_focuses c s) = st_conversations s"
  "st_citations (prune_focuses c s) = st_citations s"
  by (simp_all add: prune_focuses_def Let_def)

lemma clear_pending_tables [simp]:
  "st_turns (clear_pending c s) = st_turns s" "st_messages (clear_pending c s) = st_messages s"
  "st_focuses (clear_pending c s) = st_focuses s" "st_conversations (clear_pending c s) = st_conversations s"
  "st_citations (clear_pending c s) = st_citations s"
  by (simp_all add: clear_pending_def)

lemma upsert_pending_tables [simp]:
  "st_turns (upsert_pending p s) = st_turns s" "st_messages (upsert_pending p s) = st_messages s"
  "st_focuses (upsert_pending p s) = st_focuses s" "st_conversations (upsert_pending p s) = st_conversations s"
  "st_citations (upsert_pending p s) = st_citations s"
  by (simp_all add: upsert_pending_def)

lemma update_turn_tables [simp]:
  "st_messages (update_turn t f s) = st_messages s" "st_focuses (update_turn t f s) = st_focuses s"
  "st_conversations (update_turn t f s) = st_conversations s" "st_pending (update_turn t f s) = st_pending s"
  "st_citations (update_turn t f s) = st_citations s"
  "st_turns (update_turn t f s) = map (\<lambda>x. if tn_id x = t then f x else x) (st_turns s)"
  by (simp_all add: update_turn_def)

lemma insert_citations_Inr:
  "insert_citations m c cits s = Inr s' \<Longrightarrow>
   st_turns s' = st_turns s \<and> st_messages s' = st_messages s \<and> st_focuses s' = st_focuses s
   \<and> st_pending s' = st_pending s \<and> st_conversations s' = st_conversations s"
  by (auto simp: insert_citations_def split: if_splits)

lemma write_turn_Inr:
  assumes "write_turn c t m w s = Inr s'"
  shows "\<exists>f. st_turns s' = map (\<lambda>x. if tn_id x = t then f x else x) (st_turns s) \<and> (\<forall>x. ended_turn w x (f x))"
    and "st_conversations s' = st_conversations s"
proof -
  have "(\<exists>f. st_turns s' = map (\<lambda>x. if tn_id x = t then f x else x) (st_turns s) \<and> (\<forall>x. ended_turn w x (f x)))
      \<and> st_conversations s' = st_conversations s"
  proof (cases w)
    case (WriteClarification cw)
    let ?f = "\<lambda>x. x\<lparr>tn_status := TurnNeedsClarification, tn_resolution := Some (cw_resolution cw),
              tn_reason := cw_reason cw, tn_query := None, tn_snapshot := Some (cw_snapshot cw)\<rparr>"
    have "st_turns s' = map (\<lambda>x. if tn_id x = t then ?f x else x) (st_turns s)" "st_conversations s' = st_conversations s"
      using assms WriteClarification
      by (auto simp: write_turn_def persist_clarification_def rbind_Inr_iff insert_message_Inr)
    moreover have "ended_turn w x (?f x)" for x
      by (simp add: ended_turn_def WriteClarification written_status_def written_snapshot_def)
    ultimately show ?thesis by (intro conjI exI [of _ ?f] allI)
  next
    case (WriteAnswer aw)
    let ?f = "\<lambda>x. x\<lparr>tn_status := aw_status aw, tn_resolution := Some (aw_resolution aw),
                tn_reason := aw_reason aw, tn_query := Some (aw_query aw), tn_snapshot := Some (aw_snapshot aw)\<rparr>"
    from assms WriteAnswer obtain s1 s2 where
      1: "insert_message (assistant_message m t c (aw_kind aw) (aw_content aw) s) s = Inr s1" and
      2: "(if aw_citations aw = [] then Inr s1 else insert_citations m c (aw_citations aw) s1) = Inr s2" and
      3: "s' = update_turn t ?f (if aw_update_focus aw \<and> aw_focuses aw \<noteq> []
             then prune_focuses c (fold (upsert_focus c (aw_turn_no aw)) (aw_focuses aw) (clear_pending c s2))
             else clear_pending c s2)"
      by (simp add: write_turn_def persist_answer_def rbind_Inr_iff Let_def) blast
    from 1 have "st_turns s1 = st_turns s" "st_conversations s1 = st_conversations s"
      by (simp_all add: insert_message_Inr)
    moreover from 2 have "st_turns s2 = st_turns s1" "st_conversations s2 = st_conversations s1"
      by (cases "aw_citations aw = []"; auto dest: insert_citations_Inr)+
    ultimately have "st_turns s' = map (\<lambda>x. if tn_id x = t then ?f x else x) (st_turns s)"
        "st_conversations s' = st_conversations s"
      by (simp_all add: 3)
    moreover have "ended_turn w x (?f x)" for x
      by (simp add: ended_turn_def WriteAnswer written_status_def written_snapshot_def)
    ultimately show ?thesis by (intro conjI exI [of _ ?f] allI)
  next
    case (WriteFailure code sn)
    let ?f = "\<lambda>x. x\<lparr>tn_status := TurnFailed, tn_error := Some code, tn_snapshot := Some sn\<rparr>"
    have "st_turns s' = map (\<lambda>x. if tn_id x = t then ?f x else x) (st_turns s)" "st_conversations s' = st_conversations s"
      using assms WriteFailure by (auto simp: write_turn_def mark_turn_failed_def)
    moreover have "ended_turn w x (?f x)" for x
      by (simp add: ended_turn_def WriteFailure written_status_def written_snapshot_def)
    ultimately show ?thesis by (intro conjI exI [of _ ?f] allI)
  qed
  then show "\<exists>f. st_turns s' = map (\<lambda>x. if tn_id x = t then f x else x) (st_turns s) \<and> (\<forall>x. ended_turn w x (f x))"
    and "st_conversations s' = st_conversations s" by blast+
qed

text \<open>Every turn ends in a status that can be replayed.\<close>

lemma end_directly_status [simp]: "written_status (end_directly no r a) = TurnCompleted"
  by (simp add: end_directly_def written_status_def)

lemma end_with_clarification_status [simp]: "written_status (end_with_clarification c) = TurnNeedsClarification"
  by (simp add: end_with_clarification_def written_status_def)

lemma end_with_failure_status [simp]: "written_status (end_with_failure code msg) = TurnFailed"
  by (simp add: end_with_failure_def written_status_def)

lemma finish_answer_status:
  "finish_answer no r query ctx a = Inr w \<Longrightarrow> replayable (written_status w)"
  by (cases "answer_resolution r")
     (auto simp: finish_answer_def rbind_Inr_iff written_status_def replayable_def Let_def split: if_splits)

lemma catch_stream_errors_Inr:
  assumes "catch_stream_errors attempt k = Inr w"
  obtains (ok) x where "attempt = Inr x" and "k x = Inr w"
  | (failed) e code msg where "attempt = Inl e" and "stream_error_contract e = Some (code, msg)" and "w = end_with_failure code msg"
  using assms by (auto simp: catch_stream_errors_def split: sum.splits option.splits prod.splits)

lemma answer_standalone_status:
  "answer_standalone sv q no r query ids ectx = Inr w \<Longrightarrow> replayable (written_status w)"
  unfolding answer_standalone_def
  by (erule catch_stream_errors_Inr) (auto simp: replayable_def dest: finish_answer_status[unfolded replayable_def])

lemma answer_from_processing_status:
  "answer_from_processing sv q no r res query ids ectx = Inr w \<Longrightarrow> replayable (written_status w)"
  unfolding answer_from_processing_def rbind_Inr_iff
  by (elim exE conjE catch_stream_errors_Inr) (auto simp: replayable_def dest: finish_answer_status[unfolded replayable_def])

lemma answer_with_processor_status:
  "answer_with_processor sv pr q no r query ids ectx = Inr w \<Longrightarrow> replayable (written_status w)"
  unfolding answer_with_processor_def
  by (auto split: processor_answer.splits if_splits simp: replayable_def
      dest: answer_from_processing_status[unfolded replayable_def])

lemma answer_turn_status: "answer_turn sv q b r = Inr w \<Longrightarrow> replayable (written_status w)"
  by (auto simp: answer_turn_def rbind_Inr_iff replayable_def split: sum.splits option.splits if_splits
      dest: answer_standalone_status[unfolded replayable_def] answer_with_processor_status[unfolded replayable_def])

lemma process_turn_status:
  assumes "process_turn sv q b = Inr w"
  shows "replayable (written_status w)"
proof -
  obtain oc where oc: "resolve (sv_resolver sv) (cq_message q) (bt_context b) = Inr oc"
    using assms by (auto simp: process_turn_def rbind_Inr_iff)
  show ?thesis
  proof (cases oc)
    case Standalone
    with assms oc show ?thesis
      by (cases "greeting_response (tx_casefold (rv_language (sv_resolver sv))) (cq_message q)")
         (auto simp: process_turn_def replayable_def dest: answer_turn_status[unfolded replayable_def])
  next
    case (Resolved r)
    with assms oc have "answer_turn sv q b (Some r) = Inr w" by (simp add: process_turn_def)
    then show ?thesis by (rule answer_turn_status)
  qed (use assms oc in \<open>auto simp: process_turn_def replayable_def\<close>)
qed

subsection \<open>Locks\<close>

fun in_section :: "phase \<Rightarrow> bool" where
  "in_section Holding = True"
| "in_section Absent = True"
| "in_section (Working b) = True"
| "in_section (Releasing r) = True"
| "in_section _ = False"

text \<open>A lock is held exactly by the process that is in the section it guards.\<close>

definition lock_ok :: "(uuid \<Rightarrow> int) \<Rightarrow> machine \<Rightarrow> bool" where
  "lock_ok key m \<longleftrightarrow>
     (\<forall>k i. mc_locks m k = Some i \<longleftrightarrow>
        (\<exists>p. mc_procs m i = Some p \<and> in_section (ps_phase p) \<and> key (ps_conversation p) = k))"

lemma lock_okD:
  "lock_ok key m \<Longrightarrow> mc_procs m i = Some p \<Longrightarrow> in_section (ps_phase p) \<Longrightarrow> mc_locks m (key (ps_conversation p)) = Some i"
  by (auto simp: lock_ok_def)

lemma lock_ok_exclusive:
  assumes "lock_ok key m" and "mc_procs m i = Some p" and "in_section (ps_phase p)"
    and "mc_procs m j = Some q" and "in_section (ps_phase q)" and "ps_conversation p = ps_conversation q"
  shows "i = j"
  using lock_okD [OF assms(1,2,3)] lock_okD [OF assms(1,4,5)] assms(6) by simp

lemma go_fields [simp]:
  "mc_store (go i p ph m) = mc_store m" "mc_locks (go i p ph m) = mc_locks m"
  "mc_procs (go i p ph m) = (mc_procs m)(i \<mapsto> p\<lparr>ps_phase := ph\<rparr>)"
  by (simp_all add: go_def)

lemma unlock_fields [simp]:
  "mc_store (unlock key i p m) = mc_store m" "mc_procs (unlock key i p m) = mc_procs m"
  by (simp_all add: unlock_def)

lemma lock_ok_go:
  assumes "lock_ok key m" and "mc_procs m i = Some p" and "in_section ph = in_section (ps_phase p)"
  shows "lock_ok key (go i p ph (m\<lparr>mc_store := s\<rparr>))"
  using assms by (auto simp: lock_ok_def)

lemma lock_ok_go_same:
  assumes "lock_ok key m" and "mc_procs m i = Some p" and "in_section ph = in_section (ps_phase p)"
  shows "lock_ok key (go i p ph m)"
  using lock_ok_go [OF assms, of "mc_store m"] by simp

lemma lock_ok_unlock:
  assumes ok: "lock_ok key m" and p: "mc_procs m i = Some p" and out: "\<not> in_section ph"
  shows "lock_ok key (go i p ph (unlock key i p m))"
  unfolding lock_ok_def
proof (intro allI)
  fix k j
  let ?k = "key (ps_conversation p)" and ?m = "go i p ph (unlock key i p m)"
  have iff: "mc_locks m k = Some j \<longleftrightarrow> (\<exists>q. mc_procs m j = Some q \<and> in_section (ps_phase q) \<and> key (ps_conversation q) = k)"
    using ok by (simp add: lock_ok_def)
  have locks: "mc_locks (unlock key i p m) k = (if k = ?k \<and> mc_locks m k = Some i then None else mc_locks m k)"
    by (auto simp: unlock_def)
  have procs: "(\<exists>q. mc_procs ?m j = Some q \<and> in_section (ps_phase q) \<and> key (ps_conversation q) = k)
      \<longleftrightarrow> j \<noteq> i \<and> mc_locks m k = Some j"
    using out by (simp add: iff)
  have "mc_locks m k = Some i \<Longrightarrow> k = ?k" using ok p by (auto simp: lock_ok_def)
  then have "mc_locks ?m k = Some j \<longleftrightarrow> j \<noteq> i \<and> mc_locks m k = Some j" by (auto simp: locks)
  with procs show "mc_locks ?m k = Some j
      \<longleftrightarrow> (\<exists>q. mc_procs ?m j = Some q \<and> in_section (ps_phase q) \<and> key (ps_conversation q) = k)" by simp
qed

lemma lock_ok_acquire:
  assumes "lock_ok key m" and "mc_procs m i = Some p" and "ps_phase p = Polling"
    and "mc_locks m (key (ps_conversation p)) = None"
  shows "lock_ok key (go i p Holding (m\<lparr>mc_locks := (mc_locks m)(key (ps_conversation p) \<mapsto> i)\<rparr>))"
proof -
  have "key (ps_conversation q) \<noteq> key (ps_conversation p)" if "mc_procs m j = Some q" "in_section (ps_phase q)" for j q
    using lock_okD [OF assms(1) that] assms(4) by auto
  then show ?thesis using assms by (auto simp: lock_ok_def)
qed

lemma in_section_precheck [simp]: "\<not> in_section (after_precheck s p)"
  by (auto simp: after_precheck_def split: sum.splits option.splits)

lemma in_section_recheck [simp]: "in_section (after_recheck s p)"
  by (auto simp: after_recheck_def split: option.splits)

lemma lock_ok_step: "step key m m' \<Longrightarrow> lock_ok key m \<Longrightarrow> lock_ok key m'"
proof (induction rule: step.induct)
  case (arrive m i ow q)
  then show ?case by (auto simp: lock_ok_def)
next
  case (acquire m i p)
  then show ?case by (intro lock_ok_acquire)
next
  case (release m i p r)
  then show ?case by (intro lock_ok_unlock) simp_all
next
  case (crash m i p)
  then show ?case by (intro lock_ok_unlock) simp_all
qed (simp_all add: lock_ok_go lock_ok_go_same, simp_all add: lock_ok_def)

lemma lock_ok_reachable: "reachable key m \<Longrightarrow> lock_ok key m"
proof (induction rule: reachable.induct)
  case start
  show ?case by (simp add: lock_ok_def initial_machine_def)
next
  case (next_state m m')
  then show ?case by (blast intro: lock_ok_step)
qed

subsection \<open>Phases\<close>

definition turn_for :: "store \<Rightarrow> uuid \<Rightarrow> uuid \<Rightarrow> turn \<Rightarrow> bool" where
  "turn_for s c client t \<longleftrightarrow> t \<in> set (st_turns s) \<and> tn_conversation t = c \<and> tn_client t = client"

lemma find_turn_None: "find_turn s c client = None \<longleftrightarrow> (\<forall>t. \<not> turn_for s c client t)"
  by (auto simp: find_turn_def find_None_iff turn_for_def)

lemma find_turn_Some: "find_turn s c client = Some t \<Longrightarrow> turn_for s c client t"
  by (auto simp: find_turn_def find_Some_iff turn_for_def)

text \<open>A snapshot that was returned is the one of the turn, or says that the turn is being processed.\<close>

definition answered :: "store \<Rightarrow> uuid \<Rightarrow> uuid \<Rightarrow> snapshot \<Rightarrow> bool" where
  "answered s c client sn \<longleftrightarrow>
     sn = processing_snapshot processing_retry_after
     \<or> (\<exists>t. turn_for s c client t \<and> tn_status t \<noteq> TurnProcessing \<and> tn_snapshot t = Some sn)"

definition result_ok :: "store \<Rightarrow> uuid \<Rightarrow> uuid \<Rightarrow> raised + snapshot \<Rightarrow> bool" where
  "result_ok s c client r \<longleftrightarrow> (\<forall>sn. r = Inr sn \<longrightarrow> answered s c client sn)"

fun phase_ok :: "store \<Rightarrow> uuid \<Rightarrow> uuid \<Rightarrow> phase \<Rightarrow> bool" where
  "phase_ok s c client Absent = (\<forall>t. \<not> turn_for s c client t)"
| "phase_ok s c client (Working b) = (\<exists>t. turn_for s c client t \<and> tn_id t = bt_turn b \<and> tn_status t = TurnProcessing)"
| "phase_ok s c client (Releasing r) = result_ok s c client r"
| "phase_ok s c client (Finished r) = result_ok s c client r"
| "phase_ok s c client _ = True"

definition turns_ok :: "store \<Rightarrow> bool" where
  "turns_ok s \<longleftrightarrow>
     distinct (map tn_id (st_turns s)) \<and> distinct (map (\<lambda>t. (tn_conversation t, tn_client t)) (st_turns s))
     \<and> (\<forall>t \<in> set (st_turns s). tn_status t = TurnProcessing \<longleftrightarrow> tn_snapshot t = None)"

definition machine_ok :: "(uuid \<Rightarrow> int) \<Rightarrow> machine \<Rightarrow> bool" where
  "machine_ok key m \<longleftrightarrow>
     lock_ok key m \<and> turns_ok (mc_store m)
     \<and> (\<forall>i p. mc_procs m i = Some p \<longrightarrow> phase_ok (mc_store m) (ps_conversation p) (ps_client p) (ps_phase p))"

lemma turn_for_unique: "turns_ok s \<Longrightarrow> turn_for s c client t \<Longrightarrow> turn_for s c client t' \<Longrightarrow> t = t'"
  by (auto simp: turns_ok_def turn_for_def distinct_map inj_on_def)

lemma turn_id_unique: "turns_ok s \<Longrightarrow> t \<in> set (st_turns s) \<Longrightarrow> t' \<in> set (st_turns s) \<Longrightarrow> tn_id t = tn_id t' \<Longrightarrow> t = t'"
  by (auto simp: turns_ok_def distinct_map inj_on_def)

lemma replay_result_ok: "turn_for s c client t \<Longrightarrow> result_ok s c client (replay_snapshot t)"
  by (auto simp: result_ok_def answered_def replay_snapshot_def split: if_splits option.splits)

lemma phase_ok_precheck: "phase_ok s (ps_conversation p) (ps_client p) (after_precheck s p)"
  by (auto simp: after_precheck_def find_owned_turn_def rbind_Inr_iff result_ok_def
      split: sum.splits option.splits dest!: find_turn_Some replay_result_ok)

lemma phase_ok_recheck: "phase_ok s (ps_conversation p) (ps_client p) (after_recheck s p)"
  by (auto simp: after_recheck_def find_turn_None [symmetric] split: option.splits
      dest!: find_turn_Some replay_result_ok)

lemma phase_ok_same_turns:
  "st_turns s' = st_turns s \<Longrightarrow> phase_ok s' c client ph = phase_ok s c client ph"
  by (cases ph) (simp_all add: turn_for_def result_ok_def answered_def)

lemma turns_ok_same_turns: "st_turns s' = st_turns s \<Longrightarrow> turns_ok s' = turns_ok s"
  by (simp add: turns_ok_def)

text \<open>Opening a turn.\<close>

lemma turn_for_append:
  "st_turns s' = st_turns s @ [processing_turn t c client no] \<Longrightarrow>
   turn_for s' d d_client x \<longleftrightarrow>
     turn_for s d d_client x \<or> x = processing_turn t c client no \<and> d = c \<and> d_client = client"
  by (auto simp: turn_for_def processing_turn_def)

lemma phase_ok_open:
  assumes s': "st_turns s' = st_turns s @ [processing_turn t c client no]" and ok: "phase_ok s d d_client ph"
    and absent: "ph = Absent \<Longrightarrow> \<not> (d = c \<and> d_client = client)"
  shows "phase_ok s' d d_client ph"
proof -
  have "answered s' d d_client sn" if "answered s d d_client sn" for sn
    using that by (auto simp: answered_def turn_for_append [OF s'])
  then show ?thesis using ok absent
    by (cases ph) (auto simp: turn_for_append [OF s'] result_ok_def)
qed

lemma turns_ok_open:
  assumes "begin_turn c ow client message t m now s = Inr (s', b)" and "turns_ok s"
  shows "turns_ok s'"
  using assms(2) begin_turn_Inr(4,5) [OF assms(1)]
  by (auto simp: turns_ok_def processing_turn_def)

text \<open>Ending a turn.\<close>

lemma phase_ok_end:
  assumes s': "st_turns s' = map (\<lambda>x. if tn_id x = tn_id t then f x else x) (st_turns s)"
    and f: "\<And>x. ended_turn w x (f x)" and ok: "phase_ok s d d_client ph" and turns: "turns_ok s"
    and t: "t \<in> set (st_turns s)" "tn_status t = TurnProcessing"
    and other: "\<And>b. ph = Working b \<Longrightarrow> bt_turn b \<noteq> tn_id t"
  shows "phase_ok s' d d_client ph"
proof -
  have absent: "\<not> turn_for s' d d_client x" if "\<forall>y. \<not> turn_for s d d_client y" for x
    using that f by (auto simp: turn_for_def s' ended_turn_def split: if_splits)
  have keep: "turn_for s' d d_client x" if "turn_for s d d_client x" "tn_id x \<noteq> tn_id t" for x
    using that by (force simp: turn_for_def s')
  have "answered s' d d_client sn" if a: "answered s d d_client sn" for sn
  proof -
    have "tn_id x \<noteq> tn_id t" if "turn_for s d d_client x" "tn_status x \<noteq> TurnProcessing" for x
      using that turn_id_unique [OF turns _ t(1)] t(2) by (auto simp: turn_for_def)
    with a keep show ?thesis by (auto simp: answered_def)
  qed
  moreover have "\<exists>x. turn_for s' d d_client x \<and> tn_id x = bt_turn b \<and> tn_status x = TurnProcessing" if "ph = Working b" for b
    using ok that keep other [OF that] by auto metis
  ultimately show ?thesis using ok absent by (cases ph) (auto simp: result_ok_def)
qed

lemma ended_answered:
  assumes s': "st_turns s' = map (\<lambda>x. if tn_id x = tn_id t then f x else x) (st_turns s)"
    and f: "\<And>x. ended_turn w x (f x)" and t: "turn_for s c client t" and w: "replayable (written_status w)"
  shows "result_ok s' c client (Inr (written_snapshot w))"
proof -
  have "turn_for s' c client (f t)" using t f [of t] by (auto simp: turn_for_def s' ended_turn_def)
  moreover have "tn_status (f t) \<noteq> TurnProcessing" "tn_snapshot (f t) = Some (written_snapshot w)"
    using f [of t] w by (auto simp: ended_turn_def replayable_def)
  ultimately show ?thesis by (auto simp: result_ok_def answered_def)
qed

lemma turns_ok_end:
  assumes s': "st_turns s' = map (\<lambda>x. if tn_id x = t then f x else x) (st_turns s)"
    and f: "\<And>x. ended_turn w x (f x)" and ok: "turns_ok s" and w: "replayable (written_status w)"
  shows "turns_ok s'"
proof -
  have "map tn_id (st_turns s') = map tn_id (st_turns s)"
    and "map (\<lambda>t. (tn_conversation t, tn_client t)) (st_turns s') = map (\<lambda>t. (tn_conversation t, tn_client t)) (st_turns s)"
    using f by (auto simp: s' ended_turn_def)
  moreover have "tn_status x = TurnProcessing \<longleftrightarrow> tn_snapshot x = None" if x: "x \<in> set (st_turns s')" for x
  proof -
    from x obtain y where "y \<in> set (st_turns s)" and "x = (if tn_id y = t then f y else y)" by (auto simp: s')
    with ok f [of y] w show ?thesis by (auto simp: turns_ok_def ended_turn_def replayable_def)
  qed
  ultimately show ?thesis using ok by (simp add: turns_ok_def del: map_map)
qed

subsection \<open>Every step keeps the invariant\<close>

lemma machine_okD:
  assumes "machine_ok key m"
  shows "lock_ok key m" and "turns_ok (mc_store m)"
    and "mc_procs m i = Some p \<Longrightarrow> phase_ok (mc_store m) (ps_conversation p) (ps_client p) (ps_phase p)"
  using assms by (simp_all add: machine_ok_def)

lemma machine_okI:
  assumes "lock_ok key m'" and "turns_ok (mc_store m')"
    and "\<And>j q. mc_procs m' j = Some q \<Longrightarrow> phase_ok (mc_store m') (ps_conversation q) (ps_client q) (ps_phase q)"
  shows "machine_ok key m'"
  using assms by (simp add: machine_ok_def)

text \<open>A step of one process that leaves the turns alone.\<close>

lemma machine_ok_go:
  assumes ok: "machine_ok key m" and locks: "lock_ok key m'" and turns: "st_turns (mc_store m') = st_turns (mc_store m)"
    and procs: "mc_procs m' = (mc_procs m)(i \<mapsto> p\<lparr>ps_phase := ph\<rparr>)"
    and ph: "phase_ok (mc_store m) (ps_conversation p) (ps_client p) ph"
  shows "machine_ok key m'"
proof (rule machine_okI)
  show "turns_ok (mc_store m')" using machine_okD(2) [OF ok] by (simp add: turns_ok_same_turns [OF turns])
  show "phase_ok (mc_store m') (ps_conversation q) (ps_client q) (ps_phase q)" if "mc_procs m' j = Some q" for j q
  proof (cases "j = i")
    case True
    with that procs have "q = p\<lparr>ps_phase := ph\<rparr>" by simp
    with ph show ?thesis by (simp add: phase_ok_same_turns [OF turns])
  next
    case False
    with that procs have "mc_procs m j = Some q" by simp
    from machine_okD(3) [OF ok this] show ?thesis by (simp only: phase_ok_same_turns [OF turns])
  qed
qed (rule locks)

lemma machine_ok_store:
  assumes ok: "machine_ok key m" and turns: "st_turns s = st_turns (mc_store m)"
  shows "machine_ok key (m\<lparr>mc_store := s\<rparr>)"
proof (rule machine_okI)
  show "lock_ok key (m\<lparr>mc_store := s\<rparr>)" using machine_okD(1) [OF ok] by (simp add: lock_ok_def)
  show "turns_ok (mc_store (m\<lparr>mc_store := s\<rparr>))" using machine_okD(2) [OF ok] by (simp add: turns_ok_same_turns [OF turns])
  show "phase_ok (mc_store (m\<lparr>mc_store := s\<rparr>)) (ps_conversation q) (ps_client q) (ps_phase q)"
    if "mc_procs (m\<lparr>mc_store := s\<rparr>) j = Some q" for j q
  proof -
    from that have "mc_procs m j = Some q" by simp
    from machine_okD(3) [OF ok this] show ?thesis by (simp add: phase_ok_same_turns [OF turns])
  qed
qed

lemma machine_ok_opened:
  assumes ok: "machine_ok key m" and p: "mc_procs m i = Some p" and absent: "ps_phase p = Absent"
    and opened: "open_turn p t u now (mc_store m) = Inr (s, b)"
  shows "machine_ok key (go i p (Working b) (m\<lparr>mc_store := s\<rparr>))"
proof (rule machine_okI)
  let ?c = "ps_conversation p" and ?client = "ps_client p"
  note b = opened [unfolded open_turn_def]
  note turns = begin_turn_Inr(4) [OF b]
  show "lock_ok key (go i p (Working b) (m\<lparr>mc_store := s\<rparr>))"
    using machine_okD(1) [OF ok] p by (rule lock_ok_go) (simp add: absent)
  show "turns_ok (mc_store (go i p (Working b) (m\<lparr>mc_store := s\<rparr>)))"
    using turns_ok_open [OF b machine_okD(2) [OF ok]] by simp
  fix j q assume q: "mc_procs (go i p (Working b) (m\<lparr>mc_store := s\<rparr>)) j = Some q"
  show "phase_ok (mc_store (go i p (Working b) (m\<lparr>mc_store := s\<rparr>))) (ps_conversation q) (ps_client q) (ps_phase q)"
  proof (cases "j = i")
    case True
    with q have "q = p\<lparr>ps_phase := Working b\<rparr>" by simp
    moreover have "turn_for s ?c ?client (processing_turn t ?c ?client (next_turn (mc_store m) ?c))"
      by (simp add: turn_for_append [OF turns])
    moreover have "tn_id (processing_turn t ?c ?client n) = bt_turn b"
        "tn_status (processing_turn t ?c ?client n) = TurnProcessing" for n
      using begin_turn_Inr(1) [OF b] by (simp_all add: processing_turn_def)
    ultimately show ?thesis by auto
  next
    case False
    with q have q': "mc_procs m j = Some q" by simp
    have "\<not> (ps_conversation q = ?c \<and> ps_client q = ?client)" if "ps_phase q = Absent"
      using lock_ok_exclusive [OF machine_okD(1) [OF ok] p _ q'] that absent False by auto
    then have "phase_ok s (ps_conversation q) (ps_client q) (ps_phase q)"
      by (intro phase_ok_open [OF turns machine_okD(3) [OF ok q']])
    then show ?thesis by simp
  qed
qed

lemma machine_ok_finished:
  assumes ok: "machine_ok key m" and p: "mc_procs m i = Some p" and work: "ps_phase p = Working b"
    and w: "process_turn sv (ps_request p) b = Inr w"
    and wr: "write_turn (ps_conversation p) (bt_turn b) u w (mc_store m) = Inr s"
  shows "machine_ok key (go i p (Releasing (Inr (written_snapshot w))) (m\<lparr>mc_store := s\<rparr>))"
proof (rule machine_okI)
  let ?c = "ps_conversation p" and ?client = "ps_client p"
  from machine_okD(3) [OF ok p] work obtain t where t: "turn_for (mc_store m) ?c ?client t" "tn_id t = bt_turn b"
    "tn_status t = TurnProcessing" by auto
  from write_turn_Inr(1) [OF wr] obtain f where
    s: "st_turns s = map (\<lambda>x. if tn_id x = bt_turn b then f x else x) (st_turns (mc_store m))"
    and f: "\<And>x. ended_turn w x (f x)" by blast
  note st = s [folded t(2)]
  note status = process_turn_status [OF w]
  show "lock_ok key (go i p (Releasing (Inr (written_snapshot w))) (m\<lparr>mc_store := s\<rparr>))"
    using machine_okD(1) [OF ok] p by (rule lock_ok_go) (simp add: work)
  show "turns_ok (mc_store (go i p (Releasing (Inr (written_snapshot w))) (m\<lparr>mc_store := s\<rparr>)))"
    using turns_ok_end [OF s f machine_okD(2) [OF ok] status] by simp
  fix j q assume q: "mc_procs (go i p (Releasing (Inr (written_snapshot w))) (m\<lparr>mc_store := s\<rparr>)) j = Some q"
  show "phase_ok (mc_store (go i p (Releasing (Inr (written_snapshot w))) (m\<lparr>mc_store := s\<rparr>)))
          (ps_conversation q) (ps_client q) (ps_phase q)"
  proof (cases "j = i")
    case True
    with q ended_answered [OF st f t(1) status] show ?thesis by auto
  next
    case False
    with q have q': "mc_procs m j = Some q" by simp
    have "bt_turn b' \<noteq> tn_id t" if wb: "ps_phase q = Working b'" for b'
    proof
      assume "bt_turn b' = tn_id t"
      with machine_okD(3) [OF ok q'] wb obtain t' where "turn_for (mc_store m) (ps_conversation q) (ps_client q) t'"
        "tn_id t' = tn_id t" by auto
      with turn_id_unique [OF machine_okD(2) [OF ok], of t' t] t(1) have "ps_conversation p = ps_conversation q"
        by (auto simp: turn_for_def)
      with lock_ok_exclusive [OF machine_okD(1) [OF ok] p _ q'] wb work False show False by simp
    qed
    with phase_ok_end [OF st f machine_okD(3) [OF ok q'] machine_okD(2) [OF ok] _ t(3)] t(1)
    show ?thesis by (simp add: turn_for_def)
  qed
qed

lemma patch_title_turns [simp]: "st_turns (fst (patch_title c ow title now s)) = st_turns s"
  by (simp add: patch_title_def touch_owned_def)

lemma delete_conversation_turns [simp]: "st_turns (fst (delete_conversation c ow now s)) = st_turns s"
  by (simp add: delete_conversation_def touch_owned_def)

lemma claim_guest_turns [simp]: "st_turns (fst (claim_guest a u now s)) = st_turns s"
  by (simp add: claim_guest_def Let_def)

lemma generate_title_turns [simp]: "st_turns (fst (generate_title c ow now s)) = st_turns s"
  by (simp add: generate_title_def update_conversation_def Let_def split: list.splits)

lemma machine_ok_step: "step key m m' \<Longrightarrow> machine_ok key m \<Longrightarrow> machine_ok key m'"
proof (induction rule: step.induct)
  case (arrive m i ow q)
  note lock = lock_ok_step [OF step.arrive [OF arrive(1)] machine_okD(1) [OF arrive(2)]]
  show ?case
    by (rule machine_ok_go [OF arrive(2) lock, where i = i and p = "\<lparr>ps_owner = ow, ps_request = q, ps_phase = AtEntry\<rparr>" and ph = AtEntry]) simp_all
next
  case (precheck m i p)
  note lock = lock_ok_step [OF step.precheck [OF precheck(1,2)] machine_okD(1) [OF precheck(3)]]
  show ?case by (rule machine_ok_go [OF precheck(3) lock _ _ phase_ok_precheck, where i = i]) simp_all
next
  case (acquire m i p)
  note lock = lock_ok_step [OF step.acquire [where key = key and m = m and i = i and p = p, OF acquire(1-3)] machine_okD(1) [OF acquire(4)]]
  show ?case by (rule machine_ok_go [OF acquire(4) lock, where i = i and p = p and ph = Holding]) simp_all
next
  case (give_up m i p)
  note lock = lock_ok_step [OF step.give_up [where key = key and m = m and i = i and p = p, OF give_up(1-3)] machine_okD(1) [OF give_up(4)]]
  show ?case by (rule machine_ok_go [OF give_up(4) lock, where i = i and p = p and ph = "Finished (Inl (RaisedStore ConversationBusy))"]) (simp_all add: result_ok_def)
next
  case (recheck m i p)
  note lock = lock_ok_step [OF step.recheck [OF recheck(1,2)] machine_okD(1) [OF recheck(3)]]
  show ?case by (rule machine_ok_go [OF recheck(3) lock _ _ phase_ok_recheck, where i = i]) simp_all
next
  case (opened m i p t u now s b)
  then show ?case by (intro machine_ok_opened)
next
  case (open_fails m i p t u now e)
  note lock = lock_ok_step [OF step.open_fails [OF open_fails(1-3)] machine_okD(1) [OF open_fails(4)]]
  show ?case by (rule machine_ok_go [OF open_fails(4) lock, where i = i and p = p and ph = "Releasing (Inl (RaisedStore e))"]) (simp_all add: result_ok_def)
next
  case (finish m i p b sv w u s)
  then show ?case by (intro machine_ok_finished)
next
  case (write_fails m i p b sv w u e)
  note lock = lock_ok_step [OF step.write_fails [OF write_fails(1-4)] machine_okD(1) [OF write_fails(5)]]
  show ?case by (rule machine_ok_go [OF write_fails(5) lock, where i = i and p = p and ph = "Releasing (Inl (RaisedStore e))"]) (simp_all add: result_ok_def)
next
  case (process_fails m i p b sv e)
  note lock = lock_ok_step [OF step.process_fails [OF process_fails(1-3)] machine_okD(1) [OF process_fails(4)]]
  show ?case by (rule machine_ok_go [OF process_fails(4) lock, where i = i and p = p and ph = "Releasing (Inl e)"]) (simp_all add: result_ok_def)
next
  case (release m i p r)
  note lock = lock_ok_step [OF step.release [OF release(1,2)] machine_okD(1) [OF release(3)]]
  have "phase_ok (mc_store m) (ps_conversation p) (ps_client p) (Finished r)"
    using machine_okD(3) [OF release(3,1)] release(2) by simp
  then show ?case by (intro machine_ok_go [OF release(3) lock, where i = i and p = p and ph = "Finished r"]) simp_all
next
  case (crash m i p)
  note lock = lock_ok_step [OF step.crash [OF crash(1,2)] machine_okD(1) [OF crash(3)]]
  show ?case by (rule machine_ok_go [OF crash(3) lock, where i = i and p = p and ph = Crashed]) simp_all
qed (rule machine_ok_store; simp)+

lemma machine_ok_reachable: "reachable key m \<Longrightarrow> machine_ok key m"
proof (induction rule: reachable.induct)
  case start
  show ?case
    by (simp add: machine_ok_def lock_ok_def turns_ok_def initial_machine_def empty_store_def)
next
  case (next_state m m')
  then show ?case by (blast intro: machine_ok_step)
qed

end
