(* ===== verification/Conversation_Numbers.thy ===== *)
theory Conversation_Numbers
  imports Conversation_Invariants
begin

text \<open>
  The tables of a reachable store: the turns of a conversation are numbered without gaps and so are its messages,
  and a conversation has at most five focuses, on different nodes.
\<close>

definition numbers_ok :: "store \<Rightarrow> bool" where
  "numbers_ok s \<longleftrightarrow>
     (\<forall>c. 1 \<le> next_turn s c)
     \<and> (\<forall>c. tn_no ` {t \<in> set (st_turns s). tn_conversation t = c} = {1..<next_turn s c})
     \<and> distinct (map (\<lambda>t. (tn_conversation t, tn_no t)) (st_turns s))
     \<and> (\<forall>c. mg_ordinal ` {g \<in> set (st_messages s). mg_conversation g = c} = {1..<next_ordinal s c})
     \<and> distinct (map (\<lambda>g. (mg_conversation g, mg_ordinal g)) (st_messages s))"

definition conversation_focuses :: "store \<Rightarrow> uuid \<Rightarrow> focus_row list" where
  "conversation_focuses s c = filter (\<lambda>f. fr_conversation f = c) (st_focuses s)"

definition focus_node :: "focus_row \<Rightarrow> str" where
  "focus_node f = fu_node_id (fr_focus f)"

definition focuses_ok :: "store \<Rightarrow> bool" where
  "focuses_ok s \<longleftrightarrow>
     (\<forall>c. distinct (map focus_node (conversation_focuses s c)) \<and> length (conversation_focuses s c) \<le> max_focuses)"

subsection \<open>Messages\<close>

lemma next_ordinal_messages: "st_messages s' = st_messages s \<Longrightarrow> next_ordinal s' c = next_ordinal s c"
  by (simp add: next_ordinal_def)

lemma next_ordinal_append:
  assumes "st_messages s' = st_messages s @ [g]" and "mg_ordinal g = next_ordinal s (mg_conversation g)"
  shows "next_ordinal s' c = (if c = mg_conversation g then Suc (next_ordinal s c) else next_ordinal s c)"
proof (cases "c = mg_conversation g")
  case True
  let ?O = "insert 0 (mg_ordinal ` set (filter (\<lambda>m. mg_conversation m = c) (st_messages s)))"
  have "insert 0 (mg_ordinal ` set (filter (\<lambda>m. mg_conversation m = c) (st_messages s'))) = insert (Max ?O + 1) ?O"
    using assms True by (auto simp: next_ordinal_def)
  then have "next_ordinal s' c = max (Max ?O + 1) (Max ?O) + 1" by (simp add: next_ordinal_def del: Max_insert)
      (subst Max_insert, auto)
  then show ?thesis using True by (simp add: next_ordinal_def)
next
  case False
  then show ?thesis using assms by (simp add: next_ordinal_def)
qed

text \<open>A message appended with the next ordinal.\<close>

lemma messages_numbered_append:
  assumes ok: "\<forall>c. mg_ordinal ` {g \<in> set (st_messages s). mg_conversation g = c} = {1..<next_ordinal s c}"
    and dist: "distinct (map (\<lambda>g. (mg_conversation g, mg_ordinal g)) (st_messages s))"
    and s': "st_messages s' = st_messages s @ [g]" and g: "mg_ordinal g = next_ordinal s (mg_conversation g)"
  shows "mg_ordinal ` {g \<in> set (st_messages s'). mg_conversation g = c} = {1..<next_ordinal s' c}"
    and "distinct (map (\<lambda>g. (mg_conversation g, mg_ordinal g)) (st_messages s'))"
proof -
  have pos: "1 \<le> next_ordinal s c" by (simp add: next_ordinal_def)
  have "{x \<in> set (st_messages s'). mg_conversation x = c}
      = (if mg_conversation g = c then insert g {x \<in> set (st_messages s). mg_conversation x = c}
         else {x \<in> set (st_messages s). mg_conversation x = c})"
    by (auto simp: s')
  then show "mg_ordinal ` {g \<in> set (st_messages s'). mg_conversation g = c} = {1..<next_ordinal s' c}"
    using ok g pos by (auto simp: next_ordinal_append [OF s' g] atLeastLessThanSuc)
  have "(mg_conversation g, mg_ordinal g) \<notin> (\<lambda>g. (mg_conversation g, mg_ordinal g)) ` set (st_messages s)"
  proof
    assume "(mg_conversation g, mg_ordinal g) \<in> (\<lambda>g. (mg_conversation g, mg_ordinal g)) ` set (st_messages s)"
    then have "mg_ordinal g \<in> mg_ordinal ` {x \<in> set (st_messages s). mg_conversation x = mg_conversation g}" by auto
    with ok g show False by simp
  qed
  with dist show "distinct (map (\<lambda>g. (mg_conversation g, mg_ordinal g)) (st_messages s'))" by (simp add: s')
qed

lemma write_turn_messages:
  assumes "write_turn c t m w s = Inr s'"
  shows "st_messages s' = st_messages s
      \<or> (\<exists>g. st_messages s' = st_messages s @ [g] \<and> mg_conversation g = c \<and> mg_ordinal g = next_ordinal s c)"
proof (cases w)
  case (WriteClarification cw)
  with assms show ?thesis
    by (auto simp: write_turn_def persist_clarification_def rbind_Inr_iff insert_message_Inr assistant_message_def)
next
  case (WriteAnswer aw)
  from assms WriteAnswer obtain s1 s2 f where
    1: "insert_message (assistant_message m t c (aw_kind aw) (aw_content aw) s) s = Inr s1" and
    2: "(if aw_citations aw = [] then Inr s1 else insert_citations m c (aw_citations aw) s1) = Inr s2" and
    3: "s' = update_turn t f (if aw_update_focus aw \<and> aw_focuses aw \<noteq> []
           then prune_focuses c (fold (upsert_focus c (aw_turn_no aw)) (aw_focuses aw) (clear_pending c s2))
           else clear_pending c s2)"
    by (simp add: write_turn_def persist_answer_def rbind_Inr_iff Let_def) blast
  from 1 have "st_messages s1 = st_messages s @ [assistant_message m t c (aw_kind aw) (aw_content aw) s]"
    by (simp add: insert_message_Inr)
  moreover from 2 have "st_messages s2 = st_messages s1"
    by (cases "aw_citations aw = []") (auto dest: insert_citations_Inr)
  ultimately show ?thesis by (simp add: 3 assistant_message_def)
next
  case (WriteFailure code sn)
  with assms show ?thesis by (auto simp: write_turn_def mark_turn_failed_def)
qed

subsection \<open>Numbers\<close>

lemma next_turn_map:
  assumes "st_conversations s' = map g (st_conversations s)"
    and "\<And>v. cv_id (g v) = cv_id v \<and> cv_next_turn (g v) = cv_next_turn v"
  shows "next_turn s' c = next_turn s c"
proof -
  have "find (\<lambda>v. cv_id v = c) (map g vs) = map_option g (find (\<lambda>v. cv_id v = c) vs)" for vs
    using assms(2) by (induction vs) auto
  then show ?thesis using assms by (simp add: next_turn_def find_conversation_def option.case_eq_if option.map_sel)
qed

lemma numbers_ok_begin:
  assumes b: "begin_turn c ow client message t m now s = Inr (s', b)" and ok: "numbers_ok s"
  shows "numbers_ok s'"
proof -
  note n = begin_turn_Inr [OF b]
  have pos: "1 \<le> next_turn s c" using ok by (simp add: numbers_ok_def)
  have turns: "tn_no ` {x \<in> set (st_turns s'). tn_conversation x = d} = {1..<next_turn s' d}" for d
  proof -
    have "{x \<in> set (st_turns s'). tn_conversation x = d}
        = (if d = c then insert (processing_turn t c client (next_turn s c)) {x \<in> set (st_turns s). tn_conversation x = d}
           else {x \<in> set (st_turns s). tn_conversation x = d})"
      by (auto simp: n(4) processing_turn_def)
    then show ?thesis
      using ok pos by (auto simp: numbers_ok_def n(10) processing_turn_def atLeastLessThanSuc)
  qed
  have "distinct (map (\<lambda>t. (tn_conversation t, tn_no t)) (st_turns s'))"
    using ok n(5) by (auto simp: numbers_ok_def n(4) processing_turn_def)
  moreover have "1 \<le> next_turn s' d" for d using ok by (simp add: numbers_ok_def n(10))
  moreover have "mg_ordinal (user_message m t c message s) = next_ordinal s (mg_conversation (user_message m t c message s))"
    by (simp add: user_message_def)
  ultimately show ?thesis
    using turns messages_numbered_append [OF _ _ n(6)] ok by (simp add: numbers_ok_def)
qed

lemma numbered_image:
  assumes "(\<lambda>t. (f t, g t)) ` A = (\<lambda>t. (f t, g t)) ` B"
  shows "g ` {x \<in> A. f x = d} = g ` {x \<in> B. f x = d}"
proof -
  have "g ` {x \<in> X. f x = d} = snd ` {y \<in> (\<lambda>t. (f t, g t)) ` X. fst y = d}" for X
    by (auto simp: image_iff)
  then show ?thesis using assms by simp
qed

lemma numbers_ok_write:
  assumes w: "write_turn c t m w s = Inr s'" and ok: "numbers_ok s"
  shows "numbers_ok s'"
proof -
  from write_turn_Inr(1) [OF w] obtain f where f: "st_turns s' = map (\<lambda>x. if tn_id x = t then f x else x) (st_turns s)"
    "\<And>x. ended_turn w x (f x)" by blast
  have "map (\<lambda>t. (tn_conversation t, tn_no t)) (st_turns s') = map (\<lambda>t. (tn_conversation t, tn_no t)) (st_turns s)"
    using f(2) by (auto simp: f(1) ended_turn_def)
  moreover from this have "(\<lambda>t. (tn_conversation t, tn_no t)) ` set (st_turns s')
      = (\<lambda>t. (tn_conversation t, tn_no t)) ` set (st_turns s)" by (metis set_map)
  then have "tn_no ` {x \<in> set (st_turns s'). tn_conversation x = d} = tn_no ` {x \<in> set (st_turns s). tn_conversation x = d}" for d
    by (rule numbered_image)
  moreover have "next_turn s' d = next_turn s d" for d
    using write_turn_Inr(2) [OF w] by (rule next_turn_conversations)
  moreover have "(\<forall>c. mg_ordinal ` {g \<in> set (st_messages s'). mg_conversation g = c} = {1..<next_ordinal s' c})
      \<and> distinct (map (\<lambda>g. (mg_conversation g, mg_ordinal g)) (st_messages s'))"
    using write_turn_messages [OF w]
  proof
    assume "st_messages s' = st_messages s"
    with ok next_ordinal_messages [OF this] show ?thesis by (simp add: numbers_ok_def)
  next
    assume "\<exists>g. st_messages s' = st_messages s @ [g] \<and> mg_conversation g = c \<and> mg_ordinal g = next_ordinal s c"
    then obtain g where g: "st_messages s' = st_messages s @ [g]" "mg_ordinal g = next_ordinal s (mg_conversation g)" by auto
    from ok have "\<forall>c. mg_ordinal ` {g \<in> set (st_messages s). mg_conversation g = c} = {1..<next_ordinal s c}"
      "distinct (map (\<lambda>g. (mg_conversation g, mg_ordinal g)) (st_messages s))" unfolding numbers_ok_def by blast+
    from messages_numbered_append [OF this g] show ?thesis by blast
  qed
  ultimately show ?thesis using ok by (simp add: numbers_ok_def)
qed

lemma numbers_ok_same:
  assumes "st_turns s' = st_turns s" and "st_messages s' = st_messages s" and "\<And>c. next_turn s' c = next_turn s c"
  shows "numbers_ok s' = numbers_ok s"
  using assms by (simp add: numbers_ok_def next_ordinal_messages [OF assms(2)])

subsection \<open>Focuses\<close>

lemma conversation_focuses_upsert:
  "conversation_focuses (upsert_focus c n f s) d =
     (let row = \<lparr>fr_conversation = c, fr_focus = f, fr_last_turn = n\<rparr> in
      if d \<noteq> c then conversation_focuses s d
      else if fu_node_id f \<in> focus_node ` set (conversation_focuses s c)
      then map (\<lambda>x. if focus_node x = fu_node_id f then row else x) (conversation_focuses s c)
      else conversation_focuses s c @ [row])"
proof -
  let ?row = "\<lparr>fr_conversation = c, fr_focus = f, fr_last_turn = n\<rparr>"
  let ?same = "\<lambda>x. fr_conversation x = c \<and> fu_node_id (fr_focus x) = fu_node_id f"
  have other: "d \<noteq> c \<Longrightarrow> filter (\<lambda>x. fr_conversation x = d) (map (\<lambda>x. if ?same x then ?row else x) xs)
      = filter (\<lambda>x. fr_conversation x = d) xs" for xs
    by (induction xs) auto
  have own: "filter (\<lambda>x. fr_conversation x = c) (map (\<lambda>x. if ?same x then ?row else x) xs)
      = map (\<lambda>x. if focus_node x = fu_node_id f then ?row else x) (filter (\<lambda>x. fr_conversation x = c) xs)" for xs
    by (induction xs) (auto simp: focus_node_def)
  have ex: "list_ex ?same (st_focuses s) \<longleftrightarrow> fu_node_id f \<in> focus_node ` set (conversation_focuses s c)"
    unfolding list_ex_iff conversation_focuses_def focus_node_def image_iff by auto
  show ?thesis
  proof (cases "list_ex ?same (st_focuses s)")
    case True
    then have "conversation_focuses (upsert_focus c n f s) d
        = filter (\<lambda>x. fr_conversation x = d) (map (\<lambda>x. if ?same x then ?row else x) (st_focuses s))"
      by (simp add: conversation_focuses_def upsert_focus_def Let_def)
    then show ?thesis using ex True other [of "st_focuses s"] own [of "st_focuses s"]
      by (cases "d = c") (simp_all add: Let_def conversation_focuses_def)
  next
    case False
    then show ?thesis using ex by (simp add: conversation_focuses_def upsert_focus_def Let_def)
  qed
qed

lemma upsert_focus_distinct:
  assumes "distinct (map focus_node (conversation_focuses s d))"
  shows "distinct (map focus_node (conversation_focuses (upsert_focus c n f s) d))"
proof -
  have "map focus_node (map (\<lambda>x. if focus_node x = fu_node_id f then \<lparr>fr_conversation = c, fr_focus = f, fr_last_turn = n\<rparr> else x) xs)
      = map focus_node xs" for xs
    by (induction xs) (auto simp: focus_node_def)
  with assms show ?thesis
    by (auto simp: conversation_focuses_upsert Let_def focus_node_def simp del: map_map)
qed

lemma upsert_focuses_distinct:
  "distinct (map focus_node (conversation_focuses s d)) \<Longrightarrow>
   distinct (map focus_node (conversation_focuses (fold (upsert_focus c n) fs s) d))"
  by (induction fs arbitrary: s) (simp_all add: upsert_focus_distinct)

lemma upsert_focuses_other: "d \<noteq> c \<Longrightarrow> conversation_focuses (fold (upsert_focus c n) fs s) d = conversation_focuses s d"
  by (induction fs arbitrary: s) (simp_all add: conversation_focuses_upsert)

lemma prune_focuses_conversation:
  "conversation_focuses (prune_focuses c s) d =
     (if d = c then filter (\<lambda>f. focus_node f \<notin> focus_node ` set (drop max_focuses (ranked_focuses s c))) (conversation_focuses s c)
      else conversation_focuses s d)"
  by (auto simp: conversation_focuses_def prune_focuses_def Let_def focus_node_def intro: filter_cong)

lemma prune_focuses_bound: "length (conversation_focuses (prune_focuses c s) c) \<le> max_focuses"
proof -
  let ?keep = "\<lambda>f. focus_node f \<notin> focus_node ` set (drop max_focuses (ranked_focuses s c))"
  have perm: "mset (ranked_focuses s c) = mset (conversation_focuses s c)"
    by (simp add: ranked_focuses_def conversation_focuses_def)
  have "length (filter ?keep (conversation_focuses s c)) = length (filter ?keep (ranked_focuses s c))"
    using perm by (metis mset_filter size_mset)
  also have "filter ?keep (ranked_focuses s c)
      = filter ?keep (take max_focuses (ranked_focuses s c)) @ filter ?keep (drop max_focuses (ranked_focuses s c))"
    by (metis append_take_drop_id filter_append)
  also have "filter ?keep (drop max_focuses (ranked_focuses s c)) = []" by (auto simp: filter_empty_conv)
  finally have "length (filter ?keep (conversation_focuses s c)) = length (filter ?keep (take max_focuses (ranked_focuses s c)))"
    by simp
  also have "\<dots> \<le> max_focuses" by (rule le_trans [OF length_filter_le]) simp
  finally show ?thesis by (simp add: prune_focuses_conversation)
qed

lemma prune_focuses_distinct:
  "distinct (map focus_node (conversation_focuses s d)) \<Longrightarrow> distinct (map focus_node (conversation_focuses (prune_focuses c s) d))"
  by (auto simp: prune_focuses_conversation intro: distinct_map_filter)

lemma focuses_ok_same: "st_focuses s' = st_focuses s \<Longrightarrow> focuses_ok s' = focuses_ok s"
  by (simp add: focuses_ok_def conversation_focuses_def)

lemma focuses_ok_begin:
  assumes b: "begin_turn c ow client message t m now s = Inr (s', b)" and ok: "focuses_ok s"
  shows "focuses_ok s'"
proof -
  let ?fresh = "\<lambda>f. \<not> (fr_conversation f = c \<and> int (next_turn s c) - int (fr_last_turn f) > int focus_ttl)"
  have "conversation_focuses s' d = filter ?fresh (conversation_focuses s d)" for d
    using begin_turn_Inr(8) [OF b]
    by (simp add: conversation_focuses_def evict_focuses_def conj_commute)
  with ok show ?thesis
    by (auto simp: focuses_ok_def distinct_map_filter intro: le_trans [OF length_filter_le])
qed

lemma focuses_ok_write:
  assumes w: "write_turn c t m w s = Inr s'" and ok: "focuses_ok s"
  shows "focuses_ok s'"
proof (cases w)
  case (WriteClarification cw)
  with w have "st_focuses s' = st_focuses s"
    by (auto simp: write_turn_def persist_clarification_def rbind_Inr_iff insert_message_Inr)
  with ok show ?thesis by (simp add: focuses_ok_same [of s' s])
next
  case (WriteFailure code sn)
  with w have "st_focuses s' = st_focuses s" by (auto simp: write_turn_def mark_turn_failed_def)
  with ok show ?thesis by (simp add: focuses_ok_same [of s' s])
next
  case (WriteAnswer aw)
  from w WriteAnswer obtain s1 s2 f where
    1: "insert_message (assistant_message m t c (aw_kind aw) (aw_content aw) s) s = Inr s1" and
    2: "(if aw_citations aw = [] then Inr s1 else insert_citations m c (aw_citations aw) s1) = Inr s2" and
    3: "s' = update_turn t f (if aw_update_focus aw \<and> aw_focuses aw \<noteq> []
           then prune_focuses c (fold (upsert_focus c (aw_turn_no aw)) (aw_focuses aw) (clear_pending c s2))
           else clear_pending c s2)"
    by (simp add: write_turn_def persist_answer_def rbind_Inr_iff Let_def) blast
  let ?s3 = "clear_pending c s2"
  from 1 have "st_focuses s1 = st_focuses s" by (simp add: insert_message_Inr)
  moreover from 2 have "st_focuses s2 = st_focuses s1"
    by (cases "aw_citations aw = []") (auto dest: insert_citations_Inr)
  ultimately have ok3: "focuses_ok ?s3" using ok by (simp add: focuses_ok_same [of ?s3 s])
  show ?thesis
  proof (cases "aw_update_focus aw \<and> aw_focuses aw \<noteq> []")
    case False
    with 3 have "st_focuses s' = st_focuses ?s3" by simp
    with ok3 show ?thesis by (simp add: focuses_ok_same [of s' ?s3])
  next
    case True
    let ?s4 = "fold (upsert_focus c (aw_turn_no aw)) (aw_focuses aw) ?s3"
    have s': "conversation_focuses s' d = conversation_focuses (prune_focuses c ?s4) d" for d
      using 3 True by (simp add: conversation_focuses_def)
    have "distinct (map focus_node (conversation_focuses s' d))" for d
      using ok3 by (simp add: s' focuses_ok_def prune_focuses_distinct upsert_focuses_distinct)
    moreover have "length (conversation_focuses s' d) \<le> max_focuses" for d
      using ok3 prune_focuses_bound [of c ?s4]
      by (cases "d = c") (simp_all add: s' focuses_ok_def prune_focuses_conversation upsert_focuses_other)
    ultimately show ?thesis by (simp add: focuses_ok_def)
  qed
qed

subsection \<open>Reachable stores\<close>

lemma titles_keep_next_turn:
  "next_turn (fst (patch_title c ow title now s)) d = next_turn s d"
  "next_turn (fst (delete_conversation c ow now s)) d = next_turn s d"
  "next_turn (fst (claim_guest a u now s)) d = next_turn s d"
  "next_turn (fst (generate_title c ow now s)) d = next_turn s d"
proof -
  show "next_turn (fst (patch_title c ow title now s)) d = next_turn s d"
    by (rule next_turn_map [where g = "\<lambda>v. if cv_id v = c \<and> cv_owner v = ow then v\<lparr>cv_title := py_strip title, cv_updated := now\<rparr> else v"])
       (simp_all add: patch_title_def touch_owned_def)
  show "next_turn (fst (delete_conversation c ow now s)) d = next_turn s d"
    by (rule next_turn_map [where g = "\<lambda>v. if cv_id v = c \<and> cv_owner v = ow then v\<lparr>cv_deleted := True, cv_updated := now\<rparr> else v"])
       (simp_all add: delete_conversation_def touch_owned_def)
  show "next_turn (fst (claim_guest a u now s)) d = next_turn s d"
    by (rule next_turn_map [where g = "\<lambda>v. if cv_owner v = \<lparr>ow_kind = AnonymousOwner, ow_principal = a\<rparr>
          then v\<lparr>cv_owner := \<lparr>ow_kind = UserOwner, ow_principal = u\<rparr>, cv_updated := now\<rparr> else v"])
       (simp_all add: claim_guest_def Let_def)
  have "next_turn (update_conversation c (\<lambda>v. v\<lparr>cv_title := x, cv_updated := now\<rparr>) s) d = next_turn s d" for x
    by (rule next_turn_map [where g = "\<lambda>v. if cv_id v = c then v\<lparr>cv_title := x, cv_updated := now\<rparr> else v"])
       (simp_all add: update_conversation_def)
  then show "next_turn (fst (generate_title c ow now s)) d = next_turn s d"
    by (simp add: generate_title_def Let_def split: list.splits)
qed

lemma titles_keep_messages:
  "st_messages (fst (patch_title c ow title now s)) = st_messages s"
  "st_messages (fst (delete_conversation c ow now s)) = st_messages s"
  "st_messages (fst (claim_guest a u now s)) = st_messages s"
  "st_messages (fst (generate_title c ow now s)) = st_messages s"
  by (simp_all add: patch_title_def delete_conversation_def touch_owned_def claim_guest_def generate_title_def
        update_conversation_def Let_def split: list.splits)

lemma titles_keep_numbers:
  "numbers_ok (fst (patch_title c ow title now s)) = numbers_ok s"
  "numbers_ok (fst (delete_conversation c ow now s)) = numbers_ok s"
  "numbers_ok (fst (claim_guest a u now s)) = numbers_ok s"
  "numbers_ok (fst (generate_title c ow now s)) = numbers_ok s"
  by (rule numbers_ok_same; simp add: titles_keep_next_turn titles_keep_messages)+

lemma titles_keep_focuses:
  "focuses_ok (fst (patch_title c ow title now s)) = focuses_ok s"
  "focuses_ok (fst (delete_conversation c ow now s)) = focuses_ok s"
  "focuses_ok (fst (claim_guest a u now s)) = focuses_ok s"
  "focuses_ok (fst (generate_title c ow now s)) = focuses_ok s"
  by (rule focuses_ok_same; auto simp: patch_title_def delete_conversation_def touch_owned_def claim_guest_def
        generate_title_def update_conversation_def Let_def split: list.splits)+

definition tables_ok :: "store \<Rightarrow> bool" where
  "tables_ok s \<longleftrightarrow> numbers_ok s \<and> focuses_ok s"

lemma tables_ok_step: "step key m m' \<Longrightarrow> tables_ok (mc_store m) \<Longrightarrow> tables_ok (mc_store m')"
  by (induction rule: step.induct)
     (auto simp: tables_ok_def open_turn_def titles_keep_numbers titles_keep_focuses
        intro: numbers_ok_begin numbers_ok_write focuses_ok_begin focuses_ok_write)

lemma tables_ok_reachable: "reachable key m \<Longrightarrow> tables_ok (mc_store m)"
proof (induction rule: reachable.induct)
  case start
  have "next_turn empty_store c = 1" "next_ordinal empty_store c = 1" for c
    by (simp_all add: next_turn_def find_conversation_def next_ordinal_def empty_store_def)
  then show ?case
    by (simp add: tables_ok_def numbers_ok_def focuses_ok_def conversation_focuses_def initial_machine_def)
       (simp add: empty_store_def)
next
  case (next_state m m')
  then show ?case by (blast intro: tables_ok_step)
qed

end
