(* ===== verification/Regex_Alphabet.thy ===== *)
theory Regex_Alphabet
  imports Py_Regex
begin

text \<open>
  A sufficient condition for an expression to match nowhere: the text is written in an alphabet without a letter
  that every match needs.
\<close>

fun blocked :: "pchar list \<Rightarrow> regex \<Rightarrow> bool" where
  "blocked A (Lit k) = (k \<notin> set A)"
| "blocked A (Seq r s) = (if blocked A r then True else blocked A s)"
| "blocked A (Alt r s) = (if blocked A r then blocked A s else False)"
| "blocked A (Group g r) = blocked A r"
| "blocked A _ = False"

text \<open>The alphabet of a text holds its letters and their case variants.\<close>

definition written_in :: "unicode \<Rightarrow> pchar list \<Rightarrow> pchar list \<Rightarrow> bool" where
  "written_in U A xs \<longleftrightarrow> (\<forall>x \<in> set xs. x \<in> set A \<and> set (case_variants U x) \<subseteq> set A)"

lemma rest_run: "st' \<in> set (run U ic r st) \<Longrightarrow> set (fst (snd st')) \<subseteq> set (fst (snd st))"
  by (rule run_invariant [where R = "\<lambda>a b. set (fst (snd b)) \<subseteq> set (fst (snd a))"])
     (auto simp: one_char_def split: prod.splits list.splits if_splits)

lemma blocked_run: "blocked A r \<Longrightarrow> written_in U A (fst (snd st)) \<Longrightarrow> run U ic r st = []"
proof (induction r arbitrary: st)
  case (Lit k)
  then show ?case by (auto simp: one_char_def written_in_def split: prod.splits list.splits)
next
  case (Seq r s)
  have rest: "written_in U A (fst (snd st'))" if "st' \<in> set (run U ic r st)" for st'
    using rest_run [OF that] Seq.prems(2) by (auto simp: written_in_def)
  from Seq.prems(1) show ?case
  proof (cases "blocked A r")
    case True
    with Seq show ?thesis by simp
  next
    case False
    with Seq.prems(1) have "blocked A s" by simp
    with Seq.IH(2) rest show ?thesis by simp
  qed
qed (auto split: if_splits)

lemma match_at_blocked: "blocked A r \<Longrightarrow> written_in U A xs \<Longrightarrow> match_at U ic r bs xs = None"
  by (simp add: match_at_def blocked_run)

lemma search_from_blocked: "blocked A r \<Longrightarrow> written_in U A xs \<Longrightarrow> search_from U ic r bs xs = None"
  by (induction xs arbitrary: bs) (subst search_from.simps, simp add: match_at_blocked written_in_def)+

lemma matches_from_blocked: "blocked A r \<Longrightarrow> written_in U A xs \<Longrightarrow> matches_from U ic r bs xs = []"
  by (induction xs arbitrary: bs) (subst matches_from.simps, simp add: match_at_blocked written_in_def)+

lemma rx_search_blocked: "written_in U A (py_chars s) \<Longrightarrow> blocked A r \<Longrightarrow> rx_search U ic r s = None"
  by (simp add: rx_search_def search_from_blocked)

lemma rx_finditer_blocked: "written_in U A (py_chars s) \<Longrightarrow> blocked A r \<Longrightarrow> rx_finditer U ic r s = []"
  by (simp add: rx_finditer_def matches_from_blocked)

lemma rx_match_blocked: "written_in U A (py_chars s) \<Longrightarrow> blocked A r \<Longrightarrow> rx_match U ic r s = None"
  by (simp add: rx_match_def match_at_blocked)

lemma rx_fullmatch_blocked: "written_in U A (py_chars s) \<Longrightarrow> blocked A r \<Longrightarrow> rx_fullmatch U ic r s = None"
  by (simp add: rx_fullmatch_def blocked_run)

end
