(* ===== verification/Conversation_Runs.thy ===== *)
theory Conversation_Runs
  imports Conversation_Numbers Regex_Alphabet
begin

text \<open>
  Turns that no process works on any more, and a run of the machine in which two owners send the same request,
  on a language of plain letters.
\<close>

subsection \<open>A sample conversation\<close>

text \<open>Plain ASCII, which has no case folding to do on the messages below.\<close>

definition ascii_unicode :: unicode where
  "ascii_unicode =
     \<lparr>u_decimal = (\<lambda>c. case c of [x] \<Rightarrow> if 48 \<le> (of_char x :: nat) \<and> (of_char x :: nat) \<le> 57
                                    then Some (of_char x - 48) else None | _ \<Rightarrow> None),
      u_isdigit = (\<lambda>c. case c of [x] \<Rightarrow> 48 \<le> (of_char x :: nat) \<and> (of_char x :: nat) \<le> 57 | _ \<Rightarrow> False),
      u_alnum = (\<lambda>c. case c of [x] \<Rightarrow> 48 \<le> (of_char x :: nat) \<and> (of_char x :: nat) \<le> 57
                       \<or> 97 \<le> (of_char x :: nat) \<and> (of_char x :: nat) \<le> 122 | _ \<Rightarrow> True),
      u_variants = (\<lambda>c. [])\<rparr>"

definition plain_language :: language where
  "plain_language = \<lparr>tx_unicode = ascii_unicode, tx_casefold = (\<lambda>s. s), tx_lower = (\<lambda>s. s), tx_repr = concat\<rparr>"

definition deaf_resolver :: resolver where
  "deaf_resolver = \<lparr>rv_language = plain_language, rv_lookup = (\<lambda>_. Inr [])\<rparr>"

definition hello :: str where "hello = ''hello''"

definition no_history :: history_context where
  "no_history = \<lparr>hc_recent = [], hc_focuses = [], hc_pending = None\<rparr>"

text \<open>A message without any letter that the expressions need stands alone.\<close>

definition plain_alphabet :: "pchar list \<Rightarrow> bool" where
  "plain_alphabet A \<longleftrightarrow>
     list_all (blocked A) ([document_number_rx, law_name_rx, law_name_without_year_rx, article_rx, clause_rx, point_rx,
       refers_to_rx] @ ordered_patterns)"

lemma plain_message_references:
  assumes "plain_alphabet A" and "written_in (tx_unicode L) A (py_chars s)"
  shows "parse_explicit_references L s = []"
  using assms
  by (simp add: plain_alphabet_def parse_explicit_references_def document_identities_def law_references_def findall_def
      findall_group_def rx_finditer_blocked is_present_def has_document_identity_def has_structural_unit_def
      truthy_str_def stable_unique_def single_def Let_def)

lemma plain_message_anaphora:
  "plain_alphabet A \<Longrightarrow> written_in (tx_unicode L) A (py_chars s) \<Longrightarrow> detect_anaphora L s = None"
  by (simp add: plain_alphabet_def detect_anaphora_def rx_found_def rx_search_blocked ordered_patterns_def)

lemma plain_message_standalone:
  "plain_alphabet A \<Longrightarrow> written_in (tx_unicode (rv_language rv)) A (py_chars s) \<Longrightarrow>
   resolve_fresh rv s ctx = Inr Standalone"
  by (simp add: resolve_fresh_def plain_message_references plain_message_anaphora Let_def)

lemma hello_alphabet: "plain_alphabet [''h'', ''e'', ''l'', ''o'', ''H'', ''E'', ''L'', ''O'']"
  by code_simp

lemma hello_written: "written_in ascii_unicode [''h'', ''e'', ''l'', ''o'', ''H'', ''E'', ''L'', ''O''] (py_chars hello)"
  by code_simp

subsection \<open>Abandoned turns\<close>

text \<open>A turn that is being processed, but by no process.\<close>

definition abandoned :: "machine \<Rightarrow> turn \<Rightarrow> bool" where
  "abandoned m t \<longleftrightarrow>
     t \<in> set (st_turns (mc_store m)) \<and> tn_status t = TurnProcessing
     \<and> (\<forall>i p b. mc_procs m i = Some p \<and> ps_phase p = Working b \<longrightarrow> bt_turn b \<noteq> tn_id t)"

lemma abandoned_go:
  assumes "abandoned m t" and "st_turns (mc_store m') = st_turns (mc_store m)"
    and "mc_procs m' = (mc_procs m)(i \<mapsto> p\<lparr>ps_phase := ph\<rparr>)" and "\<And>b. ph = Working b \<Longrightarrow> bt_turn b \<noteq> tn_id t"
  shows "abandoned m' t"
  using assms by (auto simp: abandoned_def)

lemma abandoned_store:
  "abandoned m t \<Longrightarrow> st_turns s = st_turns (mc_store m) \<Longrightarrow> abandoned (m\<lparr>mc_store := s\<rparr>) t"
  by (auto simp: abandoned_def)

lemma after_check_idle [simp]: "after_precheck s p \<noteq> Working b" "after_recheck s p \<noteq> Working b"
  by (auto simp: after_precheck_def after_recheck_def split: sum.splits option.splits)

lemma abandoned_step: "step key m m' \<Longrightarrow> abandoned m t \<Longrightarrow> abandoned m' t"
proof (induction rule: step.induct)
  case (arrive m i ow q)
  show ?case by (rule abandoned_go [OF arrive(2), where i = i and p = "\<lparr>ps_owner = ow, ps_request = q, ps_phase = AtEntry\<rparr>" and ph = AtEntry]) simp_all
next
  case (precheck m i p)
  show ?case by (rule abandoned_go [OF precheck(3), where i = i and p = p and ph = "after_precheck (mc_store m) p"]) simp_all
next
  case (acquire m i p)
  show ?case by (rule abandoned_go [OF acquire(4), where i = i and p = p and ph = Holding]) simp_all
next
  case (give_up m i p)
  show ?case by (rule abandoned_go [OF give_up(4), where i = i and p = p and ph = "Finished (Inl (RaisedStore ConversationBusy))"]) simp_all
next
  case (recheck m i p)
  show ?case by (rule abandoned_go [OF recheck(3), where i = i and p = p and ph = "after_recheck (mc_store m) p"]) simp_all
next
  case (opened m i p u v now s b)
  note b = opened(3) [unfolded open_turn_def]
  have "bt_turn b \<noteq> tn_id t" using begin_turn_Inr(1,5) [OF b] opened(4) by (auto simp: abandoned_def)
  then show ?case using opened(4) begin_turn_Inr(4) [OF b] by (auto simp: abandoned_def)
next
  case (open_fails m i p u v now e)
  show ?case by (rule abandoned_go [OF open_fails(4), where i = i and p = p and ph = "Releasing (Inl (RaisedStore e))"]) simp_all
next
  case (finish m i p b sv w u s)
  from write_turn_Inr(1) [OF finish(4)] obtain f where
    s: "st_turns s = map (\<lambda>x. if tn_id x = bt_turn b then f x else x) (st_turns (mc_store m))" by blast
  have "bt_turn b \<noteq> tn_id t" using finish(1,2,5) by (auto simp: abandoned_def)
  with finish(5) have "t \<in> set (st_turns s)" by (force simp: s abandoned_def)
  with finish(5) show ?case by (auto simp: abandoned_def)
next
  case (write_fails m i p b sv w u e)
  show ?case by (rule abandoned_go [OF write_fails(5), where i = i and p = p and ph = "Releasing (Inl (RaisedStore e))"]) simp_all
next
  case (process_fails m i p b sv e)
  show ?case by (rule abandoned_go [OF process_fails(4), where i = i and p = p and ph = "Releasing (Inl e)"]) simp_all
next
  case (release m i p r)
  show ?case by (rule abandoned_go [OF release(3), where i = i and p = p and ph = "Finished r"]) simp_all
next
  case (crash m i p)
  show ?case by (rule abandoned_go [OF crash(3), where i = i and p = p and ph = Crashed]) simp_all
qed (rule abandoned_store; simp)+

lemma later_keeps: "later key m m' \<Longrightarrow> reachable key m \<Longrightarrow> abandoned m t \<Longrightarrow> reachable key m' \<and> abandoned m' t"
  by (induction rule: later.induct) (auto intro: next_state abandoned_step)

text \<open>A process that leaves its turn open, by a crash or by an exception.\<close>

lemma left_open:
  assumes r: "reachable key m" and p: "mc_procs m i = Some p" and b: "ps_phase p = Working b"
    and ph: "ph = Crashed \<or> (\<exists>e. ph = Releasing (Inl e))" and m1: "st_turns (mc_store m1) = st_turns (mc_store m)"
    and procs: "mc_procs m1 = (mc_procs m)(i \<mapsto> p\<lparr>ps_phase := ph\<rparr>)"
  obtains t where "turn_for (mc_store m) (ps_conversation p) (ps_client p) t" and "abandoned m1 t"
proof -
  note ok = machine_ok_reachable [OF r]
  from machine_okD(3) [OF ok p] b obtain t where t: "turn_for (mc_store m) (ps_conversation p) (ps_client p) t"
    "tn_id t = bt_turn b" "tn_status t = TurnProcessing" by auto
  have "bt_turn c \<noteq> tn_id t" if q: "mc_procs m j = Some q" "ps_phase q = Working c" "j \<noteq> i" for j q c
  proof
    assume c: "bt_turn c = tn_id t"
    from machine_okD(3) [OF ok q(1)] q(2) obtain t' where t': "turn_for (mc_store m) (ps_conversation q) (ps_client q) t'"
      "tn_id t' = bt_turn c" by auto
    with turn_id_unique [OF machine_okD(2) [OF ok], of t' t] t(1) c have "t' = t" by (simp add: turn_for_def)
    with t' t(1) have "ps_conversation p = ps_conversation q" by (auto simp: turn_for_def)
    with lock_ok_exclusive [OF machine_okD(1) [OF ok] p _ q(1)] b q(2,3) show False by simp
  qed
  then have "abandoned m1 t" using t ph by (auto simp: abandoned_def procs m1 turn_for_def)
  with t(1) that show ?thesis by blast
qed

subsection \<open>A run with two owners\<close>

definition greeting_services :: "services \<Rightarrow> services" where
  "greeting_services sv = sv\<lparr>sv_resolver := deaf_resolver\<rparr>"

definition hello_request :: chat_request where
  "hello_request =
     \<lparr>cq_conversation = 7, cq_client = 5, cq_message = hello, cq_document_ids = [], cq_date = None, cq_force = None,
      cq_rerank = None\<rparr>"

definition first_owner :: owner where "first_owner = \<lparr>ow_kind = UserOwner, ow_principal = 1\<rparr>"
definition second_owner :: owner where "second_owner = \<lparr>ow_kind = UserOwner, ow_principal = 2\<rparr>"

definition greeting_write :: turn_write where
  "greeting_write = end_directly 1 ''NO_ANAPHORA'' greeting_text"

definition opened_hello :: "store \<times> begun_turn" where
  "opened_hello =
     (empty_store\<lparr>st_conversations := [\<lparr>cv_id = 7, cv_owner = first_owner, cv_title = hello, cv_deleted = False,
          cv_next_turn = 2, cv_created = 0, cv_updated = 0\<rparr>],
        st_turns := [processing_turn 10 7 5 1],
        st_messages := [\<lparr>mg_id = 20, mg_turn = 10, mg_conversation = 7, mg_role = RoleUser, mg_kind = MsgUserQuery,
          mg_content = hello, mg_ordinal = 1\<rparr>]\<rparr>,
      \<lparr>bt_turn = 10, bt_conversation = 7, bt_turn_no = 1, bt_ordinal = 1, bt_context = no_history\<rparr>)"

lemma open_hello: "begin_turn 7 first_owner 5 hello 10 20 0 empty_store = Inr opened_hello"
  by code_simp

lemma greeting_hello: "greeting_response (\<lambda>s. s) hello = Some greeting_text"
  by code_simp

lemma process_hello: "process_turn (greeting_services sv) hello_request (snd opened_hello) = Inr greeting_write"
  by (simp add: process_turn_def resolve_def greeting_services_def hello_request_def opened_hello_def no_history_def
      plain_message_standalone [OF hello_alphabet] hello_written deaf_resolver_def plain_language_def greeting_hello
      greeting_write_def)

definition ended_hello :: store where
  "ended_hello = (case write_turn 7 10 30 greeting_write (fst opened_hello) of Inr s \<Rightarrow> s | Inl e \<Rightarrow> empty_store)"

lemma end_hello: "write_turn 7 10 30 greeting_write (fst opened_hello) = Inr ended_hello"
  by (simp add: ended_hello_def write_turn_def greeting_write_def end_directly_def persist_answer_def insert_message_def
      opened_hello_def empty_store_def assistant_message_def next_ordinal_def)

lemma replay_hello:
  "\<exists>t. find_turn ended_hello 7 5 = Some t \<and> replay_snapshot t = Inr (written_snapshot greeting_write)"
  by (simp add: ended_hello_def write_turn_def greeting_write_def end_directly_def persist_answer_def insert_message_def
      opened_hello_def empty_store_def assistant_message_def next_ordinal_def find_turn_def processing_turn_def
      update_turn_def clear_pending_def replay_snapshot_def replayable_def written_snapshot_def)

text \<open>Two owners send the same request; the machine with its two processes.\<close>

definition hello_process :: "owner \<Rightarrow> phase \<Rightarrow> process" where
  "hello_process ow ph = \<lparr>ps_owner = ow, ps_request = hello_request, ps_phase = ph\<rparr>"

definition two_hellos :: "(int \<Rightarrow> nat option) \<Rightarrow> store \<Rightarrow> phase \<Rightarrow> phase \<Rightarrow> machine" where
  "two_hellos locks s a b =
     \<lparr>mc_store = s, mc_locks = locks,
      mc_procs = [0 \<mapsto> hello_process first_owner a, 1 \<mapsto> hello_process second_owner b]\<rparr>"

lemma two_hellos_fields [simp]:
  "mc_store (two_hellos l s a b) = s" "mc_locks (two_hellos l s a b) = l"
  "mc_procs (two_hellos l s a b) 0 = Some (hello_process first_owner a)"
  "mc_procs (two_hellos l s a b) 1 = Some (hello_process second_owner b)"
  "mc_procs (two_hellos l s a b) (Suc 0) = Some (hello_process second_owner b)"
  by (simp_all add: two_hellos_def)

lemma hello_process_fields [simp]:
  "ps_owner (hello_process ow ph) = ow" "ps_request (hello_process ow ph) = hello_request"
  "ps_phase (hello_process ow ph) = ph"
  by (simp_all add: hello_process_def)

lemma hello_request_fields [simp]:
  "cq_conversation hello_request = 7" "cq_client hello_request = 5" "cq_message hello_request = hello"
  by (simp_all add: hello_request_def)

lemma go_two_hellos:
  "go 0 (hello_process first_owner a) ph (two_hellos l s a b) = two_hellos l s ph b"
  "go 1 (hello_process second_owner b) ph (two_hellos l s a b) = two_hellos l s a ph"
  "go (Suc 0) (hello_process second_owner b) ph (two_hellos l s a b) = two_hellos l s a ph"
  by (auto simp: go_def two_hellos_def hello_process_def fun_eq_iff)

lemma two_hellos_update:
  "two_hellos l s a b\<lparr>mc_store := s'\<rparr> = two_hellos l s' a b"
  "two_hellos l s a b\<lparr>mc_locks := l'\<rparr> = two_hellos l' s a b"
  by (simp_all add: two_hellos_def)

lemma run_arrivals: "reachable key (two_hellos Map.empty empty_store AtEntry AtEntry)"
proof -
  let ?m = "go 0 \<lparr>ps_owner = first_owner, ps_request = hello_request, ps_phase = AtEntry\<rparr> AtEntry initial_machine"
  have "reachable key ?m"
    by (rule next_state [OF start arrive]) (simp add: initial_machine_def)
  then have "reachable key (go 1 \<lparr>ps_owner = second_owner, ps_request = hello_request, ps_phase = AtEntry\<rparr> AtEntry ?m)"
    by (rule next_state [OF _ arrive]) (simp add: initial_machine_def)
  moreover have "go 1 \<lparr>ps_owner = second_owner, ps_request = hello_request, ps_phase = AtEntry\<rparr> AtEntry ?m
      = two_hellos Map.empty empty_store AtEntry AtEntry"
    by (simp add: go_def two_hellos_def hello_process_def initial_machine_def)
  ultimately show ?thesis by simp
qed

lemma run_prechecks: "reachable key (two_hellos Map.empty empty_store Polling Polling)"
proof -
  have none: "after_precheck empty_store (hello_process ow ph) = Polling" for ow ph
    by (simp add: after_precheck_def find_owned_turn_def load_owned_def find_conversation_def empty_store_def)
  have "reachable key (two_hellos Map.empty empty_store Polling AtEntry)"
    using next_state [OF run_arrivals precheck [where i = 0 and p = "hello_process first_owner AtEntry"]]
    by (simp add: none go_two_hellos)
  from next_state [OF this precheck [where i = 1 and p = "hello_process second_owner AtEntry"]]
  show ?thesis by (simp add: none go_two_hellos)
qed

lemma run_opened: "reachable key (two_hellos [key 7 \<mapsto> 0] (fst opened_hello) (Working (snd opened_hello)) Polling)"
proof -
  have "reachable key (two_hellos [key 7 \<mapsto> 0] empty_store Holding Polling)"
    using next_state [OF run_prechecks acquire [where i = 0 and p = "hello_process first_owner Polling"]]
    by (simp add: two_hellos_update go_two_hellos)
  moreover have "after_recheck empty_store (hello_process first_owner ph) = Absent" for ph
    by (simp add: after_recheck_def find_turn_def empty_store_def)
  ultimately have "reachable key (two_hellos [key 7 \<mapsto> 0] empty_store Absent Polling)"
    using next_state [OF _ recheck [where i = 0 and p = "hello_process first_owner Holding"]]
    by (fastforce simp: go_two_hellos)
  then show ?thesis
    using next_state [OF _ opened [where i = 0 and p = "hello_process first_owner Absent" and turn_id = 10
        and message_id = 20 and now = 0 and s = "fst opened_hello" and b = "snd opened_hello"]] open_hello
    by (fastforce simp: open_turn_def go_two_hellos two_hellos_update)
qed

lemma run_answered:
  "reachable key (two_hellos Map.empty ended_hello (Finished (Inr (written_snapshot greeting_write))) Polling)"
proof -
  let ?r = "Inr (written_snapshot greeting_write)"
  have "bt_turn (snd opened_hello) = 10" by (simp add: opened_hello_def)
  then have "reachable key (two_hellos [key 7 \<mapsto> 0] ended_hello (Releasing ?r) Polling)"
    using next_state [OF run_opened finish [where i = 0 and p = "hello_process first_owner (Working (snd opened_hello))"
        and b = "snd opened_hello" and sv = "greeting_services sv" and message_id = 30 and w = greeting_write
        and s = ended_hello]] process_hello end_hello
    by (fastforce simp: go_two_hellos two_hellos_update)
  from next_state [OF this release [where i = 0 and p = "hello_process first_owner (Releasing ?r)" and r = ?r]]
  show ?thesis by (simp add: unlock_def go_two_hellos two_hellos_update)
qed

lemma run_replayed:
  "reachable key (two_hellos Map.empty ended_hello (Finished (Inr (written_snapshot greeting_write)))
     (Finished (Inr (written_snapshot greeting_write))))"
proof -
  let ?r = "Inr (written_snapshot greeting_write)"
  have "reachable key (two_hellos [key 7 \<mapsto> 1] ended_hello (Finished ?r) Holding)"
    using next_state [OF run_answered acquire [where i = 1 and p = "hello_process second_owner Polling"]]
    by (simp add: two_hellos_update go_two_hellos)
  moreover have "after_recheck ended_hello (hello_process second_owner ph) = Releasing ?r" for ph
    using replay_hello by (auto simp: after_recheck_def)
  ultimately have "reachable key (two_hellos [key 7 \<mapsto> 1] ended_hello (Finished ?r) (Releasing ?r))"
    using next_state [OF _ recheck [where i = 1 and p = "hello_process second_owner Holding"]]
    by (fastforce simp: go_two_hellos)
  from next_state [OF this release [where i = 1 and p = "hello_process second_owner (Releasing ?r)" and r = ?r]]
  show ?thesis by (simp add: unlock_def go_two_hellos two_hellos_update)
qed

end
