(* ===== verification/Conversation_Properties.thy ===== *)
theory Conversation_Properties
  imports Conversation_Runs Answer_Properties
begin

text \<open>
  The properties of the conversation service: replays, locks, the tables, abandoned turns, the wait for a lock,
  streams, clarifications, references and the rewriter.
\<close>

subsection \<open>Replays and locks\<close>

text \<open>
  C5: Of two requests with the same conversation and client identifier that returned a snapshot, both returned
  the same one, unless one was told that the turn is still being processed.
\<close>

theorem replay_parity:
  assumes "reachable key m" and "mc_procs m i = Some p" and "mc_procs m j = Some q"
    and "ps_conversation p = ps_conversation q" and "ps_client p = ps_client q"
    and "ps_phase p = Finished (Inr sn)" and "ps_phase q = Finished (Inr sn')"
    and "sn \<noteq> processing_snapshot processing_retry_after" and "sn' \<noteq> processing_snapshot processing_retry_after"
  shows "sn = sn'"
proof -
  note ok = machine_ok_reachable [OF assms(1)]
  from machine_okD(3) [OF ok assms(2)] assms(6,8) obtain t where
    t: "turn_for (mc_store m) (ps_conversation p) (ps_client p) t" "tn_snapshot t = Some sn"
    by (auto simp: result_ok_def answered_def)
  from machine_okD(3) [OF ok assms(3)] assms(7,9) obtain t' where
    t': "turn_for (mc_store m) (ps_conversation q) (ps_client q) t'" "tn_snapshot t' = Some sn'"
    by (auto simp: result_ok_def answered_def)
  from turn_for_unique [OF machine_okD(2) [OF ok] t(1)] t'(1) assms(4,5) have "t = t'" by simp
  with t(2) t'(2) show ?thesis by simp
qed

lemma greeting_not_processing: "written_snapshot greeting_write \<noteq> processing_snapshot processing_retry_after"
  by (simp add: written_snapshot_def greeting_write_def end_directly_def processing_snapshot_def)

theorem replay_parity_witness:
  "written_snapshot greeting_write = written_snapshot greeting_write"
  by (rule replay_parity [OF run_replayed, where i = 0 and j = 1
        and p = "hello_process first_owner (Finished (Inr (written_snapshot greeting_write)))"
        and q = "hello_process second_owner (Finished (Inr (written_snapshot greeting_write)))"])
     (simp_all add: greeting_not_processing)

text \<open>
  C34: At most one process is between the acquisition and the release of the lock of a conversation, and the lock
  table names it.
\<close>

theorem turn_section_exclusive:
  assumes "reachable key m" and "mc_procs m i = Some p" and "mc_procs m j = Some q"
    and "ps_conversation p = ps_conversation q" and "in_section (ps_phase p)" and "in_section (ps_phase q)"
  shows "i = j \<and> mc_locks m (key (ps_conversation p)) = Some i"
  using lock_ok_exclusive [OF lock_ok_reachable [OF assms(1)] assms(2,5,3,6,4)]
    lock_okD [OF lock_ok_reachable [OF assms(1)] assms(2,5)] by blast

theorem turn_section_exclusive_witness:
  "(0::nat) = 0 \<and> mc_locks (two_hellos [7 \<mapsto> 0] (fst opened_hello) (Working (snd opened_hello)) Polling) 7 = Some 0"
  using turn_section_exclusive [OF run_opened [of int], where i = 0 and j = 0] by simp

text \<open>
  C35: In a reachable store the turns of a conversation carry the numbers from one without a gap and without a
  repetition, and so do its messages; a conversation has at most five focuses, on distinct nodes.
\<close>

theorem store_tables_consistent:
  assumes "reachable key m"
  shows "tn_no ` {t \<in> set (st_turns (mc_store m)). tn_conversation t = c} = {1..<next_turn (mc_store m) c}
    \<and> distinct (map (\<lambda>t. (tn_conversation t, tn_no t)) (st_turns (mc_store m)))
    \<and> mg_ordinal ` {g \<in> set (st_messages (mc_store m)). mg_conversation g = c} = {1..<next_ordinal (mc_store m) c}
    \<and> distinct (map (\<lambda>g. (mg_conversation g, mg_ordinal g)) (st_messages (mc_store m)))
    \<and> length (conversation_focuses (mc_store m) c) \<le> 5
    \<and> distinct (map focus_node (conversation_focuses (mc_store m) c))"
  using tables_ok_reachable [OF assms] by (simp add: tables_ok_def numbers_ok_def focuses_ok_def max_focuses_def)

theorem store_tables_consistent_witness:
  "tn_no ` {t \<in> set (st_turns ended_hello). tn_conversation t = 7} = {1..<next_turn ended_hello 7}"
  using store_tables_consistent [OF run_replayed, of 7] by simp

subsection \<open>Abandoned turns\<close>

text \<open>
  C6: A process that stops between the begin and the end of a turn, by a crash or by an exception that the
  service does not catch, leaves the turn in the state of being processed for ever, and no request with its client
  identifier ever gets a snapshot other than the one that asks it to try again.
\<close>

theorem abandoned_turn_stays:
  assumes "reachable key m" and "mc_procs m i = Some p" and "ps_phase p = Working b"
    and "m1 = go i p Crashed (unlock key i p m)
      \<or> process_turn sv (ps_request p) b = Inl e \<and> m1 = go i p (Releasing (Inl e)) m"
    and "later key m1 m'"
  shows "(\<exists>t. turn_for (mc_store m') (ps_conversation p) (ps_client p) t \<and> tn_status t = TurnProcessing)
    \<and> (\<forall>j q sn. mc_procs m' j = Some q \<longrightarrow> ps_conversation q = ps_conversation p \<longrightarrow> ps_client q = ps_client p \<longrightarrow>
         ps_phase q = Finished (Inr sn) \<longrightarrow> sn = processing_snapshot processing_retry_after)"
proof -
  have r1: "reachable key m1"
    using assms(4)
  proof
    assume m1: "m1 = go i p Crashed (unlock key i p m)"
    from step.crash [OF assms(2)] assms(3) show ?thesis by (auto simp: m1 intro: next_state [OF assms(1)])
  next
    assume m1: "process_turn sv (ps_request p) b = Inl e \<and> m1 = go i p (Releasing (Inl e)) m"
    from step.process_fails [OF assms(2,3)] m1 show ?thesis by (auto intro: next_state [OF assms(1)])
  qed
  obtain ph where "ph = Crashed \<or> (\<exists>e. ph = Releasing (Inl e))" and "st_turns (mc_store m1) = st_turns (mc_store m)"
    and "mc_procs m1 = (mc_procs m)(i \<mapsto> p\<lparr>ps_phase := ph\<rparr>)"
    using assms(4) by (elim disjE) auto
  from left_open [OF assms(1,2,3) this] obtain t where
    t: "turn_for (mc_store m) (ps_conversation p) (ps_client p) t" "abandoned m1 t" .
  from later_keeps [OF assms(5) r1 t(2)] have m': "reachable key m'" "abandoned m' t" by auto
  with t(1) have left: "turn_for (mc_store m') (ps_conversation p) (ps_client p) t" "tn_status t = TurnProcessing"
    by (auto simp: abandoned_def turn_for_def)
  note ok = machine_ok_reachable [OF m'(1)]
  have "sn = processing_snapshot processing_retry_after"
    if q: "mc_procs m' j = Some q" "ps_conversation q = ps_conversation p" "ps_client q = ps_client p"
      "ps_phase q = Finished (Inr sn)" for j q sn
  proof (rule ccontr)
    assume "sn \<noteq> processing_snapshot processing_retry_after"
    with machine_okD(3) [OF ok q(1)] q(2-4) obtain t' where
      "turn_for (mc_store m') (ps_conversation p) (ps_client p) t'" "tn_status t' \<noteq> TurnProcessing"
      by (auto simp: result_ok_def answered_def)
    with turn_for_unique [OF machine_okD(2) [OF ok] left(1)] left(2) show False by auto
  qed
  with left show ?thesis by blast
qed

theorem abandoned_turn_stays_witness:
  "\<exists>t. turn_for (mc_store (go 0 (hello_process first_owner (Working (snd opened_hello))) Crashed
       (unlock int 0 (hello_process first_owner (Working (snd opened_hello)))
         (two_hellos [7 \<mapsto> 0] (fst opened_hello) (Working (snd opened_hello)) Polling)))) 7 5 t
     \<and> tn_status t = TurnProcessing"
  using abandoned_turn_stays [OF run_opened [of int], where i = 0
      and p = "hello_process first_owner (Working (snd opened_hello))" and b = "snd opened_hello",
      OF _ _ disjI1 [OF refl] later.now] by simp


subsection \<open>Waiting for a lock\<close>

lemma poll_lock_stops:
  "attempt (n + d) \<or> deadline \<le> clock (n + d) \<Longrightarrow> \<exists>b. poll_lock attempt clock deadline n = Some b"
proof (induction d arbitrary: n)
  case 0
  then show ?case by (subst poll_lock.simps) auto
next
  case (Suc d)
  then obtain b where "poll_lock attempt clock deadline (Suc n) = Some b" by fastforce
  then show ?case by (subst poll_lock.simps) auto
qed

lemma poll_lock_Some:
  assumes "poll_lock attempt clock deadline n = Some b"
  shows "\<exists>k \<ge> n. attempt k \<or> deadline \<le> clock k"
proof (rule poll_lock.raw_induct
    [where P = "\<lambda>attempt clock deadline n b. \<exists>k \<ge> n. attempt k \<or> deadline \<le> clock k", OF _ assms])
  fix f :: "(nat \<Rightarrow> bool) \<Rightarrow> (nat \<Rightarrow> rat) \<Rightarrow> rat \<Rightarrow> nat \<Rightarrow> bool option"
    and attempt clock deadline n b
  assume IH: "\<And>attempt clock deadline n b. f attempt clock deadline n = Some b \<Longrightarrow>
      \<exists>k \<ge> n. attempt k \<or> deadline \<le> clock k"
    and eq: "(if attempt n then Some True
      else if deadline \<le> clock n then Some False else f attempt clock deadline (Suc n)) = Some b"
  show "\<exists>k \<ge> n. attempt k \<or> deadline \<le> clock k"
  proof (cases "attempt n \<or> deadline \<le> clock n")
    case True
    then show ?thesis by (intro exI [of _ n]) simp
  next
    case False
    with eq have "f attempt clock deadline (Suc n) = Some b" by simp
    from IH [OF this] show ?thesis by (meson Suc_leD)
  qed
qed

text \<open>
  C36: The wait for the lock returns exactly if the lock is granted at some poll or the clock reaches the deadline
  at some poll; it then reports whether the lock was granted no later than the deadline was noticed.
\<close>

theorem lock_wait_terminates:
  "(\<exists>granted. acquire_with_deadline attempt clock start timeout = Some granted)
     = (\<exists>n. attempt n \<or> start + timeout \<le> clock n)"
proof
  assume "\<exists>granted. acquire_with_deadline attempt clock start timeout = Some granted"
  then show "\<exists>n. attempt n \<or> start + timeout \<le> clock n"
    by (auto simp: acquire_with_deadline_def dest: poll_lock_Some)
next
  assume "\<exists>n. attempt n \<or> start + timeout \<le> clock n"
  then show "\<exists>granted. acquire_with_deadline attempt clock start timeout = Some granted"
    using poll_lock_stops [of attempt 0 _ "start + timeout" clock] by (auto simp: acquire_with_deadline_def)
qed

subsection \<open>Streams\<close>

definition stream_tokens :: "stream_event list \<Rightarrow> str list" where
  "stream_tokens evs = concat (map (\<lambda>e. case e of EvToken t \<Rightarrow> [t] | _ \<Rightarrow> []) evs)"

definition stream_citations :: "stream_event list \<Rightarrow> chat_citation list" where
  "stream_citations evs = concat (map (\<lambda>e. case e of EvCitation c \<Rightarrow> [c] | _ \<Rightarrow> []) evs)"

definition is_done :: "stream_event \<Rightarrow> bool" where
  "is_done e = (case e of EvDone d \<Rightarrow> True | _ \<Rightarrow> False)"

fun spoken_text :: "snapshot \<Rightarrow> str" where
  "spoken_text (AnswerSnapshot k p) = ap_text p"
| "spoken_text (ClarificationSnapshot m c d) = cl_question c"
| "spoken_text _ = []"

fun cited_in :: "snapshot \<Rightarrow> chat_citation list" where
  "cited_in (AnswerSnapshot k p) = ap_citations p"
| "cited_in _ = []"

lemma stream_tokens_simps [simp]:
  "stream_tokens [] = []" "stream_tokens (EvToken t # evs) = t # stream_tokens evs"
  "stream_tokens (EvMetadata m # evs) = stream_tokens evs" "stream_tokens (EvDone d # evs) = stream_tokens evs"
  "stream_tokens (EvExplanation x # evs) = stream_tokens evs" "stream_tokens (EvError c v # evs) = stream_tokens evs"
  "stream_tokens (EvClarification k # evs) = stream_tokens evs"
  "stream_tokens (xs @ ys) = stream_tokens xs @ stream_tokens ys"
  "stream_tokens (map EvToken ts) = ts" "stream_tokens (map EvCitation cs) = []"
  by (simp_all add: stream_tokens_def o_def)

lemma stream_citations_simps [simp]:
  "stream_citations [] = []" "stream_citations (EvToken t # evs) = stream_citations evs"
  "stream_citations (EvMetadata m # evs) = stream_citations evs" "stream_citations (EvDone d # evs) = stream_citations evs"
  "stream_citations (EvExplanation x # evs) = stream_citations evs"
  "stream_citations (EvError c v # evs) = stream_citations evs"
  "stream_citations (EvClarification k # evs) = stream_citations evs"
  "stream_citations (xs @ ys) = stream_citations xs @ stream_citations ys"
  "stream_citations (map EvToken ts) = []" "stream_citations (map EvCitation cs) = cs"
  by (simp_all add: stream_citations_def o_def)

lemma snapshot_events_done: "\<exists>front d. snapshot_events n s = front @ [EvDone d] \<and> \<not> list_ex is_done front"
proof (cases s)
  case (AnswerSnapshot k p)
  let ?f = "EvMetadata (ap_metadata p) # map EvToken (chunks n (ap_text p))
     @ (if ce_notes (ap_explanation p) \<noteq> [] \<or> ce_paths (ap_explanation p) \<noteq> []
        then [EvExplanation (ap_explanation p)] else []) @ map EvCitation (ap_citations p)"
  have "snapshot_events n s = ?f @ [EvDone (ap_done p)]" by (simp add: AnswerSnapshot)
  moreover have "\<not> list_ex is_done ?f" by (auto simp: list_ex_iff is_done_def split: if_splits)
  ultimately show ?thesis by blast
next
  case (ClarificationSnapshot m c d)
  let ?f = "EvMetadata m # EvClarification c # map EvToken (chunks n (cl_question c))"
  have "snapshot_events n s = ?f @ [EvDone d]" by (simp add: ClarificationSnapshot)
  moreover have "\<not> list_ex is_done ?f" by (auto simp: list_ex_iff is_done_def)
  ultimately show ?thesis by blast
next
  case (ErrorSnapshot c v d)
  then have "snapshot_events n s = [EvError c v] @ [EvDone d]" by simp
  moreover have "\<not> list_ex is_done [EvError c v]" by (simp add: is_done_def)
  ultimately show ?thesis by blast
qed auto

text \<open>
  C34: The tokens of a replayed snapshot, put together, are its text, whatever the chunk size; its citations come in
  their order, and exactly one event, the last, says that the stream is done.
\<close>

theorem stream_reassembles:
  assumes "stream_from_snapshot n s = Some evs"
  shows "concat (stream_tokens evs) = spoken_text s \<and> stream_citations evs = cited_in s
    \<and> (\<exists>front d. evs = front @ [EvDone d] \<and> \<not> list_ex is_done front)"
proof -
  from assms have n: "0 < n" and evs: "evs = snapshot_events n s"
    by (auto simp: stream_from_snapshot_def split: if_splits)
  have "concat (stream_tokens evs) = spoken_text s" "stream_citations evs = cited_in s"
    unfolding evs by (cases s; simp add: concat_chunks n)+
  with snapshot_events_done [of n s] show ?thesis by (simp add: evs)
qed

theorem stream_reassembles_witness:
  "concat (stream_tokens (snapshot_events 4 (written_snapshot greeting_write))) = greeting_text"
  using stream_reassembles [of 4 "written_snapshot greeting_write" "snapshot_events 4 (written_snapshot greeting_write)"]
  by (simp add: stream_from_snapshot_def written_snapshot_def greeting_write_def end_directly_def)

subsection \<open>The rewriter\<close>

lemma finalize_Inr:
  "finalize w anchors query = Inr out \<longleftrightarrow>
   out = py_strip query \<and> out \<noteq> [] \<and> py_len out \<le> rw_max_chars w \<and> list_all (carries (rw_language w) out) anchors"
  by (auto simp: finalize_def Let_def filter_empty_conv list_all_iff)


definition sample_candidate_of :: "str \<Rightarrow> resolved_candidate" where
  "sample_candidate_of article =
     \<lparr>rcd_node_id = ''12:'' @ article, rcd_node_type = UArticle, rcd_label = ''Article '' @ article, rcd_document_id = ''12'',
      rcd_document_number = Some ''12/2020'', rcd_article_id = Some (''12:'' @ article), rcd_article_number = None,
      rcd_clause_id = None, rcd_clause_number = None, rcd_point_id = None, rcd_point_label = None, rcd_metadata = []\<rparr>"

definition sample_rewriter :: rewriter where
  "sample_rewriter = \<lparr>rw_language = plain_language, rw_model = None, rw_max_chars = 4000\<rparr>"


subsection \<open>Clarifications\<close>

definition nonblank :: "str \<Rightarrow> bool" where
  "nonblank s \<longleftrightarrow> py_strip s \<noteq> []"

definition trimmed :: "str \<Rightarrow> bool" where
  "trimmed s \<longleftrightarrow> py_strip s = s \<and> s \<noteq> []"

text \<open>A candidate as the lookup and the focuses give it: identifiers without surrounding blanks.\<close>

definition storable :: "resolved_candidate \<Rightarrow> bool" where
  "storable c \<longleftrightarrow>
     nonblank (rcd_node_id c) \<and> nonblank (rcd_label c) \<and> trimmed (rcd_document_id c)
     \<and> (case rcd_article_id c of None \<Rightarrow> True | Some a \<Rightarrow> trimmed a)
     \<and> (case rcd_clause_id c of None \<Rightarrow> True | Some k \<Rightarrow> trimmed k)"

lemma optional_str_trimmed:
  "trimmed s \<Longrightarrow> optional_str (Some (JStr s)) = Inr (Some s)"
  by (simp add: optional_str_def trimmed_def)

lemma optional_str_None [simp]: "optional_str None = Inr None"
  by (simp add: optional_str_def)

lemma unit_type_value_trimmed: "trimmed (unit_type_value t)"
  by (cases t; simp add: trimmed_def; code_simp)

lemma candidate_json_roundtrip:
  assumes "storable c"
  shows "candidate_from_json (candidate_to_json (to_clarification_candidate m src message goal c))
    = Inr (to_clarification_candidate m src message goal c)"
  using assms unit_type_value_trimmed [of "rcd_node_type c"]
  by (cases "rcd_article_id c"; cases "rcd_clause_id c")
     (simp_all add: storable_def nonblank_def candidate_from_json_def candidate_to_json_def to_clarification_candidate_def
       optional_field_def required_str_def metadata_of_def optional_str_trimmed)

lemma method_of_value [simp]: "method_of (method_value m) = Some m"
  by (cases m) (simp_all add: method_of_def)

lemma goal_of_value [simp]: "goal_of (relation_goal_value g) = Some g"
  by (cases g) (simp_all add: goal_of_def)

lemma goal_value_nonempty [simp]: "relation_goal_value g \<noteq> []"
  by (cases g) simp_all

lemma unit_type_value_nonempty [simp]: "unit_type_value t \<noteq> []"
  by (cases t) simp_all

lemma json_text_opt [simp]: "json_text (Some (jstr_opt v)) = v"
  by (cases v) (simp_all add: json_text_def jstr_opt_def)

lemma selected_roundtrip:
  assumes "storable c" and "nonblank message"
  shows "resolve_selected (to_clarification_candidate m src message goal c)
    = Inr (Resolved \<lparr>rs_candidate = c, rs_method = m, rs_source = PendingClarification, rs_goal = goal,
                     rs_message = Some message\<rparr>)"
proof -
  have "metadata_goal (cand_metadata (to_clarification_candidate m src message goal c)) = Inr goal"
    by (cases goal) (simp_all add: metadata_goal_def to_clarification_candidate_def jstr_opt_def json_text_def)
  moreover have "metadata_method (cand_metadata (to_clarification_candidate m src message goal c)) = Inr m"
    by (simp add: metadata_method_def to_clarification_candidate_def json_text_def)
  moreover have "metadata_message (cand_metadata (to_clarification_candidate m src message goal c)) = Some message"
    using assms(2) by (simp add: metadata_message_def to_clarification_candidate_def json_text_def nonblank_def)
  moreover have "from_clarification_candidate (to_clarification_candidate m src message goal c) = Some c"
    using assms(1) by (simp add: from_clarification_candidate_def to_clarification_candidate_def json_object_def
        storable_def trimmed_def)
  ultimately show ?thesis by (simp add: resolve_selected_def)
qed

text \<open>
  C37: The candidates of a clarification survive the database: what is written as JSON is read back unchanged, and
  the candidate that a later turn selects is resolved to the reference, the method, the goal and the message of
  the turn that asked.
\<close>

theorem clarification_roundtrip:
  assumes "length cs \<le> 5" and "distinct (map rcd_node_id cs)" and "\<forall>c \<in> set cs. storable c" and "nonblank message"
  shows "\<exists>payload. candidates_to_json (map (to_clarification_candidate m src message goal) cs) = Inr payload
    \<and> candidates_from_json payload = Inr (map (to_clarification_candidate m src message goal) cs)
    \<and> (\<forall>c \<in> set cs. resolve_selected (to_clarification_candidate m src message goal c)
         = Inr (Resolved \<lparr>rs_candidate = c, rs_method = m, rs_source = PendingClarification, rs_goal = goal,
                          rs_message = Some message\<rparr>))"
proof -
  let ?f = "to_clarification_candidate m src message goal"
  have "map cand_id (map ?f cs) = map rcd_node_id cs" by (simp add: to_clarification_candidate_def)
  with assms(1,2) have valid: "validate_candidates (map ?f cs) = Inr (map ?f cs)"
    by (simp add: validate_candidates_def max_candidates_def del: map_map)
  have "rmapm candidate_from_json (map (candidate_to_json \<circ> ?f) cs) = Inr (map ?f cs)"
    using assms(3) by (induction cs) (simp_all add: candidate_json_roundtrip)
  with valid have "candidates_from_json (JArr (map (candidate_to_json \<circ> ?f) cs)) = Inr (map ?f cs)"
    by (simp add: candidates_from_json_def)
  moreover from valid have "candidates_to_json (map ?f cs) = Inr (JArr (map (candidate_to_json \<circ> ?f) cs))"
    by (simp add: candidates_to_json_def)
  ultimately show ?thesis using assms(3,4) selected_roundtrip by blast
qed

lemma sample_storable: "storable (sample_candidate_of ''5'')" "storable (sample_candidate_of ''6'')" "nonblank hello"
  by code_simp+

theorem clarification_roundtrip_witness:
  "resolve_selected (to_clarification_candidate ExactStructuralLookup CurrentMessage hello None (sample_candidate_of ''6''))
    = Inr (Resolved \<lparr>rs_candidate = sample_candidate_of ''6'', rs_method = ExactStructuralLookup,
        rs_source = PendingClarification, rs_goal = None, rs_message = Some hello\<rparr>)"
proof -
  let ?cs = "[sample_candidate_of ''5'', sample_candidate_of ''6'']"
  have "distinct (map rcd_node_id ?cs)" by (simp add: sample_candidate_of_def)
  with sample_storable clarification_roundtrip [of ?cs hello ExactStructuralLookup CurrentMessage None]
  show ?thesis by auto
qed

text \<open>
  C38: While a choice between candidates is pending, a message either cancels it, or chooses a candidate, or raises, or
  is answered by the same choice again: no new question, however complete, is ever looked at.
\<close>

theorem pending_choice_never_left:
  assumes "hc_pending ctx = Some pc" and "pc_mode pc = ModeSelect"
  shows "resolve rv message ctx \<in> {Inr Cancel, Inl RaisedValueError, Inr (select_again (pc_candidates pc))}
    \<union> resolve_selected ` set (pc_candidates pc)"
proof -
  have "c \<in> set (pc_candidates pc)" if "match_select L (pc_candidates pc) message = Some (Some c)" for L c
    using that by (auto simp: match_select_def Let_def find_Some_iff split: if_splits option.splits)
  then show ?thesis using assms
    by (auto simp: resolve_def resolve_pending_def split: option.splits)
qed

definition empty_choice :: pending_clarification where
  "empty_choice =
     \<lparr>pc_mode = ModeSelect, pc_question = [], pc_candidates = [], pc_source_turn = 1, pc_source_turn_no = 1\<rparr>"

theorem pending_choice_never_left_witness:
  "resolve deaf_resolver hello (no_history\<lparr>hc_pending := Some empty_choice\<rparr>)
     \<in> {Inr Cancel, Inl RaisedValueError, Inr (select_again [])}"
  using pending_choice_never_left [of "no_history\<lparr>hc_pending := Some empty_choice\<rparr>" empty_choice deaf_resolver hello]
  by (simp add: empty_choice_def)

lemma distinct_numbers_seen:
  "\<forall>c \<in> set cs. rcd_document_number c = Some n \<Longrightarrow> n \<noteq> [] \<Longrightarrow> n \<in> set seen \<Longrightarrow> distinct_numbers seen cs = []"
  by (induction cs) auto

lemma distinct_numbers_same:
  assumes "\<forall>c \<in> set cs. rcd_document_number c = Some n" and "n \<noteq> []" and "cs \<noteq> []"
  shows "distinct_numbers [] cs = [List.hd cs]"
  using assms distinct_numbers_seen [of _ n "[n]"] by (cases cs) auto

text \<open>
  C38: A message that names several units of one document is resolved to the first of them and the others are dropped
  without a word: the candidates are made distinct by their document number.
\<close>

theorem other_units_dropped:
  assumes "rmapm (rv_lookup rv) refs = Inr rowss"
    and "concat (map (\<lambda>(r, rows). lookup_candidates (rv_language rv) r rows) (zip refs rowss)) = c # cs"
    and "\<forall>x \<in> set (c # cs). rcd_document_number x = Some n" and "n \<noteq> []"
  shows "resolve_explicit rv refs message goal
    = Inr (Resolved \<lparr>rs_candidate = c, rs_method = ExactStructuralLookup, rs_source = CurrentMessage, rs_goal = goal,
                     rs_message = Some message\<rparr>)"
proof -
  have "rmapm (\<lambda>r. rbind (rv_lookup rv r) (\<lambda>rows. Inr (f r rows))) rs = Inr (map (\<lambda>(r, rows). f r rows) (zip rs xs))"
    if "rmapm (rv_lookup rv) rs = Inr xs" for f :: "explicit_reference \<Rightarrow> lookup_row list \<Rightarrow> resolved_candidate list" and rs xs
    using that by (induction rs arbitrary: xs) (auto simp: rbind_Inr_iff)
  from this [OF assms(1), of "lookup_candidates (rv_language rv)"]
  have candidates: "explicit_candidates rv refs = Inr (distinct_numbers [] (distinct_nodes (c # cs)))"
    using assms(2) by (simp add: explicit_candidates_def)
  obtain cs' where nodes: "distinct_nodes (c # cs) = c # cs'" and sub: "set cs' \<subseteq> set (c # cs)"
    using first_by_subset [of rcd_node_id "c # cs"] by (auto simp: distinct_nodes_def first_by_def)
  then have "\<forall>x \<in> set (c # cs'). rcd_document_number x = Some n" using assms(3) by auto
  from distinct_numbers_same [OF this assms(4)] candidates nodes show ?thesis
    by (simp add: resolve_explicit_def)
qed

definition article_row :: "str \<Rightarrow> lookup_row" where
  "article_row n =
     \<lparr>lr_document_id = ''12'', lr_document_number = Some ''12/2020'', lr_document_title = None, lr_doc_type = None,
      lr_issuer = None, lr_legal_status = None, lr_article_id = Some (''12:'' @ n), lr_article_number = Some n,
      lr_clause_id = None, lr_clause_number = None, lr_point_id = None, lr_point_label = None\<rparr>"

definition article_reference :: "str \<Rightarrow> explicit_reference" where
  "article_reference n =
     \<lparr>er_number = Some ''12/2020'', er_law = None, er_year = None, er_article = Some n, er_clause = None, er_point = None\<rparr>"

definition article_resolver :: resolver where
  "article_resolver = deaf_resolver\<lparr>rv_lookup := \<lambda>r. Inr [article_row (str_or (er_article r) [])]\<rparr>"

theorem other_units_dropped_witness:
  "resolve_explicit article_resolver [article_reference ''5'', article_reference ''6''] hello None
    = Inr (Resolved \<lparr>rs_candidate = row_to_candidate (article_row ''5''), rs_method = ExactStructuralLookup,
        rs_source = CurrentMessage, rs_goal = None, rs_message = Some hello\<rparr>)"
  using other_units_dropped [of article_resolver "[article_reference ''5'', article_reference ''6'']"
      "[[article_row ''5''], [article_row ''6'']]" "row_to_candidate (article_row ''5'')"
      "[row_to_candidate (article_row ''6'')]" "''12/2020''" hello None]
  by (simp add: article_resolver_def article_reference_def deaf_resolver_def lookup_candidates_def row_to_candidate_def
      article_row_def)

subsection \<open>Subqueries\<close>


definition comparison_result :: processing_result where
  "comparison_result =
     \<lparr>pr_status = Ready, pr_standalone_query = Some ''x'', pr_plan_type = Some ComparisonPlan,
      pr_subqueries = [\<lparr>sub_id = ''s1'', sub_query = ''x'', sub_intent = SubFactual, sub_depends_on = []\<rparr>],
      pr_clarification = None\<rparr>"


lemma first_by_from_seen: "x \<in> set (first_by_from seen key xs) \<Longrightarrow> key x \<notin> set seen"
  by (induction xs arbitrary: seen) (auto split: if_splits, metis insertI2 list.set(2))

lemma first_by_from_first:
  assumes "find (\<lambda>y. key y = k) xs = Some e" and "x \<in> set (first_by_from seen key xs)" and "key x = k"
  shows "x = e"
  using assms
proof (induction xs arbitrary: seen)
  case (Cons y xs)
  show ?case
  proof (cases "key y = k")
    case True
    with Cons.prems(1) have "y = e" by simp
    moreover from Cons.prems(2) have "x = y \<or> x \<in> set (first_by_from (key y # seen) key xs)"
      using first_by_from_seen [OF Cons.prems(2)] Cons.prems(3) True by (auto split: if_splits)
    ultimately show ?thesis
      using first_by_from_seen [of x "key y # seen" key xs] Cons.prems(3) True by auto
  next
    case False
    with Cons.prems have "find (\<lambda>y. key y = k) xs = Some e" "x = y \<or> (\<exists>seen. x \<in> set (first_by_from seen key xs))"
      by (auto split: if_splits)
    with Cons.IH Cons.prems(3) False show ?thesis by blast
  qed
qed simp

lemma find_concat: "find P xs = Some e \<Longrightarrow> find P (xs @ ys) = Some e"
  by (induction xs) auto

text \<open>
  C40: The merge of the contexts of the subqueries keeps the first evidence of a unit, not the best: a unit that the
  first subquery only met on a path, and that the second retrieved as eligible evidence, has no eligible evidence in
  the merged context, although the composition plan offers it as evidence of the second operand.
\<close>

theorem merge_hides_eligible:
  assumes "build_composition_plan res [c1, c2] = Inr (Some [operand1, operand2])" and "u \<in> set (co_units operand2)"
    and "find (\<lambda>e. ev_unit_id e = u) (rc_evidence c1) = Some e1" and "\<not> ev_eligible e1"
    and "merge_contexts [c1, c2] query = Inr c"
  shows "(\<exists>e \<in> set (rc_evidence c2). ev_unit_id e = u \<and> ev_eligible e)
    \<and> (\<forall>e \<in> set (rc_evidence c). ev_unit_id e = u \<longrightarrow> \<not> ev_eligible e)"
proof
  from assms(1) obtain q1 q2 where "pr_subqueries res = [q1, q2]" "operand2 = composition_operand_of (q2, c2)"
    by (auto simp: build_composition_plan_def Let_def length_Suc_conv split: if_splits)
  with assms(2) show "\<exists>e \<in> set (rc_evidence c2). ev_unit_id e = u \<and> ev_eligible e"
    by (auto simp: composition_operand_of_def)
  from assms(5) have c: "rc_evidence c = first_by ev_unit_id (rc_evidence c1 @ rc_evidence c2)"
    by (auto simp: merge_contexts_def)
  show "\<forall>e \<in> set (rc_evidence c). ev_unit_id e = u \<longrightarrow> \<not> ev_eligible e"
  proof (intro ballI impI)
    fix e assume "e \<in> set (rc_evidence c)" and "ev_unit_id e = u"
    with first_by_from_first [OF find_concat [OF assms(3)]] c have "e = e1" by (simp add: first_by_def)
    with assms(4) show "\<not> ev_eligible e" by simp
  qed
qed

definition two_subqueries :: processing_result where
  "two_subqueries = comparison_result\<lparr>pr_subqueries :=
     [\<lparr>sub_id = ''s1'', sub_query = ''x'', sub_intent = SubFactual, sub_depends_on = []\<rparr>,
      \<lparr>sub_id = ''s2'', sub_query = ''y'', sub_intent = SubFactual, sub_depends_on = []\<rparr>]\<rparr>"

definition other_article :: retrieved_unit where
  "other_article = sample_article\<lparr>unit_id := ''B''\<rparr>"

definition eligible_evidence :: "str \<Rightarrow> bool \<Rightarrow> evidence_item" where
  "eligible_evidence u b =
     \<lparr>ev_unit_id = u, ev_type = EvGraph, ev_matched_text = None, ev_score = None, ev_source_path = None, ev_eligible = b\<rparr>"

definition path_context :: retrieval_context where
  "path_context = sample_answer_context\<lparr>rc_units := [sample_article],
     rc_evidence := [eligible_evidence ''A'' True, eligible_evidence ''B'' False]\<rparr>"

definition unit_context :: retrieval_context where
  "unit_context = sample_answer_context\<lparr>rc_units := [other_article], rc_evidence := [eligible_evidence ''B'' True]\<rparr>"

theorem merge_hides_eligible_witness:
  "\<exists>c. merge_contexts [path_context, unit_context] ''z'' = Inr c
     \<and> filter (\<lambda>e. ev_unit_id e = ''B'' \<and> ev_eligible e) (rc_evidence c) = []"
proof -
  let ?ops = "[\<lparr>co_id = ''s1'', co_query = ''x'', co_units = [''A'']\<rparr>, \<lparr>co_id = ''s2'', co_query = ''y'', co_units = [''B'']\<rparr>]"
  have ids: "unit_id sample_article = ''A''" "unit_id other_article = ''B''" by (simp_all add: other_article_def)
  have evidence: "ev_unit_id ` set (filter ev_eligible (rc_evidence path_context)) = {''A''}"
    "ev_unit_id ` set (filter ev_eligible (rc_evidence unit_context)) = {''B''}"
    by (simp_all add: path_context_def unit_context_def eligible_evidence_def)
  have units: "rc_units path_context = [sample_article]" "rc_units unit_context = [other_article]"
    by (simp_all add: path_context_def unit_context_def)
  have plan: "composition_plan_ok ?ops" by code_simp
  have ops: "build_composition_plan two_subqueries [path_context, unit_context] = Inr (Some ?ops)"
    using plan by (simp add: build_composition_plan_def two_subqueries_def comparison_result_def composition_operand_of_def
        evidence units ids del: set_filter)
  have e1: "find (\<lambda>e. ev_unit_id e = ''B'') (rc_evidence path_context) = Some (eligible_evidence ''B'' False)"
    by (simp add: path_context_def eligible_evidence_def)
  obtain c where c: "merge_contexts [path_context, unit_context] ''z'' = Inr c" by (simp add: merge_contexts_def)
  from merge_hides_eligible [OF ops _ e1 _ c] have "\<forall>e \<in> set (rc_evidence c). ev_unit_id e = ''B'' \<longrightarrow> \<not> ev_eligible e"
    by (simp add: eligible_evidence_def)
  with c show ?thesis by (auto simp: filter_empty_conv)
qed

end
