(* ===== verification/Query_Routing.thy ===== *)
theory Query_Routing
  imports Reference_Parsing Runtime Calendar
begin

text \<open>
  The reading of a question by the retrieval runtime: the temporal parser (\<open>src/retrieval/query/temporal_parser.py\<close>),
  the classification of the intent (\<open>src/retrieval/nlu/classifier.py\<close>,
    \<open>query/query_analyzer.py\<close>), the router
  (\<open>src/retrieval/routing/router.py\<close>) and the preparation of a retrieval
    (\<open>src/retrieval/runtime/runtime.py\<close>).
  The text generators and the clock are parameters; the explanation of a decision in words is not modelled.
\<close>

subsection \<open>Errors\<close>

text \<open>Beside the typed errors of retrieval, exceptions of Python that no caller of the router catches.\<close>

datatype routing_error =
    RoutingRejected retrieval_error
  | UncaughtValueError
  | UncaughtAttributeError
  | UncaughtValidation
  | UncaughtTextGeneration

subsection \<open>Temporal expressions\<close>

definition current_validity_rx :: regex where
  "current_validity_rx =
     Group 1 (alts [lits (''hi'' @ [CHR 0xE1, CHR 0xBB, CHR 0x87] @ ''n h'' @ [CHR 0xC3, CHR 0xA0] @
     ''nh''), lits (''hi'' @ [CHR 0xE1, CHR 0xBB, CHR 0x87] @ ''n nay''), lits ([CHR 0xC4, CHR 0x91] @
     ''ang c'' @ [CHR 0xC3, CHR 0xB3] @ '' hi'' @ [CHR 0xE1, CHR 0xBB, CHR 0x87] @ ''u l'' @ [CHR 0xE1,
     CHR 0xBB, CHR 0xB1] @ ''c''), seqs [lits (''c'' @ [CHR 0xC3, CHR 0xB2] @ ''n hi'' @ [CHR 0xE1, CHR
     0xBB, CHR 0x87] @ ''u l'' @ [CHR 0xE1, CHR 0xBB, CHR 0xB1] @ ''c''), opt True (seqs [blanks, lits
     (''kh'' @ [CHR 0xC3, CHR 0xB4] @ ''ng'')])]])"
definition duration_rx :: regex where
  "duration_rx =
     alts [seqs [alts [lits (''bao nhi'' @ [CHR 0xC3, CHR 0xAA] @ ''u''), lits (''m'' @ [CHR 0xE1, CHR
     0xBA, CHR 0xA5] @ ''y''), lits (''s'' @ [CHR 0xE1, CHR 0xBB, CHR 0x91])], blanks, alts [lits
     (''ng'' @ [CHR 0xC3, CHR 0xA0] @ ''y''), lits (''th'' @ [CHR 0xC3, CHR 0xA1] @ ''ng''), lits
     (''n'' @ [CHR 0xC4, CHR 0x83] @ ''m'')]], seqs [alts [lits (''h'' @ [CHR 0xC6, CHR 0xA1] @ ''n''),
     lits (''tr'' @ [CHR 0xC3, CHR 0xAA] @ ''n''), lits (''kho'' @ [CHR 0xE1, CHR 0xBA, CHR 0xA3] @
     ''ng''), lits ''sau'', lits ''trong'', lits (''qu'' @ [CHR 0xC3, CHR 0xA1])], blanks, digits,
     blanks, alts [lits (''ng'' @ [CHR 0xC3, CHR 0xA0] @ ''y''), lits (''th'' @ [CHR 0xC3, CHR 0xA1] @
     ''ng''), lits (''n'' @ [CHR 0xC4, CHR 0x83] @ ''m'')]], seqs [alts [lits (''h'' @ [CHR 0xC3, CHR
     0xA0] @ ''ng''), lits (''h'' @ [CHR 0xE1, CHR 0xBA, CHR 0xB1] @ ''ng''), lits (''m'' @ [CHR 0xE1,
     CHR 0xBB, CHR 0x97] @ ''i''), lits (''m'' @ [CHR 0xE1, CHR 0xBB, CHR 0x8D] @ ''i''), lits (''v'' @
     [CHR 0xC3, CHR 0xA0] @ ''i''), lits (''c'' @ [CHR 0xC3, CHR 0xA1] @ ''c'')], blanks, alts [lits
     (''ng'' @ [CHR 0xC3, CHR 0xA0] @ ''y''), lits (''th'' @ [CHR 0xC3, CHR 0xA1] @ ''ng''), lits
     (''n'' @ [CHR 0xC4, CHR 0x83] @ ''m'')]], seqs [digits, blanks, alts [lits (''ng'' @ [CHR 0xC3,
     CHR 0xA0] @ ''y''), lits (''th'' @ [CHR 0xC3, CHR 0xA1] @ ''ng'')], WordEdge], seqs [Behind False
     4 (seqs [lits (''n'' @ [CHR 0xC4, CHR 0x83] @ ''m''), blank]), WordEdge, repeat True 1 3 digit,
     blanks, lits (''n'' @ [CHR 0xC4, CHR 0x83] @ ''m''), WordEdge], seqs [lits (''ng'' @ [CHR 0xC3,
     CHR 0xA0] @ ''y''), blanks, alts [lits (''l'' @ [CHR 0xC3, CHR 0xA0] @ ''m vi'' @ [CHR 0xE1, CHR
     0xBB, CHR 0x87] @ ''c''), lits (''ngh'' @ [CHR 0xE1, CHR 0xBB, CHR 0x89]), lits (''l'' @ [CHR
     0xE1, CHR 0xBB, CHR 0x85]), lits (''t'' @ [CHR 0xE1, CHR 0xBA, CHR 0xBF] @ ''t'')]], seqs [lits
     ''sau'', blanks, lits (''thu'' @ [CHR 0xE1, CHR 0xBA, CHR 0xBF])], seqs [lits (''th'' @ [CHR 0xE1,
     CHR 0xBB, CHR 0x9D] @ ''i h'' @ [CHR 0xE1, CHR 0xBA, CHR 0xA1] @ ''n''), blanks, alts [lits
     (''bao nhi'' @ [CHR 0xC3, CHR 0xAA] @ ''u''), lits (''m'' @ [CHR 0xE1, CHR 0xBA, CHR 0xA5] @
     ''y''), digits]]]"
definition temporal_words_rx :: regex where
  "temporal_words_rx =
     seqs [WordEdge, alts [seqs [lits (''ng'' @ [CHR 0xC3, CHR 0xA0] @ ''y''), blanks, repeat True 1 2
     digit, WordEdge], seqs [lits (''n'' @ [CHR 0xC4, CHR 0x83] @ ''m''), blanks, repeat True 4 4
     digit, WordEdge], seqs [lits (''th'' @ [CHR 0xE1, CHR 0xBB, CHR 0x9D] @ ''i '' @ [CHR 0xC4, CHR
     0x91] @ ''i'' @ [CHR 0xE1, CHR 0xBB, CHR 0x83] @ ''m''), blanks, digit], seqs [lits (''hi'' @ [CHR
     0xE1, CHR 0xBB, CHR 0x87] @ ''u l'' @ [CHR 0xE1, CHR 0xBB, CHR 0xB1] @ ''c''), WordEdge], seqs
     [lits ([CHR 0xC3, CHR 0xA1] @ ''p d'' @ [CHR 0xE1, CHR 0xBB, CHR 0xA5] @ ''ng''), WordEdge], seqs
     [alts [lits (''tr'' @ [CHR 0xC6, CHR 0xB0, CHR 0xE1, CHR 0xBB, CHR 0x9B] @ ''c''), lits ''sau''],
     blanks, alts [lits (''ng'' @ [CHR 0xC3, CHR 0xA0] @ ''y''), lits (''th'' @ [CHR 0xC3, CHR 0xA1] @
     ''ng''), lits (''n'' @ [CHR 0xC4, CHR 0x83] @ ''m''), lits (''th'' @ [CHR 0xE1, CHR 0xBB, CHR
     0x9D] @ ''i '' @ [CHR 0xC4, CHR 0x91] @ ''i'' @ [CHR 0xE1, CHR 0xBB, CHR 0x83] @ ''m''), digit]]]]"
definition version_span_rx :: regex where
  "version_span_rx =
     alts [seqs [lits (''tr'' @ [CHR 0xC6, CHR 0xB0, CHR 0xE1, CHR 0xBB, CHR 0x9B] @ ''c v'' @ [CHR
     0xC3, CHR 0xA0] @ '' sau khi''), blanks, alts [lits (''s'' @ [CHR 0xE1, CHR 0xBB, CHR 0xAD] @
     ''a '' @ [CHR 0xC4, CHR 0x91, CHR 0xE1, CHR 0xBB, CHR 0x95] @ ''i''), lits (''b'' @ [CHR 0xC3, CHR
     0xA3] @ ''i b'' @ [CHR 0xE1, CHR 0xBB, CHR 0x8F]), lits (''thay th'' @ [CHR 0xE1, CHR 0xBA, CHR
     0xBF])]], seqs [alts [lits (''tr'' @ [CHR 0xC6, CHR 0xB0, CHR 0xE1, CHR 0xBB, CHR 0x9B] @ ''c''),
     lits ''sau''], lits '' khi'', blanks, alts [lits (''s'' @ [CHR 0xE1, CHR 0xBB, CHR 0xAD] @ ''a ''
     @ [CHR 0xC4, CHR 0x91, CHR 0xE1, CHR 0xBB, CHR 0x95] @ ''i''), lits (''b'' @ [CHR 0xC3, CHR 0xA3]
     @ ''i b'' @ [CHR 0xE1, CHR 0xBB, CHR 0x8F]), lits (''thay th'' @ [CHR 0xE1, CHR 0xBA, CHR
     0xBF])]]]"
definition year_rx :: regex where
  "year_rx =
     seqs [alts [lits (''n'' @ [CHR 0xC4, CHR 0x83] @ ''m''), lits (''trong n'' @ [CHR 0xC4, CHR 0x83]
     @ ''m'')], blanks0, Group 1 (repeat True 4 4 digit)]"
definition month_year_rx :: regex where
  "month_year_rx =
     seqs [lits (''th'' @ [CHR 0xC3, CHR 0xA1] @ ''ng''), blanks0, Group 1 (repeat True 1 2 digit),
     blanks0, alts [lits (''n'' @ [CHR 0xC4, CHR 0x83] @ ''m''), lits ''/''], blanks0, Group 2 (repeat
     True 4 4 digit)]"
definition date_rx :: regex where
  "date_rx =
     alts [seqs [opt True (seqs [lits (''ng'' @ [CHR 0xC3, CHR 0xA0] @ ''y''), blanks0]), Group 1
     (repeat True 1 2 digit), Class False [ItemChar ''/'', ItemChar ''-''], Group 2 (repeat True 1 2
     digit), Class False [ItemChar ''/'', ItemChar ''-''], Group 3 (repeat True 4 4 digit)], seqs [lits
     (''ng'' @ [CHR 0xC3, CHR 0xA0] @ ''y''), blanks0, Group 4 (repeat True 1 2 digit), blanks0, lits
     (''th'' @ [CHR 0xC3, CHR 0xA1] @ ''ng''), blanks0, Group 5 (repeat True 1 2 digit), blanks0, lits
     (''n'' @ [CHR 0xC4, CHR 0x83] @ ''m''), blanks0, Group 6 (repeat True 4 4 digit)]]"
definition iso_rx :: regex where
  "iso_rx =
     seqs [WordEdge, Group 1 (repeat True 4 4 digit), lits ''-'', Group 2 (repeat True 2 2 digit), lits
     ''-'', Group 3 (repeat True 2 2 digit), WordEdge]"

text \<open>The expression \<open>datetime.strptime\<close> compiles for \<open>%Y-%m-%d\<close>.\<close>

definition strptime_rx :: regex where
  "strptime_rx =
     seqs [Group 1 (seqs [digit, digit, digit, digit]), lits ''-'', Group 2 (alts [seqs [lits ''1'',
     Class False [ItemRange 48 50]], seqs [lits ''0'', Class False [ItemRange 49 57]], Class False
     [ItemRange 49 57]]), lits ''-'', Group 3 (alts [seqs [lits ''3'', Class False [ItemRange 48 49]],
     seqs [Class False [ItemRange 49 50], digit], seqs [lits ''0'', Class False [ItemRange 49 57]],
     Class False [ItemRange 49 57], seqs [lits '' '', Class False [ItemRange 49 57]]])]"

definition no_temporal :: temporal_query where
  "no_temporal =
     \<lparr>has_temporal = False, expression = None, resolved_from = None, resolved_to = None, granularity = None,
      parse_error = None, requests_current_validity = False, spans_all_versions = False\<rparr>"

definition period_query :: "str \<Rightarrow> date \<Rightarrow> date \<Rightarrow> str \<Rightarrow> bool
  \<Rightarrow> temporal_query" where
  "period_query e a b unit current =
     no_temporal\<lparr>has_temporal := True, expression := Some e, resolved_from := Some a, resolved_to := Some b,
       granularity := Some unit, requests_current_validity := current\<rparr>"

definition matched_groups :: "nat \<Rightarrow> rmatch \<Rightarrow> str list" where
  "matched_groups n m = List.map_filter (rm_group m) [1..<Suc n]"

definition to_date :: "unicode \<Rightarrow> str \<Rightarrow> str \<Rightarrow> str \<Rightarrow> date option" where
  "to_date U y m d =
     (case (py_int U y, py_int U m, py_int U d) of
        (Some y, Some m, Some d) \<Rightarrow> make_date (int y) (int m) (int d)
      | _ \<Rightarrow> None)"

text \<open>\<open>_parse_day\<close>; the expressions have six and three groups.\<close>

definition parse_day :: "unicode \<Rightarrow> rmatch \<Rightarrow> date option" where
  "parse_day U m =
     (case matched_groups 6 m of
        a # b # c # rest \<Rightarrow>
          if CHR ''-'' \<in> set (rm_text m) \<and> rest = [] \<and> py_len a = 4 then to_date U a b c else
            to_date U c b a
      | _ \<Rightarrow> None)"

definition explicit_day :: "unicode \<Rightarrow> str \<Rightarrow> rmatch option" where
  "explicit_day U query =
     (case rx_search U True date_rx query of Some m \<Rightarrow> Some m | None \<Rightarrow> rx_search U False iso_rx query)"

text \<open>What the optional text generator may do: raise its own error, give no JSON, or give a JSON value.\<close>

datatype generated =
    GenerationRaises
  | GeneratedNoJson
  | GeneratedJson json

definition parse_iso_date :: "unicode \<Rightarrow> json option \<Rightarrow> date option" where
  "parse_iso_date U v =
     (case v of
        Some (JStr s) \<Rightarrow>
          (case rx_match U True strptime_rx s of
             Some m \<Rightarrow>
               if rm_text m = s
               then to_date U (str_or (rm_group m 1) []) (str_or (rm_group m 2) []) (py_strip (str_or (rm_group m 3) []))
               else None
           | None \<Rightarrow> None)
      | _ \<Rightarrow> None)"

definition nullable_text :: "json option \<Rightarrow> routing_error + str option" where
  "nullable_text v =
     (case v of None \<Rightarrow> Inr None | Some JNull \<Rightarrow> Inr None | Some (JStr s) \<Rightarrow>
       Inr (Some s) | _ \<Rightarrow> Inl UncaughtValidation)"

definition parse_with_fallback :: "unicode \<Rightarrow> (str \<Rightarrow> generated) \<Rightarrow> str
  \<Rightarrow> routing_error + temporal_query" where
  "parse_with_fallback U llm query =
     (case llm query of
        GenerationRaises \<Rightarrow> Inl UncaughtTextGeneration
      | GeneratedNoJson \<Rightarrow> Inr no_temporal
      | GeneratedJson (JObj data) \<Rightarrow>
          (let a = parse_iso_date U (map_of data ''resolved_from''); b = parse_iso_date U (map_of data
            ''resolved_to'');
               temporal = (case map_of data ''has_temporal'' of None \<Rightarrow> False | Some v \<Rightarrow>
                 json_truthy v) in
           if temporal \<and> a = None then Inr no_temporal
           else rbind (nullable_text (map_of data ''expression'')) (\<lambda>e.
                rbind (nullable_text (map_of data ''granularity'')) (\<lambda>g.
                  Inr (no_temporal\<lparr>has_temporal := temporal, expression := e, resolved_from := a, resolved_to := b,
                    granularity := g\<rparr>))))
      | GeneratedJson v \<Rightarrow> Inl UncaughtAttributeError)"

definition month_query :: "unicode \<Rightarrow> rmatch \<Rightarrow> bool \<Rightarrow> (routing_error +
  temporal_query) option" where
  "month_query U m current =
     (case (py_int U (str_or (rm_group m 1) []), py_int U (str_or (rm_group m 2) [])) of
        (Some month, Some year) \<Rightarrow>
          if 1 \<le> month \<and> month \<le> 12
          then Some (case (make_date (int year) (int month) 1,
                           make_date (int year) (int month) (days_in_month (is_leap (int year)) (int month))) of
                       (Some a, Some b) \<Rightarrow> Inr (period_query (rm_text m) a b ''month'' current)
                     | _ \<Rightarrow> Inl UncaughtValueError)
          else None
      | _ \<Rightarrow> Some (Inl UncaughtValueError))"

definition year_query :: "unicode \<Rightarrow> rmatch \<Rightarrow> bool \<Rightarrow> routing_error + temporal_query" where
  "year_query U m current =
     (case py_int U (str_or (rm_group m 1) []) of
        None \<Rightarrow> Inl UncaughtValueError
      | Some year \<Rightarrow>
          (case (make_date (int year) 1 1, make_date (int year) 12 31) of
             (Some a, Some b) \<Rightarrow> Inr (period_query (rm_text m) a b ''year'' current)
           | _ \<Rightarrow> Inl UncaughtValueError))"

text \<open>The part of \<open>parse\<close> behind the calendar expressions.\<close>

definition parse_words :: "unicode \<Rightarrow> (str \<Rightarrow> generated) option \<Rightarrow> str
  \<Rightarrow> routing_error + temporal_query" where
  "parse_words U llm query =
     (case rx_search U True version_span_rx query of
        Some m \<Rightarrow> Inr (no_temporal\<lparr>expression := Some (rm_text m), spans_all_versions := True\<rparr>)
      | None \<Rightarrow>
          if rx_found U True duration_rx query then Inr no_temporal
          else if rx_found U True temporal_words_rx query
          then (case llm of None \<Rightarrow> Inr no_temporal | Some answer \<Rightarrow> parse_with_fallback U answer query)
          else Inr no_temporal)"

definition parse_period :: "unicode \<Rightarrow> (str \<Rightarrow> generated) option \<Rightarrow> str
  \<Rightarrow> routing_error + temporal_query" where
  "parse_period U llm query =
     (case Option.bind (rx_search U True month_year_rx query) (\<lambda>m. month_query U m False) of
        Some r \<Rightarrow> r
      | None \<Rightarrow>
          (case rx_search U True year_rx query of
             Some m \<Rightarrow> year_query U m False
           | None \<Rightarrow> parse_words U llm query))"

text \<open>\<open>TemporalParser.parse\<close>\<close>

definition parse_temporal :: "unicode \<Rightarrow> (str \<Rightarrow> generated) option \<Rightarrow> str
  \<Rightarrow> routing_error + temporal_query" where
  "parse_temporal U llm query =
     (let current = rx_search U True current_validity_rx query in
      case Option.bind (explicit_day U query) (\<lambda>m. map_option (\<lambda>d. (m, d)) (parse_day U m)) of
        Some (m, d) \<Rightarrow> Inr (period_query (rm_text m) d d ''day'' (current \<noteq> None))
      | None \<Rightarrow>
          (case current of
             Some m \<Rightarrow> Inr (no_temporal\<lparr>has_temporal := True, expression := Some (rm_text m),
                               requests_current_validity := True\<rparr>)
           | None \<Rightarrow> parse_period U llm query))"

subsection \<open>Intents\<close>

datatype rule_confidence = HighConfidence | LowConfidence

definition multi_hop_rx :: regex where
  "multi_hop_rx =
     Group 1 (alts [lits (''nhi'' @ [CHR 0xE1, CHR 0xBB, CHR 0x81] @ ''u b'' @ [CHR 0xC6, CHR 0xB0, CHR
     0xE1, CHR 0xBB, CHR 0x9B] @ ''c''), lits (''qua nhi'' @ [CHR 0xE1, CHR 0xBB, CHR 0x81] @ ''u''),
     seqs [lits (''li'' @ [CHR 0xC3, CHR 0xAA] @ ''n h'' @ [CHR 0xE1, CHR 0xBB, CHR 0x87]), Many True
     Dot, alts [lits ([CHR 0xC4, CHR 0x91] @ ''i'' @ [CHR 0xE1, CHR 0xBB, CHR 0x81] @ ''u''), lits
     (''v'' @ [CHR 0xC4, CHR 0x83] @ ''n b'' @ [CHR 0xE1, CHR 0xBA, CHR 0xA3] @ ''n'')]], lits (''d'' @
     [CHR 0xE1, CHR 0xBA, CHR 0xAB] @ ''n chi'' @ [CHR 0xE1, CHR 0xBA, CHR 0xBF] @ ''u''), seqs [lits
     (''th'' @ [CHR 0xE1, CHR 0xBB, CHR 0xA7] @ '' t'' @ [CHR 0xE1, CHR 0xBB, CHR 0xA5] @ ''c''), Many
     True Dot, lits (''h'' @ [CHR 0xC6, CHR 0xB0, CHR 0xE1, CHR 0xBB, CHR 0x9B] @ ''ng d'' @ [CHR 0xE1,
     CHR 0xBA, CHR 0xAB] @ ''n'')]])"
definition hierarchy_rx :: regex where
  "hierarchy_rx =
     Group 1 (alts [lits (''thu'' @ [CHR 0xE1, CHR 0xBB, CHR 0x99] @ ''c ch'' @ [CHR 0xC6, CHR 0xB0,
     CHR 0xC6, CHR 0xA1] @ ''ng''), lits (''thu'' @ [CHR 0xE1, CHR 0xBB, CHR 0x99] @ ''c '' @ [CHR
     0xC4, CHR 0x91] @ ''i'' @ [CHR 0xE1, CHR 0xBB, CHR 0x81] @ ''u''), lits (''thu'' @ [CHR 0xE1, CHR
     0xBB, CHR 0x99] @ ''c kho'' @ [CHR 0xE1, CHR 0xBA, CHR 0xA3] @ ''n''), lits (''n'' @ [CHR 0xE1,
     CHR 0xBA, CHR 0xB1] @ ''m '' @ [CHR 0xE1, CHR 0xBB, CHR 0x9F] @ '' ch'' @ [CHR 0xC6, CHR 0xB0, CHR
     0xC6, CHR 0xA1] @ ''ng''), seqs [lits (''v'' @ [CHR 0xC4, CHR 0x83] @ ''n b'' @ [CHR 0xE1, CHR
     0xBA, CHR 0xA3] @ ''n''), Many True Dot, lits (''h'' @ [CHR 0xC6, CHR 0xB0, CHR 0xE1, CHR 0xBB,
     CHR 0x9B] @ ''ng d'' @ [CHR 0xE1, CHR 0xBA, CHR 0xAB] @ ''n'')], lits (''quan h'' @ [CHR 0xE1, CHR
     0xBB, CHR 0x87] @ '' th'' @ [CHR 0xE1, CHR 0xBB, CHR 0xA9] @ '' b'' @ [CHR 0xE1, CHR 0xBA, CHR
     0xAD] @ ''c'')])"
definition definition_rx :: regex where
  "definition_rx =
     Group 1 (alts [lits (''l'' @ [CHR 0xC3, CHR 0xA0] @ '' g'' @ [CHR 0xC3, CHR 0xAC]), seqs
     [WordEdge, lits ([CHR 0xC4, CHR 0x91, CHR 0xE1, CHR 0xBB, CHR 0x8B] @ ''nh ngh'' @ [CHR 0xC4, CHR
     0xA9] @ ''a''), WordEdge], lits ([CHR 0xC4, CHR 0x91, CHR 0xC6, CHR 0xB0, CHR 0xE1, CHR 0xBB, CHR
     0xA3] @ ''c hi'' @ [CHR 0xE1, CHR 0xBB, CHR 0x83] @ ''u th'' @ [CHR 0xE1, CHR 0xBA, CHR 0xBF] @
     '' n'' @ [CHR 0xC3, CHR 0xA0] @ ''o''), lits (''th'' @ [CHR 0xE1, CHR 0xBA, CHR 0xBF] @ '' n'' @
     [CHR 0xC3, CHR 0xA0] @ ''o l'' @ [CHR 0xC3, CHR 0xA0]), seqs [WordEdge, lits (''kh'' @ [CHR 0xC3,
     CHR 0xA1] @ ''i ni'' @ [CHR 0xE1, CHR 0xBB, CHR 0x87] @ ''m''), WordEdge]])"
definition comparison_rx :: regex where
  "comparison_rx =
     Group 1 (alts [lits (''kh'' @ [CHR 0xC3, CHR 0xA1] @ ''c nhau''), lits (''gi'' @ [CHR 0xE1, CHR
     0xBB, CHR 0x91] @ ''ng nhau''), lits (''so s'' @ [CHR 0xC3, CHR 0xA1] @ ''nh''), lits (''tr'' @
     [CHR 0xC6, CHR 0xB0, CHR 0xE1, CHR 0xBB, CHR 0x9B] @ ''c v'' @ [CHR 0xC3, CHR 0xA0] @ '' sau'')])"
definition validity_rx :: regex where
  "validity_rx =
     Group 1 (alts [lits (''s'' @ [CHR 0xE1, CHR 0xBB, CHR 0xAD] @ ''a '' @ [CHR 0xC4, CHR 0x91, CHR
     0xE1, CHR 0xBB, CHR 0x95] @ ''i''), lits (''b'' @ [CHR 0xC3, CHR 0xA3] @ ''i b'' @ [CHR 0xE1, CHR
     0xBB, CHR 0x8F]), lits (''thay th'' @ [CHR 0xE1, CHR 0xBA, CHR 0xBF]), lits (''h'' @ [CHR 0xE1,
     CHR 0xBA, CHR 0xBF] @ ''t hi'' @ [CHR 0xE1, CHR 0xBB, CHR 0x87] @ ''u l'' @ [CHR 0xE1, CHR 0xBB,
     CHR 0xB1] @ ''c''), seqs [alts [lits (''c'' @ [CHR 0xC3, CHR 0xB3]), lits ([CHR 0xC4, CHR 0x91] @
     ''ang c'' @ [CHR 0xC3, CHR 0xB3]), lits (''c'' @ [CHR 0xC3, CHR 0xB2] @ ''n'')], lits ('' hi'' @
     [CHR 0xE1, CHR 0xBB, CHR 0x87] @ ''u l'' @ [CHR 0xE1, CHR 0xBB, CHR 0xB1] @ ''c'')]])"
definition amendment_rx :: regex where
  "amendment_rx =
     alts [lits (''s'' @ [CHR 0xE1, CHR 0xBB, CHR 0xAD] @ ''a '' @ [CHR 0xC4, CHR 0x91, CHR 0xE1, CHR
     0xBB, CHR 0x95] @ ''i''), lits (''b'' @ [CHR 0xC3, CHR 0xA3] @ ''i b'' @ [CHR 0xE1, CHR 0xBB, CHR
     0x8F]), lits (''thay th'' @ [CHR 0xE1, CHR 0xBA, CHR 0xBF])]"
definition guides_rx :: regex where
  "guides_rx =
     seqs [lits (''v'' @ [CHR 0xC4, CHR 0x83] @ ''n b'' @ [CHR 0xE1, CHR 0xBA, CHR 0xA3] @ ''n''), Many
     True Dot, lits (''h'' @ [CHR 0xC6, CHR 0xB0, CHR 0xE1, CHR 0xBB, CHR 0x9B] @ ''ng d'' @ [CHR 0xE1,
     CHR 0xBA, CHR 0xAB] @ ''n'')]"

definition intent_rules :: "(regex \<times> intent \<times> decision_reason \<times> rule_confidence) list" where
  "intent_rules =
     [(multi_hop_rx, MultiHop, MultiHopExplicit, LowConfidence),
      (hierarchy_rx, Hierarchy, HierarchyExplicit, HighConfidence),
      (definition_rx, Definition, DefinitionExplicit, HighConfidence),
      (comparison_rx, Comparison, ComparisonExplicit, HighConfidence),
      (validity_rx, Validity, ValidityExplicitDate, HighConfidence)]"

definition classify_intent_by_rule :: "unicode \<Rightarrow> str \<Rightarrow> (intent \<times> decision_reason
  \<times> rule_confidence) option" where
  "classify_intent_by_rule U query =
     map_option (\<lambda>(r, i, reason, c).
       if i = Validity \<and> rx_found U True current_validity_rx query then (i, ValidityCurrentDate, c) else (i, reason, c))
     (find (\<lambda>(r, i, reason, c). rx_found U True r query) intent_rules)"

definition all_intents :: "intent list" where
  "all_intents = [Factual, Validity, Hierarchy, Comparison, Definition, MultiHop]"

text \<open>\<open>LLMIntentClassifier.classify\<close>: \<open>None\<close> of the generator is its
  \<open>TextGenerationError\<close>.\<close>

definition llm_classify :: "(str \<Rightarrow> str) \<Rightarrow> (str \<Rightarrow> str option) \<Rightarrow>
  str \<Rightarrow> retrieval_error + intent" where
  "llm_classify lower answer query =
     (case answer query of
        None \<Rightarrow> Inl ClassifierFailed
      | Some response \<Rightarrow>
          (case find (\<lambda>i. intent_value i = lower (py_strip response)) all_intents of
             Some i \<Rightarrow> Inr i | None \<Rightarrow> Inl ClassifierFailed))"

text \<open>\<open>QueryAnalyzer.analyze\<close>\<close>

definition analyze ::
  "unicode \<Rightarrow> (str \<Rightarrow> generated) option \<Rightarrow> (str \<Rightarrow> retrieval_error
    + intent) option \<Rightarrow> str
     \<Rightarrow> routing_error + intent \<times> temporal_query" where
  "analyze U llm classifier query =
     rbind (case classify_intent_by_rule U query of
              Some (i, reason, c) \<Rightarrow> Inr i
            | None \<Rightarrow> (case classifier of
                         None \<Rightarrow> Inr Factual
                       | Some classify \<Rightarrow> (case classify query of Inl e \<Rightarrow> Inl
                         (RoutingRejected e) | Inr i \<Rightarrow> Inr i))) (\<lambda>i.
     rbind (parse_temporal U llm query) (\<lambda>t. Inr (i, t)))"

subsection \<open>The router\<close>

record router =
  ro_config :: retrieval_config
  ro_unicode :: unicode
  ro_llm :: "(str \<Rightarrow> generated) option"
  ro_classifier :: "(str \<Rightarrow> retrieval_error + intent) option"
  ro_today :: date

definition resolve_intent ::
  "router \<Rightarrow> request \<Rightarrow> relation_goal option \<Rightarrow> retrieval_error + intent
    \<times> decision_reason" where
  "resolve_intent ro req goal =
     (case req_force_intent req of
        Some i \<Rightarrow> Inr (i, ForcedIntent)
      | None \<Rightarrow>
          if goal = Some GoalRefersTo then Inr (Factual, ExplicitReferenceLookup)
          else (case classify_intent_by_rule (ro_unicode ro) (req_query req) of
                  Some (i, reason, HighConfidence) \<Rightarrow> Inr (i, reason)
                | hit \<Rightarrow>
                    (case ro_classifier ro of
                       Some classify \<Rightarrow> rbind (classify (req_query req)) (\<lambda>i. Inr (i, IntentClassifierLLM))
                     | None \<Rightarrow>
                         (case hit of
                            Some (i, reason, c) \<Rightarrow> Inr (i, reason)
                          | None \<Rightarrow> Inr (Factual, FactualDefault)))))"

definition on_day :: "date \<Rightarrow> temporal_query \<Rightarrow> temporal_query" where
  "on_day d t = t\<lparr>has_temporal := True, resolved_from := Some d, resolved_to := Some d, granularity :=
    Some ''day''\<rparr>"

definition resolve_temporal ::
  "date \<Rightarrow> filters \<Rightarrow> temporal_query \<Rightarrow> intent \<Rightarrow> retrieval_error +
    temporal_query \<times> temporal_source \<times> filters" where
  "resolve_temporal today fs t i =
     (if query_date fs \<noteq> None \<and> resolved_from t \<noteq> None \<and> query_date fs \<noteq>
       resolved_from t then Inl QueryDateConflict
      else case query_date fs of
        Some d \<Rightarrow> Inr (on_day d t, RequestDate, fs)
      | None \<Rightarrow>
          (case resolved_from t of
             Some d \<Rightarrow> Inr (t, QueryExpression, fs\<lparr>query_date := Some d\<rparr>)
           | None \<Rightarrow>
               if requests_current_validity t then Inr (on_day today t, InjectedCurrentDate,
                 fs\<lparr>query_date := Some today\<rparr>)
               else if i \<noteq> Validity \<and> i \<noteq> Comparison
               then Inr (on_day today t, InjectedDefaultCurrentDate, fs\<lparr>query_date := Some today\<rparr>)
               else Inr (t, NoTemporal, fs)))"

definition channel_enabled :: "retrieval_config \<Rightarrow> intent \<Rightarrow> channel \<Rightarrow> bool" where
  "channel_enabled cfg i c =
     (case c of
        VectorChannel \<Rightarrow> cfg_vector_enabled cfg \<and> (i = Hierarchy \<longrightarrow>
          cfg_hierarchy_vector_enabled cfg)
      | FulltextChannel \<Rightarrow> cfg_fulltext_enabled cfg
      | GraphChannel \<Rightarrow> True)"

definition seed_channels_for :: "retrieval_config \<Rightarrow> intent \<Rightarrow> channel list" where
  "seed_channels_for cfg i =
     filter (channel_enabled cfg i)
       (if i \<in> {Definition, Validity, Hierarchy} then [FulltextChannel, VectorChannel]
        else [VectorChannel, FulltextChannel])"

fun strategy_for :: "intent \<Rightarrow> strategy" where
  "strategy_for Factual = FactualHybrid"
| "strategy_for Definition = DefinitionGraph"
| "strategy_for Validity = ValidityTemporal"
| "strategy_for Hierarchy = HierarchyGraph"
| "strategy_for Comparison = ComparisonTemporal"
| "strategy_for MultiHop = MultiHopHybrid"

definition required_capability_for :: "unicode \<Rightarrow> intent \<Rightarrow> str \<Rightarrow>
  temporal_source \<Rightarrow> capability option" where
  "required_capability_for U i query source =
     (case i of
        Validity \<Rightarrow>
          Some (if rx_found U True amendment_rx query then VersionChainValidity
                else if source = InjectedCurrentDate then CorpusCompleteCurrentValidity else ScopedTemporalMetadata)
      | Hierarchy \<Rightarrow> Some (if rx_found U True guides_rx query then GuidesRelations else StructuralHierarchy)
      | Comparison \<Rightarrow> Some MultipleVersions
      | Definition \<Rightarrow> Some LexicalDefinition
      | MultiHop \<Rightarrow> Some SemanticMultiHopGraph
      | Factual \<Rightarrow> None)"

definition reject :: "retrieval_error + 'a \<Rightarrow> routing_error + 'a" where
  "reject r = (case r of Inl e \<Rightarrow> Inl (RoutingRejected e) | Inr x \<Rightarrow> Inr x)"

definition make_decision ::
  "router \<Rightarrow> request \<Rightarrow> intent \<Rightarrow> decision_reason \<Rightarrow> temporal_query
    \<Rightarrow> temporal_source \<Rightarrow> nat \<Rightarrow> nat \<Rightarrow> retrieval_decision" where
  "make_decision ro req i reason t source candidate_k final_k =
     (let cfg = ro_config ro in
      \<lparr>dec_intent = i, dec_strategy = strategy_for i, dec_seed_channels = seed_channels_for cfg i,
       dec_graph_enabled = cfg_graph_enabled cfg,
       dec_graph_policy_intent = (if cfg_graph_enabled cfg then Some i else None),
       dec_candidate_k = candidate_k, dec_graph_entry_k = min (cfg_graph_entry_k cfg) candidate_k, dec_final_k = final_k,
       dec_apply_temporal_filter = (resolved_from t \<noteq> None), dec_preserve_versions = (i = Comparison),
       dec_require_temporal_point = (i = Validity),
       dec_enable_reranker = (case req_enable_reranker req of
            Some b \<Rightarrow> b | None \<Rightarrow> i \<noteq> Hierarchy \<and> cfg_reranker_enabled cfg),
       dec_force_intent_used = (req_force_intent req \<noteq> None), dec_temporal_source = source, dec_reason_code = reason,
       dec_required_capability = required_capability_for (ro_unicode ro) i (req_query req) source\<rparr>)"

definition route :: "router \<Rightarrow> request \<Rightarrow> relation_goal option \<Rightarrow>
  routing_error + routing_result" where
  "route ro req goal =
     rbind (reject (require (py_len (req_query req) \<le> cfg_query_max_length (ro_config ro))
              (QueryTooLong (cfg_query_max_length (ro_config ro))))) (\<lambda>_.
     rbind (parse_temporal (ro_unicode ro) (ro_llm ro) (req_query req)) (\<lambda>parsed.
     rbind (reject (case parse_error parsed of
              Some e \<Rightarrow> if e = [] then Inr () else Inl (TemporalParseFailed e) | None \<Rightarrow>
                Inr ())) (\<lambda>_.
     rbind (reject (resolve_intent ro req goal)) (\<lambda>(i, reason).
     rbind (reject (resolve_temporal (ro_today ro) (req_filters req) parsed i)) (\<lambda>(t, source, fs).
     rbind (reject (require (\<not> (i = Validity \<and> resolved_from t = None)) ValidityNeedsTemporalPoint)) (\<lambda>_.
     rbind (reject (require (\<not> (i = Comparison \<and> \<not> (has_temporal t \<or> spans_all_versions t)))
       ComparisonNeedsTemporal)) (\<lambda>_.
       let candidate_k = (case req_top_k req of Some k \<Rightarrow> if k = 0 then cfg_candidate_k (ro_config ro) else k
                          | None \<Rightarrow> cfg_candidate_k (ro_config ro));
           final_k = (case req_final_k req of Some k \<Rightarrow> if k = 0 then cfg_final_k (ro_config ro) else k
                      | None \<Rightarrow> cfg_final_k (ro_config ro)) in
       rbind (reject (require (1 \<le> final_k \<and> final_k \<le> candidate_k \<and> candidate_k \<le> 200)
         LimitsViolated)) (\<lambda>_.
       rbind (reject (require (seed_channels_for (ro_config ro) i \<noteq> []) NoSeedChannelEnabled)) (\<lambda>_.
         Inr \<lparr>rr_decision = make_decision ro req i reason t source candidate_k final_k, rr_temporal = t,
              rr_filters = fs\<rparr>)))))))))"

subsection \<open>Retrieving\<close>

text \<open>\<open>RetrievalRuntime.prepare\<close> and \<open>retrieve\<close>\<close>

definition prepare :: "router \<Rightarrow> request \<Rightarrow> execution_context \<Rightarrow> routing_error
  + prepared_request" where
  "prepare ro req ctx =
     rbind (route ro req (ctx_relation_goal ctx)) (\<lambda>routing.
       Inr \<lparr>prep_request = req, prep_routing = routing, prep_context = ctx\<rparr>)"

definition retrieve :: "router \<Rightarrow> runtime \<Rightarrow> request \<Rightarrow> execution_context
  \<Rightarrow> routing_error + retrieval_context" where
  "retrieve ro rt req ctx =
     rbind (prepare ro req ctx) (\<lambda>prepared. reject (execute_runtime rt prepared None None))"

end
