(* ===== verification/Routing_Properties.thy ===== *)
theory Routing_Properties
  imports Query_Routing Conversation_Runs
begin

text \<open>
  Properties of the reading of a question: what every accepted routing satisfies, which periods the temporal parser
  recognises, and the dates of a request that its own question excludes.
\<close>

subsection \<open>Resolving the date\<close>

lemma reject_Inr [simp, result_simps]: "reject r = Inr x \<longleftrightarrow> r = Inr x"
  by (cases r) (simp_all add: reject_def)

lemma resolve_temporal_cases:
  assumes "resolve_temporal today fs t i = Inr (t', source, fs')"
  obtains (given) d where "query_date fs = Some d" and "t' = on_day d t" and "source = RequestDate" and "fs' = fs"
  | (parsed) d where "query_date fs = None" and "resolved_from t = Some d" and "t' = t" and "source = QueryExpression"
      and "fs' = fs\<lparr>query_date := Some d\<rparr>"
  | (injected) "query_date fs = None" and "resolved_from t = None" and "t' = on_day today t"
      and "source = InjectedCurrentDate \<or> source = InjectedDefaultCurrentDate"
      and "fs' = fs\<lparr>query_date := Some today\<rparr>"
  | (undated) "query_date fs = None" and "resolved_from t = None" and "t' = t" and "source = NoTemporal"
      and "fs' = fs" and "i = Validity \<or> i = Comparison"
  using assms by (auto simp: resolve_temporal_def split: if_splits option.splits)

text \<open>The temporal query, the filters and the source name the same day, or none.\<close>

lemma resolve_temporal_dated:
  assumes "resolve_temporal today fs t i = Inr (t', source, fs')"
  shows "query_date fs' = resolved_from t'" and "source = NoTemporal \<longleftrightarrow> resolved_from t' = None"
    and "resolved_from t' = None \<Longrightarrow> i = Validity \<or> i = Comparison"
  using assms by (cases rule: resolve_temporal_cases; auto simp: on_day_def)+

lemma seed_channels_for_distinct: "distinct (seed_channels_for cfg i)"
  and seed_channels_for_no_graph: "GraphChannel \<notin> set (seed_channels_for cfg i)"
  by (simp_all add: seed_channels_for_def)

text \<open>What an accepted routing went through.\<close>

lemma route_accepted:
  assumes "route ro req goal = Inr r"
  obtains i reason parsed t source fs candidate_k final_k where
    "parse_temporal (ro_unicode ro) (ro_llm ro) (req_query req) = Inr parsed"
    and "resolve_intent ro req goal = Inr (i, reason)"
    and "resolve_temporal (ro_today ro) (req_filters req) parsed i = Inr (t, source, fs)"
    and "\<not> (i = Validity \<and> resolved_from t = None)"
    and "\<not> (i = Comparison \<and> \<not> (has_temporal t \<or> spans_all_versions t))"
    and "1 \<le> final_k \<and> final_k \<le> candidate_k \<and> candidate_k \<le> 200"
    and "seed_channels_for (ro_config ro) i \<noteq> []"
    and "r = \<lparr>rr_decision = make_decision ro req i reason t source candidate_k final_k, rr_temporal = t,
      rr_filters = fs\<rparr>"
proof -
  let ?ck = "case req_top_k req of Some k \<Rightarrow> if k = 0 then cfg_candidate_k (ro_config ro) else k
    | None \<Rightarrow> cfg_candidate_k (ro_config ro)"
  let ?fk = "case req_final_k req of Some k \<Rightarrow> if k = 0 then cfg_final_k (ro_config ro) else k
    | None \<Rightarrow> cfg_final_k (ro_config ro)"
  have "\<exists>parsed i reason t source fs.
      parse_temporal (ro_unicode ro) (ro_llm ro) (req_query req) = Inr parsed
      \<and> resolve_intent ro req goal = Inr (i, reason)
      \<and> resolve_temporal (ro_today ro) (req_filters req) parsed i = Inr (t, source, fs)
      \<and> \<not> (i = Validity \<and> resolved_from t = None)
      \<and> \<not> (i = Comparison \<and> \<not> (has_temporal t \<or> spans_all_versions t))
      \<and> (1 \<le> ?fk \<and> ?fk \<le> ?ck \<and> ?ck \<le> 200) \<and> seed_channels_for (ro_config ro) i \<noteq> []
      \<and> r = \<lparr>rr_decision = make_decision ro req i reason t source ?ck ?fk, rr_temporal = t, rr_filters = fs\<rparr>"
    using assms unfolding route_def Let_def
    by (simp only: rbind_Inr_iff reject_Inr require_Inr_iff split_paired_Ex case_prod_conv sum.inject) blast
  then show thesis using that by blast
qed

lemma resolve_intent_forced: "req_force_intent req = Some i \<Longrightarrow> resolve_intent ro req goal = Inr (i, ForcedIntent)"
  by (simp add: resolve_intent_def)

text \<open>
  C15: An accepted routing is consistent: its limits are ordered and at most 200, its seed channels are enabled,
  distinct and not the graph; a forced intent is kept; a question that does not compare versions always has a
  date, and the temporal query, the filter, its flag and its source agree on it; a question that compares versions
  names a time or spans all versions, and only such a question keeps several versions.
\<close>

theorem routing_sound:
  assumes "route ro req goal = Inr r"
  shows "1 \<le> dec_final_k (rr_decision r) \<and> dec_final_k (rr_decision r) \<le> dec_candidate_k (rr_decision r)
      \<and> dec_candidate_k (rr_decision r) \<le> 200
      \<and> dec_graph_entry_k (rr_decision r) \<le> dec_candidate_k (rr_decision r)
      \<and> dec_seed_channels (rr_decision r) \<noteq> [] \<and> distinct (dec_seed_channels (rr_decision r))
      \<and> GraphChannel \<notin> set (dec_seed_channels (rr_decision r))
      \<and> list_all (channel_enabled (ro_config ro) (dec_intent (rr_decision r))) (dec_seed_channels (rr_decision r))
      \<and> (req_force_intent req \<noteq> None \<longrightarrow> req_force_intent req = Some (dec_intent (rr_decision r)))
      \<and> (dec_intent (rr_decision r) \<noteq> Comparison \<longrightarrow> resolved_from (rr_temporal r) \<noteq> None)
      \<and> (dec_intent (rr_decision r) = Comparison \<longrightarrow>
           has_temporal (rr_temporal r) \<or> spans_all_versions (rr_temporal r))
      \<and> (dec_preserve_versions (rr_decision r) \<longleftrightarrow> dec_intent (rr_decision r) = Comparison)
      \<and> query_date (rr_filters r) = resolved_from (rr_temporal r)
      \<and> (dec_apply_temporal_filter (rr_decision r) \<longleftrightarrow> query_date (rr_filters r) \<noteq> None)
      \<and> (dec_temporal_source (rr_decision r) = NoTemporal \<longleftrightarrow> resolved_from (rr_temporal r) = None)"
  using assms
proof (rule route_accepted)
  fix i reason parsed t source fs candidate_k final_k
  assume intent: "resolve_intent ro req goal = Inr (i, reason)"
    and dated: "resolve_temporal (ro_today ro) (req_filters req) parsed i = Inr (t, source, fs)"
    and needs: "\<not> (i = Validity \<and> resolved_from t = None)"
      "\<not> (i = Comparison \<and> \<not> (has_temporal t \<or> spans_all_versions t))"
    and limits: "1 \<le> final_k \<and> final_k \<le> candidate_k \<and> candidate_k \<le> 200"
    and channels: "seed_channels_for (ro_config ro) i \<noteq> []"
    and r: "r = \<lparr>rr_decision = make_decision ro req i reason t source candidate_k final_k, rr_temporal = t,
              rr_filters = fs\<rparr>"
  have forced: "req_force_intent req = Some j \<Longrightarrow> j = i" for j
    using resolve_intent_forced [of req j ro goal] intent by simp
  have enabled: "list_all (channel_enabled (ro_config ro) i) (seed_channels_for (ro_config ro) i)"
    by (simp add: seed_channels_for_def list_all_iff)
  show ?thesis
    using limits channels needs forced enabled resolve_temporal_dated [OF dated]
      seed_channels_for_distinct [of "ro_config ro" i] seed_channels_for_no_graph [of "ro_config ro" i]
    by (auto simp: r make_decision_def Let_def)
qed

subsection \<open>The periods of the temporal parser\<close>

text \<open>The first and the last day of a calendar day, month or year, with the name of the unit.\<close>

definition calendar_period :: "str \<Rightarrow> date \<Rightarrow> date \<Rightarrow> bool" where
  "calendar_period unit a b \<longleftrightarrow>
     (\<exists>y m d. valid_ymd y m d \<and>
        (unit = ''day'' \<and> a = ymd_ordinal y m d \<and> b = a
         \<or> unit = ''month'' \<and> a = ymd_ordinal y m 1 \<and> b = a + days_in_month (is_leap y) m - 1
         \<or> unit = ''year'' \<and> a = ymd_ordinal y 1 1 \<and> b = a + (if is_leap y then 366 else 365) - 1))"

lemma make_date_Some: "make_date y m d = Some a \<longleftrightarrow> valid_ymd y m d \<and> a = ymd_ordinal y m d"
  by (auto simp: make_date_def)

lemma to_date_valid: "to_date U y m d = Some a \<Longrightarrow> \<exists>y m d. valid_ymd y m d \<and> a = ymd_ordinal y m d"
  by (auto simp: to_date_def make_date_Some split: option.splits)

lemma parse_day_valid: "parse_day U m = Some a \<Longrightarrow> calendar_period ''day'' a a"
  using to_date_valid by (fastforce simp: parse_day_def calendar_period_def split: list.splits if_splits)

lemma month_query_exact:
  "month_query U m current = Some (Inr t) \<Longrightarrow>
     \<exists>e a b. t = period_query e a b ''month'' current \<and> calendar_period ''month'' a b"
  by (fastforce simp: month_query_def calendar_period_def make_date_Some ymd_ordinal_def
      split: option.splits if_splits)

lemma year_length: "ymd_ordinal y 12 31 = ymd_ordinal y 1 1 + (if is_leap y then 366 else 365) - 1"
  by (simp add: ymd_ordinal_def days_before_month_def month_days_def eval_nat_numeral)

lemma year_period: "valid_ymd y 1 1 \<Longrightarrow> calendar_period ''year'' (ymd_ordinal y 1 1) (ymd_ordinal
  y 12 31)"
  unfolding calendar_period_def year_length by blast

lemma year_query_exact:
  "year_query U m current = Inr t \<Longrightarrow>
     \<exists>e a b. t = period_query e a b ''year'' current \<and> calendar_period ''year'' a b"
  by (auto simp: year_query_def make_date_Some intro!: exI year_period split: option.splits)

text \<open>Whatever the parser resolves without a text generator is a whole day, month or year.\<close>

definition exact_period :: "temporal_query \<Rightarrow> bool" where
  "exact_period t \<longleftrightarrow>
     (case (resolved_from t, resolved_to t, granularity t) of
        (Some a, Some b, Some unit) \<Rightarrow> has_temporal t \<and> calendar_period unit a b
      | (None, None, None) \<Rightarrow> True
      | _ \<Rightarrow> False)"

lemma exact_period_query: "exact_period (period_query e a b unit c) \<longleftrightarrow> calendar_period unit a b"
  by (simp add: exact_period_def period_query_def)

lemma parse_words_exact: "parse_words U None query = Inr t \<Longrightarrow> exact_period t"
  by (auto simp: parse_words_def exact_period_def no_temporal_def split: option.splits if_splits)

lemma parse_period_exact: "parse_period U None query = Inr t \<Longrightarrow> exact_period t"
  by (auto simp: parse_period_def bind_eq_Some_conv bind_eq_None_conv exact_period_query
      dest: month_query_exact year_query_exact parse_words_exact split: option.splits)

text \<open>
  C22: Without a text generator, the period that the temporal parser reads in a question is exactly one calendar
  day, month or year, from its first to its last day; or no date is resolved at all. The only other outcome is the
  uncaught \<open>ValueError\<close> of \<open>date\<close>.
\<close>

theorem parsed_period_exact:
  "case parse_temporal U None query of
     Inr t \<Rightarrow> exact_period t
   | Inl e \<Rightarrow> e = UncaughtValueError"
proof -
  have error: "parse_period U None query = Inl e \<Longrightarrow> e = UncaughtValueError" for e
    by (cases "Option.bind (rx_search U True month_year_rx query) (\<lambda>m. month_query U m False)")
       (auto simp: parse_period_def parse_words_def month_query_def year_query_def bind_eq_Some_conv
         split: option.splits if_splits)
  show ?thesis
  proof (cases "Option.bind (explicit_day U query) (\<lambda>m. map_option (\<lambda>d. (m, d)) (parse_day U m))")
    case (Some md)
    then obtain m d where md: "md = (m, d)" and "parse_day U m = Some d"
      by (cases md) (auto simp: bind_eq_Some_conv)
    with Some parse_day_valid show ?thesis by (simp add: parse_temporal_def Let_def exact_period_query)
  next
    case None
    then show ?thesis
      by (auto simp: parse_temporal_def Let_def exact_period_def no_temporal_def
          dest: error parse_period_exact split: option.splits sum.splits)
  qed
qed

subsection \<open>Dates a question excludes\<close>

text \<open>
  C3: A request whose date lies inside the month or the year that its question names, but is not the first day of
  it, is refused as a conflict between the date and the question.
\<close>

theorem date_inside_period_rejected:
  assumes "parse_temporal (ro_unicode ro) (ro_llm ro) (req_query req) = Inr t"
    and "parse_error t = None"
    and "py_len (req_query req) \<le> cfg_query_max_length (ro_config ro)"
    and "req_force_intent req = Some i"
    and "resolved_from t = Some a" and "resolved_to t = Some b"
    and "query_date (req_filters req) = Some d" and "a < d" and "d \<le> b"
  shows "route ro req goal = Inl (RoutingRejected QueryDateConflict)"
  using assms
  by (simp add: route_def resolve_intent_forced resolve_temporal_def reject_def)

subsection \<open>A question about a year\<close>

text \<open>The evaluation of the expressions on a question that names the year 2020, and on a year that is not
  in the calendar of Python.\<close>

definition year_question :: str where "year_question = (''n'' @ [CHR 0xC4, CHR 0x83] @ ''m 2020'')"

definition year_period_query :: temporal_query where
  "year_period_query = period_query year_question (ymd_ordinal 2020 1 1) (ymd_ordinal 2020 12 31) ''year'' False"

lemma year_question_parsed: "parse_temporal ascii_unicode None year_question = Inr year_period_query"
  by code_simp

text \<open>A question that names the year 0000 ends in the \<open>ValueError\<close> of \<open>date(0, 1,
  1)\<close>, which nothing catches.\<close>

theorem year_zero_uncaught: "parse_temporal ascii_unicode None (''n'' @ [CHR 0xC4, CHR 0x83] @ ''m 0000'') =
  Inl UncaughtValueError"
  by code_simp

definition year_router :: router where
  "year_router = \<lparr>ro_config = default_retrieval_config, ro_unicode = ascii_unicode, ro_llm = None, ro_classifier = None,
     ro_today = ymd_ordinal 2026 1 1\<rparr>"

definition year_request :: "date option \<Rightarrow> request" where
  "year_request day = \<lparr>req_query = year_question, req_filters = no_filters\<lparr>query_date :=
    day\<rparr>, req_top_k = None,
     req_final_k = None, req_force_intent = Some Validity, req_enable_reranker = None\<rparr>"

lemma year_question_length: "py_len year_question \<le> 4000"
  by code_simp

lemma year_request_routed:
  "\<exists>source. route year_router (year_request None) None =
     Inr \<lparr>rr_decision = make_decision year_router (year_request None) Validity ForcedIntent year_period_query source 20 10,
          rr_temporal = year_period_query, rr_filters = no_filters\<lparr>query_date := Some (ymd_ordinal 2020
            1 1)\<rparr>\<rparr>"
  using year_question_parsed year_question_length
  by (auto simp: route_def year_router_def year_request_def resolve_intent_def resolve_temporal_def no_filters_def
      year_period_query_def period_query_def no_temporal_def default_retrieval_config_def seed_channels_for_def
      channel_enabled_def reject_def)

theorem routing_sound_witness:
  "\<exists>r. route year_router (year_request None) None = Inr r \<and> dec_candidate_k (rr_decision r) = 20
     \<and> 1 \<le> dec_final_k (rr_decision r) \<and> distinct (dec_seed_channels (rr_decision r))
     \<and> query_date (rr_filters r) = Some (ymd_ordinal 2020 1 1)"
proof -
  from year_request_routed obtain source where r: "route year_router (year_request None) None =
     Inr \<lparr>rr_decision = make_decision year_router (year_request None) Validity ForcedIntent year_period_query source 20 10,
          rr_temporal = year_period_query, rr_filters = no_filters\<lparr>query_date := Some (ymd_ordinal 2020
            1 1)\<rparr>\<rparr>" by blast
  show ?thesis
  proof (intro exI conjI)
    show "dec_candidate_k (rr_decision \<lparr>rr_decision = make_decision year_router (year_request None) Validity ForcedIntent
        year_period_query source 20 10, rr_temporal = year_period_query,
        rr_filters = no_filters\<lparr>query_date := Some (ymd_ordinal 2020 1 1)\<rparr>\<rparr>) = 20"
      by (simp add: make_decision_def Let_def)
  qed (use r routing_sound [OF r] in \<open>simp_all add: no_filters_def\<close>)
qed

theorem date_inside_period_rejected_witness:
  "route year_router (year_request (Some (ymd_ordinal 2020 3 15))) None = Inl (RoutingRejected QueryDateConflict)"
proof (rule date_inside_period_rejected)
  show "parse_temporal (ro_unicode year_router) (ro_llm year_router)
      (req_query (year_request (Some (ymd_ordinal 2020 3 15)))) = Inr year_period_query"
    using year_question_parsed by (simp add: year_router_def year_request_def)
  show "py_len (req_query (year_request (Some (ymd_ordinal 2020 3 15)))) \<le> cfg_query_max_length (ro_config year_router)"
    using year_question_length by (simp add: year_router_def year_request_def default_retrieval_config_def)
  show "ymd_ordinal 2020 1 1 < ymd_ordinal 2020 3 15" "ymd_ordinal 2020 3 15 \<le> ymd_ordinal 2020 12 31"
    by code_simp+
qed (simp_all add: year_request_def year_period_query_def period_query_def no_temporal_def)

end
