(* ===== verification/Structural_Numbers.thy ===== *)
theory Structural_Numbers
  imports Py_Regex Ontology_Validators
begin

text \<open>
  The canonical identifiers of structural units (\<open>src/shared/ontology/hierarchy.py\<close>): the numbers of parts, chapters,
  sections and subsections in their normal form, and the identifiers built from them. The operations of Python that
  need the Unicode database are the fields of \<open>script\<close>; \<open>sc_unmarked\<close> is the
    canonical decomposition without the
  combining marks (category \<open>Mn\<close>).
\<close>

record script =
  sc_unicode :: unicode
  sc_lower :: "str \<Rightarrow> str"
  sc_upper :: "str \<Rightarrow> str"
  sc_isupper :: "str \<Rightarrow> bool"
  sc_nfc :: "str \<Rightarrow> str"
  sc_unmarked :: "str \<Rightarrow> str"
  sc_sha256 :: "str \<Rightarrow> str"

subsection \<open>Operations of Python\<close>

text \<open>\<open>strip(chars)\<close>, \<open>lstrip(chars)\<close> and \<open>rstrip(chars)\<close>, and
  \<open>replace\<close> of one character.\<close>

definition rstrip_chars :: "pchar list \<Rightarrow> str \<Rightarrow> str" where
  "rstrip_chars cs s = concat (rev (dropWhile (\<lambda>c. c \<in> set cs) (rev (py_chars s))))"

definition lstrip_chars :: "pchar list \<Rightarrow> str \<Rightarrow> str" where
  "lstrip_chars cs s = concat (dropWhile (\<lambda>c. c \<in> set cs) (py_chars s))"

definition strip_chars :: "pchar list \<Rightarrow> str \<Rightarrow> str" where
  "strip_chars cs s = rstrip_chars cs (lstrip_chars cs s)"

definition replace_char :: "pchar \<Rightarrow> str \<Rightarrow> str \<Rightarrow> str" where
  "replace_char c t s = concat (map (\<lambda>d. if d = c then t else d) (py_chars s))"

text \<open>The letters of a text without diacritics, as \<open>_ascii\<close> of the parser and
  \<open>_slug\<close> compute them.\<close>

definition fold_marks :: "script \<Rightarrow> str \<Rightarrow> str" where
  "fold_marks sc s = replace_char ([CHR 0xC4, CHR 0x90]) ''D'' (replace_char ([CHR 0xC4, CHR 0x91]) ''d''
    (sc_unmarked sc s))"

subsection \<open>Normal forms\<close>

definition max_document_to_citable_unit_depth :: nat where "max_document_to_citable_unit_depth = 9"

definition vietnamese_ordinals :: "(str \<times> str) list" where
  "vietnamese_ordinals =
     [(''nhat'', ''1''), (''mot'', ''1''), (''hai'', ''2''), (''ba'', ''3''), (''tu'', ''4''), (''nam'', ''5''),
      (''sau'', ''6''), (''bay'', ''7''), (''tam'', ''8''), (''chin'', ''9''), (''muoi'', ''10'')]"

definition not_slug_rx :: regex where
  "not_slug_rx =
     repeat_from True 1 (Class True [ItemRange 97 122, ItemRange 48 57])"

text \<open>\<open>_slug\<close>: a text without a letter or a digit raises \<open>ValueError\<close>.\<close>

definition slug_text :: "script \<Rightarrow> str \<Rightarrow> str" where
  "slug_text sc s =
     strip_chars [''_''] (rx_sub (sc_unicode sc) False not_slug_rx (\<lambda>m. ''_'') (sc_lower sc (fold_marks
       sc s)))"

definition slug :: "script \<Rightarrow> str \<Rightarrow> str option" where
  "slug sc s = (let t = slug_text sc s in if t = [] then None else Some t)"

text \<open>Roman numerals, read from the right: a smaller digit before a larger one is subtracted.\<close>

definition roman_digits :: "(char \<times> int) list" where
  "roman_digits =
     [(CHR ''I'', 1), (CHR ''V'', 5), (CHR ''X'', 10), (CHR ''L'', 50), (CHR ''C'', 100), (CHR ''D'', 500),
      (CHR ''M'', 1000)]"

definition is_roman :: "str \<Rightarrow> bool" where
  "is_roman s \<longleftrightarrow> s \<noteq> [] \<and> list_all (\<lambda>c. map_of roman_digits c \<noteq> None) s"

fun roman_sum :: "str \<Rightarrow> int \<Rightarrow> int \<Rightarrow> int" where
  "roman_sum [] acc previous = acc"
| "roman_sum (c # cs) acc previous =
     (let current = the (map_of roman_digits c) in
      if current < previous then roman_sum cs (acc - current) previous
      else roman_sum cs (acc + current) current)"

definition roman_value :: "str \<Rightarrow> int" where
  "roman_value s = roman_sum (rev s) 0 0"

definition normalize_chapter_number :: "script \<Rightarrow> str \<Rightarrow> str option" where
  "normalize_chapter_number sc v =
     (let t = sc_upper sc (py_strip v) in if is_roman t then Some (show_int (roman_value t)) else slug sc v)"

definition normalize_section_number :: "script \<Rightarrow> str \<Rightarrow> str option" where
  "normalize_section_number sc v = slug sc (sc_lower sc (py_strip v))"

definition normalize_subsection_number :: "script \<Rightarrow> str \<Rightarrow> str option" where
  "normalize_subsection_number sc v = slug sc (sc_lower sc (py_strip v))"

definition ordinal_prefix_rx :: regex where
  "ordinal_prefix_rx =
     seqs [TextStart, lits (''th'' @ [CHR 0xE1, CHR 0xBB, CHR 0xA9]), blanks]"

definition without_ordinal_prefix :: "script \<Rightarrow> str \<Rightarrow> str" where
  "without_ordinal_prefix sc v = py_strip (rx_sub (sc_unicode sc) True ordinal_prefix_rx (\<lambda>m. []) (py_strip v))"

definition normalize_part_number :: "script \<Rightarrow> str \<Rightarrow> str option" where
  "normalize_part_number sc v =
     (let bare = without_ordinal_prefix sc v in
      case slug sc bare of
        None \<Rightarrow> None
      | Some t \<Rightarrow> (case map_of vietnamese_ordinals t of
                     Some n \<Rightarrow> Some n | None \<Rightarrow> normalize_chapter_number sc bare))"

text \<open>\<open>legal_number_sort_key\<close>: numbers sort before letters, numbers by value.\<close>

definition key_chunk_rx :: regex where
  "key_chunk_rx =
     alts [digits, repeat_from True 1 (Class False [ItemRange 97 122])]"

definition legal_number_sort_key :: "script \<Rightarrow> str \<Rightarrow> (nat \<times> nat \<times> str) list option" where
  "legal_number_sort_key sc v =
     map_option (\<lambda>t. map (\<lambda>m. let chunk = rm_text m in
                            case py_int (sc_unicode sc) chunk of
                              Some n \<Rightarrow> (0, n, []) | None \<Rightarrow> (1, 0, chunk))
                       (rx_finditer (sc_unicode sc) False key_chunk_rx t)) (slug sc v)"

subsection \<open>Identifiers\<close>

definition part_id :: "script \<Rightarrow> str \<Rightarrow> str \<Rightarrow> str option" where
  "part_id sc doc p = map_option (\<lambda>n. doc @ ''_part'' @ n) (normalize_part_number sc p)"

definition chapter_id :: "script \<Rightarrow> str \<Rightarrow> str \<Rightarrow> str option" where
  "chapter_id sc doc c = map_option (\<lambda>n. doc @ ''_ch'' @ n) (normalize_chapter_number sc c)"

definition section_id :: "script \<Rightarrow> str \<Rightarrow> str \<Rightarrow> str \<Rightarrow> str option" where
  "section_id sc doc c s =
     Option.bind (chapter_id sc doc c) (\<lambda>ch. map_option (\<lambda>n. ch @ ''_sec'' @ n)
       (normalize_section_number sc s))"

definition subsection_id :: "script \<Rightarrow> str \<Rightarrow> str \<Rightarrow> str \<Rightarrow> str
  \<Rightarrow> str option" where
  "subsection_id sc doc c s ss =
     Option.bind (section_id sc doc c s)
       (\<lambda>sec. map_option (\<lambda>n. sec @ ''_subsec'' @ n) (normalize_subsection_number sc ss))"

text \<open>A slug is never empty, which is what raises.\<close>

lemma slug_nonempty: "slug sc s = Some t \<Longrightarrow> t \<noteq> []"
  by (auto simp: slug_def Let_def split: if_splits)

end
