(* ===== verification/Heading_Patterns.thy ===== *)
theory Heading_Patterns
  imports Structural_Numbers
begin

text \<open>
  The expressions that recognise the headings of Vietnamese legal texts (\<open>src/pipeline/parser/patterns.py\<close>): parts,
  chapters, sections, subsections, articles, clauses and points, and what the parser reads from each.
\<close>

definition max_structural_title_length :: nat where "max_structural_title_length = 240"

definition article_heading_rx :: regex where
  "article_heading_rx =
     seqs [TextStart, lits ([CHR 0xC4, CHR 0x90] @ ''i'' @ [CHR 0xE1, CHR 0xBB, CHR 0x81] @ ''u''),
     blanks, Group 1 (seqs [digits, opt True (Class False [ItemRange 97 122])]), opt True (seqs [lits
     ''['', digits, lits '']'']), blanks0, alts [lits '':'', lits ''.'', seqs [blanks0, TextEnd]],
     blanks0, Group 2 (Many True Dot), TextEnd]"
definition lenient_article_rx :: regex where
  "lenient_article_rx =
     seqs [TextStart, repeat True 0 2 (Class True [ItemWord, ItemChar ([CHR 0xC4, CHR 0x90])]), lits
     ([CHR 0xC4, CHR 0x90] @ ''i'' @ [CHR 0xE1, CHR 0xBB, CHR 0x81] @ ''u''), blanks, Group 1 (seqs
     [digits, opt True (Class False [ItemRange 97 122])]), opt True (seqs [lits ''['', digits, lits
     '']'']), blanks0, alts [lits '':'', lits ''.'', seqs [blanks0, TextEnd]], blanks0, Group 2 (Many
     True Dot), TextEnd]"
definition clause_heading_rx :: regex where
  "clause_heading_rx =
     seqs [TextStart, Group 1 (seqs [digits, opt True (Class False [ItemRange 97 122])]), lits ''.'',
     alts [blanks, TextEnd], Group 2 (Many True Dot), TextEnd]"
definition point_heading_rx :: regex where
  "point_heading_rx =
     seqs [TextStart, Group 1 (Class False [ItemRange 97 122, ItemChar ([CHR 0xC4, CHR 0x91])]), lits
     '')'', blanks0, Group 2 (Many True Dot), TextEnd]"
definition chapter_heading_rx :: regex where
  "chapter_heading_rx =
     seqs [TextStart, lits (''Ch'' @ [CHR 0xC6, CHR 0xB0, CHR 0xC6, CHR 0xA1] @ ''ng''), blanks, Group
     1 (alts [repeat_from True 1 (Class False [ItemChar ''I'', ItemChar ''V'', ItemChar ''X'', ItemChar
     ''L'', ItemChar ''C'', ItemChar ''D'', ItemChar ''M'']), seqs [digits, opt True (Class False
     [ItemRange 97 122])]]), Ahead True (alts [blank, Class False [ItemChar ''.'', ItemChar '':''],
     TextEnd]), opt True (alts [seqs [blanks0, Class False [ItemChar ''.'', ItemChar '':''], blanks0],
     blanks]), Group 2 (Many True Dot), TextEnd]"
definition part_heading_rx :: regex where
  "part_heading_rx =
     seqs [TextStart, lits (''Ph'' @ [CHR 0xE1, CHR 0xBA, CHR 0xA7] @ ''n''), blanks, Group 1 (alts
     [repeat_from True 1 (Class False [ItemChar ''I'', ItemChar ''V'', ItemChar ''X'', ItemChar ''L'',
     ItemChar ''C'', ItemChar ''D'', ItemChar ''M'']), seqs [digits, opt True (Class False [ItemRange
     97 122])], seqs [opt True (seqs [lits (''th'' @ [CHR 0xE1, CHR 0xBB, CHR 0xA9]), blanks]), alts
     [lits (''nh'' @ [CHR 0xE1, CHR 0xBA, CHR 0xA5] @ ''t''), lits (''m'' @ [CHR 0xE1, CHR 0xBB, CHR
     0x99] @ ''t''), lits ''hai'', lits ''ba'', lits (''t'' @ [CHR 0xC6, CHR 0xB0]), lits (''n'' @ [CHR
     0xC4, CHR 0x83] @ ''m''), lits (''s'' @ [CHR 0xC3, CHR 0xA1] @ ''u''), lits (''b'' @ [CHR 0xE1,
     CHR 0xBA, CHR 0xA3] @ ''y''), lits (''t'' @ [CHR 0xC3, CHR 0xA1] @ ''m''), lits (''ch'' @ [CHR
     0xC3, CHR 0xAD] @ ''n''), lits (''m'' @ [CHR 0xC6, CHR 0xB0, CHR 0xE1, CHR 0xBB, CHR 0x9D] @
     ''i'')]]]), opt True (seqs [Class False [ItemChar ''.'', ItemChar '':''], blanks0, Group 2 (Many
     True Dot)]), TextEnd]"
definition section_heading_rx :: regex where
  "section_heading_rx =
     seqs [TextStart, lits (''M'' @ [CHR 0xE1, CHR 0xBB, CHR 0xA5] @ ''c''), blanks, Group 1 (seqs
     [digits, opt True (Class False [ItemRange 97 122])]), opt True (seqs [Class False [ItemChar ''.'',
     ItemChar '':''], blanks0, Group 2 (Many True Dot)]), TextEnd]"
definition subsection_heading_rx :: regex where
  "subsection_heading_rx =
     seqs [TextStart, lits (''Ti'' @ [CHR 0xE1, CHR 0xBB, CHR 0x83] @ ''u''), blanks, lits (''M'' @
     [CHR 0xE1, CHR 0xBB, CHR 0xA5] @ ''c''), blanks, Group 1 (seqs [digits, opt True (Class False
     [ItemRange 97 122])]), opt True (seqs [Class False [ItemChar ''.'', ItemChar '':''], blanks0,
     Group 2 (Many True Dot)]), TextEnd]"

definition group_text :: "rmatch \<Rightarrow> nat \<Rightarrow> str" where
  "group_text m g = str_or (rm_group m g) []"

definition match_article_with :: "script \<Rightarrow> regex \<Rightarrow> str \<Rightarrow> (str \<times> str) option" where
  "match_article_with sc r s =
     map_option (\<lambda>m. (sc_lower sc (group_text m 1), py_strip (group_text m 2)))
       (rx_match (sc_unicode sc) True r (py_strip s))"

definition match_article_line :: "script \<Rightarrow> str \<Rightarrow> (str \<times> str) option" where
  "match_article_line sc s = match_article_with sc article_heading_rx s"

definition match_article_lenient :: "script \<Rightarrow> str \<Rightarrow> (str \<times> str) option" where
  "match_article_lenient sc s = match_article_with sc lenient_article_rx s"

definition match_clause_line :: "script \<Rightarrow> str \<Rightarrow> (str \<times> str) option" where
  "match_clause_line sc s =
     map_option (\<lambda>m. (sc_lower sc (group_text m 1), py_strip (group_text m 2)))
       (rx_match (sc_unicode sc) True clause_heading_rx (py_strip s))"

definition match_point_line :: "script \<Rightarrow> str \<Rightarrow> (str \<times> str) option" where
  "match_point_line sc s =
     map_option (\<lambda>m. (group_text m 1, py_strip (group_text m 2)))
       (rx_match (sc_unicode sc) False point_heading_rx (py_strip s))"

definition title_or_none :: "str \<Rightarrow> str option" where
  "title_or_none s = (if s = [] then None else Some s)"

definition match_chapter_heading :: "script \<Rightarrow> str \<Rightarrow> (str \<times> str option) option" where
  "match_chapter_heading sc s =
     map_option (\<lambda>m. (let n = group_text m 1 in if py_isdigit (sc_unicode sc) n then n else sc_upper sc n,
                      title_or_none (py_strip (group_text m 2))))
       (rx_match (sc_unicode sc) True chapter_heading_rx (py_strip s))"

definition match_chapter :: "script \<Rightarrow> str \<Rightarrow> str option" where
  "match_chapter sc s = map_option fst (match_chapter_heading sc s)"

text \<open>Parts, sections and subsections have the same reading of a full line.\<close>

definition match_numbered :: "script \<Rightarrow> regex \<Rightarrow> str \<Rightarrow> (str \<times> str option) option" where
  "match_numbered sc r s =
     map_option (\<lambda>m. (sc_lower sc (group_text m 1), title_or_none (py_strip (group_text m 2))))
       (rx_fullmatch (sc_unicode sc) True r (py_strip s))"

definition match_part :: "script \<Rightarrow> str \<Rightarrow> (str \<times> str option) option" where
  "match_part sc s = match_numbered sc part_heading_rx s"

definition match_section :: "script \<Rightarrow> str \<Rightarrow> (str \<times> str option) option" where
  "match_section sc s = match_numbered sc section_heading_rx s"

definition match_subsection :: "script \<Rightarrow> str \<Rightarrow> (str \<times> str option) option" where
  "match_subsection sc s = match_numbered sc subsection_heading_rx s"

definition looks_like_title :: "script \<Rightarrow> str \<Rightarrow> bool" where
  "looks_like_title sc s \<longleftrightarrow>
     (let t = py_strip s in
      if t = [] \<or> max_structural_title_length < py_len t then False else sc_isupper sc t)"

text \<open>An inline title is never blank: a heading without one has none.\<close>

lemma title_or_none_iff: "title_or_none s = Some t \<longleftrightarrow> t = s \<and> s \<noteq> []"
  by (auto simp: title_or_none_def)

lemma match_numbered_title:
  "match_numbered sc r s = Some (n, Some t) \<Longrightarrow> t \<noteq> [] \<and> py_strip t = t"
  by (auto simp: match_numbered_def title_or_none_iff)

lemma match_chapter_heading_title: "match_chapter_heading sc s = Some (n, Some t) \<Longrightarrow> t \<noteq> []"
  by (auto simp: match_chapter_heading_def title_or_none_iff)

end
