(* ===== verification/Parsed_Document.thy ===== *)
theory Parsed_Document
  imports Structural_Numbers
begin

text \<open>
  The output of the parser (\<open>src/pipeline/parser/models.py\<close>): points, clauses, articles and the
    structural units above
  them, appendices, attached instruments and the parsed document with its validator. A \<open>ValidationError\<close> of
  Pydantic is the first error its validator raises.
\<close>

datatype parser_error =
    BlankTitle
  | BlankSourceText
  | InvalidScope
  | BlankStructuralNumber
  | MissingTitle str str
  | TitleTooLong str str
  | SubsectionBeforeSection str
  | ArticleTitleWithoutArticle
  | DuplicatePointLabel str str str
  | DuplicateArticleNumber str
  | DuplicatePartNumber str
  | SectionMissingPart str str
  | SubsectionMissingSection str str "str option"
  | DuplicateSubsection str str
  | ArticleMissingPart str str
  | SubsectionWithoutSection str str
  | ArticleMissingSection str str "str option"
  | ArticleMissingSubsection str str str
  | InvalidAppendixHeading str
  | InvalidInstrumentHeading str
  | BlankInstrument
  | NestedInstrument
  | InstrumentWithoutArticle str
  | EmptyUnparsedBody
  | InvalidEffectiveDate
  | ConflictingEffectiveDates

text \<open>All are \<open>ValueError\<close> but the use of an article that is not there, an
  \<open>AttributeError\<close>.\<close>

definition is_value_error :: "parser_error \<Rightarrow> bool" where
  "is_value_error e \<longleftrightarrow> e \<noteq> ArticleTitleWithoutArticle"

subsection \<open>Units\<close>

record point =
  pt_label :: str
  pt_content :: str
  pt_start :: nat
  pt_end :: nat

record clause =
  cl_number :: str
  cl_content :: str
  cl_points :: "point list"
  cl_start :: nat
  cl_end :: nat

record article =
  ar_number :: str
  ar_title :: "str option"
  ar_content :: str
  ar_part :: "str option"
  ar_chapter :: "str option"
  ar_chapter_title :: "str option"
  ar_section :: "str option"
  ar_subsection :: "str option"
  ar_clauses :: "clause list"
  ar_start :: nat
  ar_end :: nat

record part_unit =
  pa_number :: str
  pa_title :: str
  pa_start :: nat
  pa_end :: nat

record section_unit =
  se_number :: str
  se_title :: str
  se_chapter :: "str option"
  se_part :: "str option"
  se_start :: nat
  se_end :: nat

record subsection_unit =
  su_number :: str
  su_title :: str
  su_section :: str
  su_chapter :: "str option"
  su_part :: "str option"
  su_start :: nat
  su_end :: nat

datatype appendix_kind = LegalContent | FormKind | ListKind | TableKind | Unclassified
datatype instrument_kind = Regulation | Charter | Standard

record hierarchy =
  hi_articles :: "article list"
  hi_parts :: "part_unit list"
  hi_sections :: "section_unit list"
  hi_subsections :: "subsection_unit list"

record appendix =
  ap_scope :: str
  ap_number :: "str option"
  ap_heading :: str
  ap_title :: "str option"
  ap_kind :: appendix_kind
  ap_content :: str
  ap_hierarchy :: hierarchy
  ap_start :: nat
  ap_end :: nat
  ap_start_line :: nat
  ap_end_line :: nat
  ap_hash :: str

record instrument =
  in_scope :: str
  in_heading :: str
  in_adoption :: str
  in_title :: "str option"
  in_kind :: instrument_kind
  in_content :: str
  in_hierarchy :: hierarchy
  in_appendices :: "appendix list"
  in_start :: nat
  in_end :: nat
  in_start_line :: nat
  in_end_line :: nat
  in_hash :: str

datatype unparsed_type = TableOfContents | UnparsedBody

record unparsed_section =
  us_type :: unparsed_type
  us_heading :: "str option"
  us_content :: str
  us_document :: str
  us_start :: nat
  us_end :: nat
  us_start_line :: nat
  us_end_line :: nat
  us_hash :: str

datatype warning_code =
    UnscopedQuoteImbalance
  | UnclosedReplacementQuote
  | HierarchyFallback parser_error
  | NoArticleBoundary

record parse_warning =
  pw_code :: warning_code
  pw_line :: "nat option"
  pw_start :: "nat option"
  pw_end :: "nat option"

datatype parse_status = Parsed | ParsedWithWarnings | SourcePreserved

record parse_diagnostics =
  pd_source_hash :: str
  pd_status :: parse_status
  pd_article_count :: nat
  pd_unparsed_count :: nat
  pd_warnings :: "parse_warning list"

text \<open>Of the metadata the parser reads the identifier and the effective date; the rest is passed through.\<close>

record 'm document_info =
  di_id :: str
  di_effective_from :: "date option"
  di_rest :: 'm

record 'm parsed_document =
  do_info :: "'m document_info"
  do_hierarchy :: hierarchy
  do_appendices :: "appendix list"
  do_instruments :: "instrument list"
  do_unparsed :: "unparsed_section list"
  do_metadata :: "parse_diagnostics option"

definition no_hierarchy :: hierarchy where
  "no_hierarchy = \<lparr>hi_articles = [], hi_parts = [], hi_sections = [], hi_subsections = []\<rparr>"

subsection \<open>Field validators\<close>

definition make_part :: "str \<Rightarrow> str \<Rightarrow> nat \<Rightarrow> nat \<Rightarrow> parser_error + part_unit" where
  "make_part number title a b =
     rbind (require (py_strip title \<noteq> []) BlankTitle) (\<lambda>_.
       Inr \<lparr>pa_number = py_strip number, pa_title = py_strip title, pa_start = a, pa_end = b\<rparr>)"

definition make_section ::
  "str \<Rightarrow> str \<Rightarrow> str option \<Rightarrow> str option \<Rightarrow> nat \<Rightarrow> nat
    \<Rightarrow> parser_error + section_unit" where
  "make_section number title chapter part a b =
     rbind (require (py_strip title \<noteq> []) BlankTitle) (\<lambda>_.
       Inr \<lparr>se_number = py_strip number, se_title = py_strip title, se_chapter = chapter, se_part = part,
            se_start = a, se_end = b\<rparr>)"

definition make_subsection ::
  "str \<Rightarrow> str \<Rightarrow> str \<Rightarrow> str option \<Rightarrow> str option \<Rightarrow> nat
    \<Rightarrow> nat \<Rightarrow> parser_error + subsection_unit" where
  "make_subsection number title sec chapter part a b =
     rbind (require (py_strip title \<noteq> [] \<and> py_strip sec \<noteq> []) BlankTitle) (\<lambda>_.
       Inr \<lparr>su_number = py_strip number, su_title = py_strip title, su_section = py_strip sec, su_chapter = chapter,
            su_part = part, su_start = a, su_end = b\<rparr>)"

definition make_clause :: "str \<Rightarrow> str \<Rightarrow> nat \<Rightarrow> nat \<Rightarrow> clause" where
  "make_clause number content a b =
     \<lparr>cl_number = py_strip number, cl_content = content, cl_points = [], cl_start = a, cl_end = b\<rparr>"

definition scope_char :: "char \<Rightarrow> bool" where
  "scope_char c \<longleftrightarrow> CHR ''a'' \<le> c \<and> c \<le> CHR ''z'' \<or> CHR ''0'' \<le> c \<and>
    c \<le> CHR ''9'' \<or> c = CHR ''_''"

text \<open>The pattern \<open>^[a-z0-9_]+$\<close> of Pydantic, whose engine does not let \<open>$\<close>
  match before a final newline.\<close>

definition scope_ok :: "str \<Rightarrow> bool" where
  "scope_ok s \<longleftrightarrow> s \<noteq> [] \<and> list_all scope_char s"

definition check_appendix :: "appendix \<Rightarrow> parser_error + appendix" where
  "check_appendix a =
     rbind (require (scope_ok (ap_scope a)) InvalidScope) (\<lambda>_.
     rbind (require (py_strip (ap_heading a) \<noteq> [] \<and> py_strip (ap_content a) \<noteq> [])
       BlankSourceText) (\<lambda>_. Inr a))"

definition check_instrument :: "instrument \<Rightarrow> parser_error + instrument" where
  "check_instrument i =
     rbind (require (scope_ok (in_scope i)) InvalidScope) (\<lambda>_.
     rbind (require (py_strip (in_heading i) \<noteq> [] \<and> py_strip (in_adoption i) \<noteq> [] \<and>
       py_strip (in_content i) \<noteq> [])
       BlankSourceText) (\<lambda>_. Inr i))"

text \<open>
  \<open>Clause.point_labels_must_be_unique\<close>, which joins points with the same label; the label is compared in lower case.
\<close>

definition label_key :: "script \<Rightarrow> str \<Rightarrow> str" where
  "label_key sc l = sc_lower sc (py_strip l)"

definition same_label :: "script \<Rightarrow> point \<Rightarrow> point \<Rightarrow> bool" where
  "same_label sc p q \<longleftrightarrow> label_key sc (pt_label p) = label_key sc (pt_label q)"

definition join_content :: "str \<Rightarrow> str \<Rightarrow> str" where
  "join_content a b = py_strip (a @ '' '' @ b)"

definition join_points :: "point \<Rightarrow> point \<Rightarrow> point" where
  "join_points q p = q\<lparr>pt_content := join_content (pt_content q) (pt_content p), pt_end := max (pt_end
    q) (pt_end p)\<rparr>"

fun add_point :: "script \<Rightarrow> (point \<Rightarrow> point \<Rightarrow> point) \<Rightarrow> point
  \<Rightarrow> point list \<Rightarrow> point list" where
  "add_point sc merge p [] = [p]"
| "add_point sc merge p (q # qs) = (if same_label sc q p then merge q p # qs else q # add_point sc merge p qs)"

definition unique_points :: "script \<Rightarrow> point list \<Rightarrow> point list" where
  "unique_points sc ps = fold (add_point sc join_points) ps []"

subsection \<open>The validator of a parsed document\<close>

text \<open>A scope that is taken gets the first free suffix.\<close>

definition numbered_scope :: "str \<Rightarrow> nat \<Rightarrow> str" where
  "numbered_scope s n = s @ ''_'' @ digits_of n"

definition fresh_scope :: "str list \<Rightarrow> str \<Rightarrow> str" where
  "fresh_scope seen s =
     (if s \<notin> set seen then s
      else case find (\<lambda>n. numbered_scope s n \<notin> set seen) [1..<length seen + 2] of
             Some n \<Rightarrow> numbered_scope s n | None \<Rightarrow> s)"

fun fresh_scopes :: "str list \<Rightarrow> str list \<Rightarrow> str list" where
  "fresh_scopes seen [] = []"
| "fresh_scopes seen (s # ss) = (let t = fresh_scope seen s in t # fresh_scopes (t # seen) ss)"

definition rescope :: "'m parsed_document \<Rightarrow> 'm parsed_document" where
  "rescope d = d\<lparr>
     do_appendices := map2 (\<lambda>a s. a\<lparr>ap_scope := s\<rparr>) (do_appendices d) (fresh_scopes []
       (map ap_scope (do_appendices d))),
     do_instruments := map2 (\<lambda>i s. i\<lparr>in_scope := s\<rparr>) (do_instruments d)
       (fresh_scopes [] (map in_scope (do_instruments d)))\<rparr>"

definition or_blank :: "'a option \<Rightarrow> parser_error + 'a" where
  "or_blank v = (case v of None \<Rightarrow> Inl BlankStructuralNumber | Some x \<Rightarrow> Inr x)"

definition optionally :: "('a \<Rightarrow> parser_error + 'b) \<Rightarrow> 'a option \<Rightarrow>
  parser_error + 'b option" where
  "optionally f v = (case v of None \<Rightarrow> Inr None | Some x \<Rightarrow> rbind (f x) (\<lambda>y. Inr (Some y)))"

definition part_key :: "script \<Rightarrow> str \<Rightarrow> parser_error + str" where
  "part_key sc p = or_blank (normalize_part_number sc p)"

type_synonym section_ref = "str option \<times> str option \<times> str"

definition section_key :: "script \<Rightarrow> str option \<Rightarrow> str option \<Rightarrow> str
  \<Rightarrow> parser_error + section_ref" where
  "section_key sc part chapter sec =
     rbind (optionally (\<lambda>c. or_blank (normalize_chapter_number sc c)) chapter) (\<lambda>c.
     rbind (or_blank (normalize_section_number sc sec)) (\<lambda>s.
       Inr (map_option (\<lambda>p. sc_lower sc (py_strip p)) part, c, s)))"

fun check_article_numbers :: "script \<Rightarrow> (str option \<times> str) list \<Rightarrow> article list
  \<Rightarrow> parser_error + unit" where
  "check_article_numbers sc seen [] = Inr ()"
| "check_article_numbers sc seen (a # as) =
     rbind (if truthy_str (ar_part a) then optionally (part_key sc) (ar_part a) else Inr None) (\<lambda>p.
     rbind (require ((p, ar_number a) \<notin> set seen) (DuplicateArticleNumber (ar_number a))) (\<lambda>_.
       check_article_numbers sc ((p, ar_number a) # seen) as))"

fun index_parts :: "script \<Rightarrow> str list \<Rightarrow> part_unit list \<Rightarrow> parser_error + str list" where
  "index_parts sc seen [] = Inr seen"
| "index_parts sc seen (p # ps) =
     rbind (part_key sc (pa_number p)) (\<lambda>k.
     rbind (require (k \<notin> set seen) (DuplicatePartNumber (pa_number p))) (\<lambda>_. index_parts sc (k # seen) ps))"

text \<open>A section whose key is taken is indexed under a suffix, which may be taken as well.\<close>

definition suffixed_key :: "section_ref list \<Rightarrow> section_ref \<Rightarrow> str \<Rightarrow> section_ref" where
  "suffixed_key keys key number =
     (case key of (p, c, s) \<Rightarrow>
        (p, c, number @ ''_'' @
           digits_of (length (filter (\<lambda>(p', c', s'). p' = p \<and> c' = c \<and> prefix number s') keys) + 1)))"

definition add_key :: "'a \<Rightarrow> 'a list \<Rightarrow> 'a list" where
  "add_key k ks = (if k \<in> set ks then ks else ks @ [k])"

fun index_sections ::
  "script \<Rightarrow> str list \<Rightarrow> section_ref list \<Rightarrow> section_unit list \<Rightarrow>
    parser_error + section_ref list" where
  "index_sections sc parts keys [] = Inr keys"
| "index_sections sc parts keys (s # ss) =
     rbind (section_key sc (se_part s) (se_chapter s) (se_number s)) (\<lambda>key.
     let key' = (if key \<in> set keys then suffixed_key keys key (se_number s) else key) in
     rbind (optionally (part_key sc) (se_part s)) (\<lambda>p.
     rbind (require (case p of None \<Rightarrow> True | Some k \<Rightarrow> k \<in> set parts)
       (SectionMissingPart (se_number s) (str_or (se_part s) []))) (\<lambda>_.
       index_sections sc parts (add_key key' keys) ss)))"

definition subsection_key :: "script \<Rightarrow> str \<Rightarrow> parser_error + str" where
  "subsection_key sc n = or_blank (normalize_subsection_number sc n)"

fun index_subsections ::
  "script \<Rightarrow> section_ref list \<Rightarrow> (section_ref \<times> str) list \<Rightarrow> subsection_unit list
     \<Rightarrow> parser_error + (section_ref \<times> str) list" where
  "index_subsections sc secs keys [] = Inr keys"
| "index_subsections sc secs keys (u # us) =
     rbind (section_key sc (su_part u) (su_chapter u) (su_section u)) (\<lambda>k.
     rbind (require (k \<in> set secs) (SubsectionMissingSection (su_number u) (su_section u) (su_chapter u))) (\<lambda>_.
     rbind (subsection_key sc (su_number u)) (\<lambda>n.
     rbind (require ((k, n) \<notin> set keys) (DuplicateSubsection (su_section u) (su_number u))) (\<lambda>_.
       index_subsections sc secs (keys @ [(k, n)]) us))))"

text \<open>The section of an article: its key, or else the first key with the same parents and the number as a prefix.\<close>

definition find_section :: "section_ref list \<Rightarrow> section_ref \<Rightarrow> str \<Rightarrow> section_ref option" where
  "find_section keys key number =
     (if key \<in> set keys then Some key
      else find (\<lambda>(p, c, s). p = fst key \<and> c = fst (snd key) \<and> prefix number s) keys)"

definition article_section ::
  "script \<Rightarrow> section_ref list \<Rightarrow> article \<Rightarrow> str option \<Rightarrow> str
    \<Rightarrow> parser_error + section_ref" where
  "article_section sc secs a chapter sec =
     rbind (section_key sc (ar_part a) chapter sec) (\<lambda>key.
       case find_section secs key sec of
         None \<Rightarrow> Inl (ArticleMissingSection (ar_number a) sec chapter) | Some k \<Rightarrow> Inr k)"

type_synonym referenced = "section_ref list \<times> (section_ref \<times> str) list"

text \<open>The checks of one article and the section and subsection it refers to.\<close>

definition check_article_parents ::
  "script \<Rightarrow> str list \<Rightarrow> section_ref list \<Rightarrow> (section_ref \<times> str) list
    \<Rightarrow> article \<Rightarrow> parser_error + referenced" where
  "check_article_parents sc parts secs subs a =
     rbind (optionally (part_key sc) (ar_part a)) (\<lambda>p.
     rbind (require (case p of None \<Rightarrow> True | Some k \<Rightarrow> k \<in> set parts)
       (ArticleMissingPart (ar_number a) (str_or (ar_part a) []))) (\<lambda>_.
     rbind (require (\<not> (ar_subsection a \<noteq> None \<and> ar_section a = None))
       (SubsectionWithoutSection (ar_number a) (str_or (ar_subsection a) []))) (\<lambda>_.
     case ar_chapter a of
       None \<Rightarrow>
         (case ar_section a of
            None \<Rightarrow> Inr ([], [])
          | Some s \<Rightarrow> rbind (article_section sc secs a None s) (\<lambda>k. Inr ([k], [])))
     | Some c \<Rightarrow>
         rbind (or_blank (normalize_chapter_number sc c)) (\<lambda>_.
         (case ar_section a of
            None \<Rightarrow> Inr ([], [])
          | Some s \<Rightarrow>
              rbind (article_section sc secs a (Some c) s) (\<lambda>k.
              (case ar_subsection a of
                 None \<Rightarrow> Inr ([k], [])
               | Some u \<Rightarrow>
                   rbind (subsection_key sc u) (\<lambda>n.
                   rbind (require ((k, n) \<in> set subs) (ArticleMissingSubsection (ar_number a) u s)) (\<lambda>_.
                     Inr ([k], [(k, n)]))))))))))"

definition check_parents ::
  "script \<Rightarrow> str list \<Rightarrow> section_ref list \<Rightarrow> (section_ref \<times> str) list
    \<Rightarrow> article list \<Rightarrow> parser_error + referenced" where
  "check_parents sc parts secs subs as =
     rbind (rmapm (check_article_parents sc parts secs subs) as) (\<lambda>rs.
       Inr (concat (map fst rs), concat (map snd rs)))"

text \<open>Sections and subsections without articles are removed, when there are any.\<close>

definition drop_orphans ::
  "script \<Rightarrow> section_ref list \<Rightarrow> (section_ref \<times> str) list \<Rightarrow> referenced
    \<Rightarrow> hierarchy \<Rightarrow> hierarchy" where
  "drop_orphans sc secs subs used h =
     h\<lparr>hi_sections :=
         (if set secs \<subseteq> set (fst used) then hi_sections h
          else filter (\<lambda>s. case section_key sc (se_part s) (se_chapter s) (se_number s) of
                             Inr k \<Rightarrow> k \<in> set (fst used) | Inl _ \<Rightarrow> False) (hi_sections h)),
       hi_subsections :=
         (if set subs \<subseteq> set (snd used) then hi_subsections h
          else filter (\<lambda>u. case (section_key sc (su_part u) (su_chapter u) (su_section u),
            subsection_key sc (su_number u)) of
                             (Inr k, Inr n) \<Rightarrow> (k, n) \<in> set (snd used) | _ \<Rightarrow> False)
                               (hi_subsections h))\<rparr>"

definition validate_hierarchy :: "script \<Rightarrow> hierarchy \<Rightarrow> parser_error + hierarchy" where
  "validate_hierarchy sc h =
     rbind (check_article_numbers sc [] (hi_articles h)) (\<lambda>_.
     rbind (index_parts sc [] (hi_parts h)) (\<lambda>parts.
     rbind (index_sections sc parts [] (hi_sections h)) (\<lambda>secs.
     rbind (index_subsections sc secs [] (hi_subsections h)) (\<lambda>subs.
     rbind (check_parents sc parts secs subs (hi_articles h)) (\<lambda>used.
       Inr (drop_orphans sc secs subs used h))))))"

text \<open>\<open>ParsedDocument.section_hierarchy_must_be_consistent\<close>\<close>

definition validate_parsed_document :: "script \<Rightarrow> 'm parsed_document \<Rightarrow> parser_error + 'm
  parsed_document" where
  "validate_parsed_document sc d =
     rbind (validate_hierarchy sc (do_hierarchy d)) (\<lambda>h. Inr ((rescope d)\<lparr>do_hierarchy := h\<rparr>))"

end
