(* ===== verification/Source_Lines.thy ===== *)
theory Source_Lines
  imports Heading_Patterns Parsed_Document Reference_Parsing
begin

text \<open>
  The lines of a source text (\<open>src/pipeline/parser/hierarchy_parser.py\<close>, first half): the canonical text and its line
  records, the repair of the spacing of Vietnamese words, the lines that are skipped, citations that look like
  headings, and the blocks of quoted replacement text.
\<close>

subsection \<open>Line records\<close>

record line_record =
  li_text :: str
  li_bold :: bool
  li_start :: nat
  li_end :: nat
  li_line :: nat

text \<open>\<open>canonicalize_source_text\<close>: CR LF and CR become LF, then the canonical composition.\<close>

fun replace_crlf :: "str \<Rightarrow> str" where
  "replace_crlf [] = []"
| "replace_crlf (c # cs) =
     (case cs of
        d # ds \<Rightarrow> if c = CHR 0x0D \<and> d = CHR 0x0A then CHR 0x0A # replace_crlf ds else c # replace_crlf cs
      | [] \<Rightarrow> [c])"

definition canonicalize_source_text :: "script \<Rightarrow> str \<Rightarrow> str" where
  "canonicalize_source_text sc s =
     sc_nfc sc (map (\<lambda>c. if c = CHR 0x0D then CHR 0x0A else c) (replace_crlf s))"

text \<open>\<open>str.splitlines(keepends=True)\<close>: the line boundaries of Python.\<close>

definition line_boundary :: "pchar \<Rightarrow> bool" where
  "line_boundary c \<longleftrightarrow>
     c \<in> {[CHR 0x0A], [CHR 0x0B], [CHR 0x0C], [CHR 0x0D], [CHR 0x1C], [CHR 0x1D], [CHR 0x1E], [CHR 0xC2, CHR 0x85],
          [CHR 0xE2, CHR 0x80, CHR 0xA8], [CHR 0xE2, CHR 0x80, CHR 0xA9]}"

fun split_keep :: "pchar list \<Rightarrow> pchar list \<Rightarrow> pchar list list" where
  "split_keep cur [] = (if cur = [] then [] else [rev cur])"
| "split_keep cur (c # cs) =
     (if c = [CHR 0x0D] \<and> cs \<noteq> [] \<and> hd cs = [CHR 0x0A] then split_keep (c # cur) cs
      else if line_boundary c then rev (c # cur) # split_keep [] cs
      else split_keep (c # cur) cs)"

definition strip_newlines :: "pchar list \<Rightarrow> pchar list" where
  "strip_newlines cs = rev (dropWhile (\<lambda>c. c = [CHR 0x0A]) (rev cs))"

fun line_records_from :: "nat \<Rightarrow> nat \<Rightarrow> pchar list list \<Rightarrow> line_record list" where
  "line_records_from cursor number [] = []"
| "line_records_from cursor number (raw # raws) =
     (let cs = strip_newlines raw in
      \<lparr>li_text = concat cs, li_bold = False, li_start = cursor, li_end = cursor + length cs, li_line = number\<rparr>
      # line_records_from (cursor + length raw) (Suc number) raws)"

definition source_line_records :: "str \<Rightarrow> line_record list" where
  "source_line_records s =
     (let records = line_records_from 0 1 (split_keep [] (py_chars s)) in
      if s \<noteq> [] \<and> records = []
      then [\<lparr>li_text = s, li_bold = False, li_start = 0, li_end = py_len s, li_line = 1\<rparr>]
      else records)"

subsection \<open>Spacing\<close>

definition gazette_rx :: regex where
  "gazette_rx =
     seqs [Many True digit, blanks0, lits (''C'' @ [CHR 0xC3, CHR 0x94] @ ''NG B'' @ [CHR 0xC3, CHR
     0x81] @ ''O''), blanks0, lits ''/'', blanks0, lits (''S'' @ [CHR 0xE1, CHR 0xBB, CHR 0x91]),
     blanks, repeat_from True 1 (Class False [ItemRange 48 57, ItemSpace, ItemChar ''+'']), lits ''/'',
     blanks0, lits (''Ng'' @ [CHR 0xC3, CHR 0xA0] @ ''y''), blanks, repeat_from True 1 (Class False
     [ItemRange 48 57, ItemSpace, ItemChar ''-'']), Many True digit]"
definition digraph_head_rx :: regex where
  "digraph_head_rx =
     Class False [ItemChar ''c'', ItemChar ''g'', ItemChar ''k'', ItemChar ''n'', ItemChar ''p'',
     ItemChar ''t'']"
definition digraph_tail_rx :: regex where
  "digraph_tail_rx =
     seqs [Class False [ItemChar ''h'', ItemChar ''r'', ItemChar ''g''], Class False [ItemChar ''a'',
     ItemChar ([CHR 0xC4, CHR 0x83]), ItemChar ([CHR 0xC3, CHR 0xA2]), ItemChar ''e'', ItemChar ([CHR
     0xC3, CHR 0xAA]), ItemChar ''u'', ItemChar ([CHR 0xC6, CHR 0xA1]), ItemChar ''o'', ItemChar ([CHR
     0xC3, CHR 0xB4]), ItemChar ([CHR 0xC6, CHR 0xB0]), ItemChar ''i'', ItemChar ([CHR 0xC3, CHR
     0xA0]), ItemChar ([CHR 0xC3, CHR 0xA1]), ItemChar ([CHR 0xE1, CHR 0xBA, CHR 0xA1]), ItemChar ([CHR
     0xE1, CHR 0xBA, CHR 0xA3]), ItemChar ([CHR 0xC3, CHR 0xA3]), ItemChar ([CHR 0xE1, CHR 0xBA, CHR
     0xA7]), ItemChar ([CHR 0xE1, CHR 0xBA, CHR 0xA5]), ItemChar ([CHR 0xE1, CHR 0xBA, CHR 0xAD]),
     ItemChar ([CHR 0xE1, CHR 0xBA, CHR 0xA9]), ItemChar ([CHR 0xE1, CHR 0xBA, CHR 0xAB]), ItemChar
     ([CHR 0xE1, CHR 0xBA, CHR 0xB1]), ItemChar ([CHR 0xE1, CHR 0xBA, CHR 0xAF]), ItemChar ([CHR 0xE1,
     CHR 0xBA, CHR 0xB7]), ItemChar ([CHR 0xE1, CHR 0xBA, CHR 0xB3]), ItemChar ([CHR 0xE1, CHR 0xBA,
     CHR 0xB5]), ItemChar ([CHR 0xC3, CHR 0xA8]), ItemChar ([CHR 0xC3, CHR 0xA9]), ItemChar ([CHR 0xE1,
     CHR 0xBA, CHR 0xB9]), ItemChar ([CHR 0xE1, CHR 0xBA, CHR 0xBB]), ItemChar ([CHR 0xE1, CHR 0xBA,
     CHR 0xBD]), ItemChar ([CHR 0xE1, CHR 0xBB, CHR 0x81]), ItemChar ([CHR 0xE1, CHR 0xBA, CHR 0xBF]),
     ItemChar ([CHR 0xE1, CHR 0xBB, CHR 0x87]), ItemChar ([CHR 0xE1, CHR 0xBB, CHR 0x83]), ItemChar
     ([CHR 0xE1, CHR 0xBB, CHR 0x85]), ItemChar ([CHR 0xC3, CHR 0xAC]), ItemChar ([CHR 0xC3, CHR
     0xAD]), ItemChar ([CHR 0xE1, CHR 0xBB, CHR 0x8B]), ItemChar ([CHR 0xE1, CHR 0xBB, CHR 0x89]),
     ItemChar ([CHR 0xC4, CHR 0xA9]), ItemChar ([CHR 0xC3, CHR 0xB2]), ItemChar ([CHR 0xC3, CHR 0xB3]),
     ItemChar ([CHR 0xE1, CHR 0xBB, CHR 0x8D]), ItemChar ([CHR 0xE1, CHR 0xBB, CHR 0x8F]), ItemChar
     ([CHR 0xC3, CHR 0xB5]), ItemChar ([CHR 0xE1, CHR 0xBB, CHR 0x93]), ItemChar ([CHR 0xE1, CHR 0xBB,
     CHR 0x91]), ItemChar ([CHR 0xE1, CHR 0xBB, CHR 0x99]), ItemChar ([CHR 0xE1, CHR 0xBB, CHR 0x95]),
     ItemChar ([CHR 0xE1, CHR 0xBB, CHR 0x97]), ItemChar ([CHR 0xE1, CHR 0xBB, CHR 0x9D]), ItemChar
     ([CHR 0xE1, CHR 0xBB, CHR 0x9B]), ItemChar ([CHR 0xE1, CHR 0xBB, CHR 0xA3]), ItemChar ([CHR 0xE1,
     CHR 0xBB, CHR 0x9F]), ItemChar ([CHR 0xE1, CHR 0xBB, CHR 0xA1]), ItemChar ([CHR 0xC3, CHR 0xB9]),
     ItemChar ([CHR 0xC3, CHR 0xBA]), ItemChar ([CHR 0xE1, CHR 0xBB, CHR 0xA5]), ItemChar ([CHR 0xE1,
     CHR 0xBB, CHR 0xA7]), ItemChar ([CHR 0xC5, CHR 0xA9]), ItemChar ([CHR 0xE1, CHR 0xBB, CHR 0xAB]),
     ItemChar ([CHR 0xE1, CHR 0xBB, CHR 0xA9]), ItemChar ([CHR 0xE1, CHR 0xBB, CHR 0xB1]), ItemChar
     ([CHR 0xE1, CHR 0xBB, CHR 0xAD]), ItemChar ([CHR 0xE1, CHR 0xBB, CHR 0xAF]), ItemChar ([CHR 0xE1,
     CHR 0xBB, CHR 0xB3]), ItemChar ([CHR 0xC3, CHR 0xBD]), ItemChar ([CHR 0xE1, CHR 0xBB, CHR 0xB4]),
     ItemChar ([CHR 0xE1, CHR 0xBB, CHR 0xB7]), ItemChar ([CHR 0xE1, CHR 0xBB, CHR 0xB9])], Many True
     (Class False [ItemWord])]"
definition consonant_rx :: regex where
  "consonant_rx =
     alts [lits ''ch'', lits ''gh'', lits ''kh'', lits ''ngh'', lits ''ng'', lits ''nh'', lits ''ph'',
     lits ''qu'', lits ''th'', lits ''tr'', Class False [ItemChar ''b'', ItemChar ''c'', ItemChar
     ''d'', ItemChar ([CHR 0xC4, CHR 0x91]), ItemChar ''g'', ItemChar ''h'', ItemChar ''k'', ItemChar
     ''l'', ItemChar ''m'', ItemChar ''n'', ItemChar ''p'', ItemChar ''q'', ItemChar ''r'', ItemChar
     ''s'', ItemChar ''t'', ItemChar ''v'', ItemChar ''x'']]"
definition vowel_tail_rx :: regex where
  "vowel_tail_rx =
     seqs [Class False [ItemChar ''a'', ItemChar ([CHR 0xC4, CHR 0x83]), ItemChar ([CHR 0xC3, CHR
     0xA2]), ItemChar ''e'', ItemChar ([CHR 0xC3, CHR 0xAA]), ItemChar ''u'', ItemChar ([CHR 0xC6, CHR
     0xA1]), ItemChar ''o'', ItemChar ([CHR 0xC3, CHR 0xB4]), ItemChar ([CHR 0xC6, CHR 0xB0]), ItemChar
     ''i'', ItemChar ([CHR 0xC3, CHR 0xA0]), ItemChar ([CHR 0xC3, CHR 0xA1]), ItemChar ([CHR 0xE1, CHR
     0xBA, CHR 0xA1]), ItemChar ([CHR 0xE1, CHR 0xBA, CHR 0xA3]), ItemChar ([CHR 0xC3, CHR 0xA3]),
     ItemChar ([CHR 0xE1, CHR 0xBA, CHR 0xA7]), ItemChar ([CHR 0xE1, CHR 0xBA, CHR 0xA5]), ItemChar
     ([CHR 0xE1, CHR 0xBA, CHR 0xAD]), ItemChar ([CHR 0xE1, CHR 0xBA, CHR 0xA9]), ItemChar ([CHR 0xE1,
     CHR 0xBA, CHR 0xAB]), ItemChar ([CHR 0xE1, CHR 0xBA, CHR 0xB1]), ItemChar ([CHR 0xE1, CHR 0xBA,
     CHR 0xAF]), ItemChar ([CHR 0xE1, CHR 0xBA, CHR 0xB7]), ItemChar ([CHR 0xE1, CHR 0xBA, CHR 0xB3]),
     ItemChar ([CHR 0xE1, CHR 0xBA, CHR 0xB5]), ItemChar ([CHR 0xC3, CHR 0xA8]), ItemChar ([CHR 0xC3,
     CHR 0xA9]), ItemChar ([CHR 0xE1, CHR 0xBA, CHR 0xB9]), ItemChar ([CHR 0xE1, CHR 0xBA, CHR 0xBB]),
     ItemChar ([CHR 0xE1, CHR 0xBA, CHR 0xBD]), ItemChar ([CHR 0xE1, CHR 0xBB, CHR 0x81]), ItemChar
     ([CHR 0xE1, CHR 0xBA, CHR 0xBF]), ItemChar ([CHR 0xE1, CHR 0xBB, CHR 0x87]), ItemChar ([CHR 0xE1,
     CHR 0xBB, CHR 0x83]), ItemChar ([CHR 0xE1, CHR 0xBB, CHR 0x85]), ItemChar ([CHR 0xC3, CHR 0xAC]),
     ItemChar ([CHR 0xC3, CHR 0xAD]), ItemChar ([CHR 0xE1, CHR 0xBB, CHR 0x8B]), ItemChar ([CHR 0xE1,
     CHR 0xBB, CHR 0x89]), ItemChar ([CHR 0xC4, CHR 0xA9]), ItemChar ([CHR 0xC3, CHR 0xB2]), ItemChar
     ([CHR 0xC3, CHR 0xB3]), ItemChar ([CHR 0xE1, CHR 0xBB, CHR 0x8D]), ItemChar ([CHR 0xE1, CHR 0xBB,
     CHR 0x8F]), ItemChar ([CHR 0xC3, CHR 0xB5]), ItemChar ([CHR 0xE1, CHR 0xBB, CHR 0x93]), ItemChar
     ([CHR 0xE1, CHR 0xBB, CHR 0x91]), ItemChar ([CHR 0xE1, CHR 0xBB, CHR 0x99]), ItemChar ([CHR 0xE1,
     CHR 0xBB, CHR 0x95]), ItemChar ([CHR 0xE1, CHR 0xBB, CHR 0x97]), ItemChar ([CHR 0xE1, CHR 0xBB,
     CHR 0x9D]), ItemChar ([CHR 0xE1, CHR 0xBB, CHR 0x9B]), ItemChar ([CHR 0xE1, CHR 0xBB, CHR 0xA3]),
     ItemChar ([CHR 0xE1, CHR 0xBB, CHR 0x9F]), ItemChar ([CHR 0xE1, CHR 0xBB, CHR 0xA1]), ItemChar
     ([CHR 0xC3, CHR 0xB9]), ItemChar ([CHR 0xC3, CHR 0xBA]), ItemChar ([CHR 0xE1, CHR 0xBB, CHR
     0xA5]), ItemChar ([CHR 0xE1, CHR 0xBB, CHR 0xA7]), ItemChar ([CHR 0xC5, CHR 0xA9]), ItemChar ([CHR
     0xE1, CHR 0xBB, CHR 0xAB]), ItemChar ([CHR 0xE1, CHR 0xBB, CHR 0xA9]), ItemChar ([CHR 0xE1, CHR
     0xBB, CHR 0xB1]), ItemChar ([CHR 0xE1, CHR 0xBB, CHR 0xAD]), ItemChar ([CHR 0xE1, CHR 0xBB, CHR
     0xAF]), ItemChar ([CHR 0xE1, CHR 0xBB, CHR 0xB3]), ItemChar ([CHR 0xC3, CHR 0xBD]), ItemChar ([CHR
     0xE1, CHR 0xBB, CHR 0xB4]), ItemChar ([CHR 0xE1, CHR 0xBB, CHR 0xB7]), ItemChar ([CHR 0xE1, CHR
     0xBB, CHR 0xB9])], Many True (Class False [ItemWord])]"
definition word_rx :: regex where
  "word_rx =
     repeat_from True 1 (Class False [ItemWord])"
definition marked_tail_rx :: regex where
  "marked_tail_rx =
     seqs [Class False [ItemChar ([CHR 0xC3, CHR 0xA0]), ItemChar ([CHR 0xC3, CHR 0xA1]), ItemChar
     ([CHR 0xE1, CHR 0xBA, CHR 0xA1]), ItemChar ([CHR 0xE1, CHR 0xBA, CHR 0xA3]), ItemChar ([CHR 0xC3,
     CHR 0xA3]), ItemChar ([CHR 0xE1, CHR 0xBA, CHR 0xA7]), ItemChar ([CHR 0xE1, CHR 0xBA, CHR 0xA5]),
     ItemChar ([CHR 0xE1, CHR 0xBA, CHR 0xAD]), ItemChar ([CHR 0xE1, CHR 0xBA, CHR 0xA9]), ItemChar
     ([CHR 0xE1, CHR 0xBA, CHR 0xAB]), ItemChar ([CHR 0xE1, CHR 0xBA, CHR 0xB1]), ItemChar ([CHR 0xE1,
     CHR 0xBA, CHR 0xAF]), ItemChar ([CHR 0xE1, CHR 0xBA, CHR 0xB7]), ItemChar ([CHR 0xE1, CHR 0xBA,
     CHR 0xB3]), ItemChar ([CHR 0xE1, CHR 0xBA, CHR 0xB5]), ItemChar ([CHR 0xC3, CHR 0xA8]), ItemChar
     ([CHR 0xC3, CHR 0xA9]), ItemChar ([CHR 0xE1, CHR 0xBA, CHR 0xB9]), ItemChar ([CHR 0xE1, CHR 0xBA,
     CHR 0xBB]), ItemChar ([CHR 0xE1, CHR 0xBA, CHR 0xBD]), ItemChar ([CHR 0xE1, CHR 0xBB, CHR 0x81]),
     ItemChar ([CHR 0xE1, CHR 0xBA, CHR 0xBF]), ItemChar ([CHR 0xE1, CHR 0xBB, CHR 0x87]), ItemChar
     ([CHR 0xE1, CHR 0xBB, CHR 0x83]), ItemChar ([CHR 0xE1, CHR 0xBB, CHR 0x85]), ItemChar ([CHR 0xC3,
     CHR 0xAC]), ItemChar ([CHR 0xC3, CHR 0xAD]), ItemChar ([CHR 0xE1, CHR 0xBB, CHR 0x8B]), ItemChar
     ([CHR 0xE1, CHR 0xBB, CHR 0x89]), ItemChar ([CHR 0xC4, CHR 0xA9]), ItemChar ([CHR 0xC3, CHR
     0xB2]), ItemChar ([CHR 0xC3, CHR 0xB3]), ItemChar ([CHR 0xE1, CHR 0xBB, CHR 0x8D]), ItemChar ([CHR
     0xE1, CHR 0xBB, CHR 0x8F]), ItemChar ([CHR 0xC3, CHR 0xB5]), ItemChar ([CHR 0xC3, CHR 0xB4]),
     ItemChar ([CHR 0xE1, CHR 0xBB, CHR 0x93]), ItemChar ([CHR 0xE1, CHR 0xBB, CHR 0x91]), ItemChar
     ([CHR 0xE1, CHR 0xBB, CHR 0x99]), ItemChar ([CHR 0xE1, CHR 0xBB, CHR 0x95]), ItemChar ([CHR 0xE1,
     CHR 0xBB, CHR 0x97]), ItemChar ([CHR 0xC6, CHR 0xA1]), ItemChar ([CHR 0xE1, CHR 0xBB, CHR 0x9D]),
     ItemChar ([CHR 0xE1, CHR 0xBB, CHR 0x9B]), ItemChar ([CHR 0xE1, CHR 0xBB, CHR 0xA3]), ItemChar
     ([CHR 0xE1, CHR 0xBB, CHR 0x9F]), ItemChar ([CHR 0xE1, CHR 0xBB, CHR 0xA1]), ItemChar ([CHR 0xC3,
     CHR 0xB9]), ItemChar ([CHR 0xC3, CHR 0xBA]), ItemChar ([CHR 0xE1, CHR 0xBB, CHR 0xA5]), ItemChar
     ([CHR 0xE1, CHR 0xBB, CHR 0xA7]), ItemChar ([CHR 0xC5, CHR 0xA9]), ItemChar ([CHR 0xC6, CHR
     0xB0]), ItemChar ([CHR 0xE1, CHR 0xBB, CHR 0xAB]), ItemChar ([CHR 0xE1, CHR 0xBB, CHR 0xA9]),
     ItemChar ([CHR 0xE1, CHR 0xBB, CHR 0xB1]), ItemChar ([CHR 0xE1, CHR 0xBB, CHR 0xAD]), ItemChar
     ([CHR 0xE1, CHR 0xBB, CHR 0xAF]), ItemChar ([CHR 0xE1, CHR 0xBB, CHR 0xB3]), ItemChar ([CHR 0xC3,
     CHR 0xBD]), ItemChar ([CHR 0xE1, CHR 0xBB, CHR 0xB4]), ItemChar ([CHR 0xE1, CHR 0xBB, CHR 0xB7]),
     ItemChar ([CHR 0xE1, CHR 0xBB, CHR 0xB9])], Many True (Class False [ItemWord])]"

text \<open>Two pieces of a word with blanks between: \<open>(head)\s+(tail)\b\<close>, with or without a word
  boundary in front.\<close>

definition split_word :: "bool \<Rightarrow> regex \<Rightarrow> regex \<Rightarrow> regex" where
  "split_word edge head tail =
     seqs ((if edge then [WordEdge] else []) @ [Group 1 head, blanks, Group 2 tail, WordEdge])"

definition digraph_rx :: regex where "digraph_rx = split_word True digraph_head_rx digraph_tail_rx"
definition split_consonant_rx :: regex where "split_consonant_rx = split_word True consonant_rx vowel_tail_rx"
definition split_mark_rx :: regex where "split_mark_rx = split_word False word_rx marked_tail_rx"

definition join_pieces :: "script \<Rightarrow> regex \<Rightarrow> str \<Rightarrow> str" where
  "join_pieces sc r s = rx_sub (sc_unicode sc) True r (\<lambda>m. group_text m 1 @ group_text m 2) s"

text \<open>
  The loop \<open>while old_text != text\<close>. A round that changes the text shortens it, which is the guard of the recursion;
  for the three expressions it always holds (\<open>join_until_stable_loop\<close>).
\<close>

function join_until_stable :: "script \<Rightarrow> regex \<Rightarrow> str \<Rightarrow> str" where
  "join_until_stable sc r s =
     (let t = join_pieces sc r s in
      if t = s then s else if length t < length s then join_until_stable sc r t else t)"
  by pat_completeness auto
termination by (relation "measure (\<lambda>(sc, r, s). length s)") auto

declare join_until_stable.simps [simp del]

definition collapse_blanks :: "script \<Rightarrow> str \<Rightarrow> str" where
  "collapse_blanks sc s = rx_sub (sc_unicode sc) False blanks (\<lambda>m. '' '') s"

definition clean_vietnamese_spacing :: "script \<Rightarrow> str \<Rightarrow> str" where
  "clean_vietnamese_spacing sc s =
     (let s1 = rx_sub (sc_unicode sc) True gazette_rx (\<lambda>m. []) s;
          s2 = join_until_stable sc digraph_rx s1;
          s3 = join_until_stable sc split_consonant_rx s2;
          s4 = join_until_stable sc split_mark_rx s3
      in py_strip (collapse_blanks sc s4))"

subsection \<open>Skipped lines\<close>

definition page_number_rx :: regex where
  "page_number_rx =
     seqs [TextStart, digits, TextEnd]"
definition signing_time_rx :: regex where
  "signing_time_rx =
     seqs [TextStart, lits (''Th'' @ [CHR 0xE1, CHR 0xBB, CHR 0x9D] @ ''i gian''), blanks0, lits (''k''
     @ [CHR 0xC3, CHR 0xBD] @ '':'')]"

definition signature_line :: "script \<Rightarrow> str \<Rightarrow> bool" where
  "signature_line sc s \<longleftrightarrow>
     prefix (''K'' @ [CHR 0xC3, CHR 0xBD] @ '' b'' @ [CHR 0xE1, CHR 0xBB, CHR 0x9F] @ ''i:'') s \<or> (prefix
       ''Email:'' s \<and> occurs_in ''@'' s) \<or> prefix (''C'' @ [CHR 0xC6, CHR 0xA1] @ '' quan:'') s
     \<or> rx_match (sc_unicode sc) True signing_time_rx s \<noteq> None"

definition should_skip_line :: "script \<Rightarrow> str \<Rightarrow> bool" where
  "should_skip_line sc line =
     (let s = py_strip line in
      if rx_match (sc_unicode sc) False page_number_rx s \<noteq> None then True
      else if signature_line sc s then True
      else if occurs_in (''C'' @ [CHR 0xC3, CHR 0x94] @ ''NG B'' @ [CHR 0xC3, CHR 0x81] @ ''O/S'' @ [CHR 0xE1,
        CHR 0xBB, CHR 0x91]) s \<or> occurs_in ''CONG BAO/So'' s then True
      else s = ([CHR 0xC4, CHR 0x90] @ ''i'' @ [CHR 0xE1, CHR 0xBB, CHR 0x81] @ ''u kho'' @ [CHR 0xE1, CHR
        0xBA, CHR 0xA3] @ ''n '' @ [CHR 0xC4, CHR 0x91, CHR 0xC6, CHR 0xB0, CHR 0xE1, CHR 0xBB, CHR 0xA3] @
        ''c s'' @ [CHR 0xE1, CHR 0xBB, CHR 0xAD] @ ''a '' @ [CHR 0xC4, CHR 0x91, CHR 0xE1, CHR 0xBB, CHR 0x95]
        @ ''i, b'' @ [CHR 0xE1, CHR 0xBB, CHR 0x95] @ '' sung'') \<or> s = ([CHR 0xC4, CHR 0x90] @ ''i'' @ [CHR
        0xE1, CHR 0xBB, CHR 0x81] @ ''u kho'' @ [CHR 0xE1, CHR 0xBA, CHR 0xA3] @ ''n '' @ [CHR 0xC4, CHR 0x91,
        CHR 0xC6, CHR 0xB0, CHR 0xE1, CHR 0xBB, CHR 0xA3] @ ''c b'' @ [CHR 0xE1, CHR 0xBB, CHR 0x95] @
        '' sung''))"

subsection \<open>Citations\<close>

definition bare_article_rx :: regex where
  "bare_article_rx =
     seqs [TextStart, lits ([CHR 0xC4, CHR 0x90] @ ''i'' @ [CHR 0xE1, CHR 0xBB, CHR 0x81] @ ''u''),
     blanks, digits, opt True (Class False [ItemRange 97 122]), TextEnd]"
definition citation_before_rx :: regex where
  "citation_before_rx =
     seqs [alts [seqs [lits ''quy'', blanks, lits ''dinh'', blanks, lits ''tai''], seqs [lits ''sua'',
     blanks, lits ''doi'', repeat_from True 1 (Class False [ItemChar '','', ItemSpace]), lits ''bo'',
     blanks, lits ''sung''], seqs [lits ''thong'', blanks, lits ''nhat'', blanks, lits ''voi''], lits
     ''theo'', lits ''tai'', seqs [lits ''theo'', blanks, lits ''quy'', blanks, lits ''dinh''], seqs
     [lits ''khoan'', blanks, digits], seqs [lits ''diem'', blanks, Class False [ItemRange 97 122]],
     lits ''vao'', lits ''hoac'', lits ''va'', seqs [lits ''bai'', blanks, lits ''bo''], lits '',''],
     blanks0, TextEnd]"
definition citation_after_rx :: regex where
  "citation_after_rx =
     seqs [TextStart, alts [lits ''va'', lits ''hoac'', lits '','', seqs [lits ''nhu'', blanks, lits
     ''sau''], lits ''cua'', seqs [lits ''nghi'', blanks, lits ''dinh''], lits ''luat'', seqs [lits
     ''phu'', blanks, lits ''luc''], lits ''.'']]"

definition is_citation_context :: "script \<Rightarrow> str \<Rightarrow> str \<Rightarrow> str \<Rightarrow> bool" where
  "is_citation_context sc prev line next =
     (if rx_match (sc_unicode sc) True bare_article_rx (py_strip line) = None then False
      else let earlier = sc_lower sc (py_strip (fold_marks sc prev)); later = sc_lower sc (py_strip (fold_marks sc next)) in
        if prev \<noteq> [] \<and> earlier \<noteq> [] \<and> rx_found (sc_unicode sc) True citation_before_rx earlier then True
        else next \<noteq> [] \<and> later \<noteq> [] \<and> rx_found (sc_unicode sc) True citation_after_rx later)"

subsection \<open>Quoted replacement text\<close>

datatype quote_style = Curly | Straight

record quote_scan =
  qs_quoted :: "nat list"
  qs_warnings :: "parse_warning list"
  qs_intro :: "line_record option"
  qs_origin :: "line_record option"
  qs_lines :: "nat list"
  qs_style :: "quote_style option"
  qs_depth :: int

definition replacement_intro_rx :: regex where
  "replacement_intro_rx =
     seqs [alts [seqs [lits ''sua'', blanks, lits ''doi''], seqs [lits ''bo'', blanks, lits ''sung''],
     seqs [lits ''thay'', blanks, lits ''the''], seqs [lits ''bai'', blanks, lits ''bo'']], repeat True
     0 200 Dot, alts [seqs [lits ''nhu'', blanks, lits ''sau''], seqs [lits ''sau'', blanks, lits
     ''day'']], blanks0, lits '':'', blanks0, Group 1 (Many True Dot), TextEnd]"
definition closing_quote_rx :: regex where
  "closing_quote_rx =
     seqs [lits ([CHR 0x22]), blanks0, opt True (Class False [ItemChar ''.'', ItemChar '','', ItemChar
     '';'', ItemChar '':'']), blanks0, TextEnd]"

definition open_curly :: pchar where "open_curly = ([CHR 0xE2, CHR 0x80, CHR 0x9C])"
definition close_curly :: pchar where "close_curly = ([CHR 0xE2, CHR 0x80, CHR 0x9D])"
definition straight_quote :: pchar where "straight_quote = [CHR 0x22]"

definition count_char :: "pchar \<Rightarrow> str \<Rightarrow> int" where
  "count_char c s = int (length (filter (\<lambda>d. d = c) (py_chars s)))"

definition starts_quoted :: "str \<Rightarrow> bool" where
  "starts_quoted s \<longleftrightarrow> prefix open_curly s \<or> prefix straight_quote s"

definition curly_balance :: "str \<Rightarrow> int" where
  "curly_balance s = count_char open_curly s - count_char close_curly s"

definition closed_by_straight :: "script \<Rightarrow> str \<Rightarrow> bool" where
  "closed_by_straight sc s = rx_found (sc_unicode sc) False closing_quote_rx s"

definition start_scope :: "script \<Rightarrow> line_record \<Rightarrow> nat \<Rightarrow> str \<Rightarrow>
  quote_scan \<Rightarrow> quote_scan" where
  "start_scope sc record i line q =
     (let style = (if prefix open_curly line then Curly else Straight);
          depth = (if style = Curly then curly_balance line else count_char straight_quote line mod 2)
      in q\<lparr>qs_origin := Some (case qs_intro q of Some r \<Rightarrow> r | None \<Rightarrow> record),
        qs_style := Some style,
           qs_depth := (if style = Curly \<and> 0 < depth \<and> closed_by_straight sc line then 0 else depth),
           qs_lines := qs_lines q @ [i]\<rparr>)"

definition close_scope :: "quote_scan \<Rightarrow> quote_scan" where
  "close_scope q = q\<lparr>qs_quoted := qs_quoted q @ qs_lines q, qs_origin := None, qs_lines := [], qs_style := None,
     qs_depth := 0\<rparr>"

definition xor_bit :: "int \<Rightarrow> int \<Rightarrow> int" where
  "xor_bit a b = (a + b) mod 2"

definition continue_scope :: "script \<Rightarrow> nat \<Rightarrow> str \<Rightarrow> quote_scan \<Rightarrow> quote_scan" where
  "continue_scope sc i line q =
     (let depth =
        (if qs_style q = Some Curly
         then (let d = qs_depth q + curly_balance line in if 0 < d \<and> closed_by_straight sc line then 0 else d)
         else xor_bit (qs_depth q) (count_char straight_quote line mod 2));
          q' = q\<lparr>qs_lines := qs_lines q @ [i], qs_depth := depth\<rparr>
      in if depth \<le> 0 then close_scope q' else q')"

definition line_warning :: "warning_code \<Rightarrow> line_record \<Rightarrow> parse_warning" where
  "line_warning code r =
     \<lparr>pw_code = code, pw_line = Some (li_line r), pw_start = Some (li_start r), pw_end = Some (li_end r)\<rparr>"

text \<open>A line outside a quotation: the introduction of one, or ordinary text.\<close>

definition scan_intro :: "script \<Rightarrow> line_record \<Rightarrow> nat \<Rightarrow> str \<Rightarrow>
  quote_scan \<Rightarrow> quote_scan" where
  "scan_intro sc record i line q =
     (case rx_search (sc_unicode sc) True replacement_intro_rx (sc_lower sc (fold_marks sc line)) of
        Some m \<Rightarrow>
          (let suff = lstrip (group_text m 1) in
           if starts_quoted suff
           then (let q' = (start_scope sc record i suff q)\<lparr>qs_lines := []\<rparr> in
                 if qs_depth q' \<le> 0 then q'\<lparr>qs_origin := None, qs_style := None\<rparr> else q')
           else q\<lparr>qs_intro := Some record\<rparr>)
      | None \<Rightarrow>
          if count_char open_curly line \<noteq> count_char close_curly line
          then q\<lparr>qs_warnings := qs_warnings q @ [line_warning UnscopedQuoteImbalance record]\<rparr>
          else q)"

definition scan_line :: "script \<Rightarrow> quote_scan \<Rightarrow> nat \<times> line_record \<Rightarrow> quote_scan" where
  "scan_line sc q entry =
     (let i = fst entry; record = snd entry; line = py_strip (clean_vietnamese_spacing sc (li_text record)) in
      if line = [] then q
      else if qs_origin q \<noteq> None then continue_scope sc i line q
      else if qs_intro q \<noteq> None \<and> starts_quoted line
      then (let q' = (start_scope sc record i line q)\<lparr>qs_intro := None\<rparr> in
            if qs_depth q' \<le> 0
            then q'\<lparr>qs_quoted := qs_quoted q' @ qs_lines q', qs_origin := None, qs_lines := [], qs_style := None\<rparr>
            else q')
      else scan_intro sc record i line (q\<lparr>qs_intro := None\<rparr>))"

definition no_quotes :: quote_scan where
  "no_quotes = \<lparr>qs_quoted = [], qs_warnings = [], qs_intro = None, qs_origin = None, qs_lines = [], qs_style = None,
     qs_depth = 0\<rparr>"

definition replacement_quote_lines :: "script \<Rightarrow> line_record list \<Rightarrow> nat list \<times>
  parse_warning list" where
  "replacement_quote_lines sc records =
     (let q = foldl (scan_line sc) no_quotes (zip [0..<length records] records) in
      (qs_quoted q,
       qs_warnings q @ (case qs_origin q of None \<Rightarrow> [] | Some r \<Rightarrow> [line_warning
         UnclosedReplacementQuote r])))"

end
