(* ===== verification/Hierarchy_Machine.thy ===== *)
theory Hierarchy_Machine
  imports Source_Lines
begin

text \<open>
  The line machine of the parser (\<open>_parse_hierarchy\<close> in
    \<open>src/pipeline/parser/hierarchy_parser.py\<close>): one pass over the
  lines, with the unit of each level that is open and the lists of those that are complete. The child modes of
  documents, chapters and sections are only logged by the source and are left out.
\<close>

subsection \<open>State\<close>

datatype heading_kind = PartHeading | SectionHeading | SubsectionHeading

fun heading_name :: "heading_kind \<Rightarrow> str" where
  "heading_name PartHeading = ''Part''"
| "heading_name SectionHeading = ''Section''"
| "heading_name SubsectionHeading = ''Subsection''"

record article_builder =
  ab_number :: str
  ab_title :: "str option"
  ab_part :: "str option"
  ab_chapter :: "str option"
  ab_chapter_title :: "str option"
  ab_section :: "str option"
  ab_subsection :: "str option"
  ab_lines :: "str list"
  ab_clauses :: "clause list"
  ab_start :: nat
  ab_end :: nat

record machine_state =
  hs_articles :: "article list"
  hs_parts :: "part_unit list"
  hs_sections :: "section_unit list"
  hs_subsections :: "subsection_unit list"
  hs_part :: "part_unit option"
  hs_chapter :: "str option"
  hs_chapter_title :: "str option"
  hs_section :: "section_unit option"
  hs_subsection :: "subsection_unit option"
  hs_article :: "article_builder option"
  hs_clause :: "clause option"
  hs_point :: "point option"
  hs_part_count :: nat
  hs_chapter_count :: nat
  hs_section_count :: nat
  hs_subsection_count :: nat
  hs_chapter_pending :: bool
  hs_article_pending :: bool
  hs_pending :: "(heading_kind \<times> str \<times> line_record) option"

definition initial_state :: machine_state where
  "initial_state =
     \<lparr>hs_articles = [], hs_parts = [], hs_sections = [], hs_subsections = [], hs_part = None, hs_chapter = None,
      hs_chapter_title = None, hs_section = None, hs_subsection = None, hs_article = None, hs_clause = None,
      hs_point = None, hs_part_count = 0, hs_chapter_count = 0, hs_section_count = 0, hs_subsection_count = 0,
      hs_chapter_pending = False, hs_article_pending = False, hs_pending = None\<rparr>"

text \<open>A line with what the machine looks at around it.\<close>

record line_item =
  it_record :: line_record
  it_line :: str
  it_prev :: str
  it_next :: str
  it_quoted :: bool

subsection \<open>Articles\<close>

text \<open>\<open>_ArticleBuilder.to_article\<close>: continuation lines are joined to the line they continue.\<close>

definition starts_element :: "script \<Rightarrow> str option \<Rightarrow> str list \<Rightarrow> str \<Rightarrow> bool" where
  "starts_element sc title joined line \<longleftrightarrow>
     joined = [] \<or> title \<noteq> None \<and> length joined = 1 \<or> match_clause_line sc line \<noteq>
       None \<or> match_point_line sc line \<noteq> None"

definition join_line :: "script \<Rightarrow> str option \<Rightarrow> str list \<Rightarrow> str \<Rightarrow> str list" where
  "join_line sc title joined raw =
     (let line = py_strip raw in
      if line = [] then joined
      else if starts_element sc title joined line then joined @ [line]
      else butlast joined @ [join_content (last joined) line])"

definition content_raw :: "script \<Rightarrow> str option \<Rightarrow> str list \<Rightarrow> str" where
  "content_raw sc title ls = join [CHR 0x0A] (foldl (join_line sc title) [] ls)"

definition to_article :: "script \<Rightarrow> article_builder \<Rightarrow> article" where
  "to_article sc b =
     \<lparr>ar_number = py_strip (ab_number b), ar_title = ab_title b, ar_content = content_raw sc (ab_title b) (ab_lines b),
      ar_part = ab_part b, ar_chapter = ab_chapter b, ar_chapter_title = ab_chapter_title b, ar_section = ab_section b,
      ar_subsection = ab_subsection b, ar_clauses = ab_clauses b, ar_start = ab_start b, ar_end = ab_end b\<rparr>"

subsection \<open>Flushing\<close>

definition merge_duplicate :: "point \<Rightarrow> point \<Rightarrow> point" where
  "merge_duplicate q p =
     (if py_strip (pt_content q) = py_strip (pt_content p) then q\<lparr>pt_end := max (pt_end q) (pt_end p)\<rparr>
      else join_points q p)"

definition flush_point :: "script \<Rightarrow> machine_state \<Rightarrow> machine_state" where
  "flush_point sc st =
     (case (hs_point st, hs_clause st) of
        (Some p, Some c) \<Rightarrow>
          st\<lparr>hs_clause := Some (c\<lparr>cl_points := add_point sc merge_duplicate p (cl_points
            c)\<rparr>), hs_point := None\<rparr>
      | _ \<Rightarrow> st\<lparr>hs_point := None\<rparr>)"

definition flush_clause :: "script \<Rightarrow> machine_state \<Rightarrow> machine_state" where
  "flush_clause sc st =
     (case (hs_clause st, hs_article st) of
        (Some _, Some b) \<Rightarrow>
          (let st' = flush_point sc st in
           st'\<lparr>hs_article := Some (b\<lparr>ab_clauses := ab_clauses b @ [the (hs_clause st')]\<rparr>), hs_clause := None,
               hs_point := None\<rparr>)
      | _ \<Rightarrow> st\<lparr>hs_clause := None, hs_point := None\<rparr>)"

definition flush_article :: "script \<Rightarrow> machine_state \<Rightarrow> machine_state" where
  "flush_article sc st =
     (case hs_article st of
        None \<Rightarrow> st\<lparr>hs_clause := None, hs_point := None\<rparr>
      | Some _ \<Rightarrow>
          (let st' = flush_clause sc st in
           st'\<lparr>hs_articles := hs_articles st' @ [to_article sc (the (hs_article st'))], hs_article := None,
               hs_clause := None, hs_point := None\<rparr>))"

text \<open>A unit without articles is removed again.\<close>

definition drop_last :: "'a \<Rightarrow> 'a list \<Rightarrow> 'a list" where
  "drop_last x xs = (if xs \<noteq> [] \<and> last xs = x then butlast xs else xs)"

definition drop_empty_subsection :: "machine_state \<Rightarrow> machine_state" where
  "drop_empty_subsection st =
     (case hs_subsection st of
        Some u \<Rightarrow>
          if hs_subsection_count st = 0
          then st\<lparr>hs_subsections := drop_last u (hs_subsections st), hs_subsection := None\<rparr> else st
      | None \<Rightarrow> st)"

definition drop_empty_section :: "machine_state \<Rightarrow> machine_state" where
  "drop_empty_section st =
     (case hs_section st of
        Some s \<Rightarrow>
          if hs_section_count st = 0 then st\<lparr>hs_sections := drop_last s (hs_sections st), hs_section :=
            None\<rparr> else st
      | None \<Rightarrow> st)"

definition drop_empty_chapter :: "machine_state \<Rightarrow> machine_state" where
  "drop_empty_chapter st = (if hs_chapter st \<noteq> None \<and> hs_chapter_count st = 0 then
    st\<lparr>hs_chapter := None\<rparr> else st)"

definition drop_empty_part :: "machine_state \<Rightarrow> machine_state" where
  "drop_empty_part st =
     (case hs_part st of
        Some p \<Rightarrow>
          if hs_part_count st = 0 then st\<lparr>hs_parts := drop_last p (hs_parts st), hs_part := None\<rparr> else st
      | None \<Rightarrow> st)"

subsection \<open>Headings of structural units\<close>

definition bounded_title :: "str \<Rightarrow> str \<Rightarrow> str \<Rightarrow> parser_error + str" where
  "bounded_title kind number title =
     (let t = py_strip title in
      rbind (require (t \<noteq> []) (MissingTitle kind number)) (\<lambda>_.
      rbind (require (py_len t \<le> max_structural_title_length) (TitleTooLong kind number)) (\<lambda>_. Inr t)))"

definition looks_like_structural_title :: "script \<Rightarrow> line_record \<Rightarrow> str \<Rightarrow> bool" where
  "looks_like_structural_title sc record line =
     (if max_structural_title_length < py_len line then False
      else if match_chapter sc line \<noteq> None \<or> match_part sc line \<noteq> None \<or> match_section sc line \<noteq> None
        \<or> match_subsection sc line \<noteq> None \<or> match_article_line sc line \<noteq> None \<or>
          match_clause_line sc line \<noteq> None
        \<or> match_point_line sc line \<noteq> None then False
      else li_bold record \<or> looks_like_title sc line)"

definition open_part_number :: "machine_state \<Rightarrow> str option" where
  "open_part_number st = map_option pa_number (hs_part st)"

text \<open>The unit of a heading becomes the open one and is appended to its list.\<close>

definition add_part :: "str \<Rightarrow> str \<Rightarrow> nat \<Rightarrow> nat \<Rightarrow> machine_state
  \<Rightarrow> parser_error + machine_state" where
  "add_part number title a b st =
     rbind (make_part number title a b) (\<lambda>p. Inr (st\<lparr>hs_part := Some p, hs_parts := hs_parts st @ [p]\<rparr>))"

definition add_section :: "str \<Rightarrow> str \<Rightarrow> nat \<Rightarrow> nat \<Rightarrow>
  machine_state \<Rightarrow> parser_error + machine_state" where
  "add_section number title a b st =
     rbind (make_section number title (hs_chapter st) (open_part_number st) a b) (\<lambda>s.
       Inr (st\<lparr>hs_section := Some s, hs_sections := hs_sections st @ [s]\<rparr>))"

definition add_subsection :: "str \<Rightarrow> str \<Rightarrow> nat \<Rightarrow> nat \<Rightarrow>
  machine_state \<Rightarrow> parser_error + machine_state" where
  "add_subsection number title a b st =
     rbind (make_subsection number title (case hs_section st of None \<Rightarrow> [] | Some s \<Rightarrow>
       se_number s) (hs_chapter st)
       (open_part_number st) a b) (\<lambda>u.
       Inr (st\<lparr>hs_subsection := Some u, hs_subsections := hs_subsections st @ [u]\<rparr>))"

fun add_unit :: "heading_kind \<Rightarrow> str \<Rightarrow> str \<Rightarrow> nat \<Rightarrow> nat
  \<Rightarrow> machine_state \<Rightarrow> parser_error + machine_state" where
  "add_unit PartHeading = add_part"
| "add_unit SectionHeading = add_section"
| "add_unit SubsectionHeading = add_subsection"

text \<open>
  The title of a heading that had none: the next line if it looks like a title (\<open>True\<close>: the line is used up),
  otherwise a default one.
\<close>

definition settle_heading :: "script \<Rightarrow> line_record \<Rightarrow> str \<Rightarrow> machine_state
  \<Rightarrow> parser_error + machine_state \<times> bool" where
  "settle_heading sc record line st =
     (case hs_pending st of
        None \<Rightarrow> Inr (st, False)
      | Some (kind, number, head) \<Rightarrow>
          if looks_like_structural_title sc record line
          then rbind (add_unit kind number line (li_start head) (li_end record) st) (\<lambda>st'.
            Inr (st'\<lparr>hs_pending := None\<rparr>, True))
          else rbind (add_unit kind number (heading_name kind @ '' '' @ number) (li_start head) (li_end head)
            st) (\<lambda>st'.
            Inr (st'\<lparr>hs_pending := None\<rparr>, False)))"

text \<open>A heading with a title on its line opens its unit; without one it waits for the next line.\<close>

definition open_unit ::
  "heading_kind \<Rightarrow> str \<Rightarrow> str option \<Rightarrow> line_record \<Rightarrow>
    machine_state \<Rightarrow> parser_error + machine_state" where
  "open_unit kind number title record st =
     (case title of
        None \<Rightarrow> Inr (st\<lparr>hs_pending := Some (kind, number, record)\<rparr>)
      | Some t \<Rightarrow> rbind (bounded_title (heading_name kind) number t) (\<lambda>t'.
          add_unit kind number t' (li_start record) (li_end record) st))"

definition leave_groups :: "script \<Rightarrow> machine_state \<Rightarrow> machine_state" where
  "leave_groups sc st = drop_empty_section (drop_empty_subsection (flush_article sc st))"

text \<open>A part closes every unit below it; an empty part before it is removed.\<close>

definition enter_part :: "script \<Rightarrow> machine_state \<Rightarrow> machine_state" where
  "enter_part sc st =
     (let st1 = leave_groups sc st;
          parts = (case hs_part st1 of
                     Some p \<Rightarrow> if hs_part_count st1 = 0 then drop_last p (hs_parts st1) else hs_parts st1
                   | None \<Rightarrow> hs_parts st1)
      in st1\<lparr>hs_parts := parts, hs_part := None, hs_chapter := None, hs_chapter_title := None, hs_section := None,
             hs_subsection := None, hs_part_count := 0, hs_chapter_count := 0, hs_section_count := 0,
             hs_subsection_count := 0\<rparr>)"

definition part_heading ::
  "script \<Rightarrow> str \<Rightarrow> str option \<Rightarrow> line_record \<Rightarrow> machine_state
    \<Rightarrow> parser_error + machine_state" where
  "part_heading sc number title record st = open_unit PartHeading number title record (enter_part sc st)"

definition chapter_heading :: "script \<Rightarrow> str \<Rightarrow> str option \<Rightarrow> machine_state
  \<Rightarrow> machine_state" where
  "chapter_heading sc number title st =
     (leave_groups sc st)\<lparr>hs_chapter := Some number, hs_chapter_title := title, hs_section := None,
       hs_subsection := None, hs_chapter_count := 0, hs_section_count := 0, hs_subsection_count := 0,
       hs_chapter_pending := (title = None)\<rparr>"

definition enter_section :: "script \<Rightarrow> machine_state \<Rightarrow> machine_state" where
  "enter_section sc st =
     (leave_groups sc st)\<lparr>hs_section := None, hs_subsection := None, hs_section_count := 0,
       hs_subsection_count := 0\<rparr>"

definition section_heading ::
  "script \<Rightarrow> str \<Rightarrow> str option \<Rightarrow> line_record \<Rightarrow> machine_state
    \<Rightarrow> parser_error + machine_state" where
  "section_heading sc number title record st = open_unit SectionHeading number title record (enter_section sc st)"

definition enter_subsection :: "script \<Rightarrow> machine_state \<Rightarrow> machine_state" where
  "enter_subsection sc st =
     (drop_empty_subsection (flush_article sc st))\<lparr>hs_subsection := None, hs_subsection_count := 0\<rparr>"

definition subsection_heading ::
  "script \<Rightarrow> str \<Rightarrow> str option \<Rightarrow> line_record \<Rightarrow> machine_state
    \<Rightarrow> parser_error + machine_state" where
  "subsection_heading sc number title record st =
     (if hs_section st = None then Inl (SubsectionBeforeSection number)
      else open_unit SubsectionHeading number title record (enter_subsection sc st))"

text \<open>
  The heading of an article. The source waits for a title on the next line if the title of the heading \<open>is None\<close>, but
  \<open>match_article_line\<close> returns the empty text instead.
\<close>

definition article_heading :: "script \<Rightarrow> str \<Rightarrow> str \<Rightarrow> line_record
  \<Rightarrow> machine_state \<Rightarrow> machine_state" where
  "article_heading sc number title record st =
     (let st1 = flush_article sc st in
      st1\<lparr>hs_part_count := hs_part_count st1 + 1, hs_chapter_count := hs_chapter_count st1 + 1,
          hs_section_count := hs_section_count st1 + 1, hs_subsection_count := hs_subsection_count st1 + 1,
          hs_article := Some
            \<lparr>ab_number = number, ab_title = Some title, ab_part = open_part_number st1, ab_chapter = hs_chapter st1,
             ab_chapter_title = hs_chapter_title st1, ab_section = map_option se_number (hs_section st1),
             ab_subsection = map_option su_number (hs_subsection st1), ab_lines = (if title = [] then [] else [title]),
             ab_clauses = [], ab_start = li_start record, ab_end = li_end record\<rparr>,
          hs_clause := None, hs_point := None, hs_article_pending := False\<rparr>)"

subsection \<open>Lines of an article\<close>

definition add_line :: "str \<Rightarrow> nat \<Rightarrow> article_builder \<Rightarrow> article_builder" where
  "add_line line e b = b\<lparr>ab_lines := ab_lines b @ [line], ab_end := e\<rparr>"

definition extend_point :: "str \<Rightarrow> nat \<Rightarrow> point \<Rightarrow> point" where
  "extend_point line e p = p\<lparr>pt_content := join_content (pt_content p) line, pt_end := e\<rparr>"

definition extend_clause :: "str \<Rightarrow> nat \<Rightarrow> clause \<Rightarrow> clause" where
  "extend_clause line e c = c\<lparr>cl_content := join_content (cl_content c) line, cl_end := e\<rparr>"

text \<open>A line inside quoted replacement text. The end of the clause of an open point is not moved.\<close>

definition quoted_line :: "str \<Rightarrow> nat \<Rightarrow> machine_state \<Rightarrow> machine_state" where
  "quoted_line line e st =
     (case hs_article st of
        None \<Rightarrow> st
      | Some b \<Rightarrow>
          (let st1 = st\<lparr>hs_article := Some (add_line line e b)\<rparr> in
           case hs_point st of
             Some p \<Rightarrow> st1\<lparr>hs_point := Some (extend_point line e p)\<rparr>
           | None \<Rightarrow> st1\<lparr>hs_clause := map_option (extend_clause line e) (hs_clause st)\<rparr>))"

definition text_line :: "str \<Rightarrow> nat \<Rightarrow> article_builder \<Rightarrow> machine_state
  \<Rightarrow> machine_state" where
  "text_line line e b st =
     (let st1 = st\<lparr>hs_article := Some (add_line line e b)\<rparr> in
      case hs_point st of
        Some p \<Rightarrow> st1\<lparr>hs_point := Some (extend_point line e p),
                      hs_clause := map_option (\<lambda>c. c\<lparr>cl_end := e\<rparr>) (hs_clause st)\<rparr>
      | None \<Rightarrow> st1\<lparr>hs_clause := map_option (extend_clause line e) (hs_clause st)\<rparr>)"

text \<open>A clause number that the article already has is text of the open clause.\<close>

definition new_clause :: "script \<Rightarrow> str \<Rightarrow> article_builder \<Rightarrow> machine_state
  \<Rightarrow> (str \<times> str) option" where
  "new_clause sc line b st =
     (case match_clause_line sc line of
        None \<Rightarrow> None
      | Some (number, content) \<Rightarrow>
          (case hs_clause st of
             Some c \<Rightarrow>
               if number \<in> cl_number ` set (ab_clauses b) \<or> number = cl_number c then None else Some (number, content)
           | None \<Rightarrow> Some (number, content)))"

definition clause_line :: "script \<Rightarrow> str \<Rightarrow> str \<Rightarrow> str \<Rightarrow>
  line_record \<Rightarrow> machine_state \<Rightarrow> machine_state" where
  "clause_line sc number content line record st =
     (let st1 = flush_clause sc st in
      st1\<lparr>hs_clause := Some (make_clause number content (li_start record) (li_end record)),
          hs_article := map_option (add_line line (li_end record)) (hs_article st1)\<rparr>)"

definition new_point :: "script \<Rightarrow> str \<Rightarrow> machine_state \<Rightarrow> (str \<times> str
  \<times> clause) option" where
  "new_point sc line st =
     (case (match_point_line sc line, hs_clause st) of
        (Some (label, content), Some c) \<Rightarrow>
          if hs_point st \<noteq> None \<and> label_key sc label \<in> (\<lambda>p. label_key sc (pt_label p)) ` set (cl_points c)
          then None else Some (label, content, c)
      | _ \<Rightarrow> None)"

definition point_line :: "script \<Rightarrow> str \<Rightarrow> str \<Rightarrow> str \<Rightarrow>
  line_record \<Rightarrow> machine_state \<Rightarrow> machine_state" where
  "point_line sc label content line record st =
     (let st1 = flush_point sc st in
      st1\<lparr>hs_point := Some \<lparr>pt_label = label, pt_content = content, pt_start = li_start record,
        pt_end = li_end record\<rparr>,
          hs_article := map_option (add_line line (li_end record)) (hs_article st1),
          hs_clause := map_option (\<lambda>c. c\<lparr>cl_end := li_end record\<rparr>) (hs_clause st1)\<rparr>)"

definition body_line :: "script \<Rightarrow> str \<Rightarrow> line_record \<Rightarrow> machine_state
  \<Rightarrow> machine_state" where
  "body_line sc line record st =
     (case hs_article st of
        None \<Rightarrow> st
      | Some b \<Rightarrow>
          (case new_clause sc line b st of
             Some (number, content) \<Rightarrow> clause_line sc number content line record st
           | None \<Rightarrow>
               (case new_point sc line st of
                  Some (label, content, c) \<Rightarrow> point_line sc label content line record st
                | None \<Rightarrow> text_line line (li_end record) b st)))"

text \<open>The title of an article on the line after its heading.\<close>

definition article_title_line :: "str \<Rightarrow> machine_state \<Rightarrow> parser_error + machine_state" where
  "article_title_line line st =
     (case hs_article st of
        None \<Rightarrow> Inl ArticleTitleWithoutArticle
      | Some b \<Rightarrow>
          rbind (bounded_title ''Article'' (ab_number b) line) (\<lambda>t.
            Inr (st\<lparr>hs_article := Some (b\<lparr>ab_title := Some t, ab_lines := ab_lines b @ [t]\<rparr>),
                    hs_article_pending := False\<rparr>)))"

subsection \<open>One line\<close>

definition article_or_body :: "script \<Rightarrow> line_item \<Rightarrow> machine_state \<Rightarrow>
  parser_error + machine_state" where
  "article_or_body sc it st =
     (case match_article_line sc (it_line it) of
        Some (number, title) \<Rightarrow>
          if is_citation_context sc (it_prev it) (it_line it) (it_next it)
          then (if hs_article_pending st then article_title_line (it_line it) st
                else Inr (body_line sc (it_line it) (it_record it) st))
          else Inr (article_heading sc number title (it_record it) st)
      | None \<Rightarrow>
          if hs_article_pending st then article_title_line (it_line it) st
          else Inr (body_line sc (it_line it) (it_record it) st))"

definition below_chapter :: "script \<Rightarrow> line_item \<Rightarrow> machine_state \<Rightarrow>
  parser_error + machine_state" where
  "below_chapter sc it st =
     (case match_section sc (it_line it) of
        Some (number, title) \<Rightarrow> section_heading sc number title (it_record it) st
      | None \<Rightarrow>
          (case match_subsection sc (it_line it) of
             Some (number, title) \<Rightarrow> subsection_heading sc number title (it_record it) st
           | None \<Rightarrow> article_or_body sc it st))"

definition structure_line :: "script \<Rightarrow> line_item \<Rightarrow> machine_state \<Rightarrow>
  parser_error + machine_state" where
  "structure_line sc it st =
     (case match_part sc (it_line it) of
        Some (number, title) \<Rightarrow> part_heading sc number title (it_record it) st
      | None \<Rightarrow>
          (case match_chapter_heading sc (it_line it) of
             Some (number, title) \<Rightarrow> Inr (chapter_heading sc number title st)
           | None \<Rightarrow>
               if hs_chapter_pending st \<and> looks_like_title sc (it_line it)
               then Inr (st\<lparr>hs_chapter_pending := False, hs_chapter_title := Some (it_line it)\<rparr>)
               else below_chapter sc it (st\<lparr>hs_chapter_pending := False\<rparr>)))"

definition parse_line :: "script \<Rightarrow> line_item \<Rightarrow> machine_state \<Rightarrow> parser_error
  + machine_state" where
  "parse_line sc it st =
     (if it_line it = [] \<or> should_skip_line sc (it_line it) then Inr st
      else if it_quoted it then Inr (quoted_line (it_line it) (li_end (it_record it)) st)
      else rbind (settle_heading sc (it_record it) (it_line it) st) (\<lambda>(st1, used).
        if used then Inr st1 else structure_line sc it st1))"

fun parse_items :: "script \<Rightarrow> line_item list \<Rightarrow> machine_state \<Rightarrow> parser_error
  + machine_state" where
  "parse_items sc [] st = Inr st"
| "parse_items sc (it # its) st = rbind (parse_line sc it st) (parse_items sc its)"

subsection \<open>All lines\<close>

definition line_items :: "script \<Rightarrow> nat list \<Rightarrow> line_record list \<Rightarrow> line_item list" where
  "line_items sc quoted records =
     map (\<lambda>i. \<lparr>it_record = records ! i, it_line = py_strip (clean_vietnamese_spacing sc (li_text (records ! i))),
               it_prev = (if 0 < i then li_text (records ! (i - 1)) else []),
               it_next = (if i + 1 < length records then li_text (records ! (i + 1)) else []),
               it_quoted = (i \<in> set quoted)\<rparr>) [0..<length records]"

definition finish_parse :: "script \<Rightarrow> machine_state \<Rightarrow> parser_error + hierarchy" where
  "finish_parse sc st =
     (let st1 = flush_article sc st in
      rbind (case hs_pending st1 of
               Some (kind, number, _) \<Rightarrow> Inl (MissingTitle (heading_name kind) number) | None
                 \<Rightarrow> Inr ()) (\<lambda>_.
        let st2 = drop_empty_part (drop_empty_chapter (drop_empty_section (drop_empty_subsection st1))) in
        Inr \<lparr>hi_articles = hs_articles st2, hi_parts = hs_parts st2, hi_sections = hs_sections st2,
             hi_subsections = hs_subsections st2\<rparr>))"

text \<open>\<open>_parse_hierarchy\<close>; its warnings are those of the quotations, raised before any error.\<close>

definition parse_hierarchy :: "script \<Rightarrow> line_record list \<Rightarrow> parser_error + hierarchy" where
  "parse_hierarchy sc records =
     rbind (parse_items sc (line_items sc (fst (replacement_quote_lines sc records)) records) initial_state)
       (finish_parse sc)"

definition parse_lines :: "script \<Rightarrow> line_record list \<Rightarrow> parser_error + article list" where
  "parse_lines sc records = rbind (parse_hierarchy sc records) (\<lambda>h. Inr (hi_articles h))"

text \<open>\<open>_validate_unique_point_labels\<close>\<close>

fun check_labels :: "script \<Rightarrow> str \<Rightarrow> str \<Rightarrow> str list \<Rightarrow> point list
  \<Rightarrow> parser_error + unit" where
  "check_labels sc a c seen [] = Inr ()"
| "check_labels sc a c seen (p # ps) =
     (let l = label_key sc (pt_label p) in
      rbind (require (l \<notin> set seen) (DuplicatePointLabel l a c)) (\<lambda>_. check_labels sc a c (l # seen) ps))"

definition validate_unique_point_labels :: "script \<Rightarrow> article list \<Rightarrow> parser_error + unit" where
  "validate_unique_point_labels sc as =
     rbind (rmapm (\<lambda>a. rmapm (\<lambda>c. check_labels sc (ar_number a) (cl_number c) [] (cl_points c))
       (ar_clauses a)) as)
       (\<lambda>_. Inr ())"

end
