(* ===== verification/Source_Partition.thy ===== *)
theory Source_Partition
  imports Hierarchy_Machine Calendar
begin

text \<open>
  The parser of a whole source text (\<open>src/pipeline/parser/hierarchy_parser.py\<close>, second half): the
    partition into body,
  appendices, attached instruments and table of contents, the units built from each group, and the permissive parse
  with its diagnostics. A date is recognised by its digits, as in \<open>infer_source_effective_from\<close>.
\<close>

subsection \<open>Headings of attachments\<close>

definition instrument_prefixes :: "(str \<times> instrument_kind) list" where
  "instrument_prefixes =
     [(''QUY CHE'', Regulation), (''QUY DINH'', Regulation), (''DIEU LE'', Charter), (''CHUAN MUC'', Standard)]"

definition adoption_rx :: regex where
  "adoption_rx =
     seqs [WordEdge, opt True (seqs [lits ([CHR 0xC4, CHR 0x91, CHR 0xC6, CHR 0xB0, CHR 0xE1, CHR 0xBB,
     CHR 0xA3] @ ''c''), blanks]), opt True (seqs [lits ''ban'', blanks, lits (''h'' @ [CHR 0xC3, CHR
     0xA0] @ ''nh''), blanks]), lits (''k'' @ [CHR 0xC3, CHR 0xA8] @ ''m''), blanks, lits ''theo'',
     blanks, alts [lits (''lu'' @ [CHR 0xE1, CHR 0xBA, CHR 0xAD] @ ''t''), seqs [lits (''ngh'' @ [CHR
     0xE1, CHR 0xBB, CHR 0x8B]), blanks, lits ([CHR 0xC4, CHR 0x91, CHR 0xE1, CHR 0xBB, CHR 0x8B] @
     ''nh'')], seqs [lits (''th'' @ [CHR 0xC3, CHR 0xB4] @ ''ng''), blanks, lits (''t'' @ [CHR 0xC6,
     CHR 0xB0])], seqs [lits (''quy'' @ [CHR 0xE1, CHR 0xBA, CHR 0xBF] @ ''t''), blanks, lits ([CHR
     0xC4, CHR 0x91, CHR 0xE1, CHR 0xBB, CHR 0x8B] @ ''nh'')], seqs [lits (''ngh'' @ [CHR 0xE1, CHR
     0xBB, CHR 0x8B]), blanks, lits (''quy'' @ [CHR 0xE1, CHR 0xBA, CHR 0xBF] @ ''t'')]], WordEdge]"

record instrument_heading =
  ih_kind :: instrument_kind
  ih_title :: "str option"
  ih_adoption :: str
  ih_offset :: nat

text \<open>
  The lines after the heading, with their distance: the adoption formula must stand among the first three non-empty
  ones, before any article.
\<close>

fun find_adoption :: "script \<Rightarrow> nat \<Rightarrow> (nat \<times> str) list \<Rightarrow> (nat
  \<times> str) option" where
  "find_adoption sc seen [] = None"
| "find_adoption sc seen ((i, raw) # rest) =
     (let candidate = py_strip raw in
      if candidate = [] then find_adoption sc seen rest
      else if rx_found (sc_unicode sc) True adoption_rx candidate then Some (i, candidate)
      else if 3 \<le> Suc seen \<or> match_article_line sc candidate \<noteq> None then None
      else find_adoption sc (Suc seen) rest)"

definition title_strip_chars :: "pchar list" where
  "title_strip_chars = ['' '', ''.'', '':'', ''-'', ([CHR 0xE2, CHR 0x80, CHR 0x93]), ([CHR 0xE2, CHR 0x80, CHR
    0x94])]"

definition instrument_prefix_of :: "script \<Rightarrow> str \<Rightarrow> (str \<times> instrument_kind) option" where
  "instrument_prefix_of sc heading =
     (let folded = sc_upper sc (fold_marks sc heading) in
      find (\<lambda>(p, k). folded = p \<or> prefix (p @ '' '') folded) instrument_prefixes)"

definition match_attached_instrument_heading ::
  "script \<Rightarrow> line_record list \<Rightarrow> nat \<Rightarrow> instrument_heading option" where
  "match_attached_instrument_heading sc records index =
     (let heading = collapse_blanks sc (py_strip (li_text (records ! index))) in
      if heading = [] \<or> heading \<noteq> sc_upper sc heading then None
      else case instrument_prefix_of sc heading of
        None \<Rightarrow> None
      | Some (p, kind) \<Rightarrow>
          (case find_adoption sc 0
                  (map (\<lambda>k. (k - index, li_text (records ! k))) [index + 1..<min (index + 6) (length records)]) of
             None \<Rightarrow> None
           | Some (off, candidate) \<Rightarrow>
               Some \<lparr>ih_kind = kind,
                     ih_title = title_or_none (strip_chars title_strip_chars
                                  (concat (drop (py_len p) (py_chars heading)))),
                     ih_adoption = candidate, ih_offset = off\<rparr>))"

definition appendix_only_rx :: regex where
  "appendix_only_rx =
     seqs [lits (''ph'' @ [CHR 0xE1, CHR 0xBB, CHR 0xA5]), blanks, lits (''l'' @ [CHR 0xE1, CHR 0xBB,
     CHR 0xA5] @ ''c'')]"
definition appendix_heading_rx :: regex where
  "appendix_heading_rx =
     seqs [TextStart, lits (''ph'' @ [CHR 0xE1, CHR 0xBB, CHR 0xA5]), blanks, lits (''l'' @ [CHR 0xE1,
     CHR 0xBB, CHR 0xA5] @ ''c''), opt True (seqs [blanks, lits (''s'' @ [CHR 0xE1, CHR 0xBB, CHR
     0x91])]), blanks, Group 1 (repeat_from True 1 Dot), TextEnd]"
definition appendix_number_rx :: regex where
  "appendix_number_rx =
     seqs [alts [repeat_from True 1 (Class False [ItemChar ''I'', ItemChar ''V'', ItemChar ''X'',
     ItemChar ''L'', ItemChar ''C'', ItemChar ''D'', ItemChar ''M'']), seqs [digits, Many True (Class
     False [ItemRange 65 90])], Class False [ItemRange 65 90]], Many True (seqs [Class False [ItemChar
     ''.'', ItemChar ''/'', ItemChar ''-''], repeat_from True 1 (Class False [ItemRange 65 90,
     ItemRange 48 57])])]"

definition token_strip_chars :: "pchar list" where
  "token_strip_chars = ['':'', ''.'', ([CHR 0xE2, CHR 0x80, CHR 0x93]), ([CHR 0xE2, CHR 0x80, CHR 0x94]), ''-'']"

definition partition_blank :: "str \<Rightarrow> str \<times> str" where
  "partition_blank s = (takeWhile (\<lambda>c. c \<noteq> CHR '' '') s, drop 1 (dropWhile (\<lambda>c. c
    \<noteq> CHR '' '') s))"

text \<open>The number and the title of an appendix heading.\<close>

definition appendix_parts :: "script \<Rightarrow> str \<Rightarrow> str \<Rightarrow> (str option \<times> str
  option) option" where
  "appendix_parts sc heading remainder =
     (let (first_token, trailing) = partition_blank remainder;
          token = rstrip_chars token_strip_chars first_token
      in if rx_fullmatch (sc_unicode sc) True appendix_number_rx (fold_marks sc token) = None
         then (if heading \<noteq> sc_upper sc heading then None else Some (None, Some remainder))
         else if trailing \<noteq> [] \<and> first_token = token \<and> trailing \<noteq> sc_upper sc trailing then None
         else Some (Some token,
                title_or_none (py_strip (lstrip_chars (token_strip_chars @ ['' '']) (py_strip trailing)))))"

definition match_appendix_heading :: "script \<Rightarrow> str \<Rightarrow> (str option \<times> str option) option" where
  "match_appendix_heading sc s =
     (let heading = collapse_blanks sc (py_strip s) in
      if rx_fullmatch (sc_unicode sc) True appendix_only_rx heading \<noteq> None then Some (None, None)
      else case rx_match (sc_unicode sc) True appendix_heading_rx heading of
             None \<Rightarrow> None
           | Some m \<Rightarrow> appendix_parts sc heading (py_strip (group_text m 1)))"

definition contents_heading_rx :: regex where
  "contents_heading_rx =
     seqs [blanks0, lits (''m'' @ [CHR 0xE1, CHR 0xBB, CHR 0xA5] @ ''c''), blanks, lits (''l'' @ [CHR
     0xE1, CHR 0xBB, CHR 0xA5] @ ''c''), blanks0]"

definition is_table_of_contents_heading :: "script \<Rightarrow> str \<Rightarrow> bool" where
  "is_table_of_contents_heading sc s \<longleftrightarrow> rx_fullmatch (sc_unicode sc) True contents_heading_rx s \<noteq> None"

subsection \<open>The partition\<close>

record partition_state =
  ps_main :: "line_record list"
  ps_appendices :: "line_record list list"
  ps_instruments :: "line_record list list"
  ps_contents :: "line_record list"
  ps_in_appendix :: bool
  ps_in_instrument :: bool
  ps_seen_article :: bool

definition empty_partition :: partition_state where
  "empty_partition =
     \<lparr>ps_main = [], ps_appendices = [], ps_instruments = [], ps_contents = [], ps_in_appendix = False,
      ps_in_instrument = False, ps_seen_article = False\<rparr>"

text \<open>A record is appended to the last group.\<close>

definition extend_last :: "'a \<Rightarrow> 'a list list \<Rightarrow> 'a list list" where
  "extend_last x gs = butlast gs @ [last gs @ [x]]"

definition partition_step :: "script \<Rightarrow> line_record list \<Rightarrow> partition_state \<Rightarrow>
  nat \<Rightarrow> partition_state" where
  "partition_step sc records ps index =
     (let record = records ! index in
      if ps_contents ps \<noteq> [] then ps\<lparr>ps_contents := ps_contents ps @ [record]\<rparr>
      else if match_attached_instrument_heading sc records index \<noteq> None \<and> \<not> ps_in_appendix ps
      then ps\<lparr>ps_in_instrument := True, ps_instruments := ps_instruments ps @ [[record]]\<rparr>
      else if ps_in_instrument ps then ps\<lparr>ps_instruments := extend_last record (ps_instruments ps)\<rparr>
      else if match_appendix_heading sc (li_text record) \<noteq> None
      then ps\<lparr>ps_in_appendix := True, ps_appendices := ps_appendices ps @ [[record]]\<rparr>
      else if ps_in_appendix ps then ps\<lparr>ps_appendices := extend_last record (ps_appendices ps)\<rparr>
      else if ps_seen_article ps \<and> length records div 2 \<le> index \<and> is_table_of_contents_heading sc (li_text record)
      then ps\<lparr>ps_contents := ps_contents ps @ [record]\<rparr>
      else ps\<lparr>ps_main := ps_main ps @ [record],
              ps_seen_article := ps_seen_article ps \<or> match_article_line sc (li_text record) \<noteq> None\<rparr>)"

definition partition_source_sections :: "script \<Rightarrow> line_record list \<Rightarrow> partition_state" where
  "partition_source_sections sc records =
     foldl (partition_step sc records) empty_partition [0..<length records]"

subsection \<open>Units of the source\<close>

definition strip_line_feeds :: "str \<Rightarrow> str" where
  "strip_line_feeds s = strip_chars [[CHR 0x0A]] s"

text \<open>\<open>canonical_text[start:end]\<close> of the records behind the heading.\<close>

definition body_start :: "line_record list \<Rightarrow> nat" where
  "body_start records = (if 1 < length records then li_start (records ! 1) else li_end (hd records))"

definition body_text :: "str \<Rightarrow> line_record list \<Rightarrow> str" where
  "body_text canonical records = strip_line_feeds (char_slice (body_start records) (li_end (last records)) canonical)"

definition content_hash :: "script \<Rightarrow> str \<Rightarrow> str \<Rightarrow> str" where
  "content_hash sc heading content = sc_sha256 sc (heading @ [CHR 0x0A] @ content)"

definition not_scope_rx :: regex where
  "not_scope_rx =
     repeat_from True 1 (Class True [ItemRange 97 122, ItemRange 48 57])"

definition appendix_scope :: "script \<Rightarrow> str option \<Rightarrow> nat \<Rightarrow> str" where
  "appendix_scope sc number order =
     (case number of
        None \<Rightarrow> ''x'' @ digits_of order
      | Some n \<Rightarrow> strip_chars [''_'']
          (rx_sub (sc_unicode sc) False not_scope_rx (\<lambda>m. ''_'') (sc_lower sc (fold_marks sc n))))"

definition form_rx :: regex where
  "form_rx =
     seqs [WordEdge, alts [lits ''mau'', lits ''bieu mau''], WordEdge]"
definition table_rx :: regex where
  "table_rx =
     seqs [WordEdge, lits ''bang'', WordEdge]"

definition classify_appendix :: "script \<Rightarrow> str \<Rightarrow> line_record list \<Rightarrow> appendix_kind" where
  "classify_appendix sc heading body =
     (let folded = sc_lower sc (fold_marks sc heading) in
      if rx_found (sc_unicode sc) False form_rx folded then FormKind
      else if occurs_in ''danh muc'' folded then ListKind
      else if rx_found (sc_unicode sc) False table_rx folded then TableKind
      else if list_ex (\<lambda>r. match_article_line sc (li_text r) \<noteq> None) body then LegalContent
      else Unclassified)"

text \<open>The structure of an attachment: parsed, with unique labels, and consistent on its own.\<close>

definition attached_hierarchy :: "script \<Rightarrow> line_record list \<Rightarrow> parser_error + hierarchy" where
  "attached_hierarchy sc records =
     rbind (parse_hierarchy sc records) (\<lambda>h.
     rbind (validate_unique_point_labels sc (hi_articles h)) (\<lambda>_.
     rbind (validate_hierarchy sc h) (\<lambda>_. Inr h)))"

definition appendix_from_records ::
  "script \<Rightarrow> str \<Rightarrow> nat \<Rightarrow> line_record list \<Rightarrow> parser_error + appendix" where
  "appendix_from_records sc canonical order records =
     (let heading = py_strip (li_text (hd records)) in
      case match_appendix_heading sc heading of
        None \<Rightarrow> Inl (InvalidAppendixHeading heading)
      | Some (number, title) \<Rightarrow>
          (let raw = body_text canonical records;
               content = (if py_strip raw = [] then heading else raw);
               kind = classify_appendix sc heading (tl records) in
           rbind (if kind = LegalContent then attached_hierarchy sc (tl records) else Inr no_hierarchy) (\<lambda>h.
             check_appendix
               \<lparr>ap_scope = appendix_scope sc number order, ap_number = map_option py_strip number, ap_heading = heading,
                ap_title = title, ap_kind = kind, ap_content = content, ap_hierarchy = h,
                ap_start = li_start (hd records), ap_end = li_end (last records), ap_start_line = li_line (hd records),
                ap_end_line = li_line (last records), ap_hash = content_hash sc heading content\<rparr>)))"

fun instrument_kind_name :: "instrument_kind \<Rightarrow> str" where
  "instrument_kind_name Regulation = ''REGULATION''"
| "instrument_kind_name Charter = ''CHARTER''"
| "instrument_kind_name Standard = ''STANDARD''"

text \<open>The groups of a list with their order, from one.\<close>

definition in_order :: "(nat \<Rightarrow> 'a \<Rightarrow> parser_error + 'b) \<Rightarrow> 'a list
  \<Rightarrow> parser_error + 'b list" where
  "in_order f xs = rmapm (\<lambda>(i, x). f i x) (zip [1..<length xs + 1] xs)"

definition instrument_from_records ::
  "script \<Rightarrow> str \<Rightarrow> nat \<Rightarrow> line_record list \<Rightarrow> parser_error + instrument" where
  "instrument_from_records sc canonical order records =
     (case match_attached_instrument_heading sc records 0 of
        None \<Rightarrow> Inl (InvalidInstrumentHeading (li_text (hd records)))
      | Some ih \<Rightarrow>
          (let content = body_text canonical records;
               inner = partition_source_sections sc (tl records);
               heading = py_strip (li_text (hd records)) in
           rbind (require (py_strip content \<noteq> []) BlankInstrument) (\<lambda>_.
           rbind (require (ps_instruments inner = []) NestedInstrument) (\<lambda>_.
           rbind (attached_hierarchy sc (ps_main inner)) (\<lambda>h.
           rbind (require (hi_articles h \<noteq> []) (InstrumentWithoutArticle heading)) (\<lambda>_.
           rbind (in_order (appendix_from_records sc canonical) (ps_appendices inner)) (\<lambda>apps.
             check_instrument
               \<lparr>in_scope = sc_lower sc (instrument_kind_name (ih_kind ih)) @ ''_'' @ digits_of order,
                in_heading = heading, in_adoption = ih_adoption ih, in_title = ih_title ih, in_kind = ih_kind ih,
                in_content = content, in_hierarchy = h, in_appendices = apps, in_start = li_start (hd records),
                in_end = li_end (last records), in_start_line = li_line (hd records),
                in_end_line = li_line (last records), in_hash = content_hash sc heading content\<rparr>)))))))"

definition table_of_contents_section :: "script \<Rightarrow> str \<Rightarrow> str \<Rightarrow> line_record
  list \<Rightarrow> unparsed_section" where
  "table_of_contents_section sc canonical doc records =
     (let heading = py_strip (li_text (hd records)); content = body_text canonical records in
      \<lparr>us_type = TableOfContents, us_heading = Some heading, us_content = content, us_document = doc,
       us_start = li_start (hd records), us_end = li_end (last records), us_start_line = li_line (hd records),
       us_end_line = li_line (last records), us_hash = content_hash sc heading content\<rparr>)"

definition records_have_content :: "line_record list \<Rightarrow> bool" where
  "records_have_content records \<longleftrightarrow> list_ex (\<lambda>r. py_strip (li_text r) \<noteq> []) records"

definition unparsed_body_section ::
  "script \<Rightarrow> str \<Rightarrow> str \<Rightarrow> line_record list \<Rightarrow> parser_error + unparsed_section" where
  "unparsed_body_section sc canonical doc records =
     (if records = [] then Inl EmptyUnparsedBody
      else let content = strip_line_feeds (char_slice (li_start (hd records)) (li_end (last records)) canonical) in
        Inr \<lparr>us_type = UnparsedBody, us_heading = None, us_content = content, us_document = doc,
             us_start = li_start (hd records), us_end = li_end (last records), us_start_line = li_line (hd records),
             us_end_line = li_line (last records), us_hash = sc_sha256 sc content\<rparr>)"

subsection \<open>Effective dates\<close>

definition effective_rx :: regex where
  "effective_rx =
     seqs [lits (''c'' @ [CHR 0xC3, CHR 0xB3]), blanks, lits (''hi'' @ [CHR 0xE1, CHR 0xBB, CHR 0x87] @
     ''u''), blanks, lits (''l'' @ [CHR 0xE1, CHR 0xBB, CHR 0xB1] @ ''c''), opt True (seqs [blanks,
     lits ''thi'', blanks, lits (''h'' @ [CHR 0xC3, CHR 0xA0] @ ''nh'')]), blanks, opt True (seqs [lits
     (''k'' @ [CHR 0xE1, CHR 0xBB, CHR 0x83]), blanks]), lits (''t'' @ [CHR 0xE1, CHR 0xBB, CHR 0xAB]),
     blanks, lits (''ng'' @ [CHR 0xC3, CHR 0xA0] @ ''y''), blanks, Group 1 (repeat True 1 2 digit),
     blanks, lits (''th'' @ [CHR 0xC3, CHR 0xA1] @ ''ng''), blanks, Group 2 (repeat True 1 2 digit),
     blanks, lits (''n'' @ [CHR 0xC4, CHR 0x83] @ ''m''), blanks, Group 3 (repeat True 4 4 digit)]"

definition match_date :: "script \<Rightarrow> rmatch \<Rightarrow> date option" where
  "match_date sc m =
     (case (py_int (sc_unicode sc) (group_text m 3), py_int (sc_unicode sc) (group_text m 2),
            py_int (sc_unicode sc) (group_text m 1)) of
        (Some y, Some mo, Some d) \<Rightarrow> make_date (int y) (int mo) (int d)
      | _ \<Rightarrow> None)"

definition infer_source_effective_from :: "script \<Rightarrow> str \<Rightarrow> parser_error + date option" where
  "infer_source_effective_from sc s =
     rbind (rmapm (\<lambda>m. case match_date sc m of None \<Rightarrow> Inl InvalidEffectiveDate | Some d \<Rightarrow> Inr d)
              (rx_finditer (sc_unicode sc) True effective_rx s)) (\<lambda>ds.
       case remdups ds of [] \<Rightarrow> Inr None | [d] \<Rightarrow> Inr (Some d) | _ \<Rightarrow> Inl
         ConflictingEffectiveDates)"

definition with_source_effective_date :: "script \<Rightarrow> str \<Rightarrow> 'm document_info \<Rightarrow>
  parser_error + 'm document_info" where
  "with_source_effective_date sc canonical info =
     (if di_effective_from info \<noteq> None then Inr info
      else rbind (infer_source_effective_from sc canonical) (\<lambda>d.
        case d of None \<Rightarrow> Inr info | Some day \<Rightarrow> Inr (info\<lparr>di_effective_from := Some day\<rparr>)))"

subsection \<open>Documents\<close>

definition parse_canonical_text ::
  "script \<Rightarrow> str \<Rightarrow> 'm document_info \<Rightarrow> partition_state \<Rightarrow>
    parser_error + 'm parsed_document" where
  "parse_canonical_text sc canonical info ps =
     rbind (parse_hierarchy sc (ps_main ps)) (\<lambda>h.
     rbind (validate_unique_point_labels sc (hi_articles h)) (\<lambda>_.
     rbind (in_order (appendix_from_records sc canonical) (ps_appendices ps)) (\<lambda>apps.
     rbind (in_order (instrument_from_records sc canonical) (ps_instruments ps)) (\<lambda>ins.
       validate_parsed_document sc
         \<lparr>do_info = info, do_hierarchy = h, do_appendices = apps, do_instruments = ins,
          do_unparsed = (if ps_contents ps \<noteq> [] then [table_of_contents_section sc canonical (di_id info) (ps_contents ps)]
                         else []), do_metadata = None\<rparr>))))"

definition parse_text :: "script \<Rightarrow> str \<Rightarrow> 'm document_info \<Rightarrow> parser_error +
  'm parsed_document" where
  "parse_text sc s info =
     (let canonical = canonicalize_source_text sc s in
      rbind (with_source_effective_date sc canonical info) (\<lambda>info'.
        parse_canonical_text sc canonical info' (partition_source_sections sc (source_line_records canonical))))"

definition bare_document :: "'m document_info \<Rightarrow> unparsed_section list \<Rightarrow> 'm parsed_document" where
  "bare_document info us =
     \<lparr>do_info = info, do_hierarchy = no_hierarchy, do_appendices = [], do_instruments = [], do_unparsed = us,
      do_metadata = None\<rparr>"

text \<open>The document that keeps the whole source unparsed.\<close>

definition source_preserved_document ::
  "script \<Rightarrow> str \<Rightarrow> 'm document_info \<Rightarrow> parser_error + 'm parsed_document" where
  "source_preserved_document sc canonical info =
     (let records = source_line_records canonical in
      rbind (if records_have_content records
             then rbind (unparsed_body_section sc canonical (di_id info) records) (\<lambda>u. Inr [u]) else Inr []) (\<lambda>us.
        validate_parsed_document sc (bare_document info us)))"

definition has_unparsed_body :: "'m parsed_document \<Rightarrow> bool" where
  "has_unparsed_body d \<longleftrightarrow> list_ex (\<lambda>u. us_type u = UnparsedBody) (do_unparsed d)"

definition is_fallback :: "parse_warning \<Rightarrow> bool" where
  "is_fallback w \<longleftrightarrow> (case pw_code w of HierarchyFallback _ \<Rightarrow> True | _ \<Rightarrow> False)"

definition no_boundary_warning :: "line_record list \<Rightarrow> parse_warning" where
  "no_boundary_warning main =
     \<lparr>pw_code = NoArticleBoundary, pw_line = Some (li_line (hd main)), pw_start = Some (li_start (hd main)),
      pw_end = Some (li_end (last main))\<rparr>"

text \<open>A body without articles is kept unparsed.\<close>

definition preserve_body ::
  "script \<Rightarrow> str \<Rightarrow> line_record list \<Rightarrow> 'm parsed_document \<Rightarrow> parse_warning list
     \<Rightarrow> parser_error + 'm parsed_document \<times> parse_warning list" where
  "preserve_body sc canonical main d ws =
     (if hi_articles (do_hierarchy d) = [] \<and> records_have_content main
      then rbind (if has_unparsed_body d then Inr d
                  else rbind (unparsed_body_section sc canonical (di_id (do_info d)) main) (\<lambda>u.
                         Inr (d\<lparr>do_unparsed := u # do_unparsed d\<rparr>))) (\<lambda>d'.
             Inr (d', if list_ex is_fallback ws then ws else ws @ [no_boundary_warning main]))
      else Inr (d, ws))"

definition count_articles :: "hierarchy \<Rightarrow> nat" where
  "count_articles h = length (hi_articles h)"

definition appendix_articles :: "appendix list \<Rightarrow> nat" where
  "appendix_articles as = sum_list (map (\<lambda>a. count_articles (ap_hierarchy a)) as)"

definition total_articles :: "'m parsed_document \<Rightarrow> nat" where
  "total_articles d =
     count_articles (do_hierarchy d) + appendix_articles (do_appendices d)
     + sum_list (map (\<lambda>i. count_articles (in_hierarchy i) + appendix_articles (in_appendices i)) (do_instruments d))"

definition diagnose :: "script \<Rightarrow> str \<Rightarrow> 'm parsed_document \<Rightarrow> parse_warning
  list \<Rightarrow> parse_diagnostics" where
  "diagnose sc canonical d ws =
     \<lparr>pd_source_hash = sc_sha256 sc canonical,
      pd_status = (if has_unparsed_body d then SourcePreserved else if ws \<noteq> [] then ParsedWithWarnings else Parsed),
      pd_article_count = total_articles d, pd_unparsed_count = length (do_unparsed d), pd_warnings = ws\<rparr>"

definition fallback_warning :: "parser_error \<Rightarrow> parse_warning" where
  "fallback_warning e = \<lparr>pw_code = HierarchyFallback e, pw_line = None, pw_start = None, pw_end = None\<rparr>"

text \<open>The parse with its fallback: any \<open>ValueError\<close> keeps the whole source unparsed.\<close>

definition parse_or_preserve ::
  "script \<Rightarrow> str \<Rightarrow> 'm document_info \<Rightarrow> partition_state
     \<Rightarrow> parser_error + 'm parsed_document \<times> parse_warning list" where
  "parse_or_preserve sc canonical info ps =
     (let ws = snd (replacement_quote_lines sc (ps_main ps)) in
      case parse_canonical_text sc canonical info ps of
        Inr d \<Rightarrow> Inr (d, ws)
      | Inl e \<Rightarrow>
          if is_value_error e
          then rbind (source_preserved_document sc canonical info) (\<lambda>d. Inr (d, ws @ [fallback_warning e]))
          else Inl e)"

definition parse_text_with_diagnostics ::
  "script \<Rightarrow> str \<Rightarrow> 'm document_info \<Rightarrow> parser_error + 'm parsed_document
    \<times> parse_diagnostics" where
  "parse_text_with_diagnostics sc s info =
     (let canonical = canonicalize_source_text sc s;
          ps = partition_source_sections sc (source_line_records canonical) in
      rbind (with_source_effective_date sc canonical info) (\<lambda>info'.
      rbind (parse_or_preserve sc canonical info' ps) (\<lambda>(d, ws).
      rbind (preserve_body sc canonical (ps_main ps) d ws) (\<lambda>(d', ws').
        let diagnostics = diagnose sc canonical d' ws' in
        Inr (d'\<lparr>do_metadata := Some diagnostics\<rparr>, diagnostics)))))"

end
