(* ===== verification/Source_Facts.thy ===== *)
theory Source_Facts
  imports Source_Partition
begin

text \<open>
  Facts about the text level of the parser: substitution shortens a text whenever every replacement is shorter than its
  match, line records are slices of the text, and the partition splits the records without loss.
\<close>

subsection \<open>Substitution\<close>

text \<open>Matches from left to right, none overlapping the one before.\<close>

fun in_sequence :: "nat \<Rightarrow> rmatch list \<Rightarrow> bool" where
  "in_sequence i [] \<longleftrightarrow> True"
| "in_sequence i (m # ms) \<longleftrightarrow> i \<le> rm_start m \<and> in_sequence (rm_end m) ms"

lemma in_sequence_mono: "in_sequence j ms \<Longrightarrow> i \<le> j \<Longrightarrow> in_sequence i ms"
  by (cases ms) auto

lemma matches_from_in_sequence: "in_sequence (length bs) (matches_from U ic r bs xs)"
proof (induction "length xs" arbitrary: bs xs rule: less_induct)
  case less
  have skip: "in_sequence (length bs) (case xs of [] \<Rightarrow> [] | x # xs' \<Rightarrow> matches_from U ic r (x # bs) xs')"
  proof (cases xs)
    case (Cons x xs')
    then have "in_sequence (length (x # bs)) (matches_from U ic r (x # bs) xs')"
      by (intro less.hyps) simp
    with Cons show ?thesis by (simp add: in_sequence_mono [of "Suc (length bs)"])
  qed simp
  show ?case
  proof (cases "match_at U ic r bs xs")
    case None
    with skip show ?thesis by (subst matches_from.simps) simp
  next
    case (Some st)
    have e: "rm_end (to_match (length bs) st) = length (fst st)" by (rule match_at_factor(3) [OF Some])
    have le: "length bs \<le> length (fst st)" using e by (simp add: rm_end_def to_match_def)
    show ?thesis
    proof (cases "length (fst (snd st)) < length xs")
      case True
      from less.hyps [OF True] have "in_sequence (length (fst st)) (matches_from U ic r (fst st) (fst (snd st)))" .
      with Some True e show ?thesis by (subst matches_from.simps) (simp add: to_match_def)
    next
      case False
      have "length (fst st) + length (fst (snd st)) = length bs + length xs"
        using match_at_factor(2) [OF Some] by (metis length_append length_rev whole_def)
      with False le have "length (fst st) = length bs" by simp
      with Some False e skip show ?thesis by (subst matches_from.simps) (simp add: to_match_def)
    qed
  qed
qed

lemma length_concat_take_drop:
  "i \<le> j \<Longrightarrow>
     length (concat (drop i cs)) = length (concat (take (j - i) (drop i cs))) + length (concat (drop j cs))"
proof -
  assume "i \<le> j"
  then have "drop i cs = take (j - i) (drop i cs) @ drop j cs"
    by (metis append_take_drop_id drop_drop le_add_diff_inverse2)
  then show ?thesis by (metis concat_append length_append)
qed

lemma sub_from_shorter:
  assumes "in_sequence i ms" and "\<And>m. m \<in> set ms \<Longrightarrow> match_of cs m"
    and "\<And>m. m \<in> set ms \<Longrightarrow> length (f m) < length (rm_text m)" and "i \<le> length cs"
  shows "ms = [] \<or> length (sub_from f i ms cs) < length (concat (drop i cs))"
  using assms
proof (induction ms arbitrary: i)
  case (Cons m ms)
  from Cons.prems have m: "match_of cs m" and i: "i \<le> rm_start m" by auto
  then have e: "rm_end m = rm_start m + length (rm_chars m)" and le: "rm_end m \<le> length cs"
    by (simp_all add: rm_end_def match_of_def)
  have rest: "length (sub_from f (rm_end m) ms cs) \<le> length (concat (drop (rm_end m) cs))"
    using Cons.IH [of "rm_end m"] Cons.prems le by auto
  have factor: "rm_text m = concat (take (rm_end m - rm_start m) (drop (rm_start m) cs))"
    using m by (simp add: match_of_def rm_text_def e)
  have "length (concat (drop i cs)) =
      length (concat (take (rm_start m - i) (drop i cs))) + length (rm_text m) + length (concat (drop (rm_end m) cs))"
    using length_concat_take_drop [of i "rm_start m" cs] length_concat_take_drop [of "rm_start m" "rm_end m" cs] i e le
    by (simp add: factor)
  with rest Cons.prems(3) [of m] show ?case by simp
qed simp

lemma rx_sub_shorter:
  assumes "\<And>m. m \<in> set (rx_finditer U ic r s) \<Longrightarrow> length (f m) < length (rm_text m)"
  shows "rx_sub U ic r f s = s \<or> length (rx_sub U ic r f s) < length s"
proof -
  have "in_sequence 0 (rx_finditer U ic r s)"
    using matches_from_in_sequence [of "[]" U ic r "py_chars s"] by (simp add: rx_finditer_def)
  from sub_from_shorter [OF this, of "py_chars s" f] assms rx_finditer_factor [of _ U ic r s]
  have "rx_finditer U ic r s = [] \<or> length (rx_sub U ic r f s) < length s"
    by (simp add: rx_sub_def)
  then show ?thesis by (auto simp: rx_sub_def)
qed

subsection \<open>Split words\<close>

fun capture_free :: "regex \<Rightarrow> bool" where
  "capture_free (Group g r) = False"
| "capture_free (Seq r s) = (capture_free r \<and> capture_free s)"
| "capture_free (Alt r s) = (capture_free r \<and> capture_free s)"
| "capture_free (Many g r) = capture_free r"
| "capture_free _ = True"

lemma run_capture_free: "capture_free r \<Longrightarrow> st' \<in> set (run U ic r st) \<Longrightarrow> snd (snd st') = snd (snd st)"
proof (induction r arbitrary: st st')
  case (Seq r s)
  from Seq.prems(2) obtain st1 where "st1 \<in> set (run U ic r st)" and "st' \<in> set (run U ic s st1)" by auto
  with Seq.IH Seq.prems(1) show ?case by simp
next
  case (Many g r)
  from Many.prems(2) have "st' \<in> set (rounds g (run U ic r) (length (fst (snd st))) st)" by simp
  then show ?case
  proof (rule rounds_invariant [where body = "run U ic r" and R = "\<lambda>a b. snd (snd b) = snd (snd a)", rotated 3])
    show "\<And>st st'. st' \<in> set (run U ic r st) \<Longrightarrow> snd (snd st') = snd (snd st)" using Many by simp
  qed auto
qed (auto simp: one_char_def split: prod.splits list.splits if_splits)

lemma run_group:
  assumes "capture_free r" and "st' \<in> set (run U ic (Group g r) st)"
  shows "\<exists>w. fst st' = w @ fst st \<and> snd (snd st') = (g, length (fst st), rev w) # snd (snd st)"
proof -
  from assms(2) obtain bs xs cs where r: "(bs, xs, cs) \<in> set (run U ic r st)"
    and st': "st' = (bs, xs, (g, length (fst st), rev (take (length bs - length (fst st)) bs)) # cs)" by auto
  from run_forward [OF r] obtain w where "bs = w @ fst st" by auto
  with run_capture_free [OF assms(1) r] st' show ?thesis by auto
qed

lemma run_blanks:
  assumes "st' \<in> set (run U ic blanks st)"
  shows "\<exists>w. w \<noteq> [] \<and> fst st' = w @ fst st \<and> snd (snd st') = snd (snd st)"
proof -
  from assms obtain st1 where a: "st1 \<in> set (run U ic blank st)" and b: "st' \<in> set (run U ic (Many True blank) st1)"
    by (auto simp: blanks_def repeat_from_def seqs_def)
  from a obtain x where x: "fst st1 = x # fst st"
    by (auto simp: blank_def one_char_def split: prod.splits list.splits if_splits)
  from run_forward [OF b] obtain w where "fst st' = w @ fst st1" by auto
  moreover have "snd (snd st') = snd (snd st)"
    using run_capture_free [OF _ a] run_capture_free [OF _ b] by (simp add: blank_def)
  ultimately show ?thesis using x by (intro exI [of _ "w @ [x]"]) simp
qed

lemma run_Seq_iff: "st' \<in> set (run U ic (Seq r s) st) \<longleftrightarrow> (\<exists>st1 \<in> set (run U ic r st). st' \<in> set (run U ic s st1))"
  by simp

lemma split_word_stages:
  assumes "st' \<in> set (run U ic (split_word edge h t) st)"
  obtains st1 st2 where "st1 \<in> set (run U ic (Group 1 h) st)" and "st2 \<in> set (run U ic blanks st1)"
    and "st' \<in> set (run U ic (Group 2 t) st2)"
proof -
  let ?rest = "Seq (Group 1 h) (Seq blanks (Seq (Group 2 t) (Seq WordEdge Empty)))"
  have end_only: "st'' = st2" if "st'' \<in> set (run U ic (Seq WordEdge Empty) st2)" for st'' st2 using that by auto
  have "st' \<in> set (run U ic ?rest st)"
    using assms by (cases edge) (auto simp: split_word_def seqs_def simp del: run.simps(13) split: if_splits)
  then show thesis unfolding run_Seq_iff [of _ _ _ "Group 1 h"] run_Seq_iff [of _ _ _ blanks] run_Seq_iff [of _ _ _ "Group 2 t"]
    using end_only that by blast
qed

text \<open>A match of a split word is its head, blanks and its tail.\<close>

lemma run_split_word:
  assumes "capture_free h" and "capture_free t" and "st' \<in> set (run U ic (split_word edge h t) st)"
  shows "\<exists>w1 w2 w3 i j. w2 \<noteq> [] \<and> fst st' = w3 @ w2 @ w1 @ fst st
           \<and> snd (snd st') = (2, j, rev w3) # (1, i, rev w1) # snd (snd st)"
proof -
  from assms(3) obtain st1 st2 where 1: "st1 \<in> set (run U ic (Group 1 h) st)" and 2: "st2 \<in> set (run U ic blanks st1)"
    and 3: "st' \<in> set (run U ic (Group 2 t) st2)"
    by (rule split_word_stages)
  from run_group [OF assms(1) 1] run_blanks [OF 2] run_group [OF assms(2) 3] show ?thesis by force
qed

lemma py_chars_nonempty: "c \<in> set (py_chars s) \<Longrightarrow> c \<noteq> []"
  by (induction s rule: py_chars.induct) auto

lemma split_word_shrinks:
  assumes "capture_free h" and "capture_free t" and "m \<in> set (rx_finditer U ic (split_word edge h t) s)"
  shows "length (group_text m 1 @ group_text m 2) < length (rm_text m)"
proof -
  let ?r = "split_word edge h t"
  have "\<exists>bs xs st. rev bs @ xs = py_chars s \<and> match_at U ic ?r bs xs = Some st \<and> m = to_match (length bs) st"
    if "m \<in> set (matches_from U ic ?r bs xs)" and "rev bs @ xs = py_chars s" for bs xs
    using that
  proof (induction "length xs" arbitrary: bs xs rule: less_induct)
    case less
    from less.prems(1) show ?case
    proof (cases rule: matches_from_cases)
      case (here st)
      with less.prems(2) show ?thesis by blast
    next
      case (after st)
      from less.hyps [OF after(2,3)] match_at_factor(2) [OF after(1)] less.prems(2) show ?thesis
        by (simp add: whole_def)
    next
      case (skip x xs')
      from less.hyps [OF _ skip(2)] skip(1) less.prems(2) show ?thesis by simp
    qed
  qed
  from this [of "[]" "py_chars s"] assms(3) obtain bs xs st where cs: "rev bs @ xs = py_chars s"
    and st: "match_at U ic ?r bs xs = Some st" and m: "m = to_match (length bs) st"
    by (auto simp: rx_finditer_def)
  from st have run: "st \<in> set (run U ic ?r (bs, xs, []))" by (auto simp: match_at_def split: list.splits)
  from run_split_word [OF assms(1,2) run] obtain w1 w2 w3 i j where w: "w2 \<noteq> []" "fst st = w3 @ w2 @ w1 @ bs"
    and caps: "snd (snd st) = [(2, j, rev w3), (1, i, rev w1)]" by auto
  have "set w2 \<subseteq> set (py_chars s)"
    using match_at_factor(2) [OF st] w(2) cs by (metis Un_subset_iff set_append set_rev subset_refl whole_def)
  with w(1) have "concat (rev w2) \<noteq> []" using py_chars_nonempty by (cases w2) auto
  then show ?thesis
    by (simp add: m to_match_def w(2) caps group_text_def rm_group_def rm_text_def)
qed

lemma digraph_parts: "capture_free digraph_head_rx" "capture_free digraph_tail_rx" "capture_free consonant_rx"
  "capture_free vowel_tail_rx" "capture_free word_rx" "capture_free marked_tail_rx"
  by (simp_all add: digraph_head_rx_def digraph_tail_rx_def consonant_rx_def vowel_tail_rx_def word_rx_def
      marked_tail_rx_def lits_def seqs_def repeat_from_def)

definition spacing_expressions :: "regex list" where
  "spacing_expressions = [digraph_rx, split_consonant_rx, split_mark_rx]"

lemma join_pieces_shorter:
  assumes "r \<in> set spacing_expressions"
  shows "join_pieces sc r s = s \<or> length (join_pieces sc r s) < length s"
  unfolding join_pieces_def
proof (rule rx_sub_shorter)
  fix m assume m: "m \<in> set (rx_finditer (sc_unicode sc) True r s)"
  from assms obtain edge h t where "r = split_word edge h t" "capture_free h" "capture_free t"
    using digraph_parts
    by (auto simp: spacing_expressions_def digraph_rx_def split_consonant_rx_def split_mark_rx_def)
  with m split_word_shrinks show "length (group_text m 1 @ group_text m 2) < length (rm_text m)" by blast
qed

text \<open>So the guard of the loop always holds.\<close>

lemma join_until_stable_loop:
  assumes "r \<in> set spacing_expressions"
  shows "join_until_stable sc r s = (let t = join_pieces sc r s in if t = s then s else join_until_stable sc r t)"
  using join_pieces_shorter [OF assms, of sc s] by (subst join_until_stable.simps) (auto simp: Let_def)

lemma join_until_stable_fixed:
  assumes "r \<in> set spacing_expressions"
  shows "join_pieces sc r (join_until_stable sc r s) = join_until_stable sc r s
    \<and> length (join_until_stable sc r s) \<le> length s"
proof (induction "length s" arbitrary: s rule: less_induct)
  case less
  show ?case
  proof (cases "join_pieces sc r s = s")
    case True
    then show ?thesis by (subst (1 2 3) join_until_stable_loop [OF assms]) simp
  next
    case False
    with join_pieces_shorter [OF assms, of sc s] have "length (join_pieces sc r s) < length s" by simp
    from less [OF this] this False show ?thesis by (subst (1 2 3) join_until_stable_loop [OF assms]) (simp add: Let_def)
  qed
qed

subsection \<open>Line records\<close>

abbreviation line_feed :: pchar where "line_feed \<equiv> [CHR 0x0A]"

lemma concat_split_keep: "concat (split_keep cur cs) = rev cur @ cs"
  by (induction cur cs rule: split_keep.induct) auto

lemma split_keep_feeds:
  "line_feed \<notin> set cur \<Longrightarrow> raw \<in> set (split_keep cur cs) \<Longrightarrow> line_feed \<notin> set (butlast raw)"
proof (induction cur cs rule: split_keep.induct)
  case (1 cur)
  then show ?case by (auto split: if_splits dest: list.set_sel(2))
next
  case (2 cur c cs)
  have "line_feed \<notin> set (butlast (rev (c # cur)))" using 2(4) by simp
  moreover have "c = line_feed \<Longrightarrow> line_boundary c" by (simp add: line_boundary_def)
  ultimately show ?case using 2 by (auto split: if_splits)
qed

lemma strip_newlines_filter:
  "line_feed \<notin> set (butlast raw) \<Longrightarrow> strip_newlines raw = filter (\<lambda>c. c \<noteq> line_feed) raw"
proof (cases raw rule: rev_cases)
  case (snoc ys y)
  assume "line_feed \<notin> set (butlast raw)"
  with snoc have ys: "line_feed \<notin> set ys" by simp
  then have "dropWhile (\<lambda>c. c = line_feed) (rev ys) = rev ys" by (cases ys rule: rev_cases) auto
  moreover have "filter (\<lambda>c. c \<noteq> line_feed) ys = ys" using ys by (auto simp: filter_id_conv)
  ultimately show ?thesis using snoc by (auto simp: strip_newlines_def)
qed (simp add: strip_newlines_def)

lemma strip_newlines_take: "strip_newlines raw = take (length (strip_newlines raw)) raw"
  and strip_newlines_le: "length (strip_newlines raw) \<le> length raw"
proof -
  have "raw = strip_newlines raw @ rev (takeWhile (\<lambda>c. c = line_feed) (rev raw))"
    by (metis rev_append rev_rev_ident strip_newlines_def takeWhile_dropWhile_id)
  then show "strip_newlines raw = take (length (strip_newlines raw)) raw" by (metis append_eq_conv_conj)
  show "length (strip_newlines raw) \<le> length raw"
    by (simp add: strip_newlines_def) (metis length_dropWhile_le length_rev)
qed

text \<open>Records in the order of the text, none overlapping the next.\<close>

fun lines_ordered :: "nat \<Rightarrow> line_record list \<Rightarrow> bool" where
  "lines_ordered i [] \<longleftrightarrow> True"
| "lines_ordered i (r # rs) \<longleftrightarrow> i \<le> li_start r \<and> li_start r \<le> li_end r \<and> lines_ordered (li_end r) rs"

lemma lines_ordered_mono: "lines_ordered j rs \<Longrightarrow> i \<le> j \<Longrightarrow> lines_ordered i rs"
  by (cases rs) auto

lemma line_records_ordered: "lines_ordered cursor (line_records_from cursor n raws)"
proof (induction raws arbitrary: cursor n)
  case (Cons raw raws)
  show ?case
    using lines_ordered_mono [OF Cons.IH [of "cursor + length raw" "Suc n"]] strip_newlines_le [of raw]
    by (simp add: Let_def)
qed simp

lemma line_records_slices:
  "length pre = cursor \<Longrightarrow>
     list_all (\<lambda>r. concat (take (li_end r - li_start r) (drop (li_start r) (pre @ concat raws))) = li_text r)
       (line_records_from cursor n raws)"
proof (induction raws arbitrary: pre cursor n)
  case (Cons raw raws)
  from Cons.IH [of "pre @ raw" "cursor + length raw" "Suc n"] Cons.prems show ?case
    using strip_newlines_take [of raw] strip_newlines_le [of raw] by (simp add: Let_def)
qed simp

lemma line_records_text:
  "(\<And>raw. raw \<in> set raws \<Longrightarrow> line_feed \<notin> set (butlast raw)) \<Longrightarrow>
     concat (map li_text (line_records_from cursor n raws)) = concat (filter (\<lambda>c. c \<noteq> line_feed) (concat raws))"
  by (induction raws arbitrary: cursor n) (simp_all add: Let_def strip_newlines_filter)

lemma line_records_numbers: "map li_line (line_records_from cursor n raws) = [n..<n + length raws]"
proof (induction raws arbitrary: cursor n)
  case (Cons raw raws)
  from Cons.IH [of "cursor + length raw" "Suc n"] show ?case
    by (simp add: Let_def upt_conv_Cons del: upt_Suc)
qed simp

lemma line_records_length [simp]: "length (line_records_from cursor n raws) = length raws"
  by (induction raws arbitrary: cursor n) (simp_all add: Let_def)

lemma source_line_records_eq: "source_line_records s = line_records_from 0 1 (split_keep [] (py_chars s))"
proof (cases "s = []")
  case False
  then have "split_keep [] (py_chars s) \<noteq> []"
    using concat_split_keep [of "[]" "py_chars s"] by (metis append_Nil concat.simps(1) concat_py_chars rev.simps(1))
  then have "line_records_from 0 1 (split_keep [] (py_chars s)) \<noteq> []"
    by (metis length_0_conv line_records_length)
  then show ?thesis by (simp add: source_line_records_def Let_def)
qed (simp add: source_line_records_def Let_def)

subsection \<open>The partition\<close>

lemma concat_extend_last: "gs \<noteq> [] \<Longrightarrow> concat (extend_last x gs) = concat gs @ [x]"
  by (cases gs rule: rev_cases) (simp_all add: extend_last_def)

lemma set_extend_last:
  "gs \<noteq> [] \<Longrightarrow> g \<in> set (extend_last x gs) \<Longrightarrow> \<exists>h \<in> set gs. g = h \<or> g = h @ [x]"
  by (cases gs rule: rev_cases) (auto simp: extend_last_def)

lemma extend_last_nonempty [simp]: "extend_last x gs \<noteq> []"
  by (simp add: extend_last_def)

text \<open>At most one kind of group follows the body.\<close>

definition one_kind :: "partition_state \<Rightarrow> bool" where
  "one_kind ps \<longleftrightarrow>
     length (filter id [ps_appendices ps \<noteq> [], ps_instruments ps \<noteq> [], ps_contents ps \<noteq> []]) \<le> 1"

text \<open>Every group starts with its heading.\<close>

definition headed :: "script \<Rightarrow> partition_state \<Rightarrow> bool" where
  "headed sc ps \<longleftrightarrow>
     list_all (\<lambda>g. g \<noteq> [] \<and> match_appendix_heading sc (li_text (hd g)) \<noteq> None) (ps_appendices ps)
     \<and> list_all (\<lambda>g. g \<noteq> []) (ps_instruments ps)"

definition partition_invariant :: "script \<Rightarrow> line_record list \<Rightarrow> nat \<Rightarrow> partition_state \<Rightarrow> bool" where
  "partition_invariant sc records k ps \<longleftrightarrow>
     ps_main ps @ concat (ps_appendices ps) @ concat (ps_instruments ps) @ ps_contents ps = take k records
     \<and> one_kind ps \<and> headed sc ps
     \<and> (ps_in_appendix ps \<longleftrightarrow> ps_appendices ps \<noteq> []) \<and> (ps_in_instrument ps \<longleftrightarrow> ps_instruments ps \<noteq> [])"

lemma headed_extend:
  "list_all (\<lambda>g. g \<noteq> [] \<and> P (hd g)) gs \<Longrightarrow> gs \<noteq> [] \<Longrightarrow> list_all (\<lambda>g. g \<noteq> [] \<and> P (hd g)) (extend_last x gs)"
  by (cases gs rule: rev_cases) (auto simp: extend_last_def)

lemma nonempty_extend: "list_all (\<lambda>g. g \<noteq> []) gs \<Longrightarrow> gs \<noteq> [] \<Longrightarrow> list_all (\<lambda>g. g \<noteq> []) (extend_last x gs)"
  by (cases gs rule: rev_cases) (auto simp: extend_last_def)

lemma partition_step_invariant:
  assumes inv: "partition_invariant sc records k ps" and k: "k < length records"
  shows "partition_invariant sc records (Suc k) (partition_step sc records ps k)"
  using inv headed_extend [of "\<lambda>r. match_appendix_heading sc (li_text r) \<noteq> None" "ps_appendices ps" "records ! k"]
    nonempty_extend [of "ps_instruments ps" "records ! k"]
  by (simp add: partition_step_def partition_invariant_def Let_def one_kind_def headed_def take_Suc_conv_app_nth [OF k]
      concat_extend_last append_assoc [symmetric] del: append_assoc split: if_splits)

lemma partition_prefix:
  "k \<le> length records \<Longrightarrow>
     partition_invariant sc records k (foldl (partition_step sc records) empty_partition [0..<k])"
proof (induction k)
  case 0
  then show ?case by (simp add: partition_invariant_def empty_partition_def one_kind_def headed_def)
next
  case (Suc k)
  then show ?case using partition_step_invariant [of sc records k] by simp
qed

lemma partition_invariant_all:
  "partition_invariant sc records (length records) (partition_source_sections sc records)"
  unfolding partition_source_sections_def by (rule partition_prefix) simp

end
