(* ===== verification/Hierarchy_Facts.thy ===== *)
theory Hierarchy_Facts
  imports Source_Facts
begin

text \<open>
  Invariants of the line machine of the parser. A locale states what an invariant must survive: one handler at a
  time; its lemma carries the invariant through all lines. The three invariants below are interpretations.
\<close>

named_theorems machine_defs \<open>the helpers of the line machine\<close>

lemmas [machine_defs] = flush_point_def flush_clause_def flush_article_def drop_empty_subsection_def
  drop_empty_section_def drop_empty_chapter_def drop_empty_part_def Let_def

subsection \<open>Errors of opening a unit\<close>

lemma bounded_title_Inr: "bounded_title k n t = Inr t' \<longleftrightarrow>
    t' = py_strip t \<and> py_strip t \<noteq> [] \<and> py_len (py_strip t) \<le> max_structural_title_length"
  by (auto simp: bounded_title_def Let_def rbind_Inr_iff)

lemma make_unit_numbers:
  "make_part n t a b = Inr p \<Longrightarrow> pa_number p = py_strip n"
  "make_section n t ch pt a b = Inr s \<Longrightarrow> se_number s = py_strip n \<and> se_chapter s = ch \<and> se_part s = pt"
  "make_subsection n t sec ch pt a b = Inr u \<Longrightarrow>
     su_number u = py_strip n \<and> su_section u = py_strip sec \<and> su_chapter u = ch \<and> su_part u = pt"
  by (auto simp: make_part_def make_section_def make_subsection_def rbind_Inr_iff)

lemma add_unit_Inr:
  "add_unit kind n t a b st = Inr st' \<Longrightarrow>
     (case kind of
        PartHeading \<Rightarrow> (\<exists>p. pa_number p = py_strip n \<and> st' = st\<lparr>hs_part := Some p, hs_parts := hs_parts st @ [p]\<rparr>)
      | SectionHeading \<Rightarrow>
          (\<exists>s. se_number s = py_strip n \<and> se_chapter s = hs_chapter st \<and> se_part s = open_part_number st
             \<and> st' = st\<lparr>hs_section := Some s, hs_sections := hs_sections st @ [s]\<rparr>)
      | SubsectionHeading \<Rightarrow>
          (\<exists>u. su_number u = py_strip n \<and> su_chapter u = hs_chapter st \<and> su_part u = open_part_number st
             \<and> su_section u = py_strip (case hs_section st of None \<Rightarrow> [] | Some s \<Rightarrow> se_number s)
             \<and> st' = st\<lparr>hs_subsection := Some u, hs_subsections := hs_subsections st @ [u]\<rparr>))"
  by (cases kind)
     (fastforce simp: add_part_def add_section_def add_subsection_def rbind_Inr_iff dest: make_unit_numbers)+

lemma open_unit_cases:
  assumes "open_unit kind n t r st = Inr st'"
  obtains (waits) "t = None" and "st' = st\<lparr>hs_pending := Some (kind, n, r)\<rparr>"
  | (opens) t' where "add_unit kind n t' (li_start r) (li_end r) st = Inr st'"
  using assms by (cases t) (auto simp: open_unit_def rbind_Inr_iff)

lemma settle_heading_cases:
  assumes "settle_heading sc r line st = Inr (st', used)"
  obtains (free) "hs_pending st = None" and "st' = st" and "\<not> used"
  | (settled) kind n h t b st1 where "hs_pending st = Some (kind, n, h)"
      and "add_unit kind n t (li_start h) b st = Inr st1" and "st' = st1\<lparr>hs_pending := None\<rparr>"
  using assms by (auto simp: settle_heading_def rbind_Inr_iff split: option.splits if_splits)

text \<open>The machine raises only the errors of headings.\<close>

lemma add_unit_error: "add_unit kind n t a b st = Inl e \<Longrightarrow> is_value_error e"
  by (cases kind) (auto simp: add_part_def add_section_def add_subsection_def make_part_def make_section_def
      make_subsection_def rbind_Inl_iff is_value_error_def)

lemma open_unit_error: "open_unit kind n t r st = Inl e \<Longrightarrow> is_value_error e"
  by (auto simp: open_unit_def rbind_Inl_iff bounded_title_def Let_def is_value_error_def
      split: option.splits dest: add_unit_error [unfolded is_value_error_def])

subsection \<open>Carrying an invariant through the lines\<close>

fun positions_ok :: "(nat \<Rightarrow> line_record \<Rightarrow> bool) \<Rightarrow> nat \<Rightarrow> line_item list \<Rightarrow> bool" where
  "positions_ok ok e [] \<longleftrightarrow> True"
| "positions_ok ok e (it # its) \<longleftrightarrow> ok e (it_record it) \<and> positions_ok ok (li_end (it_record it)) its"

fun end_position :: "nat \<Rightarrow> line_item list \<Rightarrow> nat" where
  "end_position e [] = e"
| "end_position e (it # its) = end_position (li_end (it_record it)) its"

text \<open>
  \<open>P e st\<close> holds of the state after the lines up to position \<open>e\<close>; \<open>ok e r\<close> is what a record at that position
  satisfies, and \<open>L\<close> holds the lines of the text.
\<close>

locale line_invariant =
  fixes sc :: script and L :: "str set" and ok :: "nat \<Rightarrow> line_record \<Rightarrow> bool" and P :: "nat \<Rightarrow> machine_state \<Rightarrow> bool"
  assumes later: "P e st \<Longrightarrow> ok e r \<Longrightarrow> P (li_end r) st"
    and quoted: "P e st \<Longrightarrow> ok e r \<Longrightarrow> P (li_end r) (quoted_line line (li_end r) st)"
    and settled: "P e st \<Longrightarrow> hs_pending st = Some (kind, n, h) \<Longrightarrow> add_unit kind n t a b st = Inr st'
      \<Longrightarrow> P e (st'\<lparr>hs_pending := None\<rparr>)"
    and part: "P e st \<Longrightarrow> ok e r \<Longrightarrow> hs_pending st = None \<Longrightarrow> part_heading sc n ti r st = Inr st' \<Longrightarrow> P (li_end r) st'"
    and chap: "P e st \<Longrightarrow> ok e r \<Longrightarrow> hs_pending st = None \<Longrightarrow> P (li_end r) (chapter_heading sc n ti st)"
    and chapter_title: "P e st \<Longrightarrow> P e (st\<lparr>hs_chapter_pending := False, hs_chapter_title := ct\<rparr>)"
    and chapter_settled: "P e st \<Longrightarrow> P e (st\<lparr>hs_chapter_pending := False\<rparr>)"
    and sec: "P e st \<Longrightarrow> ok e r \<Longrightarrow> hs_pending st = None \<Longrightarrow> section_heading sc n ti r st = Inr st' \<Longrightarrow> P (li_end r) st'"
    and subsec: "P e st \<Longrightarrow> ok e r \<Longrightarrow> hs_pending st = None \<Longrightarrow> subsection_heading sc n ti r st = Inr st' \<Longrightarrow> P (li_end r) st'"
    and art: "P e st \<Longrightarrow> ok e r \<Longrightarrow> hs_pending st = None \<Longrightarrow> line \<in> L \<Longrightarrow> match_article_line sc line = Some (n, title)
      \<Longrightarrow> P (li_end r) (article_heading sc n title r st)"
    and idle: "P e st \<Longrightarrow> \<not> hs_article_pending st"
    and body: "P e st \<Longrightarrow> ok e r \<Longrightarrow> P (li_end r) (body_line sc line r st)"
begin

lemma article_or_body_keeps:
  "P e st \<Longrightarrow> ok e (it_record it) \<Longrightarrow> hs_pending st = None \<Longrightarrow> it_line it \<in> L \<Longrightarrow> article_or_body sc it st = Inr st'
     \<Longrightarrow> P (li_end (it_record it)) st'"
  using idle [of e st] body [of e st "it_record it" "it_line it"] art [of e st "it_record it" "it_line it"]
  by (auto simp: article_or_body_def split: option.splits if_splits)

lemma below_chapter_keeps:
  "P e st \<Longrightarrow> ok e (it_record it) \<Longrightarrow> hs_pending st = None \<Longrightarrow> it_line it \<in> L \<Longrightarrow> below_chapter sc it st = Inr st'
     \<Longrightarrow> P (li_end (it_record it)) st'"
  by (auto simp: below_chapter_def intro: sec subsec article_or_body_keeps split: option.splits)

lemma structure_line_keeps:
  assumes "P e st" and "ok e (it_record it)" and "hs_pending st = None" and "it_line it \<in> L"
    and "structure_line sc it st = Inr st'"
  shows "P (li_end (it_record it)) st'"
  using assms part [OF assms(1-3)] chap [OF assms(1-3)] later [OF chapter_title [OF assms(1)] assms(2)]
    below_chapter_keeps [OF chapter_settled [OF assms(1)] assms(2) _ assms(4)]
  by (auto simp: structure_line_def split: option.splits if_splits)

lemma parse_line_keeps:
  assumes P: "P e st" and ok: "ok e (it_record it)" and L: "it_line it \<in> L" and step: "parse_line sc it st = Inr st'"
  shows "P (li_end (it_record it)) st'"
proof -
  consider "st' = st" | "st' = quoted_line (it_line it) (li_end (it_record it)) st"
    | st1 used where "settle_heading sc (it_record it) (it_line it) st = Inr (st1, used)"
      and "st' = st1 \<or> structure_line sc it st1 = Inr st'"
    using step by (auto simp: parse_line_def rbind_Inr_iff split: if_splits)
  then show ?thesis
  proof cases
    case 1
    with later [OF P ok] show ?thesis by simp
  next
    case 2
    with quoted [OF P ok] show ?thesis by simp
  next
    case (3 st1 used)
    from 3(1) have "P e st1" and "hs_pending st1 = None"
      by (atomize(full), cases rule: settle_heading_cases) (use P settled in auto)
    from later [OF this(1) ok] structure_line_keeps [OF this(1) ok this(2) L] 3(2) show ?thesis by auto
  qed
qed

lemma parse_items_keeps:
  "P e st \<Longrightarrow> positions_ok ok e its \<Longrightarrow> it_line ` set its \<subseteq> L \<Longrightarrow> parse_items sc its st = Inr st'
     \<Longrightarrow> P (end_position e its) st'"
proof (induction its arbitrary: e st)
  case (Cons it its)
  from Cons.prems(4) obtain st1 where 1: "parse_line sc it st = Inr st1" and 2: "parse_items sc its st1 = Inr st'"
    by (auto simp: rbind_Inr_iff)
  from Cons.prems have "P (li_end (it_record it)) st1" by (intro parse_line_keeps [OF _ _ _ 1, of e]) auto
  with Cons.IH [OF _ _ _ 2] Cons.prems show ?case by simp
qed auto

text \<open>No article waits for a title, so the machine raises no other error.\<close>

lemma parse_line_error:
  assumes P: "P e st" and error: "parse_line sc it st = Inl x"
  shows "is_value_error x"
proof -
  have body: "article_or_body sc it st1 \<noteq> Inl x" if "P e st1" for st1
    using idle [OF that] by (auto simp: article_or_body_def split: option.splits)
  have tree: "structure_line sc it st1 = Inl x \<Longrightarrow> is_value_error x" if "P e st1" for st1
    using body [OF chapter_settled [OF that]]
    by (auto simp: structure_line_def below_chapter_def part_heading_def section_heading_def subsection_heading_def
        is_value_error_def dest: open_unit_error [unfolded is_value_error_def] split: option.splits if_splits)
  have settle: "settle_heading sc (it_record it) (it_line it) st = Inl x \<Longrightarrow> is_value_error x"
    by (auto simp: settle_heading_def rbind_Inl_iff dest: add_unit_error split: option.splits if_splits)
  have "P e st1" if "settle_heading sc (it_record it) (it_line it) st = Inr (st1, used)" for st1 used
    using that by (cases rule: settle_heading_cases) (use P settled in auto)
  with error settle tree show ?thesis
    by (auto simp: parse_line_def rbind_Inl_iff split: if_splits)
qed

lemma parse_items_error:
  "P e st \<Longrightarrow> positions_ok ok e its \<Longrightarrow> it_line ` set its \<subseteq> L \<Longrightarrow> parse_items sc its st = Inl x \<Longrightarrow> is_value_error x"
proof (induction its arbitrary: e st)
  case (Cons it its)
  show ?case
  proof (cases "parse_line sc it st")
    case (Inl y)
    with Cons.prems parse_line_error show ?thesis by auto
  next
    case (Inr st1)
    with Cons.prems have "P (li_end (it_record it)) st1" by (intro parse_line_keeps [OF _ _ _ Inr, of e]) auto
    with Inr Cons.IH [of "li_end (it_record it)" st1] Cons.prems show ?thesis by simp
  qed
qed simp

end

lemma positions_ok_True [simp]: "positions_ok (\<lambda>_ _. True) e its"
  by (induction its arbitrary: e) auto

subsection \<open>Labels of points\<close>

definition distinct_labels :: "script \<Rightarrow> clause \<Rightarrow> bool" where
  "distinct_labels sc c \<longleftrightarrow> distinct (map (\<lambda>p. label_key sc (pt_label p)) (cl_points c))"

definition labels_ok :: "script \<Rightarrow> machine_state \<Rightarrow> bool" where
  "labels_ok sc st \<longleftrightarrow>
     list_all (\<lambda>a. list_all (distinct_labels sc) (ar_clauses a)) (hs_articles st)
     \<and> pred_option (\<lambda>b. list_all (distinct_labels sc) (ab_clauses b)) (hs_article st)
     \<and> pred_option (distinct_labels sc) (hs_clause st) \<and> \<not> hs_article_pending st"

lemma add_point_keys:
  assumes "\<And>q p. pt_label (m q p) = pt_label q"
  shows "map (\<lambda>p. label_key sc (pt_label p)) (add_point sc m p ps) =
    (let ks = map (\<lambda>p. label_key sc (pt_label p)) ps; k = label_key sc (pt_label p) in
     if k \<in> set ks then ks else ks @ [k])"
  by (induction ps) (auto simp: same_label_def Let_def assms split: if_splits)

lemma merge_duplicate_label [simp]: "pt_label (merge_duplicate q p) = pt_label q"
  by (simp add: merge_duplicate_def join_points_def)

lemma distinct_labels_add:
  "distinct_labels sc c \<Longrightarrow> distinct_labels sc (c\<lparr>cl_points := add_point sc merge_duplicate p (cl_points c)\<rparr>)"
  by (simp add: distinct_labels_def add_point_keys Let_def)

lemma distinct_labels_update [simp]:
  "distinct_labels sc (c\<lparr>cl_end := e\<rparr>) = distinct_labels sc c"
  "distinct_labels sc (extend_clause line e c) = distinct_labels sc c"
  "distinct_labels sc (make_clause n content a b)"
  by (simp_all add: distinct_labels_def extend_clause_def make_clause_def)

lemma labels_ok_flush_point: "labels_ok sc st \<Longrightarrow> labels_ok sc (flush_point sc st)"
  by (auto simp: labels_ok_def flush_point_def distinct_labels_add split: option.splits)

lemma labels_ok_flush_clause: "labels_ok sc st \<Longrightarrow> labels_ok sc (flush_clause sc st)"
  by (auto simp: labels_ok_def flush_clause_def flush_point_def distinct_labels_add Let_def split: option.splits)

lemma labels_ok_flush_article: "labels_ok sc st \<Longrightarrow> labels_ok sc (flush_article sc st)"
  using labels_ok_flush_clause [of sc st]
  by (auto simp: flush_article_def labels_ok_def to_article_def Let_def flush_clause_def flush_point_def
      split: option.splits)

lemma labels_ok_drop:
  "labels_ok sc st \<Longrightarrow> labels_ok sc (drop_empty_section st)"
  "labels_ok sc st \<Longrightarrow> labels_ok sc (drop_empty_subsection st)"
  by (auto simp: labels_ok_def drop_empty_section_def drop_empty_subsection_def split: option.splits)

lemma labels_ok_units:
  "labels_ok sc st \<Longrightarrow> labels_ok sc (st\<lparr>hs_pending := v\<rparr>)"
  "labels_ok sc st \<Longrightarrow> add_unit kind n t a b st = Inr st' \<Longrightarrow> labels_ok sc st'"
  by (auto simp: labels_ok_def dest!: add_unit_Inr split: heading_kind.splits)

lemma labels_ok_open: "labels_ok sc st \<Longrightarrow> open_unit kind n t r st = Inr st' \<Longrightarrow> labels_ok sc st'"
  by (erule open_unit_cases) (auto intro: labels_ok_units)

lemma labels_ok_enter:
  assumes "labels_ok sc st"
  shows "labels_ok sc (enter_part sc st)" and "labels_ok sc (enter_section sc st)"
    and "labels_ok sc (enter_subsection sc st)" and "labels_ok sc (chapter_heading sc n t st)"
  using labels_ok_drop(1) [OF labels_ok_drop(2) [OF labels_ok_flush_article [OF assms]]]
    labels_ok_drop(2) [OF labels_ok_flush_article [OF assms]]
  by (auto simp: enter_part_def enter_section_def enter_subsection_def chapter_heading_def leave_groups_def Let_def
      labels_ok_def)

lemma labels_ok_body:
  assumes "labels_ok sc st"
  shows "labels_ok sc (body_line sc line r st)"
  using assms labels_ok_flush_clause [OF assms] labels_ok_flush_point [OF assms]
  by (auto simp: body_line_def clause_line_def point_line_def text_line_def labels_ok_def add_line_def Let_def
      option.pred_map comp_def split: option.splits)

interpretation labels: line_invariant sc L "\<lambda>_ _. True" "\<lambda>_. labels_ok sc"
proof
  show "labels_ok sc (article_heading sc n title r st)" if "labels_ok sc st" for n title r st
    using labels_ok_flush_article [OF that] by (auto simp: article_heading_def labels_ok_def Let_def)
qed (auto simp: part_heading_def section_heading_def subsection_heading_def labels_ok_body
    intro: labels_ok_open labels_ok_enter labels_ok_units split: if_splits,
  auto simp: labels_ok_def quoted_line_def add_line_def Let_def option.pred_map comp_def split: option.splits)

subsection \<open>Titles of articles\<close>

definition titled :: "script \<Rightarrow> str set \<Rightarrow> str \<Rightarrow> str option \<Rightarrow> bool" where
  "titled sc L number title \<longleftrightarrow>
     (\<exists>line \<in> L. \<exists>n t. match_article_line sc line = Some (n, t) \<and> number = py_strip n \<and> title = Some t)"

definition titles_ok :: "script \<Rightarrow> str set \<Rightarrow> machine_state \<Rightarrow> bool" where
  "titles_ok sc L st \<longleftrightarrow>
     list_all (\<lambda>a. titled sc L (ar_number a) (ar_title a)) (hs_articles st)
     \<and> pred_option (\<lambda>b. titled sc L (py_strip (ab_number b)) (ab_title b)) (hs_article st) \<and> \<not> hs_article_pending st"

text \<open>Flushing touches the articles only.\<close>

lemma flush_point_frame [simp]:
  "hs_articles (flush_point sc st) = hs_articles st" "hs_article (flush_point sc st) = hs_article st"
  "hs_parts (flush_point sc st) = hs_parts st" "hs_sections (flush_point sc st) = hs_sections st"
  "hs_subsections (flush_point sc st) = hs_subsections st" "hs_part (flush_point sc st) = hs_part st"
  "hs_chapter (flush_point sc st) = hs_chapter st" "hs_section (flush_point sc st) = hs_section st"
  "hs_subsection (flush_point sc st) = hs_subsection st" "hs_part_count (flush_point sc st) = hs_part_count st"
  "hs_section_count (flush_point sc st) = hs_section_count st" "hs_pending (flush_point sc st) = hs_pending st"
  "hs_subsection_count (flush_point sc st) = hs_subsection_count st" "hs_point (flush_point sc st) = None"
  "hs_article_pending (flush_point sc st) = hs_article_pending st"
  by (auto simp: flush_point_def split: option.splits)

lemma flush_clause_frame [simp]:
  "hs_articles (flush_clause sc st) = hs_articles st" "hs_clause (flush_clause sc st) = None"
  "hs_parts (flush_clause sc st) = hs_parts st" "hs_sections (flush_clause sc st) = hs_sections st"
  "hs_subsections (flush_clause sc st) = hs_subsections st" "hs_part (flush_clause sc st) = hs_part st"
  "hs_chapter (flush_clause sc st) = hs_chapter st" "hs_section (flush_clause sc st) = hs_section st"
  "hs_subsection (flush_clause sc st) = hs_subsection st" "hs_part_count (flush_clause sc st) = hs_part_count st"
  "hs_section_count (flush_clause sc st) = hs_section_count st" "hs_pending (flush_clause sc st) = hs_pending st"
  "hs_subsection_count (flush_clause sc st) = hs_subsection_count st" "hs_point (flush_clause sc st) = None"
  "hs_article_pending (flush_clause sc st) = hs_article_pending st"
  by (auto simp: flush_clause_def Let_def split: option.splits)

lemma flush_clause_article:
  "hs_article (flush_clause sc st) =
     map_option (\<lambda>b. case hs_clause st of None \<Rightarrow> b
                     | Some c \<Rightarrow> b\<lparr>ab_clauses := ab_clauses b @ [the (hs_clause (flush_point sc st))]\<rparr>) (hs_article st)"
  by (auto simp: flush_clause_def Let_def split: option.splits)

lemma flush_article_frame [simp]:
  "hs_article (flush_article sc st) = None" "hs_clause (flush_article sc st) = None"
  "hs_parts (flush_article sc st) = hs_parts st" "hs_sections (flush_article sc st) = hs_sections st"
  "hs_subsections (flush_article sc st) = hs_subsections st" "hs_part (flush_article sc st) = hs_part st"
  "hs_chapter (flush_article sc st) = hs_chapter st" "hs_section (flush_article sc st) = hs_section st"
  "hs_subsection (flush_article sc st) = hs_subsection st" "hs_part_count (flush_article sc st) = hs_part_count st"
  "hs_section_count (flush_article sc st) = hs_section_count st" "hs_pending (flush_article sc st) = hs_pending st"
  "hs_subsection_count (flush_article sc st) = hs_subsection_count st" "hs_point (flush_article sc st) = None"
  "hs_article_pending (flush_article sc st) = hs_article_pending st"
  by (auto simp: flush_article_def Let_def split: option.splits)

lemma flush_article_articles:
  "hs_articles (flush_article sc st) =
     hs_articles st @ (case hs_article (flush_clause sc st) of None \<Rightarrow> [] | Some b \<Rightarrow> [to_article sc b])"
  by (auto simp: flush_article_def Let_def flush_clause_article split: option.splits)

lemma leave_groups_frame [simp]:
  "hs_article (leave_groups sc st) = None" "hs_clause (leave_groups sc st) = None" "hs_point (leave_groups sc st) = None"
  "hs_articles (leave_groups sc st) = hs_articles (flush_article sc st)" "hs_part (leave_groups sc st) = hs_part st"
  "hs_parts (leave_groups sc st) = hs_parts st" "hs_part_count (leave_groups sc st) = hs_part_count st"
  "hs_chapter (leave_groups sc st) = hs_chapter st" "hs_pending (leave_groups sc st) = hs_pending st"
  "hs_article_pending (leave_groups sc st) = hs_article_pending st"
  by (auto simp: leave_groups_def drop_empty_section_def drop_empty_subsection_def split: option.splits)

lemma drop_empty_subsection_frame [simp]:
  "hs_article (drop_empty_subsection st) = hs_article st" "hs_clause (drop_empty_subsection st) = hs_clause st"
  "hs_articles (drop_empty_subsection st) = hs_articles st" "hs_section (drop_empty_subsection st) = hs_section st"
  "hs_sections (drop_empty_subsection st) = hs_sections st" "hs_part (drop_empty_subsection st) = hs_part st"
  "hs_parts (drop_empty_subsection st) = hs_parts st" "hs_part_count (drop_empty_subsection st) = hs_part_count st"
  "hs_section_count (drop_empty_subsection st) = hs_section_count st"
  "hs_chapter (drop_empty_subsection st) = hs_chapter st" "hs_pending (drop_empty_subsection st) = hs_pending st"
  "hs_article_pending (drop_empty_subsection st) = hs_article_pending st"
  by (auto simp: drop_empty_subsection_def split: option.splits)

lemma add_unit_frame:
  assumes "add_unit kind n t a b st = Inr st'"
  shows "hs_articles st' = hs_articles st" and "hs_article st' = hs_article st" and "hs_clause st' = hs_clause st"
    and "hs_article_pending st' = hs_article_pending st"
  using assms by (auto dest!: add_unit_Inr split: heading_kind.splits)

lemma open_unit_frame:
  assumes "open_unit kind n t r st = Inr st'"
  shows "hs_articles st' = hs_articles st" and "hs_article st' = hs_article st" and "hs_clause st' = hs_clause st"
    and "hs_article_pending st' = hs_article_pending st"
  using assms by (auto elim!: open_unit_cases simp: add_unit_frame)

lemma enter_frame [simp]:
  "hs_article (enter_part sc st) = None" "hs_clause (enter_part sc st) = None"
  "hs_articles (enter_part sc st) = hs_articles (flush_article sc st)"
  "hs_article_pending (enter_part sc st) = hs_article_pending st"
  "hs_article (enter_section sc st) = None" "hs_clause (enter_section sc st) = None"
  "hs_articles (enter_section sc st) = hs_articles (flush_article sc st)"
  "hs_article_pending (enter_section sc st) = hs_article_pending st"
  "hs_article (enter_subsection sc st) = None" "hs_clause (enter_subsection sc st) = None"
  "hs_articles (enter_subsection sc st) = hs_articles (flush_article sc st)"
  "hs_article_pending (enter_subsection sc st) = hs_article_pending st"
  "hs_article (chapter_heading sc n ti st) = None" "hs_clause (chapter_heading sc n ti st) = None"
  "hs_articles (chapter_heading sc n ti st) = hs_articles (flush_article sc st)"
  "hs_article_pending (chapter_heading sc n ti st) = hs_article_pending st"
  by (simp_all add: enter_part_def enter_section_def enter_subsection_def chapter_heading_def Let_def)

text \<open>The article of a body line keeps its number, title and parents.\<close>

definition same_article :: "article_builder \<Rightarrow> article_builder \<Rightarrow> bool" where
  "same_article b b' \<longleftrightarrow>
     ab_number b' = ab_number b \<and> ab_title b' = ab_title b \<and> ab_part b' = ab_part b \<and> ab_chapter b' = ab_chapter b
     \<and> ab_section b' = ab_section b \<and> ab_subsection b' = ab_subsection b \<and> ab_start b' = ab_start b"

lemma flush_clause_same: "rel_option same_article (hs_article st) (hs_article (flush_clause sc st))"
  by (cases "hs_article st") (auto simp: flush_clause_article same_article_def split: option.splits)

lemma body_line_same: "rel_option same_article (hs_article st) (hs_article (body_line sc line r st))"
  using flush_clause_same [of st sc]
  by (auto simp: body_line_def clause_line_def point_line_def text_line_def Let_def add_line_def same_article_def
      option.rel_map rel_option_iff split: option.splits)

lemma body_line_frame [simp]:
  "hs_articles (body_line sc line r st) = hs_articles st" "hs_parts (body_line sc line r st) = hs_parts st"
  "hs_sections (body_line sc line r st) = hs_sections st" "hs_subsections (body_line sc line r st) = hs_subsections st"
  "hs_part (body_line sc line r st) = hs_part st" "hs_chapter (body_line sc line r st) = hs_chapter st"
  "hs_section (body_line sc line r st) = hs_section st" "hs_subsection (body_line sc line r st) = hs_subsection st"
  "hs_part_count (body_line sc line r st) = hs_part_count st" "hs_pending (body_line sc line r st) = hs_pending st"
  "hs_section_count (body_line sc line r st) = hs_section_count st"
  "hs_subsection_count (body_line sc line r st) = hs_subsection_count st"
  "hs_article_pending (body_line sc line r st) = hs_article_pending st"
  by (auto simp: body_line_def clause_line_def point_line_def text_line_def Let_def split: option.splits)

lemma quoted_line_same: "rel_option same_article (hs_article st) (hs_article (quoted_line line e st))"
  by (auto simp: quoted_line_def Let_def add_line_def same_article_def split: option.splits)

lemma quoted_line_frame [simp]:
  "hs_articles (quoted_line line e st) = hs_articles st" "hs_parts (quoted_line line e st) = hs_parts st"
  "hs_sections (quoted_line line e st) = hs_sections st" "hs_subsections (quoted_line line e st) = hs_subsections st"
  "hs_part (quoted_line line e st) = hs_part st" "hs_chapter (quoted_line line e st) = hs_chapter st"
  "hs_section (quoted_line line e st) = hs_section st" "hs_subsection (quoted_line line e st) = hs_subsection st"
  "hs_part_count (quoted_line line e st) = hs_part_count st" "hs_pending (quoted_line line e st) = hs_pending st"
  "hs_section_count (quoted_line line e st) = hs_section_count st"
  "hs_subsection_count (quoted_line line e st) = hs_subsection_count st"
  "hs_article_pending (quoted_line line e st) = hs_article_pending st"
  by (auto simp: quoted_line_def Let_def split: option.splits)

lemma titles_ok_same:
  assumes "titles_ok sc L st" and "rel_option same_article (hs_article st) (hs_article st')"
    and "hs_articles st' = hs_articles st" and "hs_article_pending st' = hs_article_pending st"
  shows "titles_ok sc L st'"
  using assms by (auto simp: titles_ok_def rel_option_iff same_article_def split: option.splits)

lemma titles_ok_flush:
  assumes "titles_ok sc L st"
  shows "list_all (\<lambda>a. titled sc L (ar_number a) (ar_title a)) (hs_articles (flush_article sc st))"
  using assms flush_clause_same [of st sc]
  by (auto simp: titles_ok_def flush_article_articles to_article_def same_article_def rel_option_iff split: option.splits)

lemma titles_ok_open:
  assumes "titles_ok sc L st" and "open_unit kind n t r st1 = Inr st'"
    and "st1 \<in> {enter_part sc st, enter_section sc st, enter_subsection sc st}"
  shows "titles_ok sc L st'"
  using assms(3) titles_ok_flush [OF assms(1)] assms(1) open_unit_frame [OF assms(2)]
  by (auto simp: titles_ok_def)

interpretation titles: line_invariant sc L "\<lambda>_ _. True" "\<lambda>_. titles_ok sc L"
proof
  show "titles_ok sc L (article_heading sc n title r st)"
    if "titles_ok sc L st" and "line \<in> L" and "match_article_line sc line = Some (n, title)" for n title r st line
    using titles_ok_flush [OF that(1)] that by (auto simp: article_heading_def titles_ok_def titled_def Let_def)
  show "titles_ok sc L (st'\<lparr>hs_pending := None\<rparr>)"
    if "titles_ok sc L st" and "add_unit kind n t a b st = Inr st'" for st st' kind n t a b
    using that(1) add_unit_frame [OF that(2)] by (simp add: titles_ok_def)
  show "titles_ok sc L (chapter_heading sc n ti st)" if "titles_ok sc L st" for n ti st
    using titles_ok_flush [OF that] that by (simp add: titles_ok_def)
qed (auto simp: part_heading_def section_heading_def subsection_heading_def
    intro: titles_ok_open titles_ok_same body_line_same quoted_line_same split: if_splits,
  auto simp: titles_ok_def)

end
