(* ===== verification/Hierarchy_Invariants.thy ===== *)
theory Hierarchy_Invariants
  imports Hierarchy_Facts
begin

text \<open>
  Two more invariants of the line machine: the spans of articles and clauses follow each other in the source, and the
  articles and the structural units refer to each other.
\<close>

subsection \<open>Spans\<close>

fun clause_chain :: "nat \<Rightarrow> clause list \<Rightarrow> nat \<Rightarrow> bool" where
  "clause_chain i [] j \<longleftrightarrow> i \<le> j"
| "clause_chain i (c # cs) j \<longleftrightarrow> i \<le> cl_start c \<and> cl_start c \<le> cl_end c \<and> clause_chain (cl_end c) cs j"

fun article_chain :: "nat \<Rightarrow> article list \<Rightarrow> nat \<Rightarrow> bool" where
  "article_chain i [] j \<longleftrightarrow> i \<le> j"
| "article_chain i (a # as) j \<longleftrightarrow>
     i \<le> ar_start a \<and> clause_chain (ar_start a) (ar_clauses a) (ar_end a) \<and> article_chain (ar_end a) as j"

lemma clause_chain_snoc:
  "clause_chain i (cs @ [c]) j \<longleftrightarrow> clause_chain i cs (cl_start c) \<and> cl_start c \<le> cl_end c \<and> cl_end c \<le> j"
  by (induction cs arbitrary: i) auto

lemma article_chain_snoc:
  "article_chain i (as @ [a]) j \<longleftrightarrow>
     article_chain i as (ar_start a) \<and> clause_chain (ar_start a) (ar_clauses a) (ar_end a) \<and> ar_end a \<le> j"
  by (induction as arbitrary: i) auto

lemma clause_chain_mono: "clause_chain i cs j \<Longrightarrow> j \<le> k \<Longrightarrow> clause_chain i cs k"
  by (induction cs arbitrary: i) auto

lemma article_chain_mono: "article_chain i as j \<Longrightarrow> j \<le> k \<Longrightarrow> article_chain i as k"
  by (induction as arbitrary: i) auto

lemma clause_chain_le: "clause_chain i cs j \<Longrightarrow> i \<le> j"
  by (induction cs arbitrary: i) (auto intro: le_trans)

text \<open>The span of the open article, with its open clause, up to its end.\<close>

definition open_spans :: "article_builder \<Rightarrow> clause option \<Rightarrow> bool" where
  "open_spans b c \<longleftrightarrow>
     (case c of
        None \<Rightarrow> clause_chain (ab_start b) (ab_clauses b) (ab_end b)
      | Some x \<Rightarrow> clause_chain (ab_start b) (ab_clauses b) (cl_start x) \<and> cl_start x \<le> cl_end x \<and> cl_end x \<le> ab_end b)"

definition spans_ok :: "nat \<Rightarrow> machine_state \<Rightarrow> bool" where
  "spans_ok e st \<longleftrightarrow>
     (case hs_article st of
        None \<Rightarrow> article_chain 0 (hs_articles st) e
      | Some b \<Rightarrow> article_chain 0 (hs_articles st) (ab_start b) \<and> open_spans b (hs_clause st) \<and> ab_end b \<le> e)
     \<and> \<not> hs_article_pending st"

definition after_position :: "nat \<Rightarrow> line_record \<Rightarrow> bool" where
  "after_position e r \<longleftrightarrow> e \<le> li_start r \<and> li_start r \<le> li_end r"

lemma open_spans_bound: "open_spans b c \<Longrightarrow> ab_start b \<le> ab_end b"
  by (auto simp: open_spans_def dest!: clause_chain_le split: option.splits)

lemma open_spans_end: "open_spans b c \<Longrightarrow> ab_end b \<le> e \<Longrightarrow> open_spans (add_line line e b) c"
  by (auto simp: open_spans_def add_line_def intro: clause_chain_mono split: option.splits)

lemma open_spans_extend:
  "open_spans b (Some c) \<Longrightarrow> ab_end b \<le> e \<Longrightarrow> cl_start c' = cl_start c \<Longrightarrow> cl_end c' = e
     \<Longrightarrow> open_spans (add_line line e b) (Some c')"
  by (auto simp: open_spans_def add_line_def)

lemma flush_point_clause:
  "hs_clause (flush_point sc st) =
     map_option (\<lambda>c. case hs_point st of None \<Rightarrow> c
                     | Some p \<Rightarrow> c\<lparr>cl_points := add_point sc merge_duplicate p (cl_points c)\<rparr>) (hs_clause st)"
  by (cases "hs_clause st") (auto simp: flush_point_def split: option.splits)

text \<open>Flushing the clause closes it at the end of the article.\<close>

lemma open_spans_flush:
  assumes "hs_article st = Some b" and "open_spans b (hs_clause st)"
  obtains b' where "hs_article (flush_clause sc st) = Some b'" and "open_spans b' None" and "same_article b b'"
    and "ab_end b' = ab_end b"
proof -
  from assms have "open_spans (the (hs_article (flush_clause sc st))) None"
    by (auto simp: flush_clause_article flush_point_clause open_spans_def clause_chain_snoc
        split: option.splits)
  with assms(1) that show thesis
    by (auto simp: flush_clause_article same_article_def split: option.splits)
qed

lemma spans_ok_flush:
  assumes "spans_ok e st"
  shows "article_chain 0 (hs_articles (flush_article sc st)) e"
proof (cases "hs_article st")
  case None
  with assms show ?thesis by (simp add: spans_ok_def flush_article_articles flush_clause_article)
next
  case (Some b)
  with assms have s: "article_chain 0 (hs_articles st) (ab_start b)" "open_spans b (hs_clause st)" "ab_end b \<le> e"
    by (simp_all add: spans_ok_def)
  obtain b' where "hs_article (flush_clause sc st) = Some b'" and "open_spans b' None" and "same_article b b'"
    and "ab_end b' = ab_end b" by (rule open_spans_flush [OF Some s(2)])
  with s show ?thesis
    by (simp add: flush_article_articles article_chain_snoc to_article_def open_spans_def same_article_def)
qed

lemma spans_ok_closed:
  assumes "spans_ok e st" and "e \<le> e'" and "hs_article st' = None"
    and "hs_articles st' = hs_articles (flush_article sc st)" and "\<not> hs_article_pending st'"
  shows "spans_ok e' st'"
  using assms spans_ok_flush [OF assms(1), of sc] by (simp add: spans_ok_def article_chain_mono)

lemma spans_ok_later: "spans_ok e st \<Longrightarrow> e \<le> e' \<Longrightarrow> spans_ok e' st"
  by (auto simp: spans_ok_def intro: article_chain_mono split: option.splits)

lemma spans_ok_open:
  assumes "spans_ok e st" and "after_position e r" and "open_unit kind n t r st1 = Inr st'"
    and "st1 \<in> {enter_part sc st, enter_section sc st, enter_subsection sc st}"
  shows "spans_ok (li_end r) st'"
proof (rule spans_ok_closed [OF assms(1), where sc = sc])
  show "e \<le> li_end r" using assms(2) by (simp add: after_position_def)
  show "hs_article st' = None" "hs_articles st' = hs_articles (flush_article sc st)" "\<not> hs_article_pending st'"
    using assms(1,4) open_unit_frame [OF assms(3)] by (auto simp: spans_ok_def)
qed

lemma spans_ok_body:
  assumes s: "spans_ok e st" and r: "after_position e r"
  shows "spans_ok (li_end r) (body_line sc line r st)"
proof (cases "hs_article st")
  case None
  with s r spans_ok_later show ?thesis by (auto simp: body_line_def after_position_def)
next
  case (Some b)
  from s Some have chain: "article_chain 0 (hs_articles st) (ab_start b)" and spans: "open_spans b (hs_clause st)"
    and e: "ab_end b \<le> e" and idle: "\<not> hs_article_pending st" by (simp_all add: spans_ok_def)
  from r have r': "e \<le> li_start r" "li_start r \<le> li_end r" by (simp_all add: after_position_def)
  obtain b1 where b1: "hs_article (flush_clause sc st) = Some b1" and b1_spans: "open_spans b1 None"
    and same: "same_article b b1" and b1_end: "ab_end b1 = ab_end b" by (rule open_spans_flush [OF Some spans])
  have clause: "spans_ok (li_end r) (clause_line sc n content line r st)" for n content
    using chain b1 b1_spans same b1_end e r' idle
    by (auto simp: spans_ok_def clause_line_def Let_def make_clause_def open_spans_def add_line_def same_article_def
        intro: clause_chain_mono)
  have point: "spans_ok (li_end r) (point_line sc label content line r st)" if "hs_clause st = Some c" for label content c
    using chain spans e r' idle that Some
    by (auto simp: spans_ok_def point_line_def Let_def flush_point_clause open_spans_def add_line_def
        split: option.splits)
  have plain: "spans_ok (li_end r) (text_line line (li_end r) b st)"
    using chain spans e r' idle open_spans_end [of b "hs_clause st" "li_end r" line]
    by (auto simp: spans_ok_def text_line_def Let_def extend_clause_def open_spans_def add_line_def
        split: option.splits)
  show ?thesis
    using clause point plain Some by (auto simp: body_line_def new_point_def split: option.splits if_splits)
qed

lemma spans_ok_quoted:
  assumes s: "spans_ok e st" and r: "after_position e r"
  shows "spans_ok (li_end r) (quoted_line line (li_end r) st)"
proof (cases "hs_article st")
  case None
  with s r spans_ok_later show ?thesis by (auto simp: quoted_line_def after_position_def)
next
  case (Some b)
  with s r open_spans_end [of b "hs_clause st" "li_end r" line] show ?thesis
    by (auto simp: spans_ok_def quoted_line_def Let_def after_position_def extend_clause_def open_spans_def add_line_def
        split: option.splits)
qed

interpretation spans: line_invariant sc L after_position spans_ok
proof
  show "spans_ok (li_end r) (article_heading sc n title r st)" if "spans_ok e st" and "after_position e r" for e n title r st
    using spans_ok_flush [OF that(1), of sc] that
    by (auto simp: article_heading_def spans_ok_def Let_def open_spans_def after_position_def intro: article_chain_mono)
  show "spans_ok e (st'\<lparr>hs_pending := None\<rparr>)"
    if "spans_ok e st" and "add_unit kind n t a b st = Inr st'" for e st st' kind n t a b
    using that(1) add_unit_frame [OF that(2)] by (cases "hs_article st") (simp_all add: spans_ok_def)
  show "spans_ok (li_end r) (chapter_heading sc n ti st)" if "spans_ok e st" and "after_position e r" for e n ti st r
    by (rule spans_ok_closed [OF that(1), where sc = sc]) (use that in \<open>auto simp: after_position_def spans_ok_def\<close>)
  show "spans_ok (li_end r) st" if "spans_ok e st" and "after_position e r" for e r st
    using that by (auto simp: after_position_def intro: spans_ok_later)
qed (auto simp: part_heading_def section_heading_def subsection_heading_def
    intro: spans_ok_open spans_ok_body spans_ok_quoted split: if_splits,
  auto simp: spans_ok_def split: option.splits)

subsection \<open>Parents\<close>

text \<open>The part, chapter, section and subsection that an article names.\<close>

type_synonym parents = "str option \<times> str option \<times> str option \<times> str option"

definition article_parents :: "article \<Rightarrow> parents" where
  "article_parents a = (ar_part a, ar_chapter a, ar_section a, ar_subsection a)"

definition builder_parents :: "article_builder \<Rightarrow> parents" where
  "builder_parents b = (ab_part b, ab_chapter b, ab_section b, ab_subsection b)"

definition parents_of :: "machine_state \<Rightarrow> parents list" where
  "parents_of st =
     map article_parents (hs_articles st) @ (case hs_article st of None \<Rightarrow> [] | Some b \<Rightarrow> [builder_parents b])"

text \<open>A unit is named by parents, and the parents are all there.\<close>

definition names_part :: "parents \<Rightarrow> part_unit \<Rightarrow> bool" where
  "names_part r p \<longleftrightarrow> fst r = Some (pa_number p)"

definition names_section :: "parents \<Rightarrow> section_unit \<Rightarrow> bool" where
  "names_section r s \<longleftrightarrow> (case r of (p, c, x, _) \<Rightarrow> p = se_part s \<and> c = se_chapter s \<and> x = Some (se_number s))"

definition names_subsection :: "parents \<Rightarrow> subsection_unit \<Rightarrow> bool" where
  "names_subsection r u \<longleftrightarrow>
     (case r of (p, c, x, y) \<Rightarrow> p = su_part u \<and> c = su_chapter u \<and> x = Some (su_section u) \<and> y = Some (su_number u))"

definition parents_present ::
  "part_unit list \<Rightarrow> section_unit list \<Rightarrow> subsection_unit list \<Rightarrow> parents \<Rightarrow> bool" where
  "parents_present ps ss us r \<longleftrightarrow>
     (case r of (p, c, x, y) \<Rightarrow>
        (p = None \<or> list_ex (names_part r) ps) \<and> (x = None \<or> list_ex (names_section r) ss)
        \<and> (y = None \<or> list_ex (names_subsection r) us))"

definition tables_agree ::
  "parents list \<Rightarrow> part_unit list \<Rightarrow> section_unit list \<Rightarrow> subsection_unit list \<Rightarrow> bool" where
  "tables_agree rs ps ss us \<longleftrightarrow>
     list_all (parents_present ps ss us) rs \<and> list_all (\<lambda>p. list_ex (\<lambda>r. names_part r p) rs) ps
     \<and> list_all (\<lambda>s. list_ex (\<lambda>r. names_section r s) rs) ss
     \<and> list_all (\<lambda>u. list_ex (\<lambda>r. names_subsection r u) rs) us"

text \<open>The units without the open ones that have no article yet.\<close>

definition kept_units :: "'a option \<Rightarrow> nat \<Rightarrow> 'a list \<Rightarrow> 'a list" where
  "kept_units u n us = (if u \<noteq> None \<and> n = 0 then butlast us else us)"

definition open_last :: "'a option \<Rightarrow> 'a list \<Rightarrow> bool" where
  "open_last u us \<longleftrightarrow> (case u of None \<Rightarrow> True | Some x \<Rightarrow> us \<noteq> [] \<and> last us = x)"

definition kept_parts :: "machine_state \<Rightarrow> part_unit list" where
  "kept_parts st = kept_units (hs_part st) (hs_part_count st) (hs_parts st)"

definition kept_sections :: "machine_state \<Rightarrow> section_unit list" where
  "kept_sections st = kept_units (hs_section st) (hs_section_count st) (hs_sections st)"

definition kept_subsections :: "machine_state \<Rightarrow> subsection_unit list" where
  "kept_subsections st = kept_units (hs_subsection st) (hs_subsection_count st) (hs_subsections st)"

definition open_units_ok :: "machine_state \<Rightarrow> bool" where
  "open_units_ok st \<longleftrightarrow>
     open_last (hs_part st) (hs_parts st) \<and> open_last (hs_section st) (hs_sections st)
     \<and> open_last (hs_subsection st) (hs_subsections st)
     \<and> pred_option (\<lambda>s. se_chapter s = hs_chapter st \<and> se_part s = open_part_number st
          \<and> py_strip (se_number s) = se_number s) (hs_section st)
     \<and> pred_option (\<lambda>u. su_chapter u = hs_chapter st \<and> su_part u = open_part_number st
          \<and> map_option se_number (hs_section st) = Some (su_section u)) (hs_subsection st)"

text \<open>While a heading waits for its title, the units below it are closed and nothing is counted.\<close>

fun ready_for :: "heading_kind \<Rightarrow> machine_state \<Rightarrow> bool" where
  "ready_for PartHeading st \<longleftrightarrow>
     hs_part st = None \<and> hs_section st = None \<and> hs_subsection st = None \<and> hs_part_count st = 0"
| "ready_for SectionHeading st \<longleftrightarrow> hs_section st = None \<and> hs_subsection st = None \<and> hs_section_count st = 0"
| "ready_for SubsectionHeading st \<longleftrightarrow>
     hs_section st \<noteq> None \<and> hs_subsection st = None \<and> hs_subsection_count st = 0"

definition pending_ok :: "machine_state \<Rightarrow> bool" where
  "pending_ok st \<longleftrightarrow> (case hs_pending st of None \<Rightarrow> True | Some (kind, _) \<Rightarrow> ready_for kind st)"

definition parents_ok :: "machine_state \<Rightarrow> bool" where
  "parents_ok st \<longleftrightarrow>
     tables_agree (parents_of st) (kept_parts st) (kept_sections st) (kept_subsections st)
     \<and> open_units_ok st \<and> pending_ok st \<and> \<not> hs_article_pending st"

lemma kept_units_None [simp]: "kept_units None n us = us"
  and kept_units_Suc [simp]: "kept_units u (Suc n) us = us"
  and kept_units_snoc: "kept_units (Some x) 0 (us @ [x]) = us"
  by (simp_all add: kept_units_def)

text \<open>Removing an empty unit, or closing a unit, keeps the units that stay.\<close>

lemma drop_last_kept: "open_last (Some x) us \<Longrightarrow> drop_last x us = kept_units (Some x) 0 us"
  by (auto simp: drop_last_def open_last_def kept_units_def)

lemma parents_of_flush: "parents_of (flush_article sc st) = parents_of st"
proof (cases "hs_article st")
  case None
  then show ?thesis by (simp add: parents_of_def flush_article_articles flush_clause_article)
next
  case (Some b)
  with flush_clause_same [of st sc] obtain b' where "hs_article (flush_clause sc st) = Some b'" and "same_article b b'"
    by (auto simp: rel_option_iff split: option.splits)
  with Some show ?thesis
    by (simp add: parents_of_def flush_article_articles to_article_def article_parents_def builder_parents_def
        same_article_def)
qed

lemma parents_of_same:
  "rel_option same_article (hs_article st) (hs_article st') \<Longrightarrow> hs_articles st' = hs_articles st
     \<Longrightarrow> parents_of st' = parents_of st"
  by (auto simp: parents_of_def rel_option_iff same_article_def builder_parents_def split: option.splits)

lemma list_all_open:
  "open_last u us \<Longrightarrow> list_all Q (kept_units u n us) \<Longrightarrow> pred_option Q u \<Longrightarrow> list_all Q us"
  by (cases us rule: rev_cases) (auto simp: kept_units_def open_last_def split: if_splits option.splits)

lemma list_ex_kept: "list_ex Q (kept_units u n us) \<Longrightarrow> list_ex Q us"
  by (auto simp: kept_units_def list_ex_iff split: if_splits dest: in_set_butlastD)

lemma open_last_snoc [simp]: "open_last (Some x) (us @ [x])" and open_last_None [simp]: "open_last None us"
  by (simp_all add: open_last_def)

lemma open_last_ex: "open_last u us \<Longrightarrow> pred_option Q u \<Longrightarrow> u = None \<or> list_ex Q us"
  by (cases u) (auto simp: open_last_def list_ex_iff)

text \<open>The units after leaving the open section.\<close>

lemma leave_kept:
  assumes "open_units_ok st"
  shows "hs_sections (leave_groups sc st) = kept_sections st"
    and "hs_subsections (leave_groups sc st) = kept_subsections st"
  using assms drop_last_kept
  by (auto simp: leave_groups_def drop_empty_section_def drop_empty_subsection_def kept_sections_def kept_subsections_def
      open_units_ok_def kept_units_def drop_last_def open_last_def split: option.splits)

lemma enter_part_kept:
  assumes "open_units_ok st"
  shows "hs_parts (enter_part sc st) = kept_parts st" and "hs_sections (enter_part sc st) = kept_sections st"
    and "hs_subsections (enter_part sc st) = kept_subsections st"
  using assms leave_kept [OF assms, of sc]
  by (auto simp: enter_part_def Let_def kept_parts_def open_units_ok_def kept_units_def drop_last_def open_last_def
      split: option.splits)

lemma enter_subsection_kept:
  assumes "open_units_ok st"
  shows "hs_subsections (enter_subsection sc st) = kept_subsections st"
  using assms drop_last_kept
  by (auto simp: enter_subsection_def drop_empty_subsection_def kept_subsections_def
      open_units_ok_def kept_units_def drop_last_def open_last_def split: option.splits)

lemma parents_of_closed:
  "hs_article st' = None \<Longrightarrow> hs_articles st' = hs_articles (flush_article sc st) \<Longrightarrow> parents_of st' = parents_of st"
  using parents_of_flush [of sc st] by (simp add: parents_of_def)

text \<open>The tables of a state that is entered by a heading.\<close>

lemma parents_ok_enter:
  assumes p: "parents_ok st" and idle: "hs_pending st = None"
  shows "parents_ok (enter_part sc st)" and "parents_ok (enter_section sc st)"
    and "hs_section st \<noteq> None \<Longrightarrow> parents_ok (enter_subsection sc st)" and "parents_ok (chapter_heading sc n ti st)"
proof -
  from p have tables: "tables_agree (parents_of st) (kept_parts st) (kept_sections st) (kept_subsections st)"
    and units: "open_units_ok st" and waits: "\<not> hs_article_pending st" by (simp_all add: parents_ok_def)
  note kept = leave_kept [OF units, of sc] enter_part_kept [OF units, of sc] enter_subsection_kept [OF units, of sc]
  have same: "parents_of (enter_part sc st) = parents_of st" "parents_of (enter_section sc st) = parents_of st"
    "parents_of (enter_subsection sc st) = parents_of st" "parents_of (chapter_heading sc n ti st) = parents_of st"
    by (rule parents_of_closed [where sc = sc]; simp)+
  have none: "hs_part (enter_part sc st) = None" "hs_section (enter_part sc st) = None"
    "hs_subsection (enter_part sc st) = None" "hs_pending (enter_part sc st) = None"
    "hs_section (enter_section sc st) = None" "hs_subsection (enter_section sc st) = None"
    "hs_pending (enter_section sc st) = None" "hs_subsection (enter_subsection sc st) = None"
    "hs_pending (enter_subsection sc st) = None"
    using idle by (simp_all add: enter_part_def enter_section_def enter_subsection_def Let_def)
  show "parents_ok (enter_part sc st)"
    using tables waits
    by (simp add: parents_ok_def same none kept pending_ok_def kept_parts_def [of "enter_part sc st"]
        kept_sections_def [of "enter_part sc st"] kept_subsections_def [of "enter_part sc st"] open_units_ok_def open_last_def)
  have sec: "hs_sections (enter_section sc st) = kept_sections st" "hs_subsections (enter_section sc st) = kept_subsections st"
    "kept_parts (enter_section sc st) = kept_parts st" "hs_part (enter_section sc st) = hs_part st"
    "hs_parts (enter_section sc st) = hs_parts st" "hs_chapter (enter_section sc st) = hs_chapter st"
    by (simp_all add: enter_section_def kept kept_parts_def)
  show "parents_ok (enter_section sc st)"
    using tables waits units
    by (simp add: parents_ok_def same none sec pending_ok_def kept_sections_def [of "enter_section sc st"]
        kept_subsections_def [of "enter_section sc st"] open_units_ok_def open_last_def)
  have chap: "hs_section (chapter_heading sc n ti st) = None" "hs_subsection (chapter_heading sc n ti st) = None"
    "hs_sections (chapter_heading sc n ti st) = kept_sections st" "hs_pending (chapter_heading sc n ti st) = None"
    "hs_subsections (chapter_heading sc n ti st) = kept_subsections st" "hs_part (chapter_heading sc n ti st) = hs_part st"
    "hs_parts (chapter_heading sc n ti st) = hs_parts st" "kept_parts (chapter_heading sc n ti st) = kept_parts st"
    using idle by (simp_all add: chapter_heading_def kept kept_parts_def)
  show "parents_ok (chapter_heading sc n ti st)"
    using tables waits units
    by (simp add: parents_ok_def same chap pending_ok_def kept_sections_def [of "chapter_heading sc n ti st"]
        kept_subsections_def [of "chapter_heading sc n ti st"] open_units_ok_def open_last_def)
  have sub: "kept_parts (enter_subsection sc st) = kept_parts st" "kept_sections (enter_subsection sc st) = kept_sections st"
    "hs_part (enter_subsection sc st) = hs_part st" "hs_parts (enter_subsection sc st) = hs_parts st"
    "hs_section (enter_subsection sc st) = hs_section st" "hs_sections (enter_subsection sc st) = hs_sections st"
    "hs_chapter (enter_subsection sc st) = hs_chapter st"
    by (simp_all add: enter_subsection_def kept_parts_def kept_sections_def)
  show "parents_ok (enter_subsection sc st)"
    using tables waits units
    by (simp add: parents_ok_def same none sub kept pending_ok_def kept_subsections_def [of "enter_subsection sc st"]
        open_units_ok_def open_last_def open_part_number_def)
qed

text \<open>A unit that is opened has no article yet.\<close>

lemma parents_ok_add:
  assumes p: "tables_agree (parents_of st) (kept_parts st) (kept_sections st) (kept_subsections st)" "open_units_ok st"
      "\<not> hs_article_pending st"
    and ready: "ready_for kind st" and add: "add_unit kind n t a b st = Inr st'"
  shows "tables_agree (parents_of st') (kept_parts st') (kept_sections st') (kept_subsections st')
    \<and> open_units_ok st' \<and> hs_pending st' = hs_pending st \<and> \<not> hs_article_pending st'"
proof -
  have same: "parents_of st' = parents_of st" using add_unit_frame [OF add] by (simp add: parents_of_def)
  show ?thesis
  proof (cases kind)
    case PartHeading
    with p ready add_unit_Inr [OF add] show ?thesis
      by (auto simp: same kept_parts_def kept_sections_def kept_subsections_def kept_units_snoc open_units_ok_def)
  next
    case SectionHeading
    with p ready add_unit_Inr [OF add] show ?thesis
      by (auto simp: same kept_parts_def kept_sections_def kept_subsections_def kept_units_snoc open_units_ok_def
          open_part_number_def)
  next
    case SubsectionHeading
    with p ready add_unit_Inr [OF add] show ?thesis
      by (auto simp: same kept_parts_def kept_sections_def kept_subsections_def kept_units_snoc open_units_ok_def
          open_part_number_def)
  qed
qed

lemma parents_ok_open:
  assumes p: "parents_ok st" and none: "hs_pending st = None" and ready: "ready_for kind st"
    and step: "open_unit kind n t r st = Inr st'"
  shows "parents_ok st'"
  using step
proof (cases rule: open_unit_cases)
  case waits
  then show ?thesis
    using p ready by (cases kind) (auto simp: parents_ok_def pending_ok_def parents_of_def kept_parts_def kept_sections_def
        kept_subsections_def open_units_ok_def open_part_number_def)
next
  case (opens t')
  from parents_ok_add [OF _ _ _ ready opens] p none show ?thesis by (auto simp: parents_ok_def pending_ok_def)
qed

lemma parents_ok_settled:
  assumes "parents_ok st" and "hs_pending st = Some (kind, n, h)" and "add_unit kind n t a b st = Inr st'"
  shows "parents_ok (st'\<lparr>hs_pending := None\<rparr>)"
proof -
  have "ready_for kind st" using assms(1,2) by (simp add: parents_ok_def pending_ok_def)
  from parents_ok_add [OF _ _ _ this assms(3)] assms(1) show ?thesis
    by (auto simp: parents_ok_def pending_ok_def parents_of_def kept_parts_def kept_sections_def kept_subsections_def
        open_units_ok_def open_part_number_def)
qed

text \<open>An article names the open units.\<close>

lemma tables_agree_article:
  assumes t: "tables_agree rs (kept_units p np ps) (kept_units s ns ss) (kept_units u nu us)"
    and last: "open_last p ps" "open_last s ss" "open_last u us"
    and names: "pred_option (names_part r) p" "pred_option (names_section r) s" "pred_option (names_subsection r) u"
    and r: "r = (map_option pa_number p, c, map_option se_number s, map_option su_number u)"
  shows "tables_agree (rs @ [r]) ps ss us"
proof -
  have present: "parents_present ps ss us x" if "parents_present (kept_units p np ps) (kept_units s ns ss) (kept_units u nu us) x" for x
    using that list_ex_kept [of "names_part x" p np ps] list_ex_kept [of "names_section x" s ns ss]
      list_ex_kept [of "names_subsection x" u nu us]
    by (auto simp: parents_present_def split: prod.splits)
  have "parents_present ps ss us r"
    using open_last_ex [OF last(1) names(1)] open_last_ex [OF last(2) names(2)] open_last_ex [OF last(3) names(3)]
    by (auto simp: r parents_present_def)
  moreover have "list_all (\<lambda>x. list_ex (\<lambda>r. names_part r x) (rs @ [r])) ps"
    by (rule list_all_open [OF last(1), where n = np]) (use t names in \<open>auto simp: tables_agree_def list_all_iff pred_option_def\<close>)
  moreover have "list_all (\<lambda>x. list_ex (\<lambda>r. names_section r x) (rs @ [r])) ss"
    by (rule list_all_open [OF last(2), where n = ns]) (use t names in \<open>auto simp: tables_agree_def list_all_iff pred_option_def\<close>)
  moreover have "list_all (\<lambda>x. list_ex (\<lambda>r. names_subsection r x) (rs @ [r])) us"
    by (rule list_all_open [OF last(3), where n = nu]) (use t names in \<open>auto simp: tables_agree_def list_all_iff pred_option_def\<close>)
  ultimately show ?thesis using t present by (auto simp: tables_agree_def list_all_iff)
qed

lemma parents_ok_article:
  assumes p: "parents_ok st" and none: "hs_pending st = None"
  shows "parents_ok (article_heading sc n title rec st)"
proof -
  let ?st = "article_heading sc n title rec st"
  let ?r = "(map_option pa_number (hs_part st), hs_chapter st, map_option se_number (hs_section st),
    map_option su_number (hs_subsection st))"
  from p have units: "open_units_ok st" by (simp add: parents_ok_def)
  have r: "parents_of ?st = parents_of st @ [?r]"
    using parents_of_flush [of sc st]
    by (simp add: article_heading_def Let_def parents_of_def builder_parents_def open_part_number_def)
  have "tables_agree (parents_of st @ [?r]) (hs_parts st) (hs_sections st) (hs_subsections st)"
  proof (rule tables_agree_article)
    show "tables_agree (parents_of st) (kept_units (hs_part st) (hs_part_count st) (hs_parts st))
      (kept_units (hs_section st) (hs_section_count st) (hs_sections st))
      (kept_units (hs_subsection st) (hs_subsection_count st) (hs_subsections st))"
      using p by (simp add: parents_ok_def kept_parts_def kept_sections_def kept_subsections_def)
    show "pred_option (names_part ?r) (hs_part st)" "pred_option (names_section ?r) (hs_section st)"
      "pred_option (names_subsection ?r) (hs_subsection st)"
      using units by (auto simp: open_units_ok_def pred_option_def names_part_def names_section_def names_subsection_def
          open_part_number_def)
  qed (use units in \<open>simp_all add: open_units_ok_def\<close>)
  with r units none show ?thesis
    by (simp add: parents_ok_def pending_ok_def article_heading_def Let_def kept_parts_def kept_sections_def
        kept_subsections_def kept_units_def open_units_ok_def open_part_number_def)
qed

lemma parents_ok_same:
  assumes "parents_ok st" and "rel_option same_article (hs_article st) (hs_article st')"
    and "hs_articles st' = hs_articles st" "hs_parts st' = hs_parts st" "hs_sections st' = hs_sections st"
      "hs_subsections st' = hs_subsections st" "hs_part st' = hs_part st" "hs_chapter st' = hs_chapter st"
      "hs_section st' = hs_section st" "hs_subsection st' = hs_subsection st" "hs_part_count st' = hs_part_count st"
      "hs_section_count st' = hs_section_count st" "hs_subsection_count st' = hs_subsection_count st"
      "hs_pending st' = hs_pending st" "hs_article_pending st' = hs_article_pending st"
  shows "parents_ok st'"
proof -
  have "ready_for kind st' = ready_for kind st" for kind using assms by (cases kind) simp_all
  with assms parents_of_same [OF assms(2,3)] show ?thesis
    by (simp add: parents_ok_def pending_ok_def kept_parts_def kept_sections_def kept_subsections_def open_units_ok_def
        open_part_number_def split: option.splits prod.splits)
qed

interpretation parents: line_invariant sc L "\<lambda>_ _. True" "\<lambda>_. parents_ok"
proof
  show "parents_ok st'" if "parents_ok st" "hs_pending st = None" "part_heading sc n ti r st = Inr st'" for st st' n ti r
    by (rule parents_ok_open [OF parents_ok_enter(1) [OF that(1,2)] _ _ that(3) [unfolded part_heading_def]])
       (use that in \<open>simp_all add: enter_part_def Let_def\<close>)
  show "parents_ok st'" if "parents_ok st" "hs_pending st = None" "section_heading sc n ti r st = Inr st'" for st st' n ti r
    by (rule parents_ok_open [OF parents_ok_enter(2) [OF that(1,2)] _ _ that(3) [unfolded section_heading_def]])
       (use that in \<open>simp_all add: enter_section_def\<close>)
  show "parents_ok st'" if "parents_ok st" "hs_pending st = None" "subsection_heading sc n ti r st = Inr st'" for st st' n ti r
  proof -
    from that(3) have s: "hs_section st \<noteq> None" and step: "open_unit SubsectionHeading n ti r (enter_subsection sc st) = Inr st'"
      by (auto simp: subsection_heading_def split: if_splits)
    show ?thesis
      by (rule parents_ok_open [OF parents_ok_enter(3) [OF that(1,2) s] _ _ step])
         (use that s in \<open>simp_all add: enter_subsection_def\<close>)
  qed
  show "parents_ok (st\<lparr>hs_chapter_pending := False, hs_chapter_title := ct\<rparr>)" if "parents_ok st" for st ct
    by (rule parents_ok_same [OF that]) (simp_all add: option.rel_refl same_article_def)
  show "parents_ok (st\<lparr>hs_chapter_pending := False\<rparr>)" if "parents_ok st" for st
    by (rule parents_ok_same [OF that]) (simp_all add: option.rel_refl same_article_def)
  show "parents_ok (quoted_line line e st)" if "parents_ok st" for line e st
    by (rule parents_ok_same [OF that quoted_line_same]) simp_all
  show "parents_ok (body_line sc line r st)" if "parents_ok st" for line r st
    by (rule parents_ok_same [OF that body_line_same]) simp_all
  show "\<not> hs_article_pending st" if "parents_ok st" for st using that by (simp add: parents_ok_def)
qed (auto intro: parents_ok_settled parents_ok_article parents_ok_enter)

end
