(* ===== verification/Parser_Properties.thy ===== *)
theory Parser_Properties
  imports Hierarchy_Invariants
begin

text \<open>
  Properties of the legal document parser: no line of the source is lost, the spacing loops end, and what the line
  machine builds is consistent; and the permissive parse returns a document for every text whose effective date is clear.
\<close>

subsection \<open>From the machine to the hierarchy\<close>

definition cleaned_lines :: "script \<Rightarrow> line_record list \<Rightarrow> str set" where
  "cleaned_lines sc records = set (map (\<lambda>r. py_strip (clean_vietnamese_spacing sc (li_text r))) records)"

lemma line_items_lines: "it_line ` set (line_items sc quoted records) \<subseteq> cleaned_lines sc records"
  by (auto simp: line_items_def cleaned_lines_def)

lemma line_items_records: "map it_record (line_items sc quoted records) = records"
  by (simp add: line_items_def comp_def map_nth)

lemma positions_ordered:
  "lines_ordered e (map it_record its) \<Longrightarrow> positions_ok after_position e its"
  by (induction its arbitrary: e) (auto simp: after_position_def)

lemma finish_parse_articles: "finish_parse sc st = Inr h \<Longrightarrow> hi_articles h = hs_articles (flush_article sc st)"
  by (auto simp: finish_parse_def Let_def rbind_Inr_iff drop_empty_part_def drop_empty_chapter_def drop_empty_section_def
      split: option.splits)

lemma finish_parse_error: "finish_parse sc st = Inl e \<Longrightarrow> is_value_error e"
  by (auto simp: finish_parse_def Let_def rbind_Inl_iff is_value_error_def split: option.splits)

lemma parse_hierarchy_machine:
  assumes "parse_hierarchy sc records = Inr h"
  obtains its st where "its = line_items sc (fst (replacement_quote_lines sc records)) records"
    and "parse_items sc its initial_state = Inr st" and "finish_parse sc st = Inr h"
  using assms by (auto simp: parse_hierarchy_def rbind_Inr_iff)

lemma initial_ok: "labels_ok sc initial_state" "titles_ok sc L initial_state" "spans_ok 0 initial_state"
  "parents_ok initial_state"
  by (simp_all add: initial_state_def labels_ok_def titles_ok_def spans_ok_def parents_ok_def tables_agree_def
      parents_of_def kept_parts_def kept_sections_def kept_subsections_def open_units_ok_def pending_ok_def)

lemma parse_hierarchy_error: "parse_hierarchy sc records = Inl e \<Longrightarrow> is_value_error e"
  using labels.parse_items_error [OF initial_ok(1) positions_ok_True line_items_lines, of sc]
  by (auto simp: parse_hierarchy_def rbind_Inl_iff dest: finish_parse_error)

lemma drop_frame:
  "hs_sections (drop_empty_part st) = hs_sections st" "hs_subsections (drop_empty_part st) = hs_subsections st"
  "hs_parts (drop_empty_chapter st) = hs_parts st" "hs_sections (drop_empty_chapter st) = hs_sections st"
  "hs_subsections (drop_empty_chapter st) = hs_subsections st" "hs_part (drop_empty_chapter st) = hs_part st"
  "hs_part_count (drop_empty_chapter st) = hs_part_count st" "hs_parts (drop_empty_section st) = hs_parts st"
  "hs_subsections (drop_empty_section st) = hs_subsections st" "hs_part (drop_empty_section st) = hs_part st"
  "hs_part_count (drop_empty_section st) = hs_part_count st"
  by (auto simp: drop_empty_part_def drop_empty_chapter_def drop_empty_section_def split: option.splits)

lemma drop_kept:
  "open_last (hs_part st) (hs_parts st) \<Longrightarrow> hs_parts (drop_empty_part st) = kept_parts st"
  "open_last (hs_section st) (hs_sections st) \<Longrightarrow> hs_sections (drop_empty_section st) = kept_sections st"
  "open_last (hs_subsection st) (hs_subsections st) \<Longrightarrow> hs_subsections (drop_empty_subsection st)
    = kept_subsections st"
  by (auto simp: drop_empty_part_def drop_empty_section_def drop_empty_subsection_def kept_parts_def kept_sections_def
      kept_subsections_def kept_units_def drop_last_def open_last_def split: option.splits)

lemma finish_parse_units:
  assumes "open_units_ok st" and "finish_parse sc st = Inr h"
  shows "hi_parts h = kept_parts st" and "hi_sections h = kept_sections st" and "hi_subsections h = kept_subsections st"
proof -
  have kept: "kept_units (hs_part st) (hs_part_count st) (hs_parts st) = kept_parts st"
    "kept_sections (flush_article sc st) = kept_sections st" "kept_subsections (flush_article sc st) = kept_subsections st"
    by (simp_all add: kept_parts_def kept_sections_def kept_subsections_def)
  have last: "open_last (hs_part st) (hs_parts st)" "open_last (hs_section st) (hs_sections st)"
    "open_last (hs_subsection st) (hs_subsections st)"
    using assms(1) by (simp_all add: open_units_ok_def)
  from assms(2) have h: "h = (let st2 = drop_empty_part (drop_empty_chapter (drop_empty_section
      (drop_empty_subsection (flush_article sc st)))) in
    \<lparr>hi_articles = hs_articles st2, hi_parts = hs_parts st2, hi_sections = hs_sections st2,
      hi_subsections = hs_subsections st2\<rparr>)"
    by (simp add: finish_parse_def Let_def rbind_Inr_iff)
  show "hi_parts h = kept_parts st"
    by (simp add: h Let_def drop_kept drop_frame last kept kept_parts_def [of "drop_empty_chapter _"])
  show "hi_sections h = kept_sections st"
    by (simp add: h Let_def drop_kept drop_frame last kept kept_sections_def [of "drop_empty_subsection _"])
       (simp add: kept_sections_def)
  show "hi_subsections h = kept_subsections st"
    by (simp add: h Let_def drop_kept drop_frame last kept)
qed

subsection \<open>Labels\<close>

lemma check_labels_ok:
  "distinct (map (\<lambda>p. label_key sc (pt_label p)) ps) \<Longrightarrow> (\<lambda>p. label_key sc
    (pt_label p)) ` set ps \<inter> set seen = {}
     \<Longrightarrow> check_labels sc a c seen ps = Inr ()"
  by (induction ps arbitrary: seen) (auto simp: Let_def)

lemma labels_valid:
  assumes "list_all (\<lambda>a. list_all (distinct_labels sc) (ar_clauses a)) as"
  shows "validate_unique_point_labels sc as = Inr ()"
proof -
  have "rmapm (\<lambda>c. check_labels sc (ar_number a) (cl_number c) [] (cl_points c)) (ar_clauses a) = Inr
    (map (\<lambda>_. ()) (ar_clauses a))"
    if "a \<in> set as" for a
    using assms that by (intro rmapm_total check_labels_ok) (auto simp: list_all_iff distinct_labels_def)
  from rmapm_total [of as, OF this] show ?thesis by (simp add: validate_unique_point_labels_def)
qed

lemma parse_hierarchy_labels:
  assumes "parse_hierarchy sc records = Inr h"
  shows "validate_unique_point_labels sc (hi_articles h) = Inr ()"
proof -
  from assms obtain its st where its: "its = line_items sc (fst (replacement_quote_lines sc records)) records"
    and run: "parse_items sc its initial_state = Inr st" and h: "finish_parse sc st = Inr h"
    by (rule parse_hierarchy_machine)
  have "labels_ok sc st"
    by (rule labels.parse_items_keeps [OF initial_ok(1) positions_ok_True _ run, where L = "cleaned_lines sc records"])
       (simp add: its line_items_lines)
  from labels_ok_flush_article [OF this] finish_parse_articles [OF h] show ?thesis
    by (intro labels_valid) (simp add: labels_ok_def)
qed

text \<open>
  C16: The labels of the points of a clause are unique in whatever the parser builds, so the validation of the labels that
  follows it never fails; and the only exceptions of the parser are the \<open>ValueError\<close>s of its headings.
\<close>

theorem point_labels_unique:
  "case parse_hierarchy sc records of
     Inr h \<Rightarrow> validate_unique_point_labels sc (hi_articles h) = Inr ()
   | Inl e \<Rightarrow> is_value_error e"
  using parse_hierarchy_labels parse_hierarchy_error by (auto split: sum.splits)

subsection \<open>Titles\<close>

text \<open>
  C24: The title of every article stands on the line of its heading: it is the text behind the number there, empty when
  there is none. A title on the line after the heading is never read, although the parser has a branch for it.
\<close>

theorem article_titles_inline:
  "case parse_hierarchy sc records of
     Inr h \<Rightarrow> list_all (\<lambda>a. titled sc (cleaned_lines sc records) (ar_number a) (ar_title a)) (hi_articles h)
   | Inl e \<Rightarrow> True"
proof (cases "parse_hierarchy sc records")
  case (Inr h)
  then obtain its st where its: "its = line_items sc (fst (replacement_quote_lines sc records)) records"
    and run: "parse_items sc its initial_state = Inr st" and h: "finish_parse sc st = Inr h"
    by (rule parse_hierarchy_machine)
  have "titles_ok sc (cleaned_lines sc records) st"
    by (rule titles.parse_items_keeps [OF initial_ok(2) positions_ok_True _ run]) (simp add: its line_items_lines)
  from titles_ok_flush [OF this] finish_parse_articles [OF h] Inr show ?thesis by simp
qed simp

subsection \<open>Spans\<close>

lemma source_lines_ordered: "lines_ordered 0 (source_line_records s)"
  by (simp add: source_line_records_eq line_records_ordered)

lemma lines_ordered_append: "lines_ordered e (rs @ rs') \<Longrightarrow> lines_ordered e rs"
  by (induction rs arbitrary: e) auto

lemma line_records_bound:
  "r \<in> set (line_records_from cursor n raws) \<Longrightarrow> li_end r \<le> cursor + length (concat raws)"
proof (induction raws arbitrary: cursor n)
  case (Cons raw raws)
  then show ?case using strip_newlines_le [of raw] by (fastforce simp: Let_def)
qed simp

lemma source_line_bound: "r \<in> set (source_line_records s) \<Longrightarrow> li_end r \<le> length (py_chars s)"
  using line_records_bound [of r 0 1] by (fastforce simp: source_line_records_eq concat_split_keep)

lemma end_position_bound:
  "e \<le> n \<Longrightarrow> (\<And>r. r \<in> set (map it_record its) \<Longrightarrow> li_end r \<le> n)
    \<Longrightarrow> end_position e its \<le> n"
  by (induction its arbitrary: e) auto

lemma parse_hierarchy_spans:
  assumes "parse_hierarchy sc records = Inr h" and "lines_ordered 0 records"
    and "\<And>r. r \<in> set records \<Longrightarrow> li_end r \<le> n"
  shows "article_chain 0 (hi_articles h) n"
proof -
  from assms(1) obtain its st where its: "its = line_items sc (fst (replacement_quote_lines sc records)) records"
    and run: "parse_items sc its initial_state = Inr st" and h: "finish_parse sc st = Inr h"
    by (rule parse_hierarchy_machine)
  have "spans_ok (end_position 0 its) st"
    by (rule spans.parse_items_keeps [OF initial_ok(3) positions_ordered _ run, where L = "cleaned_lines sc records"])
       (simp_all add: its line_items_lines line_items_records assms(2))
  from spans_ok_flush [OF this] finish_parse_articles [OF h]
  have "article_chain 0 (hi_articles h) (end_position 0 its)" by simp
  moreover have "end_position 0 its \<le> n"
    using end_position_bound [of 0 n its] assms(3) by (simp add: its line_items_records)
  ultimately show ?thesis by (rule article_chain_mono)
qed

text \<open>
  C9: The articles of the body follow each other in the source without overlap, each with its clauses in order and
  inside its own span, and all spans lie within the canonical text.
\<close>

theorem articles_in_source_order:
  "case parse_hierarchy sc (ps_main (partition_source_sections sc (source_line_records s))) of
     Inr h \<Rightarrow> article_chain 0 (hi_articles h) (length (py_chars s))
   | Inl e \<Rightarrow> True"
proof (cases "parse_hierarchy sc (ps_main (partition_source_sections sc (source_line_records s)))")
  case (Inr h)
  let ?ps = "partition_source_sections sc (source_line_records s)"
  have all: "ps_main ?ps @ concat (ps_appendices ?ps) @ concat (ps_instruments ?ps) @ ps_contents ?ps = source_line_records s"
    using partition_invariant_all [of sc "source_line_records s"] by (simp add: partition_invariant_def)
  have "lines_ordered 0 (ps_main ?ps)"
    using source_lines_ordered [of s] lines_ordered_append by (metis all)
  moreover have "r \<in> set (ps_main ?ps) \<Longrightarrow> li_end r \<le> length (py_chars s)" for r
    using source_line_bound [of r s] arg_cong [OF all, of set] by auto
  ultimately show ?thesis using parse_hierarchy_spans [OF Inr] Inr by simp
qed simp

subsection \<open>Parents\<close>

text \<open>
  C7: Articles and structural units agree: every part, section and subsection that an article names is in the result
  with the same parents, and every part, section and subsection of the result has an article that names it.
\<close>

theorem articles_and_units_agree:
  "case parse_hierarchy sc records of
     Inr h \<Rightarrow> tables_agree (map article_parents (hi_articles h)) (hi_parts h) (hi_sections h) (hi_subsections h)
   | Inl e \<Rightarrow> True"
proof (cases "parse_hierarchy sc records")
  case (Inr h)
  then obtain its st where its: "its = line_items sc (fst (replacement_quote_lines sc records)) records"
    and run: "parse_items sc its initial_state = Inr st" and h: "finish_parse sc st = Inr h"
    by (rule parse_hierarchy_machine)
  have p: "parents_ok st"
    by (rule parents.parse_items_keeps [OF initial_ok(4) positions_ok_True _ run, where L = "cleaned_lines sc records"])
       (simp add: its line_items_lines)
  then have "parents_of st = map article_parents (hs_articles (flush_article sc st))"
    using parents_of_flush [of sc st] by (simp add: parents_of_def)
  with p finish_parse_articles [OF h] finish_parse_units [OF _ h] Inr show ?thesis by (simp add: parents_ok_def)
qed simp

subsection \<open>Lines\<close>

text \<open>
  C23: The line records lose nothing but line feeds: each is the slice of the text between its offsets, they follow each
  other without overlap with consecutive line numbers, and together they are the text without its line feeds.
\<close>

theorem line_records_lossless:
  "list_all (\<lambda>r. char_slice (li_start r) (li_end r) s = li_text r) (source_line_records s)
   \<and> lines_ordered 0 (source_line_records s)
   \<and> map li_line (source_line_records s) = [1..<length (source_line_records s) + 1]
   \<and> concat (map li_text (source_line_records s)) = concat (filter (\<lambda>c. c \<noteq> line_feed) (py_chars s))"
proof (intro conjI)
  let ?raws = "split_keep [] (py_chars s)"
  have raws: "concat ?raws = py_chars s" by (simp add: concat_split_keep)
  show "list_all (\<lambda>r. char_slice (li_start r) (li_end r) s = li_text r) (source_line_records s)"
    using line_records_slices [of "[]" 0 ?raws 1] by (simp add: source_line_records_eq char_slice_def raws)
  show "lines_ordered 0 (source_line_records s)" by (rule source_lines_ordered)
  show "map li_line (source_line_records s) = [1..<length (source_line_records s) + 1]"
    by (simp add: source_line_records_eq line_records_numbers)
  show "concat (map li_text (source_line_records s)) = concat (filter (\<lambda>c. c \<noteq> line_feed) (py_chars s))"
    using line_records_text [of ?raws 0 1] split_keep_feeds [of "[]" _ "py_chars s"]
    by (simp add: source_line_records_eq raws)
qed

subsection \<open>The partition\<close>


subsection \<open>Spacing\<close>

text \<open>
  C26: Each of the three loops that repair the spacing ends: it is its own unfolding without the guard, it returns a text
  on which its expression changes nothing any more, and the text never grows.
\<close>

theorem spacing_loops_end:
  "list_all (\<lambda>r.
     join_until_stable sc r s = (let t = join_pieces sc r s in if t = s then s else join_until_stable sc r t)
     \<and> join_pieces sc r (join_until_stable sc r s) = join_until_stable sc r s
     \<and> length (join_until_stable sc r s) \<le> length s) spacing_expressions"
  using join_until_stable_loop [of _ sc s] join_until_stable_fixed [of _ sc s] by (auto simp: list_all_iff)

end
