(* ===== verification/Document_Properties.thy ===== *)
theory Document_Properties
  imports Parser_Properties Conversation_Runs
begin

text \<open>
  Properties of whole documents: every error behind the line machine is one that the permissive parse catches, so it
  fails for an unclear effective date only and keeps what it cannot parse.
\<close>

subsection \<open>Errors\<close>

text \<open>Every error behind the machine is a \<open>ValueError\<close>, which the permissive parse catches.\<close>

lemma or_blank_error: "or_blank v = Inl e \<Longrightarrow> is_value_error e"
  by (auto simp: or_blank_def is_value_error_def split: option.splits)

lemma optionally_error: "optionally f v = Inl e \<Longrightarrow> (\<And>x. f x = Inl e \<Longrightarrow>
  is_value_error e) \<Longrightarrow> is_value_error e"
  by (auto simp: optionally_def rbind_Inl_iff split: option.splits)

lemma part_key_error: "part_key sc p = Inl e \<Longrightarrow> is_value_error e"
  by (auto simp: part_key_def intro: or_blank_error)

lemma subsection_key_error: "subsection_key sc p = Inl e \<Longrightarrow> is_value_error e"
  by (auto simp: subsection_key_def intro: or_blank_error)

lemma section_key_error: "section_key sc p c s = Inl e \<Longrightarrow> is_value_error e"
  by (auto simp: section_key_def rbind_Inl_iff intro: or_blank_error optionally_error)

lemmas key_errors = part_key_error subsection_key_error section_key_error or_blank_error

lemma optional_part_error: "optionally (part_key sc) p = Inl e \<Longrightarrow> is_value_error e"
  by (rule optionally_error) (auto intro: part_key_error)

lemma check_article_numbers_error: "check_article_numbers sc seen as = Inl e \<Longrightarrow> is_value_error e"
  by (induction as arbitrary: seen)
     (auto simp: rbind_Inl_iff is_value_error_def dest: optional_part_error [unfolded is_value_error_def] split: if_splits)

lemma index_parts_error: "index_parts sc seen ps = Inl e \<Longrightarrow> is_value_error e"
  by (induction ps arbitrary: seen)
     (auto simp: rbind_Inl_iff is_value_error_def dest: part_key_error [unfolded is_value_error_def])

lemma index_sections_error: "index_sections sc parts keys ss = Inl e \<Longrightarrow> is_value_error e"
  by (induction ss arbitrary: keys)
     (auto simp: rbind_Inl_iff is_value_error_def Let_def dest: section_key_error [unfolded is_value_error_def]
        optional_part_error [unfolded is_value_error_def] split: option.splits)

lemma index_subsections_error: "index_subsections sc secs keys us = Inl e \<Longrightarrow> is_value_error e"
  by (induction us arbitrary: keys)
     (auto simp: rbind_Inl_iff is_value_error_def dest: section_key_error [unfolded is_value_error_def]
        subsection_key_error [unfolded is_value_error_def])

lemma article_section_error: "article_section sc secs a c s = Inl e \<Longrightarrow> is_value_error e"
  by (auto simp: article_section_def rbind_Inl_iff is_value_error_def dest: section_key_error [unfolded is_value_error_def]
      split: option.splits)

lemma check_article_parents_error: "check_article_parents sc parts secs subs a = Inl e \<Longrightarrow> is_value_error e"
  by (auto simp: check_article_parents_def rbind_Inl_iff is_value_error_def
      dest: optional_part_error [unfolded is_value_error_def] article_section_error [unfolded is_value_error_def]
        or_blank_error [unfolded is_value_error_def] subsection_key_error [unfolded is_value_error_def]
      split: option.splits)

lemma validate_hierarchy_error: "validate_hierarchy sc h = Inl e \<Longrightarrow> is_value_error e"
  by (auto simp: validate_hierarchy_def rbind_Inl_iff check_parents_def
      dest: check_article_numbers_error index_parts_error index_sections_error index_subsections_error
      dest!: rmapm_Inl intro: check_article_parents_error)

lemma check_labels_error: "check_labels sc a c seen ps = Inl e \<Longrightarrow> is_value_error e"
  by (induction ps arbitrary: seen) (auto simp: rbind_Inl_iff Let_def is_value_error_def)

lemma validate_labels_error: "validate_unique_point_labels sc as = Inl e \<Longrightarrow> is_value_error e"
  by (auto simp: validate_unique_point_labels_def rbind_Inl_iff dest!: rmapm_Inl intro: check_labels_error)

lemma attached_hierarchy_error: "attached_hierarchy sc records = Inl e \<Longrightarrow> is_value_error e"
  by (auto simp: attached_hierarchy_def rbind_Inl_iff
      dest: parse_hierarchy_error validate_labels_error validate_hierarchy_error)

lemma check_attachment_error:
  "check_appendix a = Inl e \<Longrightarrow> is_value_error e" "check_instrument i = Inl e \<Longrightarrow> is_value_error e"
  by (auto simp: check_appendix_def check_instrument_def rbind_Inl_iff is_value_error_def)

lemma appendix_error: "appendix_from_records sc t n records = Inl e \<Longrightarrow> is_value_error e"
  by (auto simp: appendix_from_records_def Let_def rbind_Inl_iff is_value_error_def
      dest: attached_hierarchy_error [unfolded is_value_error_def] check_attachment_error [unfolded is_value_error_def]
      split: option.splits if_splits)

lemma in_order_error: "in_order f xs = Inl e \<Longrightarrow> (\<And>n x. f n x = Inl e \<Longrightarrow>
  is_value_error e) \<Longrightarrow> is_value_error e"
  by (auto simp: in_order_def dest!: rmapm_Inl)

lemma instrument_error: "instrument_from_records sc t n records = Inl e \<Longrightarrow> is_value_error e"
proof -
  assume inl: "instrument_from_records sc t n records = Inl e"
  have apps: "in_order (appendix_from_records sc t) gs = Inl e' \<Longrightarrow> is_value_error e'" for gs e'
    by (erule in_order_error) (rule appendix_error)
  note errs = apps [unfolded is_value_error_def] attached_hierarchy_error [unfolded is_value_error_def]
    check_attachment_error(2) [unfolded is_value_error_def]
  show ?thesis
    using inl by (auto simp: instrument_from_records_def Let_def rbind_Inl_iff is_value_error_def dest: errs
        split: option.splits)
qed

lemma parse_canonical_text_error: "parse_canonical_text sc t info ps = Inl e \<Longrightarrow> is_value_error e"
  by (auto simp: parse_canonical_text_def rbind_Inl_iff validate_parsed_document_def
      dest: parse_hierarchy_error validate_labels_error validate_hierarchy_error
      elim!: in_order_error intro: appendix_error instrument_error)

subsection \<open>The permissive parse\<close>

lemma validate_bare_document: "validate_parsed_document sc (bare_document info us) = Inr (bare_document info us)"
  by (simp add: validate_parsed_document_def validate_hierarchy_def bare_document_def no_hierarchy_def check_parents_def
      drop_orphans_def rescope_def)

lemma content_nonempty: "records_have_content records \<Longrightarrow> records \<noteq> []"
  by (auto simp: records_have_content_def)

text \<open>An unparsed body holds the text between its offsets.\<close>

definition body_kept :: "str \<Rightarrow> unparsed_section \<Rightarrow> bool" where
  "body_kept t u \<longleftrightarrow> us_type u = TableOfContents \<or> us_content u = strip_line_feeds
    (char_slice (us_start u) (us_end u) t)"

lemma unparsed_body_kept:
  "records \<noteq> [] \<Longrightarrow> \<exists>u. unparsed_body_section sc t doc records = Inr u \<and>
    us_type u = UnparsedBody \<and> body_kept t u"
  by (simp add: unparsed_body_section_def body_kept_def Let_def)

lemma source_preserved_total:
  "\<exists>d. source_preserved_document sc t info = Inr d \<and> do_hierarchy d = no_hierarchy
     \<and> (has_unparsed_body d \<longleftrightarrow> records_have_content (source_line_records t)) \<and>
       list_all (body_kept t) (do_unparsed d)"
proof (cases "records_have_content (source_line_records t)")
  case True
  from unparsed_body_kept [OF content_nonempty [OF True]] obtain u where
    "unparsed_body_section sc t (di_id info) (source_line_records t) = Inr u" "us_type u = UnparsedBody" "body_kept t u"
    by blast
  with True have "source_preserved_document sc t info = Inr (bare_document info [u])"
    by (simp add: source_preserved_document_def Let_def validate_bare_document)
  with True \<open>us_type u = UnparsedBody\<close> \<open>body_kept t u\<close> show ?thesis
    by (simp add: has_unparsed_body_def bare_document_def)
next
  case False
  then have "source_preserved_document sc t info = Inr (bare_document info [])"
    by (simp add: source_preserved_document_def Let_def validate_bare_document)
  with False show ?thesis by (simp add: has_unparsed_body_def bare_document_def)
qed

lemma parse_canonical_unparsed:
  "parse_canonical_text sc t info ps = Inr d \<Longrightarrow> list_all (body_kept t) (do_unparsed d)"
  by (auto simp: parse_canonical_text_def rbind_Inr_iff validate_parsed_document_def rescope_def body_kept_def
      table_of_contents_section_def Let_def split: if_splits)

lemma parse_or_preserve_total:
  "\<exists>d ws. parse_or_preserve sc t info ps = Inr (d, ws) \<and> list_all (body_kept t) (do_unparsed d)"
proof (cases "parse_canonical_text sc t info ps")
  case (Inl e)
  with parse_canonical_text_error have "is_value_error e" by blast
  with Inl source_preserved_total [of sc t info] show ?thesis by (auto simp: parse_or_preserve_def Let_def)
next
  case (Inr d)
  with parse_canonical_unparsed [OF Inr] show ?thesis by (simp add: parse_or_preserve_def Let_def)
qed

lemma preserve_body_total:
  assumes "list_all (body_kept t) (do_unparsed d)"
  shows "\<exists>d' ws'. preserve_body sc t main d ws = Inr (d', ws') \<and> list_all (body_kept t) (do_unparsed d')
    \<and> do_hierarchy d' = do_hierarchy d
    \<and> (hi_articles (do_hierarchy d) = [] \<and> records_have_content main \<longrightarrow> has_unparsed_body d')"
proof (cases "hi_articles (do_hierarchy d) = [] \<and> records_have_content main \<and> \<not> has_unparsed_body d")
  case True
  then have "main \<noteq> []" using content_nonempty by blast
  from unparsed_body_kept [OF this] obtain u where
    "unparsed_body_section sc t (di_id (do_info d)) main = Inr u" "us_type u = UnparsedBody" "body_kept t u" by blast
  with True assms show ?thesis by (auto simp: preserve_body_def has_unparsed_body_def)
next
  case False
  with assms show ?thesis by (auto simp: preserve_body_def)
qed


end
