(* ===== verification/Graph_Payload.thy ===== *)
theory Graph_Payload
  imports Parsed_Document Calendar
begin

text \<open>
  The payload of a document (\<open>src/pipeline/persistence/payload_builder.py\<close>): the nodes and relations that are written
  to the graph, built from the parsed document and the accepted records of the extraction. Nodes and relations
  are dictionaries in insertion order; a node is a dictionary of values, as the validators read it. SHA-1 is the field
  \<open>bd_sha1\<close>. Two nodes are compared by their entries; the code never builds two nodes of one type
    with their fields in
  different orders.
\<close>

subsection \<open>Data\<close>

record builder =
  bd_script :: script
  bd_sha1 :: "str \<Rightarrow> str"

text \<open>The metadata of a document (\<open>DocumentInfo\<close> but for its identifier and its date of effect).\<close>

record document_meta =
  dm_title :: str
  dm_number :: str
  dm_type :: str
  dm_issued :: "date option"
  dm_effective_to :: "date option"
  dm_issuer :: "str option"
  dm_status :: str
  dm_url :: "str option"
  dm_sector :: "str option"
  dm_field :: "str option"
  dm_signer_title :: "str option"
  dm_signer_name :: "str option"

text \<open>An accepted record of the extraction, and an entry of the entity index.\<close>

record accepted_record =
  ac_route :: pv
  ac_head :: pv
  ac_relation :: pv
  ac_tail :: pv
  ac_props :: props

type_synonym entity_index = "(str \<times> props) list"

record payload_relation =
  pr_id :: str
  pr_head :: str
  pr_type :: str
  pr_tail :: str
  pr_props :: props

datatype payload_error =
    MissingDocCode
  | MissingDocumentFields "str list"
  | MissingIssuer
  | MissingPart str str
  | MissingSection str str
  | MissingSubsection str str
  | RepeatedArticle str
  | DuplicatePayloadNode str
  | MissingEntity str
  | BlankNumber
  | RelationTypeNotString

record build_state =
  bs_nodes :: "(str \<times> props) list"
  bs_relations :: "(str \<times> payload_relation) list"
  bs_structural :: "str list"

record graph_payload =
  gp_doc_code :: str
  gp_graph_id :: str
  gp_deferred :: nat
  gp_payload_nodes :: "props list"
  gp_payload_relations :: "payload_relation list"

subsection \<open>Texts\<close>

definition given :: "str option \<Rightarrow> str option" where
  "given s = (case s of Some t \<Rightarrow> if t = [] then None else Some t | None \<Rightarrow> None)"

definition opt_value :: "str option \<Rightarrow> pv" where
  "opt_value s = (case s of None \<Rightarrow> PNone | Some t \<Rightarrow> PStr t)"

text \<open>\<open>_optional_str\<close> of a text and of a date.\<close>

definition optional_value :: "str option \<Rightarrow> pv" where
  "optional_value s = opt_value (given s)"

definition optional_date :: "date option \<Rightarrow> pv" where
  "optional_date d = opt_value (map_option isoformat d)"

text \<open>\<open>_slug\<close>, \<open>_semantic_id\<close> and \<open>_normalize_point_label\<close>\<close>

definition payload_slug :: "script \<Rightarrow> str \<Rightarrow> str" where
  "payload_slug sc s = (let t = slug_text sc s in if t = [] then ''unknown'' else t)"

definition known_semantic_ids :: "(str \<times> str) list" where
  "known_semantic_ids =
     [((''v'' @ [CHR 0xE1, CHR 0xBB, CHR 0x91] @ ''n '' @ [CHR 0xC4, CHR 0x91] @ ''i'' @ [CHR 0xE1, CHR 0xBB,
       CHR 0x81] @ ''u l'' @ [CHR 0xE1, CHR 0xBB, CHR 0x87]), ''von_dieu_le''), (''von dieu le'',
       ''von_dieu_le''), ((''doanh nghi'' @ [CHR 0xE1, CHR 0xBB, CHR 0x87] @ ''p''), ''doanh_nghiep''),
      (''doanh nghiep'', ''doanh_nghiep''), ((''c'' @ [CHR 0xC3, CHR 0xB4] @ ''ng ty''), ''cong_ty''),
        (''cong ty'', ''cong_ty'')]"

definition semantic_id :: "script \<Rightarrow> pv \<Rightarrow> str" where
  "semantic_id sc label =
     (let s = (if truthy label then py_str label else []) in
      case map_of known_semantic_ids (py_strip (sc_lower sc s)) of
        Some i \<Rightarrow> i
      | None \<Rightarrow> (case map_of known_semantic_ids (py_strip (sc_lower sc (fold_marks sc s))) of
                  Some i \<Rightarrow> i | None \<Rightarrow> payload_slug sc s))"

definition point_label_id :: "script \<Rightarrow> str \<Rightarrow> str" where
  "point_label_id sc label =
     (let t = sc_lower sc (py_strip label) in if t = ([CHR 0xC4, CHR 0x91]) then ''dd'' else payload_slug sc t)"

subsection \<open>Nodes and relations\<close>

text \<open>\<open>_add_node\<close>: a node with the identifier of another one must be the same, unless one of
  the two is an issuer.\<close>

definition with_optional_fields :: "props \<Rightarrow> props" where
  "with_optional_fields n =
     foldl (\<lambda>m f. setdefault f PNone m) n
       (case map_of node_optional_fields (py_str (getp n ''type'')) of None \<Rightarrow> [] | Some fs
         \<Rightarrow> fs)"

definition add_node :: "props \<Rightarrow> build_state \<Rightarrow> payload_error + build_state" where
  "add_node n st =
     (let i = py_str (getp n ''id''); node = with_optional_fields n in
      case map_of (bs_nodes st) i of
        Some existing \<Rightarrow>
          if existing = node \<or> getp existing ''type'' = PStr ''Issuer'' \<or> getp node ''type'' = PStr ''Issuer''
          then Inr st else Inl (DuplicatePayloadNode i)
      | None \<Rightarrow> Inr (st\<lparr>bs_nodes := bs_nodes st @ [(i, node)]\<rparr>))"

definition relation_key :: "str \<Rightarrow> str \<Rightarrow> str \<Rightarrow> str \<Rightarrow> str" where
  "relation_key h r t d = h @ ''|'' @ r @ ''|'' @ t @ ''|'' @ d"

definition deterministic_relation_id :: "builder \<Rightarrow> str \<Rightarrow> str \<Rightarrow> str
  \<Rightarrow> str \<Rightarrow> str" where
  "deterministic_relation_id b h r t d = bd_sha1 b (relation_key h r t d)"

definition make_payload_relation :: "builder \<Rightarrow> str \<Rightarrow> str \<Rightarrow> str
  \<Rightarrow> props \<Rightarrow> str \<Rightarrow> payload_relation" where
  "make_payload_relation b h r t p d =
     (let i = deterministic_relation_id b h r t d in
      \<lparr>pr_id = i, pr_head = h, pr_type = r, pr_tail = t, pr_props = setdefault ''relation_id'' (PStr i)
        p\<rparr>)"

definition add_relation :: "builder \<Rightarrow> str \<Rightarrow> str \<Rightarrow> str \<Rightarrow> props
  \<Rightarrow> str \<Rightarrow> build_state \<Rightarrow> build_state" where
  "add_relation b h r t p d st =
     st\<lparr>bs_relations := AList.update (relation_key h r t d) (make_payload_relation b h r t p d) (bs_relations st)\<rparr>"

text \<open>The identity of a relation beyond its ends.\<close>

definition normalize_citation_text :: "script \<Rightarrow> str \<Rightarrow> str" where
  "normalize_citation_text sc s = rx_sub (sc_unicode sc) False blanks (\<lambda>m. '' '') (py_strip (sc_nfc sc s))"

definition text_or_empty :: "props \<Rightarrow> str \<Rightarrow> str" where
  "text_or_empty p k = (if truthy (getp p k) then py_str (getp p k) else [])"

definition relation_identity_discriminator :: "script \<Rightarrow> str \<Rightarrow> props \<Rightarrow> str" where
  "relation_identity_discriminator sc r p =
     (if r \<in> set [''AMENDS'', ''REPEALS'', ''REPLACES''] then text_or_empty p ''effective_from''
      else if r = ''REQUIRES'' then text_or_empty p ''source_article''
      else if r = ''REFERS_TO''
      then text_or_empty p ''citation_type'' @ ''|'' @ normalize_citation_text sc (text_or_empty p ''citation_text'')
      else [])"

subsection \<open>The nodes of a document\<close>

definition content_status_fallback :: "(str \<times> str) list" where
  "content_status_fallback =
     [(''ACTIVE'', ''ACTIVE''), (''NOT_YET_EFFECTIVE'', ''ACTIVE''), (''PARTIALLY_EFFECTIVE'', ''ACTIVE''),
      (''REPLACED'', ''REPEALED''), (''REPEALED'', ''REPEALED''), (''EXPIRED'', ''REPEALED'')]"

text \<open>The dates and the status that every unit of content inherits from its document.\<close>

record validity_fields =
  vf_from :: str
  vf_to :: pv
  vf_status :: str

definition validity_of :: "document_meta document_info \<Rightarrow> date \<Rightarrow> validity_fields" where
  "validity_of info from_date =
     \<lparr>vf_from = isoformat from_date, vf_to = optional_date (dm_effective_to (di_rest info)),
      vf_status = (case map_of content_status_fallback (dm_status (di_rest info)) of None \<Rightarrow>
        ''ACTIVE'' | Some s \<Rightarrow> s)\<rparr>"

definition validity_props :: "validity_fields \<Rightarrow> props" where
  "validity_props v =
     [(''effective_from'', PStr (vf_from v)), (''effective_to'', vf_to v), (''legal_status'', PStr (vf_status v))]"

definition typed :: "str \<Rightarrow> str \<Rightarrow> props \<Rightarrow> props" where
  "typed kind i fs = (''type'', PStr kind) # (''id'', PStr i) # fs"

definition missing_document_fields :: "document_meta document_info \<Rightarrow> str list" where
  "missing_document_fields info =
     (let m = di_rest info in
      map fst (filter (\<lambda>(k, v). v = None \<or> v = Some [])
        [(''id'', Some (di_id info)), (''doc_type'', Some (dm_type m)), (''number'', Some (dm_number m)),
         (''legal_status'', Some (dm_status m)), (''effective_from'', map_option isoformat (di_effective_from info)),
         (''issuer_name'', dm_issuer m)]))"

definition document_node :: "document_meta document_info \<Rightarrow> payload_error + props" where
  "document_node info =
     (let m = di_rest info; gaps = missing_document_fields info in
      if gaps \<noteq> [] then Inl (MissingDocumentFields gaps)
      else Inr (typed ''Document'' (di_id info)
        [(''title'', PStr (dm_title m)), (''number'', PStr (dm_number m)), (''doc_type'', PStr (dm_type m)),
         (''legal_status'', PStr (dm_status m)), (''effective_from'', optional_date (di_effective_from info)),
         (''effective_to'', optional_date (dm_effective_to m)), (''issuer_name'', opt_value (dm_issuer m)),
         (''issued_date'', optional_date (dm_issued m)), (''source_url'', optional_value (dm_url m)),
         (''sector'', optional_value (dm_sector m)), (''field'', optional_value (dm_field m)),
         (''signer_title'', optional_value (dm_signer_title m)), (''signer_name'', optional_value
           (dm_signer_name m))]))"

definition issuer_node :: "script \<Rightarrow> str option \<Rightarrow> payload_error + props" where
  "issuer_node sc name =
     (case given name of
        None \<Rightarrow> Inl MissingIssuer
      | Some n \<Rightarrow> Inr (typed ''Issuer'' (payload_slug sc n) [(''name'', PStr n)]))"

definition unit_node :: "str \<Rightarrow> str \<Rightarrow> str \<Rightarrow> str \<Rightarrow> props" where
  "unit_node kind i number title = typed kind i [(''number'', PStr number), (''title'', PStr title)]"

definition article_node :: "validity_fields \<Rightarrow> str \<Rightarrow> article \<Rightarrow> props" where
  "article_node v i a =
     typed ''Article'' i
       ([(''number'', PStr (ar_number a)), (''title'', opt_value (ar_title a)), (''content_raw'', PStr
         (ar_content a))]
        @ validity_props v)"

definition clause_node :: "validity_fields \<Rightarrow> str \<Rightarrow> clause \<Rightarrow> props" where
  "clause_node v i c =
     typed ''Clause'' i ([(''number'', PStr (cl_number c)), (''content_raw'', PStr (cl_content c))] @
       validity_props v)"

definition point_node :: "validity_fields \<Rightarrow> str \<Rightarrow> point \<Rightarrow> props" where
  "point_node v i p =
     typed ''Point'' i ([(''label'', PStr (pt_label p)), (''content_raw'', PStr (pt_content p))] @ validity_props v)"

fun appendix_kind_name :: "appendix_kind \<Rightarrow> str" where
  "appendix_kind_name LegalContent = ''LEGAL_CONTENT''"
| "appendix_kind_name FormKind = ''FORM''"
| "appendix_kind_name ListKind = ''LIST''"
| "appendix_kind_name TableKind = ''TABLE''"
| "appendix_kind_name Unclassified = ''UNCLASSIFIED''"

fun instrument_kind_label :: "instrument_kind \<Rightarrow> str" where
  "instrument_kind_label Regulation = ''REGULATION''"
| "instrument_kind_label Charter = ''CHARTER''"
| "instrument_kind_label Standard = ''STANDARD''"

definition appendix_node :: "validity_fields \<Rightarrow> str \<Rightarrow> appendix \<Rightarrow> props" where
  "appendix_node v i a =
     typed ''Appendix'' i
       ([(''scope'', PStr (ap_scope a)), (''number'', opt_value (ap_number a)), (''heading'', PStr (ap_heading a)),
         (''title'', opt_value (ap_title a)), (''content_raw'', PStr (ap_content a)),
         (''appendix_kind'', PStr (appendix_kind_name (ap_kind a)))] @ validity_props v)"

definition instrument_node :: "str \<Rightarrow> instrument \<Rightarrow> props" where
  "instrument_node i x =
     typed ''AttachedInstrument'' i
       [(''scope'', PStr (in_scope x)), (''heading'', PStr (in_heading x)), (''adoption_text'', PStr (in_adoption x)),
        (''title'', opt_value (in_title x)), (''content_raw'', PStr (in_content x)),
        (''instrument_kind'', PStr (instrument_kind_label (in_kind x)))]"

subsection \<open>Placing a unit below its parent\<close>

definition place_unit :: "builder \<Rightarrow> str \<Rightarrow> str \<Rightarrow> props \<Rightarrow>
  build_state \<Rightarrow> payload_error + build_state" where
  "place_unit b parent i node st =
     rbind (add_node node (st\<lparr>bs_structural := i # bs_structural st\<rparr>)) (\<lambda>st'.
       Inr (add_relation b parent ''CONTAINS'' i [] [] st'))"

text \<open>In the body a group is placed when it is met first; in an attachment it is placed for each article again.\<close>

definition place_group :: "bool \<Rightarrow> builder \<Rightarrow> str \<Rightarrow> str \<Rightarrow> props
  \<Rightarrow> build_state \<Rightarrow> payload_error + build_state" where
  "place_group once b parent i node st =
     (if once \<and> i \<in> fst ` set (bs_nodes st) then Inr (st\<lparr>bs_structural := i # bs_structural st\<rparr>)
      else place_unit b parent i node st)"

definition required_number :: "str option \<Rightarrow> payload_error + str" where
  "required_number v = (case v of None \<Rightarrow> Inl BlankNumber | Some x \<Rightarrow> Inr x)"

definition numbered_opt :: "(str \<Rightarrow> str option) \<Rightarrow> str option \<Rightarrow> payload_error
  + str option" where
  "numbered_opt f v = (case given v of None \<Rightarrow> Inr None | Some x \<Rightarrow> rbind
    (required_number (f x)) (\<lambda>y. Inr (Some y)))"

text \<open>The dictionaries of parts, sections and subsections by their normal numbers: the last of equal keys counts.\<close>

type_synonym group_key = "str option \<times> str option \<times> str"

record group_tables =
  gt_parts :: "(str \<times> part_unit) list"
  gt_sections :: "(group_key \<times> section_unit) list"
  gt_subsections :: "((group_key \<times> str) \<times> subsection_unit) list"

fun dict_of :: "('a \<Rightarrow> payload_error + 'k) \<Rightarrow> 'a list \<Rightarrow> ('k \<times> 'a) list
  \<Rightarrow> payload_error + ('k \<times> 'a) list" where
  "dict_of f [] d = Inr d"
| "dict_of f (x # xs) d = rbind (f x) (\<lambda>k. dict_of f xs (AList.update k x d))"

definition group_key_of :: "script \<Rightarrow> str option \<Rightarrow> str option \<Rightarrow> str
  \<Rightarrow> payload_error + group_key" where
  "group_key_of sc part chapter s =
     rbind (numbered_opt (normalize_part_number sc) part) (\<lambda>p.
     rbind (numbered_opt (normalize_chapter_number sc) chapter) (\<lambda>c.
     rbind (required_number (normalize_section_number sc s)) (\<lambda>n. Inr (p, c, n))))"

definition group_tables_of :: "script \<Rightarrow> hierarchy \<Rightarrow> payload_error + group_tables" where
  "group_tables_of sc h =
     rbind (dict_of (\<lambda>p. required_number (normalize_part_number sc (pa_number p))) (hi_parts h) []) (\<lambda>ps.
     rbind (dict_of (\<lambda>s. group_key_of sc (se_part s) (se_chapter s) (se_number s)) (hi_sections h) []) (\<lambda>ss.
     rbind (dict_of (\<lambda>u. rbind (group_key_of sc (su_part u) (su_chapter u) (su_section u)) (\<lambda>k.
              rbind (required_number (normalize_subsection_number sc (su_number u))) (\<lambda>n. Inr (k, n))))
            (hi_subsections h) []) (\<lambda>us.
       Inr \<lparr>gt_parts = ps, gt_sections = ss, gt_subsections = us\<rparr>)))"

text \<open>Each step takes the parent that was reached and returns the next one.\<close>

definition place_part ::
  "bool \<Rightarrow> builder \<Rightarrow> str \<Rightarrow> group_tables \<Rightarrow> article \<Rightarrow>
    build_state \<Rightarrow> payload_error + build_state \<times> str \<times> str option" where
  "place_part once b owner tabs a st =
     (let sc = bd_script b in
      case given (ar_part a) of
        None \<Rightarrow> Inr (st, owner, None)
      | Some p \<Rightarrow>
          rbind (required_number (normalize_part_number sc p)) (\<lambda>n.
            case map_of (gt_parts tabs) n of
              None \<Rightarrow> Inl (MissingPart (ar_number a) p)
            | Some u \<Rightarrow>
                rbind (required_number (part_id sc owner p)) (\<lambda>i.
                rbind (place_group once b owner i (unit_node ''Part'' i (pa_number u) (pa_title u)) st) (\<lambda>st'.
                  Inr (st', i, Some n)))))"

definition place_chapter ::
  "bool \<Rightarrow> builder \<Rightarrow> str \<Rightarrow> str \<Rightarrow> article \<Rightarrow>
    build_state \<Rightarrow> payload_error + build_state \<times> str" where
  "place_chapter once b owner parent a st =
     (case given (ar_chapter a) of
        None \<Rightarrow> Inr (st, parent)
      | Some c \<Rightarrow>
          rbind (required_number (chapter_id (bd_script b) owner c)) (\<lambda>i.
          rbind (place_group once b parent i (unit_node ''Chapter'' i c (str_or (ar_chapter_title a) ((''Ch'' @
            [CHR 0xC6, CHR 0xB0, CHR 0xC6, CHR 0xA1] @ ''ng '') @ c))) st)
            (\<lambda>st'. Inr (st', i))))"

definition section_node_id :: "builder \<Rightarrow> str \<Rightarrow> article \<Rightarrow> str \<Rightarrow>
  payload_error + str" where
  "section_node_id b owner a s =
     (let sc = bd_script b in
      required_number (case given (ar_chapter a) of
                  Some c \<Rightarrow> section_id sc owner c s
                | None \<Rightarrow> map_option (\<lambda>n. owner @ ''_sec'' @ n) (normalize_section_number sc s)))"

definition subsection_node_id :: "builder \<Rightarrow> str \<Rightarrow> article \<Rightarrow> str
  \<Rightarrow> str \<Rightarrow> str \<Rightarrow> payload_error + str" where
  "subsection_node_id b owner a s sec u =
     (let sc = bd_script b in
      required_number (case given (ar_chapter a) of
                  Some c \<Rightarrow> subsection_id sc owner c s u
                | None \<Rightarrow> map_option (\<lambda>n. sec @ ''_subsec'' @ n)
                  (normalize_subsection_number sc u)))"

definition place_subsection ::
  "bool \<Rightarrow> builder \<Rightarrow> str \<Rightarrow> group_tables \<Rightarrow> group_key
    \<Rightarrow> str \<Rightarrow> str \<Rightarrow> article \<Rightarrow> build_state
     \<Rightarrow> payload_error + build_state \<times> str" where
  "place_subsection once b owner tabs key s sec a st =
     (let sc = bd_script b in
      case given (ar_subsection a) of
        None \<Rightarrow> Inr (st, sec)
      | Some u \<Rightarrow>
          rbind (required_number (normalize_subsection_number sc u)) (\<lambda>n.
            case map_of (gt_subsections tabs) (key, n) of
              None \<Rightarrow> if once \<and> given (ar_chapter a) = None then Inr (st, sec) else Inl
                (MissingSubsection (ar_number a) u)
            | Some x \<Rightarrow>
                rbind (subsection_node_id b owner a s sec u) (\<lambda>i.
                rbind (place_group once b sec i (unit_node ''Subsection'' i (su_number x) (su_title x)) st)
                  (\<lambda>st'.
                  Inr (st', i)))))"

text \<open>In the body, a section without a chapter that is not in the dictionary is passed over.\<close>

definition place_section ::
  "bool \<Rightarrow> builder \<Rightarrow> str \<Rightarrow> group_tables \<Rightarrow> str option
    \<Rightarrow> str \<Rightarrow> article \<Rightarrow> build_state \<Rightarrow> payload_error + build_state
    \<times> str" where
  "place_section once b owner tabs part parent a st =
     (let sc = bd_script b in
      case given (ar_section a) of
        None \<Rightarrow> Inr (st, parent)
      | Some s \<Rightarrow>
          rbind (numbered_opt (normalize_chapter_number sc) (ar_chapter a)) (\<lambda>c.
          rbind (required_number (normalize_section_number sc s)) (\<lambda>n.
            case map_of (gt_sections tabs) (part, c, n) of
              None \<Rightarrow> if once \<and> given (ar_chapter a) = None then Inr (st, parent) else Inl
                (MissingSection (ar_number a) s)
            | Some x \<Rightarrow>
                rbind (section_node_id b owner a s) (\<lambda>i.
                rbind (place_group once b parent i (unit_node ''Section'' i (se_number x) (se_title x)) st)
                  (\<lambda>st'.
                  place_subsection once b owner tabs (part, c, n) s i a st')))))"

subsection \<open>Articles\<close>

definition place_point :: "builder \<Rightarrow> validity_fields \<Rightarrow> str \<Rightarrow> point
  \<Rightarrow> build_state \<Rightarrow> payload_error + build_state" where
  "place_point b v parent p st =
     (let i = parent @ ''_p'' @ point_label_id (bd_script b) (pt_label p) in place_unit b parent i (point_node
       v i p) st)"

fun place_points :: "builder \<Rightarrow> validity_fields \<Rightarrow> str \<Rightarrow> point list
  \<Rightarrow> build_state \<Rightarrow> payload_error + build_state" where
  "place_points b v parent [] st = Inr st"
| "place_points b v parent (p # ps) st = rbind (place_point b v parent p st) (place_points b v parent ps)"

definition place_clause :: "builder \<Rightarrow> validity_fields \<Rightarrow> str \<Rightarrow> clause
  \<Rightarrow> build_state \<Rightarrow> payload_error + build_state" where
  "place_clause b v parent c st =
     (let i = parent @ ''_cl'' @ cl_number c in
      rbind (place_unit b parent i (clause_node v i c) st) (place_points b v i (cl_points c)))"

fun place_clauses :: "builder \<Rightarrow> validity_fields \<Rightarrow> str \<Rightarrow> clause list
  \<Rightarrow> build_state \<Rightarrow> payload_error + build_state" where
  "place_clauses b v parent [] st = Inr st"
| "place_clauses b v parent (c # cs) st = rbind (place_clause b v parent c st) (place_clauses b v parent cs)"

definition body_article_id :: "str \<Rightarrow> article list \<Rightarrow> str option \<Rightarrow> article
  \<Rightarrow> payload_error + str" where
  "body_article_id owner as part a =
     (if 1 < length (filter (\<lambda>x. ar_number x = ar_number a) as)
      then (case part of
              None \<Rightarrow> Inl (RepeatedArticle (ar_number a))
            | Some p \<Rightarrow> Inr (owner @ ''_p'' @ p @ ''_art'' @ ar_number a))
      else Inr (owner @ ''_art'' @ ar_number a))"

definition article_id_of :: "bool \<Rightarrow> str \<Rightarrow> article list \<Rightarrow> str option
  \<Rightarrow> article \<Rightarrow> payload_error + str" where
  "article_id_of body owner as part a =
     (if body then body_article_id owner as part a else Inr (owner @ ''_art'' @ ar_number a))"

definition place_article ::
  "bool \<Rightarrow> builder \<Rightarrow> validity_fields \<Rightarrow> str \<Rightarrow> group_tables
    \<Rightarrow> article list \<Rightarrow> article \<Rightarrow> build_state
     \<Rightarrow> payload_error + build_state" where
  "place_article body b v owner tabs as a st =
     rbind (place_part body b owner tabs a st) (\<lambda>(st1, p1, part).
     rbind (place_chapter body b owner p1 a st1) (\<lambda>(st2, p2).
     rbind (place_section body b owner tabs part p2 a st2) (\<lambda>(st3, p3).
     rbind (article_id_of body owner as part a) (\<lambda>i.
     rbind (place_unit b p3 i (article_node v i a) st3) (place_clauses b v i (ar_clauses a))))))"

fun place_articles ::
  "bool \<Rightarrow> builder \<Rightarrow> validity_fields \<Rightarrow> str \<Rightarrow> group_tables
    \<Rightarrow> article list \<Rightarrow> article list \<Rightarrow> build_state
     \<Rightarrow> payload_error + build_state" where
  "place_articles body b v owner tabs as [] st = Inr st"
| "place_articles body b v owner tabs as (a # rest) st =
     rbind (place_article body b v owner tabs as a st) (place_articles body b v owner tabs as rest)"

definition place_hierarchy ::
  "bool \<Rightarrow> builder \<Rightarrow> validity_fields \<Rightarrow> str \<Rightarrow> hierarchy
    \<Rightarrow> build_state \<Rightarrow> payload_error + build_state" where
  "place_hierarchy body b v owner h st =
     rbind (group_tables_of (bd_script b) h) (\<lambda>tabs. place_articles body b v owner tabs (hi_articles h)
       (hi_articles h) st)"

subsection \<open>Attachments\<close>

definition place_appendix :: "builder \<Rightarrow> validity_fields \<Rightarrow> str \<Rightarrow> appendix
  \<Rightarrow> build_state \<Rightarrow> payload_error + build_state" where
  "place_appendix b v owner a st =
     (let i = owner @ ''_app'' @ ap_scope a in
      rbind (place_unit b owner i (appendix_node v i a) st) (place_hierarchy False b v i (ap_hierarchy a)))"

fun place_appendices :: "builder \<Rightarrow> validity_fields \<Rightarrow> str \<Rightarrow> appendix list
  \<Rightarrow> build_state \<Rightarrow> payload_error + build_state" where
  "place_appendices b v owner [] st = Inr st"
| "place_appendices b v owner (a # as) st = rbind (place_appendix b v owner a st) (place_appendices b v owner as)"

definition place_instrument :: "builder \<Rightarrow> validity_fields \<Rightarrow> str \<Rightarrow>
  instrument \<Rightarrow> build_state \<Rightarrow> payload_error + build_state" where
  "place_instrument b v doc x st =
     (let i = doc @ ''_inst'' @ in_scope x in
      rbind (place_unit b doc i (instrument_node i x) st) (\<lambda>st1.
      rbind (place_hierarchy False b v i (in_hierarchy x) st1) (place_appendices b v i (in_appendices x))))"

fun place_instruments :: "builder \<Rightarrow> validity_fields \<Rightarrow> str \<Rightarrow> instrument list
  \<Rightarrow> build_state \<Rightarrow> payload_error + build_state" where
  "place_instruments b v doc [] st = Inr st"
| "place_instruments b v doc (x # xs) st = rbind (place_instrument b v doc x st) (place_instruments b v doc xs)"

subsection \<open>Accepted records\<close>

definition semantic_label_map :: "(str \<times> str) list" where
  "semantic_label_map = [(''Entity'', ''LegalSubject''), (''Concept'', ''LegalConcept''), (''Action'',
    ''LegalAction'')]"

definition semantic_types :: "str list" where
  "semantic_types = [''LegalConcept'', ''LegalSubject'', ''LegalAction'']"

definition or_value :: "pv \<Rightarrow> pv \<Rightarrow> pv" where
  "or_value v w = (if truthy v then v else w)"

definition ensure_semantic_node :: "builder \<Rightarrow> entity_index \<Rightarrow> pv \<Rightarrow>
  build_state \<Rightarrow> payload_error + build_state" where
  "ensure_semantic_node b entities raw st =
     (case map_of entities (py_str raw) of
        None \<Rightarrow> Inr st
      | Some source \<Rightarrow>
          let t = py_str (getp source ''type'');
              kind = (case map_of semantic_label_map t of Some k \<Rightarrow> k | None \<Rightarrow> t) in
          if kind \<notin> set semantic_types then Inr st
          else let name = or_value (getp source ''name'') (getp source ''label'') in
               add_node
                 [(''type'', PStr kind), (''id'', or_value (getp source ''id'') (PStr (semantic_id (bd_script
                   b) name))),
                  (''name'', name), (''aliases'', or_value (getp source ''aliases'') (POther ''[]'')),
                  (''description'', getp source ''description'')] st)"

definition resolve_endpoint_id :: "builder \<Rightarrow> str list \<Rightarrow> entity_index \<Rightarrow> pv
  \<Rightarrow> payload_error + str" where
  "resolve_endpoint_id b structural entities raw =
     (let key = py_str raw in
      if key \<in> set structural then Inr key
      else case map_of entities key of
        Some source \<Rightarrow>
          let name = or_value (or_value (getp source ''name'') (getp source ''label'')) (PStr key) in
          Inr (py_str (or_value (getp source ''id'') (PStr (semantic_id (bd_script b) name))))
      | None \<Rightarrow> Inl (MissingEntity key))"

definition reconciliation_route :: str where
  "reconciliation_route = ''CORPUS_RELATION_RECONCILIATION''"

definition place_record :: "builder \<Rightarrow> entity_index \<Rightarrow> accepted_record \<Rightarrow>
  build_state \<Rightarrow> payload_error + build_state" where
  "place_record b entities r st =
     (if ac_route r = PStr reconciliation_route then Inr st
      else
        rbind (resolve_endpoint_id b (bs_structural st) entities (ac_head r)) (\<lambda>h.
        rbind (resolve_endpoint_id b (bs_structural st) entities (ac_tail r)) (\<lambda>t.
        rbind (ensure_semantic_node b entities (ac_head r) st) (\<lambda>st1.
        rbind (ensure_semantic_node b entities (ac_tail r) st1) (\<lambda>st2.
          case ac_relation r of
            PStr rel \<Rightarrow>
              Inr (add_relation b h rel t (ac_props r) (relation_identity_discriminator (bd_script b) rel (ac_props r)) st2)
          | _ \<Rightarrow> Inl RelationTypeNotString)))))"

fun place_records :: "builder \<Rightarrow> entity_index \<Rightarrow> accepted_record list \<Rightarrow>
  build_state \<Rightarrow> payload_error + build_state" where
  "place_records b entities [] st = Inr st"
| "place_records b entities (r # rs) st = rbind (place_record b entities r st) (place_records b entities rs)"

subsection \<open>The payload\<close>

definition empty_build :: build_state where
  "empty_build = \<lparr>bs_nodes = [], bs_relations = [], bs_structural = []\<rparr>"

definition place_document :: "builder \<Rightarrow> document_meta document_info \<Rightarrow> payload_error + build_state" where
  "place_document b info =
     rbind (document_node info) (\<lambda>d.
     rbind (add_node d empty_build) (\<lambda>st1.
     rbind (issuer_node (bd_script b) (dm_issuer (di_rest info))) (\<lambda>i.
     rbind (add_node i st1) (\<lambda>st2.
       Inr ((add_relation b (di_id info) ''ISSUED_BY'' (py_str (getp i ''id'')) [] [] st2)
            \<lparr>bs_structural := [di_id info]\<rparr>)))))"

definition place_content :: "builder \<Rightarrow> document_meta parsed_document \<Rightarrow> build_state
  \<Rightarrow> payload_error + build_state" where
  "place_content b d st =
     (let info = do_info d; v = validity_of info (the (di_effective_from info)) in
      rbind (place_hierarchy True b v (di_id info) (do_hierarchy d) st) (\<lambda>st1.
      rbind (place_instruments b v (di_id info) (do_instruments d) st1) (place_appendices b v (di_id info) (do_appendices d))))"

definition build_graph_payload ::
  "builder \<Rightarrow> document_meta parsed_document \<Rightarrow> accepted_record list \<Rightarrow>
    entity_index \<Rightarrow> str \<Rightarrow> payload_error + graph_payload" where
  "build_graph_payload b d records entities doc_code =
     (if doc_code = [] then Inl MissingDocCode
      else
        rbind (place_document b (do_info d)) (\<lambda>st.
        rbind (place_content b d st) (\<lambda>st1.
        rbind (place_records b entities records st1) (\<lambda>st2.
          Inr \<lparr>gp_doc_code = doc_code, gp_graph_id = di_id (do_info d),
               gp_deferred = length (filter (\<lambda>r. ac_route r = PStr reconciliation_route) records),
               gp_payload_nodes = dict_values (bs_nodes st2), gp_payload_relations = dict_values (bs_relations st2)\<rparr>))))"

definition build_structural_payload ::
  "builder \<Rightarrow> document_meta parsed_document \<Rightarrow> str \<Rightarrow> payload_error + graph_payload" where
  "build_structural_payload b d doc_code = build_graph_payload b d [] [] doc_code"

end
