(* ===== verification/Payload_Consistency.thy ===== *)
theory Payload_Consistency
  imports Graph_Payload
begin

text \<open>
  The check of a whole payload before it is written
    (\<open>src/shared/ontology/payload_consistency_validator.py\<close>): identities,
  dangling ends, the hierarchy of CONTAINS, reference bundles, orphans and components. A dictionary with default
  values is an association list read with its default; a set that is only asked for membership is a list. Values of
  different types are different (Python takes 1 and True for equal, which only concerns malformed target counts).
\<close>

subsection \<open>Data\<close>

definition structural_pairs :: "(str \<times> str) list" where
  "structural_pairs =
     [(''Document'', ''Part''), (''Document'', ''Chapter''), (''Document'', ''Section''), (''Part'', ''Chapter''),
      (''Part'', ''Section''), (''Part'', ''Article''), (''Chapter'', ''Section''), (''Chapter'', ''Article''),
      (''Section'', ''Subsection''), (''Section'', ''Article''), (''Subsection'', ''Article''),
      (''Document'', ''Article''), (''Document'', ''Appendix''), (''Document'', ''AttachedInstrument''),
      (''AttachedInstrument'', ''Appendix''), (''AttachedInstrument'', ''Part''), (''AttachedInstrument'',
        ''Chapter''),
      (''AttachedInstrument'', ''Section''), (''AttachedInstrument'', ''Article''), (''Appendix'', ''Part''),
      (''Appendix'', ''Chapter''), (''Appendix'', ''Section''), (''Appendix'', ''Article''), (''Article'',
        ''Clause''),
      (''Clause'', ''Point'')]"

definition structural_labels :: "str list" where
  "structural_labels =
     [''Document'', ''Appendix'', ''AttachedInstrument'', ''Part'', ''Chapter'', ''Section'', ''Subsection'',
       ''Article'',
      ''Clause'', ''Point'']"

definition grouping_child_modes :: "(str \<times> str list) list" where
  "grouping_child_modes = [(''Chapter'', [''Section'', ''Article'']), (''Section'', [''Subsection'', ''Article''])]"

datatype consistency_error =
    DuplicateNodeId str
  | DanglingHead str
  | DanglingTail str
  | DuplicateIdentity str
  | MissingRelationId str
  | MalformedRelationId str
  | InvalidContains "str option" "str option"
  | ConflictingTargetCount str
  | InvalidTargetCount str
  | IncompleteBundle str nat int
  | OrphanNode str
  | NotOneParent str nat
  | MixedChildModes str str "str list"
  | StructuralCycle str
  | CannotOrderChildren str
  | DirectArticleTooLate str str str

record consistency_report =
  cr_errors :: "consistency_error list"
  cr_duplicate_nodes :: nat
  cr_duplicate_relations :: nat
  cr_orphans :: nat
  cr_components :: nat
  cr_by_type :: "(str \<times> nat) list"

definition cr_valid :: "consistency_report \<Rightarrow> bool" where
  "cr_valid r \<longleftrightarrow> cr_errors r = []"

text \<open>What the loop over the relations collects.\<close>

record relation_scan =
  sn_errors :: "consistency_error list"
  sn_seen :: "str list"
  sn_duplicates :: nat
  sn_by_type :: "(str \<times> nat) list"
  sn_edges :: "(str \<times> str) list"
  sn_parents :: "(str \<times> str list) list"
  sn_children :: "(str \<times> str list) list"
  sn_child_types :: "(str \<times> str list) list"
  sn_bundles :: "(str \<times> payload_relation list) list"

subsection \<open>Dictionaries with defaults\<close>

definition looked_up :: "(str \<times> 'a list) list \<Rightarrow> str \<Rightarrow> 'a list" where
  "looked_up d k = (case map_of d k of None \<Rightarrow> [] | Some xs \<Rightarrow> xs)"

definition count_up :: "str \<Rightarrow> (str \<times> nat) list \<Rightarrow> (str \<times> nat) list" where
  "count_up k d = AList.update k ((case map_of d k of None \<Rightarrow> 0 | Some n \<Rightarrow> n) + 1) d"

definition append_at :: "str \<Rightarrow> 'a \<Rightarrow> (str \<times> 'a list) list \<Rightarrow> (str
  \<times> 'a list) list" where
  "append_at k x d = AList.update k (looked_up d k @ [x]) d"

definition insert_at :: "str \<Rightarrow> 'a \<Rightarrow> (str \<times> 'a list) list \<Rightarrow> (str
  \<times> 'a list) list" where
  "insert_at k x d = (if x \<in> set (looked_up d k) then d else append_at k x d)"

subsection \<open>Relations\<close>

definition relation_identity :: "script \<Rightarrow> payload_relation \<Rightarrow> str" where
  "relation_identity sc r =
     relation_key (pr_head r) (pr_type r) (pr_tail r) (relation_identity_discriminator sc (pr_type r) (pr_props r))"

definition scan_identity :: "builder \<Rightarrow> payload_relation \<Rightarrow> relation_scan \<Rightarrow> relation_scan" where
  "scan_identity b r s =
     (let key = relation_identity (bd_script b) r; actual = getp (pr_props r) ''relation_id'';
          repeated = key \<in> set (sn_seen s) in
      s\<lparr>sn_seen := key # sn_seen s,
        sn_duplicates := sn_duplicates s + (if repeated then 1 else 0),
        sn_errors := sn_errors s @ (if repeated then [DuplicateIdentity key] else [])
          @ (if \<not> truthy actual then [MissingRelationId key]
             else if actual \<noteq> PStr (bd_sha1 b key) then [MalformedRelationId key] else [])\<rparr>)"

definition scan_contains :: "(str \<times> str) list \<Rightarrow> payload_relation \<Rightarrow> relation_scan
  \<Rightarrow> relation_scan" where
  "scan_contains types r s =
     (case (map_of types (pr_head r), map_of types (pr_tail r)) of
        (Some a, Some c) \<Rightarrow>
          if (a, c) \<notin> set structural_pairs then s\<lparr>sn_errors := sn_errors s @ [InvalidContains
            (Some a) (Some c)]\<rparr>
          else s\<lparr>sn_parents := append_at (pr_tail r) (pr_head r) (sn_parents s),
                 sn_children := append_at (pr_head r) (pr_tail r) (sn_children s),
                 sn_child_types :=
                   (if c \<in> set (looked_up grouping_child_modes a) then insert_at (pr_head r) c (sn_child_types s)
                    else sn_child_types s)\<rparr>
      | (a, c) \<Rightarrow> s\<lparr>sn_errors := sn_errors s @ [InvalidContains a c]\<rparr>)"

definition scan_bundle :: "payload_relation \<Rightarrow> relation_scan \<Rightarrow> relation_scan" where
  "scan_bundle r s =
     (let i = text_or_empty (pr_props r) ''reference_bundle_id'' in
      if i = [] then s else s\<lparr>sn_bundles := append_at i r (sn_bundles s)\<rparr>)"

definition scan_ends :: "(str \<times> str) list \<Rightarrow> payload_relation \<Rightarrow> relation_scan
  \<Rightarrow> relation_scan" where
  "scan_ends types r s =
     s\<lparr>sn_by_type := count_up (pr_type r) (sn_by_type s),
       sn_errors := sn_errors s @ (if map_of types (pr_head r) = None then [DanglingHead (pr_head r)] else [])
         @ (if map_of types (pr_tail r) = None then [DanglingTail (pr_tail r)] else [])\<rparr>"

definition scan_relation :: "builder \<Rightarrow> (str \<times> str) list \<Rightarrow> payload_relation
  \<Rightarrow> relation_scan \<Rightarrow> relation_scan" where
  "scan_relation b types r s =
     (let s1 = scan_identity b r (scan_ends types r s);
          s2 = (if pr_type r = ''CONTAINS'' then scan_contains types r s1
                else if pr_type r = ''REFERS_TO'' then scan_bundle r s1 else s1) in
      if map_of types (pr_head r) \<noteq> None \<and> map_of types (pr_tail r) \<noteq> None
      then s2\<lparr>sn_edges := sn_edges s2 @ [(pr_head r, pr_tail r)]\<rparr> else s2)"

definition empty_scan :: "consistency_error list \<Rightarrow> relation_scan" where
  "empty_scan es =
     \<lparr>sn_errors = es, sn_seen = [], sn_duplicates = 0, sn_by_type = [], sn_edges = [], sn_parents = [],
      sn_children = [], sn_child_types = [], sn_bundles = []\<rparr>"

definition scan_relations ::
  "builder \<Rightarrow> (str \<times> str) list \<Rightarrow> consistency_error list \<Rightarrow>
    payload_relation list \<Rightarrow> relation_scan" where
  "scan_relations b types es rs = foldl (\<lambda>s r. scan_relation b types r s) (empty_scan es) rs"

subsection \<open>The hierarchy\<close>

definition is_unit_type :: "str \<Rightarrow> bool" where
  "is_unit_type t \<longleftrightarrow> t \<in> set structural_labels \<and> t \<noteq> ''Document''"

definition parent_errors :: "(str \<times> str) list \<Rightarrow> relation_scan \<Rightarrow> consistency_error list" where
  "parent_errors types s =
     concat (map (\<lambda>(i, t). let n = length (looked_up (sn_parents s) i) in
       if is_unit_type t \<and> n \<noteq> 1 then [NotOneParent i n] else []) types)"

text \<open>\<open>_descendant_article_ids\<close>: breadth first, each node once.\<close>

definition open_keys :: "(str \<times> str list) list \<Rightarrow> str list \<Rightarrow> str set" where
  "open_keys children visited = fst ` set children - set visited"

function descendant_articles ::
  "(str \<times> str) list \<Rightarrow> (str \<times> str list) list \<Rightarrow> str list \<Rightarrow> str
    list \<Rightarrow> str list" where
  "descendant_articles types children [] visited = []"
| "descendant_articles types children (i # queue) visited =
     (if i \<in> set visited then descendant_articles types children queue visited
      else if map_of types i = Some ''Article'' then i # descendant_articles types children queue (i # visited)
      else descendant_articles types children (queue @ looked_up children i) (i # visited))"
  by pat_completeness auto

lemma open_keys_visit: "open_keys children (i # visited) \<subseteq> open_keys children visited"
  by (auto simp: open_keys_def)

lemma finite_open_keys [simp]: "finite (open_keys children visited)"
  by (simp add: open_keys_def)

lemma open_keys_shrink:
  "i \<in> fst ` set children \<Longrightarrow> i \<notin> set visited \<Longrightarrow>
     card (open_keys children (i # visited)) < card (open_keys children visited)"
  by (rule psubset_card_mono) (auto simp: open_keys_def)

lemma looked_up_absent: "i \<notin> fst ` set d \<Longrightarrow> looked_up d i = []"
  by (simp add: looked_up_def map_of_eq_None_iff [THEN iffD2])

termination descendant_articles
proof (relation "measures [\<lambda>(types, children, queue, visited). card (open_keys children visited),
    \<lambda>(types, children, queue, visited). length queue]", goal_cases)
  case (3 types children i queue visited)
  have "card (open_keys children (i # visited)) \<le> card (open_keys children visited)"
    by (rule card_mono) (auto simp: open_keys_visit)
  then show ?case by auto
next
  case (4 types children i queue visited)
  show ?case
  proof (cases "i \<in> fst ` set children")
    case True
    with 4 show ?thesis using open_keys_shrink [of i children visited] by simp
  next
    case False
    then have "open_keys children (i # visited) = open_keys children visited" by (auto simp: open_keys_def)
    with False show ?thesis by (simp add: looked_up_absent)
  qed
qed auto

text \<open>\<open>max\<close> and \<open>min\<close> with a key: the first of the greatest, the first of the
  least; the key raises on a blank.\<close>

fun keyed_best :: "('k \<Rightarrow> 'k \<Rightarrow> bool) \<Rightarrow> ('a \<times> 'k) \<Rightarrow> ('a
  \<times> 'k) list \<Rightarrow> 'a \<times> 'k" where
  "keyed_best better best [] = best"
| "keyed_best better best (x # xs) = keyed_best better (if better (snd x) (snd best) then x else best) xs"

definition keyed_numbers :: "script \<Rightarrow> str list \<Rightarrow> payload_error + (str \<times> (nat
  \<times> nat \<times> str) list) list" where
  "keyed_numbers sc ns =
     rmapm (\<lambda>n. case legal_number_sort_key sc n of None \<Rightarrow> Inl BlankNumber | Some k
       \<Rightarrow> Inr (n, k)) ns"

definition ordering_error ::
  "script \<Rightarrow> (str \<times> str) list \<Rightarrow> (str \<times> pv) list \<Rightarrow>
    relation_scan \<Rightarrow> str \<Rightarrow> payload_error + consistency_error option" where
  "ordering_error sc types numbers s chapter =
     (let below = looked_up (sn_children s) chapter;
          direct = filter (\<lambda>i. map_of types i = Some ''Article'') below;
          nested = concat (map (\<lambda>i. descendant_articles types (sn_children s) (looked_up (sn_children s) i) [])
            (filter (\<lambda>i. map_of types i = Some ''Section'') below));
          number_of = (\<lambda>i. case map_of numbers i of None \<Rightarrow> PNone | Some v \<Rightarrow> v);
          ds = map number_of direct; ns = map number_of nested in
      if ds = [] \<or> ns = [] \<or> list_ex (\<lambda>v. v = PNone \<or> v = PStr []) (ds @ ns) then Inr (Some
        (CannotOrderChildren chapter))
      else
        rbind (keyed_numbers sc (map py_str ds)) (\<lambda>kd.
        rbind (keyed_numbers sc (map py_str ns)) (\<lambda>kn.
          let latest = keyed_best (>) (kd ! 0) (tl kd); first = keyed_best (<) (kn ! 0) (tl kn) in
          Inr (if snd first \<le> snd latest then Some (DirectArticleTooLate chapter (fst latest) (fst first)) else None))))"

fun mode_errors ::
  "script \<Rightarrow> (str \<times> str) list \<Rightarrow> (str \<times> pv) list \<Rightarrow>
    relation_scan \<Rightarrow> (str \<times> str list) list
     \<Rightarrow> payload_error + consistency_error list" where
  "mode_errors sc types numbers s [] = Inr []"
| "mode_errors sc types numbers s ((i, kinds) # rest) =
     (let t = (case map_of types i of None \<Rightarrow> [] | Some x \<Rightarrow> x) in
      rbind (if length kinds \<le> 1 then Inr []
             else if t = ''Chapter'' \<and> set kinds = {''Article'', ''Section''}
             then rbind (ordering_error sc types numbers s i) (\<lambda>e. Inr (case e of None \<Rightarrow> []
               | Some x \<Rightarrow> [x]))
             else Inr [MixedChildModes t i (sort kinds)]) (\<lambda>es.
      rbind (mode_errors sc types numbers s rest) (\<lambda>more. Inr (es @ more))))"

text \<open>The walk from a unit to its document.\<close>

function walk_up :: "(str \<times> str) list \<Rightarrow> (str \<times> str list) list \<Rightarrow> str
  \<Rightarrow> str list \<Rightarrow> bool" where
  "walk_up types parents i visited =
     (if map_of types i = Some ''Document'' then True
      else if i \<in> set visited then False
      else case looked_up parents i of [p] \<Rightarrow> walk_up types parents p (i # visited) | _ \<Rightarrow> True)"
  by pat_completeness auto

termination walk_up
proof (relation "measure (\<lambda>(types, parents, i, visited). card (open_keys parents visited))", goal_cases)
  case (2 types parents i visited)
  then have "i \<in> fst ` set parents" by (metis looked_up_absent list.distinct(1))
  with 2 show ?case using open_keys_shrink [of i parents visited] by simp
qed auto

declare walk_up.simps [simp del]

definition cycle_errors :: "(str \<times> str) list \<Rightarrow> relation_scan \<Rightarrow> consistency_error list" where
  "cycle_errors types s =
     concat (map (\<lambda>(i, t). if is_unit_type t \<and> \<not> walk_up types (sn_parents s) i [] then
       [StructuralCycle i] else []) types)"

definition hierarchy_errors ::
  "script \<Rightarrow> (str \<times> str) list \<Rightarrow> (str \<times> pv) list \<Rightarrow>
    relation_scan \<Rightarrow> payload_error + consistency_error list" where
  "hierarchy_errors sc types numbers s =
     rbind (mode_errors sc types numbers s (sn_child_types s)) (\<lambda>es. Inr (parent_errors types s @ es @
       cycle_errors types s))"

subsection \<open>Bundles, orphans and components\<close>

definition bundle_errors :: "str \<times> payload_relation list \<Rightarrow> consistency_error list" where
  "bundle_errors x =
     (case x of (i, rs) \<Rightarrow>
        (case remdups (map (\<lambda>r. getp (pr_props r) ''reference_target_count'') rs) of
           [PInt n] \<Rightarrow>
             if n < 1 then [InvalidTargetCount i]
             else if int (length rs) \<noteq> n then [IncompleteBundle i (length rs) n] else []
         | [_] \<Rightarrow> [InvalidTargetCount i]
         | _ \<Rightarrow> [ConflictingTargetCount i]))"

definition orphans :: "(str \<times> str) list \<Rightarrow> relation_scan \<Rightarrow> str list" where
  "orphans types s =
     map fst (filter (\<lambda>(i, t). t \<noteq> ''Document'' \<and> i \<notin> fst ` set (sn_edges s) \<and>
       i \<notin> snd ` set (sn_edges s)) types)"

definition neighbours :: "(str \<times> str) list \<Rightarrow> str \<Rightarrow> str list" where
  "neighbours edges i = map snd (filter (\<lambda>e. fst e = i) edges) @ map fst (filter (\<lambda>e. snd e = i) edges)"

function visit :: "(str \<times> str) list \<Rightarrow> str list \<Rightarrow> str list \<Rightarrow> str list" where
  "visit edges unvisited [] = unvisited"
| "visit edges unvisited (i # queue) =
     (let found = remdups (filter (\<lambda>n. n \<in> set unvisited) (neighbours edges i)) in
      visit edges (filter (\<lambda>n. n \<notin> set found) unvisited) (queue @ found))"
  by pat_completeness auto

lemma filter_found_length:
  "distinct found \<Longrightarrow> set found \<subseteq> set xs \<Longrightarrow> length (filter (\<lambda>n.
    n \<notin> set found) xs) + length found \<le> length xs"
proof -
  assume "distinct found" "set found \<subseteq> set xs"
  then have "length found = card (set (filter (\<lambda>n. n \<in> set found) xs))"
    by (simp add: distinct_card Int_absorb1 Collect_conj_eq flip: Int_def)
  also have "\<dots> \<le> length (filter (\<lambda>n. n \<in> set found) xs)" by (rule card_length)
  finally show ?thesis using sum_length_filter_compl [of "\<lambda>n. n \<in> set found" xs] by simp
qed

termination visit
proof (relation "measure (\<lambda>(edges, unvisited, queue). length unvisited + length queue)", goal_cases)
  case (2 edges unvisited i queue found)
  then have "distinct found" "set found \<subseteq> set unvisited" by auto
  from filter_found_length [OF this] show ?case by simp
qed auto

lemma visit_length: "length (visit edges unvisited queue) \<le> length unvisited"
proof (induction edges unvisited queue rule: visit.induct)
  case (2 edges unvisited i queue)
  show ?case using 2 [OF refl] by (simp add: Let_def) (meson length_filter_le order_trans)
qed simp

declare visit.simps [simp del]

function component_count :: "(str \<times> str) list \<Rightarrow> str list \<Rightarrow> nat" where
  "component_count edges [] = 0"
| "component_count edges (i # rest) = 1 + component_count edges (visit edges rest [i])"
  by pat_completeness auto

termination component_count
  by (relation "measure (\<lambda>(edges, xs). length xs)") (auto simp: visit_length less_Suc_eq_le)

subsection \<open>The report\<close>

definition id_or_blank :: "props \<Rightarrow> str" where
  "id_or_blank n = (case map_of n ''id'' of None \<Rightarrow> [] | Some v \<Rightarrow> py_str v)"

definition duplicate_ids :: "props list \<Rightarrow> str list" where
  "duplicate_ids nodes =
     (let ids = map id_or_blank nodes in sort (filter (\<lambda>i. 1 < count_list ids i) (remdups ids)))"

definition types_of :: "props list \<Rightarrow> (str \<times> str) list" where
  "types_of nodes = foldl (\<lambda>d n. AList.update (py_str (getp n ''id'')) (py_str (getp n ''type'')) d) [] nodes"

definition numbers_of :: "props list \<Rightarrow> (str \<times> pv) list" where
  "numbers_of nodes = foldl (\<lambda>d n. AList.update (py_str (getp n ''id'')) (getp n ''number'') d) [] nodes"

definition validate_payload_consistency ::
  "builder \<Rightarrow> props list \<Rightarrow> payload_relation list \<Rightarrow> payload_error + consistency_report" where
  "validate_payload_consistency b nodes relations =
     (let types = types_of nodes; dups = duplicate_ids nodes;
          s = scan_relations b types (map DuplicateNodeId dups) relations; lonely = orphans types s in
      rbind (hierarchy_errors (bd_script b) types (numbers_of nodes) s) (\<lambda>es.
        Inr \<lparr>cr_errors = sn_errors s @ es @ concat (map bundle_errors (sn_bundles s)) @ map OrphanNode lonely,
             cr_duplicate_nodes = length dups, cr_duplicate_relations = sn_duplicates s, cr_orphans = length lonely,
             cr_components = component_count (sn_edges s) (map fst types), cr_by_type = sn_by_type s\<rparr>))"

definition validate_payload_consistency_or_raise ::
  "builder \<Rightarrow> props list \<Rightarrow> payload_relation list \<Rightarrow> (payload_error +
    consistency_error list) + consistency_report" where
  "validate_payload_consistency_or_raise b nodes relations =
     (case validate_payload_consistency b nodes relations of
        Inl e \<Rightarrow> Inl (Inl e)
      | Inr r \<Rightarrow> if cr_valid r then Inr r else Inl (Inr (cr_errors r)))"

end
