(* ===== verification/Payload_Properties.thy ===== *)
theory Payload_Properties
  imports Payload_Consistency
begin

text \<open>
  Properties of payloads: what the builder puts into a payload is connected and carries sound identities, so that the
  consistency check can only object to the shape of the hierarchy; and a payload that passes the check is a forest
  below its documents.
\<close>

subsection \<open>The invariant of the builder\<close>

definition ids :: "build_state \<Rightarrow> str set" where
  "ids st = fst ` set (bs_nodes st)"

definition links :: "build_state \<Rightarrow> (str \<times> str) set" where
  "links st = (\<lambda>(k, r). (pr_head r, pr_tail r)) ` set (bs_relations st)"

definition bar_free :: "str \<Rightarrow> bool" where
  "bar_free s \<longleftrightarrow> CHR ''|'' \<notin> set s"

definition sound_relation :: "builder \<Rightarrow> str \<Rightarrow> payload_relation \<Rightarrow> bool" where
  "sound_relation b k r \<longleftrightarrow>
     pr_type r \<in> {''CONTAINS'', ''ISSUED_BY''} \<and> k = relation_key (pr_head r) (pr_type r) (pr_tail r) []
     \<and> getp (pr_props r) ''relation_id'' = PStr (bd_sha1 b k)"

definition named_node :: "str \<Rightarrow> props \<Rightarrow> bool" where
  "named_node i n \<longleftrightarrow> (\<exists>v. map_of n ''id'' = Some v \<and> py_str v = i)"

definition build_ok :: "builder \<Rightarrow> str \<Rightarrow> build_state \<Rightarrow> bool" where
  "build_ok b doc st \<longleftrightarrow>
     distinct (map fst (bs_nodes st)) \<and> (\<forall>(i, n) \<in> set (bs_nodes st). named_node i n)
     \<and> distinct (map fst (bs_relations st))
     \<and> (\<forall>(k, r) \<in> set (bs_relations st). sound_relation b k r \<and> pr_head r \<in> ids st \<and> pr_tail r \<in> ids st)
     \<and> (\<exists>n. map_of (bs_nodes st) doc = Some n \<and> py_str (getp n ''type'') = ''Document'')
     \<and> ((\<forall>i \<in> ids st. bar_free i) \<longrightarrow> (\<forall>i \<in> ids st. (doc, i) \<in> (links st)\<^sup>*))"

definition grows :: "builder \<Rightarrow> str \<Rightarrow> build_state \<Rightarrow> build_state \<Rightarrow> bool" where
  "grows b doc st st' \<longleftrightarrow> build_ok b doc st' \<and> ids st \<subseteq> ids st'"

lemma ids_structural [simp]:
  "ids (st\<lparr>bs_structural := x\<rparr>) = ids st" "links (st\<lparr>bs_structural := x\<rparr>) = links st"
  "build_ok b doc (st\<lparr>bs_structural := x\<rparr>) = build_ok b doc st"
  by (simp_all add: ids_def links_def build_ok_def)

lemma root_present:
  assumes "build_ok b doc st"
  shows "doc \<in> ids st"
proof -
  from assms obtain n where "map_of (bs_nodes st) doc = Some n" unfolding build_ok_def by blast
  from map_of_SomeD [OF this] show ?thesis by (force simp: ids_def)
qed

lemma grows_refl: "build_ok b doc st \<Longrightarrow> grows b doc st st"
  by (simp add: grows_def)

lemma grows_trans: "grows b doc st st' \<Longrightarrow> grows b doc st' st'' \<Longrightarrow> grows b doc st st''"
  by (auto simp: grows_def)

lemma grows_ok: "grows b doc st st' \<Longrightarrow> build_ok b doc st'"
  by (simp add: grows_def)

lemma grows_ids: "grows b doc st st' \<Longrightarrow> i \<in> ids st \<Longrightarrow> i \<in> ids st'"
  by (auto simp: grows_def)

lemma map_of_optional_fields:
  "map_of n k = Some v \<Longrightarrow> map_of (foldl (\<lambda>m f. setdefault f PNone m) n fs) k = Some v"
  by (induction fs arbitrary: n) simp_all

lemma named_optional: "named_node i n \<Longrightarrow> named_node i (with_optional_fields n)"
  by (auto simp: named_node_def with_optional_fields_def map_of_optional_fields split: option.splits)

lemma named_getp: "named_node i n \<Longrightarrow> py_str (getp n ''id'') = i"
  by (auto simp: named_node_def getp_def)

lemma named_typed [simp]: "named_node i (typed kind i fs)"
  by (simp add: named_node_def typed_def)

text \<open>What adding a node changes.\<close>

lemma add_node_shape:
  assumes "add_node n st = Inr st'" and "named_node i n"
  shows "bs_relations st' = bs_relations st \<and> bs_structural st' = bs_structural st \<and> ids st' = insert i (ids st)
    \<and> (bs_nodes st' = bs_nodes st \<or> (i \<notin> ids st \<and> bs_nodes st' = bs_nodes st @ [(i, with_optional_fields n)]))"
proof (cases "map_of (bs_nodes st) i")
  case None
  then have "i \<notin> ids st" by (simp add: map_of_eq_None_iff ids_def)
  with None assms show ?thesis by (auto simp: add_node_def Let_def named_getp ids_def)
next
  case (Some node)
  then have "i \<in> ids st" using map_of_SomeD [OF Some] by (force simp: ids_def)
  with Some assms show ?thesis by (auto simp: add_node_def Let_def named_getp ids_def split: if_splits)
qed

lemma key_split:
  "bar_free h \<Longrightarrow> bar_free h' \<Longrightarrow> h @ CHR ''|'' # x = h' @ CHR ''|'' # y \<Longrightarrow> h = h' \<and> x = y"
proof (induction h arbitrary: h')
  case Nil
  then show ?case by (cases h') (auto simp: bar_free_def)
next
  case (Cons c h)
  then show ?case by (cases h') (auto simp: bar_free_def)
qed

lemma relation_key_inject:
  assumes "bar_free h" "bar_free h'" "bar_free t" "bar_free t'" "r \<in> {''CONTAINS'', ''ISSUED_BY''}"
    "r' \<in> {''CONTAINS'', ''ISSUED_BY''}" "relation_key h r t [] = relation_key h' r' t' []"
  shows "h = h' \<and> t = t'"
proof -
  have bars: "bar_free r" "bar_free r'" using assms(5,6) by (auto simp: bar_free_def)
  have "h @ CHR ''|'' # (r @ CHR ''|'' # (t @ CHR ''|'' # [])) = h' @ CHR ''|'' # (r' @ CHR ''|'' # (t' @ CHR ''|'' # []))"
    using assms(7) by (simp add: relation_key_def)
  from key_split [OF assms(1,2) this] have h: "h = h'"
    and rest: "r @ CHR ''|'' # (t @ CHR ''|'' # []) = r' @ CHR ''|'' # (t' @ CHR ''|'' # [])" by blast+
  from key_split [OF bars rest] have "t @ CHR ''|'' # [] = t' @ CHR ''|'' # []" by blast
  with h show ?thesis by simp
qed

lemma set_update_subset: "set (AList.update k v d) \<subseteq> insert (k, v) (set d)"
  by (induction d) auto

lemma set_update_keeps: "x \<in> set d \<Longrightarrow> fst x \<noteq> k \<Longrightarrow> x \<in> set (AList.update k v d)"
  by (induction d) auto

lemma update_present: "(k, v) \<in> set (AList.update k v d)"
  by (induction d) auto

lemma made_relation_sound:
  "r \<in> {''CONTAINS'', ''ISSUED_BY''} \<Longrightarrow>
     sound_relation b (relation_key h r t []) (make_payload_relation b h r t [] [])"
  by (simp add: sound_relation_def make_payload_relation_def Let_def getp_def deterministic_relation_id_def setdefault_def)

text \<open>A node together with the relation that leads to it.\<close>

lemma attach_ok:
  assumes ok: "build_ok b doc st" and added: "add_node n st = Inr st'" and name: "named_node i n"
    and parent: "parent \<in> ids st" and r: "r \<in> {''CONTAINS'', ''ISSUED_BY''}"
  shows "grows b doc st (add_relation b parent r i [] [] st')" and "i \<in> ids (add_relation b parent r i [] [] st')"
proof -
  let ?st = "add_relation b parent r i [] [] st'" and ?k = "relation_key parent r i []"
  note shape = add_node_shape [OF added name]
  have ids: "ids ?st = insert i (ids st)" using shape by (simp add: add_relation_def ids_def)
  have rels: "bs_relations ?st = AList.update ?k (make_payload_relation b parent r i [] []) (bs_relations st)"
    using shape by (simp add: add_relation_def)
  have nodes: "bs_nodes ?st = bs_nodes st'" by (simp add: add_relation_def)
  have made: "pr_head (make_payload_relation b parent r i [] []) = parent"
    "pr_tail (make_payload_relation b parent r i [] []) = i"
    by (simp_all add: make_payload_relation_def Let_def)
  have sound: "sound_relation b k x \<and> pr_head x \<in> ids ?st \<and> pr_tail x \<in> ids ?st"
    if "(k, x) \<in> set (bs_relations ?st)" for k x
    using that set_update_subset [of ?k "make_payload_relation b parent r i [] []" "bs_relations st"] ok parent made
      made_relation_sound [OF r] unfolding rels ids build_ok_def by auto
  have reach: "(doc, j) \<in> (links ?st)\<^sup>*" if free: "\<forall>j \<in> ids ?st. bar_free j" and j: "j \<in> ids ?st" for j
  proof -
    have "links st \<subseteq> links ?st"
    proof
      fix e assume "e \<in> links st"
      then obtain k x where x: "(k, x) \<in> set (bs_relations st)" "e = (pr_head x, pr_tail x)" by (auto simp: links_def)
      show "e \<in> links ?st"
      proof (cases "k = ?k")
        case False
        then have "(k, x) \<in> set (bs_relations ?st)" using set_update_keeps [OF x(1)] by (simp add: rels)
        with x(2) show ?thesis by (force simp: links_def)
      next
        case True
        from ok x(1) have "sound_relation b k x" "pr_head x \<in> ids st" "pr_tail x \<in> ids st" by (auto simp: build_ok_def)
        with True have "pr_head x = parent \<and> pr_tail x = i"
          using relation_key_inject [of "pr_head x" parent "pr_tail x" i "pr_type x" r] free ids parent r
          by (auto simp: sound_relation_def)
        moreover have "(?k, make_payload_relation b parent r i [] []) \<in> set (bs_relations ?st)"
          unfolding rels by (rule update_present)
        ultimately show ?thesis using x(2) made by (force simp: links_def)
      qed
    qed
    then have sub: "(links st)\<^sup>* \<subseteq> (links ?st)\<^sup>*" by (rule rtrancl_mono)
    have old: "(doc, j) \<in> (links ?st)\<^sup>*" if "j \<in> ids st" for j
      using ok free that sub ids by (auto simp: build_ok_def)
    have "(parent, i) \<in> links ?st"
      using update_present [of ?k "make_payload_relation b parent r i [] []" "bs_relations st"] made
      by (force simp: links_def rels)
    with old [OF parent] have "(doc, i) \<in> (links ?st)\<^sup>*" by (rule rtrancl_into_rtrancl)
    with old j ids show ?thesis by auto
  qed
  have "distinct (map fst (bs_nodes st'))" "\<forall>(i, n) \<in> set (bs_nodes st'). named_node i n"
    "\<exists>n. map_of (bs_nodes st') doc = Some n \<and> py_str (getp n ''type'') = ''Document''"
    using shape ok named_optional [OF name] by (auto simp: build_ok_def ids_def)
  then have "build_ok b doc ?st"
    using ok sound reach ids unfolding build_ok_def nodes rels by (auto simp: distinct_update)
  then show "grows b doc st ?st" using ids by (auto simp: grows_def)
  show "i \<in> ids ?st" using ids by simp
qed

lemma place_unit_ok:
  assumes "place_unit b parent i node st = Inr st'" "build_ok b doc st" "parent \<in> ids st" "named_node i node"
  shows "grows b doc st st' \<and> i \<in> ids st'"
proof -
  obtain st1 where st1: "add_node node (st\<lparr>bs_structural := i # bs_structural st\<rparr>) = Inr st1"
    "st' = add_relation b parent ''CONTAINS'' i [] [] st1"
    using assms(1) by (auto simp: place_unit_def rbind_Inr_iff)
  have "build_ok b doc (st\<lparr>bs_structural := i # bs_structural st\<rparr>)" "parent \<in> ids (st\<lparr>bs_structural := i # bs_structural st\<rparr>)"
    using assms by simp_all
  from attach_ok [OF this(1) st1(1) assms(4) this(2), of "''CONTAINS''"] st1(2) show ?thesis by (simp add: grows_def)
qed

lemma place_group_ok:
  "place_group once b parent i node st = Inr st' \<Longrightarrow> build_ok b doc st \<Longrightarrow> parent \<in> ids st \<Longrightarrow> named_node i node
     \<Longrightarrow> grows b doc st st' \<and> i \<in> ids st'"
  using place_unit_ok [of b parent i node st st' doc] by (auto simp: place_group_def grows_def ids_def split: if_splits)

lemma named_nodes [simp]:
  "named_node i (unit_node kind i number title)" "named_node i (article_node v i a)" "named_node i (clause_node v i c)"
  "named_node i (point_node v i p)" "named_node i (appendix_node v i x)" "named_node i (instrument_node i y)"
  by (simp_all add: unit_node_def article_node_def clause_node_def point_node_def appendix_node_def instrument_node_def)

text \<open>From the groups of an article to the whole payload.\<close>

lemma place_part_ok:
  "place_part once b owner tabs a st = Inr (st', p, n) \<Longrightarrow> build_ok b doc st \<Longrightarrow> owner \<in> ids st \<Longrightarrow>
     grows b doc st st' \<and> p \<in> ids st'"
  by (auto simp: place_part_def Let_def rbind_Inr_iff grows_refl split: option.splits dest!: place_group_ok)

lemma place_chapter_ok:
  "place_chapter once b owner parent a st = Inr (st', p) \<Longrightarrow> build_ok b doc st \<Longrightarrow> parent \<in> ids st \<Longrightarrow>
     grows b doc st st' \<and> p \<in> ids st'"
  by (auto simp: place_chapter_def rbind_Inr_iff grows_refl split: option.splits dest!: place_group_ok)

lemma place_subsection_ok:
  "place_subsection once b owner tabs key s sec a st = Inr (st', p) \<Longrightarrow> build_ok b doc st \<Longrightarrow> sec \<in> ids st \<Longrightarrow>
     grows b doc st st' \<and> p \<in> ids st'"
  by (auto simp: place_subsection_def Let_def rbind_Inr_iff grows_refl split: option.splits if_splits dest!: place_group_ok)

lemma place_section_ok:
  assumes "place_section once b owner tabs part parent a st = Inr (st', p)" "build_ok b doc st" "parent \<in> ids st"
  shows "grows b doc st st' \<and> p \<in> ids st'"
proof (cases "(st', p) = (st, parent)")
  case True
  with assms show ?thesis by (simp add: grows_refl)
next
  case False
  with assms(1) obtain i key s node st1 where g: "place_group once b parent i node st = Inr st1" "named_node i node"
    and u: "place_subsection once b owner tabs key s i a st1 = Inr (st', p)"
    by (auto simp: place_section_def Let_def rbind_Inr_iff split: option.splits if_splits)
  from place_group_ok [OF g(1) assms(2,3) g(2)] have st1: "grows b doc st st1" "i \<in> ids st1" by blast+
  from place_subsection_ok [OF u grows_ok [OF st1(1)] st1(2)] st1(1) show ?thesis by (blast intro: grows_trans)
qed

lemma place_points_ok:
  "place_points b v parent ps st = Inr st' \<Longrightarrow> build_ok b doc st \<Longrightarrow> parent \<in> ids st \<Longrightarrow> grows b doc st st'"
proof (induction ps arbitrary: st)
  case (Cons p ps)
  then obtain i st1 where st1: "place_unit b parent i (point_node v i p) st = Inr st1" "place_points b v parent ps st1 = Inr st'"
    by (auto simp: rbind_Inr_iff place_point_def Let_def)
  from place_unit_ok [OF st1(1) Cons.prems(2,3)] have g: "grows b doc st st1" by simp
  with Cons.IH [OF st1(2) grows_ok [OF g] grows_ids [OF g Cons.prems(3)]] show ?case by (blast intro: grows_trans)
qed (simp add: grows_refl)

lemma place_clauses_ok:
  "place_clauses b v parent cs st = Inr st' \<Longrightarrow> build_ok b doc st \<Longrightarrow> parent \<in> ids st \<Longrightarrow> grows b doc st st'"
proof (induction cs arbitrary: st)
  case (Cons c cs)
  then obtain i st1 st2 where st: "place_unit b parent i (clause_node v i c) st = Inr st1"
    "place_points b v i (cl_points c) st1 = Inr st2" "place_clauses b v parent cs st2 = Inr st'"
    by (auto simp: rbind_Inr_iff place_clause_def Let_def)
  from place_unit_ok [OF st(1) Cons.prems(2,3)] have g1: "grows b doc st st1" "i \<in> ids st1" by simp_all
  from g1 place_points_ok [OF st(2) grows_ok [OF g1(1)] g1(2)] have g2: "grows b doc st st2" by (blast intro: grows_trans)
  with Cons.IH [OF st(3) grows_ok [OF g2] grows_ids [OF g2 Cons.prems(3)]] show ?case by (blast intro: grows_trans)
qed (simp add: grows_refl)

lemma place_article_ok:
  assumes "place_article body b v owner tabs as a st = Inr st'" "build_ok b doc st" "owner \<in> ids st"
  shows "grows b doc st st'"
proof -
  from assms(1) obtain st1 p1 part st2 p2 st3 p3 i st4 where
    1: "place_part body b owner tabs a st = Inr (st1, p1, part)" and
    2: "place_chapter body b owner p1 a st1 = Inr (st2, p2)" and
    3: "place_section body b owner tabs part p2 a st2 = Inr (st3, p3)" and
    4: "place_unit b p3 i (article_node v i a) st3 = Inr st4" and
    5: "place_clauses b v i (ar_clauses a) st4 = Inr st'"
    by (auto simp: place_article_def rbind_Inr_iff)
  from place_part_ok [OF 1 assms(2,3)] have g1: "grows b doc st st1" "p1 \<in> ids st1" by simp_all
  from place_chapter_ok [OF 2 grows_ok [OF g1(1)] g1(2)] have g2: "grows b doc st1 st2" "p2 \<in> ids st2" by simp_all
  from place_section_ok [OF 3 grows_ok [OF g2(1)] g2(2)] have g3: "grows b doc st2 st3" "p3 \<in> ids st3" by simp_all
  from place_unit_ok [OF 4 grows_ok [OF g3(1)] g3(2)] have g4: "grows b doc st3 st4" "i \<in> ids st4" by simp_all
  from place_clauses_ok [OF 5 grows_ok [OF g4(1)] g4(2)] g1(1) g2(1) g3(1) g4(1) show ?thesis
    by (blast intro: grows_trans)
qed

lemma place_articles_ok:
  "place_articles body b v owner tabs as xs st = Inr st' \<Longrightarrow> build_ok b doc st \<Longrightarrow> owner \<in> ids st \<Longrightarrow> grows b doc st st'"
proof (induction xs arbitrary: st)
  case (Cons x xs)
  then obtain st1 where st: "place_article body b v owner tabs as x st = Inr st1"
    "place_articles body b v owner tabs as xs st1 = Inr st'" by (auto simp: rbind_Inr_iff)
  from place_article_ok [OF st(1) Cons.prems(2,3)] have g: "grows b doc st st1" .
  with Cons.IH [OF st(2) grows_ok [OF g] grows_ids [OF g Cons.prems(3)]] show ?case by (blast intro: grows_trans)
qed (simp add: grows_refl)

lemma place_hierarchy_ok:
  "place_hierarchy body b v owner h st = Inr st' \<Longrightarrow> build_ok b doc st \<Longrightarrow> owner \<in> ids st \<Longrightarrow> grows b doc st st'"
  by (auto simp: place_hierarchy_def rbind_Inr_iff dest: place_articles_ok)

lemma place_appendix_ok:
  assumes "place_appendix b v owner a st = Inr st'" "build_ok b doc st" "owner \<in> ids st"
  shows "grows b doc st st'"
proof -
  from assms(1) obtain i st1 where st: "place_unit b owner i (appendix_node v i a) st = Inr st1"
    "place_hierarchy False b v i (ap_hierarchy a) st1 = Inr st'" by (auto simp: place_appendix_def Let_def rbind_Inr_iff)
  from place_unit_ok [OF st(1) assms(2,3)] have g: "grows b doc st st1" "i \<in> ids st1" by simp_all
  with place_hierarchy_ok [OF st(2) grows_ok [OF g(1)] g(2)] show ?thesis by (blast intro: grows_trans)
qed

lemma place_appendices_ok:
  "place_appendices b v owner xs st = Inr st' \<Longrightarrow> build_ok b doc st \<Longrightarrow> owner \<in> ids st \<Longrightarrow> grows b doc st st'"
proof (induction xs arbitrary: st)
  case (Cons x xs)
  then obtain st1 where st: "place_appendix b v owner x st = Inr st1" "place_appendices b v owner xs st1 = Inr st'"
    by (auto simp: rbind_Inr_iff)
  from place_appendix_ok [OF st(1) Cons.prems(2,3)] have g: "grows b doc st st1" .
  with Cons.IH [OF st(2) grows_ok [OF g] grows_ids [OF g Cons.prems(3)]] show ?case by (blast intro: grows_trans)
qed (simp add: grows_refl)

lemma place_instruments_ok:
  "place_instruments b v owner xs st = Inr st' \<Longrightarrow> build_ok b doc st \<Longrightarrow> owner \<in> ids st \<Longrightarrow> grows b doc st st'"
proof (induction xs arbitrary: st)
  case (Cons x xs)
  then obtain i st1 st2 st3 where st: "place_unit b owner i (instrument_node i x) st = Inr st1"
    "place_hierarchy False b v i (in_hierarchy x) st1 = Inr st2" "place_appendices b v i (in_appendices x) st2 = Inr st3"
    "place_instruments b v owner xs st3 = Inr st'"
    by (auto simp: rbind_Inr_iff place_instrument_def Let_def)
  from place_unit_ok [OF st(1) Cons.prems(2,3)] have g1: "grows b doc st st1" "i \<in> ids st1" by simp_all
  from place_hierarchy_ok [OF st(2) grows_ok [OF g1(1)] g1(2)] have g2: "grows b doc st1 st2" .
  from place_appendices_ok [OF st(3) grows_ok [OF g2] grows_ids [OF g2 g1(2)]] have g3: "grows b doc st2 st3" .
  from g1(1) g2 g3 have g: "grows b doc st st3" by (blast intro: grows_trans)
  with Cons.IH [OF st(4) grows_ok [OF g] grows_ids [OF g Cons.prems(3)]] show ?case by (blast intro: grows_trans)
qed (simp add: grows_refl)

text \<open>The document and its issuer.\<close>

lemma document_node_named: "document_node info = Inr d \<Longrightarrow> named_node (di_id info) d"
  by (auto simp: document_node_def Let_def split: if_splits)

lemma issuer_node_named: "issuer_node sc name = Inr n \<Longrightarrow> named_node (py_str (getp n ''id'')) n"
  by (auto simp: issuer_node_def typed_def named_node_def getp_def split: option.splits)

lemma document_node_type: "document_node info = Inr d \<Longrightarrow> map_of d ''type'' = Some (PStr ''Document'')"
  by (auto simp: document_node_def Let_def typed_def split: if_splits)

lemma document_alone:
  assumes "named_node i d" "map_of d ''type'' = Some (PStr ''Document'')" "add_node d empty_build = Inr st"
  shows "build_ok b i st"
proof -
  have "st = empty_build\<lparr>bs_nodes := [(i, with_optional_fields d)]\<rparr>"
    using assms by (simp add: add_node_def empty_build_def named_getp Let_def)
  moreover have "getp (with_optional_fields d) ''type'' = PStr ''Document''"
    using assms(2) by (simp add: with_optional_fields_def getp_def map_of_optional_fields)
  ultimately show ?thesis using named_optional [OF assms(1)] by (simp add: build_ok_def empty_build_def ids_def)
qed

lemma place_document_ok: "place_document b info = Inr st \<Longrightarrow> build_ok b (di_id info) st"
proof -
  assume "place_document b info = Inr st"
  then obtain d st1 i st2 where d: "document_node info = Inr d" "add_node d empty_build = Inr st1"
    "issuer_node (bd_script b) (dm_issuer (di_rest info)) = Inr i" "add_node i st1 = Inr st2"
    and st: "st = (add_relation b (di_id info) ''ISSUED_BY'' (py_str (getp i ''id'')) [] [] st2)\<lparr>bs_structural := [di_id info]\<rparr>"
    by (auto simp: place_document_def rbind_Inr_iff)
  from document_alone [OF document_node_named [OF d(1)] document_node_type [OF d(1)] d(2)] have ok: "build_ok b (di_id info) st1" .
  then have "di_id info \<in> ids st1" by (rule root_present)
  from attach_ok(1) [OF ok d(4) issuer_node_named [OF d(3)] this, of "''ISSUED_BY''"] show ?thesis
    by (simp add: st grows_def)
qed

lemma place_content_ok:
  assumes "place_content b d st = Inr st'" "build_ok b (di_id (do_info d)) st"
  shows "build_ok b (di_id (do_info d)) st'"
proof -
  let ?doc = "di_id (do_info d)"
  from assms(1) obtain v st1 st2 where st: "place_hierarchy True b v ?doc (do_hierarchy d) st = Inr st1"
    "place_instruments b v ?doc (do_instruments d) st1 = Inr st2" "place_appendices b v ?doc (do_appendices d) st2 = Inr st'"
    by (auto simp: place_content_def Let_def rbind_Inr_iff)
  have in0: "?doc \<in> ids st" using assms(2) by (rule root_present)
  from place_hierarchy_ok [OF st(1) assms(2) in0] have g1: "grows b ?doc st st1" .
  from place_instruments_ok [OF st(2) grows_ok [OF g1] grows_ids [OF g1 in0]] have g2: "grows b ?doc st1 st2" .
  from place_appendices_ok [OF st(3) grows_ok [OF g2] grows_ids [OF g2 grows_ids [OF g1 in0]]] show ?thesis
    by (rule grows_ok)
qed

lemma structural_payload_ok:
  assumes "build_structural_payload b d code = Inr p"
  obtains st where "build_ok b (di_id (do_info d)) st" "gp_payload_nodes p = dict_values (bs_nodes st)"
    "gp_payload_relations p = dict_values (bs_relations st)"
proof -
  from assms obtain st st1 where st: "place_document b (do_info d) = Inr st" "place_content b d st = Inr st1"
    "gp_payload_nodes p = dict_values (bs_nodes st1)" "gp_payload_relations p = dict_values (bs_relations st1)"
    by (auto simp: build_structural_payload_def build_graph_payload_def rbind_Inr_iff split: if_splits)
  from that [OF place_content_ok [OF st(2) place_document_ok [OF st(1)]] st(3,4)] show ?thesis .
qed

subsection \<open>The consistency check of a built payload\<close>

lemma keys_foldl_update:
  "fst ` set (foldl (\<lambda>d n. AList.update (f n) (g n) d) d ns) = fst ` set d \<union> f ` set ns"
  by (induction ns arbitrary: d) (auto simp: dom_update)

lemma types_of_keys: "fst ` set (types_of ns) = (\<lambda>n. py_str (getp n ''id'')) ` set ns"
  by (simp add: types_of_def keys_foldl_update)

lemma types_of_known: "map_of (types_of ns) i = None \<longleftrightarrow> i \<notin> (\<lambda>n. py_str (getp n ''id'')) ` set ns"
  by (simp add: map_of_eq_None_iff types_of_keys)

text \<open>The errors a payload of the builder may still have.\<close>

definition shape_error :: "builder \<Rightarrow> bool \<Rightarrow> consistency_error \<Rightarrow> bool" where
  "shape_error b free e \<longleftrightarrow>
     (case e of
        InvalidContains a c \<Rightarrow> True | NotOneParent i n \<Rightarrow> True | MixedChildModes t i ks \<Rightarrow> True
      | StructuralCycle i \<Rightarrow> True | CannotOrderChildren i \<Rightarrow> True | DirectArticleTooLate c i j \<Rightarrow> True
      | MissingRelationId k \<Rightarrow> bd_sha1 b k = [] | OrphanNode i \<Rightarrow> \<not> free | _ \<Rightarrow> False)"

lemma ordering_error_shape: "ordering_error sc types numbers s c = Inr (Some e) \<Longrightarrow> shape_error b free e"
  by (auto simp: ordering_error_def Let_def rbind_Inr_iff shape_error_def split: if_splits)

lemma rbind_cases: "rbind m f = Inr y \<Longrightarrow> (\<And>x. m = Inr x \<Longrightarrow> f x = Inr y \<Longrightarrow> P) \<Longrightarrow> P"
  by (auto simp: rbind_Inr_iff)

lemma mode_errors_shape: "mode_errors sc types numbers s xs = Inr es \<Longrightarrow> list_all (shape_error b free) es"
proof (induction xs arbitrary: es)
  case (Cons x xs)
  obtain i kinds where x: "x = (i, kinds)" by fastforce
  let ?t = "case map_of types i of None \<Rightarrow> [] | Some t \<Rightarrow> t"
  from Cons.prems obtain es1 es2 where
    1: "(if length kinds \<le> 1 then Inr []
         else if ?t = ''Chapter'' \<and> set kinds = {''Article'', ''Section''}
         then rbind (ordering_error sc types numbers s i) (\<lambda>e. Inr (case e of None \<Rightarrow> [] | Some x \<Rightarrow> [x]))
         else Inr [MixedChildModes ?t i (sort kinds)]) = (Inr es1 :: payload_error + consistency_error list)"
    and 2: "mode_errors sc types numbers s xs = Inr es2" and es: "es = es1 @ es2"
    unfolding x mode_errors.simps Let_def
    by (elim rbind_cases) (rule that, assumption, assumption, simp)
  have "list_all (shape_error b free) es1"
  proof (cases "length kinds \<le> 1")
    case True
    with 1 show ?thesis by simp
  next
    case long: False
    show ?thesis
    proof (cases "?t = ''Chapter'' \<and> set kinds = {''Article'', ''Section''}")
      case True
      with 1 long have "rbind (ordering_error sc types numbers s i) (\<lambda>e. Inr (case e of None \<Rightarrow> [] | Some x \<Rightarrow> [x])) = Inr es1"
        by (simp only: simp_thms if_False if_True)
      then obtain e where e: "ordering_error sc types numbers s i = Inr e"
        and es1: "Inr (case e of None \<Rightarrow> [] | Some x \<Rightarrow> [x]) = (Inr es1 :: payload_error + consistency_error list)"
        by (rule rbind_cases)
      show ?thesis using e es1 ordering_error_shape [of sc types numbers s i _ b free] by (cases e) auto
    next
      case False
      with 1 long have "(Inr [MixedChildModes ?t i (sort kinds)] :: payload_error + consistency_error list) = Inr es1"
        by (simp only: simp_thms if_False)
      then show ?thesis by (auto simp: shape_error_def)
    qed
  qed
  with Cons.IH [OF 2] es show ?case by simp
qed simp

lemma hierarchy_errors_shape:
  assumes "hierarchy_errors sc types numbers s = Inr es"
  shows "list_all (shape_error b free) es"
proof -
  obtain ms where ms: "mode_errors sc types numbers s (sn_child_types s) = Inr ms"
    and es: "es = parent_errors types s @ ms @ cycle_errors types s"
    using assms by (auto simp: hierarchy_errors_def rbind_Inr_iff)
  have "list_all (shape_error b free) (parent_errors types s)" "list_all (shape_error b free) (cycle_errors types s)"
    by (auto simp: parent_errors_def cycle_errors_def Let_def list_all_iff shape_error_def split: if_splits)
  with mode_errors_shape [OF ms, of b free] es show ?thesis by simp
qed

definition scan_good :: "builder \<Rightarrow> bool \<Rightarrow> payload_relation list \<Rightarrow> relation_scan \<Rightarrow> bool" where
  "scan_good b free rs s \<longleftrightarrow>
     list_all (shape_error b free) (sn_errors s) \<and> sn_duplicates s = 0 \<and> sn_bundles s = []
     \<and> set (sn_seen s) = relation_identity (bd_script b) ` set rs
     \<and> set (sn_edges s) = (\<lambda>r. (pr_head r, pr_tail r)) ` set rs"

lemma sound_identity: "sound_relation b k r \<Longrightarrow> relation_identity sc r = k"
  by (auto simp: sound_relation_def relation_identity_def relation_identity_discriminator_def)

lemma scan_relation_good:
  assumes good: "scan_good b free rs s" and r: "sound_relation b k r" and new: "k \<notin> relation_identity (bd_script b) ` set rs"
    and ends: "map_of types (pr_head r) \<noteq> None" "map_of types (pr_tail r) \<noteq> None"
  shows "scan_good b free (rs @ [r]) (scan_relation b types r s)"
proof -
  have key: "relation_identity (bd_script b) r = k" using r by (rule sound_identity)
  have id: "getp (pr_props r) ''relation_id'' = PStr (bd_sha1 b k)" using r by (simp add: sound_relation_def)
  have step: "scan_good b free (rs @ [r]) (t\<lparr>sn_edges := sn_edges t @ [(pr_head r, pr_tail r)]\<rparr>)"
    if "list_all (shape_error b free) (sn_errors t)" "sn_duplicates t = 0" "sn_bundles t = []"
      "sn_seen t = k # sn_seen s" "sn_edges t = sn_edges s" for t
    using that good key by (auto simp: scan_good_def)
  let ?s1 = "scan_identity b r (scan_ends types r s)"
  have s1: "list_all (shape_error b free) (sn_errors ?s1)" "sn_duplicates ?s1 = 0" "sn_bundles ?s1 = []"
    "sn_seen ?s1 = k # sn_seen s" "sn_edges ?s1 = sn_edges s"
    using good new ends by (auto simp: scan_identity_def scan_ends_def Let_def key id scan_good_def shape_error_def)
  obtain a c where ac: "map_of types (pr_head r) = Some a" "map_of types (pr_tail r) = Some c" using ends by blast
  have s2: "list_all (shape_error b free) (sn_errors (scan_contains types r ?s1))" "sn_duplicates (scan_contains types r ?s1) = 0"
    "sn_bundles (scan_contains types r ?s1) = []" "sn_seen (scan_contains types r ?s1) = k # sn_seen s"
    "sn_edges (scan_contains types r ?s1) = sn_edges s"
    using s1 by (simp_all add: scan_contains_def ac shape_error_def)
  have type: "pr_type r = ''CONTAINS'' \<or> pr_type r = ''ISSUED_BY''" using r by (auto simp: sound_relation_def)
  show ?thesis
    using type step [OF s1] step [OF s2] ends by (auto simp: scan_relation_def Let_def)
qed

lemma scan_relations_good:
  assumes "list_all (shape_error b free) es" and "\<forall>(k, r) \<in> set xs. sound_relation b k r" "distinct (map fst xs)"
    and "\<forall>(k, r) \<in> set xs. map_of types (pr_head r) \<noteq> None \<and> map_of types (pr_tail r) \<noteq> None"
  shows "scan_good b free (map snd xs) (scan_relations b types es (map snd xs))"
  using assms(2-4)
proof (induction xs rule: rev_induct)
  case Nil
  show ?case using assms(1) by (simp add: scan_relations_def empty_scan_def scan_good_def)
next
  case (snoc x xs)
  obtain k r where x: "x = (k, r)" by fastforce
  have old: "relation_identity (bd_script b) ` set (map snd xs) = fst ` set xs"
    using snoc.prems(1) by (auto simp: image_iff sound_identity) (force simp: sound_identity)+
  have "scan_good b free (map snd xs) (scan_relations b types es (map snd xs))" using snoc by simp
  from scan_relation_good [OF this, of k r types] snoc.prems old show ?case
    by (simp add: x scan_relations_def)
qed

lemma reached_is_tail: "(a, i) \<in> L\<^sup>* \<Longrightarrow> i \<noteq> a \<Longrightarrow> i \<in> snd ` L"
  by (induction rule: rtrancl_induct) force+

lemma named_ids:
  "\<forall>(i, n) \<in> set xs. named_node i n \<Longrightarrow> map id_or_blank (map snd xs) = map fst xs"
  "\<forall>(i, n) \<in> set xs. named_node i n \<Longrightarrow> map (\<lambda>n. py_str (getp n ''id'')) (map snd xs) = map fst xs"
  by (auto simp: named_node_def id_or_blank_def getp_def)

lemma distinct_count: "distinct xs \<Longrightarrow> count_list xs i \<le> 1"
  by (induction xs) (auto simp: count_notin)

lemma no_repeated: "distinct xs \<Longrightarrow> filter (\<lambda>i. 1 < count_list xs i) (remdups xs) = []"
  using distinct_count [of xs] by (auto simp: filter_empty_conv not_less)

lemma distinct_foldl_update:
  "distinct (map fst d) \<Longrightarrow> distinct (map fst (foldl (\<lambda>d n. AList.update (f n) (g n) d) d ns))"
  by (induction ns arbitrary: d) (auto simp: distinct_update)

lemma types_of_named:
  "\<forall>(i, n) \<in> set xs. named_node i n \<Longrightarrow> distinct (map fst xs) \<Longrightarrow>
     map_of (types_of (map snd xs)) i = map_option (\<lambda>n. py_str (getp n ''type'')) (map_of xs i)"
proof (induction xs rule: rev_induct)
  case (snoc x xs)
  obtain j n where x: "x = (j, n)" by fastforce
  have "map_of xs j = None" using snoc.prems(2) by (simp add: x map_of_eq_None_iff)
  moreover have "py_str (getp n ''id'') = j" using snoc.prems(1) by (simp add: x named_getp)
  ultimately show ?case using snoc by (auto simp: x types_of_def update_conv' map_add_def split: option.splits)
qed (simp add: types_of_def)

text \<open>The report on any payload the invariant describes.\<close>

lemma consistent_report:
  assumes ok: "build_ok b doc st" and run: "validate_payload_consistency b (dict_values (bs_nodes st)) (dict_values (bs_relations st)) = Inr r"
    and free: "free \<longleftrightarrow> (\<forall>i \<in> ids st. bar_free i)"
  shows "list_all (shape_error b free) (cr_errors r) \<and> cr_duplicate_nodes r = 0 \<and> cr_duplicate_relations r = 0
    \<and> (free \<longrightarrow> cr_orphans r = 0)"
proof -
  let ?ns = "map snd (bs_nodes st)" and ?rs = "map snd (bs_relations st)"
  let ?types = "types_of ?ns"
  from ok have nodes: "distinct (map fst (bs_nodes st))" "\<forall>(i, n) \<in> set (bs_nodes st). named_node i n"
    and rels: "distinct (map fst (bs_relations st))" "\<forall>(k, r) \<in> set (bs_relations st). sound_relation b k r"
    and ends: "\<forall>(k, r) \<in> set (bs_relations st). pr_head r \<in> ids st \<and> pr_tail r \<in> ids st"
    by (auto simp: build_ok_def)
  have typed: "map_of ?types doc = Some ''Document''"
    using ok types_of_named [OF nodes(2,1), of doc] by (auto simp: build_ok_def)
  have no_dups: "duplicate_ids ?ns = []"
    unfolding duplicate_ids_def Let_def named_ids(1) [OF nodes(2)] no_repeated [OF nodes(1)] by simp
  have known: "map_of ?types i = None \<longleftrightarrow> i \<notin> ids st" for i
    using arg_cong [OF named_ids(2) [OF nodes(2)], of set] by (simp add: types_of_known ids_def image_image)
  let ?s = "scan_relations b ?types [] ?rs"
  have scan: "scan_good b free ?rs ?s"
    by (rule scan_relations_good) (use rels ends known in auto)
  have lonely: "orphans ?types ?s = []" if free
  proof -
    have "i \<in> snd ` set (sn_edges ?s)" if "(i, t) \<in> set ?types" "t \<noteq> ''Document''" for i t
    proof -
      have d: "distinct (map fst ?types)" by (simp add: types_of_def distinct_foldl_update)
      have "i \<in> ids st" using that(1) known [of i] by (auto simp: map_of_eq_None_iff image_iff)
      moreover have "i \<noteq> doc" using that typed map_of_is_SomeI [OF d that(1)] by (auto simp: dict_values_def)
      moreover have "links st = set (sn_edges ?s)" using scan by (simp add: scan_good_def links_def image_image split_def)
      ultimately show ?thesis
        using ok \<open>free\<close> free reached_is_tail [of doc i "links st"] by (auto simp: build_ok_def)
    qed
    then show ?thesis by (force simp: orphans_def filter_empty_conv)
  qed
  from run obtain es where es: "hierarchy_errors (bd_script b) ?types (numbers_of ?ns) ?s = Inr es"
    and r: "cr_errors r = sn_errors ?s @ es @ concat (map bundle_errors (sn_bundles ?s)) @ map OrphanNode (orphans ?types ?s)"
      "cr_duplicate_nodes r = 0" "cr_duplicate_relations r = sn_duplicates ?s" "cr_orphans r = length (orphans ?types ?s)"
    by (auto simp: validate_payload_consistency_def Let_def dict_values_def no_dups rbind_Inr_iff)
  have "list_all (shape_error b free) (map OrphanNode (orphans ?types ?s))"
    using lonely by (cases free) (auto simp: shape_error_def list_all_iff)
  with scan hierarchy_errors_shape [OF es, of b free] lonely r show ?thesis
    by (auto simp: scan_good_def)
qed

text \<open>
  C11: Builder and consistency check agree: on the payload of a document the check never finds a repeated node or
  relation, a dangling end or a wrong relation identifier, and, unless an identifier contains the separator of
  relation keys, no node without relation. All it can object to is the shape of the hierarchy.
\<close>

theorem structural_payload_consistent:
  "case build_structural_payload b d code of
     Inl e \<Rightarrow> True
   | Inr p \<Rightarrow>
       (case validate_payload_consistency b (gp_payload_nodes p) (gp_payload_relations p) of
          Inl e \<Rightarrow> True
        | Inr r \<Rightarrow>
            let free = list_all (\<lambda>n. bar_free (py_str (getp n ''id''))) (gp_payload_nodes p) in
            list_all (shape_error b free) (cr_errors r)
            \<and> cr_duplicate_nodes r = 0 \<and> cr_duplicate_relations r = 0 \<and> (if free then cr_orphans r = 0 else True))"
proof (cases "build_structural_payload b d code")
  case (Inr p)
  then obtain st where ok: "build_ok b (di_id (do_info d)) st" and p: "gp_payload_nodes p = dict_values (bs_nodes st)"
    "gp_payload_relations p = dict_values (bs_relations st)" by (rule structural_payload_ok)
  have "map (\<lambda>n. py_str (getp n ''id'')) (map snd (bs_nodes st)) = map fst (bs_nodes st)"
    using ok by (intro named_ids) (simp add: build_ok_def)
  then have free: "list_all (\<lambda>n. bar_free (py_str (getp n ''id''))) (gp_payload_nodes p) \<longleftrightarrow> (\<forall>i \<in> ids st. bar_free i)"
    by (auto simp: p dict_values_def ids_def list_all_iff)
  show ?thesis
    using consistent_report [OF ok _ free] Inr by (auto simp: p Let_def split: sum.splits)
qed simp

subsection \<open>What a consistent payload guarantees\<close>

definition parent_links :: "payload_relation list \<Rightarrow> str \<Rightarrow> str list" where
  "parent_links rs i = map pr_head (filter (\<lambda>r. pr_type r = ''CONTAINS'' \<and> pr_tail r = i) rs)"

definition climbs :: "payload_relation list \<Rightarrow> (str \<times> str) set" where
  "climbs rs = {(i, j). j \<in> set (parent_links rs i)}"

lemma looked_up_append_at: "looked_up (append_at k x d) i = (if i = k then looked_up d k @ [x] else looked_up d i)"
  by (simp add: looked_up_def append_at_def update_conv')

definition parents_known :: "(str \<times> str) list \<Rightarrow> payload_relation list \<Rightarrow> relation_scan \<Rightarrow> bool" where
  "parents_known types rs s \<longleftrightarrow>
     (\<forall>i. looked_up (sn_parents s) i = parent_links rs i)
     \<and> (\<forall>r \<in> set rs. pr_type r = ''CONTAINS'' \<longrightarrow> (\<exists>a c. map_of types (pr_head r) = Some a
          \<and> map_of types (pr_tail r) = Some c \<and> (a, c) \<in> set structural_pairs))"

lemma scan_relation_parents:
  assumes "sn_errors (scan_relation b types r s) = []" and known: "sn_errors s = [] \<Longrightarrow> parents_known types rs s"
  shows "parents_known types (rs @ [r]) (scan_relation b types r s)"
proof -
  let ?s1 = "scan_identity b r (scan_ends types r s)"
  have parents1: "sn_parents ?s1 = sn_parents s" by (simp add: scan_identity_def scan_ends_def Let_def)
  have errors1: "sn_errors ?s1 = [] \<Longrightarrow> sn_errors s = []" by (simp add: scan_identity_def scan_ends_def Let_def)
  show ?thesis
  proof (cases "pr_type r = ''CONTAINS''")
    case False
    with assms(1) have "sn_errors ?s1 = []"
      by (auto simp: scan_relation_def Let_def scan_bundle_def split: if_splits)
    with known errors1 have "parents_known types rs s" by blast
    with False show ?thesis
      by (auto simp: parents_known_def parent_links_def scan_relation_def Let_def scan_bundle_def parents1)
  next
    case True
    with assms(1) have none: "sn_errors (scan_contains types r ?s1) = []"
      by (auto simp: scan_relation_def Let_def split: if_splits)
    then obtain a c where ac: "map_of types (pr_head r) = Some a" "map_of types (pr_tail r) = Some c"
      "(a, c) \<in> set structural_pairs"
      by (auto simp: scan_contains_def split: option.splits if_splits)
    with none have "sn_errors ?s1 = []" by (simp add: scan_contains_def)
    with known errors1 have "parents_known types rs s" by blast
    with True ac show ?thesis
      by (auto simp: parents_known_def parent_links_def scan_relation_def Let_def scan_contains_def parents1 looked_up_append_at)
  qed
qed

lemma scan_relations_parents:
  "sn_errors (scan_relations b types es rs) = [] \<Longrightarrow> parents_known types rs (scan_relations b types es rs)"
proof (induction rs rule: rev_induct)
  case Nil
  show ?case by (simp add: parents_known_def parent_links_def scan_relations_def empty_scan_def looked_up_def)
next
  case (snoc r rs)
  have step: "scan_relations b types es (rs @ [r]) = scan_relation b types r (scan_relations b types es rs)"
    by (simp add: scan_relations_def)
  from snoc.prems have "sn_errors (scan_relation b types r (scan_relations b types es rs)) = []" by (simp only: step)
  from scan_relation_parents [OF this snoc.IH] show ?case by (simp only: step)
qed

lemma walk_reaches:
  assumes "walk_up types parents i visited"
    and "\<And>j t. map_of types j = Some t \<Longrightarrow> is_unit_type t \<Longrightarrow> length (looked_up parents j) = 1"
    and "\<And>j p. p \<in> set (looked_up parents j) \<Longrightarrow> \<exists>t. map_of types p = Some t \<and> t \<in> set structural_labels"
    and "\<exists>t. map_of types i = Some t \<and> t \<in> set structural_labels"
  shows "\<exists>d. map_of types d = Some ''Document'' \<and> (i, d) \<in> {(j, p). p \<in> set (looked_up parents j)}\<^sup>*"
  using assms
proof (induction types parents i visited rule: walk_up.induct)
  case (1 types parents i visited)
  show ?case
  proof (cases "map_of types i = Some ''Document''")
    case True
    then show ?thesis by blast
  next
    case other: False
    then obtain t where "map_of types i = Some t" "is_unit_type t" using "1.prems"(4) by (auto simp: is_unit_type_def)
    then have "length (looked_up parents i) = 1" by (rule "1.prems"(2))
    then obtain p where p: "looked_up parents i = [p]" by (auto simp: length_Suc_conv)
    from other p "1.prems"(1) have new: "i \<notin> set visited" and walk: "walk_up types parents p (i # visited)"
      by (auto simp: walk_up.simps [of types parents i visited] split: if_splits)
    have here: "\<exists>t. map_of types p = Some t \<and> t \<in> set structural_labels" using "1.prems"(3) [of p i] p by simp
    have "\<exists>d. map_of types d = Some ''Document'' \<and> (p, d) \<in> {(j, p). p \<in> set (looked_up parents j)}\<^sup>*"
      by (rule "1.IH" [OF other new p refl walk]) (erule (1) "1.prems"(2), erule "1.prems"(3), rule here)
    then obtain d where d: "map_of types d = Some ''Document''" "(p, d) \<in> {(j, p). p \<in> set (looked_up parents j)}\<^sup>*"
      by blast
    have "(i, p) \<in> {(j, p). p \<in> set (looked_up parents j)}" using p by simp
    with d show ?thesis by (meson converse_rtrancl_into_rtrancl)
  qed
qed

lemma scan_relation_errors:
  assumes "sn_errors (scan_relation b types r s) = []"
  shows "sn_errors (scan_identity b r (scan_ends types r s)) = []"
proof (cases "pr_type r = ''CONTAINS''")
  case True
  with assms have "sn_errors (scan_contains types r (scan_identity b r (scan_ends types r s))) = []"
    by (auto simp: scan_relation_def Let_def split: if_splits)
  then show ?thesis by (simp add: scan_contains_def split: option.splits if_splits)
next
  case False
  with assms show ?thesis by (auto simp: scan_relation_def Let_def scan_bundle_def split: if_splits)
qed

lemma scan_relation_duplicates:
  "sn_duplicates (scan_relation b types r s) = sn_duplicates (scan_identity b r (scan_ends types r s))"
  by (simp add: scan_relation_def scan_contains_def scan_bundle_def Let_def split: option.splits)

lemma scan_relation_count:
  assumes "sn_errors (scan_relation b types r s) = []"
  shows "sn_errors s = [] \<and> sn_duplicates (scan_relation b types r s) = sn_duplicates s"
  using scan_relation_errors [OF assms] unfolding scan_relation_duplicates
  by (simp add: scan_identity_def scan_ends_def Let_def split: if_splits)

lemma no_errors_no_duplicates:
  "sn_errors (scan_relations b types (map DuplicateNodeId dups) rs) = [] \<Longrightarrow>
     dups = [] \<and> sn_duplicates (scan_relations b types (map DuplicateNodeId dups) rs) = 0"
proof (induction rs rule: rev_induct)
  case (snoc r rs)
  let ?s = "scan_relations b types (map DuplicateNodeId dups) rs"
  have step: "scan_relations b types (map DuplicateNodeId dups) (rs @ [r]) = scan_relation b types r ?s"
    by (simp add: scan_relations_def)
  from snoc.prems have "sn_errors (scan_relation b types r ?s) = []" by (simp only: step)
  note count = scan_relation_count [OF this]
  have "dups = [] \<and> sn_duplicates ?s = 0" by (rule snoc.IH) (rule conjunct1 [OF count])
  then show ?case unfolding step conjunct2 [OF count] .
qed (simp add: scan_relations_def empty_scan_def)

lemma pairs_are_structural: "(a, c) \<in> set structural_pairs \<Longrightarrow> a \<in> set structural_labels"
  by (auto simp: structural_pairs_def structural_labels_def)

text \<open>
  C12: A payload that passes the check is a forest below its documents: every structural node that is not a document has
  exactly one CONTAINS relation leading to it, and the way up from it ends at a document; identifiers do not repeat.
\<close>

theorem consistent_payload_forest:
  "case validate_payload_consistency_or_raise b nodes relations of
     Inl e \<Rightarrow> True
   | Inr r \<Rightarrow>
       list_all (\<lambda>(i, t).
         if is_unit_type t
         then length (parent_links relations i) = 1
              \<and> (\<exists>d. map_of (types_of nodes) d = Some ''Document'' \<and> (i, d) \<in> (climbs relations)\<^sup>*)
         else True) (types_of nodes)
       \<and> cr_duplicate_nodes r = 0 \<and> cr_duplicate_relations r = 0 \<and> cr_orphans r = 0"
proof (cases "validate_payload_consistency_or_raise b nodes relations")
  case (Inr r)
  let ?types = "types_of nodes" and ?dups = "duplicate_ids nodes"
  let ?s = "scan_relations b ?types (map DuplicateNodeId ?dups) relations"
  from Inr obtain es where es: "hierarchy_errors (bd_script b) ?types (numbers_of nodes) ?s = Inr es"
    and none: "sn_errors ?s = []" "es = []" "orphans ?types ?s = []"
    and r: "cr_duplicate_nodes r = length ?dups" "cr_duplicate_relations r = sn_duplicates ?s" "cr_orphans r = 0"
    by (auto simp: validate_payload_consistency_or_raise_def validate_payload_consistency_def Let_def cr_valid_def
        rbind_Inr_iff split: sum.splits if_splits)
  from scan_relations_parents [OF none(1)] have known: "parents_known ?types relations ?s" .
  have dups: "?dups = [] \<and> sn_duplicates ?s = 0" using none(1) by (rule no_errors_no_duplicates)
  have one: "length (looked_up (sn_parents ?s) i) = 1" if "(i, t) \<in> set ?types" "is_unit_type t" for i t
    using es none(2) that by (fastforce simp: hierarchy_errors_def rbind_Inr_iff parent_errors_def Let_def split: if_splits)
  have walk: "walk_up ?types (sn_parents ?s) i []" if "(i, t) \<in> set ?types" "is_unit_type t" for i t
    using es none(2) that by (fastforce simp: hierarchy_errors_def rbind_Inr_iff cycle_errors_def split: if_splits)
  have links: "{(j, p). p \<in> set (looked_up (sn_parents ?s) j)} = climbs relations"
    using known by (simp add: climbs_def parents_known_def)
  have labels: "\<exists>t. map_of ?types p = Some t \<and> t \<in> set structural_labels" if "p \<in> set (looked_up (sn_parents ?s) j)" for j p
    using that known pairs_are_structural by (fastforce simp: parents_known_def parent_links_def)
  have "length (parent_links relations i) = 1
      \<and> (\<exists>d. map_of ?types d = Some ''Document'' \<and> (i, d) \<in> (climbs relations)\<^sup>*)"
    if it: "(i, t) \<in> set ?types" "is_unit_type t" for i t
  proof -
    have "map_of ?types i = Some t"
      using it(1) by (intro map_of_is_SomeI) (simp_all add: types_of_def distinct_foldl_update)
    then have "\<exists>t. map_of ?types i = Some t \<and> t \<in> set structural_labels" using it(2) by (auto simp: is_unit_type_def)
    from walk_reaches [OF walk [OF it] one labels this] show ?thesis
      using one [OF it] known map_of_SomeD by (simp add: links parents_known_def) fastforce
  qed
  then show ?thesis using Inr r dups by (auto simp: list_all_iff)
qed simp

end
