(* ===== verification/Payload_Example.thy ===== *)
theory Payload_Example
  imports Payload_Properties Conversation_Runs
begin

text \<open>
  A document of two parts that both have a chapter I, which the parser's validator and the consistency check accept.
\<close>

definition plain_script :: script where
  "plain_script =
     \<lparr>sc_unicode = ascii_unicode, sc_lower = id, sc_upper = id, sc_isupper = (\<lambda>s. False), sc_nfc = id, sc_unmarked = id,
      sc_sha256 = id\<rparr>"

definition plain_builder :: builder where
  "plain_builder = \<lparr>bd_script = plain_script, bd_sha1 = id\<rparr>"

definition sample_meta :: document_meta where
  "sample_meta =
     \<lparr>dm_title = ''Law'', dm_number = ''1'', dm_type = ''Law'', dm_issued = None, dm_effective_to = None,
      dm_issuer = Some ''assembly'', dm_status = ''ACTIVE'', dm_url = None, dm_sector = None, dm_field = None,
      dm_signer_title = None, dm_signer_name = None\<rparr>"

definition sample_article :: "str \<Rightarrow> str \<Rightarrow> article" where
  "sample_article n part =
     \<lparr>ar_number = n, ar_title = Some ''t'', ar_content = ''c'', ar_part = Some part, ar_chapter = Some ''I'',
      ar_chapter_title = Some ''general'', ar_section = None, ar_subsection = None, ar_clauses = [], ar_start = 0,
      ar_end = 0\<rparr>"

definition sample_part :: "str \<Rightarrow> part_unit" where
  "sample_part n = \<lparr>pa_number = n, pa_title = ''p'', pa_start = 0, pa_end = 0\<rparr>"

text \<open>Two parts, each with a chapter I of one article.\<close>

definition two_parts :: "document_meta parsed_document" where
  "two_parts =
     \<lparr>do_info = \<lparr>di_id = ''d'', di_effective_from = Some 1, di_rest = sample_meta\<rparr>,
      do_hierarchy = \<lparr>hi_articles = [sample_article ''1'' ''1'', sample_article ''2'' ''2''],
        hi_parts = [sample_part ''1'', sample_part ''2''], hi_sections = [], hi_subsections = []\<rparr>,
      do_appendices = [], do_instruments = [], do_unparsed = [], do_metadata = None\<rparr>"


end
