(* ===== verification/Record_Gate.thy ===== *)
theory Record_Gate
  imports Ontology_Validators Py_Text Ranking
begin

text \<open>
  The fate of an extracted relation: the consistency check of a record
  (\<open>src/pipeline/validation/record_consistency_validator.py\<close>), its confidence
  (\<open>src/pipeline/scoring/confidence_scorer.py\<close>), and the decision gate with its atomic bundles
  (\<open>src/pipeline/pipeline/orchestrator.py\<close>). A record is modelled by the entries the gate reads and writes.
\<close>

subsection \<open>Consistency of a record\<close>

datatype record_fault =
    OntologyInvalid
  | TemporalSelfLoop str
  | MissingEffectiveDate str
  | GuidesNeedsDocuments
  | UnresolvedExternal "str list"
  | UnresolvedLocal "str list"

record record_consistency =
  rc_valid :: bool
  rc_reason :: "str option"
  rc_blocking :: bool
  rc_hard_fail :: bool
  rc_fault :: "record_fault option"

definition hard_fault :: "record_fault \<Rightarrow> record_consistency" where
  "hard_fault f = \<lparr>rc_valid = False, rc_reason = None, rc_blocking = False, rc_hard_fail = True, rc_fault = Some f\<rparr>"

definition blocking_fault :: "str \<Rightarrow> record_fault \<Rightarrow> record_consistency" where
  "blocking_fault reason f =
     \<lparr>rc_valid = False, rc_reason = Some reason, rc_blocking = True, rc_hard_fail = False, rc_fault = Some f\<rparr>"

definition record_temporal_relations :: "str list" where
  "record_temporal_relations = [''AMENDS'', ''REPEALS'', ''REPLACES'']"

definition record_document_relations :: "str list" where
  "record_document_relations = [''GUIDES'']"

definition validate_record_relation ::
  "str \<Rightarrow> str \<Rightarrow> str \<Rightarrow> props \<Rightarrow> str list \<Rightarrow> bool \<Rightarrow> str option \<Rightarrow> str option \<Rightarrow> record_consistency" where
  "validate_record_relation rel h t p known ontology_valid head_type tail_type =
     (let missing = filter (\<lambda>i. i \<notin> set known) [h, t] in
      if \<not> ontology_valid then hard_fault OntologyInvalid
      else if rel \<in> set record_temporal_relations \<and> h = t then hard_fault (TemporalSelfLoop rel)
      else if rel \<in> set record_temporal_relations \<and> \<not> truthy (getp p ''effective_from'')
      then blocking_fault ''temporal_metadata_incomplete'' (MissingEffectiveDate rel)
      else if rel \<in> set record_document_relations \<and> (head_type \<noteq> Some ''Document'' \<or> tail_type \<noteq> Some ''Document'')
      then blocking_fault ''guides_doc_type_unknown'' GuidesNeedsDocuments
      else if missing \<noteq> []
      then (if rel = ''REFERS_TO'' \<or> rel \<in> set record_temporal_relations \<or> rel \<in> set record_document_relations
            then blocking_fault ''missing_external_document_registry'' (UnresolvedExternal missing)
            else hard_fault (UnresolvedLocal missing))
      else \<lparr>rc_valid = True, rc_reason = None, rc_blocking = False, rc_hard_fail = False, rc_fault = None\<rparr>)"

subsection \<open>Confidence\<close>

definition weight_valid :: float where "weight_valid = fl (3 / 10)"
definition weight_evidence :: float where "weight_evidence = fl (2 / 10)"
definition weight_minor :: float where "weight_minor = fl (1 / 10)"

record confidence_breakdown =
  cb_schema :: float
  cb_ontology :: float
  cb_evidence :: float
  cb_resolvable :: float
  cb_direction :: float

definition confidence_total :: "confidence_breakdown \<Rightarrow> float" where
  "confidence_total c =
     fadd (fadd (fadd (fadd (fmul (cb_schema c) weight_valid) (fmul (cb_ontology c) weight_valid))
       (fmul (cb_evidence c) weight_evidence)) (fmul (cb_resolvable c) weight_minor)) (fmul (cb_direction c) weight_minor)"

text \<open>The share of the words of the evidence that the article has, or 1 when it contains the evidence.\<close>

definition evidence_tokens :: "str \<Rightarrow> str list" where
  "evidence_tokens evidence = remdups (py_split (py_strip evidence))"

definition score_evidence_presence :: "str \<Rightarrow> str \<Rightarrow> float" where
  "score_evidence_presence evidence article =
     (let e = py_strip evidence; tokens = evidence_tokens evidence in
      if evidence = [] \<or> article = [] then 0
      else if e \<noteq> [] \<and> sublist e article then 1
      else if tokens = [] then 0
      else fdiv (of_nat (length (filter (\<lambda>t. t \<in> set (py_split article)) tokens))) (of_nat (length tokens)))"

definition score_entities_resolvable :: "str list \<Rightarrow> str list \<Rightarrow> float" where
  "score_entities_resolvable ids known =
     (if ids = [] then 0 else fdiv (of_nat (length (filter (\<lambda>i. i \<in> set known) ids))) (of_nat (length ids)))"

definition score_relation :: "bool \<Rightarrow> bool \<Rightarrow> str \<Rightarrow> str \<Rightarrow> str \<Rightarrow> str \<Rightarrow> str list \<Rightarrow> confidence_breakdown" where
  "score_relation schema_valid ontology_valid evidence article h t known =
     \<lparr>cb_schema = (if schema_valid then 1 else 0), cb_ontology = (if ontology_valid then 1 else 0),
      cb_evidence = score_evidence_presence evidence article, cb_resolvable = score_entities_resolvable [h, t] known,
      cb_direction = (if ontology_valid then 1 else 0)\<rparr>"

subsection \<open>The decision gate\<close>

datatype decision = Accepted | InReview | Rejected

record gate_record =
  gr_superseded :: bool
  gr_schema_valid :: bool
  gr_ontology_valid :: bool
  gr_consistency_valid :: bool
  gr_source_method :: "str option"
  gr_relation_method :: "str option"
  gr_reason :: "str option"
  gr_blocking :: "bool option"
  gr_confidence :: float
  gr_provider_bundle :: "str option"
  gr_reference_bundle :: "str option"
  gr_decision :: "decision option"

record gate_settings =
  gs_auto :: float
  gs_review :: float

definition default_gate :: gate_settings where
  "default_gate = \<lparr>gs_auto = fl (8 / 10), gs_review = fl (55 / 100)\<rparr>"

definition diagram_review_reasons :: "str list" where
  "diagram_review_reasons = [''unresolved_diagram_target'', ''temporal_metadata_incomplete'']"

definition trusted_methods :: "str list" where
  "trusted_methods = [''RULE'', ''ENTITY_LINKING'', ''DIAGRAM'', ''PROVIDER_HTML'']"

definition decided :: "decision \<Rightarrow> str option \<Rightarrow> bool \<Rightarrow> gate_record \<Rightarrow> gate_record" where
  "decided d reason blocking r = r\<lparr>gr_decision := Some d, gr_reason := reason, gr_blocking := Some blocking\<rparr>"

definition or_low_confidence :: "str option \<Rightarrow> str option" where
  "or_low_confidence reason = Some (str_or reason ''low_confidence'')"

definition apply_decision_gate :: "gate_settings \<Rightarrow> gate_record \<Rightarrow> gate_record" where
  "apply_decision_gate gs r =
     (if gr_superseded r then decided Rejected (Some ''superseded_by_deterministic_resolution'') False r
      else if \<not> gr_schema_valid r then decided Rejected (gr_reason r) (gr_blocking r = Some True) r
      else if gr_source_method r = Some ''DIAGRAM'' \<and> (\<exists>x \<in> set diagram_review_reasons. gr_reason r = Some x)
      then decided InReview (gr_reason r) True r
      else if \<not> gr_ontology_valid r then decided Rejected (gr_reason r) (gr_blocking r = Some True) r
      else if \<not> gr_consistency_valid r
      then decided (if truthy_str (gr_reason r) then InReview else Rejected) (gr_reason r) (gr_blocking r \<noteq> Some False) r
      else if \<exists>m \<in> set trusted_methods. gr_relation_method r = Some m then decided Accepted None False r
      else if gs_auto gs \<le> gr_confidence r then decided Accepted None False r
      else if gs_review gs \<le> gr_confidence r then decided InReview (or_low_confidence (gr_reason r)) False r
      else decided Rejected (or_low_confidence (gr_reason r)) False r)"

text \<open>The record that the extraction of a relation builds from the three checks.\<close>

record extracted_relation =
  ex_type :: str
  ex_head :: str
  ex_tail :: str
  ex_head_type :: "str option"
  ex_tail_type :: "str option"
  ex_props :: props
  ex_evidence :: str
  ex_method :: "str option"

definition relation_record :: "extracted_relation \<Rightarrow> str \<Rightarrow> str list \<Rightarrow> bool \<Rightarrow> bool \<Rightarrow> gate_record" where
  "relation_record x article known schema_valid ontology_valid =
     (let c = validate_record_relation (ex_type x) (ex_head x) (ex_tail x) (ex_props x) known ontology_valid
                (ex_head_type x) (ex_tail_type x) in
      \<lparr>gr_superseded = False, gr_schema_valid = schema_valid, gr_ontology_valid = ontology_valid,
       gr_consistency_valid = rc_valid c, gr_source_method = None, gr_relation_method = ex_method x,
       gr_reason = rc_reason c, gr_blocking = Some (rc_blocking c),
       gr_confidence = confidence_total (score_relation schema_valid ontology_valid (ex_evidence x) article (ex_head x) (ex_tail x) known),
       gr_provider_bundle = None, gr_reference_bundle = None, gr_decision = None\<rparr>)"

subsection \<open>Atomic bundles\<close>

definition bundle_of :: "gate_record \<Rightarrow> str option" where
  "bundle_of r =
     (if gr_relation_method r = Some ''PROVIDER_HTML'' then (if truthy_str (gr_provider_bundle r) then gr_provider_bundle r else None)
      else if gr_relation_method r \<in> {Some ''RULE'', Some ''ENTITY_LINKING''}
      then (if truthy_str (gr_reference_bundle r) then gr_reference_bundle r else None) else None)"

definition bundle_members :: "str \<Rightarrow> gate_record list \<Rightarrow> gate_record list" where
  "bundle_members i records = filter (\<lambda>r. bundle_of r = Some i) records"

text \<open>A record is in one bundle at most, so the bundles may be settled in any order.\<close>

definition settle_bundle :: "gate_record list \<Rightarrow> gate_record \<Rightarrow> gate_record" where
  "settle_bundle records r =
     (case bundle_of r of
        None \<Rightarrow> r
      | Some i \<Rightarrow>
          let rs = bundle_members i records in
          if list_all (\<lambda>x. gr_decision x = Some Accepted) rs then r
          else decided (if list_ex (\<lambda>x. gr_decision x = Some Rejected) rs then Rejected else InReview)
                 (Some ''atomic_reference_bundle_validation_failed'') True r)"

definition apply_atomic_bundle_decisions :: "gate_record list \<Rightarrow> gate_record list" where
  "apply_atomic_bundle_decisions records = map (settle_bundle records) records"

end
