(* ===== verification/Gate_Properties.thy ===== *)
theory Gate_Properties
  imports Record_Gate
begin

text \<open>
  Properties of the decision gate: what its thresholds make of a relation that passed the other checks, and that the
  relations of a bundle share one decision.
\<close>

subsection \<open>Confidence\<close>

text \<open>The total of a relation that passed every check, by the score of its evidence.\<close>

definition checked_total :: "float \<Rightarrow> float" where
  "checked_total e =
     confidence_total \<lparr>cb_schema = 1, cb_ontology = 1, cb_evidence = e, cb_resolvable = 1, cb_direction = 1\<rparr>"

lemma weight_evidence_nonneg: "0 \<le> weight_evidence"
  by (simp add: weight_evidence_def fl_pos_gt less_imp_le)

lemma fadd_mono: "a \<le> c \<Longrightarrow> b \<le> d \<Longrightarrow> fadd a b \<le> fadd c d"
  by (simp add: fadd_def fl_mono add_mono)

lemma checked_total_mono: "e \<le> e' \<Longrightarrow> checked_total e \<le> checked_total e'"
  unfolding checked_total_def confidence_total_def
  by (simp add: fadd_mono fmul_def fl_mono mult_right_mono weight_evidence_nonneg)

lemma fl_one: "fl 1 = 1"
  by code_simp

lemma least_evidence_accepted: "gs_auto default_gate \<le> checked_total (fl (1 / 1000000000))"
  by code_simp

lemma no_evidence_reviewed:
  "checked_total 0 < gs_auto default_gate" "gs_review default_gate \<le> checked_total 0"
  by code_simp+

lemma evidence_score_positive:
  assumes "score_evidence_presence evidence article \<noteq> 0" and "length (evidence_tokens evidence) \<le> 1000000000"
  shows "fl (1 / 1000000000) \<le> score_evidence_presence evidence article"
proof -
  let ?ts = "evidence_tokens evidence"
  let ?hits = "filter (\<lambda>t. t \<in> set (py_split article)) ?ts"
  consider "score_evidence_presence evidence article = 1"
    | "?ts \<noteq> []" "score_evidence_presence evidence article = fl (of_nat (length ?hits) / of_nat (length ?ts))"
    using assms(1) by (auto simp: score_evidence_presence_def Let_def fdiv_def split: if_splits)
  then show ?thesis
  proof cases
    case 1
    have "fl (1 / 1000000000) \<le> fl 1" by (rule fl_mono) simp
    with 1 fl_one show ?thesis by simp
  next
    case 2
    with assms(1) have "?hits \<noteq> []" by auto
    then have "length ?hits \<noteq> 0" by (simp only: length_0_conv not_False_eq_True)
    then have hits: "1 \<le> length ?hits" by linarith
    have n: "0 < length ?ts" using 2(1) by simp
    have "(1::rat) / 1000000000 \<le> 1 / of_nat (length ?ts)"
      using n assms(2) by (intro divide_left_mono) (simp_all flip: of_nat_le_iff)
    also have "\<dots> \<le> of_nat (length ?hits) / of_nat (length ?ts)"
      using hits by (intro divide_right_mono) (simp_all only: of_nat_0_le_iff one_of_nat_le_iff)
    finally show ?thesis using 2(2) by (simp add: fl_mono)
  qed
qed

lemma valid_record_known:
  "rc_valid (validate_record_relation rel h t p known ontology_valid ht tt) \<Longrightarrow> h \<in> set known \<and> t \<in> set known"
  by (auto simp: validate_record_relation_def hard_fault_def blocking_fault_def Let_def split: if_splits)

lemma resolvable_known: "h \<in> set known \<Longrightarrow> t \<in> set known \<Longrightarrow> score_entities_resolvable [h, t] known = 1"
  by (simp add: score_entities_resolvable_def fdiv_def fl_one)

text \<open>
  C14: The confidence of a relation that passed the other checks is never below the threshold of rejection, and one word
  of its evidence that occurs anywhere in the article lifts it to the threshold of acceptance: with the default settings
  such a relation is accepted unless none of its words occurs, and then it is reviewed.
\<close>

theorem gate_accepts_any_evidence:
  assumes "rc_valid (validate_record_relation (ex_type x) (ex_head x) (ex_tail x) (ex_props x) known True
      (ex_head_type x) (ex_tail_type x))"
    and "list_all (\<lambda>m. ex_method x \<noteq> Some m) trusted_methods"
    and "length (evidence_tokens (ex_evidence x)) \<le> 1000000000"
  shows "gr_decision (apply_decision_gate default_gate (relation_record x article known True True)) =
    Some (if score_evidence_presence (ex_evidence x) article = 0 then InReview else Accepted)"
proof -
  let ?e = "score_evidence_presence (ex_evidence x) article"
  have total: "confidence_total (score_relation True True (ex_evidence x) article (ex_head x) (ex_tail x) known) = checked_total ?e"
    using valid_record_known [OF assms(1)] by (simp add: score_relation_def checked_total_def resolvable_known)
  have gate: "gr_decision (apply_decision_gate default_gate (relation_record x article known True True)) =
    Some (if gs_auto default_gate \<le> checked_total ?e then Accepted
          else if gs_review default_gate \<le> checked_total ?e then InReview else Rejected)"
    using assms(1,2) by (auto simp: apply_decision_gate_def relation_record_def Let_def total decided_def list_all_iff)
  show ?thesis
  proof (cases "?e = 0")
    case True
    with gate no_evidence_reviewed show ?thesis by simp
  next
    case False
    have "gs_auto default_gate \<le> checked_total ?e"
      using least_evidence_accepted checked_total_mono [OF evidence_score_positive [OF False assms(3)]] by (rule order_trans)
    with gate False show ?thesis by simp
  qed
qed

definition sample_relation :: extracted_relation where
  "sample_relation =
     \<lparr>ex_type = ''DEFINES'', ex_head = ''d_art1'', ex_tail = ''capital'', ex_head_type = Some ''Article'',
      ex_tail_type = Some ''LegalConcept'', ex_props = [], ex_evidence = ''not what it was once said to be by the'',
      ex_method = Some ''LLM''\<rparr>"

theorem gate_accepts_any_evidence_witness:
  "gr_decision (apply_decision_gate default_gate (relation_record sample_relation ''the end'' [''d_art1'', ''capital''] True True)) =
    Some (if score_evidence_presence (ex_evidence sample_relation) ''the end'' = 0 then InReview else Accepted)
   \<and> score_evidence_presence (ex_evidence sample_relation) ''the end'' \<noteq> 0"
proof (rule conjI, rule gate_accepts_any_evidence)
  have "length (evidence_tokens (ex_evidence sample_relation)) = 10" by code_simp
  then show "length (evidence_tokens (ex_evidence sample_relation)) \<le> 1000000000" by simp
qed code_simp+

subsection \<open>Bundles\<close>

lemma bundle_of_decided [simp]: "bundle_of (decided d reason blocking r) = bundle_of r"
  by (simp add: bundle_of_def decided_def)

lemma bundle_of_settled [simp]: "bundle_of (settle_bundle records r) = bundle_of r"
  by (simp add: settle_bundle_def Let_def split: option.splits)

lemma bundle_members_settled:
  "bundle_members i (apply_atomic_bundle_decisions records) = map (settle_bundle records) (bundle_members i records)"
  by (simp add: bundle_members_def apply_atomic_bundle_decisions_def filter_map o_def)

text \<open>
  C13: After the atomic decisions all records of a bundle have the same decision, which is acceptance exactly if every
  one of them had been accepted; records without a bundle are unchanged.
\<close>

theorem bundles_atomic:
  "let before = bundle_members i records; out = bundle_members i (apply_atomic_bundle_decisions records) in
     (if list_all (\<lambda>r. gr_decision r = Some Accepted) before then out = before
      else \<exists>d. d \<noteq> Accepted \<and> list_all (\<lambda>r. gr_decision r = Some d) out)
     \<and> filter (\<lambda>r. bundle_of r = None) (apply_atomic_bundle_decisions records) = filter (\<lambda>r. bundle_of r = None) records"
proof -
  let ?ms = "bundle_members i records"
  have mem: "r \<in> set ?ms \<Longrightarrow> bundle_of r = Some i" for r by (simp add: bundle_members_def)
  have same: "map (settle_bundle records) ?ms = ?ms" if "list_all (\<lambda>r. gr_decision r = Some Accepted) ?ms"
    using that mem by (intro map_idI) (simp add: settle_bundle_def Let_def)
  have all: "\<exists>d. d \<noteq> Accepted \<and> list_all (\<lambda>r. gr_decision r = Some d) (map (settle_bundle records) ?ms)"
    if "\<not> list_all (\<lambda>r. gr_decision r = Some Accepted) ?ms"
  proof (intro exI conjI)
    let ?d = "if list_ex (\<lambda>x. gr_decision x = Some Rejected) ?ms then Rejected else InReview"
    show "?d \<noteq> Accepted" by simp
    have "settle_bundle records r = decided ?d (Some ''atomic_reference_bundle_validation_failed'') True r" if "r \<in> set ?ms" for r
      using mem [OF that] \<open>\<not> list_all (\<lambda>r. gr_decision r = Some Accepted) ?ms\<close> by (simp add: settle_bundle_def Let_def)
    then show "list_all (\<lambda>r. gr_decision r = Some ?d) (map (settle_bundle records) ?ms)"
      by (simp add: list_all_iff decided_def)
  qed
  have alone: "filter (\<lambda>r. bundle_of r = None) (apply_atomic_bundle_decisions records) = filter (\<lambda>r. bundle_of r = None) records"
    by (simp add: apply_atomic_bundle_decisions_def filter_map o_def) (rule map_idI, simp add: settle_bundle_def)
  show ?thesis using same all alone by (simp add: bundle_members_settled Let_def)
qed

end
