(* ===== verification/Spec2Isabelle.thy ===== *)
theory Spec2Isabelle
  imports Ontology_Properties Graph_Path_Properties Plan_Properties Linker_Properties Ranking_Properties
    Runtime_Properties Answer_Properties Conversation_Properties Routing_Properties Document_Properties Payload_Example Gate_Properties
begin

text \<open>
  A verification development for the legal GraphRAG platform.

  The program answers questions about Vietnamese law from a graph of documents, articles, clauses and semantic
  nodes. A pipeline parses the texts of the law and extracts the graph; the ontology validators are the gate through
  which it enters the database; the retrieval runtime routes a question, searches, expands the graph, executes a
  query plan, ranks, filters by validity date and builds the context; the generation compacts the context, asks a
  language model and checks its answer against the evidence; the chat service resolves the references of a message
  to the history of its conversation, calls retrieval and generation, and stores the turn. The components are
  modelled bottom up, each in its own theories, and the functions of one are called by the next as in the code.

  \<^bold>\<open>Shared theories.\<close> \<open>Prelude\<close> (errors as sums with \<open>rbind\<close> and \<open>rmapm\<close>, Python dictionaries, truthiness, sorting
  by key, strings as UTF-8 bytes, and the locale \<open>keyed_ranking\<close> of which all ranking functions are
  interpretations), \<open>Py_Text\<close> and \<open>Json_Text\<close> (operations of \<open>str\<close>, \<open>json.dumps\<close>), \<open>Calendar\<close> (dates as ordinals),
  \<open>Doubles\<close> (floats as rounded rationals; the locale \<open>rounding\<close> states what the ranking uses of them and \<open>fl\<close>
  provides it), \<open>Py_Regex\<close> and \<open>Regex_Alphabet\<close> (the backtracking semantics of \<open>re\<close>).

  \<^bold>\<open>Ontology\<close> (\<open>src/shared/ontology\<close>): \<open>Ontology_Contract\<close> the tables, \<open>Ontology_Validators\<close> the write gate and the
  extraction gate, \<open>Structural_Numbers\<close> the numbers and identifiers of structural units. \<open>Ontology_Properties\<close>:
  a validated payload has distinct nodes, existing endpoints, whitelisted pairs and an acyclic hierarchy of bounded
  depth; the write gate refines the extraction gate; the locale \<open>unique_batch\<close> covers the four batch validators.

  \<^bold>\<open>Parser\<close> (\<open>src/pipeline/parser\<close>): \<open>Heading_Patterns\<close> (\<open>patterns.py\<close>), \<open>Parsed_Document\<close> (\<open>models.py\<close> with the validator of
  a document), \<open>Source_Lines\<close> (canonical text, line records, the repair of spacing, quoted blocks), \<open>Hierarchy_Machine\<close>
  (\<open>_parse_hierarchy\<close>: the variables of the loop are the record \<open>machine_state\<close>, one handler for each branch of its body),
  \<open>Source_Partition\<close> (body, appendices, attached instruments, table of contents, effective date, the strict and the
  permissive parse). \<open>Source_Facts\<close>, \<open>Hierarchy_Facts\<close> and \<open>Hierarchy_Invariants\<close> prove what the properties rest on: the
  locale \<open>line_invariant\<close> lists what an invariant must survive, one law for each handler, and its lemma carries the
  invariant through all lines; it is interpreted for the labels of points, the titles of articles, the spans in the
  source and the parents of articles. \<open>Parser_Properties\<close> and \<open>Document_Properties\<close> state the properties: no line is lost,
  spans are ordered and within the text, articles and units agree, the permissive parse is total but for an unclear
  effective date.

  \<^bold>\<open>Payloads\<close>: \<open>Graph_Payload\<close> (\<open>src/pipeline/persistence/payload_builder.py\<close>: the dictionaries of nodes and relations are a
  record \<open>build_state\<close> that each unit of the document extends) and \<open>Payload_Consistency\<close>
  (\<open>src/shared/ontology/payload_consistency_validator.py\<close>). \<open>Payload_Properties\<close>: the builder keeps the invariant \<open>build_ok\<close>
  (distinct nodes, sound identities, existing ends, every node reached from the document), so the check can only object
  to the shape of the hierarchy; a payload that passes is a forest. \<open>Payload_Example\<close> shows two chapters being merged.
  \<open>Record_Gate\<close> is the decision about an extracted relation before it may reach a payload
  (\<open>record_consistency_validator.py\<close>, \<open>confidence_scorer.py\<close>, the gate of \<open>orchestrator.py\<close>), with \<open>Gate_Properties\<close>.

  \<^bold>\<open>Retrieval\<close> (\<open>src/retrieval\<close>, \<open>src/shared/retrieval_contract.py\<close>): \<open>Retrieval_Model\<close>, \<open>Retrieval_Units\<close> and
  \<open>Retrieval_Context\<close> the data, \<open>Query_Routing\<close> the router and the temporal parser, \<open>Planning\<close> and \<open>Plan_Execution\<close> query plans,
  \<open>Graph_Paths\<close> the expansion of the graph, \<open>Linker_Mentions\<close> and \<open>Linker\<close> the binding of mentions, \<open>Ranking\<close> the seed
  channels, rank fusion, the temporal filter and the rerankers, \<open>Runtime\<close> the pipeline with its checks and early exits.
  The theories \<open>Routing_Properties\<close>, \<open>Plan_Properties\<close>, \<open>Graph_Path_Properties\<close>, \<open>Linker_Properties\<close>, \<open>Ranking_Properties\<close> and
  \<open>Runtime_Properties\<close> show: an accepted routing is consistent; a satisfied plan carries one valid path that matches it;
  paths are walks in force; bindings are unique; fusion and filter compute exactly their specification; the runtime
  fails closed and its result is bounded.

  \<^bold>\<open>Generation\<close> (\<open>src/generation\<close>): \<open>Generation_Model\<close> the data, \<open>Evidence_Gate\<close> sufficiency and the validation of evidence,
  \<open>Evidence_Compaction\<close>, \<open>Context_Projection\<close>, \<open>Grounding\<close> and \<open>Answer_Service\<close> the steps of an answer.
  \<open>Generation_Properties\<close>, \<open>Answer_Properties\<close> and \<open>Comparison_Properties\<close>: an answer cites retrieved evidence only, the budget
  is kept, no content is lost in compaction, the model is asked at most twice.

  \<^bold>\<open>Conversation\<close> (\<open>apps/backend\<close>): \<open>Reference_Parsing\<close> and \<open>Reference_Resolution\<close> (\<open>resolution\<close>), \<open>Chat_Snapshot\<close>, \<open>Backend_Errors\<close>,
  \<open>Conversation_Store\<close> (\<open>persistence/repository.py\<close>: a transaction is a function from the six tables to the six tables
  or the error that rolls it back), \<open>Chat_Service\<close> (a turn) and \<open>Conversation_Machine\<close> (requests of many clients,
  interleaved at their transactions, with crashes, as an inductive step relation). \<open>Conversation_Invariants\<close>,
  \<open>Conversation_Numbers\<close> and \<open>Conversation_Runs\<close> hold the invariants of reachable states and example runs,
  \<open>Conversation_Properties\<close> the properties: replays agree, the lock excludes, tables are consistent, waits end.

  \<^bold>\<open>Parameters.\<close> What is not in the repository, or needs tables of Unicode, is an argument of the definitions: the records
  \<open>script\<close>, \<open>language\<close> and \<open>unicode\<close> (lower and upper case, white space, digits and word characters beyond ASCII, normal
  forms, the slug, SHA-256), the language models, embeddings, search ports, lookups of the database, the hashes of plans
  and paths, generated identifiers and the clock. Nothing is assumed of them but the named hypotheses of a property;
  every property with a hypothesis is applied to a concrete input.

  \<^bold>\<open>Bounds.\<close> Loops are structural recursions or recursions over a list that is given. The three spacing loops of the
  parser go on while a round shortens the text, and a property shows that a round that does not changes nothing;
  repetition in
  \<open>Py_Regex\<close> is bounded by the length of the rest of the text, since an empty iteration adds no match; the wait for the
  lock is a partial function that returns exactly when a poll ends it.

  \<^bold>\<open>Not modelled.\<close> Cypher statements and client libraries of the database, embeddings and models (input and output);
  HTTP routes, accounts, wiring, logging and traces; the read-only document browser; the crawlers and superseded
  experiments; the extraction of semantic relations by language models with its caches and resume logic, the
  orchestration of the pipeline over files and network, evaluation harnesses and reports. Latencies in metrics
  and the wording of messages are left out everywhere; a message is the constructor of an error value.
\<close>

end
